(* ===== verification/Prelude.thy ===== *)
theory Prelude
  imports Main "HOL-Library.List_Lexorder" "HOL-Library.Char_ord"
begin

text \<open>
  Shared vocabulary of the development: the types that stand for Python's built-in values,
  the result type that carries raised exceptions, and generic lemmas on lists.

  A Python \<open>str\<close> is a \<^typ>\<open>string\<close>, its UTF-8 bytes. Equality, concatenation and emptiness
  agree with the code-point sequence, and so does the order: the bytewise lexicographic order
  of UTF-8 is the code-point order Python compares strings by. A tuple is a list, a frozen
  model is a record, \<open>None\<close> is the \<^typ>\<open>'a option\<close> value, an exception is the left summand of
  a sum.
\<close>

named_theorems result_simps \<open>unfolding of the result combinators\<close>

type_synonym ('e, 'a) result = "'e + 'a"

section \<open>Results\<close>

definition rbind :: "('e, 'a) result \<Rightarrow> ('a \<Rightarrow> ('e, 'b) result) \<Rightarrow> ('e, 'b) result" where
  "rbind m f = (case m of Inl e \<Rightarrow> Inl e | Inr x \<Rightarrow> f x)"

definition require :: "bool \<Rightarrow> 'e \<Rightarrow> ('e, unit) result" where
  "require b e = (if b then Inr () else Inl e)"

fun rfold :: "('a \<Rightarrow> 's \<Rightarrow> ('e, 's) result) \<Rightarrow> 'a list \<Rightarrow> 's \<Rightarrow> ('e, 's) result" where
  "rfold f [] s = Inr s"
| "rfold f (x # xs) s = rbind (f x s) (rfold f xs)"

lemma rbind_Inl [simp]: "rbind (Inl e) f = Inl e"
  by (simp add: rbind_def)

lemma rbind_Inr [simp]: "rbind (Inr x) f = f x"
  by (simp add: rbind_def)

lemma rbind_eq_Inr [result_simps]: "rbind m f = Inr y \<longleftrightarrow> (\<exists>x. m = Inr x \<and> f x = Inr y)"
  by (cases m) auto

lemma rbind_eq_Inl [result_simps]:
  "rbind m f = Inl e \<longleftrightarrow> m = Inl e \<or> (\<exists>x. m = Inr x \<and> f x = Inl e)"
  by (cases m) auto

lemma require_eq_Inr [simp]: "require b e = Inr u \<longleftrightarrow> b"
  by (simp add: require_def)

lemma require_eq_Inl [simp]: "require b e = Inl e' \<longleftrightarrow> \<not> b \<and> e' = e"
  by (auto simp: require_def)

lemma require_True [simp]: "require True e = Inr ()"
  by (simp add: require_def)

lemma require_False [simp]: "require False e = Inl e"
  by (simp add: require_def)

lemma if_Inl_eq_Inr [result_simps]: "(if b then Inl e else m) = Inr x \<longleftrightarrow> \<not> b \<and> m = Inr x"
  by simp

lemma rfold_invariant:
  assumes "rfold f xs s = Inr t" and "P s"
    and "\<And>x s s'. x \<in> set xs \<Longrightarrow> P s \<Longrightarrow> f x s = Inr s' \<Longrightarrow> P s'"
  shows "P t"
  using assms
proof (induction xs arbitrary: s)
  case Nil
  then show ?case by simp
next
  case (Cons x xs)
  from Cons.prems(1) obtain s' where s': "f x s = Inr s'" and rest: "rfold f xs s' = Inr t"
    by (auto simp: rbind_eq_Inr)
  have "P s'"
    using Cons.prems(2,3) s' by auto
  with rest show ?case
    using Cons.IH Cons.prems(3) by auto
qed

lemma rfold_append: "rfold f (xs @ ys) s = rbind (rfold f xs s) (rfold f ys)"
  by (induction xs arbitrary: s) (simp_all add: rbind_def split: sum.splits)

section \<open>Lists as tuples, sets and dictionaries\<close>

text \<open>\<open>tuple(sorted(set(xs)))\<close>.\<close>

definition sorted_set :: "'a::linorder list \<Rightarrow> 'a list" where
  "sorted_set xs = sort (remdups xs)"

lemma set_sorted_set [simp]: "set (sorted_set xs) = set xs"
  by (simp add: sorted_set_def)

lemma sorted_sorted_set [simp]: "sorted (sorted_set xs)"
  by (simp add: sorted_set_def)

lemma distinct_sorted_set [simp]: "distinct (sorted_set xs)"
  by (simp add: sorted_set_def)

lemma sorted_set_eq_iff: "sorted_set xs = xs \<longleftrightarrow> sorted xs \<and> distinct xs"
proof
  assume eq: "sorted_set xs = xs"
  show "sorted xs \<and> distinct xs"
    using sorted_sorted_set [of xs] distinct_sorted_set [of xs] by (simp add: eq)
next
  assume "sorted xs \<and> distinct xs"
  then show "sorted_set xs = xs"
    by (simp add: sorted_set_def distinct_remdups_id sorted_sort_id)
qed

lemma sorted_set_cong: "set xs = set ys \<Longrightarrow> sorted_set xs = sorted_set ys"
  by (metis distinct_sorted_set set_sorted_set sorted_distinct_set_unique sorted_sorted_set)

lemma sorted_set_Nil [simp]: "sorted_set [] = []"
  by (simp add: sorted_set_def)

lemma sorted_set_eq_Nil [simp]: "sorted_set xs = [] \<longleftrightarrow> xs = []"
  by (metis set_empty set_sorted_set)

text \<open>\<open>len(set(xs)) != len(xs)\<close> is how the code asks for duplicates.\<close>

lemma card_set_eq_length: "card (set xs) = length xs \<longleftrightarrow> distinct xs"
  by (metis card_distinct distinct_card)

text \<open>\<open>next((x for x in xs if p(x)), None)\<close> is \<^const>\<open>find\<close>.\<close>

lemma find_Some_set: "find p xs = Some x \<Longrightarrow> x \<in> set xs \<and> p x"
  by (auto simp: find_Some_iff)

lemma find_None_set: "find p xs = None \<longleftrightarrow> (\<forall>x \<in> set xs. \<not> p x)"
  by (auto simp: find_None_iff)

lemma find_append_Some: "find p xs = Some x \<Longrightarrow> find p (xs @ ys) = Some x"
  by (induction xs) (auto split: if_splits)

text \<open>The positions of a retained lineage: \<open>tuple(c.ordinal for c in cs) == tuple(range(len(cs)))\<close>.\<close>

lemma map_upt_snoc:
  "map f (xs @ [x]) = [0..<length (xs @ [x])] \<longleftrightarrow> map f xs = [0..<length xs] \<and> f x = length xs"
  by auto

lemma butlast_snoc_last: "xs \<noteq> [] \<Longrightarrow> butlast xs @ [last xs] = xs"
  by simp

end
