(* ===== verification/Sha256.thy ===== *)
theory Sha256
  imports "HOL-Library.Word" Prelude
begin

text \<open>
  \<open>hashlib.sha256(data).hexdigest()\<close> and \<open>bytes.hex()\<close>: the digest every component uses to
  bind content to an identity. The function is the FIPS 180-4 algorithm on \<^typ>\<open>32 word\<close>; no
  theorem below assumes that it has no collisions.
\<close>

unbundle bit_operations_syntax

type_synonym bytes = "8 word list"

section \<open>Message preparation\<close>

definition be_bytes :: "nat \<Rightarrow> nat \<Rightarrow> bytes" where
  "be_bytes k n = map (\<lambda>i. word_of_nat (n div 256 ^ i mod 256)) (rev [0..<k])"

definition sha256_pad :: "bytes \<Rightarrow> bytes" where
  "sha256_pad m = m @ [128] @ replicate ((119 - length m mod 64) mod 64) 0
     @ be_bytes 8 (8 * length m)"

fun be_words :: "bytes \<Rightarrow> 32 word list" where
  "be_words (a # b # c # d # rest) =
     (push_bit 24 (ucast a) OR push_bit 16 (ucast b) OR push_bit 8 (ucast c) OR ucast d)
       # be_words rest"
| "be_words _ = []"

fun blocks :: "nat \<Rightarrow> 32 word list \<Rightarrow> 32 word list list" where
  "blocks 0 ws = []"
| "blocks (Suc n) ws = take 16 ws # blocks n (drop 16 ws)"

section \<open>Compression\<close>

definition rotr :: "nat \<Rightarrow> 32 word \<Rightarrow> 32 word" where
  "rotr n x = drop_bit n x OR push_bit (32 - n) x"

definition small_sigma0 :: "32 word \<Rightarrow> 32 word" where
  "small_sigma0 x = rotr 7 x XOR rotr 18 x XOR drop_bit 3 x"

definition small_sigma1 :: "32 word \<Rightarrow> 32 word" where
  "small_sigma1 x = rotr 17 x XOR rotr 19 x XOR drop_bit 10 x"

definition big_sigma0 :: "32 word \<Rightarrow> 32 word" where
  "big_sigma0 x = rotr 2 x XOR rotr 13 x XOR rotr 22 x"

definition big_sigma1 :: "32 word \<Rightarrow> 32 word" where
  "big_sigma1 x = rotr 6 x XOR rotr 11 x XOR rotr 25 x"

definition sha_ch :: "32 word \<Rightarrow> 32 word \<Rightarrow> 32 word \<Rightarrow> 32 word" where
  "sha_ch x y z = (x AND y) XOR (NOT x AND z)"

definition sha_maj :: "32 word \<Rightarrow> 32 word \<Rightarrow> 32 word \<Rightarrow> 32 word" where
  "sha_maj x y z = (x AND y) XOR (x AND z) XOR (y AND z)"

definition sha256_k :: "32 word list" where
  "sha256_k =
    [1116352408, 1899447441, 3049323471, 3921009573, 961987163, 1508970993,
      2453635748, 2870763221, 3624381080, 310598401, 607225278, 1426881987,
      1925078388, 2162078206, 2614888103, 3248222580, 3835390401, 4022224774,
      264347078, 604807628, 770255983, 1249150122, 1555081692, 1996064986,
      2554220882, 2821834349, 2952996808, 3210313671, 3336571891, 3584528711,
      113926993, 338241895, 666307205, 773529912, 1294757372, 1396182291,
      1695183700, 1986661051, 2177026350, 2456956037, 2730485921, 2820302411,
      3259730800, 3345764771, 3516065817, 3600352804, 4094571909, 275423344,
      430227734, 506948616, 659060556, 883997877, 958139571, 1322822218,
      1537002063, 1747873779, 1955562222, 2024104815, 2227730452, 2361852424,
      2428436474, 2756734187, 3204031479, 3329325298]"

definition sha256_h0 :: "32 word list" where
  "sha256_h0 = [1779033703, 3144134277, 1013904242, 2773480762, 1359893119, 2600822924,
      528734635, 1541459225]"

text \<open>
  The message schedule keeps a window of the last sixteen words (oldest first) and yields one
  word per round.
\<close>

fun schedule :: "nat \<Rightarrow> 32 word list \<Rightarrow> 32 word list" where
  "schedule 0 w = []"
| "schedule (Suc n) w =
     hd w # schedule n (tl w @ [small_sigma1 (w ! 14) + w ! 9 + small_sigma0 (w ! 1) + hd w])"

fun sha_round :: "32 word \<times> 32 word \<Rightarrow> 32 word list \<Rightarrow> 32 word list" where
  "sha_round (k, w) [a, b, c, d, e, f, g, h] =
     (let t1 = h + big_sigma1 e + sha_ch e f g + k + w;
          t2 = big_sigma0 a + sha_maj a b c
      in [t1 + t2, a, b, c, d + t1, e, f, g])"
| "sha_round kw s = s"

definition sha_block :: "32 word list \<Rightarrow> 32 word list \<Rightarrow> 32 word list" where
  "sha_block blk h = map2 (+) h (fold sha_round (zip sha256_k (schedule 64 blk)) h)"

definition sha256 :: "bytes \<Rightarrow> bytes" where
  "sha256 m =
     (let p = sha256_pad m
      in concat (map (\<lambda>w. be_bytes 4 (unat w))
           (fold sha_block (blocks (length p div 64) (be_words p)) sha256_h0)))"

section \<open>Hexadecimal text\<close>

definition hex_digit :: "nat \<Rightarrow> char" where
  "hex_digit n = (if n < 10 then char_of (48 + n) else char_of (87 + n))"

definition bytes_hex :: "bytes \<Rightarrow> string" where
  "bytes_hex bs = concat (map (\<lambda>b. [hex_digit (unat b div 16), hex_digit (unat b mod 16)]) bs)"

definition sha256_hex :: "bytes \<Rightarrow> string" where
  "sha256_hex m = bytes_hex (sha256 m)"

section \<open>Facts\<close>

text \<open>A padded message is a whole number of 64-byte blocks, so \<^const>\<open>blocks\<close> drops nothing.\<close>

lemma length_be_bytes [simp]: "length (be_bytes k n) = k"
  by (simp add: be_bytes_def)

lemma sha256_pad_length: "length (sha256_pad m) mod 64 = 0"
proof -
  have "length (sha256_pad m) = length m + 9 + (119 - length m mod 64) mod 64"
    by (simp add: sha256_pad_def)
  also have "\<dots> mod 64 = 0"
  proof -
    define r where "r = length m mod 64"
    have r: "r < 64"
      by (simp add: r_def)
    have "(length m + (9 + (119 - r) mod 64)) mod 64 = (r + (9 + (119 - r) mod 64)) mod 64"
      unfolding r_def by (rule mod_add_left_eq [symmetric])
    also have "\<dots> = 0"
    proof (cases "r < 56")
      case True
      then have "119 - r = (55 - r) + 64" by simp
      then have "(119 - r) mod 64 = 55 - r"
        using True by (simp only: mod_add_self2) simp
      with True show ?thesis by simp
    next
      case False
      with r show ?thesis by simp
    qed
    finally show ?thesis by (simp add: r_def add.assoc)
  qed
  finally show ?thesis .
qed

lemma length_sha_round: "length s = 8 \<Longrightarrow> length (sha_round kw s) = 8"
  by (cases kw; induction kw s rule: sha_round.induct) (auto simp: Let_def)

lemma length_fold_sha_round: "length s = 8 \<Longrightarrow> length (fold sha_round kws s) = 8"
  by (induction kws arbitrary: s) (auto simp: length_sha_round)

lemma length_sha_block: "length h = 8 \<Longrightarrow> length (sha_block blk h) = 8"
  by (simp add: sha_block_def length_fold_sha_round)

lemma length_fold_sha_block: "length h = 8 \<Longrightarrow> length (fold sha_block bs h) = 8"
  by (induction bs arbitrary: h) (auto simp: length_sha_block)

lemma length_concat_const: "(\<And>x. x \<in> set xs \<Longrightarrow> length (f x) = k) \<Longrightarrow>
    length (concat (map f xs)) = k * length xs"
  by (induction xs) auto

lemma length_sha256 [simp]: "length (sha256 m) = 32"
  by (simp add: sha256_def Let_def length_concat_const [where k = 4] length_fold_sha_block
      sha256_h0_def)

lemma length_sha256_hex [simp]: "length (sha256_hex m) = 64"
  by (simp add: sha256_hex_def bytes_hex_def length_concat_const [where k = 2])

lemma sha256_hex_nonempty [simp]: "sha256_hex m \<noteq> []"
  using length_sha256_hex [of m] by (metis list.size(3) zero_neq_numeral)

text \<open>\<open>bytes.hex()\<close> loses nothing.\<close>

lemma hex_digit_inj: "m < 16 \<Longrightarrow> n < 16 \<Longrightarrow> hex_digit m = hex_digit n \<Longrightarrow> m = n"
proof -
  assume "m < 16" "n < 16" and eq: "hex_digit m = hex_digit n"
  then have "(of_char (hex_digit m) :: nat) = of_char (hex_digit n)" by simp
  with \<open>m < 16\<close> \<open>n < 16\<close> show ?thesis
    by (auto simp: hex_digit_def of_char_of split: if_splits)
qed

lemma bytes_hex_inj: "bytes_hex a = bytes_hex b \<Longrightarrow> a = b"
proof (induction a arbitrary: b)
  case Nil
  then show ?case by (cases b) (auto simp: bytes_hex_def)
next
  case (Cons x a)
  then obtain y b' where b: "b = y # b'"
    by (cases b) (auto simp: bytes_hex_def)
  have lt: "unat z < 256" for z :: "8 word"
    using unsigned_less [of z] by simp
  have "unat x div 16 = unat y div 16" and "unat x mod 16 = unat y mod 16"
    using Cons.prems b lt [of x] lt [of y]
    by (auto simp: bytes_hex_def intro!: hex_digit_inj)
  then have "unat x = unat y"
    by (metis div_mult_mod_eq)
  then have "x = y" by (simp add: unsigned_word_eqI)
  moreover have "a = b'"
    using Cons.prems b by (auto simp: bytes_hex_def intro: Cons.IH)
  ultimately show ?case using b by simp
qed

end
