(* ===== verification/Py_Json.thy ===== *)
theory Py_Json
  imports Sha256
begin

text \<open>
  \<open>json.dumps(value, sort_keys=True, separators=(",", ":"), ensure_ascii=...)\<close>, the encoding
  under every content digest of the program. The value is a \<open>json\<close> tree; a dictionary is an
  association list whose order is irrelevant, because the encoder sorts the keys. The main
  result is that the encoding loses nothing: equal bytes come from equal trees, up to the order
  of dictionary entries.
\<close>

datatype json =
    JNull
  | JBool bool
  | JInt int
  | JStr string
  | JArr "json list"
  | JObj "(string \<times> json) list"

section \<open>The encoder\<close>

definition digit_char :: "nat \<Rightarrow> char" where
  "digit_char n = char_of (48 + n)"

fun nat_str :: "nat \<Rightarrow> string" where
  "nat_str n = (if n < 10 then [digit_char n] else nat_str (n div 10) @ [digit_char (n mod 10)])"

declare nat_str.simps [simp del]

definition int_str :: "int \<Rightarrow> string" where
  "int_str i = (if i < 0 then CHR ''-'' # nat_str (nat (- i)) else nat_str (nat i))"

definition hex4 :: "nat \<Rightarrow> string" where
  "hex4 n = [hex_digit (n div 4096 mod 16), hex_digit (n div 256 mod 16),
             hex_digit (n div 16 mod 16), hex_digit (n mod 16)]"

text \<open>The short escapes of Python's encoder, and \<open>\u00XX\<close> for the other control characters.\<close>

definition esc_char :: "char \<Rightarrow> string" where
  "esc_char c =
     (let n = of_char c :: nat
      in if n = 34 then [CHR 0x5C, CHR 0x22]
         else if n = 92 then [CHR 0x5C, CHR 0x5C]
         else if n = 10 then [CHR 0x5C, CHR ''n'']
         else if n = 13 then [CHR 0x5C, CHR ''r'']
         else if n = 9 then [CHR 0x5C, CHR ''t'']
         else if n = 8 then [CHR 0x5C, CHR ''b'']
         else if n = 12 then [CHR 0x5C, CHR ''f'']
         else if n < 32 then [CHR 0x5C, CHR ''u''] @ hex4 n
         else [c])"

definition quote_str :: "string \<Rightarrow> string" where
  "quote_str s = [CHR 0x22] @ concat (map esc_char s) @ [CHR 0x22]"

fun join_with :: "string \<Rightarrow> string list \<Rightarrow> string" where
  "join_with sep [] = []"
| "join_with sep [x] = x"
| "join_with sep (x # y # xs) = x @ sep @ join_with sep (y # xs)"

text \<open>The encoder over a quoting function, which \<open>ensure_ascii\<close> selects.\<close>

primrec dumps_with :: "(string \<Rightarrow> string) \<Rightarrow> json \<Rightarrow> string" where
  "dumps_with q JNull = ''null''"
| "dumps_with q (JBool b) = (if b then ''true'' else ''false'')"
| "dumps_with q (JInt i) = int_str i"
| "dumps_with q (JStr s) = q s"
| "dumps_with q (JArr js) = ''['' @ join_with '','' (map (dumps_with q) js) @ '']''"
| "dumps_with q (JObj kvs) =
     ''{'' @ join_with '','' (map (\<lambda>(k, t). q k @ '':'' @ t)
        (sort_key fst (map (map_prod id (dumps_with q)) kvs))) @ ''}''"

text \<open>\<open>ensure_ascii=False\<close>.\<close>

definition dumps :: "json \<Rightarrow> string" where
  "dumps = dumps_with quote_str"

text \<open>
  \<open>ensure_ascii=True\<close>, the default: the code points outside printable ASCII become \<open>\uXXXX\<close>, an
  astral one as a surrogate pair. A byte that starts no UTF-8 sequence belongs to no Python
  string; it is decoded to the escape code point Python's \<open>surrogateescape\<close> uses.
\<close>

definition cont_byte :: "nat \<Rightarrow> bool" where
  "cont_byte b \<longleftrightarrow> 128 \<le> b \<and> b < 192"

fun utf8_decode :: "nat list \<Rightarrow> nat list" where
  "utf8_decode [] = []"
| "utf8_decode (a # s) =
     (if a < 128 then a # utf8_decode s
      else case s of
        b # c # d # t \<Rightarrow>
          (if 194 \<le> a \<and> a < 224 \<and> cont_byte b
             then ((a - 192) * 64 + (b - 128)) # utf8_decode (c # d # t)
           else if 224 \<le> a \<and> a < 240 \<and> cont_byte b \<and> cont_byte c
             then ((a - 224) * 4096 + (b - 128) * 64 + (c - 128)) # utf8_decode (d # t)
           else if 240 \<le> a \<and> a < 245 \<and> cont_byte b \<and> cont_byte c \<and> cont_byte d
             then ((a - 240) * 262144 + (b - 128) * 4096 + (c - 128) * 64 + (d - 128))
               # utf8_decode t
           else (56320 + a) # utf8_decode (b # c # d # t))
      | [b, c] \<Rightarrow>
          (if 194 \<le> a \<and> a < 224 \<and> cont_byte b
             then ((a - 192) * 64 + (b - 128)) # utf8_decode [c]
           else if 224 \<le> a \<and> a < 240 \<and> cont_byte b \<and> cont_byte c
             then [(a - 224) * 4096 + (b - 128) * 64 + (c - 128)]
           else (56320 + a) # utf8_decode [b, c])
      | [b] \<Rightarrow>
          (if 194 \<le> a \<and> a < 224 \<and> cont_byte b then [(a - 192) * 64 + (b - 128)]
           else (56320 + a) # utf8_decode [b])
      | [] \<Rightarrow> [56320 + a])"

definition code_points :: "string \<Rightarrow> nat list" where
  "code_points s = utf8_decode (map of_char s)"

definition esc_code_point :: "nat \<Rightarrow> string" where
  "esc_code_point n =
     (if n < 127 then esc_char (char_of n)
      else if n < 65536 then [CHR 0x5C, CHR ''u''] @ hex4 n
      else let m = n - 65536
        in [CHR 0x5C, CHR ''u''] @ hex4 (55296 + m div 1024)
           @ [CHR 0x5C, CHR ''u''] @ hex4 (56320 + m mod 1024))"

definition quote_ascii :: "string \<Rightarrow> string" where
  "quote_ascii s = [CHR 0x22] @ concat (map esc_code_point (code_points s)) @ [CHR 0x22]"

definition dumps_ascii :: "json \<Rightarrow> string" where
  "dumps_ascii = dumps_with quote_ascii"

text \<open>\<open>str.encode()\<close>: a \<^typ>\<open>string\<close> already holds the UTF-8 bytes.\<close>

definition encode :: "string \<Rightarrow> bytes" where
  "encode s = map of_char s"

definition canonical_json :: "json \<Rightarrow> bytes" where
  "canonical_json j = encode (dumps j)"

definition json_digest :: "json \<Rightarrow> string" where
  "json_digest j = sha256_hex (canonical_json j)"

definition json_digest_ascii :: "json \<Rightarrow> string" where
  "json_digest_ascii j = sha256_hex (encode (dumps_ascii j))"

text \<open>\<open>del data[key]\<close> on a dictionary.\<close>

fun json_del :: "string \<Rightarrow> json \<Rightarrow> json" where
  "json_del k (JObj kvs) = JObj (filter (\<lambda>(k', _). k' \<noteq> k) kvs)"
| "json_del k j = j"

definition json_opt :: "('a \<Rightarrow> json) \<Rightarrow> 'a option \<Rightarrow> json" where
  "json_opt f x = (case x of None \<Rightarrow> JNull | Some y \<Rightarrow> f y)"

text \<open>\<open>base64.b64encode\<close>.\<close>

definition b64_char :: "nat \<Rightarrow> char" where
  "b64_char n =
     (if n < 26 then char_of (65 + n)
      else if n < 52 then char_of (71 + n)
      else if n < 62 then char_of (n - 4)
      else if n = 62 then CHR ''+'' else CHR ''/'')"

fun b64encode :: "bytes \<Rightarrow> string" where
  "b64encode [] = []"
| "b64encode [a] =
     [b64_char (unat a div 4), b64_char (unat a mod 4 * 16), CHR ''='', CHR ''='']"
| "b64encode [a, b] =
     [b64_char (unat a div 4), b64_char (unat a mod 4 * 16 + unat b div 16),
      b64_char (unat b mod 16 * 4), CHR ''='']"
| "b64encode (a # b # c # r) =
     [b64_char (unat a div 4), b64_char (unat a mod 4 * 16 + unat b div 16),
      b64_char (unat b mod 16 * 4 + unat c div 64), b64_char (unat c mod 64)] @ b64encode r"

section \<open>The encoding is injective\<close>

text \<open>A tree with its dictionaries sorted, and the encoder without the sorting step.\<close>

primrec json_norm :: "json \<Rightarrow> json" where
  "json_norm JNull = JNull"
| "json_norm (JBool b) = JBool b"
| "json_norm (JInt i) = JInt i"
| "json_norm (JStr s) = JStr s"
| "json_norm (JArr js) = JArr (map json_norm js)"
| "json_norm (JObj kvs) = JObj (sort_key fst (map (map_prod id json_norm) kvs))"

primrec plain :: "(string \<Rightarrow> string) \<Rightarrow> json \<Rightarrow> string" where
  "plain q JNull = ''null''"
| "plain q (JBool b) = (if b then ''true'' else ''false'')"
| "plain q (JInt i) = int_str i"
| "plain q (JStr s) = q s"
| "plain q (JArr js) = ''['' @ join_with '','' (map (plain q) js) @ '']''"
| "plain q (JObj kvs) =
     ''{'' @ join_with '','' (map (\<lambda>(k, t). q k @ '':'' @ t)
        (map (map_prod id (plain q)) kvs)) @ ''}''"

lemma map_insort_key:
  "(\<And>x. g (f x) = h x) \<Longrightarrow> map f (insort_key h x xs) = insort_key g (f x) (map f xs)"
  by (induction xs) auto

lemma map_sort_key: "(\<And>x. g (f x) = h x) \<Longrightarrow> map f (sort_key h xs) = sort_key g (map f xs)"
  by (induction xs) (simp_all add: map_insort_key [of g f h])

lemma dumps_with_plain: "dumps_with q j = plain q (json_norm j)"
proof (induction j)
  case (JArr js)
  then show ?case
    by (simp cong: map_cong)
next
  case (JObj kvs)
  have "map (map_prod id (plain q)) (sort_key fst (map (map_prod id json_norm) kvs))
      = sort_key fst (map (map_prod id (plain q)) (map (map_prod id json_norm) kvs))"
    by (rule map_sort_key) auto
  also have "map (map_prod id (plain q)) (map (map_prod id json_norm) kvs) = map (map_prod id (dumps_with q)) kvs"
    using JObj.IH by (auto simp: snds.simps)
  finally have "map (map_prod id (plain q)) (sort_key fst (map (map_prod id json_norm) kvs))
      = sort_key fst (map (map_prod id (dumps_with q)) kvs)" .
  then show ?case by (simp only: dumps_with.simps json_norm.simps plain.simps)
qed simp_all

subsection \<open>Numbers\<close>

definition is_digit :: "char \<Rightarrow> bool" where
  "is_digit c \<longleftrightarrow> 48 \<le> (of_char c :: nat) \<and> (of_char c :: nat) < 58"

definition digits_val :: "string \<Rightarrow> nat" where
  "digits_val s = foldl (\<lambda>n c. 10 * n + (of_char c - 48)) 0 s"

lemma of_digit_char: "n < 10 \<Longrightarrow> (of_char (digit_char n) :: nat) = 48 + n"
  by (simp add: digit_char_def of_char_of)

lemma nat_str_digits: "\<forall>c \<in> set (nat_str n). is_digit c"
proof (induction n rule: nat_str.induct)
  case (1 n)
  then show ?case
    by (subst nat_str.simps) (auto simp: is_digit_def of_digit_char)
qed

lemma nat_str_nonempty [simp]: "nat_str n \<noteq> []"
  by (subst nat_str.simps) simp

lemma digits_val_nat_str: "digits_val (nat_str n) = n"
proof (induction n rule: nat_str.induct)
  case (1 n)
  show ?case
  proof (cases "n < 10")
    case True
    then show ?thesis
      by (subst nat_str.simps) (simp add: digits_val_def of_digit_char)
  next
    case False
    with "1.IH" have "digits_val (nat_str (n div 10)) = n div 10" by simp
    with False show ?thesis
      by (subst nat_str.simps) (simp add: digits_val_def of_digit_char)
  qed
qed

lemma nat_str_inj: "nat_str m = nat_str n \<longleftrightarrow> m = n"
  by (metis digits_val_nat_str)

text \<open>A text that cannot continue a number: what follows a value inside a document.\<close>

definition delim :: "string \<Rightarrow> bool" where
  "delim r \<longleftrightarrow> (case r of [] \<Rightarrow> True | c # _ \<Rightarrow> c \<in> {CHR '','', CHR '']'', CHR ''}''})"

lemma delim_simps [simp]:
  "delim []" "delim (CHR '','' # r)" "delim (CHR '']'' # r)" "delim (CHR ''}'' # r)"
  by (simp_all add: delim_def)

lemma delim_not_digit: "delim (c # r) \<Longrightarrow> \<not> is_digit c"
  by (auto simp: delim_def is_digit_def)

lemma append_delim_unique:
  assumes "a @ r = b @ r'" and "\<forall>c \<in> set a. P c" and "\<forall>c \<in> set b. P c"
    and "r = [] \<or> \<not> P (hd r)" and "r' = [] \<or> \<not> P (hd r')"
  shows "a = b \<and> r = r'"
proof -
  have tw: "takeWhile P (x @ y) = x" if "\<forall>c \<in> set x. P c" and "y = [] \<or> \<not> P (hd y)" for x y
    using that by (cases y) (simp_all add: takeWhile_append2)
  have "a = b"
    using tw [of a r] tw [of b r'] assms by simp
  with assms(1) show ?thesis by simp
qed

lemma nat_str_append:
  assumes "nat_str m @ r = nat_str n @ r'" and "delim r" and "delim r'"
  shows "m = n \<and> r = r'"
proof -
  have "nat_str m = nat_str n \<and> r = r'"
  proof (rule append_delim_unique [OF assms(1) nat_str_digits nat_str_digits])
    show "r = [] \<or> \<not> is_digit (hd r)" using assms(2) by (cases r) (auto dest: delim_not_digit)
    show "r' = [] \<or> \<not> is_digit (hd r')" using assms(3) by (cases r') (auto dest: delim_not_digit)
  qed
  then show ?thesis by (simp add: nat_str_inj)
qed

lemma nat_str_hd: "is_digit (hd (nat_str n))"
  using nat_str_digits [of n] nat_str_nonempty [of n] by (meson hd_in_set)

lemma nat_str_Cons: "nat_str n = c # cs \<Longrightarrow> is_digit c"
  using nat_str_hd [of n] by simp

lemma minus_not_digit: "\<not> is_digit (CHR ''-'')"
  by (simp add: is_digit_def)

lemma int_str_append:
  assumes eq: "int_str i @ r = int_str j @ r'" and "delim r" and "delim r'"
  shows "i = j \<and> r = r'"
proof (cases "(i < 0) = (j < 0)")
  case True
  then have "nat_str (nat \<bar>i\<bar>) @ r = nat_str (nat \<bar>j\<bar>) @ r'"
    using eq by (auto simp: int_str_def split: if_splits)
  then have "nat \<bar>i\<bar> = nat \<bar>j\<bar> \<and> r = r'"
    using assms nat_str_append by blast
  with True show ?thesis by auto
next
  case False
  have neg: "is_digit (CHR ''-'')" if "CHR ''-'' # xs = nat_str n @ ys" for xs n ys
    using that nat_str_Cons [of n] by (cases "nat_str n") auto
  from False eq have "is_digit (CHR ''-'')"
    using neg by (auto simp: int_str_def split: if_splits intro: neg [OF sym] neg)
  with minus_not_digit show ?thesis by simp
qed

subsection \<open>Strings\<close>

lemma esc_char_hd: "\<exists>x xs. esc_char c = x # xs \<and> x \<noteq> CHR 0x22"
  by (auto simp: esc_char_def Let_def)

text \<open>The first two characters of an escape fix its length, the whole escape its character.\<close>

definition esc_len :: "string \<Rightarrow> nat" where
  "esc_len s = (if hd s \<noteq> CHR 0x5C then 1 else if hd (tl s) = CHR ''u'' then 6 else 2)"

definition unhex :: "char \<Rightarrow> nat" where
  "unhex c = (if (of_char c :: nat) < 58 then of_char c - 48 else of_char c - 87)"

definition unesc :: "string \<Rightarrow> nat" where
  "unesc s =
     (if hd s \<noteq> CHR 0x5C then of_char (hd s)
      else let d = hd (tl s)
        in if d = CHR ''n'' then 10 else if d = CHR ''r'' then 13 else if d = CHR ''t'' then 9
           else if d = CHR ''b'' then 8 else if d = CHR ''f'' then 12
           else if d = CHR ''u'' then 16 * unhex (s ! 4) + unhex (s ! 5)
           else of_char d)"

lemma esc_len_esc_char: "esc_len (esc_char c @ r) = length (esc_char c)"
  by (simp add: esc_char_def Let_def esc_len_def hex4_def) auto

lemma unhex_hex_digit: "n < 16 \<Longrightarrow> unhex (hex_digit n) = n"
  by (simp add: hex_digit_def unhex_def of_char_of)

lemma unesc_esc_char: "unesc (esc_char c) = of_char c"
  by (simp add: esc_char_def Let_def unesc_def hex4_def unhex_hex_digit) auto

lemma esc_char_append:
  assumes eq: "esc_char c @ r = esc_char c' @ r'"
  shows "c = c' \<and> r = r'"
proof -
  have "length (esc_char c) = length (esc_char c')"
    using eq by (metis esc_len_esc_char)
  with eq have e: "esc_char c = esc_char c'" and "r = r'" by auto
  from e have "(of_char c :: nat) = of_char c'" by (metis unesc_esc_char)
  with \<open>r = r'\<close> show ?thesis by simp
qed

lemma quote_str_append:
  assumes "quote_str s @ r = quote_str s' @ r'"
  shows "s = s' \<and> r = r'"
proof -
  have "concat (map esc_char s) @ CHR 0x22 # r = concat (map esc_char s') @ CHR 0x22 # r'"
    using assms by (simp add: quote_str_def)
  then show ?thesis
  proof (induction s arbitrary: s')
    case Nil
    then show ?case
      using esc_char_hd by (cases s') (auto, metis append_Cons list.inject)
  next
    case (Cons c s)
    show ?case
    proof (cases s')
      case Nil
      then show ?thesis
        using Cons.prems esc_char_hd [of c] by auto
    next
      case (Cons c' t)
      with Cons.prems have "esc_char c @ (concat (map esc_char s) @ CHR 0x22 # r)
          = esc_char c' @ (concat (map esc_char t) @ CHR 0x22 # r')" by simp
      from esc_char_append [OF this] Cons.IH [of t] Cons show ?thesis by auto
    qed
  qed
qed

subsection \<open>Sequences\<close>

lemma join_with_Cons: "join_with sep (x # xs) = x @ concat (map (\<lambda>y. sep @ y) xs)"
  by (induction xs arbitrary: x) auto

text \<open>What a printed item must satisfy: the text after it is determined.\<close>

definition item_ok :: "('a \<Rightarrow> string) \<Rightarrow> 'a \<Rightarrow> bool" where
  "item_ok f x \<longleftrightarrow>
     (\<forall>x' r r'. f x @ r = f x' @ r' \<longrightarrow> delim r \<longrightarrow> delim r' \<longrightarrow> x = x' \<and> r = r')"

lemma item_okD:
  "item_ok f x \<Longrightarrow> f x @ r = f x' @ r' \<Longrightarrow> delim r \<Longrightarrow> delim r' \<Longrightarrow> x = x' \<and> r = r'"
  by (auto simp: item_ok_def)

lemma tail_delim:
  "c \<in> {CHR '']'', CHR ''}''} \<Longrightarrow> delim (concat (map (\<lambda>y. '','' @ y) ys) @ c # r)"
  by (cases ys) auto

lemma items_tail_append:
  assumes "\<forall>x \<in> set xs. item_ok f x" and c: "c \<in> {CHR '']'', CHR ''}''}"
    and "concat (map (\<lambda>y. '','' @ y) (map f xs)) @ c # r
       = concat (map (\<lambda>y. '','' @ y) (map f ys)) @ c # r'"
  shows "xs = ys \<and> r = r'"
  using assms(1,3)
proof (induction xs arbitrary: ys)
  case Nil
  with c show ?case by (cases ys) auto
next
  case (Cons x xs)
  show ?case
  proof (cases ys)
    case Nil
    with Cons.prems c show ?thesis by auto
  next
    case (Cons y zs)
    with Cons.prems have eq:
      "f x @ (concat (map (\<lambda>y. '','' @ y) (map f xs)) @ c # r)
       = f y @ (concat (map (\<lambda>y. '','' @ y) (map f zs)) @ c # r')" by simp
    have "x = y \<and> concat (map (\<lambda>y. '','' @ y) (map f xs)) @ c # r
        = concat (map (\<lambda>y. '','' @ y) (map f zs)) @ c # r'"
      using Cons.prems(1) by (intro item_okD [where f = f and x = x and x' = y, OF _ eq]) (simp, rule tail_delim [OF c], rule tail_delim [OF c])
    with Cons.IH [of zs] Cons.prems(1) Cons show ?thesis by auto
  qed
qed

lemma items_append:
  assumes ok: "\<forall>x \<in> set xs. item_ok f x" and c: "c \<in> {CHR '']'', CHR ''}''}"
    and hd: "\<And>x. \<exists>d ds. f x = d # ds \<and> d \<noteq> c"
    and eq: "join_with '','' (map f xs) @ c # r = join_with '','' (map f ys) @ c # r'"
  shows "xs = ys \<and> r = r'"
proof (cases xs)
  case Nil
  with eq hd show ?thesis
    by (cases ys) (auto simp: join_with_Cons, metis append_Cons list.inject)
next
  case (Cons x zs)
  show ?thesis
  proof (cases ys)
    case Nil
    with Cons eq hd [of x] show ?thesis by (auto simp: join_with_Cons)
  next
    case (Cons y us)
    with \<open>xs = x # zs\<close> eq have eq':
      "f x @ (concat (map (\<lambda>y. '','' @ y) (map f zs)) @ c # r)
       = f y @ (concat (map (\<lambda>y. '','' @ y) (map f us)) @ c # r')"
      by (simp add: join_with_Cons)
    have "x = y \<and> concat (map (\<lambda>y. '','' @ y) (map f zs)) @ c # r
        = concat (map (\<lambda>y. '','' @ y) (map f us)) @ c # r'"
      using ok \<open>xs = x # zs\<close> by (intro item_okD [where f = f and x = x and x' = y, OF _ eq']) (simp, rule tail_delim [OF c], rule tail_delim [OF c])
    with items_tail_append [OF _ c, of zs f r us r'] ok \<open>xs = x # zs\<close> Cons show ?thesis by auto
  qed
qed

subsection \<open>Documents\<close>

text \<open>
  What the documents need of the quoting of strings: it opens with a quotation mark and the
  text after the closing one is determined. Both modes of the encoder are instances of it.
\<close>

definition json_lead :: "json \<Rightarrow> char \<Rightarrow> bool" where
  "json_lead j c \<longleftrightarrow> (case j of
      JNull \<Rightarrow> c = CHR ''n''
    | JBool b \<Rightarrow> c = (if b then CHR ''t'' else CHR ''f'')
    | JInt i \<Rightarrow> c = CHR ''-'' \<or> is_digit c
    | JStr s \<Rightarrow> c = CHR 0x22
    | JArr js \<Rightarrow> c = CHR ''[''
    | JObj kvs \<Rightarrow> c = CHR ''{'')"

lemma lead_excludes:
  "\<not> is_digit (CHR ''n'')" "\<not> is_digit (CHR ''t'')" "\<not> is_digit (CHR ''f'')"
  "\<not> is_digit (CHR 0x22)" "\<not> is_digit (CHR ''['')" "\<not> is_digit (CHR ''{'')"
  by (simp_all add: is_digit_def)

definition obj_item :: "(string \<Rightarrow> string) \<Rightarrow> string \<times> json \<Rightarrow> string" where
  "obj_item q kv = q (fst kv) @ '':'' @ plain q (snd kv)"

locale quoting =
  fixes q :: "string \<Rightarrow> string"
  assumes q_lead: "\<exists>cs. q s = CHR 0x22 # cs"
    and q_append: "q s @ r = q s' @ r' \<Longrightarrow> s = s' \<and> r = r'"
begin

lemma plain_lead: "\<exists>c cs. plain q j = c # cs \<and> json_lead j c"
proof (cases j)
  case (JInt i)
  obtain c cs where "int_str i = c # cs" and "c = CHR ''-'' \<or> is_digit c"
  proof (cases "i < 0")
    case True
    then show ?thesis
      by (intro that [of "CHR ''-''" "nat_str (nat (- i))"]) (simp_all add: int_str_def)
  next
    case False
    obtain c cs where "nat_str (nat i) = c # cs"
      using nat_str_nonempty by (cases "nat_str (nat i)") auto
    with False show ?thesis
      by (intro that) (auto simp: int_str_def dest: nat_str_Cons)
  qed
  with JInt show ?thesis by (simp add: json_lead_def)
qed (auto simp: json_lead_def q_lead)

text \<open>Two values whose texts agree have the same first character, hence the same constructor.\<close>

lemma plain_same_lead:
  "plain q j @ r = plain q j' @ r' \<Longrightarrow> \<exists>c. json_lead j c \<and> json_lead j' c"
  using plain_lead [of j] plain_lead [of j'] by auto

lemma plain_JObj: "plain q (JObj kvs) = ''{'' @ join_with '','' (map (obj_item q) kvs) @ ''}''"
  by (simp add: case_prod_beta o_def obj_item_def [abs_def])

lemma obj_item_ok: "item_ok (plain q) (snd kv) \<Longrightarrow> item_ok (obj_item q) kv"
  unfolding item_ok_def
proof (intro allI impI)
  fix kv' r r'
  assume ok: "\<forall>x' r r'. plain q (snd kv) @ r = plain q x' @ r' \<longrightarrow> delim r \<longrightarrow> delim r' \<longrightarrow>
      snd kv = x' \<and> r = r'"
    and eq: "obj_item q kv @ r = obj_item q kv' @ r'" and d: "delim r" "delim r'"
  from eq have "fst kv = fst kv' \<and> '':'' @ plain q (snd kv) @ r = '':'' @ plain q (snd kv') @ r'"
    by (intro q_append) (simp add: obj_item_def)
  with ok d show "kv = kv' \<and> r = r'"
    by (auto simp: prod_eq_iff)
qed

lemma plain_item_ok: "item_ok (plain q) j"
proof (induction j)
  case (JArr js)
  show ?case
    unfolding item_ok_def
  proof (intro allI impI)
    fix j' r r'
    assume eq: "plain q (JArr js) @ r = plain q j' @ r'"
    from plain_same_lead [OF eq] obtain js' where j': "j' = JArr js'"
      by (cases j') (auto simp: json_lead_def lead_excludes split: if_splits)
    have "js = js' \<and> r = r'"
    proof (rule items_append)
      show "\<forall>x \<in> set js. item_ok (plain q) x" using JArr.IH by blast
      show "\<exists>d ds. plain q x = d # ds \<and> d \<noteq> CHR '']''" for x
        using plain_lead [of x]
        by (cases x) (auto simp: json_lead_def is_digit_def split: if_splits)
      show "join_with '','' (map (plain q) js) @ CHR '']'' # r
          = join_with '','' (map (plain q) js') @ CHR '']'' # r'" using eq j' by simp
    qed simp
    with j' show "JArr js = j' \<and> r = r'" by simp
  qed
next
  case (JObj kvs)
  show ?case
    unfolding item_ok_def
  proof (intro allI impI)
    fix j' r r'
    assume eq: "plain q (JObj kvs) @ r = plain q j' @ r'"
    from plain_same_lead [OF eq] obtain kvs' where j': "j' = JObj kvs'"
      by (cases j') (auto simp: json_lead_def lead_excludes split: if_splits)
    have "kvs = kvs' \<and> r = r'"
    proof (rule items_append)
      show "\<forall>x \<in> set kvs. item_ok (obj_item q) x"
      proof
        fix x
        assume "x \<in> set kvs"
        with JObj.IH [of x "snd x"] have "item_ok (plain q) (snd x)" by (cases x) simp
        then show "item_ok (obj_item q) x" by (rule obj_item_ok)
      qed
      show "\<exists>d ds. obj_item q x = d # ds \<and> d \<noteq> CHR ''}''" for x
        using q_lead [of "fst x"] by (auto simp: obj_item_def)
      show "join_with '','' (map (obj_item q) kvs) @ CHR ''}'' # r
          = join_with '','' (map (obj_item q) kvs') @ CHR ''}'' # r'"
        using eq j' by (simp add: plain_JObj del: plain.simps)
    qed simp
    with j' show "JObj kvs = j' \<and> r = r'" by simp
  qed
next
  case (JStr s)
  show ?case
    unfolding item_ok_def
  proof (intro allI impI)
    fix j' r r'
    assume eq: "plain q (JStr s) @ r = plain q j' @ r'"
    from plain_same_lead [OF eq] obtain s' where "j' = JStr s'"
      by (cases j') (auto simp: json_lead_def lead_excludes split: if_splits)
    with eq q_append [of s r s' r'] show "JStr s = j' \<and> r = r'" by simp
  qed
next
  case (JInt i)
  show ?case
    unfolding item_ok_def
  proof (intro allI impI)
    fix j' r r'
    assume eq: "plain q (JInt i) @ r = plain q j' @ r'" and d: "delim r" "delim r'"
    from plain_same_lead [OF eq] obtain i' where "j' = JInt i'"
      by (cases j') (auto simp: json_lead_def lead_excludes split: if_splits)
    with eq d int_str_append [of i r i' r'] show "JInt i = j' \<and> r = r'" by simp
  qed
next
  case JNull
  show ?case
    unfolding item_ok_def
  proof (intro allI impI)
    fix j' r r'
    assume eq: "plain q JNull @ r = plain q j' @ r'"
    from plain_same_lead [OF eq] have "j' = JNull"
      by (cases j') (auto simp: json_lead_def lead_excludes split: if_splits)
    with eq show "JNull = j' \<and> r = r'" by simp
  qed
next
  case (JBool b)
  show ?case
    unfolding item_ok_def
  proof (intro allI impI)
    fix j' r r'
    assume eq: "plain q (JBool b) @ r = plain q j' @ r'"
    from plain_same_lead [OF eq] have "j' = JBool b"
      by (cases j') (auto simp: json_lead_def lead_excludes split: if_splits)
    with eq show "JBool b = j' \<and> r = r'" by simp
  qed
qed

lemma dumps_with_inj: "dumps_with q a = dumps_with q b \<Longrightarrow> json_norm a = json_norm b"
  using item_okD [OF plain_item_ok, of "json_norm a" "[]" "json_norm b" "[]"]
  by (simp add: dumps_with_plain)

end

interpretation json_quote: quoting quote_str
proof
  show "\<exists>cs. quote_str s = CHR 0x22 # cs" for s
    by (simp add: quote_str_def)
  show "quote_str s @ r = quote_str s' @ r' \<Longrightarrow> s = s' \<and> r = r'" for s r s' r'
    by (rule quote_str_append)
qed

lemma dumps_inj: "dumps a = dumps b \<Longrightarrow> json_norm a = json_norm b"
  unfolding dumps_def by (rule json_quote.dumps_with_inj)

lemma encode_inj: "encode s = encode t \<Longrightarrow> s = t"
proof (induction s arbitrary: t)
  case Nil
  then show ?case by (simp add: encode_def)
next
  case (Cons c s)
  then obtain d t' where t: "t = d # t'" by (cases t) (auto simp: encode_def)
  with Cons.prems have "(of_char c :: 8 word) = of_char d" by (simp add: encode_def)
  then have "unat (of_nat (of_char c) :: 8 word) = unat (of_nat (of_char d) :: 8 word)"
    by (simp only: of_nat_of_char)
  then have "(of_char c :: nat) = of_char d"
    by (simp only: unat_of_nat) (simp add: of_char_mod_256)
  with Cons t show ?case by (simp add: encode_def)
qed

lemma canonical_json_inj: "canonical_json a = canonical_json b \<Longrightarrow> json_norm a = json_norm b"
  by (auto simp: canonical_json_def intro: dumps_inj dest: encode_inj)

end
