(* ===== verification/Effects_Contracts.thy ===== *)
theory Effects_Contracts
  imports Py_Json
begin

text \<open>
  The immutable boundary values of the external-effect owner
  (\<open>capabilities/effects/contracts.py\<close> and the worker fences of \<open>capabilities/effects/fences.py\<close>).
  Every pydantic class is a record with the declared fields, a discriminated union is a datatype
  with one constructor per member, a \<open>Literal\<close> is an enumeration. A field that is a single
  constant (\<open>kind\<close> discriminants, the \<open>NotApplicable\<close> members of a non-scheduler fence) carries no
  information and is left to the constructor. Integers with \<open>ge=0\<close> that count are \<^typ>\<open>nat\<close>, clock
  readings are \<^typ>\<open>int\<close>.
\<close>

section \<open>Worker fences\<close>

record Present =
  pr_head :: string
  pr_fingerprint :: string

datatype ExecutionLineageSubject =
    IndividualSubject string \<comment> \<open>occurrence id\<close>
  | CoalescedSubject string string \<comment> \<open>aggregate id, manifest fingerprint\<close>

record ExecutionLineageBinding =
  el_root_id :: string
  el_subject :: ExecutionLineageSubject
  el_root_fingerprint :: string
  el_lineage_head :: string
  el_initial_run_id :: string
  el_current_run_id :: string
  el_schedule_id :: string
  el_schedule_revision :: string
  el_policy_revision :: string

record PhysicalRootBinding =
  prb_selector_id :: string
  prb_selector_head :: string
  prb_selector_version :: nat
  prb_current_epoch_id :: string
  prb_current_epoch_head :: string

record LeaseBinding =
  lb_lease_head :: string
  lb_holder_id :: string
  lb_holder_session_id :: string
  lb_lease_id :: string
  lb_generation :: nat
  lb_trusted_expiry :: nat
  lb_clock_contract_version :: string

record TrustedClockProofRef =
  cp_proof_id :: string
  cp_proof_fingerprint :: string
  cp_proof_version :: string
  cp_clock_contract_version :: string
  cp_fence_fingerprint :: string
  cp_command_id :: string
  cp_command_payload_fingerprint :: string
  cp_submission_id :: string

record NonSchedulerFence =
  nf_run_id :: string
  nf_run_head :: string
  nf_worker_session_id :: string
  nf_runtime_generation :: string

record SchedulerExecutionFence =
  sf_run_head :: string
  sf_lineage :: ExecutionLineageBinding
  sf_physical_root :: PhysicalRootBinding
  sf_lease :: LeaseBinding
  sf_clock_proof :: TrustedClockProofRef

record OriginalObligationBinding =
  ob_original_run_id :: string
  ob_original_call_id :: string
  ob_obligation_id :: string
  ob_obligation_stream_id :: string
  ob_obligation_head :: string
  ob_closure_predicate_id :: string
  ob_closure_predicate_version :: string
  ob_resolver_id :: string
  ob_resolver_version :: string
  ob_reducer_id :: string
  ob_reducer_version :: string
  ob_evidence_stream_id :: string
  ob_evidence_head :: "Present option"

record WorkSubjectBinding =
  ws_work_id :: string
  ws_work_subject_head :: string
  ws_work_subject_fingerprint :: string
  ws_terminal_manifest_head :: string
  ws_terminal_manifest_member_fingerprint :: string
  ws_original_obligation :: OriginalObligationBinding

record WorkEpochBinding =
  we_selector_id :: string
  we_selector_head :: string
  we_selector_version :: nat
  we_current_epoch_id :: string
  we_current_epoch_head :: string

record PostTerminalWorkFence =
  pt_subject :: WorkSubjectBinding
  pt_work_epoch :: WorkEpochBinding
  pt_lease :: LeaseBinding
  pt_clock_proof :: TrustedClockProofRef
  pt_work_command_id :: string

datatype WorkerFence =
    NON_SCHEDULER_NOT_APPLICABLE NonSchedulerFence
  | EXECUTION_ROOT_LIVE_LEASE SchedulerExecutionFence
  | POST_TERMINAL_RECOVERY_WORK PostTerminalWorkFence

text \<open>\<open>fence.run_head\<close>; a post-terminal fence has no such attribute.\<close>

fun fence_run_head :: "WorkerFence \<Rightarrow> string option" where
  "fence_run_head (NON_SCHEDULER_NOT_APPLICABLE f) = Some (nf_run_head f)"
| "fence_run_head (EXECUTION_ROOT_LIVE_LEASE f) = Some (sf_run_head f)"
| "fence_run_head (POST_TERMINAL_RECOVERY_WORK f) = None"

section \<open>Authority\<close>

record ExactHead =
  eh_subject_id :: string
  eh_head :: string
  eh_fingerprint :: string

record DispatchSemanticBinding =
  ds_normative_manifest :: string
  ds_reducer_version :: string
  ds_transition_registry_version :: string
  ds_canonicalization_fingerprint_version :: string
  ds_adapter_contract_version :: string

datatype AttemptState =
    INTENT_RECORDED
  | HELD_BEFORE_SEND
  | CANCELLED_BEFORE_SEND
  | SUPERSEDED_BEFORE_SEND
  | DISPATCH_AUTHORIZED
  | SEND_COMMITTED
  | SENT
  | CONFIRMED
  | FAILED_NO_EFFECT
  | OUTCOME_UNKNOWN
  | PARTIAL
  | PARTIAL_CONFIRMED

record ProviderRecipient =
  rc_provider :: string
  rc_account :: string
  rc_recipient :: string
  rc_endpoint :: ExactHead
  rc_canonical_address :: bytes
  rc_credential_binding :: ExactHead

record DirectAuthorityAct =
  da_act :: ExactHead
  da_ingress :: ExactHead

record AdoptedAuthorityAct =
  aa_proposal :: ExactHead
  aa_display_digest :: string
  aa_adoption :: ExactHead
  aa_ingress :: ExactHead
  aa_interpretation :: ExactHead

record BoundedMandateAct =
  bm_mandate :: ExactHead
  bm_operation :: string
  bm_result_manifest_digest :: string

datatype AuthorityAct =
    DIRECT_AUTHENTICATED_ACT DirectAuthorityAct
  | EXACT_PROPOSAL_ADOPTION AdoptedAuthorityAct
  | BOUNDED_MANDATE BoundedMandateAct

record AuthorityRead =
  ar_source_id :: string
  ar_source_version :: string
  ar_head :: ExactHead
  ar_generation :: string
  ar_frontier :: string
  ar_valid_until_ns :: int
  ar_canonical_value :: bytes

record AuthorityBinding =
  ab_tenant_id :: string
  ab_principal_id :: string
  ab_actor_id :: string
  ab_authenticated_session :: ExactHead
  ab_act :: AuthorityAct
  ab_planning_revision :: ExactHead
  ab_authorization_evidence :: ExactHead
  ab_authority_sources :: "ExactHead list"
  ab_affected_party_constraints :: "ExactHead list"
  ab_hold_conflict_order :: ExactHead
  ab_dependencies :: "ExactHead list"
  ab_factual_assertion_evidence :: "ExactHead list"
  ab_verification_contradiction :: "ExactHead list"
  ab_authority_applicability :: "ExactHead list"
  ab_consequence_scope :: ExactHead
  ab_communication_mandate :: ExactHead
  ab_disclosure_projection :: ExactHead
  ab_channel_class :: string
  ab_interaction_context :: ExactHead
  ab_recipient :: ProviderRecipient
  ab_reads :: "AuthorityRead list"
  ab_registry_inputs :: "(string \<times> string) list"
  ab_valid_until_ns :: int

section \<open>Intents\<close>

datatype DeliverySelection =
    ORIGIN_EXACT ExactHead ProviderRecipient \<comment> \<open>ingress binding, recipient\<close>
  | MODEL_SELECTED_EXACT ProviderRecipient

record DeliverySendBinding =
  db_delivery_id :: string
  db_acceptance :: ExactHead
  db_render_digest :: string
  db_manifest_digest :: string
  db_selection :: DeliverySelection
  db_visibility :: "ExactHead list"
  db_provenance :: "ExactHead list"
  db_disclosure :: "ExactHead list"
  db_narrowing :: "ExactHead list"
  db_policy :: ExactHead

record OriginalAmbiguity =
  oa_original_intent :: ExactHead
  oa_original_binding :: DispatchSemanticBinding
  oa_ambiguity_reconciliation_head :: ExactHead

record CompensationPurpose =
  co_original :: OriginalAmbiguity
  co_consequence_addressed :: ExactHead
  co_preview_adoption :: AdoptedAuthorityAct

record DuplicateRiskPurpose =
  dr_unresolved_attempts :: "OriginalAmbiguity list"
  dr_possible_duplicate_effects :: "ExactHead list"
  dr_affected_parties_resources :: "ExactHead list"
  dr_commitment_consequences :: "ExactHead list"
  dr_safer_alternatives :: "ExactHead list"
  dr_preview_adoption :: AdoptedAuthorityAct

datatype EffectPurpose =
    ORDINARY_EFFECT
  | DELIVERY DeliverySendBinding
  | COMPENSATION CompensationPurpose
  | AUTHORIZE_DUPLICATE_RISK DuplicateRiskPurpose

record ExternalActionIntent =
  in_intent_id :: string
  in_fingerprint :: string
  in_authority :: AuthorityBinding
  in_semantics :: DispatchSemanticBinding
  in_payload :: bytes
  in_effect_fingerprint :: string
  in_idempotency_fence_key :: string
  in_inseparable_bundle_members :: "ExactHead list"
  in_purpose :: EffectPurpose

section \<open>Commands\<close>

record CommandIdentity =
  ci_command_id :: string
  ci_fingerprint :: string
  ci_expected_tenant_head :: nat

record AcceptEffectCommand =
  ac_identity :: CommandIdentity
  ac_initialized_call :: ExactHead
  ac_call_id :: string
  ac_tool_schema_policy :: "ExactHead list"
  ac_fence :: WorkerFence
  ac_intent :: ExternalActionIntent
  ac_execution_intent :: ExactHead
  ac_complete_acceptance_manifest :: "ExactHead list"

record PublishPlanEffectCommand =
  pp_identity :: CommandIdentity
  pp_intent :: ExternalActionIntent
  pp_planning_publication :: ExactHead
  pp_planning_owner_bytes :: bytes
  pp_complete_publication_manifest :: "ExactHead list"
  pp_fence :: WorkerFence

record PublishDeliveryIntentCommand =
  pd_identity :: CommandIdentity
  pd_intent :: ExternalActionIntent
  pd_complete_acceptance :: ExactHead
  pd_complete_delivery_manifest :: "ExactHead list"
  pd_fence :: WorkerFence

record DispatchAuthorization =
  au_authorization :: ExactHead
  au_intent :: ExactHead
  au_expected_attempt :: ExactHead
  au_semantics :: DispatchSemanticBinding
  au_current_authority :: AuthorityBinding
  au_fence :: WorkerFence

record AuthorizeDispatchCommand =
  ad_identity :: CommandIdentity
  ad_intent :: ExactHead
  ad_expected_attempt :: ExactHead
  ad_current_authority :: AuthorityBinding
  ad_semantics :: DispatchSemanticBinding
  ad_fence :: WorkerFence

datatype BeforeSendKind = D_HELD_BEFORE_SEND | D_CANCELLED_BEFORE_SEND | D_SUPERSEDED_BEFORE_SEND

fun before_send_state :: "BeforeSendKind \<Rightarrow> AttemptState" where
  "before_send_state D_HELD_BEFORE_SEND = HELD_BEFORE_SEND"
| "before_send_state D_CANCELLED_BEFORE_SEND = CANCELLED_BEFORE_SEND"
| "before_send_state D_SUPERSEDED_BEFORE_SEND = SUPERSEDED_BEFORE_SEND"

record BeforeSendDispositionCommand =
  bs_identity :: CommandIdentity
  bs_intent :: ExactHead
  bs_expected_attempt :: ExactHead
  bs_disposition :: BeforeSendKind
  bs_current_authority :: AuthorityBinding
  bs_decision_evidence :: ExactHead
  bs_fence :: WorkerFence

record PublishRecoveryIntentCommand =
  pri_identity :: CommandIdentity
  pri_intent :: ExternalActionIntent
  pri_original_heads :: "ExactHead list"
  pri_current_authority :: AuthorityBinding
  pri_fence :: WorkerFence

datatype ProofKind = PROVIDER_IDEMPOTENCY_COVERS_ALL | ALL_PRIOR_PERMANENTLY_INCAPABLE

record SafeRetransmission =
  sr_ordinal :: nat
  sr_prior_children :: "ExactHead list"
  sr_proof_kind :: ProofKind
  sr_proof :: ExactHead
  sr_covered_effect_fingerprint :: string
  sr_coverage_starts_ns :: int
  sr_coverage_expires_ns :: int

datatype Transmission = FIRST_TRANSMISSION | SAFE_RETRANSMISSION SafeRetransmission

fun transmission_ordinal :: "Transmission \<Rightarrow> nat" where
  "transmission_ordinal FIRST_TRANSMISSION = 0"
| "transmission_ordinal (SAFE_RETRANSMISSION r) = sr_ordinal r"

record CommitSendCommand =
  cs_identity :: CommandIdentity
  cs_expected_attempt :: ExactHead
  cs_authorization :: DispatchAuthorization
  cs_fence :: WorkerFence
  cs_transmission :: Transmission
  cs_current_time_ns :: int

record TransmissionAttempt =
  ta_transmission :: ExactHead
  ta_intent :: ExactHead
  ta_ordinal :: nat
  ta_semantics :: DispatchSemanticBinding
  ta_dispatch_time_ns :: int
  ta_payload_fingerprint :: string
  ta_recipient :: ProviderRecipient
  ta_idempotency_fence_key :: string
  ta_send_commit :: ExactHead
  ta_coverage_proof :: "ExactHead option"

record EvidenceAuthentication =
  ea_broker_custody :: ExactHead
  ea_ingress_surface :: string
  ea_source_contract_version :: string
  ea_tenant_id :: string
  ea_source_identity :: string
  ea_provider_account :: string
  ea_endpoint :: ExactHead
  ea_credential_key :: ExactHead
  ea_audience :: string
  ea_raw_digest :: string
  ea_source_replay_identity :: string
  ea_intent :: ExactHead
  ea_transmission :: ExactHead
  ea_freshness :: ExactHead

record TransportObservationBinding =
  tb_tenant_id :: string
  tb_broker_epoch :: ExactHead
  tb_issued_operation :: ExactHead
  tb_transmission :: ExactHead
  tb_exact_recipient :: ProviderRecipient
  tb_adapter_contract_version :: string
  tb_raw_digest :: string

datatype Authentication =
    AUTHENTICATED_PROVIDER_EVIDENCE EvidenceAuthentication
  | BROKER_TRANSPORT_OBSERVATION TransportObservationBinding

fun auth_transmission :: "Authentication \<Rightarrow> ExactHead" where
  "auth_transmission (AUTHENTICATED_PROVIDER_EVIDENCE a) = ea_transmission a"
| "auth_transmission (BROKER_TRANSPORT_OBSERVATION a) = tb_transmission a"

fun auth_tenant_id :: "Authentication \<Rightarrow> string" where
  "auth_tenant_id (AUTHENTICATED_PROVIDER_EVIDENCE a) = ea_tenant_id a"
| "auth_tenant_id (BROKER_TRANSPORT_OBSERVATION a) = tb_tenant_id a"

fun auth_raw_digest :: "Authentication \<Rightarrow> string" where
  "auth_raw_digest (AUTHENTICATED_PROVIDER_EVIDENCE a) = ea_raw_digest a"
| "auth_raw_digest (BROKER_TRANSPORT_OBSERVATION a) = tb_raw_digest a"

datatype Observation =
    TRANSPORT_SENT
  | EXACT_EFFECT_CONFIRMED
  | PERMANENTLY_INCAPABLE
  | ABSENCE_OBSERVED
  | TIMEOUT
  | CONNECTION_LOST
  | MALFORMED_RESPONSE
  | CONFLICTING_EVIDENCE
  | INCOMPLETE_EVIDENCE
  | MIXED_BUNDLE

record RecordEvidenceCommand =
  re_identity :: CommandIdentity
  re_expected_attempt :: ExactHead
  re_evidence_id :: string
  re_raw_bytes :: bytes
  re_authentication :: Authentication
  re_semantics :: DispatchSemanticBinding
  re_observation :: Observation
  re_covered_children :: "ExactHead list"
  re_occurred_members :: "ExactHead list"
  re_permanently_incapable_members :: "ExactHead list"

record ReconcileEffectCommand =
  rce_identity :: CommandIdentity
  rce_intent :: ExactHead
  rce_expected_attempt :: ExactHead
  rce_complete_children :: "ExactHead list"
  rce_durable_evidence :: "ExactHead list"
  rce_semantics :: DispatchSemanticBinding
  rce_authorized_reconciler :: ExactHead
  rce_fence :: WorkerFence

datatype EffectCommand =
    AcceptEffect AcceptEffectCommand
  | PublishPlanEffect PublishPlanEffectCommand
  | PublishDeliveryIntent PublishDeliveryIntentCommand
  | AuthorizeDispatch AuthorizeDispatchCommand
  | BeforeSendDisposition BeforeSendDispositionCommand
  | PublishRecoveryIntent PublishRecoveryIntentCommand
  | CommitSend CommitSendCommand
  | RecordEvidence RecordEvidenceCommand
  | ReconcileEffect ReconcileEffectCommand

fun command_identity :: "EffectCommand \<Rightarrow> CommandIdentity" where
  "command_identity (AcceptEffect c) = ac_identity c"
| "command_identity (PublishPlanEffect c) = pp_identity c"
| "command_identity (PublishDeliveryIntent c) = pd_identity c"
| "command_identity (AuthorizeDispatch c) = ad_identity c"
| "command_identity (BeforeSendDisposition c) = bs_identity c"
| "command_identity (PublishRecoveryIntent c) = pri_identity c"
| "command_identity (CommitSend c) = cs_identity c"
| "command_identity (RecordEvidence c) = re_identity c"
| "command_identity (ReconcileEffect c) = rce_identity c"

section \<open>Obligations, snapshots and records\<close>

datatype SafeAction =
  AUTHENTICATED_PROVIDER_READ | BOUND_RECONCILIATION | EXPLICIT_RECOVERY_AUTHORIZATION

datatype DeniedAction = BLIND_RETRY | CONFLICTING_REPLACEMENT | DEPENDENT_CONTINUATION

record OpenEffectObligation =
  oo_obligation :: ExactHead
  oo_intent :: ExactHead
  oo_original_attempt :: ExactHead
  oo_original_crossed_children :: "ExactHead list"
  oo_semantics :: DispatchSemanticBinding
  oo_safe_actions :: "SafeAction list"
  oo_denied_actions :: "DeniedAction list"

record ClosedEffectObligation =
  cl_obligation :: ExactHead
  cl_opening :: OpenEffectObligation
  cl_closure_evidence :: "ExactHead list"
  cl_complete_children :: "ExactHead list"
  cl_outcome :: AttemptState
  cl_semantics :: DispatchSemanticBinding

datatype EffectRecoveryObligation =
    OPEN OpenEffectObligation
  | CLOSED ClosedEffectObligation

fun obligation_head :: "EffectRecoveryObligation \<Rightarrow> ExactHead" where
  "obligation_head (OPEN b) = oo_obligation b"
| "obligation_head (CLOSED b) = cl_obligation b"

fun is_open :: "EffectRecoveryObligation \<Rightarrow> bool" where
  "is_open (OPEN b) = True"
| "is_open (CLOSED b) = False"

record EffectSnapshot =
  sn_intent :: ExternalActionIntent
  sn_attempt :: ExactHead
  sn_state :: AttemptState
  sn_authorizations :: "DispatchAuthorization list"
  sn_transmissions :: "TransmissionAttempt list"
  sn_evidence :: "ExactHead list"
  sn_unresolved_obligations :: "ExactHead list"
  sn_evidence_records :: "RecordEvidenceCommand list"
  sn_recovery_obligation :: "EffectRecoveryObligation option"

datatype RecordKind =
    K_INTENT_ACCEPTED
  | K_PLAN_EFFECT_PUBLISHED
  | K_DELIVERY_PREPARED
  | K_RECOVERY_INTENT_PUBLISHED
  | K_DISPATCH_AUTHORIZED
  | K_BEFORE_SEND_DISPOSITION
  | K_SEND_COMMITTED
  | K_TRANSMISSION_ALLOCATED
  | K_EVIDENCE_RECORDED
  | K_RECONCILED

record EffectRecord =
  er_record :: ExactHead
  er_command :: CommandIdentity
  er_predecessor :: "ExactHead option"
  er_kind :: RecordKind
  er_snapshot :: EffectSnapshot
  er_source_command :: bytes

record EffectStoreSnapshot =
  es_tenant_id :: string
  es_tenant_head :: nat
  es_records :: "EffectRecord list"

record PreparedEffectPublication =
  pe_record :: EffectRecord
  pe_exact_companion_manifest :: "ExactHead list"
  pe_expected_store :: EffectStoreSnapshot

datatype EffectCode =
    CONFLICT | STALE | DENIED | INDETERMINATE | RECOVERY_HOLD
  | DISPATCH_VERSION_DENIED | DISPATCH_VERSION_HOLD

text \<open>What the preparation raises: \<open>EffectRuleViolation(code, reason)\<close>, or pydantic's own error when
  a constructed model breaks a declared field constraint.\<close>

datatype EffectError = EffectRuleViolation EffectCode string | ValidationError

record CurrentEffectInputs =
  cu_command_id :: string
  cu_command_fingerprint :: string
  cu_store_frontier :: nat
  cu_observed_time_ns :: int
  cu_authority :: AuthorityBinding
  cu_supported_semantics :: "DispatchSemanticBinding option"
  cu_fence :: WorkerFence
  cu_authority_decision :: ExactHead
  cu_blocking_effect_heads :: "ExactHead list"
  cu_current_original_ambiguity_heads :: "ExactHead list"
  cu_initialized_call :: "ExactHead option"
  cu_active_run_head :: "string option"
  cu_independently_verified_safe_proof :: "SafeRetransmission option"
  cu_authenticated_evidence :: "RecordEvidenceCommand option"
  cu_original_reducer_semantics :: "DispatchSemanticBinding option"
  cu_authorized_reconciler :: "ExactHead option"

text \<open>
  \<open>model_dump(mode="json")\<close> of the classes whose content the owner hashes. The serialiser is
  pydantic's, a third-party package: it is a parameter of every operation that hashes.
\<close>

record EffectDumps =
  dump_head :: "ExactHead \<Rightarrow> json"
  dump_semantics :: "DispatchSemanticBinding \<Rightarrow> json"
  dump_intent :: "ExternalActionIntent \<Rightarrow> json"
  dump_identity :: "CommandIdentity \<Rightarrow> json"
  dump_command :: "EffectCommand \<Rightarrow> json"
  dump_opening :: "OpenEffectObligation \<Rightarrow> json"
  dump_snapshot :: "EffectSnapshot \<Rightarrow> json"

end
