(* ===== verification/Effects_Domain.thy ===== *)
theory Effects_Domain
  imports Effects_Contracts
begin

text \<open>
  The dispatch algebra of the effect owner (\<open>capabilities/effects/domain.py\<close>): the transition
  registry with its writer roles, the authority and semantics checks, the reduction of child
  evidence to an outcome, and the safe-retransmission rule. The lemmas characterise each check by
  what it accepts and tie the reducer to the registry.
\<close>

section \<open>The transition registry\<close>

definition TERMINAL_STATES :: "AttemptState set" where
  "TERMINAL_STATES =
     {CONFIRMED, FAILED_NO_EFFECT, PARTIAL_CONFIRMED, CANCELLED_BEFORE_SEND, SUPERSEDED_BEFORE_SEND}"

definition PRE_SEND_STATES :: "AttemptState set" where
  "PRE_SEND_STATES = {INTENT_RECORDED, HELD_BEFORE_SEND, DISPATCH_AUTHORIZED}"

definition RETRANSMISSION_STATES :: "AttemptState set" where
  "RETRANSMISSION_STATES = {SEND_COMMITTED, SENT, OUTCOME_UNKNOWN}"

fun transitions :: "AttemptState \<Rightarrow> AttemptState set" where
  "transitions INTENT_RECORDED =
     {HELD_BEFORE_SEND, CANCELLED_BEFORE_SEND, SUPERSEDED_BEFORE_SEND, DISPATCH_AUTHORIZED}"
| "transitions HELD_BEFORE_SEND =
     {DISPATCH_AUTHORIZED, CANCELLED_BEFORE_SEND, SUPERSEDED_BEFORE_SEND}"
| "transitions DISPATCH_AUTHORIZED =
     {HELD_BEFORE_SEND, CANCELLED_BEFORE_SEND, SUPERSEDED_BEFORE_SEND, SEND_COMMITTED}"
| "transitions SEND_COMMITTED = {SENT, CONFIRMED, FAILED_NO_EFFECT, OUTCOME_UNKNOWN, PARTIAL}"
| "transitions SENT = {CONFIRMED, FAILED_NO_EFFECT, OUTCOME_UNKNOWN, PARTIAL}"
| "transitions OUTCOME_UNKNOWN = {CONFIRMED, FAILED_NO_EFFECT, PARTIAL_CONFIRMED}"
| "transitions PARTIAL = {CONFIRMED, FAILED_NO_EFFECT, PARTIAL_CONFIRMED}"
| "transitions CONFIRMED = {}"
| "transitions FAILED_NO_EFFECT = {}"
| "transitions PARTIAL_CONFIRMED = {}"
| "transitions CANCELLED_BEFORE_SEND = {}"
| "transitions SUPERSEDED_BEFORE_SEND = {}"

lemmas state_sets = TERMINAL_STATES_def PRE_SEND_STATES_def RETRANSMISSION_STATES_def

datatype WriterRole = SEND_ADAPTER | AUTHENTICATED_EVIDENCE | AUTHORIZED_RECONCILER

text \<open>The states and roles are closed types here, so the two \<open>unknown\<close> guards of the source cannot
  fire.\<close>

definition require_transition ::
  "AttemptState \<Rightarrow> AttemptState \<Rightarrow> WriterRole \<Rightarrow> bool \<Rightarrow> (EffectError, unit) result" where
  "require_transition prior proposed writer new_child =
     (if prior \<in> TERMINAL_STATES
        then Inl (EffectRuleViolation CONFLICT ''original attempt is terminal'')
      else if new_child \<and> proposed = prior
        then (if prior \<notin> RETRANSMISSION_STATES \<or> writer \<noteq> SEND_ADAPTER
              then Inl (EffectRuleViolation DENIED
                     ''child allocation outside safe retransmission branch'')
              else Inr ())
      else if proposed \<notin> transitions prior
        then Inl (EffectRuleViolation DENIED ''transition absent from exact VISION registry'')
      else if prior \<in> PRE_SEND_STATES
        then (if writer \<noteq> SEND_ADAPTER
              then Inl (EffectRuleViolation DENIED ''only send adapter owns pre-send transitions'')
              else if new_child \<noteq> (proposed = SEND_COMMITTED)
              then Inl (EffectRuleViolation DENIED ''first child and SEND_COMMITTED must be atomic'')
              else Inr ())
      else if writer = SEND_ADAPTER \<or> new_child
        then Inl (EffectRuleViolation DENIED
               ''outcome transition requires evidence-driven successor'')
      else Inr ())"

definition require_semantics ::
  "DispatchSemanticBinding \<Rightarrow> DispatchSemanticBinding option \<Rightarrow> bool \<Rightarrow> (EffectError, unit) result"
where
  "require_semantics actual supported durable =
     (if supported = None \<or> Some actual \<noteq> supported
      then Inl (EffectRuleViolation
             (if durable then DISPATCH_VERSION_HOLD else DISPATCH_VERSION_DENIED)
             ''complete bound dispatch semantics unavailable or unequal'')
      else Inr ())"

definition require_current_authority ::
  "ExternalActionIntent \<Rightarrow> AuthorityBinding \<Rightarrow> int \<Rightarrow> (EffectError, unit) result" where
  "require_current_authority intent current now_ns =
     (if now_ns < 0 \<or> in_authority intent \<noteq> current
        then Inl (EffectRuleViolation STALE ''complete intent/current authority binding differs'')
      else if ab_valid_until_ns current \<le> now_ns
          \<or> list_ex (\<lambda>row. ar_valid_until_ns row \<le> now_ns) (ab_reads current)
        then Inl (EffectRuleViolation STALE ''authority or an authority read expired at boundary'')
      else if sha256_hex (in_payload intent) \<noteq> in_effect_fingerprint intent
        then Inl (EffectRuleViolation DENIED ''payload differs from exact effect fingerprint'')
      else Inr ())"

section \<open>Reduction of child evidence\<close>

datatype MemberOutcome = M_OCCURRED | M_PERMANENTLY_INCAPABLE | M_POSSIBLE | M_ABSENCE_OBSERVED

record ChildMemberEvidence =
  me_evidence :: ExactHead
  me_child :: ExactHead
  me_member :: ExactHead
  me_outcome :: MemberOutcome

type_synonym evidence_ids = "string \<Rightarrow> ExactHead option"
type_synonym observed_map = "ExactHead \<times> ExactHead \<Rightarrow> MemberOutcome set"

text \<open>One pass of the loop over the observations: the two dictionaries are threaded through.\<close>

definition observe_row ::
  "ExactHead list \<Rightarrow> ExactHead list \<Rightarrow> ChildMemberEvidence \<Rightarrow> evidence_ids \<times> observed_map
     \<Rightarrow> (EffectError, evidence_ids \<times> observed_map) result" where
  "observe_row child_refs members row st =
     (let (ids, observed) = st in
      if me_child row \<notin> set child_refs \<or> me_member row \<notin> set members
        then Inl (EffectRuleViolation CONFLICT
               ''evidence substitutes unknown child or effect member'')
      else
        let sid = eh_subject_id (me_evidence row);
            previous = (case ids sid of None \<Rightarrow> me_evidence row | Some p \<Rightarrow> p)
        in if previous \<noteq> me_evidence row
           then Inl (EffectRuleViolation CONFLICT ''rival evidence identity'')
           else Inr (ids(sid \<mapsto> previous),
                     observed((me_child row, me_member row) :=
                       insert (me_outcome row) (observed (me_child row, me_member row)))))"

text \<open>One pass of the loop over the members: \<open>(occurred, incapable, uncertain)\<close>.\<close>

definition tally_member ::
  "ExactHead list \<Rightarrow> observed_map \<Rightarrow> ExactHead \<Rightarrow> nat \<times> nat \<times> bool \<Rightarrow> nat \<times> nat \<times> bool" where
  "tally_member child_refs observed member acc =
     (let (occurred, incapable, uncertain) = acc;
          child_states = map (\<lambda>child. observed (child, member)) child_refs
      in if list_ex (\<lambda>s. {M_OCCURRED, M_PERMANENTLY_INCAPABLE} \<subseteq> s) child_states
           then (occurred, incapable, True)
         else if list_ex (\<lambda>s. s \<inter> {M_OCCURRED, M_PERMANENTLY_INCAPABLE} = {}) child_states
           then ((if list_ex (\<lambda>s. M_OCCURRED \<in> s) child_states then occurred + 1 else occurred),
                 incapable, True)
         else if list_ex (\<lambda>s. M_OCCURRED \<in> s) child_states
           then (occurred + 1, incapable, uncertain)
         else (occurred, incapable + 1, uncertain))"

text \<open>The comparison of a child with the first one, and the final decision.\<close>

definition same_binding :: "TransmissionAttempt \<Rightarrow> TransmissionAttempt \<Rightarrow> bool" where
  "same_binding first child \<longleftrightarrow>
     ta_intent child = ta_intent first
     \<and> ta_semantics child = ta_semantics first
     \<and> ta_payload_fingerprint child = ta_payload_fingerprint first
     \<and> ta_recipient child = ta_recipient first
     \<and> ta_idempotency_fence_key child = ta_idempotency_fence_key first"

fun settle :: "AttemptState \<Rightarrow> nat \<Rightarrow> nat \<times> nat \<times> bool \<Rightarrow> AttemptState" where
  "settle prior n (occurred, incapable, uncertain) =
     (if uncertain
        then (if prior \<in> {OUTCOME_UNKNOWN, PARTIAL} then prior
              else if occurred \<noteq> 0 \<and> 1 < n then PARTIAL else OUTCOME_UNKNOWN)
      else if occurred = n then CONFIRMED
      else if incapable = n then FAILED_NO_EFFECT
      else if prior \<in> {OUTCOME_UNKNOWN, PARTIAL} then PARTIAL_CONFIRMED else PARTIAL)"

definition reduce_child_evidence ::
  "AttemptState \<Rightarrow> TransmissionAttempt list \<Rightarrow> ExactHead list \<Rightarrow> ChildMemberEvidence list
     \<Rightarrow> (EffectError, AttemptState) result" where
  "reduce_child_evidence prior children members observations =
     (if prior \<notin> {SEND_COMMITTED, SENT, OUTCOME_UNKNOWN, PARTIAL}
        then Inl (EffectRuleViolation DENIED
               ''evidence reducer requires a crossed nonterminal attempt'')
      else if children = [] \<or> members = []
        then Inl (EffectRuleViolation RECOVERY_HOLD
               ''empty child or inseparable effect manifest'')
      else
        let child_refs = map ta_transmission children in
        if \<not> distinct child_refs \<or> \<not> distinct members
          then Inl (EffectRuleViolation CONFLICT ''duplicate child or effect member'')
        else if map ta_ordinal children \<noteq> [0..<length children]
          then Inl (EffectRuleViolation RECOVERY_HOLD
                 ''incomplete or reordered retained child ordinals'')
        else if list_ex (\<lambda>child. \<not> same_binding (hd children) child) children
          then Inl (EffectRuleViolation CONFLICT
                 ''child intent/binding/target differs within logical attempt'')
        else
          rbind (rfold (observe_row child_refs members) observations (\<lambda>_. None, \<lambda>_. {}))
            (\<lambda>(ids, observed). Inr (settle prior (length members)
               (fold (tally_member child_refs observed) members (0, 0, False)))))"

section \<open>Safe retransmission and fresh originals\<close>

definition require_safe_retransmission ::
  "AttemptState \<Rightarrow> ExternalActionIntent \<Rightarrow> TransmissionAttempt list \<Rightarrow> SafeRetransmission
     \<Rightarrow> SafeRetransmission option \<Rightarrow> AuthorityBinding \<Rightarrow> DispatchSemanticBinding option \<Rightarrow> int
     \<Rightarrow> (EffectError, unit) result" where
  "require_safe_retransmission state intent children request
       independently_verified_proof current_authority supported_semantics now_ns =
     rbind (require_transition state state SEND_ADAPTER True) (\<lambda>_.
     rbind (require_semantics (in_semantics intent) supported_semantics True) (\<lambda>_.
     rbind (require_current_authority intent current_authority now_ns) (\<lambda>_.
      if Some request \<noteq> independently_verified_proof
        then Inl (EffectRuleViolation RECOVERY_HOLD
               ''no independently issued exact safe-retransmission proof'')
      else if children = [] \<or> map ta_ordinal children \<noteq> [0..<length children]
        then Inl (EffectRuleViolation RECOVERY_HOLD ''complete retained ordinal lineage required'')
      else if sr_ordinal request \<noteq> length children
          \<or> sr_prior_children request \<noteq> map ta_transmission children
        then Inl (EffectRuleViolation STALE
               ''safe proof omits, reorders, or substitutes a prior child'')
      else if sr_covered_effect_fingerprint request \<noteq> in_effect_fingerprint intent
          \<or> \<not> (sr_coverage_starts_ns request \<le> now_ns \<and> now_ns < sr_coverage_expires_ns request)
          \<or> list_ex (\<lambda>child.
                ta_semantics child \<noteq> in_semantics intent
              \<or> eh_subject_id (ta_intent child) \<noteq> in_intent_id intent
              \<or> eh_fingerprint (ta_intent child) \<noteq> in_fingerprint intent
              \<or> ta_payload_fingerprint child \<noteq> in_effect_fingerprint intent
              \<or> ta_recipient child \<noteq> ab_recipient (in_authority intent)
              \<or> ta_idempotency_fence_key child \<noteq> in_idempotency_fence_key intent) children
        then Inl (EffectRuleViolation RECOVERY_HOLD
               ''proof does not cover current exact effect and interval'')
      else if list_ex (\<lambda>child. now_ns < ta_dispatch_time_ns child) children
        then Inl (EffectRuleViolation RECOVERY_HOLD
               ''child dispatch lies beyond current proof cut'')
      else if sr_proof_kind request = PROVIDER_IDEMPOTENCY_COVERS_ALL
          \<and> list_ex (\<lambda>child. \<not> (sr_coverage_starts_ns request \<le> ta_dispatch_time_ns child
                \<and> ta_dispatch_time_ns child < sr_coverage_expires_ns request)) children
        then Inl (EffectRuleViolation RECOVERY_HOLD
               ''provider coverage excludes an earlier transmission'')
      else Inr ())))"

definition require_fresh_recovery_originals ::
  "ExternalActionIntent \<Rightarrow> ExactHead list \<Rightarrow> (EffectError, unit) result" where
  "require_fresh_recovery_originals intent current_originals =
     rbind
       (case in_purpose intent of
          COMPENSATION p \<Rightarrow> Inr [oa_ambiguity_reconciliation_head (co_original p)]
        | AUTHORIZE_DUPLICATE_RISK p \<Rightarrow>
            Inr (map oa_ambiguity_reconciliation_head (dr_unresolved_attempts p))
        | _ \<Rightarrow> Inl (EffectRuleViolation DENIED
                 ''ordinary intent cannot borrow recovery authorization''))
       (\<lambda>expected.
          if expected = [] \<or> expected \<noteq> current_originals \<or> \<not> distinct expected
          then Inl (EffectRuleViolation STALE
                 ''original ambiguity resolved, changed, duplicated or omitted'')
          else Inr ())"

section \<open>What the checks accept\<close>

lemma require_semantics_ok [simp]:
  "require_semantics actual supported durable = Inr u \<longleftrightarrow> supported = Some actual"
  by (auto simp: require_semantics_def)

lemma require_current_authority_ok:
  "require_current_authority intent current now_ns = Inr u \<longleftrightarrow>
     0 \<le> now_ns \<and> in_authority intent = current \<and> now_ns < ab_valid_until_ns current
     \<and> (\<forall>row \<in> set (ab_reads current). now_ns < ar_valid_until_ns row)
     \<and> sha256_hex (in_payload intent) = in_effect_fingerprint intent"
  by (auto simp: require_current_authority_def list_ex_iff not_less)

text \<open>
  The registry as a relation: which step each writer may take, with or without a new child.
\<close>

inductive dispatch_step :: "WriterRole \<Rightarrow> bool \<Rightarrow> AttemptState \<Rightarrow> AttemptState \<Rightarrow> bool" where
  authorize: "s \<in> {INTENT_RECORDED, HELD_BEFORE_SEND} \<Longrightarrow>
     dispatch_step SEND_ADAPTER False s DISPATCH_AUTHORIZED"
| hold: "s \<in> {INTENT_RECORDED, DISPATCH_AUTHORIZED} \<Longrightarrow>
     dispatch_step SEND_ADAPTER False s HELD_BEFORE_SEND"
| withdraw: "s \<in> PRE_SEND_STATES \<Longrightarrow> t \<in> {CANCELLED_BEFORE_SEND, SUPERSEDED_BEFORE_SEND} \<Longrightarrow>
     dispatch_step SEND_ADAPTER False s t"
| first_child: "dispatch_step SEND_ADAPTER True DISPATCH_AUTHORIZED SEND_COMMITTED"
| later_child: "s \<in> RETRANSMISSION_STATES \<Longrightarrow> dispatch_step SEND_ADAPTER True s s"
| sent: "w \<noteq> SEND_ADAPTER \<Longrightarrow> dispatch_step w False SEND_COMMITTED SENT"
| uncertain: "w \<noteq> SEND_ADAPTER \<Longrightarrow> s \<in> {SEND_COMMITTED, SENT} \<Longrightarrow> t \<in> {OUTCOME_UNKNOWN, PARTIAL} \<Longrightarrow>
     dispatch_step w False s t"
| settled: "w \<noteq> SEND_ADAPTER \<Longrightarrow> s \<in> {SEND_COMMITTED, SENT, OUTCOME_UNKNOWN, PARTIAL} \<Longrightarrow>
     t \<in> {CONFIRMED, FAILED_NO_EFFECT} \<Longrightarrow> dispatch_step w False s t"
| settled_partial: "w \<noteq> SEND_ADAPTER \<Longrightarrow> s \<in> {OUTCOME_UNKNOWN, PARTIAL} \<Longrightarrow>
     dispatch_step w False s PARTIAL_CONFIRMED"

inductive_simps dispatch_step_from: "dispatch_step w b s t"

inductive_cases terminal_stepE:
  "dispatch_step w b CONFIRMED t"
  "dispatch_step w b FAILED_NO_EFFECT t"
  "dispatch_step w b PARTIAL_CONFIRMED t"
  "dispatch_step w b CANCELLED_BEFORE_SEND t"
  "dispatch_step w b SUPERSEDED_BEFORE_SEND t"

lemma require_transition_dispatch_step:
  "require_transition s t w b = Inr u \<longleftrightarrow> dispatch_step w b s t"
  by (cases s; cases t; cases w; cases b)
     (simp_all add: require_transition_def state_sets dispatch_step_from)

lemma no_step_from_terminal: "s \<in> TERMINAL_STATES \<Longrightarrow> \<not> dispatch_step w b s t"
  by (auto simp: state_sets elim: terminal_stepE)

section \<open>What the reducer computes\<close>

text \<open>
  The reduction read off the observations: \<open>saw obs c m k\<close> says some evidence reports outcome \<open>k\<close> of
  member \<open>m\<close> by child \<open>c\<close>. A member is decided when every child has exactly one of the two positive
  terminal reports.
\<close>

definition saw ::
  "ChildMemberEvidence list \<Rightarrow> ExactHead \<Rightarrow> ExactHead \<Rightarrow> MemberOutcome \<Rightarrow> bool" where
  "saw obs c m k \<longleftrightarrow>
     list_ex (\<lambda>row. me_child row = c \<and> me_member row = m \<and> me_outcome row = k) obs"

definition contradicted :: "ChildMemberEvidence list \<Rightarrow> ExactHead list \<Rightarrow> ExactHead \<Rightarrow> bool" where
  "contradicted obs cs m \<longleftrightarrow>
     list_ex (\<lambda>c. saw obs c m M_OCCURRED \<and> saw obs c m M_PERMANENTLY_INCAPABLE) cs"

definition decided :: "ChildMemberEvidence list \<Rightarrow> ExactHead list \<Rightarrow> ExactHead \<Rightarrow> bool" where
  "decided obs cs m \<longleftrightarrow>
     list_all (\<lambda>c. saw obs c m M_OCCURRED \<noteq> saw obs c m M_PERMANENTLY_INCAPABLE) cs"

definition happened :: "ChildMemberEvidence list \<Rightarrow> ExactHead list \<Rightarrow> ExactHead \<Rightarrow> bool" where
  "happened obs cs m \<longleftrightarrow> list_ex (\<lambda>c. saw obs c m M_OCCURRED) cs"

definition reduced_outcome ::
  "AttemptState \<Rightarrow> ExactHead list \<Rightarrow> ExactHead list \<Rightarrow> ChildMemberEvidence list \<Rightarrow> AttemptState" where
  "reduced_outcome prior cs ms obs =
     (if \<not> list_all (decided obs cs) ms
        then (if prior \<in> {OUTCOME_UNKNOWN, PARTIAL} then prior
              else if list_ex (\<lambda>m. happened obs cs m \<and> \<not> contradicted obs cs m) ms
                  \<and> 1 < length ms then PARTIAL
              else OUTCOME_UNKNOWN)
      else if list_all (happened obs cs) ms then CONFIRMED
      else if \<not> list_ex (happened obs cs) ms then FAILED_NO_EFFECT
      else if prior \<in> {OUTCOME_UNKNOWN, PARTIAL} then PARTIAL_CONFIRMED else PARTIAL)"

text \<open>The retained lineage of one logical attempt, and evidence that is about it.\<close>

definition child_lineage :: "TransmissionAttempt list \<Rightarrow> bool" where
  "child_lineage children \<longleftrightarrow>
     children \<noteq> [] \<and> distinct (map ta_transmission children)
     \<and> map ta_ordinal children = [0..<length children]
     \<and> list_all (same_binding (hd children)) children"

definition evidence_about ::
  "ExactHead list \<Rightarrow> ExactHead list \<Rightarrow> ChildMemberEvidence list \<Rightarrow> bool" where
  "evidence_about cs ms obs \<longleftrightarrow>
     list_all (\<lambda>row. me_child row \<in> set cs \<and> me_member row \<in> set ms) obs
     \<and> list_all (\<lambda>row. list_all (\<lambda>row'.
          eh_subject_id (me_evidence row) = eh_subject_id (me_evidence row') \<longrightarrow>
          me_evidence row = me_evidence row') obs) obs"

lemma agree_insert:
  "(\<forall>a \<in> insert x S. \<forall>b \<in> insert x S. k a = k b \<longrightarrow> f a = f b) \<longleftrightarrow>
     (\<forall>a \<in> S. \<forall>b \<in> S. k a = k b \<longrightarrow> f a = f b) \<and> (\<forall>r \<in> S. k x = k r \<longrightarrow> f x = f r)"
proof
  assume "\<forall>a \<in> insert x S. \<forall>b \<in> insert x S. k a = k b \<longrightarrow> f a = f b"
  then show "(\<forall>a \<in> S. \<forall>b \<in> S. k a = k b \<longrightarrow> f a = f b) \<and> (\<forall>r \<in> S. k x = k r \<longrightarrow> f x = f r)"
    by blast
next
  assume "(\<forall>a \<in> S. \<forall>b \<in> S. k a = k b \<longrightarrow> f a = f b) \<and> (\<forall>r \<in> S. k x = k r \<longrightarrow> f x = f r)"
  then show "\<forall>a \<in> insert x S. \<forall>b \<in> insert x S. k a = k b \<longrightarrow> f a = f b"
    by (metis insert_iff)
qed

lemma evidence_about_Cons:
  "evidence_about cs ms (row # obs) \<longleftrightarrow>
     me_child row \<in> set cs \<and> me_member row \<in> set ms \<and> evidence_about cs ms obs
     \<and> (\<forall>r \<in> set obs. eh_subject_id (me_evidence row) = eh_subject_id (me_evidence r) \<longrightarrow>
          me_evidence row = me_evidence r)"
  unfolding evidence_about_def list_all_iff list.set agree_insert by auto

lemma observe_rows:
  "(\<exists>ids'. rfold (observe_row cs ms) obs (ids, ob) = Inr (ids', ob')) \<longleftrightarrow>
     evidence_about cs ms obs
     \<and> (\<forall>row \<in> set obs. \<forall>p. ids (eh_subject_id (me_evidence row)) = Some p \<longrightarrow> p = me_evidence row)
     \<and> ob' = (\<lambda>(c, m). ob (c, m) \<union> {k. saw obs c m k})"
proof (induction obs arbitrary: ids ob)
  case Nil
  show ?case by (auto simp: evidence_about_def saw_def)
next
  case (Cons row obs)
  let ?sid = "eh_subject_id (me_evidence row)"
  let ?ok = "me_child row \<in> set cs \<and> me_member row \<in> set ms
    \<and> (\<forall>p. ids ?sid = Some p \<longrightarrow> p = me_evidence row)"
  let ?ob = "ob((me_child row, me_member row) :=
               insert (me_outcome row) (ob (me_child row, me_member row)))"
  have step: "observe_row cs ms row (ids, ob) =
      (if ?ok then Inr (ids(?sid \<mapsto> me_evidence row), ?ob)
       else observe_row cs ms row (ids, ob))"
    by (auto simp: observe_row_def Let_def split: option.splits)
  have bad: "\<not> ?ok \<Longrightarrow> observe_row cs ms row (ids, ob) \<noteq> Inr st" for st
    by (auto simp: observe_row_def Let_def split: option.splits)
  have obs_eq: "(\<lambda>(c, m). ?ob (c, m) \<union> {k. saw obs c m k})
      = (\<lambda>(c, m). ob (c, m) \<union> {k. saw (row # obs) c m k})"
    by (auto simp: saw_def fun_eq_iff)
  show ?case
  proof (cases ?ok)
    case True
    have elem: "(\<forall>p. (ids(?sid \<mapsto> me_evidence row)) (eh_subject_id (me_evidence r)) = Some p
            \<longrightarrow> p = me_evidence r) \<longleftrightarrow>
        (?sid = eh_subject_id (me_evidence r) \<longrightarrow> me_evidence row = me_evidence r)
        \<and> (\<forall>p. ids (eh_subject_id (me_evidence r)) = Some p \<longrightarrow> p = me_evidence r)" for r
      using True by (cases "?sid = eh_subject_id (me_evidence r)") auto
    from True have "(\<exists>ids'. rfold (observe_row cs ms) (row # obs) (ids, ob) = Inr (ids', ob')) \<longleftrightarrow>
        (\<exists>ids'. rfold (observe_row cs ms) obs (ids(?sid \<mapsto> me_evidence row), ?ob) = Inr (ids', ob'))"
      using step by simp
    also have "\<dots> \<longleftrightarrow> evidence_about cs ms obs
        \<and> (\<forall>r \<in> set obs. \<forall>p. (ids(?sid \<mapsto> me_evidence row)) (eh_subject_id (me_evidence r)) = Some p
              \<longrightarrow> p = me_evidence r)
        \<and> ob' = (\<lambda>(c, m). ob (c, m) \<union> {k. saw (row # obs) c m k})"
      unfolding Cons.IH obs_eq ..
    also have "\<dots> \<longleftrightarrow> evidence_about cs ms (row # obs)
        \<and> (\<forall>r \<in> set (row # obs). \<forall>p. ids (eh_subject_id (me_evidence r)) = Some p
              \<longrightarrow> p = me_evidence r)
        \<and> ob' = (\<lambda>(c, m). ob (c, m) \<union> {k. saw (row # obs) c m k})"
      unfolding evidence_about_Cons elem using True by auto
    finally show ?thesis .
  next
    case False
    then show ?thesis
      using bad by (auto simp: result_simps evidence_about_Cons)
  qed
qed

lemma tally_members:
  assumes ob: "ob = (\<lambda>(c, m). {k. saw obs c m k})"
  shows "fold (tally_member cs ob) ms (a, b, u) =
     (a + length (filter (\<lambda>m. happened obs cs m \<and> \<not> contradicted obs cs m) ms),
      b + length (filter (\<lambda>m. decided obs cs m \<and> \<not> happened obs cs m) ms),
      u \<or> \<not> list_all (decided obs cs) ms)"
proof (induction ms arbitrary: a b u)
  case Nil
  show ?case by simp
next
  case (Cons m ms)
  have "tally_member cs ob m (a, b, u) =
     (a + (if happened obs cs m \<and> \<not> contradicted obs cs m then 1 else 0),
      b + (if decided obs cs m \<and> \<not> happened obs cs m then 1 else 0), u \<or> \<not> decided obs cs m)"
    unfolding tally_member_def Let_def ob happened_def contradicted_def decided_def
    by (simp add: list_ex_iff list_all_iff) blast
  then show ?case by (simp add: Cons.IH)
qed

lemma length_filter_all: "length (filter P xs) = length xs \<longleftrightarrow> (\<forall>x \<in> set xs. P x)"
  by (metis filter_True length_filter_less order_less_irrefl)

lemma decided_not_contradicted: "decided obs cs m \<Longrightarrow> \<not> contradicted obs cs m"
  by (auto simp: decided_def contradicted_def list_all_iff list_ex_iff)

lemma reduce_child_evidence_eq:
  "reduce_child_evidence prior children ms obs = Inr s \<longleftrightarrow>
     prior \<in> {SEND_COMMITTED, SENT, OUTCOME_UNKNOWN, PARTIAL}
     \<and> child_lineage children \<and> ms \<noteq> [] \<and> distinct ms
     \<and> evidence_about (map ta_transmission children) ms obs
     \<and> s = reduced_outcome prior (map ta_transmission children) ms obs"
proof -
  let ?cs = "map ta_transmission children"
  let ?valid = "prior \<in> {SEND_COMMITTED, SENT, OUTCOME_UNKNOWN, PARTIAL}
     \<and> child_lineage children \<and> ms \<noteq> [] \<and> distinct ms"
  let ?ob = "\<lambda>(c, m). {k. saw obs c m k}"
  let ?rest = "\<lambda>(ids :: evidence_ids, observed).
      (Inr (settle prior (length ms) (fold (tally_member ?cs observed) ms (0, 0, False)))
        :: (EffectError, AttemptState) result)"
  have red: "reduce_child_evidence prior children ms obs =
      rbind (rfold (observe_row ?cs ms) obs (\<lambda>_. None, \<lambda>_. {})) ?rest" if ?valid
    using that
    by (simp add: reduce_child_evidence_def child_lineage_def list_all_iff list_ex_iff Let_def)
  have ok: "?valid" if "reduce_child_evidence prior children ms obs = Inr s"
    using that unfolding reduce_child_evidence_def child_lineage_def Let_def
    by (simp add: list_all_iff list_ex_iff split: if_split_asm)
  have rest: "?rest (ids, ?ob) = Inr (reduced_outcome prior ?cs ms obs)" for ids
  proof (cases "list_all (decided obs ?cs) ms")
    case True
    then have "length (filter (\<lambda>m. happened obs ?cs m \<and> \<not> contradicted obs ?cs m) ms) = length ms
        \<longleftrightarrow> list_all (happened obs ?cs) ms"
      and "length (filter (\<lambda>m. decided obs ?cs m \<and> \<not> happened obs ?cs m) ms) = length ms
        \<longleftrightarrow> \<not> list_ex (happened obs ?cs) ms"
      by (auto simp: length_filter_all list_all_iff list_ex_iff dest: decided_not_contradicted)
    with True show ?thesis
      by (simp add: reduced_outcome_def tally_members [OF refl])
  next
    case False
    then show ?thesis
      by (simp add: reduced_outcome_def tally_members [OF refl] filter_empty_conv list_ex_iff)
  qed
  have fold_iff: "(\<exists>ids'. rfold (observe_row ?cs ms) obs (\<lambda>_. None, \<lambda>_. {}) = Inr (ids', ob')) \<longleftrightarrow>
      evidence_about ?cs ms obs \<and> ob' = ?ob" for ob'
    unfolding observe_rows by auto
  show ?thesis
  proof (cases ?valid)
    case True
    have "rbind (rfold (observe_row ?cs ms) obs (\<lambda>_. None, \<lambda>_. {})) ?rest = Inr s \<longleftrightarrow>
        (\<exists>ob'. (\<exists>ids'. rfold (observe_row ?cs ms) obs (\<lambda>_. None, \<lambda>_. {}) = Inr (ids', ob'))
           \<and> ?rest (\<lambda>_. None, ob') = Inr s)"
      by (auto simp: rbind_eq_Inr)
    also have "\<dots> \<longleftrightarrow> evidence_about ?cs ms obs \<and> s = reduced_outcome prior ?cs ms obs"
      unfolding fold_iff using rest by auto
    finally show ?thesis using True red by auto
  next
    case False
    with ok show ?thesis by blast
  qed
qed

text \<open>The reducer never asks for a step the registry refuses.\<close>

lemma reduced_outcome_step:
  assumes "prior \<in> {SEND_COMMITTED, SENT, OUTCOME_UNKNOWN, PARTIAL}" and "w \<noteq> SEND_ADAPTER"
  shows "reduced_outcome prior cs ms obs = prior
    \<or> dispatch_step w False prior (reduced_outcome prior cs ms obs)"
  using assms by (auto simp: reduced_outcome_def dispatch_step_from)

lemma reduced_outcome_cong:
  "set obs = set obs' \<Longrightarrow> reduced_outcome prior cs ms obs = reduced_outcome prior cs ms obs'"
proof -
  assume "set obs = set obs'"
  then have "saw obs = saw obs'"
    by (auto simp: saw_def list_ex_iff fun_eq_iff)
  then have "decided obs = decided obs'" and "happened obs = happened obs'"
    and "contradicted obs = contradicted obs'"
    by (simp_all add: decided_def happened_def contradicted_def fun_eq_iff)
  then show ?thesis by (simp add: reduced_outcome_def)
qed

lemma evidence_about_cong: "set obs = set obs' \<Longrightarrow> evidence_about cs ms obs = evidence_about cs ms obs'"
  by (simp add: evidence_about_def list_all_iff)

end
