(* ===== verification/Effects_Application.thy ===== *)
theory Effects_Application
  imports Effects_Domain "HOL-Library.AList"
begin

text \<open>
  The owner's preparation of one effect transition (\<open>capabilities/effects/application.py\<close>) over an
  immutable store snapshot and the broker's current inputs. A raised exception is the left summand.
  A Python dictionary is an association list, updated in place or extended at its end as \<open>dict\<close> does.
\<close>

section \<open>Content references\<close>

definition make_ref :: "string \<Rightarrow> json \<Rightarrow> ExactHead" where
  "make_ref identity value =
     (let digest = json_digest value
      in \<lparr>eh_subject_id = identity, eh_head = identity @ ''/'' @ digest, eh_fingerprint = digest\<rparr>)"

text \<open>The reference to an intent, built in several places from its identity and fingerprint.\<close>

definition intent_ref :: "ExternalActionIntent \<Rightarrow> ExactHead" where
  "intent_ref intent =
     \<lparr>eh_subject_id = in_intent_id intent,
      eh_head = in_intent_id intent @ ''/'' @ in_fingerprint intent,
      eh_fingerprint = in_fingerprint intent\<rparr>"

fun state_name :: "AttemptState \<Rightarrow> string" where
  "state_name INTENT_RECORDED = ''INTENT_RECORDED''"
| "state_name HELD_BEFORE_SEND = ''HELD_BEFORE_SEND''"
| "state_name CANCELLED_BEFORE_SEND = ''CANCELLED_BEFORE_SEND''"
| "state_name SUPERSEDED_BEFORE_SEND = ''SUPERSEDED_BEFORE_SEND''"
| "state_name DISPATCH_AUTHORIZED = ''DISPATCH_AUTHORIZED''"
| "state_name SEND_COMMITTED = ''SEND_COMMITTED''"
| "state_name SENT = ''SENT''"
| "state_name CONFIRMED = ''CONFIRMED''"
| "state_name FAILED_NO_EFFECT = ''FAILED_NO_EFFECT''"
| "state_name OUTCOME_UNKNOWN = ''OUTCOME_UNKNOWN''"
| "state_name PARTIAL = ''PARTIAL''"
| "state_name PARTIAL_CONFIRMED = ''PARTIAL_CONFIRMED''"

fun kind_name :: "RecordKind \<Rightarrow> string" where
  "kind_name K_INTENT_ACCEPTED = ''INTENT_ACCEPTED''"
| "kind_name K_PLAN_EFFECT_PUBLISHED = ''PLAN_EFFECT_PUBLISHED''"
| "kind_name K_DELIVERY_PREPARED = ''DELIVERY_PREPARED''"
| "kind_name K_RECOVERY_INTENT_PUBLISHED = ''RECOVERY_INTENT_PUBLISHED''"
| "kind_name K_DISPATCH_AUTHORIZED = ''DISPATCH_AUTHORIZED''"
| "kind_name K_BEFORE_SEND_DISPOSITION = ''BEFORE_SEND_DISPOSITION''"
| "kind_name K_SEND_COMMITTED = ''SEND_COMMITTED''"
| "kind_name K_TRANSMISSION_ALLOCATED = ''TRANSMISSION_ALLOCATED''"
| "kind_name K_EVIDENCE_RECORDED = ''EVIDENCE_RECORDED''"
| "kind_name K_RECONCILED = ''RECONCILED''"

section \<open>The initial snapshot\<close>

definition initial_snapshot ::
  "EffectDumps \<Rightarrow> ExternalActionIntent \<Rightarrow> (EffectError, EffectSnapshot) result" where
  "initial_snapshot d intent =
     (let data = json_del ''fingerprint'' (dump_intent d intent);
          unbound = (case in_purpose intent of
              COMPENSATION p \<Rightarrow>
                ab_act (in_authority intent) \<noteq> EXACT_PROPOSAL_ADOPTION (co_preview_adoption p)
            | AUTHORIZE_DUPLICATE_RISK p \<Rightarrow>
                ab_act (in_authority intent) \<noteq> EXACT_PROPOSAL_ADOPTION (dr_preview_adoption p)
            | _ \<Rightarrow> False)
      in if in_fingerprint intent \<noteq> json_digest data
           then Inl (EffectRuleViolation DENIED
                  ''intent fingerprint does not bind complete owner bytes'')
         else if unbound
           then Inl (EffectRuleViolation DENIED
                  ''recovery intent authority does not bind its exact adopted preview'')
         else Inr \<lparr>sn_intent = intent,
                   sn_attempt = make_ref (in_intent_id intent @ ''/attempt'') data,
                   sn_state = INTENT_RECORDED,
                   sn_authorizations = [],
                   sn_transmissions = [],
                   sn_evidence = [],
                   sn_unresolved_obligations = [],
                   sn_evidence_records = [],
                   sn_recovery_obligation = None\<rparr>)"

section \<open>No replacement of unresolved work\<close>

definition crossed_states :: "AttemptState set" where
  "crossed_states = {SEND_COMMITTED, SENT, OUTCOME_UNKNOWN, PARTIAL}"

text \<open>\<open>{row.snapshot.intent.intent_id: row.snapshot for row in expected.records}\<close>.\<close>

definition latest_snapshots :: "EffectRecord list \<Rightarrow> (string \<times> EffectSnapshot) list" where
  "latest_snapshots records =
     fold (\<lambda>row d. AList.update (in_intent_id (sn_intent (er_snapshot row))) (er_snapshot row) d)
       records []"

definition snapshots_by_head :: "EffectSnapshot list \<Rightarrow> (ExactHead \<times> EffectSnapshot) list" where
  "snapshots_by_head snapshots = fold (\<lambda>s d. AList.update (sn_attempt s) s d) snapshots []"

text \<open>The elementary identity-reset case: crossed work for the same recipient and effect.\<close>

definition same_effect :: "ExternalActionIntent \<Rightarrow> EffectSnapshot \<Rightarrow> bool" where
  "same_effect intent s \<longleftrightarrow>
     sn_state s \<in> crossed_states
     \<and> ab_recipient (in_authority (sn_intent s)) = ab_recipient (in_authority intent)
     \<and> (in_effect_fingerprint (sn_intent s) = in_effect_fingerprint intent
        \<or> in_payload (sn_intent s) = in_payload intent)"

fun purpose_originals :: "EffectPurpose \<Rightarrow> OriginalAmbiguity list" where
  "purpose_originals (COMPENSATION p) = [co_original p]"
| "purpose_originals (AUTHORIZE_DUPLICATE_RISK p) = dr_unresolved_attempts p"
| "purpose_originals _ = []"

definition supplied_blocker ::
  "(ExactHead \<times> EffectSnapshot) list \<Rightarrow> ExactHead \<Rightarrow> (ExactHead \<times> EffectSnapshot) list
     \<Rightarrow> (EffectError, (ExactHead \<times> EffectSnapshot) list) result" where
  "supplied_blocker by_head ref blockers =
     (case map_of by_head ref of
        None \<Rightarrow> Inl (EffectRuleViolation STALE
                 ''blocking effect head is not current unresolved work'')
      | Some s \<Rightarrow>
          if sn_state s \<notin> crossed_states \<union> {PARTIAL_CONFIRMED}
          then Inl (EffectRuleViolation STALE ''blocking effect head is not current unresolved work'')
          else Inr (AList.update ref s blockers))"

definition blocker_ambiguity :: "EffectSnapshot \<Rightarrow> ExactHead" where
  "blocker_ambiguity s =
     (case sn_recovery_obligation s of Some ob \<Rightarrow> obligation_head ob | None \<Rightarrow> sn_attempt s)"

definition match_blocker ::
  "ExternalActionIntent \<Rightarrow> OriginalAmbiguity list \<Rightarrow> EffectSnapshot \<Rightarrow> OriginalAmbiguity set
     \<Rightarrow> (EffectError, OriginalAmbiguity set) result" where
  "match_blocker intent originals s matched =
     (if in_intent_id (sn_intent s) = in_intent_id intent then Inr matched
      else
        let matches = filter (\<lambda>x. oa_original_intent x = intent_ref (sn_intent s)
               \<and> oa_original_binding x = in_semantics (sn_intent s)
               \<and> oa_ambiguity_reconciliation_head x = blocker_ambiguity s) originals
        in case matches of
             [m] \<Rightarrow> Inr (insert m matched)
           | _ \<Rightarrow> Inl (EffectRuleViolation RECOVERY_HOLD ''unresolved effect blocks replacement action''))"

definition require_no_replacement ::
  "ExternalActionIntent \<Rightarrow> EffectStoreSnapshot \<Rightarrow> CurrentEffectInputs \<Rightarrow> (EffectError, unit) result"
where
  "require_no_replacement intent expected current =
     (let latest = latest_snapshots (es_records expected);
          by_head = snapshots_by_head (map snd latest);
          supplied = cu_blocking_effect_heads current;
          originals = purpose_originals (in_purpose intent)
      in if \<not> distinct supplied
           then Inl (EffectRuleViolation STALE ''duplicate blocking effect heads'')
         else
           rbind (rfold (supplied_blocker by_head) supplied []) (\<lambda>blockers0.
           let blockers = fold (\<lambda>s b. if same_effect intent s then AList.update (sn_attempt s) s b else b)
                 (map snd latest) blockers0
           in rbind (if originals = [] then Inr ()
                     else require_fresh_recovery_originals intent
                            (cu_current_original_ambiguity_heads current)) (\<lambda>_.
              rbind (rfold (match_blocker intent originals) (map snd blockers) {}) (\<lambda>matched.
              if originals \<noteq> [] \<and> set originals \<noteq> matched
                then Inl (EffectRuleViolation STALE
                       ''recovery preview does not match current blocking effects'')
              else Inr ()))))"

section \<open>Binding a record\<close>

definition open_obligation ::
  "EffectDumps \<Rightarrow> EffectCommand \<Rightarrow> EffectRecord \<Rightarrow> EffectSnapshot \<Rightarrow> OpenEffectObligation" where
  "open_obligation d command previous s =
     (let children = map ta_transmission (sn_transmissions s);
          ref = intent_ref (sn_intent s);
          opening = make_ref (in_intent_id (sn_intent s) @ ''/reconciliation'')
            (JObj [(''intent'', dump_head d ref),
                   (''original_attempt'', dump_head d (sn_attempt (er_snapshot previous))),
                   (''children'', JArr (map (dump_head d) children)),
                   (''semantics'', dump_semantics d (in_semantics (sn_intent s))),
                   (''command_id'', JStr (ci_command_id (command_identity command)))])
      in \<lparr>oo_obligation = opening,
          oo_intent = ref,
          oo_original_attempt = sn_attempt (er_snapshot previous),
          oo_original_crossed_children = children,
          oo_semantics = in_semantics (sn_intent s),
          oo_safe_actions =
            [AUTHENTICATED_PROVIDER_READ, BOUND_RECONCILIATION, EXPLICIT_RECOVERY_AUTHORIZATION],
          oo_denied_actions = [BLIND_RETRY, CONFLICTING_REPLACEMENT, DEPENDENT_CONTINUATION]\<rparr>)"

definition close_obligation ::
  "EffectDumps \<Rightarrow> OpenEffectObligation \<Rightarrow> EffectSnapshot \<Rightarrow> ClosedEffectObligation" where
  "close_obligation d opening s =
     (let children = map ta_transmission (sn_transmissions s);
          closure = make_ref (eh_subject_id (oo_obligation opening))
            (JObj [(''opening'', dump_opening d opening),
                   (''evidence'', JArr (map (dump_head d) (sn_evidence s))),
                   (''children'', JArr (map (dump_head d) children)),
                   (''outcome'', JStr (state_name (sn_state s)))])
      in \<lparr>cl_obligation = closure,
          cl_opening = opening,
          cl_closure_evidence = sn_evidence s,
          cl_complete_children = children,
          cl_outcome = sn_state s,
          cl_semantics = in_semantics (sn_intent s)\<rparr>)"

text \<open>The obligation of the new record: opened when the outcome becomes unknown or partial, closed
  when it settles. \<open>ClosedEffectObligation\<close> declares \<open>min_length=1\<close> for its evidence and children.\<close>

definition next_obligation ::
  "EffectDumps \<Rightarrow> EffectCommand \<Rightarrow> EffectRecord option \<Rightarrow> EffectSnapshot
     \<Rightarrow> (EffectError, EffectRecoveryObligation option) result" where
  "next_obligation d command previous s =
     (case sn_recovery_obligation s of
        None \<Rightarrow>
          if sn_state s \<in> {OUTCOME_UNKNOWN, PARTIAL}
          then (case previous of
                  None \<Rightarrow> Inl (EffectRuleViolation RECOVERY_HOLD
                           ''unknown outcome lacks original crossed lineage'')
                | Some p \<Rightarrow>
                    if sn_transmissions s = []
                    then Inl (EffectRuleViolation RECOVERY_HOLD
                           ''unknown outcome lacks original crossed lineage'')
                    else Inr (Some (OPEN (open_obligation d command p s))))
          else Inr None
      | Some (OPEN opening) \<Rightarrow>
          if sn_state s \<in> {CONFIRMED, FAILED_NO_EFFECT, PARTIAL_CONFIRMED}
          then (if sn_evidence s = [] \<or> sn_transmissions s = [] then Inl ValidationError
                else Inr (Some (CLOSED (close_obligation d opening s))))
          else Inr (Some (OPEN opening))
      | Some (CLOSED c) \<Rightarrow> Inr (Some (CLOSED c)))"

definition bind_record ::
  "EffectDumps \<Rightarrow> EffectCommand \<Rightarrow> EffectStoreSnapshot \<Rightarrow> EffectRecord option \<Rightarrow> EffectSnapshot
     \<Rightarrow> RecordKind \<Rightarrow> ExactHead list \<Rightarrow> (EffectError, PreparedEffectPublication) result" where
  "bind_record d command expected previous s kind companions =
     rbind (next_obligation d command previous s) (\<lambda>obligation.
       let s1 = s\<lparr>sn_recovery_obligation := obligation,
                  sn_unresolved_obligations :=
                    (case obligation of
                       Some ob \<Rightarrow> if is_open ob then [obligation_head ob] else []
                     | None \<Rightarrow> [])\<rparr>;
           pred = map_option er_record previous;
           identity = command_identity command;
           attempt = make_ref (in_intent_id (sn_intent s1) @ ''/attempt'')
             (JObj [(''command'', dump_identity d identity),
                    (''predecessor'', json_opt (dump_head d) pred),
                    (''snapshot'', json_del ''attempt'' (dump_snapshot d s1))]);
           s2 = s1\<lparr>sn_attempt := attempt\<rparr>;
           raw = canonical_json (dump_command d command);
           body = JObj [(''command'', dump_identity d identity),
                        (''predecessor'', json_opt (dump_head d) pred),
                        (''kind'', JStr (kind_name kind)),
                        (''snapshot'', dump_snapshot d s2),
                        (''source_command'', JStr (bytes_hex raw))]
       in Inr \<lparr>pe_record =
                 \<lparr>er_record = make_ref (''effects/'' @ ci_command_id identity) body,
                  er_command = identity,
                  er_predecessor = pred,
                  er_kind = kind,
                  er_snapshot = s2,
                  er_source_command = raw\<rparr>,
               pe_exact_companion_manifest = companions,
               pe_expected_store = expected\<rparr>)"

section \<open>The predecessor of a transition\<close>

fun command_subject ::
  "EffectCommand \<Rightarrow> EffectStoreSnapshot \<Rightarrow> (EffectError, string \<times> ExactHead \<times> ExactHead option) result"
where
  "command_subject (CommitSend c) expected =
     Inr (eh_subject_id (au_intent (cs_authorization c)), cs_expected_attempt c,
          Some (au_intent (cs_authorization c)))"
| "command_subject (RecordEvidence c) expected =
     (case filter (\<lambda>row. sn_attempt (er_snapshot row) = re_expected_attempt c
             \<and> list_ex (\<lambda>child. ta_transmission child = auth_transmission (re_authentication c))
                  (sn_transmissions (er_snapshot row))) (es_records expected) of
        [row] \<Rightarrow> Inr (in_intent_id (sn_intent (er_snapshot row)), re_expected_attempt c,
            (case re_authentication c of
               AUTHENTICATED_PROVIDER_EVIDENCE a \<Rightarrow> Some (ea_intent a)
             | BROKER_TRANSPORT_OBSERVATION a \<Rightarrow> None))
      | _ \<Rightarrow> Inl (EffectRuleViolation STALE ''evidence lacks exact attempt/transmission subject''))"
| "command_subject (AuthorizeDispatch c) expected =
     Inr (eh_subject_id (ad_intent c), ad_expected_attempt c, Some (ad_intent c))"
| "command_subject (BeforeSendDisposition c) expected =
     Inr (eh_subject_id (bs_intent c), bs_expected_attempt c, Some (bs_intent c))"
| "command_subject (ReconcileEffect c) expected =
     Inr (eh_subject_id (rce_intent c), rce_expected_attempt c, Some (rce_intent c))"
| "command_subject _ expected =
     Inl (EffectRuleViolation DENIED ''initial operation cannot read existing attempt'')"

definition previous_record ::
  "EffectCommand \<Rightarrow> EffectStoreSnapshot \<Rightarrow> (EffectError, EffectRecord) result" where
  "previous_record command expected =
     rbind (command_subject command expected) (\<lambda>(intent_id, attempt, supplied_intent).
       let matches = filter (\<lambda>row. in_intent_id (sn_intent (er_snapshot row)) = intent_id)
             (es_records expected)
       in if matches = [] \<or> sn_attempt (er_snapshot (last matches)) \<noteq> attempt
            then Inl (EffectRuleViolation STALE ''exact current logical attempt head missing'')
          else if supplied_intent \<noteq> None
              \<and> supplied_intent \<noteq> Some (intent_ref (sn_intent (er_snapshot (last matches))))
            then Inl (EffectRuleViolation STALE
                   ''logical intent aliases different immutable bytes'')
          else Inr (last matches))"

section \<open>The state the evidence supports\<close>

definition event_rows ::
  "EffectDumps \<Rightarrow> ExactHead list \<Rightarrow> RecordEvidenceCommand \<Rightarrow> ChildMemberEvidence list" where
  "event_rows d members event =
     (let ref = make_ref (re_evidence_id event) (dump_command d (RecordEvidence event));
          row = (\<lambda>child member k. \<lparr>me_evidence = ref, me_child = child, me_member = member,
                   me_outcome = k\<rparr>)
      in concat (map (\<lambda>child. concat (map (\<lambda>member.
           (if member \<in> set (re_occurred_members event) then [row child member M_OCCURRED] else [])
           @ (if member \<in> set (re_permanently_incapable_members event)
              then [row child member M_PERMANENTLY_INCAPABLE] else [])
           @ (if member \<notin> set (re_occurred_members event)
                \<and> member \<notin> set (re_permanently_incapable_members event)
              then [row child member M_POSSIBLE] else [])) members))
         (re_covered_children event)))"

definition event_exact :: "ExactHead list \<Rightarrow> ExactHead list \<Rightarrow> RecordEvidenceCommand \<Rightarrow> bool" where
  "event_exact children members event \<longleftrightarrow>
     list_all (\<lambda>(supplied, allowed). distinct supplied \<and> set supplied \<subseteq> set allowed)
       [(re_covered_children event, children),
        (re_occurred_members event, members),
        (re_permanently_incapable_members event, members)]"

definition evidence_state ::
  "EffectDumps \<Rightarrow> EffectSnapshot \<Rightarrow> (EffectError, AttemptState) result" where
  "evidence_state d s =
     (let members = in_inseparable_bundle_members (sn_intent s);
          children = map ta_transmission (sn_transmissions s)
      in rbind (rfold (\<lambda>event rows.
            if \<not> event_exact children members event
            then Inl (EffectRuleViolation CONFLICT
                   ''evidence contains unknown or duplicate exact member'')
            else Inr (rows @ event_rows d members event)) (sn_evidence_records s) [])
          (\<lambda>observations.
             reduce_child_evidence (sn_state s) (sn_transmissions s) members observations))"

section \<open>Preparing a transition\<close>

fun initial_parts :: "EffectCommand \<Rightarrow> (ExternalActionIntent \<times> WorkerFence) option" where
  "initial_parts (AcceptEffect c) = Some (ac_intent c, ac_fence c)"
| "initial_parts (PublishPlanEffect c) = Some (pp_intent c, pp_fence c)"
| "initial_parts (PublishDeliveryIntent c) = Some (pd_intent c, pd_fence c)"
| "initial_parts (PublishRecoveryIntent c) = Some (pri_intent c, pri_fence c)"
| "initial_parts _ = None"

text \<open>What each initial command checks beside the common part; it yields companions and kind.\<close>

fun initial_companions ::
  "EffectCommand \<Rightarrow> CurrentEffectInputs \<Rightarrow> (EffectError, ExactHead list \<times> RecordKind) result" where
  "initial_companions (AcceptEffect c) current =
     (if Some (ac_initialized_call c) \<noteq> cu_initialized_call current
         \<or> cu_active_run_head current = None
         \<or> fence_run_head (ac_fence c) = None
         \<or> fence_run_head (ac_fence c) \<noteq> cu_active_run_head current
      then Inl (EffectRuleViolation STALE
             ''acceptance requires exact initialized call and ACTIVE Run'')
      else Inr (ac_complete_acceptance_manifest c, K_INTENT_ACCEPTED))"
| "initial_companions (PublishPlanEffect c) current =
     Inr (pp_complete_publication_manifest c, K_PLAN_EFFECT_PUBLISHED)"
| "initial_companions (PublishDeliveryIntent c) current =
     (case in_purpose (pd_intent c) of
        DELIVERY b \<Rightarrow>
          if db_acceptance b \<noteq> pd_complete_acceptance c
          then Inl (EffectRuleViolation DENIED
                 ''delivery requires exact CompleteAcceptance companion'')
          else Inr (pd_complete_delivery_manifest c, K_DELIVERY_PREPARED)
      | _ \<Rightarrow> Inl (EffectRuleViolation DENIED
               ''delivery requires exact CompleteAcceptance companion''))"
| "initial_companions (PublishRecoveryIntent c) current =
     rbind (require_fresh_recovery_originals (pri_intent c)
              (cu_current_original_ambiguity_heads current)) (\<lambda>_.
       if pri_original_heads c \<noteq> cu_current_original_ambiguity_heads current
       then Inl (EffectRuleViolation STALE ''recovery creation uses stale original heads'')
       else Inr ([], K_RECOVERY_INTENT_PUBLISHED))"
| "initial_companions _ current =
     Inl (EffectRuleViolation DENIED ''unregistered effect operation'')"

definition prepare_initial ::
  "EffectDumps \<Rightarrow> EffectCommand \<Rightarrow> ExternalActionIntent \<Rightarrow> WorkerFence \<Rightarrow> EffectStoreSnapshot
     \<Rightarrow> CurrentEffectInputs \<Rightarrow> (EffectError, PreparedEffectPublication) result" where
  "prepare_initial d command intent fence expected current =
     (if list_ex (\<lambda>row. in_intent_id (sn_intent (er_snapshot row)) = in_intent_id intent)
           (es_records expected)
        then Inl (EffectRuleViolation CONFLICT ''intent identity already exists'')
      else if fence \<noteq> cu_fence current
        then Inl (EffectRuleViolation STALE ''initial publication fence differs'')
      else
        rbind (require_semantics (in_semantics intent) (cu_supported_semantics current) False) (\<lambda>_.
        rbind (require_current_authority intent (cu_authority current) (cu_observed_time_ns current))
          (\<lambda>_.
        if ab_tenant_id (in_authority intent) \<noteq> es_tenant_id expected
          then Inl (EffectRuleViolation DENIED ''foreign tenant intent'')
        else
          rbind (initial_snapshot d intent) (\<lambda>s.
          rbind (require_no_replacement intent expected current) (\<lambda>_.
          rbind (initial_companions command current) (\<lambda>(companions, kind).
            bind_record d command expected None s kind companions))))))"

definition prepare_authorize ::
  "EffectDumps \<Rightarrow> AuthorizeDispatchCommand \<Rightarrow> EffectSnapshot \<Rightarrow> CurrentEffectInputs
     \<Rightarrow> (EffectError, EffectSnapshot \<times> RecordKind) result" where
  "prepare_authorize d c s current =
     rbind (require_semantics (in_semantics (sn_intent s)) (cu_supported_semantics current) True) (\<lambda>_.
     rbind (require_semantics (ad_semantics c) (Some (in_semantics (sn_intent s))) True) (\<lambda>_.
     rbind (require_current_authority (sn_intent s) (cu_authority current)
              (cu_observed_time_ns current)) (\<lambda>_.
     if ad_current_authority c \<noteq> cu_authority current \<or> ad_fence c \<noteq> cu_fence current
       then Inl (EffectRuleViolation STALE ''authorization current inputs differ'')
     else
       rbind (require_transition (sn_state s) DISPATCH_AUTHORIZED SEND_ADAPTER False) (\<lambda>_.
       let authorization =
         \<lparr>au_authorization = make_ref (''authorization/'' @ ci_command_id (ad_identity c))
            (dump_command d (AuthorizeDispatch c)),
          au_intent = ad_intent c,
          au_expected_attempt = ad_expected_attempt c,
          au_semantics = ad_semantics c,
          au_current_authority = cu_authority current,
          au_fence = cu_fence current\<rparr>
       in Inr (s\<lparr>sn_state := DISPATCH_AUTHORIZED,
                sn_authorizations := sn_authorizations s @ [authorization]\<rparr>,
               K_DISPATCH_AUTHORIZED)))))"

definition prepare_before_send ::
  "BeforeSendDispositionCommand \<Rightarrow> EffectSnapshot \<Rightarrow> CurrentEffectInputs
     \<Rightarrow> (EffectError, EffectSnapshot \<times> RecordKind) result" where
  "prepare_before_send c s current =
     (if bs_fence c \<noteq> cu_fence current
         \<or> bs_current_authority c \<noteq> cu_authority current
         \<or> bs_decision_evidence c \<noteq> cu_authority_decision current
      then Inl (EffectRuleViolation STALE ''disposition inputs differ'')
      else
        rbind (require_transition (sn_state s) (before_send_state (bs_disposition c))
                 SEND_ADAPTER False) (\<lambda>_.
          Inr (s\<lparr>sn_state := before_send_state (bs_disposition c)\<rparr>, K_BEFORE_SEND_DISPOSITION)))"

definition purpose_needs_originals :: "EffectPurpose \<Rightarrow> bool" where
  "purpose_needs_originals p \<longleftrightarrow>
     (case p of COMPENSATION _ \<Rightarrow> True | AUTHORIZE_DUPLICATE_RISK _ \<Rightarrow> True | _ \<Rightarrow> False)"

text \<open>The branch on the transmission kind: new state, coverage proof and record kind.\<close>

definition send_branch ::
  "CommitSendCommand \<Rightarrow> EffectSnapshot \<Rightarrow> CurrentEffectInputs
     \<Rightarrow> (EffectError, AttemptState \<times> ExactHead option \<times> RecordKind) result" where
  "send_branch c s current =
     (case cs_transmission c of
        FIRST_TRANSMISSION \<Rightarrow>
          if au_fence (cs_authorization c) \<noteq> cs_fence c
            then Inl (EffectRuleViolation STALE
                   ''first send authorization belongs to another fence'')
          else if sn_transmissions s \<noteq> []
            then Inl (EffectRuleViolation CONFLICT ''first transmission already allocated'')
          else
            rbind (require_transition (sn_state s) SEND_COMMITTED SEND_ADAPTER True) (\<lambda>_.
              Inr (SEND_COMMITTED, None, K_SEND_COMMITTED))
      | SAFE_RETRANSMISSION r \<Rightarrow>
          rbind (require_safe_retransmission (sn_state s) (sn_intent s) (sn_transmissions s) r
                   (cu_independently_verified_safe_proof current) (cu_authority current)
                   (cu_supported_semantics current) (cu_observed_time_ns current)) (\<lambda>_.
            Inr (sn_state s, Some (sr_proof r), K_TRANSMISSION_ALLOCATED)))"

definition prepare_commit_send ::
  "EffectDumps \<Rightarrow> CommitSendCommand \<Rightarrow> EffectSnapshot \<Rightarrow> CurrentEffectInputs
     \<Rightarrow> (EffectError, EffectSnapshot \<times> RecordKind) result" where
  "prepare_commit_send d c s current =
     (let authorization = cs_authorization c;
          intent = sn_intent s
      in
      if sn_authorizations s = [] \<or> last (sn_authorizations s) \<noteq> authorization
        then Inl (EffectRuleViolation STALE ''send authorization is stale or retired'')
      else if cs_fence c \<noteq> cu_fence current \<or> cs_current_time_ns c \<noteq> cu_observed_time_ns current
        then Inl (EffectRuleViolation STALE ''send fence or trusted time differs'')
      else
        rbind (require_semantics (au_semantics authorization) (cu_supported_semantics current) True)
          (\<lambda>_.
        rbind (require_semantics (in_semantics intent) (Some (au_semantics authorization)) True) (\<lambda>_.
        rbind (require_current_authority intent (cu_authority current) (cu_observed_time_ns current))
          (\<lambda>_.
        rbind (if purpose_needs_originals (in_purpose intent)
               then require_fresh_recovery_originals intent
                      (cu_current_original_ambiguity_heads current)
               else Inr ()) (\<lambda>_.
        rbind (send_branch c s current) (\<lambda>(state, proof, kind).
        let ordinal = transmission_ordinal (cs_transmission c);
            dumped = dump_command d (CommitSend c);
            child =
              \<lparr>ta_transmission =
                 make_ref (in_intent_id intent @ ''/transmission/'' @ nat_str ordinal) dumped,
               ta_intent = au_intent authorization,
               ta_ordinal = ordinal,
               ta_semantics = au_semantics authorization,
               ta_dispatch_time_ns = cu_observed_time_ns current,
               ta_payload_fingerprint = in_effect_fingerprint intent,
               ta_recipient = ab_recipient (in_authority intent),
               ta_idempotency_fence_key = in_idempotency_fence_key intent,
               ta_send_commit = make_ref (''send/'' @ ci_command_id (cs_identity c)) dumped,
               ta_coverage_proof = proof\<rparr>
        in Inr (s\<lparr>sn_state := state, sn_transmissions := sn_transmissions s @ [child]\<rparr>,
                kind)))))))"

text \<open>A transport observation may only report what the local transport saw.\<close>

definition transport_overclaims :: "RecordEvidenceCommand \<Rightarrow> EffectSnapshot \<Rightarrow> bool" where
  "transport_overclaims c s \<longleftrightarrow>
     (case re_authentication c of
        BROKER_TRANSPORT_OBSERVATION a \<Rightarrow>
          re_observation c \<notin> {TRANSPORT_SENT, TIMEOUT, CONNECTION_LOST, MALFORMED_RESPONSE}
          \<or> re_occurred_members c \<noteq> []
          \<or> re_permanently_incapable_members c \<noteq> []
          \<or> tb_exact_recipient a \<noteq> ab_recipient (in_authority (sn_intent s))
          \<or> tb_adapter_contract_version a
              \<noteq> ds_adapter_contract_version (in_semantics (sn_intent s))
      | AUTHENTICATED_PROVIDER_EVIDENCE a \<Rightarrow> False)"

definition prepare_record_evidence ::
  "EffectDumps \<Rightarrow> RecordEvidenceCommand \<Rightarrow> EffectSnapshot \<Rightarrow> EffectStoreSnapshot
     \<Rightarrow> CurrentEffectInputs \<Rightarrow> (EffectError, EffectSnapshot \<times> RecordKind) result" where
  "prepare_record_evidence d c s expected current =
     (if cu_authenticated_evidence current \<noteq> Some c
        then Inl (EffectRuleViolation DENIED
               ''evidence not independently authenticated for exact command'')
      else if sha256_hex (re_raw_bytes c) \<noteq> auth_raw_digest (re_authentication c)
        then Inl (EffectRuleViolation DENIED
               ''observation raw bytes do not match authentication'')
      else if auth_tenant_id (re_authentication c) \<noteq> es_tenant_id expected
        then Inl (EffectRuleViolation DENIED ''foreign tenant evidence'')
      else if transport_overclaims c s
        then Inl (EffectRuleViolation DENIED
               ''local transport observation cannot claim provider outcome'')
      else if re_semantics c \<noteq> in_semantics (sn_intent s)
        then Inl (EffectRuleViolation DISPATCH_VERSION_HOLD
               ''evidence binds another original reducer'')
      else if list_ex (\<lambda>item. eh_subject_id item = re_evidence_id c) (sn_evidence s)
        then Inl (EffectRuleViolation CONFLICT ''existing evidence requires exact journal replay'')
      else
        let evidence = make_ref (re_evidence_id c) (dump_command d (RecordEvidence c));
            s1 = s\<lparr>sn_evidence := sn_evidence s @ [evidence],
                   sn_evidence_records := sn_evidence_records s @ [c]\<rparr>
        in if sn_state s1 \<notin> TERMINAL_STATES
              \<and> cu_original_reducer_semantics current = Some (re_semantics c)
           then
             rbind (if re_observation c = TRANSPORT_SENT \<and> sn_state s1 = SEND_COMMITTED
                    then Inr SENT else evidence_state d s1) (\<lambda>state.
             rbind (if state \<noteq> sn_state s1
                    then require_transition (sn_state s1) state AUTHENTICATED_EVIDENCE False
                    else Inr ()) (\<lambda>_.
               Inr (s1\<lparr>sn_state := state\<rparr>, K_EVIDENCE_RECORDED)))
           else Inr (s1, K_EVIDENCE_RECORDED))"

definition prepare_reconcile ::
  "EffectDumps \<Rightarrow> ReconcileEffectCommand \<Rightarrow> EffectSnapshot \<Rightarrow> CurrentEffectInputs
     \<Rightarrow> (EffectError, EffectSnapshot \<times> RecordKind) result" where
  "prepare_reconcile d c s current =
     (if Some (rce_authorized_reconciler c) \<noteq> cu_authorized_reconciler current
         \<or> rce_fence c \<noteq> cu_fence current
         \<or> rce_complete_children c \<noteq> map ta_transmission (sn_transmissions s)
         \<or> rce_durable_evidence c \<noteq> sn_evidence s
      then Inl (EffectRuleViolation STALE ''reconciliation lacks exact complete current inputs'')
      else
        rbind (require_semantics (rce_semantics c) (Some (in_semantics (sn_intent s))) True) (\<lambda>_.
        rbind (require_semantics (rce_semantics c) (cu_original_reducer_semantics current) True) (\<lambda>_.
        rbind (evidence_state d s) (\<lambda>state.
        rbind (if state \<noteq> sn_state s
               then require_transition (sn_state s) state AUTHORIZED_RECONCILER False
               else Inr ()) (\<lambda>_.
          Inr (s\<lparr>sn_state := state\<rparr>, K_RECONCILED))))))"

fun prepare_successor ::
  "EffectDumps \<Rightarrow> EffectCommand \<Rightarrow> EffectSnapshot \<Rightarrow> EffectStoreSnapshot \<Rightarrow> CurrentEffectInputs
     \<Rightarrow> (EffectError, EffectSnapshot \<times> RecordKind) result" where
  "prepare_successor d (AuthorizeDispatch c) s expected current =
     rbind (require_no_replacement (sn_intent s) expected current) (\<lambda>_.
       prepare_authorize d c s current)"
| "prepare_successor d (BeforeSendDisposition c) s expected current =
     prepare_before_send c s current"
| "prepare_successor d (CommitSend c) s expected current =
     rbind (require_no_replacement (sn_intent s) expected current) (\<lambda>_.
       prepare_commit_send d c s current)"
| "prepare_successor d (RecordEvidence c) s expected current =
     prepare_record_evidence d c s expected current"
| "prepare_successor d (ReconcileEffect c) s expected current =
     prepare_reconcile d c s current"
| "prepare_successor d _ s expected current =
     Inl (EffectRuleViolation DENIED ''unregistered effect operation'')"

definition prepare_transition ::
  "EffectDumps \<Rightarrow> EffectCommand \<Rightarrow> EffectStoreSnapshot \<Rightarrow> CurrentEffectInputs
     \<Rightarrow> (EffectError, PreparedEffectPublication) result" where
  "prepare_transition d command expected current =
     (let identity = command_identity command in
      if cu_command_id current \<noteq> ci_command_id identity
         \<or> cu_command_fingerprint current \<noteq> ci_fingerprint identity
         \<or> cu_store_frontier current \<noteq> es_tenant_head expected
         \<or> ci_expected_tenant_head identity \<noteq> es_tenant_head expected
        then Inl (EffectRuleViolation STALE ''command/current snapshot temporal cut differs'')
      else if list_ex (\<lambda>row. ci_command_id (er_command row) = ci_command_id identity)
          (es_records expected)
        then Inl (EffectRuleViolation CONFLICT
               ''existing identity requires authenticated broker replay'')
      else case initial_parts command of
        Some (intent, fence) \<Rightarrow> prepare_initial d command intent fence expected current
      | None \<Rightarrow>
          rbind (previous_record command expected) (\<lambda>previous.
          rbind (prepare_successor d command (er_snapshot previous) expected current)
            (\<lambda>(s, kind). bind_record d command expected (Some previous) s kind [])))"

end
