(* ===== verification/Effects_History.thy ===== *)
theory Effects_History
  imports Effects_Application
begin

text \<open>
  The life of the effect store: which snapshots the owner's preparation can produce, and what every
  history of published records satisfies. \<open>effect_step\<close> is the abstract specification of one
  transition of a logical attempt; the preparation refines it. \<open>effect_history\<close> is the store seen
  over time, with the commits of other owners interleaved.
\<close>

section \<open>One transition of a logical attempt\<close>

text \<open>A child that carries the exact binding of its intent at position \<open>n\<close>.\<close>

definition child_of :: "ExternalActionIntent \<Rightarrow> nat \<Rightarrow> TransmissionAttempt \<Rightarrow> bool" where
  "child_of intent n child \<longleftrightarrow>
     eh_subject_id (ta_transmission child) = in_intent_id intent @ ''/transmission/'' @ nat_str n
     \<and> ta_intent child = intent_ref intent
     \<and> ta_ordinal child = n
     \<and> ta_semantics child = in_semantics intent
     \<and> ta_payload_fingerprint child = in_effect_fingerprint intent
     \<and> ta_recipient child = ab_recipient (in_authority intent)
     \<and> ta_idempotency_fence_key child = in_idempotency_fence_key intent"

definition event_ref :: "EffectDumps \<Rightarrow> RecordEvidenceCommand \<Rightarrow> ExactHead" where
  "event_ref d c = make_ref (re_evidence_id c) (dump_command d (RecordEvidence c))"

inductive effect_step :: "EffectDumps \<Rightarrow> EffectSnapshot \<Rightarrow> EffectSnapshot \<Rightarrow> bool" for d where
  authorized:
    "dispatch_step SEND_ADAPTER False (sn_state s) DISPATCH_AUTHORIZED \<Longrightarrow>
     au_intent a = intent_ref (sn_intent s) \<Longrightarrow> au_semantics a = in_semantics (sn_intent s) \<Longrightarrow>
     effect_step d s (s\<lparr>sn_state := DISPATCH_AUTHORIZED,
       sn_authorizations := sn_authorizations s @ [a]\<rparr>)"
| disposed:
    "t \<in> {HELD_BEFORE_SEND, CANCELLED_BEFORE_SEND, SUPERSEDED_BEFORE_SEND} \<Longrightarrow>
     dispatch_step SEND_ADAPTER False (sn_state s) t \<Longrightarrow>
     effect_step d s (s\<lparr>sn_state := t\<rparr>)"
| committed:
    "dispatch_step SEND_ADAPTER True (sn_state s) t \<Longrightarrow>
     child_of (sn_intent s) (length (sn_transmissions s)) child \<Longrightarrow>
     effect_step d s (s\<lparr>sn_state := t, sn_transmissions := sn_transmissions s @ [child]\<rparr>)"
| evidenced:
    "re_evidence_id c \<notin> eh_subject_id ` set (sn_evidence s) \<Longrightarrow>
     t = sn_state s \<or> dispatch_step AUTHENTICATED_EVIDENCE False (sn_state s) t \<Longrightarrow>
     effect_step d s (s\<lparr>sn_evidence := sn_evidence s @ [event_ref d c],
       sn_evidence_records := sn_evidence_records s @ [c], sn_state := t\<rparr>)"
| reconciled:
    "sn_state s \<in> crossed_states \<Longrightarrow>
     t = sn_state s \<or> dispatch_step AUTHORIZED_RECONCILER False (sn_state s) t \<Longrightarrow>
     effect_step d s (s\<lparr>sn_state := t\<rparr>)"

text \<open>The obligation bookkeeping that closes every published snapshot.\<close>

definition settled_by ::
  "EffectDumps \<Rightarrow> EffectCommand \<Rightarrow> EffectRecord option \<Rightarrow> EffectSnapshot \<Rightarrow> EffectSnapshot \<Rightarrow> bool" where
  "settled_by d command previous s s' \<longleftrightarrow>
     (\<exists>ob attempt. next_obligation d command previous s = Inr ob
        \<and> eh_subject_id attempt = in_intent_id (sn_intent s) @ ''/attempt''
        \<and> s' = s\<lparr>sn_recovery_obligation := ob,
             sn_unresolved_obligations :=
               (case ob of Some x \<Rightarrow> if is_open x then [obligation_head x] else [] | None \<Rightarrow> []),
             sn_attempt := attempt\<rparr>)"

lemma eh_subject_id_make_ref [simp]: "eh_subject_id (make_ref i v) = i"
  by (simp add: make_ref_def Let_def)

lemma bind_record_ok:
  assumes "bind_record d command expected previous s kind companions = Inr p"
  shows "settled_by d command previous s (er_snapshot (pe_record p))
     \<and> er_command (pe_record p) = command_identity command
     \<and> er_predecessor (pe_record p) = map_option er_record previous
     \<and> er_kind (pe_record p) = kind
     \<and> pe_exact_companion_manifest p = companions \<and> pe_expected_store p = expected
     \<and> eh_subject_id (er_record (pe_record p))
         = ''effects/'' @ ci_command_id (command_identity command)"
proof -
  from assms obtain ob where ob: "next_obligation d command previous s = Inr ob"
    and p: "Inr p = bind_record d command expected previous s kind companions"
    by (auto simp: bind_record_def result_simps)
  show ?thesis
    using p unfolding bind_record_def settled_by_def ob rbind_Inr Let_def
    by (intro conjI exI [of _ ob] exI [of _ "sn_attempt (er_snapshot (pe_record p))"]) simp_all
qed

text \<open>The record a successor builds on is the last one of its intent.\<close>

definition latest_record :: "EffectRecord list \<Rightarrow> string \<Rightarrow> EffectRecord option" where
  "latest_record records i =
     find (\<lambda>row. in_intent_id (sn_intent (er_snapshot row)) = i) (rev records)"

lemma latest_record_Nil [simp]: "latest_record [] i = None"
  by (simp add: latest_record_def)

lemma latest_record_snoc [simp]:
  "latest_record (rs @ [r]) i =
     (if in_intent_id (sn_intent (er_snapshot r)) = i then Some r else latest_record rs i)"
  by (simp add: latest_record_def)

lemma latest_record_Some:
  "latest_record rs i = Some r \<Longrightarrow> r \<in> set rs \<and> in_intent_id (sn_intent (er_snapshot r)) = i"
  by (induction rs rule: rev_induct) (auto split: if_splits)

lemma latest_record_None:
  "latest_record rs i = None \<longleftrightarrow> (\<forall>r \<in> set rs. in_intent_id (sn_intent (er_snapshot r)) \<noteq> i)"
  by (induction rs rule: rev_induct) auto

lemma latest_record_last:
  "filter (\<lambda>row. in_intent_id (sn_intent (er_snapshot row)) = i) rs \<noteq> [] \<Longrightarrow>
   latest_record rs i = Some (last (filter (\<lambda>row. in_intent_id (sn_intent (er_snapshot row)) = i) rs))"
  by (induction rs rule: rev_induct) auto

lemma previous_record_ok:
  assumes "previous_record command expected = Inr r"
  obtains i a supplied where "command_subject command expected = Inr (i, a, supplied)"
    and "latest_record (es_records expected) i = Some r" and "sn_attempt (er_snapshot r) = a"
    and "supplied = None \<or> supplied = Some (intent_ref (sn_intent (er_snapshot r)))"
  using assms unfolding previous_record_def
  by (auto simp: result_simps Let_def latest_record_last split: if_splits)

lemma evidence_state_ok:
  assumes "evidence_state d s = Inr t"
  shows "sn_state s \<in> crossed_states"
    and "w \<noteq> SEND_ADAPTER \<Longrightarrow> t = sn_state s \<or> dispatch_step w False (sn_state s) t"
proof -
  from assms obtain rows where red: "reduce_child_evidence (sn_state s) (sn_transmissions s)
      (in_inseparable_bundle_members (sn_intent s)) rows = Inr t"
    by (auto simp: evidence_state_def result_simps Let_def)
  then show "sn_state s \<in> crossed_states"
    by (simp add: reduce_child_evidence_eq crossed_states_def)
  show "t = sn_state s \<or> dispatch_step w False (sn_state s) t" if "w \<noteq> SEND_ADAPTER"
    using red that reduced_outcome_step unfolding reduce_child_evidence_eq by metis
qed

section \<open>The preparation refines the abstract step\<close>

lemma prepare_authorize_step:
  assumes "prepare_authorize d c s cur = Inr (s', k)" and "ad_intent c = intent_ref (sn_intent s)"
  shows "effect_step d s s'"
  using assms unfolding prepare_authorize_def
  by (auto simp: result_simps Let_def require_transition_dispatch_step split: if_splits
      intro!: effect_step.authorized)

lemma prepare_before_send_step:
  assumes "prepare_before_send c s cur = Inr (s', k)"
  shows "effect_step d s s'"
  using assms unfolding prepare_before_send_def
  by (cases "bs_disposition c") (auto simp: result_simps require_transition_dispatch_step
      split: if_splits intro!: effect_step.disposed)

lemma require_safe_retransmission_ordinal:
  assumes "require_safe_retransmission st i cs r pf au sem now = Inr u"
  shows "sr_ordinal r = length cs" and "dispatch_step SEND_ADAPTER True st st"
  using assms unfolding require_safe_retransmission_def
  by (auto simp: result_simps require_transition_dispatch_step split: if_splits)

lemma send_branch_ok:
  assumes "send_branch c s cur = Inr (t, pf, k)"
  shows "transmission_ordinal (cs_transmission c) = length (sn_transmissions s)
    \<and> dispatch_step SEND_ADAPTER True (sn_state s) t"
  using assms unfolding send_branch_def
  by (auto simp: result_simps require_transition_dispatch_step split: Transmission.splits if_splits
      dest: require_safe_retransmission_ordinal)

lemma prepare_commit_send_step:
  assumes "prepare_commit_send d c s cur = Inr (s', k)"
    and "au_intent (cs_authorization c) = intent_ref (sn_intent s)"
  shows "effect_step d s s'"
  using assms unfolding prepare_commit_send_def Let_def
  by (auto simp: result_simps child_of_def split: if_splits dest!: send_branch_ok
      intro!: effect_step.committed)

lemma prepare_record_evidence_step:
  assumes "prepare_record_evidence d c s expected cur = Inr (s', k)"
  shows "effect_step d s s'"
proof -
  from assms have fresh: "re_evidence_id c \<notin> eh_subject_id ` set (sn_evidence s)"
    by (auto simp: prepare_record_evidence_def list_ex_iff split: if_splits)
  from assms have t: "sn_state s' = sn_state s
      \<or> dispatch_step AUTHENTICATED_EVIDENCE False (sn_state s) (sn_state s')"
    unfolding prepare_record_evidence_def Let_def
    by (auto simp: result_simps require_transition_dispatch_step split: if_splits)
  from assms have s': "s' = s\<lparr>sn_evidence := sn_evidence s @ [event_ref d c],
       sn_evidence_records := sn_evidence_records s @ [c], sn_state := sn_state s'\<rparr>"
    unfolding prepare_record_evidence_def Let_def event_ref_def
    by (cases s) (auto simp: result_simps split: if_splits)
  show ?thesis
    by (subst s') (rule effect_step.evidenced [OF fresh t])
qed

lemma prepare_reconcile_step:
  assumes "prepare_reconcile d c s cur = Inr (s', k)"
  shows "effect_step d s s'"
proof -
  from assms obtain t where "evidence_state d s = Inr t" and s': "s' = s\<lparr>sn_state := t\<rparr>"
    by (auto simp: prepare_reconcile_def result_simps split: if_splits)
  then show ?thesis
    unfolding s' by (intro effect_step.reconciled evidence_state_ok) simp_all
qed

lemmas branch_steps = prepare_authorize_step prepare_before_send_step prepare_commit_send_step
  prepare_record_evidence_step prepare_reconcile_step

lemma prepare_successor_step:
  assumes "previous_record command expected = Inr r"
    and "prepare_successor d command (er_snapshot r) expected cur = Inr (s', k)"
  shows "effect_step d (er_snapshot r) s'"
  using assms
  by (cases command)
     (auto simp: result_simps elim!: previous_record_ok split: if_splits intro: branch_steps)

section \<open>The invariant of a snapshot\<close>

definition unsent_states :: "AttemptState set" where
  "unsent_states = PRE_SEND_STATES \<union> {CANCELLED_BEFORE_SEND, SUPERSEDED_BEFORE_SEND}"

definition unsettled_states :: "AttemptState set" where
  "unsettled_states = {OUTCOME_UNKNOWN, PARTIAL}"

definition settled_states :: "AttemptState set" where
  "settled_states = {CONFIRMED, FAILED_NO_EFFECT, PARTIAL_CONFIRMED}"

lemmas all_state_sets = state_sets unsent_states_def unsettled_states_def settled_states_def
  crossed_states_def

definition lineage_ok :: "EffectDumps \<Rightarrow> EffectSnapshot \<Rightarrow> bool" where
  "lineage_ok d s \<longleftrightarrow>
     (sn_transmissions s = [] \<longleftrightarrow> sn_state s \<in> unsent_states)
     \<and> (\<forall>n < length (sn_transmissions s). child_of (sn_intent s) n (sn_transmissions s ! n))
     \<and> (\<forall>a \<in> set (sn_authorizations s).
          au_intent a = intent_ref (sn_intent s) \<and> au_semantics a = in_semantics (sn_intent s))
     \<and> (sn_state s = DISPATCH_AUTHORIZED \<or> sn_transmissions s \<noteq> [] \<longrightarrow> sn_authorizations s \<noteq> [])
     \<and> sn_evidence s = map (event_ref d) (sn_evidence_records s)
     \<and> distinct (map re_evidence_id (sn_evidence_records s))"

definition obligation_ok :: "EffectSnapshot \<Rightarrow> bool" where
  "obligation_ok s \<longleftrightarrow>
     (case sn_recovery_obligation s of
        None \<Rightarrow> sn_state s \<notin> unsettled_states \<and> sn_unresolved_obligations s = []
      | Some (OPEN b) \<Rightarrow> sn_state s \<in> unsettled_states
          \<and> oo_intent b = intent_ref (sn_intent s) \<and> oo_original_crossed_children b \<noteq> []
          \<and> BLIND_RETRY \<in> set (oo_denied_actions b)
          \<and> sn_unresolved_obligations s = [oo_obligation b]
      | Some (CLOSED b) \<Rightarrow> sn_state s \<in> settled_states \<and> cl_outcome b = sn_state s
          \<and> sn_unresolved_obligations s = [])"

definition snapshot_wf :: "EffectDumps \<Rightarrow> EffectSnapshot \<Rightarrow> bool" where
  "snapshot_wf d s \<longleftrightarrow> lineage_ok d s \<and> obligation_ok s
     \<and> eh_subject_id (sn_attempt s) = in_intent_id (sn_intent s) @ ''/attempt''"

lemma event_ref_subject [simp]: "eh_subject_id (event_ref d c) = re_evidence_id c"
  by (simp add: event_ref_def)

lemma dispatch_step_unsent:
  "dispatch_step w False s t \<Longrightarrow> (t \<in> unsent_states \<longleftrightarrow> s \<in> unsent_states)"
  by (auto simp: all_state_sets elim!: dispatch_step.cases)

lemma dispatch_step_child: "dispatch_step w True s t \<Longrightarrow> t \<notin> unsent_states \<and> s \<notin> unsent_states - {DISPATCH_AUTHORIZED}"
  by (auto simp: all_state_sets elim!: dispatch_step.cases)

lemma effect_step_lineage:
  assumes "effect_step d s s'" and "lineage_ok d s"
  shows "lineage_ok d s'"
  using assms
proof (cases rule: effect_step.cases)
  case (authorized a)
  then show ?thesis
    using assms(2) dispatch_step_unsent [OF authorized(2)] by (auto simp: lineage_ok_def)
next
  case (disposed t)
  then show ?thesis
    using assms(2) dispatch_step_unsent [OF disposed(3)] by (auto simp: lineage_ok_def)
next
  case (committed t child)
  have "sn_authorizations s \<noteq> []"
    using assms(2) dispatch_step_child [OF committed(2)] by (auto simp: lineage_ok_def)
  then show ?thesis
    using assms(2) committed dispatch_step_child [OF committed(2)]
    unfolding lineage_ok_def by (auto simp: nth_append less_Suc_eq)
next
  case (evidenced c t)
  have "t \<in> unsent_states \<longleftrightarrow> sn_state s \<in> unsent_states" and "t = DISPATCH_AUTHORIZED \<longrightarrow> t = sn_state s"
    using evidenced(3) dispatch_step_unsent by (auto elim: dispatch_step.cases)
  then show ?thesis
    using assms(2) evidenced by (auto simp: lineage_ok_def image_image)
next
  case (reconciled t)
  have "t \<in> unsent_states \<longleftrightarrow> sn_state s \<in> unsent_states" and "t = DISPATCH_AUTHORIZED \<longrightarrow> t = sn_state s"
    using reconciled(3) dispatch_step_unsent by (auto elim: dispatch_step.cases)
  then show ?thesis
    using assms(2) reconciled by (auto simp: lineage_ok_def)
qed

lemma effect_step_intent: "effect_step d s s' \<Longrightarrow> sn_intent s' = sn_intent s"
  by (auto elim!: effect_step.cases)

lemma effect_step_obligation:
  "effect_step d s s' \<Longrightarrow> sn_recovery_obligation s' = sn_recovery_obligation s"
  by (auto elim!: effect_step.cases)

lemma effect_step_state:
  "effect_step d s s' \<Longrightarrow> sn_state s' = sn_state s \<or> (\<exists>w b. dispatch_step w b (sn_state s) (sn_state s'))"
  by (auto elim!: effect_step.cases)

lemma effect_step_settle:
  assumes "effect_step d s s'"
  shows "sn_state s \<in> unsettled_states \<Longrightarrow> sn_state s' \<in> unsettled_states \<union> settled_states"
    and "sn_state s \<in> TERMINAL_STATES \<Longrightarrow> sn_state s' = sn_state s"
  using effect_step_state [OF assms] no_step_from_terminal
  by (auto simp: unsettled_states_def settled_states_def RETRANSMISSION_STATES_def PRE_SEND_STATES_def
      elim!: dispatch_step.cases)

lemma unsettled_transmissions:
  "lineage_ok d s \<Longrightarrow> sn_state s \<in> unsettled_states \<Longrightarrow> sn_transmissions s \<noteq> []"
  by (auto simp: lineage_ok_def all_state_sets)

lemma obligation_sets:
  "sn_state s \<in> unsettled_states \<Longrightarrow> sn_state s \<notin> settled_states"
  "settled_states \<subseteq> TERMINAL_STATES"
  by (auto simp: all_state_sets)

lemma open_obligation_fields [simp]:
  "oo_intent (open_obligation d command r s) = intent_ref (sn_intent s)"
  "oo_original_crossed_children (open_obligation d command r s) = map ta_transmission (sn_transmissions s)"
  "oo_denied_actions (open_obligation d command r s) =
     [BLIND_RETRY, CONFLICTING_REPLACEMENT, DEPENDENT_CONTINUATION]"
  by (simp_all add: open_obligation_def Let_def)

lemma close_obligation_outcome [simp]: "cl_outcome (close_obligation d b s) = sn_state s"
  by (simp add: close_obligation_def Let_def)

lemma settled_by_obligation:
  assumes "settled_by d command (Some r) s' s''" and "effect_step d s s'"
    and "obligation_ok s" and "lineage_ok d s'"
  shows "obligation_ok s''"
proof -
  from assms(1) obtain ob where ob: "next_obligation d command (Some r) s' = Inr ob"
    and s'': "sn_recovery_obligation s'' = ob" "sn_state s'' = sn_state s'" "sn_intent s'' = sn_intent s'"
      "sn_unresolved_obligations s'' =
         (case ob of Some x \<Rightarrow> if is_open x then [obligation_head x] else [] | None \<Rightarrow> [])"
    by (auto simp: settled_by_def)
  note state = effect_step_settle [OF assms(2)] and keep = effect_step_obligation [OF assms(2)]
    effect_step_intent [OF assms(2)]
  show ?thesis
  proof (cases "sn_recovery_obligation s")
    case None
    then show ?thesis
      using ob keep unfolding obligation_ok_def s'' next_obligation_def
      by (auto simp: unsettled_states_def split: if_splits)
  next
    case (Some x)
    then show ?thesis
    proof (cases x)
      case (OPEN b)
      then have now: "sn_recovery_obligation s' = Some (OPEN b)"
        using Some keep(1) by simp
      have old: "sn_state s' \<in> unsettled_states \<union> settled_states" "oo_intent b = intent_ref (sn_intent s')"
          "oo_original_crossed_children b \<noteq> []" "BLIND_RETRY \<in> set (oo_denied_actions b)"
        using Some OPEN state(1) assms(3) keep(2) by (auto simp: obligation_ok_def)
      show ?thesis
        using ob old unfolding obligation_ok_def s'' next_obligation_def now settled_states_def
        by (auto split: if_splits)
    next
      case (CLOSED b)
      then have "sn_state s' = sn_state s"
        using Some assms(3) state(2) obligation_sets(2) by (auto simp: obligation_ok_def)
      then show ?thesis
        using ob keep Some CLOSED assms(3) unfolding obligation_ok_def s'' next_obligation_def
        by auto
    qed
  qed
qed

lemma settled_by_lineage: "settled_by d command p s s' \<Longrightarrow> lineage_ok d s' = lineage_ok d s"
  by (auto simp: settled_by_def lineage_ok_def)

lemma snapshot_wf_step:
  assumes "snapshot_wf d s" and "effect_step d s s'" and "settled_by d command (Some r) s' s''"
  shows "snapshot_wf d s''"
proof -
  have "lineage_ok d s'"
    using assms effect_step_lineage by (auto simp: snapshot_wf_def)
  moreover have "eh_subject_id (sn_attempt s'') = in_intent_id (sn_intent s'') @ ''/attempt''"
    using assms(3) by (auto simp: settled_by_def)
  ultimately show ?thesis
    using assms settled_by_lineage settled_by_obligation by (auto simp: snapshot_wf_def)
qed

lemma snapshot_wf_initial:
  assumes "initial_snapshot d intent = Inr s" and "settled_by d command None s s'"
  shows "snapshot_wf d s' \<and> sn_intent s' = intent \<and> sn_state s' = INTENT_RECORDED"
proof -
  from assms(1) have s: "sn_state s = INTENT_RECORDED" "sn_recovery_obligation s = None"
      "sn_transmissions s = []" "sn_authorizations s = []" "sn_evidence s = []"
      "sn_evidence_records s = []" "sn_intent s = intent"
    by (auto simp: initial_snapshot_def Let_def split: if_splits)
  from assms(2) have s': "s' = s\<lparr>sn_recovery_obligation := None, sn_unresolved_obligations := [],
      sn_attempt := sn_attempt s'\<rparr>" "eh_subject_id (sn_attempt s') = in_intent_id (sn_intent s) @ ''/attempt''"
    using s by (auto simp: settled_by_def next_obligation_def)
  show ?thesis
    using s s'(2) by (subst (1 2 3) s'(1)) (simp add: snapshot_wf_def lineage_ok_def obligation_ok_def all_state_sets)
qed

section \<open>What a prepared publication is\<close>

definition initial_kinds :: "RecordKind set" where
  "initial_kinds =
     {K_INTENT_ACCEPTED, K_PLAN_EFFECT_PUBLISHED, K_DELIVERY_PREPARED, K_RECOVERY_INTENT_PUBLISHED}"

lemma initial_companions_kind:
  "initial_companions command cur = Inr (cs, k) \<Longrightarrow> k \<in> initial_kinds"
  by (cases command) (auto simp: initial_kinds_def result_simps split: if_splits EffectPurpose.splits)

lemma prepare_transition_identity:
  assumes "prepare_transition d command st cur = Inr p"
  shows "ci_expected_tenant_head (command_identity command) = es_tenant_head st"
    and "ci_command_id (command_identity command)
           \<notin> (ci_command_id \<circ> er_command) ` set (es_records st)"
    and "er_command (pe_record p) = command_identity command"
    and "pe_expected_store p = st"
proof -
  show "ci_expected_tenant_head (command_identity command) = es_tenant_head st"
    and "ci_command_id (command_identity command)
           \<notin> (ci_command_id \<circ> er_command) ` set (es_records st)"
    using assms by (auto simp: prepare_transition_def list_ex_iff Let_def split: if_splits)
  from assms obtain pr s k cs where "bind_record d command st pr s k cs = Inr p"
    by (auto simp: prepare_transition_def prepare_initial_def result_simps Let_def
        split: if_splits option.splits)
  then show "er_command (pe_record p) = command_identity command" and "pe_expected_store p = st"
    using bind_record_ok by blast+
qed

lemma prepare_initial_ok:
  assumes "prepare_initial d command intent fence st cur = Inr p"
  shows "\<exists>s. initial_snapshot d intent = Inr s \<and> settled_by d command None s (er_snapshot (pe_record p))"
    and "\<forall>row \<in> set (es_records st). in_intent_id (sn_intent (er_snapshot row)) \<noteq> in_intent_id intent"
    and "er_predecessor (pe_record p) = None" and "er_kind (pe_record p) \<in> initial_kinds"
    and "require_no_replacement intent st cur = Inr ()"
    and "ab_tenant_id (in_authority intent) = es_tenant_id st"
    and "sha256_hex (in_payload intent) = in_effect_fingerprint intent"
proof -
  from assms obtain s cs k where s: "initial_snapshot d intent = Inr s"
    and c: "initial_companions command cur = Inr (cs, k)"
    and b: "bind_record d command st None s k cs = Inr p"
    and auth: "require_current_authority intent (cu_authority cur) (cu_observed_time_ns cur) = Inr ()"
    by (auto simp: prepare_initial_def result_simps split: if_splits)
  show "\<exists>s. initial_snapshot d intent = Inr s \<and> settled_by d command None s (er_snapshot (pe_record p))"
    using s bind_record_ok [OF b] by blast
  show "er_predecessor (pe_record p) = None" and "er_kind (pe_record p) \<in> initial_kinds"
    using bind_record_ok [OF b] initial_companions_kind [OF c] by auto
  show "sha256_hex (in_payload intent) = in_effect_fingerprint intent"
    using auth by (simp add: require_current_authority_ok)
  show "\<forall>row \<in> set (es_records st). in_intent_id (sn_intent (er_snapshot row)) \<noteq> in_intent_id intent"
    and "require_no_replacement intent st cur = Inr ()"
    and "ab_tenant_id (in_authority intent) = es_tenant_id st"
    using assms by (auto simp: prepare_initial_def result_simps list_ex_iff split: if_splits)
qed

lemma prepare_transition_cases:
  assumes "prepare_transition d command st cur = Inr p"
  obtains (initial) intent fence where "initial_parts command = Some (intent, fence)"
      and "prepare_initial d command intent fence st cur = Inr p"
  | (successor) r s' k where "initial_parts command = None" and "previous_record command st = Inr r"
      and "prepare_successor d command (er_snapshot r) st cur = Inr (s', k)"
      and "bind_record d command st (Some r) s' k [] = Inr p"
proof (cases "initial_parts command")
  case None
  then show ?thesis
    using assms that(2) by (auto simp: prepare_transition_def result_simps Let_def split: if_splits)
next
  case (Some x)
  then show ?thesis
    using assms that(1) by (cases x) (auto simp: prepare_transition_def Let_def split: if_splits)
qed

text \<open>A successor publication extends the current record of its own intent.\<close>

lemma successor_ok:
  assumes "previous_record command st = Inr r"
    and "prepare_successor d command (er_snapshot r) st cur = Inr (s', k)"
    and "bind_record d command st (Some r) s' k [] = Inr p"
  shows "latest_record (es_records st) (in_intent_id (sn_intent (er_snapshot r))) = Some r"
    and "effect_step d (er_snapshot r) s'"
    and "settled_by d command (Some r) s' (er_snapshot (pe_record p))"
    and "er_predecessor (pe_record p) = Some (er_record r)"
    and "sn_intent (er_snapshot (pe_record p)) = sn_intent (er_snapshot r)"
proof -
  show "latest_record (es_records st) (in_intent_id (sn_intent (er_snapshot r))) = Some r"
    using assms(1) by (auto elim!: previous_record_ok dest: latest_record_Some)
  show step: "effect_step d (er_snapshot r) s'"
    using assms(1,2) by (rule prepare_successor_step)
  show settled: "settled_by d command (Some r) s' (er_snapshot (pe_record p))"
    and "er_predecessor (pe_record p) = Some (er_record r)"
    using bind_record_ok [OF assms(3)] by auto
  show "sn_intent (er_snapshot (pe_record p)) = sn_intent (er_snapshot r)"
    using settled effect_step_intent [OF step] by (auto simp: settled_by_def)
qed

section \<open>Histories\<close>

definition store_at :: "string \<Rightarrow> nat \<Rightarrow> (nat \<times> EffectRecord) list \<Rightarrow> EffectStoreSnapshot" where
  "store_at tenant h log =
     \<lparr>es_tenant_id = tenant, es_tenant_head = h, es_records = map snd log\<rparr>"

text \<open>
  The tenant's head counts every owner's commit. An effect commit appends the prepared record at
  the next position; the commit of another owner only moves the head.
\<close>

inductive effect_history ::
  "EffectDumps \<Rightarrow> string \<Rightarrow> nat \<Rightarrow> (nat \<times> EffectRecord) list \<Rightarrow> bool" for d tenant where
  genesis: "effect_history d tenant 0 []"
| foreign: "effect_history d tenant h log \<Longrightarrow> effect_history d tenant (Suc h) log"
| publish: "effect_history d tenant h log \<Longrightarrow>
    prepare_transition d command (store_at tenant h log) current = Inr p \<Longrightarrow>
    effect_history d tenant (Suc h) (log @ [(Suc h, pe_record p)])"

text \<open>What a later snapshot of an attempt keeps of an earlier one.\<close>

definition extends :: "EffectSnapshot \<Rightarrow> EffectSnapshot \<Rightarrow> bool" where
  "extends s s' \<longleftrightarrow>
     sn_intent s' = sn_intent s
     \<and> take (length (sn_transmissions s)) (sn_transmissions s') = sn_transmissions s
     \<and> take (length (sn_evidence s)) (sn_evidence s') = sn_evidence s
     \<and> take (length (sn_authorizations s)) (sn_authorizations s') = sn_authorizations s
     \<and> (sn_state s \<in> TERMINAL_STATES \<longrightarrow> sn_state s' = sn_state s)
     \<and> (sn_state s \<notin> unsent_states \<longrightarrow> sn_state s' \<notin> unsent_states)"

lemma take_length_trans:
  "take (length xs) ys = xs \<Longrightarrow> take (length ys) zs = ys \<Longrightarrow> take (length xs) zs = xs"
  by (metis append_take_drop_id take_all_iff take_append nle_le append_eq_conv_conj append.assoc)

lemma extends_trans: "extends s s' \<Longrightarrow> extends s' s'' \<Longrightarrow> extends s s''"
  by (auto simp: extends_def intro: take_length_trans)

lemma extends_step:
  assumes "effect_step d s s'" and "settled_by d command p s' s''"
  shows "extends s s''"
proof -
  have fields: "sn_intent s'' = sn_intent s'" "sn_transmissions s'' = sn_transmissions s'"
      "sn_evidence s'' = sn_evidence s'" "sn_authorizations s'' = sn_authorizations s'"
      "sn_state s'' = sn_state s'"
    using assms(2) by (auto simp: settled_by_def)
  have "sn_state s \<notin> unsent_states \<longrightarrow> sn_state s' \<notin> unsent_states"
    using effect_step_state [OF assms(1)] dispatch_step_unsent dispatch_step_child
    by (metis (full_types))
  moreover have "take (length (sn_transmissions s)) (sn_transmissions s') = sn_transmissions s
      \<and> take (length (sn_evidence s)) (sn_evidence s') = sn_evidence s
      \<and> take (length (sn_authorizations s)) (sn_authorizations s') = sn_authorizations s"
    using assms(1) by (auto elim!: effect_step.cases)
  ultimately show ?thesis
    using effect_step_intent [OF assms(1)] effect_step_settle(2) [OF assms(1)]
    by (simp add: extends_def fields)
qed

definition row_ok :: "EffectDumps \<Rightarrow> string \<Rightarrow> EffectRecord \<Rightarrow> bool" where
  "row_ok d tenant r \<longleftrightarrow>
     snapshot_wf d (er_snapshot r)
     \<and> ab_tenant_id (in_authority (sn_intent (er_snapshot r))) = tenant
     \<and> sha256_hex (in_payload (sn_intent (er_snapshot r))) = in_effect_fingerprint (sn_intent (er_snapshot r))"

lemma prepared_row_ok:
  assumes "prepare_transition d command (store_at tenant h log) cur = Inr p"
    and "\<forall>r \<in> snd ` set log. row_ok d tenant r"
  shows "row_ok d tenant (pe_record p)"
  using assms(1)
proof (cases rule: prepare_transition_cases)
  case (initial intent fence)
  note ok = prepare_initial_ok [OF initial(2)]
  then show ?thesis
    using snapshot_wf_initial by (auto simp: row_ok_def store_at_def)
next
  case (successor r s' k)
  note ok = successor_ok [OF successor(2-4)]
  have "row_ok d tenant r"
    using latest_record_Some [OF ok(1)] assms(2) by (auto simp: store_at_def)
  then show ?thesis
    using snapshot_wf_step [OF _ ok(2,3)] ok(5) by (simp add: row_ok_def)
qed

lemma history_rows_ok:
  "effect_history d tenant h log \<Longrightarrow> \<forall>r \<in> snd ` set log. row_ok d tenant r"
proof (induction rule: effect_history.induct)
  case (publish h log command current p)
  then show ?case
    using prepared_row_ok by auto
qed auto

lemma latest_record_extends:
  assumes "sorted_wrt (\<lambda>r r'. in_intent_id (sn_intent (er_snapshot r)) = in_intent_id (sn_intent (er_snapshot r'))
      \<longrightarrow> R r r') rs"
    and "latest_record rs i = Some r" and "q \<in> set rs" and "in_intent_id (sn_intent (er_snapshot q)) = i"
  shows "q = r \<or> R q r"
  using assms by (induction rs rule: rev_induct) (auto simp: sorted_wrt_append split: if_splits)

lemma history_extends:
  assumes "effect_history d tenant h log"
  shows "sorted_wrt (\<lambda>r r'. in_intent_id (sn_intent (er_snapshot r)) = in_intent_id (sn_intent (er_snapshot r'))
      \<longrightarrow> extends (er_snapshot r) (er_snapshot r')) (map snd log)"
  using assms
proof (induction rule: effect_history.induct)
  case (publish h log command current p)
  have "extends (er_snapshot q) (er_snapshot (pe_record p))"
    if q: "q \<in> set (map snd log)"
      "in_intent_id (sn_intent (er_snapshot q)) = in_intent_id (sn_intent (er_snapshot (pe_record p)))" for q
    using publish.hyps(2)
  proof (cases rule: prepare_transition_cases)
    case (initial intent fence)
    note ok = prepare_initial_ok [OF initial(2)]
    then show ?thesis
      using q snapshot_wf_initial by (fastforce simp: store_at_def)
  next
    case (successor r s' k)
    note ok = successor_ok [OF successor(2-4)]
    have "q = r \<or> extends (er_snapshot q) (er_snapshot r)"
      using latest_record_extends [OF publish.IH _ q(1)] ok(1,5) q(2) by (simp add: store_at_def)
    then show ?thesis
      using extends_step [OF ok(2,3)] extends_trans by blast
  qed
  then show ?case
    using publish.IH by (simp add: sorted_wrt_append)
qed auto

lemma history_positions:
  "effect_history d tenant h log \<Longrightarrow>
     (\<forall>(n, r) \<in> set log. n \<le> h \<and> ci_expected_tenant_head (er_command r) + 1 = n)
     \<and> sorted_wrt (<) (map fst log)
     \<and> distinct (map (ci_command_id \<circ> er_command \<circ> snd) log)"
proof (induction rule: effect_history.induct)
  case (publish h log command current p)
  note ident = prepare_transition_identity [OF publish.hyps(2)]
  have "ci_command_id (er_command (pe_record p)) \<notin> set (map (ci_command_id \<circ> er_command \<circ> snd) log)"
    using ident(2,3) by (auto simp: store_at_def image_image)
  moreover have "ci_expected_tenant_head (er_command (pe_record p)) = h"
    using ident(1,3) by (simp add: store_at_def)
  moreover have "\<forall>n \<in> set (map fst log). n < Suc h"
    using publish.IH by fastforce
  ultimately show ?case
    using publish.IH by (auto simp: sorted_wrt_append)
qed auto

text \<open>The predecessor links: each row names the latest earlier row of its intent.\<close>

definition row_chained :: "EffectRecord list \<Rightarrow> EffectRecord \<Rightarrow> bool" where
  "row_chained earlier r \<longleftrightarrow>
     (let q = latest_record earlier (in_intent_id (sn_intent (er_snapshot r)))
      in er_predecessor r = map_option er_record q
         \<and> (case q of None \<Rightarrow> er_kind r \<in> initial_kinds
            | Some p \<Rightarrow> sn_intent (er_snapshot p) = sn_intent (er_snapshot r)))"

definition chained :: "EffectRecord list \<Rightarrow> bool" where
  "chained rs \<longleftrightarrow> (\<forall>n < length rs. row_chained (take n rs) (rs ! n))"

lemma chained_snoc: "chained (rs @ [r]) \<longleftrightarrow> chained rs \<and> row_chained rs r"
  by (auto simp: chained_def less_Suc_eq nth_append)

lemma history_chained: "effect_history d tenant h log \<Longrightarrow> chained (map snd log)"
proof (induction rule: effect_history.induct)
  case (publish h log command current p)
  from publish.hyps(2) have "row_chained (map snd log) (pe_record p)"
  proof (cases rule: prepare_transition_cases)
    case (initial intent fence)
    note ok = prepare_initial_ok [OF initial(2)]
    have "sn_intent (er_snapshot (pe_record p)) = intent"
      using ok(1) snapshot_wf_initial by blast
    moreover have "latest_record (map snd log) (in_intent_id intent) = None"
      using ok(2) by (simp add: latest_record_None store_at_def)
    ultimately show ?thesis
      using ok(3,4) by (simp add: row_chained_def)
  next
    case (successor r s' k)
    note ok = successor_ok [OF successor(2-4)]
    then show ?thesis
      by (simp add: row_chained_def store_at_def)
  qed
  then show ?case
    using publish.IH by (simp add: chained_snoc)
qed (simp_all add: chained_def)

section \<open>Unresolved work blocks its replacement\<close>

lemma latest_snapshots_snoc:
  "latest_snapshots (rs @ [r]) =
     AList.update (in_intent_id (sn_intent (er_snapshot r))) (er_snapshot r) (latest_snapshots rs)"
  by (simp add: latest_snapshots_def)

lemma latest_snapshots_map_of:
  "map_of (latest_snapshots rs) i = map_option er_snapshot (latest_record rs i)"
  by (induction rs rule: rev_induct)
     (auto simp: latest_snapshots_snoc update_conv', simp add: latest_snapshots_def)

lemma latest_snapshots_distinct: "distinct (map fst (latest_snapshots rs))"
  by (induction rs rule: rev_induct)
     (simp_all add: latest_snapshots_snoc distinct_update, simp add: latest_snapshots_def)

lemma latest_snapshots_values:
  "s \<in> set (map snd (latest_snapshots rs)) \<longleftrightarrow> (\<exists>i r. latest_record rs i = Some r \<and> er_snapshot r = s)"
proof -
  have "s \<in> set (map snd (latest_snapshots rs)) \<longleftrightarrow> (\<exists>i. map_of (latest_snapshots rs) i = Some s)"
    using latest_snapshots_distinct [of rs] by (force simp: map_of_eq_Some_iff)
  then show ?thesis
    by (simp add: latest_snapshots_map_of)
qed

lemma fold_update_value:
  assumes "x \<in> set xs" and "P x" and "inj_on k (set xs)"
  shows "map_of (fold (\<lambda>y al. if P y then AList.update (k y) y al else al) xs al) (k x) = Some x"
  using assms
proof (induction xs arbitrary: al rule: rev_induct)
  case (snoc y ys)
  show ?case
  proof (cases "y = x")
    case True
    then show ?thesis using snoc.prems by (simp add: update_conv')
  next
    case False
    then have "k y \<noteq> k x"
      using snoc.prems by (auto simp: inj_on_def)
    moreover have "map_of (fold (\<lambda>y al. if P y then AList.update (k y) y al else al) ys al) (k x) = Some x"
      using snoc.prems False by (intro snoc.IH) (auto simp: inj_on_def)
    ultimately show ?thesis by (simp add: update_conv')
  qed
qed simp

lemma match_blocker_ordinary:
  "match_blocker intent [] s m = Inr m' \<longleftrightarrow>
     in_intent_id (sn_intent s) = in_intent_id intent \<and> m' = m"
  by (auto simp: match_blocker_def Let_def)

lemma rfold_match_ordinary:
  "rfold (match_blocker intent []) ss m = Inr m' \<Longrightarrow>
     \<forall>s \<in> set ss. in_intent_id (sn_intent s) = in_intent_id intent"
  by (induction ss arbitrary: m) (auto simp: result_simps match_blocker_ordinary)

lemma require_no_replacement_blocks:
  assumes ok: "require_no_replacement intent st cur = Inr u"
    and ordinary: "purpose_originals (in_purpose intent) = []"
    and current: "latest_record (es_records st) i = Some r"
    and rival: "same_effect intent (er_snapshot r)"
    and attempts: "inj_on sn_attempt (set (map snd (latest_snapshots (es_records st))))"
  shows "i = in_intent_id intent"
proof -
  let ?latest = "map snd (latest_snapshots (es_records st))"
  from ok ordinary obtain b0 m where
    "rfold (match_blocker intent []) (map snd (fold (\<lambda>s b. if same_effect intent s
        then AList.update (sn_attempt s) s b else b) ?latest b0)) {} = Inr m"
    by (auto simp: require_no_replacement_def Let_def result_simps split: if_splits)
  note all = rfold_match_ordinary [OF this]
  have "er_snapshot r \<in> set ?latest"
    using current latest_snapshots_values by blast
  from fold_update_value [OF this, where P = "same_effect intent", OF rival attempts, of b0]
  have "in_intent_id (sn_intent (er_snapshot r)) = in_intent_id intent"
    using all by (force dest: map_of_SomeD)
  then show ?thesis
    using latest_record_Some [OF current] by simp
qed

lemma successor_crossing:
  assumes "prepare_successor d command s st cur = Inr (s', k)"
    and "sn_state s' \<in> crossed_states" and "sn_state s \<notin> crossed_states"
  shows "require_no_replacement (sn_intent s) st cur = Inr ()"
proof (cases command)
  case (CommitSend c)
  then show ?thesis
    using assms(1) by (auto simp: result_simps)
next
  case (AuthorizeDispatch c)
  then show ?thesis
    using assms by (auto simp: result_simps)
next
  case (BeforeSendDisposition c)
  then show ?thesis
    using assms by (cases "bs_disposition c")
      (auto simp: prepare_before_send_def result_simps crossed_states_def split: if_splits)
next
  case (RecordEvidence c)
  then have "sn_state s' = sn_state s
      \<or> dispatch_step AUTHENTICATED_EVIDENCE False (sn_state s) (sn_state s')"
    using assms(1) by (auto simp: prepare_record_evidence_def Let_def result_simps
        require_transition_dispatch_step split: if_splits)
  then show ?thesis
    using assms(2,3) by (auto simp: all_state_sets elim!: dispatch_step.cases)
next
  case (ReconcileEffect c)
  then obtain t where "evidence_state d s = Inr t"
    using assms(1) by (auto simp: prepare_reconcile_def result_simps split: if_splits)
  then show ?thesis
    using assms(3) evidence_state_ok(1) by blast
qed (use assms(1) in simp_all)

definition rival_effect :: "ExternalActionIntent \<Rightarrow> ExternalActionIntent \<Rightarrow> bool" where
  "rival_effect a b \<longleftrightarrow>
     ab_recipient (in_authority a) = ab_recipient (in_authority b)
     \<and> (in_effect_fingerprint a = in_effect_fingerprint b \<or> in_payload a = in_payload b)"

definition in_flight :: "EffectRecord list \<Rightarrow> ExternalActionIntent \<Rightarrow> bool" where
  "in_flight rs intent \<longleftrightarrow>
     (\<exists>r. latest_record rs (in_intent_id intent) = Some r \<and> sn_intent (er_snapshot r) = intent
        \<and> sn_state (er_snapshot r) \<in> crossed_states)"

lemma in_flight_snoc:
  "in_flight (rs @ [r]) a \<longleftrightarrow>
     (if in_intent_id (sn_intent (er_snapshot r)) = in_intent_id a
      then sn_intent (er_snapshot r) = a \<and> sn_state (er_snapshot r) \<in> crossed_states
      else in_flight rs a)"
  by (auto simp: in_flight_def)

lemma history_attempts_inj:
  assumes "effect_history d tenant h log"
  shows "inj_on sn_attempt (set (map snd (latest_snapshots (map snd log))))"
proof (rule inj_onI)
  fix s s' assume "s \<in> set (map snd (latest_snapshots (map snd log)))"
    and "s' \<in> set (map snd (latest_snapshots (map snd log)))" and eq: "sn_attempt s = sn_attempt s'"
  then obtain i r i' r' where r: "latest_record (map snd log) i = Some r" "er_snapshot r = s"
    and r': "latest_record (map snd log) i' = Some r'" "er_snapshot r' = s'"
    unfolding latest_snapshots_values by blast
  have "eh_subject_id (sn_attempt s) = i @ ''/attempt''" and "eh_subject_id (sn_attempt s') = i' @ ''/attempt''"
    using history_rows_ok [OF assms] latest_record_Some [OF r(1)] latest_record_Some [OF r'(1)] r(2) r'(2)
    by (auto simp: row_ok_def snapshot_wf_def)
  then have "i = i'"
    using eq by simp
  then show "s = s'"
    using r r' by simp
qed

lemma history_entry:
  assumes hist: "effect_history d tenant h log"
    and prep: "prepare_transition d command (store_at tenant h log) cur = Inr p"
    and now: "sn_state (er_snapshot (pe_record p)) \<in> crossed_states"
    and entry: "\<not> in_flight (map snd log) (sn_intent (er_snapshot (pe_record p)))"
    and ordinary: "purpose_originals (in_purpose (sn_intent (er_snapshot (pe_record p)))) = []"
    and rival: "in_flight (map snd log) b" "rival_effect (sn_intent (er_snapshot (pe_record p))) b"
  shows "in_intent_id b = in_intent_id (sn_intent (er_snapshot (pe_record p)))"
  using prep
proof (cases rule: prepare_transition_cases)
  case (initial intent fence)
  then have "sn_state (er_snapshot (pe_record p)) = INTENT_RECORDED"
    using prepare_initial_ok [OF initial(2)] snapshot_wf_initial by blast
  then show ?thesis
    using now by (simp add: crossed_states_def)
next
  case (successor r s' k)
  note ok = successor_ok [OF successor(2-4)]
  have state: "sn_state s' \<in> crossed_states" and "sn_state (er_snapshot r) \<notin> crossed_states"
    using ok(1,3,5) now entry by (auto simp: settled_by_def in_flight_def store_at_def)
  then have free: "require_no_replacement (sn_intent (er_snapshot r)) (store_at tenant h log) cur = Inr ()"
    using successor_crossing [OF successor(3)] by blast
  from rival obtain q where q: "latest_record (map snd log) (in_intent_id b) = Some q"
    and eff: "same_effect (sn_intent (er_snapshot r)) (er_snapshot q)"
    using ok(5) by (auto simp: in_flight_def same_effect_def rival_effect_def)
  show ?thesis
    using require_no_replacement_blocks [OF free _ _ eff, of "in_intent_id b"] q ordinary ok(5)
      history_attempts_inj [OF hist] by (simp add: store_at_def)
qed

lemma rival_effect_sym: "rival_effect a b \<longleftrightarrow> rival_effect b a"
  by (auto simp: rival_effect_def)

lemma history_single_flight:
  assumes "effect_history d tenant h log"
    and "in_flight (map snd log) a" and "in_flight (map snd log) b" and "rival_effect a b"
    and "purpose_originals (in_purpose a) = []" and "purpose_originals (in_purpose b) = []"
  shows "in_intent_id a = in_intent_id b"
  using assms
proof (induction arbitrary: a b rule: effect_history.induct)
  case (publish h log command current p)
  let ?r = "pe_record p"
  have entry: "in_intent_id y = in_intent_id x"
    if x: "sn_intent (er_snapshot ?r) = x" "sn_state (er_snapshot ?r) \<in> crossed_states"
      and y: "in_flight (map snd log) y" and xy: "rival_effect x y"
      and ord: "purpose_originals (in_purpose x) = []" "purpose_originals (in_purpose y) = []" for x y
  proof (cases "in_flight (map snd log) x")
    case True
    then show ?thesis
      using publish.IH [OF True y xy ord] by simp
  next
    case False
    then show ?thesis
      using history_entry [OF publish.hyps(1,2)] x y xy ord by auto
  qed
  let ?i = "in_intent_id (sn_intent (er_snapshot ?r))"
  have new: "sn_intent (er_snapshot ?r) = x" "sn_state (er_snapshot ?r) \<in> crossed_states"
    if "in_flight (map snd (log @ [(Suc h, ?r)])) x" "?i = in_intent_id x" for x
    using that by (simp_all add: in_flight_snoc)
  have old: "in_flight (map snd log) x"
    if "in_flight (map snd (log @ [(Suc h, ?r)])) x" "?i \<noteq> in_intent_id x" for x
    using that by (simp add: in_flight_snoc)
  consider "?i = in_intent_id a" "?i = in_intent_id b" | "?i = in_intent_id a" "?i \<noteq> in_intent_id b"
    | "?i \<noteq> in_intent_id a" "?i = in_intent_id b" | "?i \<noteq> in_intent_id a" "?i \<noteq> in_intent_id b"
    by blast
  then show ?case
  proof cases
    case 2
    show ?thesis
      using entry [OF new [OF publish.prems(1) 2(1)] old [OF publish.prems(2) 2(2)] publish.prems(3-5)]
      by (rule sym)
  next
    case 3
    have "rival_effect b a"
      using publish.prems(3) rival_effect_sym by blast
    then show ?thesis
      using entry [OF new [OF publish.prems(2) 3(2)] old [OF publish.prems(1) 3(1)]] publish.prems(4,5)
      by blast
  next
    case 4
    then show ?thesis
      using publish.IH [OF old old] publish.prems by blast
  qed simp
qed (auto simp: in_flight_def)

section \<open>Evidence is never stuck behind the lineage\<close>

lemma rfold_events:
  "rfold (\<lambda>event rows. if \<not> event_exact cs ms event then Inl e else Inr (rows @ f event)) evs acc =
     (if list_all (event_exact cs ms) evs then Inr (acc @ concat (map f evs)) else Inl e)"
  by (induction evs arbitrary: acc) auto

lemma evidence_state_eq:
  "evidence_state d s =
     (let ms = in_inseparable_bundle_members (sn_intent s); cs = map ta_transmission (sn_transmissions s)
      in if list_all (event_exact cs ms) (sn_evidence_records s)
         then reduce_child_evidence (sn_state s) (sn_transmissions s) ms
                (concat (map (event_rows d ms) (sn_evidence_records s)))
         else Inl (EffectRuleViolation CONFLICT ''evidence contains unknown or duplicate exact member''))"
  by (simp add: evidence_state_def rfold_events Let_def)

lemma event_rows_set:
  "row \<in> set (event_rows d ms event) \<Longrightarrow>
     me_evidence row = event_ref d event \<and> me_child row \<in> set (re_covered_children event)
     \<and> me_member row \<in> set ms"
  by (auto simp: event_rows_def event_ref_def Let_def split: if_splits)

lemma events_about:
  assumes "list_all (event_exact cs ms) evs" and "distinct (map re_evidence_id evs)"
  shows "evidence_about cs ms (concat (map (event_rows d ms) evs))"
proof -
  have same: "e = e'" if "e \<in> set evs" "e' \<in> set evs" "re_evidence_id e = re_evidence_id e'" for e e'
    using assms(2) that by (auto simp: distinct_map inj_on_def)
  have mem: "\<exists>e \<in> set evs. me_evidence row = event_ref d e \<and> me_child row \<in> set cs \<and> me_member row \<in> set ms"
    if "row \<in> set (concat (map (event_rows d ms) evs))" for row
    using that event_rows_set assms(1) by (fastforce simp: list_all_iff event_exact_def)
  show ?thesis
    unfolding evidence_about_def list_all_iff using mem same by (metis event_ref_subject)
qed

lemma lineage_children:
  assumes "lineage_ok d s" and "sn_state s \<in> crossed_states"
  shows "child_lineage (sn_transmissions s)"
proof -
  let ?ts = "sn_transmissions s"
  have ne: "?ts \<noteq> []" and kid: "\<And>n. n < length ?ts \<Longrightarrow> child_of (sn_intent s) n (?ts ! n)"
    using assms by (auto simp: lineage_ok_def all_state_sets)
  have ord: "map ta_ordinal ?ts = [0..<length ?ts]"
    using kid by (intro nth_equalityI) (auto simp: child_of_def)
  have "distinct (map (eh_subject_id \<circ> ta_transmission) ?ts)"
    using kid by (auto simp: distinct_conv_nth child_of_def nat_str_inj)
  then have dist: "distinct (map ta_transmission ?ts)"
    by (metis distinct_map map_map)
  have bound: "ta_intent t = intent_ref (sn_intent s) \<and> ta_semantics t = in_semantics (sn_intent s)
      \<and> ta_payload_fingerprint t = in_effect_fingerprint (sn_intent s)
      \<and> ta_recipient t = ab_recipient (in_authority (sn_intent s))
      \<and> ta_idempotency_fence_key t = in_idempotency_fence_key (sn_intent s)" if mem: "t \<in> set ?ts" for t
  proof -
    obtain n where "n < length ?ts" "t = ?ts ! n"
      using mem by (auto simp: in_set_conv_nth)
    then show ?thesis
      using kid [of n] by (simp add: child_of_def)
  qed
  have "same_binding (hd ?ts) t" if "t \<in> set ?ts" for t
    using bound [OF that] bound [OF hd_in_set [OF ne]] by (simp add: same_binding_def)
  then show ?thesis
    using ne ord dist by (simp add: child_lineage_def list_all_iff)
qed

lemma evidence_state_progress:
  assumes "lineage_ok d s" and "sn_state s \<in> crossed_states"
    and "in_inseparable_bundle_members (sn_intent s) \<noteq> []" and "distinct (in_inseparable_bundle_members (sn_intent s))"
    and "list_all (event_exact (map ta_transmission (sn_transmissions s)) (in_inseparable_bundle_members (sn_intent s)))
           (sn_evidence_records s)"
  shows "evidence_state d s = Inr (reduced_outcome (sn_state s) (map ta_transmission (sn_transmissions s))
     (in_inseparable_bundle_members (sn_intent s))
     (concat (map (event_rows d (in_inseparable_bundle_members (sn_intent s))) (sn_evidence_records s))))"
proof -
  have "distinct (map re_evidence_id (sn_evidence_records s))"
    using assms(1) by (simp add: lineage_ok_def)
  then show ?thesis
    using assms lineage_children [OF assms(1,2)] events_about [OF assms(5)]
    by (simp add: evidence_state_eq reduce_child_evidence_eq crossed_states_def Let_def)
qed

section \<open>Retained evidence that no reduction can read\<close>

text \<open>The snapshots the owner can publish from \<open>s\<close> on, each from the record of the one before.\<close>

inductive follows :: "EffectDumps \<Rightarrow> EffectSnapshot \<Rightarrow> EffectSnapshot \<Rightarrow> bool" for d s where
  itself: "follows d s s"
| transition: "follows d s (er_snapshot r) \<Longrightarrow> initial_parts command = None \<Longrightarrow>
     previous_record command st = Inr r \<Longrightarrow> prepare_transition d command st cur = Inr p \<Longrightarrow>
     follows d s (er_snapshot (pe_record p))"

text \<open>The members an observation names are distinct and of the bundle.\<close>

definition members_exact :: "ExternalActionIntent \<Rightarrow> RecordEvidenceCommand \<Rightarrow> bool" where
  "members_exact intent c \<longleftrightarrow>
     distinct (re_occurred_members c) \<and> distinct (re_permanently_incapable_members c)
     \<and> set (re_occurred_members c) \<union> set (re_permanently_incapable_members c)
         \<subseteq> set (in_inseparable_bundle_members intent)"

definition blocked_by :: "RecordEvidenceCommand \<Rightarrow> EffectSnapshot \<Rightarrow> bool" where
  "blocked_by c s \<longleftrightarrow> sn_state s = SENT \<and> c \<in> set (sn_evidence_records s) \<and> \<not> members_exact (sn_intent s) c"

lemma blocked_evidence_state: 
  assumes "c \<in> set (sn_evidence_records s)" and "\<not> members_exact (sn_intent s) c"
  shows "evidence_state d s \<noteq> Inr t"
proof -
  have "\<not> event_exact (map ta_transmission (sn_transmissions s)) (in_inseparable_bundle_members (sn_intent s)) c"
    using assms(2) by (auto simp: event_exact_def members_exact_def)
  then show ?thesis
    using assms(1) unfolding evidence_state_eq Let_def list_all_iff by auto
qed

lemma blocked_reconcile: "blocked_by c s \<Longrightarrow> prepare_reconcile d c2 s cur \<noteq> Inr x"
  using blocked_evidence_state [of c s d] by (auto simp: blocked_by_def prepare_reconcile_def result_simps split: if_splits)

lemma blocked_reduction:
  assumes "blocked_by c s" and "cu_original_reducer_semantics cur = Some (re_semantics c2)"
  shows "prepare_record_evidence d c2 s st cur \<noteq> Inr x"
  using assms blocked_evidence_state [of c "s\<lparr>sn_evidence := e, sn_evidence_records := sn_evidence_records s @ [c2]\<rparr>" d for e]
  by (auto simp: blocked_by_def prepare_record_evidence_def Let_def result_simps state_sets split: if_splits)

lemma blocked_successor:
  assumes "blocked_by c s" and "prepare_successor d command s st cur = Inr (s', k)"
  shows "blocked_by c s'
    \<and> ((\<exists>c2. command = CommitSend c2)
       \<or> (\<exists>c2. command = RecordEvidence c2 \<and> cu_original_reducer_semantics cur \<noteq> Some (re_semantics c2)))"
proof (cases command)
  case (RecordEvidence c2)
  then have "cu_original_reducer_semantics cur \<noteq> Some (re_semantics c2)"
    using assms blocked_reduction by auto
  then show ?thesis
    using assms RecordEvidence by (auto simp: blocked_by_def prepare_record_evidence_def Let_def split: if_splits)
next
  case (ReconcileEffect c2)
  then show ?thesis using assms blocked_reconcile by auto
next
  case (CommitSend c2)
  then show ?thesis
    using assms by (auto simp: blocked_by_def prepare_commit_send_def send_branch_def Let_def result_simps
        require_transition_dispatch_step dispatch_step_from state_sets split: if_splits Transmission.splits)
next
  case (BeforeSendDisposition c2)
  then show ?thesis
    using assms by (cases "bs_disposition c2") (auto simp: blocked_by_def prepare_before_send_def Let_def result_simps
        require_transition_dispatch_step dispatch_step_from state_sets split: if_splits)
qed (use assms in \<open>auto simp: blocked_by_def prepare_authorize_def Let_def result_simps
        require_transition_dispatch_step dispatch_step_from state_sets split: if_splits\<close>)

lemma blocked_settled: "settled_by d command previous s s' \<Longrightarrow> blocked_by c s' = blocked_by c s"
  by (auto simp: settled_by_def blocked_by_def)

lemma blocked_transition:
  assumes "blocked_by c (er_snapshot r)" and "initial_parts command = None" and "previous_record command st = Inr r"
    and "prepare_transition d command st cur = Inr p"
  shows "blocked_by c (er_snapshot (pe_record p))
    \<and> ((\<exists>c2. command = CommitSend c2)
       \<or> (\<exists>c2. command = RecordEvidence c2 \<and> cu_original_reducer_semantics cur \<noteq> Some (re_semantics c2)))"
  using assms(4)
proof (cases rule: prepare_transition_cases)
  case (successor r' s' k)
  then have "r' = r" using assms(3) by simp
  moreover have "settled_by d command (Some r') s' (er_snapshot (pe_record p))"
    using bind_record_ok [OF successor(4)] by blast
  ultimately show ?thesis
    using blocked_successor [OF assms(1)] successor(3) blocked_settled by blast
qed (use assms(2) in simp)

lemma blocked_follows: "follows d s s' \<Longrightarrow> blocked_by c s \<Longrightarrow> blocked_by c s'"
proof (induction rule: follows.induct)
  case (transition r command st cur p)
  then show ?case using blocked_transition by blast
qed

end
