(* ===== verification/Effects_Properties.thy ===== *)
theory Effects_Properties
  imports Effects_History
begin

text \<open>
  The correctness statements of the effect owner. A small sample history (one intent published,
  authorised and sent) instantiates them; its serialiser parameter is a concrete function.
\<close>

section \<open>A sample history\<close>

definition head0 :: "string \<Rightarrow> ExactHead" where
  "head0 x = \<lparr>eh_subject_id = x, eh_head = x, eh_fingerprint = x\<rparr>"

definition wit_dumps :: EffectDumps where
  "wit_dumps = \<lparr>dump_head = \<lambda>h. JStr (eh_head h),
     dump_semantics = \<lambda>s. JStr (ds_reducer_version s),
     dump_intent = \<lambda>i. JObj [(''fingerprint'', JStr (in_fingerprint i)), (''intent_id'', JStr (in_intent_id i))],
     dump_identity = \<lambda>i. JStr (ci_command_id i),
     dump_command = \<lambda>c. JStr (ci_command_id (command_identity c)),
     dump_opening = \<lambda>b. JStr (eh_head (oo_obligation b)),
     dump_snapshot = \<lambda>s. JObj [(''attempt'', JStr (eh_head (sn_attempt s))), (''state'', JStr (state_name (sn_state s)))]\<rparr>"

definition wit_semantics :: DispatchSemanticBinding where
  "wit_semantics = \<lparr>ds_normative_manifest = ''n'', ds_reducer_version = ''r'', ds_transition_registry_version = ''t'',
     ds_canonicalization_fingerprint_version = ''c'', ds_adapter_contract_version = ''a''\<rparr>"

definition wit_recipient :: ProviderRecipient where
  "wit_recipient = \<lparr>rc_provider = ''p'', rc_account = ''acct'', rc_recipient = ''bob'',
     rc_endpoint = head0 ''e'', rc_canonical_address = [7], rc_credential_binding = head0 ''k''\<rparr>"

definition wit_authority :: AuthorityBinding where
  "wit_authority = \<lparr>ab_tenant_id = ''tenant'', ab_principal_id = ''p'', ab_actor_id = ''a'',
     ab_authenticated_session = head0 ''s'',
     ab_act = DIRECT_AUTHENTICATED_ACT \<lparr>da_act = head0 ''act'', da_ingress = head0 ''in''\<rparr>,
     ab_planning_revision = head0 ''pr'', ab_authorization_evidence = head0 ''ae'',
     ab_authority_sources = [head0 ''src''], ab_affected_party_constraints = [],
     ab_hold_conflict_order = head0 ''hc'', ab_dependencies = [], ab_factual_assertion_evidence = [],
     ab_verification_contradiction = [], ab_authority_applicability = [],
     ab_consequence_scope = head0 ''cs'', ab_communication_mandate = head0 ''cm'',
     ab_disclosure_projection = head0 ''dp'', ab_channel_class = ''mail'',
     ab_interaction_context = head0 ''ic'', ab_recipient = wit_recipient,
     ab_reads = [\<lparr>ar_source_id = ''src'', ar_source_version = ''1'', ar_head = head0 ''src'', ar_generation = ''g'',
        ar_frontier = ''f'', ar_valid_until_ns = 100, ar_canonical_value = [1]\<rparr>],
     ab_registry_inputs = [], ab_valid_until_ns = 100\<rparr>"

definition wit_intent :: ExternalActionIntent where
  "wit_intent = \<lparr>in_intent_id = ''i1'', in_fingerprint = json_digest (JObj [(''intent_id'', JStr ''i1'')]),
     in_authority = wit_authority, in_semantics = wit_semantics, in_payload = [1, 2],
     in_effect_fingerprint = sha256_hex [1, 2], in_idempotency_fence_key = ''key'',
     in_inseparable_bundle_members = [head0 ''m''], in_purpose = ORDINARY_EFFECT\<rparr>"

definition wit_fence :: WorkerFence where
  "wit_fence = NON_SCHEDULER_NOT_APPLICABLE \<lparr>nf_run_id = ''run'', nf_run_head = ''rh'',
     nf_worker_session_id = ''w'', nf_runtime_generation = ''g''\<rparr>"

definition wit_identity :: "string \<Rightarrow> nat \<Rightarrow> CommandIdentity" where
  "wit_identity c h = \<lparr>ci_command_id = c, ci_fingerprint = c, ci_expected_tenant_head = h\<rparr>"

definition wit_inputs :: "string \<Rightarrow> nat \<Rightarrow> CurrentEffectInputs" where
  "wit_inputs c h = \<lparr>cu_command_id = c, cu_command_fingerprint = c, cu_store_frontier = h,
     cu_observed_time_ns = 10, cu_authority = wit_authority, cu_supported_semantics = Some wit_semantics,
     cu_fence = wit_fence, cu_authority_decision = head0 ''ad'', cu_blocking_effect_heads = [],
     cu_current_original_ambiguity_heads = [], cu_initialized_call = None, cu_active_run_head = None,
     cu_independently_verified_safe_proof = None, cu_authenticated_evidence = None,
     cu_original_reducer_semantics = Some wit_semantics, cu_authorized_reconciler = None\<rparr>"

definition wit_publish :: EffectCommand where
  "wit_publish = PublishPlanEffect \<lparr>pp_identity = wit_identity ''c1'' 0, pp_intent = wit_intent,
     pp_planning_publication = head0 ''pp'', pp_planning_owner_bytes = [1],
     pp_complete_publication_manifest = [head0 ''pm''], pp_fence = wit_fence\<rparr>"

lemmas wit_defs = head0_def wit_dumps_def wit_semantics_def wit_recipient_def wit_authority_def
  wit_intent_def wit_fence_def wit_identity_def wit_inputs_def wit_publish_def

lemmas prepare_defs = prepare_transition_def prepare_initial_def store_at_def initial_snapshot_def
  require_semantics_def require_current_authority_def require_no_replacement_def latest_snapshots_def
  snapshots_by_head_def bind_record_def next_obligation_def  Let_def

definition wit_p1 :: PreparedEffectPublication where
  "wit_p1 = projr (prepare_transition wit_dumps wit_publish (store_at ''tenant'' 0 []) (wit_inputs ''c1'' 0))"

lemma wit_prepared1:
  "prepare_transition wit_dumps wit_publish (store_at ''tenant'' 0 []) (wit_inputs ''c1'' 0) = Inr wit_p1"
  unfolding wit_p1_def by (simp add: wit_defs prepare_defs)

lemma wit_p1_fields:
  "sn_intent (er_snapshot (pe_record wit_p1)) = wit_intent"
  "sn_state (er_snapshot (pe_record wit_p1)) = INTENT_RECORDED"
  "sn_authorizations (er_snapshot (pe_record wit_p1)) = []"
  "sn_transmissions (er_snapshot (pe_record wit_p1)) = []"
  "sn_evidence (er_snapshot (pe_record wit_p1)) = []"
  "sn_evidence_records (er_snapshot (pe_record wit_p1)) = []"
  "sn_recovery_obligation (er_snapshot (pe_record wit_p1)) = None"
  "ci_command_id (er_command (pe_record wit_p1)) = ''c1''"
  unfolding wit_p1_def by (simp_all add: wit_defs prepare_defs)

definition wit_authorize :: EffectCommand where
  "wit_authorize = AuthorizeDispatch \<lparr>ad_identity = wit_identity ''c2'' 1, ad_intent = intent_ref wit_intent,
     ad_expected_attempt = sn_attempt (er_snapshot (pe_record wit_p1)), ad_current_authority = wit_authority,
     ad_semantics = wit_semantics, ad_fence = wit_fence\<rparr>"

definition wit_p2 :: PreparedEffectPublication where
  "wit_p2 = projr (prepare_transition wit_dumps wit_authorize
     (store_at ''tenant'' 1 [(1, pe_record wit_p1)]) (wit_inputs ''c2'' 1))"

lemma wit_intent_fields:
  "in_authority wit_intent = wit_authority" "in_semantics wit_intent = wit_semantics"
  "in_intent_id wit_intent = ''i1''" "purpose_originals (in_purpose wit_intent) = []"
  "in_purpose wit_intent = ORDINARY_EFFECT"
  "sha256_hex (in_payload wit_intent) = in_effect_fingerprint wit_intent"
  "in_inseparable_bundle_members wit_intent = [head0 ''m'']"
  "require_current_authority wit_intent wit_authority 10 = Inr ()"
  "eh_subject_id (intent_ref wit_intent) = ''i1''"
  by (simp_all add: wit_intent_def wit_authority_def require_current_authority_def intent_ref_def)

lemmas successor_defs = prepare_transition_def store_at_def previous_record_def
  prepare_authorize_def prepare_commit_send_def send_branch_def require_semantics_def
  require_no_replacement_def latest_snapshots_def snapshots_by_head_def same_effect_def
  bind_record_def next_obligation_def require_transition_def state_sets crossed_states_def
  purpose_needs_originals_def Let_def

lemma wit_prepared2:
  "prepare_transition wit_dumps wit_authorize (store_at ''tenant'' 1 [(1, pe_record wit_p1)])
     (wit_inputs ''c2'' 1) = Inr wit_p2"
  unfolding wit_p2_def
  by (simp add: wit_authorize_def wit_identity_def wit_inputs_def wit_p1_fields wit_intent_fields successor_defs)

lemma wit_p2_fields:
  "sn_intent (er_snapshot (pe_record wit_p2)) = wit_intent"
  "sn_state (er_snapshot (pe_record wit_p2)) = DISPATCH_AUTHORIZED"
  "\<exists>a. sn_authorizations (er_snapshot (pe_record wit_p2)) = [a] \<and> au_intent a = intent_ref wit_intent
      \<and> au_semantics a = wit_semantics \<and> au_fence a = wit_fence"
  "sn_transmissions (er_snapshot (pe_record wit_p2)) = []"
  "sn_evidence (er_snapshot (pe_record wit_p2)) = []"
  "sn_evidence_records (er_snapshot (pe_record wit_p2)) = []"
  "sn_recovery_obligation (er_snapshot (pe_record wit_p2)) = None"
  "ci_command_id (er_command (pe_record wit_p2)) = ''c2''"
  unfolding wit_p2_def
  by (simp_all add: wit_authorize_def wit_identity_def wit_inputs_def wit_p1_fields wit_intent_fields successor_defs)

definition wit_authorization :: DispatchAuthorization where
  "wit_authorization = hd (sn_authorizations (er_snapshot (pe_record wit_p2)))"

lemma wit_authorization_fields:
  "sn_authorizations (er_snapshot (pe_record wit_p2)) = [wit_authorization]"
  "au_intent wit_authorization = intent_ref wit_intent"
  "au_semantics wit_authorization = wit_semantics" "au_fence wit_authorization = wit_fence"
  using wit_p2_fields(3) by (auto simp: wit_authorization_def)

definition wit_send :: EffectCommand where
  "wit_send = CommitSend \<lparr>cs_identity = wit_identity ''c3'' 2,
     cs_expected_attempt = sn_attempt (er_snapshot (pe_record wit_p2)),
     cs_authorization = wit_authorization, cs_fence = wit_fence, cs_transmission = FIRST_TRANSMISSION,
     cs_current_time_ns = 10\<rparr>"

definition wit_p3 :: PreparedEffectPublication where
  "wit_p3 = projr (prepare_transition wit_dumps wit_send
     (store_at ''tenant'' 2 [(1, pe_record wit_p1), (2, pe_record wit_p2)]) (wit_inputs ''c3'' 2))"

lemma wit_prepared3:
  "prepare_transition wit_dumps wit_send (store_at ''tenant'' 2 [(1, pe_record wit_p1), (2, pe_record wit_p2)])
     (wit_inputs ''c3'' 2) = Inr wit_p3"
  unfolding wit_p3_def
  by (simp add: wit_send_def wit_identity_def wit_inputs_def wit_p1_fields wit_p2_fields wit_authorization_fields
     wit_intent_fields successor_defs)

lemma wit_p3_fields:
  "sn_intent (er_snapshot (pe_record wit_p3)) = wit_intent"
  "sn_state (er_snapshot (pe_record wit_p3)) = SEND_COMMITTED"
  "length (sn_transmissions (er_snapshot (pe_record wit_p3))) = 1"
  "ci_command_id (er_command (pe_record wit_p3)) = ''c3''"
  unfolding wit_p3_def
  by (simp_all add: wit_send_def wit_identity_def wit_inputs_def wit_p1_fields wit_p2_fields wit_authorization_fields
     wit_intent_fields successor_defs)

definition wit_log :: "(nat \<times> EffectRecord) list" where
  "wit_log = [(1, pe_record wit_p1), (2, pe_record wit_p2), (3, pe_record wit_p3)]"

lemma wit_history: "effect_history wit_dumps ''tenant'' 3 wit_log"
proof -
  have "effect_history wit_dumps ''tenant'' 1 [(1, pe_record wit_p1)]"
    using effect_history.publish [OF effect_history.genesis wit_prepared1] by simp
  then have "effect_history wit_dumps ''tenant'' 2 [(1, pe_record wit_p1), (2, pe_record wit_p2)]"
    using effect_history.publish [OF _ wit_prepared2] by (simp add: numeral_2_eq_2)
  then show ?thesis
    using effect_history.publish [OF _ wit_prepared3] by (simp add: wit_log_def numeral_3_eq_3)
qed

section \<open>The dispatch registry\<close>

text \<open>
  C5: The evidence reducer is exact. A reduction is CONFIRMED precisely when every bundle member is
  reported to have occurred by some child and every child has exactly one of the two positive reports
  for it; it is FAILED_NO_EFFECT precisely when every child is reported permanently incapable of every
  member and none is reported to have occurred. A missing, merely possible or absent observation
  never settles an attempt.
\<close>

theorem reduce_child_evidence_exact:
  assumes "reduce_child_evidence prior children members observations = Inr outcome"
  shows "(outcome = CONFIRMED \<longleftrightarrow> (\<forall>m \<in> set members.
            (\<exists>c \<in> set children. saw observations (ta_transmission c) m M_OCCURRED)
            \<and> (\<forall>c \<in> set children. saw observations (ta_transmission c) m M_OCCURRED
                 \<noteq> saw observations (ta_transmission c) m M_PERMANENTLY_INCAPABLE)))
     \<and> (outcome = FAILED_NO_EFFECT \<longleftrightarrow> (\<forall>m \<in> set members. \<forall>c \<in> set children.
            saw observations (ta_transmission c) m M_PERMANENTLY_INCAPABLE
            \<and> \<not> saw observations (ta_transmission c) m M_OCCURRED))"
proof -
  have prior: "prior \<in> {SEND_COMMITTED, SENT, OUTCOME_UNKNOWN, PARTIAL}" "members \<noteq> []" "children \<noteq> []"
    and out: "outcome = reduced_outcome prior (map ta_transmission children) members observations"
    using assms by (auto simp: reduce_child_evidence_eq child_lineage_def)
  show ?thesis
  proof (rule conjI)
    show "outcome = CONFIRMED \<longleftrightarrow> (\<forall>m \<in> set members.
            (\<exists>c \<in> set children. saw observations (ta_transmission c) m M_OCCURRED)
            \<and> (\<forall>c \<in> set children. saw observations (ta_transmission c) m M_OCCURRED
                 \<noteq> saw observations (ta_transmission c) m M_PERMANENTLY_INCAPABLE))"
      unfolding out reduced_outcome_def decided_def happened_def using prior
      by (auto simp: list_all_iff list_ex_iff)
    show "outcome = FAILED_NO_EFFECT \<longleftrightarrow> (\<forall>m \<in> set members. \<forall>c \<in> set children.
            saw observations (ta_transmission c) m M_PERMANENTLY_INCAPABLE
            \<and> \<not> saw observations (ta_transmission c) m M_OCCURRED)"
      unfolding out reduced_outcome_def decided_def happened_def using prior
      by (auto simp: list_all_iff list_ex_iff neq_Nil_conv)
  qed
qed

definition wit_child :: TransmissionAttempt where
  "wit_child = \<lparr>ta_transmission = head0 ''t0'', ta_intent = head0 ''i'', ta_ordinal = 0,
     ta_semantics = wit_semantics, ta_dispatch_time_ns = 1, ta_payload_fingerprint = ''f'',
     ta_recipient = wit_recipient, ta_idempotency_fence_key = ''key'', ta_send_commit = head0 ''s'',
     ta_coverage_proof = None\<rparr>"

definition wit_row :: "MemberOutcome \<Rightarrow> ChildMemberEvidence" where
  "wit_row k = \<lparr>me_evidence = head0 ''ev'', me_child = head0 ''t0'', me_member = head0 ''m'', me_outcome = k\<rparr>"

lemma wit_reduced:
  "reduce_child_evidence SENT [wit_child] [head0 ''m''] [wit_row M_OCCURRED] = Inr CONFIRMED"
  "reduce_child_evidence SENT [wit_child] [head0 ''m''] [wit_row M_ABSENCE_OBSERVED] = Inr OUTCOME_UNKNOWN"
  by (simp_all add: reduce_child_evidence_def wit_child_def wit_row_def same_binding_def observe_row_def
      tally_member_def head0_def Let_def)

theorem reduce_child_evidence_exact_witness:
  "saw [wit_row M_OCCURRED] (ta_transmission wit_child) (head0 ''m'') M_OCCURRED
   \<and> \<not> saw [wit_row M_ABSENCE_OBSERVED] (ta_transmission wit_child) (head0 ''m'') M_PERMANENTLY_INCAPABLE"
proof -
  have "saw [wit_row M_OCCURRED] (ta_transmission wit_child) (head0 ''m'') M_OCCURRED"
    using reduce_child_evidence_exact [OF wit_reduced(1)] by simp
  moreover have "\<not> (saw [wit_row M_ABSENCE_OBSERVED] (ta_transmission wit_child) (head0 ''m'') M_PERMANENTLY_INCAPABLE
      \<and> \<not> saw [wit_row M_ABSENCE_OBSERVED] (ta_transmission wit_child) (head0 ''m'') M_OCCURRED)"
    using reduce_child_evidence_exact [OF wit_reduced(2)] by simp
  ultimately show ?thesis
    by (simp add: saw_def wit_row_def)
qed

text \<open>
  The reduction depends only on which observations were made, not on their order or
  multiplicity: two observation lists with the same elements are accepted alike and yield the same
  outcome.
\<close>

theorem reduce_child_evidence_order:
  assumes "set observations = set observations'"
  shows "reduce_child_evidence prior children members observations = Inr outcome \<longleftrightarrow>
     reduce_child_evidence prior children members observations' = Inr outcome"
  using evidence_about_cong [OF assms] reduced_outcome_cong [OF assms]
  by (simp add: reduce_child_evidence_eq)

theorem reduce_child_evidence_order_witness:
  "set [wit_row M_OCCURRED, wit_row M_POSSIBLE] = set [wit_row M_POSSIBLE, wit_row M_OCCURRED]
   \<and> (reduce_child_evidence SENT [wit_child] [head0 ''m''] [wit_row M_OCCURRED, wit_row M_POSSIBLE] = Inr CONFIRMED
      \<longleftrightarrow> reduce_child_evidence SENT [wit_child] [head0 ''m''] [wit_row M_POSSIBLE, wit_row M_OCCURRED] = Inr CONFIRMED)"
  using reduce_child_evidence_order [of "[wit_row M_OCCURRED, wit_row M_POSSIBLE]" "[wit_row M_POSSIBLE, wit_row M_OCCURRED]"]
  by auto

text \<open>
  Whatever the reducer returns is either the state the attempt already has or a step that the
  registry grants to both evidence writers, so recording evidence is never refused because of the
  registry.
\<close>

theorem reduce_child_evidence_legal:
  assumes "reduce_child_evidence prior children members observations = Inr outcome"
    and "writer \<noteq> SEND_ADAPTER"
  shows "outcome = prior \<or> require_transition prior outcome writer False = Inr ()"
proof -
  have "prior \<in> {SEND_COMMITTED, SENT, OUTCOME_UNKNOWN, PARTIAL}"
    and out: "outcome = reduced_outcome prior (map ta_transmission children) members observations"
    using assms(1) unfolding reduce_child_evidence_eq by blast+
  from reduced_outcome_step [OF this(1) assms(2)] show ?thesis
    unfolding out require_transition_dispatch_step .
qed

theorem reduce_child_evidence_legal_witness:
  "require_transition SENT CONFIRMED AUTHENTICATED_EVIDENCE False = Inr ()"
  using reduce_child_evidence_legal [OF wit_reduced(1), of AUTHENTICATED_EVIDENCE] by simp

text \<open>
  A retransmission is admitted exactly when the attempt is in a retransmittable state, the
  original semantics are supported, the authority is current and unexpired, the very proof requested
  was verified independently, it names every prior child in order with the next ordinal, covers the
  exact effect now, no child lies in the future and, for provider idempotency, its window covers
  every earlier transmission.
\<close>

theorem safe_retransmission_exact:
  "require_safe_retransmission state intent children request proof authority supported now = Inr () \<longleftrightarrow>
     state \<in> RETRANSMISSION_STATES \<and> supported = Some (in_semantics intent)
     \<and> require_current_authority intent authority now = Inr ()
     \<and> proof = Some request
     \<and> children \<noteq> [] \<and> map ta_ordinal children = [0..<length children]
     \<and> sr_ordinal request = length children \<and> sr_prior_children request = map ta_transmission children
     \<and> sr_covered_effect_fingerprint request = in_effect_fingerprint intent
     \<and> sr_coverage_starts_ns request \<le> now \<and> now < sr_coverage_expires_ns request
     \<and> (\<forall>child \<in> set children. ta_semantics child = in_semantics intent
          \<and> eh_subject_id (ta_intent child) = in_intent_id intent
          \<and> eh_fingerprint (ta_intent child) = in_fingerprint intent
          \<and> ta_payload_fingerprint child = in_effect_fingerprint intent
          \<and> ta_recipient child = ab_recipient (in_authority intent)
          \<and> ta_idempotency_fence_key child = in_idempotency_fence_key intent
          \<and> ta_dispatch_time_ns child \<le> now
          \<and> (sr_proof_kind request = PROVIDER_IDEMPOTENCY_COVERS_ALL \<longrightarrow>
               sr_coverage_starts_ns request \<le> ta_dispatch_time_ns child
               \<and> ta_dispatch_time_ns child < sr_coverage_expires_ns request))"
proof -
  have state: "require_transition state state SEND_ADAPTER True = Inr () \<longleftrightarrow> state \<in> RETRANSMISSION_STATES"
    by (cases state) (simp_all add: require_transition_def state_sets)
  show ?thesis
    unfolding require_safe_retransmission_def rbind_eq_Inr state if_Inl_eq_Inr list_ex_iff
    by (simp add: state not_less not_le ball_conj_distrib) blast
qed

definition wit_sent_child :: TransmissionAttempt where
  "wit_sent_child = wit_child\<lparr>ta_intent := intent_ref wit_intent,
     ta_payload_fingerprint := in_effect_fingerprint wit_intent\<rparr>"

definition wit_request :: SafeRetransmission where
  "wit_request = \<lparr>sr_ordinal = 1, sr_prior_children = [head0 ''t0''],
     sr_proof_kind = PROVIDER_IDEMPOTENCY_COVERS_ALL, sr_proof = head0 ''proof'',
     sr_covered_effect_fingerprint = in_effect_fingerprint wit_intent,
     sr_coverage_starts_ns = 0, sr_coverage_expires_ns = 50\<rparr>"

theorem safe_retransmission_exact_witness:
  "require_safe_retransmission SENT wit_intent [wit_sent_child] wit_request (Some wit_request)
     wit_authority (Some wit_semantics) 10 = Inr ()
   \<and> require_safe_retransmission SENT wit_intent [wit_sent_child] wit_request None
       wit_authority (Some wit_semantics) 10 \<noteq> Inr ()"
proof -
  have "ta_idempotency_fence_key wit_sent_child = in_idempotency_fence_key wit_intent"
    and "ta_recipient wit_sent_child = ab_recipient (in_authority wit_intent)"
    and "ta_semantics wit_sent_child = in_semantics wit_intent"
    and "ta_transmission wit_sent_child = head0 ''t0''"
    and "ta_ordinal wit_sent_child = 0" and "ta_dispatch_time_ns wit_sent_child = 1"
    and "ta_payload_fingerprint wit_sent_child = in_effect_fingerprint wit_intent"
    and "ta_intent wit_sent_child = intent_ref wit_intent"
    by (simp_all add: wit_sent_child_def wit_child_def wit_intent_def wit_authority_def)
  then show ?thesis
    unfolding safe_retransmission_exact
    by (simp add: wit_request_def wit_intent_fields RETRANSMISSION_STATES_def intent_ref_def)
qed

section \<open>The effect store over time\<close>

text \<open>
  C1: No duplicate effect in flight. In every history of the store, two ordinary intents (neither a
  compensation nor an authorised duplicate) that address the same recipient with the same effect
  fingerprint or payload are never both between commit and resolution: if both are, they are the same
  intent.
\<close>

theorem no_duplicate_in_flight:
  assumes "effect_history d tenant h log"
    and "in_flight (map snd log) a" and "in_flight (map snd log) b" and "rival_effect a b"
    and "purpose_originals (in_purpose a) = []" and "purpose_originals (in_purpose b) = []"
  shows "in_intent_id a = in_intent_id b"
  using assms by (rule history_single_flight)

lemma wit_in_flight: "in_flight (map snd wit_log) wit_intent"
proof -
  have "map snd wit_log = [pe_record wit_p1, pe_record wit_p2] @ [pe_record wit_p3]"
    by (simp add: wit_log_def)
  then show ?thesis
    unfolding in_flight_def by (simp add: latest_record_snoc [of "[pe_record wit_p1, pe_record wit_p2]", simplified]
        wit_p3_fields wit_intent_fields crossed_states_def)
qed

theorem no_duplicate_in_flight_witness:
  "in_flight (map snd wit_log) wit_intent \<and> in_intent_id wit_intent = in_intent_id wit_intent"
  using no_duplicate_in_flight [OF wit_history wit_in_flight wit_in_flight] wit_in_flight by simp

text \<open>
  C2: Logical attempts are append-only and terminal states are final. Of two records of the same
  intent, the later one has the same immutable intent, keeps the earlier authorisations,
  transmissions and evidence as a prefix, keeps a terminal state unchanged, and never returns to a
  state before the send.
\<close>

theorem attempts_append_only:
  assumes "effect_history d tenant h log"
  shows "sorted_wrt (\<lambda>(_, r) (_, r').
     in_intent_id (sn_intent (er_snapshot r)) = in_intent_id (sn_intent (er_snapshot r')) \<longrightarrow>
     extends (er_snapshot r) (er_snapshot r')) log"
  using history_extends [OF assms] by (simp add: sorted_wrt_map case_prod_unfold)

theorem attempts_append_only_witness:
  "extends (er_snapshot (pe_record wit_p2)) (er_snapshot (pe_record wit_p3))"
  using attempts_append_only [OF wit_history] by (simp add: wit_log_def wit_p2_fields wit_p3_fields)

text \<open>
  C3: Every record of every history is well formed: an attempt has transmissions exactly when it has
  left the states before the send, its children carry consecutive ordinals and the exact binding of
  the intent, an unknown or partial outcome has exactly one open obligation that denies blind retry,
  a settled outcome has none open, the retained evidence has distinct identities, and the payload is
  the one the effect fingerprint commits to.
\<close>

theorem history_well_formed:
  assumes "effect_history d tenant h log" and "(n, r) \<in> set log"
  shows "snapshot_wf d (er_snapshot r)
     \<and> ab_tenant_id (in_authority (sn_intent (er_snapshot r))) = tenant
     \<and> sha256_hex (in_payload (sn_intent (er_snapshot r))) = in_effect_fingerprint (sn_intent (er_snapshot r))"
  using history_rows_ok [OF assms(1)] assms(2) by (force simp: row_ok_def)

theorem history_well_formed_witness:
  "snapshot_wf wit_dumps (er_snapshot (pe_record wit_p3))"
  using history_well_formed [OF wit_history, of 3 "pe_record wit_p3"] by (simp add: wit_log_def)

text \<open>
  Records are chained and positioned. Each record sits at the tenant position its command
  expected plus one, positions increase strictly, no command identity occurs twice, and each record
  names as predecessor the latest earlier record of its intent, or none exactly when it is the
  intent's initial publication.
\<close>

theorem history_chained_positions:
  assumes "effect_history d tenant h log"
  shows "chained (map snd log)
     \<and> sorted_wrt (<) (map fst log) \<and> distinct (map (ci_command_id \<circ> er_command \<circ> snd) log)
     \<and> (\<forall>(n, r) \<in> set log. n \<le> h \<and> ci_expected_tenant_head (er_command r) + 1 = n)"
  using history_chained [OF assms] history_positions [OF assms] by blast

theorem history_chained_positions_witness:
  "ci_expected_tenant_head (er_command (pe_record wit_p3)) + 1 = 3"
  using history_chained_positions [OF wit_history] by (simp add: wit_log_def)

section \<open>Sending and recording evidence\<close>

text \<open>
  C4: Bytes are committed only under current authority. When a send is prepared, the attempt's
  current record supplied the last authorisation, which binds this very intent; fence and trusted
  time are the observed ones; the authority equals the intent's, is unexpired in every read; a first
  transmission happens only from DISPATCH_AUTHORIZED with no child before it, and exactly one child
  is added.
\<close>

theorem commit_send_authorized:
  assumes "prepare_transition d (CommitSend c) st cur = Inr p"
  shows "\<exists>r. latest_record (es_records st) (eh_subject_id (au_intent (cs_authorization c))) = Some r
     \<and> sn_authorizations (er_snapshot r) \<noteq> [] \<and> last (sn_authorizations (er_snapshot r)) = cs_authorization c
     \<and> au_intent (cs_authorization c) = intent_ref (sn_intent (er_snapshot r))
     \<and> cs_fence c = cu_fence cur \<and> cs_current_time_ns c = cu_observed_time_ns cur
     \<and> in_authority (sn_intent (er_snapshot r)) = cu_authority cur
     \<and> cu_observed_time_ns cur < ab_valid_until_ns (cu_authority cur)
     \<and> (\<forall>row \<in> set (ab_reads (cu_authority cur)). cu_observed_time_ns cur < ar_valid_until_ns row)
     \<and> (cs_transmission c = FIRST_TRANSMISSION \<longrightarrow>
          sn_transmissions (er_snapshot r) = [] \<and> au_fence (cs_authorization c) = cs_fence c)
     \<and> length (sn_transmissions (er_snapshot (pe_record p))) = Suc (length (sn_transmissions (er_snapshot r)))"
  using assms
proof (cases rule: prepare_transition_cases)
  case (successor r s' k)
  note ok = successor_ok [OF successor(2-4)]
  from successor(2) have r: "latest_record (es_records st) (eh_subject_id (au_intent (cs_authorization c))) = Some r"
    "au_intent (cs_authorization c) = intent_ref (sn_intent (er_snapshot r))"
    by (auto elim!: previous_record_ok)
  from successor(3) have send: "prepare_commit_send d c (er_snapshot r) cur = Inr (s', k)"
    by (auto simp: result_simps)
  then have "sn_authorizations (er_snapshot r) \<noteq> []" "last (sn_authorizations (er_snapshot r)) = cs_authorization c"
      "cs_fence c = cu_fence cur" "cs_current_time_ns c = cu_observed_time_ns cur"
    and auth: "require_current_authority (sn_intent (er_snapshot r)) (cu_authority cur) (cu_observed_time_ns cur) = Inr ()"
    and branch: "\<exists>x. send_branch c (er_snapshot r) cur = Inr x"
    and len: "length (sn_transmissions s') = Suc (length (sn_transmissions (er_snapshot r)))"
    by (auto simp: prepare_commit_send_def Let_def result_simps split: if_splits)
  moreover have "cs_transmission c = FIRST_TRANSMISSION \<longrightarrow>
      sn_transmissions (er_snapshot r) = [] \<and> au_fence (cs_authorization c) = cs_fence c"
    using branch by (auto simp: send_branch_def result_simps split: if_splits)
  moreover have "length (sn_transmissions (er_snapshot (pe_record p))) = length (sn_transmissions s')"
    using ok(3) by (auto simp: settled_by_def)
  ultimately show ?thesis
    using r auth by (auto simp: require_current_authority_ok)
qed simp

theorem commit_send_authorized_witness:
  "\<exists>c r. wit_send = CommitSend c
     \<and> latest_record [pe_record wit_p1, pe_record wit_p2] (eh_subject_id (au_intent (cs_authorization c))) = Some r
     \<and> sn_authorizations (er_snapshot r) \<noteq> [] \<and> last (sn_authorizations (er_snapshot r)) = cs_authorization c"
proof -
  obtain c where c: "wit_send = CommitSend c"
    by (simp add: wit_send_def)
  from commit_send_authorized [OF wit_prepared3 [unfolded c]] show ?thesis
    by (auto simp: c store_at_def)
qed

lemma known_evidence:
  "list_ex (\<lambda>item. eh_subject_id item = i) xs \<longleftrightarrow> i \<in> eh_subject_id ` set xs"
  by (auto simp: list_ex_iff intro: rev_image_eqI)

text \<open>
  Late evidence is kept and a terminal state is immutable. For an attempt in a terminal state,
  evidence is admitted exactly when it is the authenticated command itself, matches its raw digest,
  tenant, original semantics and (for a local transport observation) claims no provider outcome, and
  its identity is new; the state is then unchanged and the evidence is appended.
\<close>

theorem terminal_evidence_exact:
  assumes "sn_state s \<in> TERMINAL_STATES"
  shows "prepare_record_evidence d c s st cur = Inr (s', k) \<longleftrightarrow>
     cu_authenticated_evidence cur = Some c
     \<and> sha256_hex (re_raw_bytes c) = auth_raw_digest (re_authentication c)
     \<and> auth_tenant_id (re_authentication c) = es_tenant_id st
     \<and> \<not> transport_overclaims c s
     \<and> re_semantics c = in_semantics (sn_intent s)
     \<and> re_evidence_id c \<notin> eh_subject_id ` set (sn_evidence s)
     \<and> k = K_EVIDENCE_RECORDED
     \<and> s' = s\<lparr>sn_evidence := sn_evidence s @ [event_ref d c],
               sn_evidence_records := sn_evidence_records s @ [c]\<rparr>"
  unfolding prepare_record_evidence_def known_evidence if_Inl_eq_Inr Let_def event_ref_def
  using assms by auto

definition wit_event :: "Observation \<Rightarrow> ExactHead list \<Rightarrow> ExactHead list \<Rightarrow> RecordEvidenceCommand" where
  "wit_event k children occurred = \<lparr>re_identity = wit_identity ''c4'' 3,
     re_expected_attempt = sn_attempt (er_snapshot (pe_record wit_p3)), re_evidence_id = ''ev1'', re_raw_bytes = [9],
     re_authentication = AUTHENTICATED_PROVIDER_EVIDENCE \<lparr>ea_broker_custody = head0 ''bc'', ea_ingress_surface = ''w'',
        ea_source_contract_version = ''1'', ea_tenant_id = ''tenant'', ea_source_identity = ''p'',
        ea_provider_account = ''acct'', ea_endpoint = head0 ''e'', ea_credential_key = head0 ''k'',
        ea_audience = ''aud'', ea_raw_digest = sha256_hex [9], ea_source_replay_identity = ''r1'',
        ea_intent = intent_ref wit_intent,
        ea_transmission = ta_transmission (hd (sn_transmissions (er_snapshot (pe_record wit_p3)))),
        ea_freshness = head0 ''fr''\<rparr>,
     re_semantics = wit_semantics, re_observation = k, re_covered_children = children,
     re_occurred_members = occurred, re_permanently_incapable_members = []\<rparr>"

definition wit_evidence_inputs :: "RecordEvidenceCommand \<Rightarrow> CurrentEffectInputs" where
  "wit_evidence_inputs c = (wit_inputs ''c4'' 3)\<lparr>cu_authenticated_evidence := Some c\<rparr>"

lemma wit_event_fields:
  "re_evidence_id (wit_event k cs ms) = ''ev1''" "re_semantics (wit_event k cs ms) = wit_semantics"
  "re_observation (wit_event k cs ms) = k" "re_covered_children (wit_event k cs ms) = cs"
  "re_occurred_members (wit_event k cs ms) = ms" "re_permanently_incapable_members (wit_event k cs ms) = []"
  "sha256_hex (re_raw_bytes (wit_event k cs ms)) = auth_raw_digest (re_authentication (wit_event k cs ms))"
  "auth_tenant_id (re_authentication (wit_event k cs ms)) = ''tenant''"
  "transport_overclaims (wit_event k cs ms) s = False"
  "cu_authenticated_evidence (wit_evidence_inputs c) = Some c"
  "cu_original_reducer_semantics (wit_evidence_inputs c) = Some wit_semantics"
  by (simp_all add: wit_event_def wit_evidence_inputs_def wit_inputs_def transport_overclaims_def)

definition wit_terminal :: EffectSnapshot where
  "wit_terminal = (er_snapshot (pe_record wit_p3))\<lparr>sn_state := CONFIRMED\<rparr>"

lemma wit_p3_evidence:
  "sn_evidence (er_snapshot (pe_record wit_p3)) = []"
  "sn_evidence_records (er_snapshot (pe_record wit_p3)) = []"
  "sn_recovery_obligation (er_snapshot (pe_record wit_p3)) = None"
  unfolding wit_p3_def
  by (simp_all add: wit_send_def wit_identity_def wit_inputs_def wit_p1_fields wit_p2_fields wit_authorization_fields
     wit_intent_fields successor_defs)

theorem terminal_evidence_exact_witness:
  "let c = wit_event EXACT_EFFECT_CONFIRMED [] []
   in prepare_record_evidence wit_dumps c wit_terminal (store_at ''tenant'' 3 wit_log) (wit_evidence_inputs c) =
        Inr (wit_terminal\<lparr>sn_evidence := [event_ref wit_dumps c], sn_evidence_records := [c]\<rparr>, K_EVIDENCE_RECORDED)"
proof -
  let ?c = "wit_event EXACT_EFFECT_CONFIRMED [] []"
  have "sn_state wit_terminal \<in> TERMINAL_STATES"
    by (simp add: wit_terminal_def TERMINAL_STATES_def)
  from terminal_evidence_exact [OF this, of wit_dumps ?c "store_at ''tenant'' 3 wit_log" "wit_evidence_inputs ?c"]
  show ?thesis
    by (simp add: wit_event_fields wit_terminal_def wit_p3_evidence wit_p3_fields wit_intent_fields store_at_def Let_def)
qed



text \<open>
  C7: A gap in the exactness check. A TRANSPORT_SENT observation on a committed send, recorded under
  the original reducer semantics, is retained without checking the members it names (only a report
  authenticated as provider evidence may name any). If it names a member outside the intent's bundle, or one member twice, the attempt becomes SENT and stays SENT in every
  snapshot any sequence of later transitions can publish from it: every reduction of the evidence fails,
  every reconciliation is refused, so is every further observation under the original reducer
  semantics, and the only transitions left are safe retransmissions and observations that are merely
  retained because the original reducer is not available.
\<close>

theorem unchecked_transport_report:
  assumes "previous_record (RecordEvidence c) st = Inr r"
    and "prepare_transition d (RecordEvidence c) st cur = Inr p"
    and "re_observation c = TRANSPORT_SENT" and "sn_state (er_snapshot r) = SEND_COMMITTED"
    and "cu_original_reducer_semantics cur = Some (re_semantics c)"
    and "\<not> members_exact (sn_intent (er_snapshot r)) c"
    and "follows d (er_snapshot (pe_record p)) s'"
  shows "sn_state s' = SENT \<and> (\<forall>t. evidence_state d s' \<noteq> Inr t)
     \<and> (\<forall>c2 cur2 x. prepare_reconcile d c2 s' cur2 \<noteq> Inr x)
     \<and> (\<forall>c2 st2 cur2 x. cu_original_reducer_semantics cur2 = Some (re_semantics c2) \<longrightarrow>
          prepare_record_evidence d c2 s' st2 cur2 \<noteq> Inr x)
     \<and> (\<forall>command st2 cur2 x. prepare_successor d command s' st2 cur2 = Inr x \<longrightarrow>
          (\<exists>c2. command = CommitSend c2)
          \<or> (\<exists>c2. command = RecordEvidence c2 \<and> cu_original_reducer_semantics cur2 \<noteq> Some (re_semantics c2)))"
proof -
  have "blocked_by c (er_snapshot (pe_record p))"
    using assms(2)
  proof (cases rule: prepare_transition_cases)
    case (successor r' s'' k)
    then have "r' = r" using assms(1) by simp
    then have "blocked_by c s''"
      using successor(3) assms(3-6) by (auto simp: blocked_by_def prepare_record_evidence_def Let_def result_simps
          state_sets split: if_splits)
    moreover have "settled_by d (RecordEvidence c) (Some r') s'' (er_snapshot (pe_record p))"
      using bind_record_ok [OF successor(4)] by blast
    ultimately show ?thesis
      using blocked_settled by blast
  qed simp
  with assms(7) have "blocked_by c s'" by (rule blocked_follows)
  then show ?thesis
    using blocked_evidence_state [of c s' d] blocked_reconcile [of c s' d] blocked_reduction [of c s'] 
      blocked_successor [of c s' d]
    by (auto simp: blocked_by_def) blast
qed

definition wit_report :: RecordEvidenceCommand where
  "wit_report = wit_event TRANSPORT_SENT [] [head0 ''other'']"

definition wit_p4 :: PreparedEffectPublication where
  "wit_p4 = projr (prepare_transition wit_dumps (RecordEvidence wit_report) (store_at ''tenant'' 3 wit_log)
     (wit_evidence_inputs wit_report))"

theorem unchecked_transport_report_witness:
  "sn_state (er_snapshot (pe_record wit_p4)) = SENT \<and> (\<forall>t. evidence_state wit_dumps (er_snapshot (pe_record wit_p4)) \<noteq> Inr t)"
proof -
  have "length (sn_transmissions (er_snapshot (pe_record wit_p3))) = 1" by (rule wit_p3_fields)
  then obtain child where child: "sn_transmissions (er_snapshot (pe_record wit_p3)) = [child]"
    by (metis One_nat_def length_0_conv length_Suc_conv)
  have previous: "previous_record (RecordEvidence wit_report) (store_at ''tenant'' 3 wit_log) = Inr (pe_record wit_p3)"
    by (simp add: previous_record_def wit_report_def wit_event_def store_at_def wit_log_def child wit_p1_fields
        wit_p2_fields wit_p3_fields wit_intent_fields)
  have prepared: "prepare_transition wit_dumps (RecordEvidence wit_report) (store_at ''tenant'' 3 wit_log)
      (wit_evidence_inputs wit_report) = Inr wit_p4"
    unfolding wit_p4_def prepare_transition_def previous
    by (simp add: prepare_record_evidence_def wit_report_def wit_event_fields wit_p1_fields wit_p2_fields wit_p3_fields
        wit_p3_evidence wit_intent_fields store_at_def wit_log_def wit_evidence_inputs_def wit_inputs_def
        wit_event_def wit_identity_def Let_def state_sets require_transition_def bind_record_def next_obligation_def
        transport_overclaims_def)
  show ?thesis
    using unchecked_transport_report [OF previous prepared _ _ _ _ follows.itself]
    by (simp add: wit_report_def wit_event_fields wit_p3_fields wit_intent_fields members_exact_def head0_def)
qed

end
