(* ===== verification/Platform_Store.thy ===== *)
theory Platform_Store
  imports Py_Json "HOL-Library.AList"
begin

text \<open>
  The physical transaction boundary (\<open>SQLiteMaterializer\<close> in \<open>platform/_sqlite.py\<close>). A database is
  a record of its tables; a table is the list of its rows in insertion order, with the primary keys of
  \<open>SCHEMA_SQL\<close> enforced where rows are inserted. A transaction works on a copy: a rollback or an
  exception returns the database it started from. The callbacks a command or the materializer
  carries (guards, mutation admission, the owner publication resolver, the encoder of the authority
  snapshot) are arguments; they see the database of the open transaction and may raise. The file
  gate of \<open>_authority_scope\<close> and the opening of the file are outside the model.
\<close>

section \<open>Values\<close>

record PhysicalRecord =
  ph_record_id :: string
  ph_owner :: string
  ph_schema_id :: string
  ph_canonical_bytes :: bytes
  ph_fingerprint :: string

record RecordRow =
  rr_tenant_id :: string
  rr_record_id :: string
  rr_owner :: string
  rr_schema_id :: string
  rr_canonical_bytes :: bytes
  rr_commit_sequence :: nat

record PublicationRow =
  pb_tenant_id :: string
  pb_operation_kind :: string
  pb_idempotency_key :: string
  pb_request_fingerprint :: string
  pb_commit_sequence :: nat
  pb_record_ids :: string

datatype EvidenceFollowupKind = PUSH | POLL | RECONCILIATION

record InboxRow =
  ib_tenant_id :: string
  ib_source_id :: string
  ib_evidence_id :: string
  ib_fingerprint :: string
  ib_canonical_bytes :: bytes
  ib_followup_kind :: EvidenceFollowupKind
  ib_state :: string
  ib_attempt_id :: "string option"
  ib_transport_version :: "string option"
  ib_cursor :: "string option"

record DerivativeRow =
  dv_tenant_id :: string
  dv_sink :: string
  dv_derivative_id :: string
  dv_source_record_ids :: string
  dv_source_epoch :: int
  dv_provenance_fingerprint :: string

record Database =
  db_user_version :: nat
  db_heads :: "(string \<times> nat) list"
  db_publications :: "PublicationRow list"
  db_records :: "RecordRow list"
  db_inbox :: "InboxRow list"
  db_fences :: "(string \<times> (string \<times> int)) list"
  db_derivatives :: "DerivativeRow list"

datatype StoreError =
    StoreAdmissionError string
  | CheckpointBundleAdmissionError string
  | AuthorityMutationAdmissionError string
  | LostCommitAcknowledgement string
  | EvidencePossibleLoss string
  | ValueError string
  | RuntimeError string
  | IntegrityError
  | CallbackError string

datatype Disposition = D_COMMITTED | D_REPLAY | D_CONFLICT | D_STALE | D_DENIED | D_INDETERMINATE

datatype GuardVerdict = G_DENIED | G_STALE | G_INDETERMINATE

fun guard_disposition :: "GuardVerdict \<Rightarrow> Disposition" where
  "guard_disposition G_DENIED = D_DENIED"
| "guard_disposition G_STALE = D_STALE"
| "guard_disposition G_INDETERMINATE = D_INDETERMINATE"

datatype Fault = NO_FAULT | BEFORE_COMMIT | AFTER_COMMIT

record PhysicalPublicationCommand =
  pc_tenant_id :: string
  pc_operation_kind :: string
  pc_idempotency_key :: string
  pc_request_fingerprint :: string
  pc_expected_head :: nat
  pc_fence_generation :: string
  pc_expected_fence_frontier :: int
  pc_minimum_fence_frontier :: int
  pc_records :: "PhysicalRecord list"
  pc_expected_preimage_commitment :: "string option"
  pc_fault :: Fault
  pc_admission_guard :: "(Database \<Rightarrow> (StoreError, GuardVerdict option) result) option"
  pc_decision_guard :: "(string \<Rightarrow> Database \<Rightarrow> (StoreError, GuardVerdict option) result) option"
  pc_authority_checkpoint_guard :: "(string \<Rightarrow> bytes \<Rightarrow> (StoreError, unit) result) option"

record PublicationResult =
  pu_disposition :: Disposition
  pu_commit_sequence :: "nat option"
  pu_record_ids :: "string list"

record PhysicalPublicationProjection =
  pj_tenant_id :: string
  pj_operation_kind :: string
  pj_idempotency_key :: string
  pj_request_fingerprint :: string
  pj_expected_head :: nat
  pj_fence_generation :: string
  pj_expected_fence_frontier :: int
  pj_minimum_fence_frontier :: int
  pj_records :: "PhysicalRecord list"

definition projection_from_command :: "PhysicalPublicationCommand \<Rightarrow> PhysicalPublicationProjection" where
  "projection_from_command c =
     \<lparr>pj_tenant_id = pc_tenant_id c, pj_operation_kind = pc_operation_kind c,
      pj_idempotency_key = pc_idempotency_key c, pj_request_fingerprint = pc_request_fingerprint c,
      pj_expected_head = pc_expected_head c, pj_fence_generation = pc_fence_generation c,
      pj_expected_fence_frontier = pc_expected_fence_frontier c,
      pj_minimum_fence_frontier = pc_minimum_fence_frontier c, pj_records = pc_records c\<rparr>"

datatype Applicability = H1 | NON_H1 | OTHER_APPLICABILITY string

record VerifiedOwnerPublication =
  vp_projection :: PhysicalPublicationProjection
  vp_applicability :: Applicability
  vp_binding_fingerprint :: "string option"
  vp_selected_identity :: "string option"
  vp_selected_fingerprint :: "string option"
  vp_expected_resulting :: "string option"
  vp_expected_commit_sequence :: "nat option"

datatype VerificationMode = ABSENT | REPLAY | PRESELECT | PRECOMMIT

datatype AuthorityMutationKind = A_PUBLICATION | A_EVIDENCE_INGRESS | A_EVIDENCE_FOLLOWUP | A_FENCE

record AuthorityRecoveryContext =
  rx_command :: PhysicalPublicationCommand
  rx_predecessor :: string
  rx_resulting :: string
  rx_issuer :: nat

text \<open>The materializer: the fields the operations read. Object identities are numbers.\<close>

record Materializer =
  mt_writer_token :: "nat option"
  mt_broker_ready :: bool
  mt_has_gate :: bool
  mt_checkpoint_enabled :: bool
  mt_recovery_issuer :: nat
  mt_admission ::
    "(AuthorityMutationKind \<Rightarrow> AuthorityRecoveryContext option \<Rightarrow> Database \<Rightarrow> (StoreError, unit) result) option"
  mt_resolver ::
    "(PhysicalPublicationCommand \<Rightarrow> VerificationMode \<Rightarrow> Database
       \<Rightarrow> (StoreError, VerifiedOwnerPublication) result) option"
  mt_record_pairs :: "(string \<times> string) list"
  mt_derivative_contracts :: "string list"
  mt_snapshot_bytes :: "string \<Rightarrow> Database \<Rightarrow> (StoreError, bytes) result"

section \<open>Text columns\<close>

text \<open>\<open>"\n".join(ids)\<close> and \<open>column.split("\n")\<close>.\<close>

definition newline :: char where
  "newline = CHR 0x0A"

fun join_lines :: "string list \<Rightarrow> string" where
  "join_lines [] = []"
| "join_lines [x] = x"
| "join_lines (x # y # xs) = x @ newline # join_lines (y # xs)"

fun split_lines_from :: "string \<Rightarrow> string \<Rightarrow> string list" where
  "split_lines_from acc [] = [rev acc]"
| "split_lines_from acc (c # cs) =
     (if c = newline then rev acc # split_lines_from [] cs else split_lines_from (c # acc) cs)"

definition split_lines :: "string \<Rightarrow> string list" where
  "split_lines s = split_lines_from [] s"

section \<open>Admission of a publication command\<close>

definition COMPLETE_ACCEPTANCE_V2 :: string where
  "COMPLETE_ACCEPTANCE_V2 = ''agent_loop.complete_acceptance.v2''"

definition DELIVERY_WORK_SCHEMA :: string where
  "DELIVERY_WORK_SCHEMA = ''chiplog.delivery-work.subject.v1''"

definition DELIVERY_WORK_OPERATIONS :: "string list" where
  "DELIVERY_WORK_OPERATIONS =
     [''agent_loop.delivery_work.genesis.v1'', ''agent_loop.delivery_work.claim.v1'']"

definition H1_ONLY_PAIRS :: "(string \<times> string) list" where
  "H1_ONLY_PAIRS =
     [(''effects'', ''chiplog.effects.h1-local-prepared-commentary-intent.v1''),
      (''effects'', ''chiplog.effects.external-action-intent.v3'')]"

definition NATIVE_EXECUTION_PUBLICATION_OPERATIONS :: "string list" where
  "NATIVE_EXECUTION_PUBLICATION_OPERATIONS =
     [''scheduler.native-execution-policy-publication.v1'', ''scheduler.native-lease-publication.v1'']"

definition requires_owner_publication_resolver :: "string \<Rightarrow> bool" where
  "requires_owner_publication_resolver operation_kind \<longleftrightarrow>
     operation_kind = COMPLETE_ACCEPTANCE_V2
     \<or> operation_kind \<in> set DELIVERY_WORK_OPERATIONS
     \<or> operation_kind \<in> set NATIVE_EXECUTION_PUBLICATION_OPERATIONS"

definition starts_with :: "string \<Rightarrow> string \<Rightarrow> bool" where
  "starts_with s p \<longleftrightarrow> take (length p) s = p"

definition delivery_work_id :: "PhysicalRecord \<Rightarrow> bool" where
  "delivery_work_id r \<longleftrightarrow> starts_with (ph_record_id r) ''delivery-work:''"

definition require_closed_delivery_work_publication ::
  "PhysicalPublicationCommand \<Rightarrow> (StoreError, unit) result" where
  "require_closed_delivery_work_publication c =
     (let relevant = filter (\<lambda>r. ph_schema_id r = DELIVERY_WORK_SCHEMA \<or> delivery_work_id r)
            (pc_records c);
          delivery = pc_operation_kind c \<in> set DELIVERY_WORK_OPERATIONS
      in if relevant = [] \<and> \<not> delivery then Inr ()
         else if relevant = []
           then Inl (StoreAdmissionError ''delivery-work operation has no reserved record'')
         else if length relevant \<noteq> length (pc_records c)
           then Inl (StoreAdmissionError ''delivery-work operation has unrelated record'')
         else if \<not> delivery
           then Inl (StoreAdmissionError
                  ''delivery-work record submitted under alternate operation'')
         else if list_ex (\<lambda>r. ph_owner r \<noteq> ''agent_loop'' \<or> ph_schema_id r \<noteq> DELIVERY_WORK_SCHEMA
                    \<or> \<not> delivery_work_id r) relevant
           then Inl (StoreAdmissionError
                  ''delivery-work record owner, schema, or reserved ID differs'')
         else Inr ())"

definition require_writer :: "Materializer \<Rightarrow> nat \<Rightarrow> (StoreError, unit) result" where
  "require_writer m token =
     (if mt_writer_token m \<noteq> Some token
        then Inl (RuntimeError ''SQLite mutation requires EventAppender ownership'')
      else if \<not> mt_broker_ready m
        then Inl (CheckpointBundleAdmissionError ''broker bootstrap writer is waiting for bind'')
      else Inr ())"

definition require_fence ::
  "string \<Rightarrow> string \<Rightarrow> int \<Rightarrow> int option \<Rightarrow> Database \<Rightarrow> (StoreError, unit) result" where
  "require_fence tenant_id generation minimum_frontier exact_frontier db =
     (case map_of (db_fences db) tenant_id of
        None \<Rightarrow> Inl (ValueError ''deletion fence absent'')
      | Some (g, f) \<Rightarrow>
          if g \<noteq> generation then Inl (ValueError ''deletion fence generation mismatch'')
          else if f < minimum_frontier
            then Inl (ValueError ''deletion fence lags required frontier'')
          else if exact_frontier \<noteq> None \<and> exact_frontier \<noteq> Some f
            then Inl (ValueError ''deletion fence frontier mismatch'')
          else Inr ())"

definition CHECKPOINT_BUNDLE_PROFILE :: nat where
  "CHECKPOINT_BUNDLE_PROFILE = 1211188048"

definition admit_authority_mutation ::
  "Materializer \<Rightarrow> AuthorityMutationKind \<Rightarrow> AuthorityRecoveryContext option \<Rightarrow> Database
     \<Rightarrow> (StoreError, unit) result" where
  "admit_authority_mutation m kind context db =
     rbind (require (case context of Some x \<Rightarrow> rx_issuer x = mt_recovery_issuer m | None \<Rightarrow> True)
              (AuthorityMutationAdmissionError ''foreign authority recovery context'')) (\<lambda>_.
       case mt_admission m of
         None \<Rightarrow> if mt_checkpoint_enabled m
           then Inl (AuthorityMutationAdmissionError
                  ''checkpoint authority bundle has no mutation admission'')
           else Inr ()
       | Some callback \<Rightarrow> callback kind context db)"

text \<open>Inside \<open>_authority_scope\<close> the gate is held, so \<open>require_held\<close> passes when there is a gate.\<close>

definition require_ready_bundle ::
  "Materializer \<Rightarrow> bool \<Rightarrow> AuthorityMutationKind \<Rightarrow> AuthorityRecoveryContext option \<Rightarrow> Database
     \<Rightarrow> (StoreError, unit) result" where
  "require_ready_bundle m pending_admission kind context db =
     (let profile = db_user_version db in
      if profile \<notin> {0, CHECKPOINT_BUNDLE_PROFILE}
        then Inl (CheckpointBundleAdmissionError ''unknown checkpoint bundle profile'')
      else if profile = 0
        then (if pending_admission \<and> mt_admission m \<noteq> None
              then admit_authority_mutation m kind context db else Inr ())
      else if \<not> mt_broker_ready m \<or> \<not> mt_has_gate m
        then Inl (CheckpointBundleAdmissionError ''marked checkpoint bundle is not broker-bound'')
      else if pending_admission then admit_authority_mutation m kind context db
      else Inr ())"

section \<open>Owner publication proofs\<close>

definition projection_matches ::
  "PhysicalPublicationCommand \<Rightarrow> VerifiedOwnerPublication \<Rightarrow> bool" where
  "projection_matches command verified \<longleftrightarrow> vp_projection verified = projection_from_command command"

text \<open>\<open>not value\<close> for an optional string: absent or empty.\<close>

definition blank :: "string option \<Rightarrow> bool" where
  "blank x \<longleftrightarrow> x = None \<or> x = Some []"

definition verify_owner_publication ::
  "Materializer \<Rightarrow> PhysicalPublicationCommand \<Rightarrow> VerificationMode \<Rightarrow> Database
     \<Rightarrow> (StoreError, VerifiedOwnerPublication) result" where
  "verify_owner_publication m command mode db =
     (case mt_resolver m of
        None \<Rightarrow> Inl (StoreAdmissionError ''H1 publication resolver is not mounted'')
      | Some verify \<Rightarrow>
          rbind (verify command mode db) (\<lambda>verified.
            if \<not> projection_matches command verified
              then Inl (StoreAdmissionError ''owner publication proof command projection mismatch'')
            else if vp_applicability verified \<notin> {H1, NON_H1}
              then Inl (StoreAdmissionError ''owner publication proof applicability is invalid'')
            else if vp_applicability verified = H1 \<and> blank (vp_binding_fingerprint verified)
              then Inl (StoreAdmissionError ''H1 publication proof has no binding'')
            else Inr verified))"

definition verify_replay_membership ::
  "PhysicalPublicationCommand \<Rightarrow> VerifiedOwnerPublication \<Rightarrow> nat \<Rightarrow> string list \<Rightarrow> Database
     \<Rightarrow> (StoreError, unit) result" where
  "verify_replay_membership command verified sequence persisted_ids db =
     (let expected = pj_records (vp_projection verified);
          rows = filter (\<lambda>row. rr_tenant_id row = pc_tenant_id command
                   \<and> rr_commit_sequence row = sequence) (db_records db);
          observed = map (\<lambda>row. (rr_record_id row, rr_owner row, rr_schema_id row,
                       rr_canonical_bytes row, rr_commit_sequence row)) rows;
          wanted = map (\<lambda>r. (ph_record_id r, ph_owner r, ph_schema_id r,
                     ph_canonical_bytes r, sequence)) expected
      in if blank (vp_selected_identity verified) \<or> blank (vp_selected_fingerprint verified)
           then Inl (StoreAdmissionError ''H1 replay selected proof is incomplete'')
         else if persisted_ids \<noteq> map ph_record_id expected
           then Inl (StoreAdmissionError ''H1 replay publication membership mismatch'')
         else if vp_expected_commit_sequence verified = None
           then Inl (StoreAdmissionError ''H1 replay selected sequence is absent'')
         else if Some sequence \<noteq> vp_expected_commit_sequence verified
           then Inl (StoreAdmissionError ''H1 replay selected sequence mismatch'')
         else if observed \<noteq> wanted
           then Inl (StoreAdmissionError ''H1 replay record membership mismatch'')
         else Inr ())"

definition verify_precommit ::
  "VerifiedOwnerPublication option \<Rightarrow> VerifiedOwnerPublication \<Rightarrow> string \<Rightarrow> nat
     \<Rightarrow> (StoreError, unit) result" where
  "verify_precommit preselected precommitted resulting commit_sequence =
     (case preselected of
        None \<Rightarrow> Inl (StoreAdmissionError ''H1 precommit binding mismatch'')
      | Some pre \<Rightarrow>
          if vp_binding_fingerprint precommitted \<noteq> vp_binding_fingerprint pre
             \<or> vp_applicability precommitted \<noteq> vp_applicability pre
            then Inl (StoreAdmissionError ''H1 precommit binding mismatch'')
          else if blank (vp_selected_identity precommitted)
              \<or> blank (vp_selected_fingerprint precommitted)
              \<or> vp_expected_resulting precommitted = None
              \<or> vp_expected_commit_sequence precommitted = None
            then Inl (StoreAdmissionError ''H1 precommit selected proof is incomplete'')
          else if vp_expected_resulting precommitted \<noteq> Some resulting
            then Inl (StoreAdmissionError ''H1 precommit resulting commitment mismatch'')
          else if vp_expected_commit_sequence precommitted \<noteq> Some commit_sequence
            then Inl (StoreAdmissionError ''H1 precommit selected sequence mismatch'')
          else if vp_selected_identity pre \<noteq> None
              \<and> (vp_selected_identity precommitted \<noteq> vp_selected_identity pre
                 \<or> vp_selected_fingerprint precommitted \<noteq> vp_selected_fingerprint pre)
            then Inl (StoreAdmissionError ''H1 precommit selected identity mismatch'')
          else Inr ())"

section \<open>Publishing\<close>

text \<open>\<open>INSERT INTO records\<close> under the primary key \<open>(tenant_id, record_id)\<close>.\<close>

definition insert_record ::
  "string \<Rightarrow> nat \<Rightarrow> PhysicalRecord \<Rightarrow> Database \<Rightarrow> (StoreError, Database) result" where
  "insert_record tenant_id sequence r db =
     (if list_ex (\<lambda>row. rr_tenant_id row = tenant_id \<and> rr_record_id row = ph_record_id r)
           (db_records db)
      then Inl IntegrityError
      else Inr (db\<lparr>db_records := db_records db @
             [\<lparr>rr_tenant_id = tenant_id, rr_record_id = ph_record_id r, rr_owner = ph_owner r,
               rr_schema_id = ph_schema_id r, rr_canonical_bytes = ph_canonical_bytes r,
               rr_commit_sequence = sequence\<rparr>]\<rparr>))"

definition find_publication ::
  "PhysicalPublicationCommand \<Rightarrow> Database \<Rightarrow> PublicationRow option" where
  "find_publication c db =
     find (\<lambda>row. pb_tenant_id row = pc_tenant_id c \<and> pb_operation_kind row = pc_operation_kind c
             \<and> pb_idempotency_key row = pc_idempotency_key c) (db_publications db)"

text \<open>\<open>INSERT INTO publications\<close>: the row was looked up absent in the same transaction.\<close>

definition insert_publication ::
  "PhysicalPublicationCommand \<Rightarrow> nat \<Rightarrow> Database \<Rightarrow> Database" where
  "insert_publication c sequence db =
     db\<lparr>db_publications := db_publications db @
         [\<lparr>pb_tenant_id = pc_tenant_id c, pb_operation_kind = pc_operation_kind c,
           pb_idempotency_key = pc_idempotency_key c,
           pb_request_fingerprint = pc_request_fingerprint c,
           pb_commit_sequence = sequence,
           pb_record_ids = join_lines (map ph_record_id (pc_records c))\<rparr>],
        db_heads := AList.update (pc_tenant_id c) sequence (db_heads db)\<rparr>"

definition current_head :: "string \<Rightarrow> Database \<Rightarrow> nat" where
  "current_head tenant_id db = (case map_of (db_heads db) tenant_id of None \<Rightarrow> 0 | Some h \<Rightarrow> h)"

definition simple_result :: "Disposition \<Rightarrow> PublicationResult" where
  "simple_result d = \<lparr>pu_disposition = d, pu_commit_sequence = None, pu_record_ids = []\<rparr>"

text \<open>A replayed identity: the branch \<open>existing is not None\<close>.\<close>

definition publish_existing ::
  "Materializer \<Rightarrow> PhysicalPublicationCommand \<Rightarrow> PublicationRow \<Rightarrow> Database
     \<Rightarrow> (StoreError, PublicationResult) result" where
  "publish_existing m c row db =
     rbind (if requires_owner_publication_resolver (pc_operation_kind c)
            then rbind (verify_owner_publication m c REPLAY db) (\<lambda>verified.
                   verify_replay_membership c verified (pb_commit_sequence row)
                     (split_lines (pb_record_ids row)) db)
            else Inr ()) (\<lambda>_.
       if pb_request_fingerprint row \<noteq> pc_request_fingerprint c
       then Inr \<lparr>pu_disposition = D_CONFLICT, pu_commit_sequence = Some (pb_commit_sequence row),
                 pu_record_ids = []\<rparr>
       else Inr \<lparr>pu_disposition = D_REPLAY, pu_commit_sequence = Some (pb_commit_sequence row),
                 pu_record_ids = split_lines (pb_record_ids row)\<rparr>)"

text \<open>The guards evaluated before anything is written; a verdict ends the transaction.\<close>

definition publish_admission ::
  "Materializer \<Rightarrow> PhysicalPublicationCommand \<Rightarrow> AuthorityRecoveryContext option \<Rightarrow> Database
     \<Rightarrow> (StoreError, Disposition option) result" where
  "publish_admission m c context db =
     rbind (if requires_owner_publication_resolver (pc_operation_kind c)
            then rbind (verify_owner_publication m c ABSENT db) (\<lambda>_. Inr ()) else Inr ()) (\<lambda>_.
     rbind (require_ready_bundle m True A_PUBLICATION context db) (\<lambda>_.
       if current_head (pc_tenant_id c) db \<noteq> pc_expected_head c then Inr (Some D_STALE)
       else
         rbind (case pc_expected_preimage_commitment c of
                  None \<Rightarrow> Inr True
                | Some expected \<Rightarrow> rbind (mt_snapshot_bytes m (pc_tenant_id c) db) (\<lambda>preimage.
                    Inr (sha256_hex preimage = expected))) (\<lambda>same.
           if \<not> same then Inr (Some D_STALE)
           else case pc_admission_guard c of
             None \<Rightarrow> Inr None
           | Some guard \<Rightarrow> rbind (guard db) (\<lambda>v. Inr (map_option guard_disposition v)))))"

text \<open>The guards evaluated over the written rows, before the commit.\<close>

definition publish_decision ::
  "Materializer \<Rightarrow> PhysicalPublicationCommand \<Rightarrow> nat \<Rightarrow> Database
     \<Rightarrow> (StoreError, Disposition option) result" where
  "publish_decision m c sequence db =
     (let resolved = requires_owner_publication_resolver (pc_operation_kind c) in
      rbind (if resolved
             then rbind (verify_owner_publication m c PRESELECT db) (\<lambda>v. Inr (Some v))
             else Inr None) (\<lambda>preselected.
      rbind (if pc_authority_checkpoint_guard c \<noteq> None \<or> pc_decision_guard c \<noteq> None \<or> resolved
             then rbind (mt_snapshot_bytes m (pc_tenant_id c) db) (\<lambda>snapshot.
               let resulting = sha256_hex snapshot
               in case pc_authority_checkpoint_guard c of
                    None \<Rightarrow> Inr resulting
                  | Some guard \<Rightarrow> rbind (guard resulting snapshot) (\<lambda>_. Inr resulting))
             else Inr []) (\<lambda>resulting.
      if resolved \<and> pc_decision_guard c = None then Inr (Some D_DENIED)
      else
        rbind (case pc_decision_guard c of
                 None \<Rightarrow> Inr None
               | Some guard \<Rightarrow> guard resulting db) (\<lambda>verdict.
          case verdict of
            Some v \<Rightarrow> Inr (Some (guard_disposition v))
          | None \<Rightarrow>
              if resolved
              then rbind (verify_owner_publication m c PRECOMMIT db) (\<lambda>precommitted.
                     rbind (verify_precommit preselected precommitted resulting sequence) (\<lambda>_.
                       Inr None))
              else Inr None))))"

text \<open>The transaction: \<open>None\<close> for a rollback with a result, \<open>Some db\<close> for what is committed.\<close>

definition publish_transaction ::
  "Materializer \<Rightarrow> PhysicalPublicationCommand \<Rightarrow> AuthorityRecoveryContext option \<Rightarrow> Database
     \<Rightarrow> (StoreError, Database option \<times> PublicationResult) result" where
  "publish_transaction m c context db =
     (case find_publication c db of
        Some row \<Rightarrow> rbind (publish_existing m c row db) (\<lambda>res. Inr (None, res))
      | None \<Rightarrow>
          rbind (publish_admission m c context db) (\<lambda>admission.
          case admission of
            Some d \<Rightarrow> Inr (None, simple_result d)
          | None \<Rightarrow>
              let sequence = current_head (pc_tenant_id c) db + 1 in
              rbind (rfold (insert_record (pc_tenant_id c) sequence) (pc_records c) db) (\<lambda>db1.
              let db2 = insert_publication c sequence db1 in
              rbind (publish_decision m c sequence db2) (\<lambda>decision.
              case decision of
                Some d \<Rightarrow> Inr (None, simple_result d)
              | None \<Rightarrow>
                  if pc_fault c = BEFORE_COMMIT
                  then Inl (RuntimeError ''injected fault before commit'')
                  else Inr (Some db2,
                    \<lparr>pu_disposition = D_COMMITTED, pu_commit_sequence = Some sequence,
                     pu_record_ids = map ph_record_id (pc_records c)\<rparr>)))))"

text \<open>The checks before the transaction, in order; the mounted resolver decides an early denial.\<close>

definition publish_preflight ::
  "Materializer \<Rightarrow> nat \<Rightarrow> PhysicalPublicationCommand \<Rightarrow> Database \<Rightarrow> (StoreError, bool) result" where
  "publish_preflight m token c db =
     rbind (require_writer m token) (\<lambda>_.
     rbind (require_closed_delivery_work_publication c) (\<lambda>_.
     if list_ex (\<lambda>r. (ph_owner r, ph_schema_id r) \<in> set H1_ONLY_PAIRS) (pc_records c)
        \<and> pc_operation_kind c \<noteq> COMPLETE_ACCEPTANCE_V2
       then Inl (StoreAdmissionError ''H1-only record submitted under alternate operation'')
     else if requires_owner_publication_resolver (pc_operation_kind c) \<and> mt_resolver m = None
       then Inr False
     else if pc_records c = [] \<or> \<not> distinct (map ph_record_id (pc_records c))
       then Inl (ValueError ''publication records must be a non-empty unique set'')
     else
       rbind (rfold (\<lambda>r _.
           if (ph_owner r, ph_schema_id r) \<notin> set (mt_record_pairs m)
             then Inl (ValueError ''owner/schema contract mismatch'')
           else if ph_fingerprint r \<noteq> sha256_hex (ph_canonical_bytes r)
             then Inl (ValueError ''canonical record fingerprint mismatch'')
           else Inr ()) (pc_records c) ()) (\<lambda>_.
       rbind (require_fence (pc_tenant_id c) (pc_fence_generation c) (pc_minimum_fence_frontier c)
                (Some (pc_expected_fence_frontier c)) db) (\<lambda>_. Inr True))))"

definition publish ::
  "Materializer \<Rightarrow> nat \<Rightarrow> PhysicalPublicationCommand \<Rightarrow> AuthorityRecoveryContext option \<Rightarrow> Database
     \<Rightarrow> (StoreError, PublicationResult) result \<times> Database" where
  "publish m token c context db =
     (case publish_preflight m token c db of
        Inl e \<Rightarrow> (Inl e, db)
      | Inr False \<Rightarrow> (Inr (simple_result D_DENIED), db)
      | Inr True \<Rightarrow>
          (case publish_transaction m c context db of
             Inl e \<Rightarrow> (Inl e, db)
           | Inr (None, res) \<Rightarrow> (Inr res, db)
           | Inr (Some db', res) \<Rightarrow>
               (if pc_fault c = AFTER_COMMIT
                then Inl (LostCommitAcknowledgement ''injected lost commit acknowledgement'')
                else Inr res, db')))"

section \<open>Ending a transaction\<close>

text \<open>\<open>None\<close> for a rollback with a result, \<open>Some db\<close> for what is committed; an exception rolls back.\<close>

definition end_transaction ::
  "(StoreError, Database option \<times> 'a) result \<Rightarrow> Database \<Rightarrow> (StoreError, 'a) result \<times> Database" where
  "end_transaction outcome db =
     (case outcome of
        Inl e \<Rightarrow> (Inl e, db)
      | Inr (None, res) \<Rightarrow> (Inr res, db)
      | Inr (Some db', res) \<Rightarrow> (Inr res, db'))"

section \<open>Deletion fences\<close>

record PlatformMutationResult =
  pm_disposition :: Disposition
  pm_subject :: string

definition fence_subject :: "string \<Rightarrow> string \<Rightarrow> string" where
  "fence_subject tenant_id generation = ''fence:'' @ tenant_id @ '':'' @ generation"

definition fence_transaction ::
  "Materializer \<Rightarrow> nat \<Rightarrow> string \<Rightarrow> string \<Rightarrow> int \<Rightarrow> bool \<Rightarrow> Database
     \<Rightarrow> (StoreError, Database option \<times> PlatformMutationResult) result" where
  "fence_transaction m token tenant_id generation frontier allow_exact_replay db =
        rbind (require_writer m token) (\<lambda>_.
        rbind (require (0 \<le> frontier \<and> generation \<noteq> []) (ValueError ''invalid deletion fence'')) (\<lambda>_.
        let current = map_of (db_fences db) tenant_id in
        if current = Some (generation, frontier) \<and> allow_exact_replay
          then Inr (None, \<lparr>pm_disposition = D_REPLAY, pm_subject = fence_subject tenant_id generation\<rparr>)
        else
          rbind (require_ready_bundle m True A_FENCE None db) (\<lambda>_.
          rbind (require (case current of None \<Rightarrow> True | Some (g, f) \<Rightarrow> f \<le> frontier \<and> generation \<noteq> g)
                   (ValueError ''deletion fence must advance generation and not regress'')) (\<lambda>_.
            Inr (Some (db\<lparr>db_fences := AList.update tenant_id (generation, frontier) (db_fences db)\<rparr>),
                 \<lparr>pm_disposition = D_COMMITTED, pm_subject = fence_subject tenant_id generation\<rparr>)))))"

definition install_fence ::
  "Materializer \<Rightarrow> nat \<Rightarrow> string \<Rightarrow> string \<Rightarrow> int \<Rightarrow> bool \<Rightarrow> Database
     \<Rightarrow> (StoreError, PlatformMutationResult) result \<times> Database" where
  "install_fence m token tenant_id generation frontier allow_exact_replay db =
     end_transaction (fence_transaction m token tenant_id generation frontier allow_exact_replay db) db"

text \<open>\<open>SELECT ... FROM records WHERE tenant_id = ? ORDER BY commit_sequence, record_id\<close>.\<close>

definition guarded_records ::
  "string \<Rightarrow> string \<Rightarrow> int \<Rightarrow> Database \<Rightarrow> (StoreError, RecordRow list) result" where
  "guarded_records tenant_id generation minimum_frontier db =
     rbind (require_fence tenant_id generation minimum_frontier None db) (\<lambda>_.
       Inr (sort_key rr_commit_sequence
              (sort_key rr_record_id (filter (\<lambda>row. rr_tenant_id row = tenant_id) (db_records db)))))"

definition durable_records :: "Database \<Rightarrow> RecordRow list" where
  "durable_records db =
     sort_key rr_tenant_id (sort_key rr_commit_sequence (sort_key rr_record_id (db_records db)))"

section \<open>Derivatives\<close>

record DerivativeRegistration =
  dg_sink :: string
  dg_derivative_id :: string
  dg_source_record_ids :: "string list"
  dg_source_epoch :: int
  dg_provenance_fingerprint :: string

definition derivative_preimage :: "string \<Rightarrow> DerivativeRegistration \<Rightarrow> json" where
  "derivative_preimage tenant_id r =
     JObj [(''tenant_id'', JStr tenant_id),
           (''sink'', JStr (dg_sink r)),
           (''derivative_id'', JStr (dg_derivative_id r)),
           (''source_record_ids'', JArr (map JStr (dg_source_record_ids r))),
           (''source_epoch'', JInt (dg_source_epoch r))]"

definition derivative_row :: "string \<Rightarrow> DerivativeRegistration \<Rightarrow> DerivativeRow" where
  "derivative_row tenant_id r =
     \<lparr>dv_tenant_id = tenant_id, dv_sink = dg_sink r, dv_derivative_id = dg_derivative_id r,
      dv_source_record_ids = join_lines (dg_source_record_ids r),
      dv_source_epoch = dg_source_epoch r,
      dv_provenance_fingerprint = dg_provenance_fingerprint r\<rparr>"

definition derivative_transaction ::
  "Materializer \<Rightarrow> nat \<Rightarrow> string \<Rightarrow> DerivativeRegistration \<Rightarrow> string \<Rightarrow> Database
     \<Rightarrow> (StoreError, Database option \<times> PlatformMutationResult) result" where
  "derivative_transaction m token tenant_id r fence_generation db =
        rbind (require_writer m token) (\<lambda>_.
        rbind (require (dg_sink r \<in> set (mt_derivative_contracts m)) (ValueError ''unknown derivative sink'')) (\<lambda>_.
        rbind (require (dg_source_record_ids r \<noteq> [] \<and> distinct (dg_source_record_ids r))
                 (ValueError ''derivative provenance must be a non-empty unique source set'')) (\<lambda>_.
        rbind (require_fence tenant_id fence_generation (dg_source_epoch r) (Some (dg_source_epoch r)) db) (\<lambda>_.
        rbind (require (list_all (\<lambda>i. list_ex (\<lambda>row. rr_tenant_id row = tenant_id \<and> rr_record_id row = i)
                          (db_records db)) (dg_source_record_ids r))
                 (ValueError ''derivative provenance source set is missing or foreign'')) (\<lambda>_.
        rbind (require (json_digest_ascii (derivative_preimage tenant_id r) = dg_provenance_fingerprint r)
                 (ValueError ''derivative provenance fingerprint mismatch'')) (\<lambda>_.
        rbind (require_ready_bundle m False A_PUBLICATION None db) (\<lambda>_.
        case find (\<lambda>row. dv_tenant_id row = tenant_id \<and> dv_sink row = dg_sink r
                   \<and> dv_derivative_id row = dg_derivative_id r) (db_derivatives db) of
          Some row \<Rightarrow>
            if (dv_source_record_ids row, dv_source_epoch row, dv_provenance_fingerprint row)
               \<noteq> (join_lines (dg_source_record_ids r), dg_source_epoch r, dg_provenance_fingerprint r)
            then Inl (ValueError ''derivative identity reused with changed provenance'')
            else Inr (None, \<lparr>pm_disposition = D_REPLAY, pm_subject = dg_derivative_id r\<rparr>)
        | None \<Rightarrow>
            Inr (Some (db\<lparr>db_derivatives := db_derivatives db @
                   [derivative_row tenant_id r]\<rparr>),
                 \<lparr>pm_disposition = D_COMMITTED, pm_subject = dg_derivative_id r\<rparr>))))))))"

definition register_derivative ::
  "Materializer \<Rightarrow> nat \<Rightarrow> string \<Rightarrow> DerivativeRegistration \<Rightarrow> string \<Rightarrow> Database
     \<Rightarrow> (StoreError, PlatformMutationResult) result \<times> Database" where
  "register_derivative m token tenant_id r fence_generation db =
     end_transaction (derivative_transaction m token tenant_id r fence_generation db) db"

section \<open>The evidence inbox\<close>

record EvidenceIngressCommand =
  ei_tenant_id :: string
  ei_source_id :: string
  ei_evidence_id :: string
  ei_fingerprint :: string
  ei_canonical_bytes :: bytes
  ei_followup_kind :: EvidenceFollowupKind
  ei_redelivery_supported :: bool
  ei_fault :: Fault

record EvidenceFollowupCommand =
  ef_tenant_id :: string
  ef_source_id :: string
  ef_evidence_id :: string
  ef_expected_state :: string
  ef_next_state :: string
  ef_attempt_id :: string
  ef_transport_version :: string
  ef_cursor :: "string option"

record EvidenceResult =
  ev_disposition :: Disposition
  ev_evidence_id :: string
  ev_state :: string

definition inbox_key :: "InboxRow \<Rightarrow> string \<times> string \<times> string" where
  "inbox_key row = (ib_tenant_id row, ib_source_id row, ib_evidence_id row)"

definition find_evidence :: "string \<times> string \<times> string \<Rightarrow> Database \<Rightarrow> InboxRow option" where
  "find_evidence k db = find (\<lambda>row. inbox_key row = k) (db_inbox db)"

text \<open>An exception inside the ingress transaction is reported as a possible loss when the source
  cannot redeliver.\<close>

definition ingress_error :: "EvidenceIngressCommand \<Rightarrow> StoreError \<Rightarrow> StoreError" where
  "ingress_error c e =
     (if ei_redelivery_supported c then e
      else EvidencePossibleLoss ''non-redeliverable evidence may be lost'')"

definition ingress_row :: "EvidenceIngressCommand \<Rightarrow> InboxRow" where
  "ingress_row c =
     \<lparr>ib_tenant_id = ei_tenant_id c, ib_source_id = ei_source_id c, ib_evidence_id = ei_evidence_id c,
      ib_fingerprint = ei_fingerprint c, ib_canonical_bytes = ei_canonical_bytes c,
      ib_followup_kind = ei_followup_kind c, ib_state = ''LOCAL_ACK_AUTHORIZED'',
      ib_attempt_id = None, ib_transport_version = None, ib_cursor = None\<rparr>"

definition admit_evidence ::
  "Materializer \<Rightarrow> nat \<Rightarrow> EvidenceIngressCommand \<Rightarrow> Database
     \<Rightarrow> (StoreError, EvidenceResult) result \<times> Database" where
  "admit_evidence m token c db =
     (case require_writer m token of
        Inl e \<Rightarrow> (Inl e, db)
      | Inr _ \<Rightarrow>
          (case find_evidence (ei_tenant_id c, ei_source_id c, ei_evidence_id c) db of
             Some row \<Rightarrow>
               (Inr \<lparr>ev_disposition = (if ib_fingerprint row \<noteq> ei_fingerprint c then D_CONFLICT else D_REPLAY),
                     ev_evidence_id = ei_evidence_id c, ev_state = ib_state row\<rparr>, db)
           | None \<Rightarrow>
               (case require_ready_bundle m True A_EVIDENCE_INGRESS None db of
                  Inl e \<Rightarrow> (Inl (ingress_error c e), db)
                | Inr _ \<Rightarrow>
                    let db' = db\<lparr>db_inbox := db_inbox db @ [ingress_row c]\<rparr>
                    in case ei_fault c of
                         BEFORE_COMMIT \<Rightarrow>
                           (Inl (ingress_error c (RuntimeError ''injected evidence fault before commit'')), db)
                       | AFTER_COMMIT \<Rightarrow>
                           (Inl (LostCommitAcknowledgement ''injected lost evidence commit acknowledgement''), db')
                       | NO_FAULT \<Rightarrow>
                           (Inr \<lparr>ev_disposition = D_COMMITTED, ev_evidence_id = ei_evidence_id c,
                                 ev_state = ''LOCAL_ACK_AUTHORIZED''\<rparr>, db'))))"

fun followup_allowed :: "EvidenceFollowupKind \<Rightarrow> (string \<times> string) list" where
  "followup_allowed PUSH =
     [(''LOCAL_ACK_AUTHORIZED'', ''PUSH_RESPONSE_ATTEMPT_ISSUED''),
      (''PUSH_RESPONSE_ATTEMPT_ISSUED'', ''PUSH_RESPONSE_LOCAL_COMPLETION_OBSERVED''),
      (''PUSH_RESPONSE_LOCAL_COMPLETION_OBSERVED'', ''PROVIDER_RECEIPT_OBSERVED'')]"
| "followup_allowed POLL =
     [(''LOCAL_ACK_AUTHORIZED'', ''POLL_CURSOR_ADVANCE_AUTHORIZED''),
      (''POLL_CURSOR_ADVANCE_AUTHORIZED'', ''POLL_CURSOR_APPLIED'')]"
| "followup_allowed RECONCILIATION =
     [(''LOCAL_ACK_AUTHORIZED'', ''RECONCILIATION_RELEASE_AUTHORIZED''),
      (''RECONCILIATION_RELEASE_AUTHORIZED'', ''RECONCILIATION_OBLIGATION_RELEASED'')]"

definition advance_row :: "EvidenceFollowupCommand \<Rightarrow> InboxRow \<Rightarrow> InboxRow" where
  "advance_row c row =
     row\<lparr>ib_state := ef_next_state c, ib_attempt_id := Some (ef_attempt_id c),
         ib_transport_version := Some (ef_transport_version c), ib_cursor := ef_cursor c\<rparr>"

text \<open>The update is a compare-and-set on the primary key and the state; \<open>rowcount\<close> is the number of
  matching rows.\<close>

definition followup_transaction ::
  "Materializer \<Rightarrow> nat \<Rightarrow> EvidenceFollowupCommand \<Rightarrow> Database
     \<Rightarrow> (StoreError, Database option \<times> EvidenceResult) result" where
  "followup_transaction m token c db =
     (let key = (ef_tenant_id c, ef_source_id c, ef_evidence_id c);
          matches = (\<lambda>row. inbox_key row = key \<and> ib_state row = ef_expected_state c)
      in rbind (require_writer m token) (\<lambda>_.
        case find_evidence key db of
          None \<Rightarrow> Inl (ValueError ''unknown evidence inbox subject'')
        | Some row \<Rightarrow>
            if ib_state row = ef_next_state c
              then Inr (None, \<lparr>ev_disposition =
                       (if (ib_attempt_id row, ib_transport_version row, ib_cursor row)
                           = (Some (ef_attempt_id c), Some (ef_transport_version c), ef_cursor c)
                        then D_REPLAY else D_CONFLICT),
                     ev_evidence_id = ef_evidence_id c, ev_state = ib_state row\<rparr>)
            else if ib_state row \<noteq> ef_expected_state c
                \<or> (ef_expected_state c, ef_next_state c) \<notin> set (followup_allowed (ib_followup_kind row))
              then Inl (ValueError ''illegal evidence follow-up transition'')
            else if ib_followup_kind row = POLL \<and> ef_cursor c = None
              then Inl (ValueError ''polling transition requires a durable cursor'')
            else
              rbind (require_ready_bundle m True A_EVIDENCE_FOLLOWUP None db) (\<lambda>_.
              if length (filter matches (db_inbox db)) \<noteq> 1
                then Inl (RuntimeError ''evidence state CAS lost'')
              else Inr (Some (db\<lparr>db_inbox := map (\<lambda>r. if matches r then advance_row c r else r) (db_inbox db)\<rparr>),
                     \<lparr>ev_disposition = D_COMMITTED, ev_evidence_id = ef_evidence_id c,
                      ev_state = ef_next_state c\<rparr>))))"

definition advance_evidence ::
  "Materializer \<Rightarrow> nat \<Rightarrow> EvidenceFollowupCommand \<Rightarrow> Database
     \<Rightarrow> (StoreError, EvidenceResult) result \<times> Database" where
  "advance_evidence m token c db = end_transaction (followup_transaction m token c db) db"

definition evidence_state_of :: "string \<Rightarrow> string \<Rightarrow> string \<Rightarrow> Database \<Rightarrow> string option" where
  "evidence_state_of tenant_id source_id evidence_id db =
     map_option ib_state (find_evidence (tenant_id, source_id, evidence_id) db)"

end
