(* ===== verification/Store_History.thy ===== *)
theory Store_History
  imports Platform_Store
begin

text \<open>
  The physical store over time. \<open>execute\<close> is the dispatch of one accepted command by the single
  writer (\<open>EventAppender._run\<close>); a store is reachable when it results from any sequence of executed
  commands, with any faults and verdicts of the callbacks. The lemmas give the effect of every
  operation and the invariant of every reachable store.
\<close>

section \<open>Executing accepted commands\<close>

datatype StoreCommand =
    PublishCommand PhysicalPublicationCommand "AuthorityRecoveryContext option"
  | IngressCommand EvidenceIngressCommand
  | FollowupCommand EvidenceFollowupCommand
  | FenceAdvanceCommand string string int bool
  | DerivativeRegistrationCommand string DerivativeRegistration string

datatype StoreValue =
    PublicationValue PublicationResult
  | EvidenceValue EvidenceResult
  | MutationValue PlatformMutationResult

definition map_result :: "('a \<Rightarrow> 'b) \<Rightarrow> ('e, 'a) result \<times> 'd \<Rightarrow> ('e, 'b) result \<times> 'd" where
  "map_result f x = (case fst x of Inl e \<Rightarrow> Inl e | Inr v \<Rightarrow> Inr (f v), snd x)"

fun execute ::
  "Materializer \<Rightarrow> nat \<Rightarrow> StoreCommand \<Rightarrow> Database \<Rightarrow> (StoreError, StoreValue) result \<times> Database" where
  "execute m token (PublishCommand c context) db =
     map_result PublicationValue (publish m token c context db)"
| "execute m token (IngressCommand c) db = map_result EvidenceValue (admit_evidence m token c db)"
| "execute m token (FollowupCommand c) db = map_result EvidenceValue (advance_evidence m token c db)"
| "execute m token (FenceAdvanceCommand tenant_id generation frontier allow_exact_replay) db =
     map_result MutationValue (install_fence m token tenant_id generation frontier allow_exact_replay db)"
| "execute m token (DerivativeRegistrationCommand tenant_id r fence_generation) db =
     map_result MutationValue (register_derivative m token tenant_id r fence_generation db)"

lemma snd_map_result [simp]: "snd (map_result f x) = snd x"
  by (simp add: map_result_def)

definition empty_database :: "nat \<Rightarrow> Database" where
  "empty_database profile =
     \<lparr>db_user_version = profile, db_heads = [], db_publications = [], db_records = [], db_inbox = [],
      db_fences = [], db_derivatives = []\<rparr>"

inductive store_reachable :: "Database \<Rightarrow> bool" where
  empty: "store_reachable (empty_database profile)"
| step: "store_reachable db \<Longrightarrow> store_reachable (snd (execute m token c db))"

section \<open>What a publication does\<close>

definition record_row :: "string \<Rightarrow> nat \<Rightarrow> PhysicalRecord \<Rightarrow> RecordRow" where
  "record_row tenant_id sequence r =
     \<lparr>rr_tenant_id = tenant_id, rr_record_id = ph_record_id r, rr_owner = ph_owner r,
      rr_schema_id = ph_schema_id r, rr_canonical_bytes = ph_canonical_bytes r,
      rr_commit_sequence = sequence\<rparr>"

definition record_key :: "RecordRow \<Rightarrow> string \<times> string" where
  "record_key row = (rr_tenant_id row, rr_record_id row)"

definition publication_key :: "PublicationRow \<Rightarrow> string \<times> string \<times> string" where
  "publication_key row = (pb_tenant_id row, pb_operation_kind row, pb_idempotency_key row)"

definition committed :: "PhysicalPublicationCommand \<Rightarrow> Database \<Rightarrow> Database" where
  "committed c db =
     (let sequence = Suc (current_head (pc_tenant_id c) db)
      in db\<lparr>db_records := db_records db @ map (record_row (pc_tenant_id c) sequence) (pc_records c),
            db_publications := db_publications db @
              [\<lparr>pb_tenant_id = pc_tenant_id c, pb_operation_kind = pc_operation_kind c,
                pb_idempotency_key = pc_idempotency_key c, pb_request_fingerprint = pc_request_fingerprint c,
                pb_commit_sequence = sequence, pb_record_ids = join_lines (map ph_record_id (pc_records c))\<rparr>],
            db_heads := AList.update (pc_tenant_id c) sequence (db_heads db)\<rparr>)"

lemma committed_inserts:
  "insert_publication c (Suc (current_head (pc_tenant_id c) db))
     (db\<lparr>db_records := db_records db @ map (record_row (pc_tenant_id c) (Suc (current_head (pc_tenant_id c) db))) (pc_records c)\<rparr>)
   = committed c db"
  by (simp add: committed_def insert_publication_def Let_def)

lemma record_row_fields [simp]:
  "rr_tenant_id (record_row t n r) = t" "rr_record_id (record_row t n r) = ph_record_id r"
  "rr_commit_sequence (record_row t n r) = n" "record_key (record_row t n r) = (t, ph_record_id r)"
  by (simp_all add: record_row_def record_key_def)

lemma insert_record_ok:
  "insert_record t n r db = Inr db' \<longleftrightarrow>
     (t, ph_record_id r) \<notin> record_key ` set (db_records db)
     \<and> db' = db\<lparr>db_records := db_records db @ [record_row t n r]\<rparr>"
  by (auto simp: insert_record_def record_row_def record_key_def list_ex_iff)

lemma insert_records_ok:
  "rfold (insert_record t n) rs db = Inr db' \<longleftrightarrow>
     distinct (map ph_record_id rs) \<and> (\<forall>r \<in> set rs. (t, ph_record_id r) \<notin> record_key ` set (db_records db))
     \<and> db' = db\<lparr>db_records := db_records db @ map (record_row t n) rs\<rparr>"
proof (induction rs arbitrary: db)
  case (Cons r rs)
  show ?case
    unfolding rfold.simps rbind_eq_Inr insert_record_ok Cons.IH by (auto simp: image_iff)
qed auto

lemma guard_disposition_not_committed [simp]: "guard_disposition v \<noteq> D_COMMITTED"
  by (cases v) simp_all

lemma publish_admission_verdict:
  "publish_admission m c context db = Inr (Some d) \<Longrightarrow> d \<noteq> D_COMMITTED"
  unfolding publish_admission_def
  by (auto simp: result_simps split: if_splits option.splits)

lemma publish_admission_head:
  "publish_admission m c context db = Inr None \<Longrightarrow> current_head (pc_tenant_id c) db = pc_expected_head c"
  unfolding publish_admission_def by (auto simp: result_simps split: if_splits)

lemma publish_decision_verdict:
  "publish_decision m c n db = Inr (Some d) \<Longrightarrow> d \<noteq> D_COMMITTED"
  unfolding publish_decision_def Let_def
  by (auto simp: result_simps split: if_splits option.splits)

lemma publish_existing_verdict:
  "publish_existing m c row db = Inr v \<Longrightarrow> pu_disposition v \<noteq> D_COMMITTED"
  unfolding publish_existing_def by (auto simp: result_simps split: if_splits)

lemma publish_transaction_rollback:
  assumes "publish_transaction m c context db = Inr (None, v)"
  shows "pu_disposition v \<noteq> D_COMMITTED"
  using assms publish_admission_verdict publish_decision_verdict publish_existing_verdict
  unfolding publish_transaction_def Let_def
  by (auto simp: result_simps simple_result_def split: option.splits if_splits)

lemma publish_transaction_commit:
  assumes "publish_transaction m c context db = Inr (Some db', v)"
  shows "find_publication c db = None" and "current_head (pc_tenant_id c) db = pc_expected_head c"
    and "distinct (map ph_record_id (pc_records c))"
    and "\<forall>r \<in> set (pc_records c). (pc_tenant_id c, ph_record_id r) \<notin> record_key ` set (db_records db)"
    and "db' = committed c db"
    and "v = \<lparr>pu_disposition = D_COMMITTED, pu_commit_sequence = Some (Suc (pc_expected_head c)),
              pu_record_ids = map ph_record_id (pc_records c)\<rparr>"
proof -
  from assms have absent: "find_publication c db = None"
    by (auto simp: publish_transaction_def result_simps split: option.splits)
  with assms obtain db1 where admitted: "publish_admission m c context db = Inr None"
    and ins: "rfold (insert_record (pc_tenant_id c) (Suc (current_head (pc_tenant_id c) db))) (pc_records c) db = Inr db1"
    and db': "db' = insert_publication c (Suc (current_head (pc_tenant_id c) db)) db1"
    and v: "v = \<lparr>pu_disposition = D_COMMITTED, pu_commit_sequence = Some (Suc (current_head (pc_tenant_id c) db)),
              pu_record_ids = map ph_record_id (pc_records c)\<rparr>"
    by (auto simp: publish_transaction_def Let_def result_simps split: option.splits if_splits)
  show "find_publication c db = None" by fact
  show head: "current_head (pc_tenant_id c) db = pc_expected_head c"
    using admitted by (rule publish_admission_head)
  show "distinct (map ph_record_id (pc_records c))"
    and "\<forall>r \<in> set (pc_records c). (pc_tenant_id c, ph_record_id r) \<notin> record_key ` set (db_records db)"
    and "db' = committed c db"
    using ins db' by (auto simp: insert_records_ok committed_inserts)
  show "v = \<lparr>pu_disposition = D_COMMITTED, pu_commit_sequence = Some (Suc (pc_expected_head c)),
              pu_record_ids = map ph_record_id (pc_records c)\<rparr>"
    using v head by simp
qed

text \<open>A publication changes nothing, or it commits exactly its records at the next position.\<close>

lemma publish_cases:
  assumes "publish m token c context db = (res, db')"
  obtains (unchanged) "db' = db" and "\<And>v. res = Inr v \<Longrightarrow> pu_disposition v \<noteq> D_COMMITTED"
  | (committed) "publish_preflight m token c db = Inr True" and "find_publication c db = None"
      and "current_head (pc_tenant_id c) db = pc_expected_head c"
      and "distinct (map ph_record_id (pc_records c))"
      and "\<forall>r \<in> set (pc_records c). (pc_tenant_id c, ph_record_id r) \<notin> record_key ` set (db_records db)"
      and "db' = committed c db"
      and "res = (if pc_fault c = AFTER_COMMIT
             then Inl (LostCommitAcknowledgement ''injected lost commit acknowledgement'')
             else Inr \<lparr>pu_disposition = D_COMMITTED, pu_commit_sequence = Some (Suc (pc_expected_head c)),
                       pu_record_ids = map ph_record_id (pc_records c)\<rparr>)"
proof -
  consider (early) e where "publish_preflight m token c db = Inl e"
    | (denied) "publish_preflight m token c db = Inr False"
    | (failed) e where "publish_preflight m token c db = Inr True" "publish_transaction m c context db = Inl e"
    | (rolled) v where "publish_preflight m token c db = Inr True" "publish_transaction m c context db = Inr (None, v)"
    | (finished) d v where "publish_preflight m token c db = Inr True" "publish_transaction m c context db = Inr (Some d, v)"
  proof (cases "publish_preflight m token c db")
    case (Inr b)
    show ?thesis
    proof (cases "publish_transaction m c context db")
      case (Inr x)
      then show ?thesis
        using \<open>publish_preflight m token c db = Inr b\<close> that by (cases x; cases "fst x"; cases b) auto
    qed (use Inr that in \<open>cases b; auto\<close>)
  qed (use that in blast)
  then show thesis
  proof cases
    case early then show thesis
      using assms that(1) by (auto simp: publish_def)
  next
    case denied then show thesis
      using assms that(1) by (auto simp: publish_def simple_result_def)
  next
    case failed then show thesis
      using assms that(1) by (auto simp: publish_def)
  next
    case rolled
    then show thesis
      using assms that(1) publish_transaction_rollback [OF rolled(2)] by (auto simp: publish_def)
  next
    case finished
    note ok = publish_transaction_commit [OF finished(2)]
    show thesis
      using assms that(2) [OF finished(1) ok(1-4)] ok(5,6) finished by (auto simp: publish_def)
  qed
qed

section \<open>The other operations leave the ledger alone\<close>

definition same_ledger :: "Database \<Rightarrow> Database \<Rightarrow> bool" where
  "same_ledger db db' \<longleftrightarrow>
     db_heads db' = db_heads db \<and> db_publications db' = db_publications db \<and> db_records db' = db_records db"

lemma same_ledger_refl [simp]: "same_ledger db db"
  by (simp add: same_ledger_def)

lemma same_ledger_current_head: "same_ledger db db' \<Longrightarrow> current_head t db' = current_head t db"
  by (simp add: same_ledger_def current_head_def)

lemma end_transaction_snd:
  "snd (end_transaction outcome db) = db \<or> (\<exists>res. outcome = Inr (Some (snd (end_transaction outcome db)), res))"
  by (auto simp: end_transaction_def split: sum.splits option.splits)

lemma fence_transaction_commit:
  "fence_transaction m token t g f replay db = Inr (Some db', res) \<Longrightarrow>
     db' = db\<lparr>db_fences := AList.update t (g, f) (db_fences db)\<rparr>
     \<and> (case map_of (db_fences db) t of None \<Rightarrow> True | Some (g0, f0) \<Rightarrow> f0 \<le> f \<and> g \<noteq> g0)"
  by (auto simp: fence_transaction_def Let_def result_simps split: if_splits)

lemma derivative_transaction_commit:
  "derivative_transaction m token t r g db = Inr (Some db', res) \<Longrightarrow>
     db' = db\<lparr>db_derivatives := db_derivatives db @ [derivative_row t r]\<rparr>
     \<and> (\<forall>row \<in> set (db_derivatives db).
          (dv_tenant_id row, dv_sink row, dv_derivative_id row) \<noteq> (t, dg_sink r, dg_derivative_id r))
     \<and> (\<forall>i \<in> set (dg_source_record_ids r). (t, i) \<in> record_key ` set (db_records db))"
  by (auto simp: derivative_transaction_def result_simps list_all_iff list_ex_iff record_key_def image_iff
      find_None_iff split: option.splits if_splits)

definition advance_all :: "EvidenceFollowupCommand \<Rightarrow> InboxRow list \<Rightarrow> InboxRow list" where
  "advance_all c rows =
     map (\<lambda>r. if inbox_key r = (ef_tenant_id c, ef_source_id c, ef_evidence_id c)
            \<and> ib_state r = ef_expected_state c then advance_row c r else r) rows"

lemma followup_transaction_commit:
  "followup_transaction m token c db = Inr (Some db', res) \<Longrightarrow>
     db' = db\<lparr>db_inbox := advance_all c (db_inbox db)\<rparr>
     \<and> (\<exists>row. find_evidence (ef_tenant_id c, ef_source_id c, ef_evidence_id c) db = Some row
          \<and> ib_state row = ef_expected_state c
          \<and> (ef_expected_state c, ef_next_state c) \<in> set (followup_allowed (ib_followup_kind row)))"
  by (auto simp: followup_transaction_def Let_def advance_all_def result_simps split: option.splits if_splits)

lemma install_fence_effect:
  "snd (install_fence m token t g f replay db) = db
   \<or> (snd (install_fence m token t g f replay db) = db\<lparr>db_fences := AList.update t (g, f) (db_fences db)\<rparr>
      \<and> (case map_of (db_fences db) t of None \<Rightarrow> True | Some (g0, f0) \<Rightarrow> f0 \<le> f \<and> g \<noteq> g0))"
  using end_transaction_snd fence_transaction_commit unfolding install_fence_def by metis

lemma register_derivative_effect:
  "snd (register_derivative m token t r g db) = db
   \<or> (snd (register_derivative m token t r g db) = db\<lparr>db_derivatives := db_derivatives db @ [derivative_row t r]\<rparr>
      \<and> (\<forall>row \<in> set (db_derivatives db).
           (dv_tenant_id row, dv_sink row, dv_derivative_id row) \<noteq> (t, dg_sink r, dg_derivative_id r))
      \<and> (\<forall>i \<in> set (dg_source_record_ids r). (t, i) \<in> record_key ` set (db_records db)))"
  using end_transaction_snd derivative_transaction_commit unfolding register_derivative_def by metis

lemma admit_evidence_effect:
  "snd (admit_evidence m token c db) = db
   \<or> (snd (admit_evidence m token c db) = db\<lparr>db_inbox := db_inbox db @ [ingress_row c]\<rparr>
      \<and> find_evidence (inbox_key (ingress_row c)) db = None)"
  by (auto simp: admit_evidence_def Let_def inbox_key_def ingress_row_def
      split: sum.splits option.splits Fault.splits)

lemma advance_evidence_effect:
  "snd (advance_evidence m token c db) = db
   \<or> (snd (advance_evidence m token c db) = db\<lparr>db_inbox := advance_all c (db_inbox db)\<rparr>
      \<and> (\<exists>row. find_evidence (ef_tenant_id c, ef_source_id c, ef_evidence_id c) db = Some row
           \<and> ib_state row = ef_expected_state c
           \<and> (ef_expected_state c, ef_next_state c) \<in> set (followup_allowed (ib_followup_kind row))))"
  using end_transaction_snd followup_transaction_commit unfolding advance_evidence_def by metis

lemmas operation_effects = install_fence_effect register_derivative_effect admit_evidence_effect
  advance_evidence_effect

lemma same_ledger_updates [simp]:
  "same_ledger db (db\<lparr>db_fences := x\<rparr>)" "same_ledger db (db\<lparr>db_derivatives := y\<rparr>)"
  "same_ledger db (db\<lparr>db_inbox := z\<rparr>)"
  by (simp_all add: same_ledger_def)

lemma execute_ledger:
  assumes "\<not> (\<exists>c cx. cmd = PublishCommand c cx)"
  shows "same_ledger db (snd (execute m token cmd db))"
proof (cases cmd)
  case (IngressCommand c)
  then show ?thesis using admit_evidence_effect [of m token c db] by auto
next
  case (FollowupCommand c)
  then show ?thesis using advance_evidence_effect [of m token c db] by auto
next
  case (FenceAdvanceCommand t g f r)
  then show ?thesis using install_fence_effect [of m token t g f r db] by auto
next
  case (DerivativeRegistrationCommand t r g)
  then show ?thesis using register_derivative_effect [of m token t r g db] by auto
qed (use assms in blast)

section \<open>The invariant of the ledger\<close>

definition rows_of :: "string \<Rightarrow> nat \<Rightarrow> Database \<Rightarrow> RecordRow list" where
  "rows_of t n db = filter (\<lambda>row. rr_tenant_id row = t \<and> rr_commit_sequence row = n) (db_records db)"

definition ledger_ok :: "Database \<Rightarrow> bool" where
  "ledger_ok db \<longleftrightarrow>
     distinct (map record_key (db_records db))
     \<and> distinct (map publication_key (db_publications db))
     \<and> (\<forall>t. map pb_commit_sequence (filter (\<lambda>p. pb_tenant_id p = t) (db_publications db))
            = [1..<Suc (current_head t db)])
     \<and> (\<forall>p \<in> set (db_publications db).
          rows_of (pb_tenant_id p) (pb_commit_sequence p) db \<noteq> []
          \<and> pb_record_ids p = join_lines (map rr_record_id (rows_of (pb_tenant_id p) (pb_commit_sequence p) db)))
     \<and> (\<forall>row \<in> set (db_records db).
          1 \<le> rr_commit_sequence row \<and> rr_commit_sequence row \<le> current_head (rr_tenant_id row) db)"

lemma ledger_ok_cong: "same_ledger db db' \<Longrightarrow> ledger_ok db' = ledger_ok db"
  by (simp add: ledger_ok_def rows_of_def same_ledger_def current_head_def)

lemma current_head_committed:
  "current_head t (committed c db) = (if t = pc_tenant_id c then Suc (current_head t db) else current_head t db)"
  by (simp add: committed_def insert_publication_def current_head_def update_conv' Let_def)

lemma committed_tables:
  "db_records (committed c db) =
     db_records db @ map (record_row (pc_tenant_id c) (Suc (current_head (pc_tenant_id c) db))) (pc_records c)"
  "db_publications (committed c db) = db_publications db @
     [\<lparr>pb_tenant_id = pc_tenant_id c, pb_operation_kind = pc_operation_kind c,
       pb_idempotency_key = pc_idempotency_key c, pb_request_fingerprint = pc_request_fingerprint c,
       pb_commit_sequence = Suc (current_head (pc_tenant_id c) db),
       pb_record_ids = join_lines (map ph_record_id (pc_records c))\<rparr>]"
  "db_fences (committed c db) = db_fences db" "db_inbox (committed c db) = db_inbox db"
  "db_derivatives (committed c db) = db_derivatives db"
  "db_user_version (committed c db) = db_user_version db"
  by (simp_all add: committed_def insert_publication_def Let_def)

lemma find_publication_None:
  "find_publication c db = None \<longleftrightarrow>
     (pc_tenant_id c, pc_operation_kind c, pc_idempotency_key c) \<notin> publication_key ` set (db_publications db)"
  by (auto simp: find_publication_def find_None_iff publication_key_def image_iff)

lemma rows_of_committed:
  "rows_of t n (committed c db) = rows_of t n db @
     (if t = pc_tenant_id c \<and> n = Suc (current_head t db)
      then map (record_row t n) (pc_records c) else [])"
  by (auto simp: rows_of_def committed_tables filter_map comp_def)

lemma ledger_ok_committed:
  assumes ok: "ledger_ok db" and absent: "find_publication c db = None"
    and "distinct (map ph_record_id (pc_records c))" and "pc_records c \<noteq> []"
    and "\<forall>r \<in> set (pc_records c). (pc_tenant_id c, ph_record_id r) \<notin> record_key ` set (db_records db)"
  shows "ledger_ok (committed c db)"
proof -
  let ?t = "pc_tenant_id c" and ?n = "Suc (current_head (pc_tenant_id c) db)"
  have fresh: "rows_of ?t ?n db = []"
    using ok by (auto simp: ledger_ok_def rows_of_def filter_empty_conv)
  have bound: "pb_commit_sequence p \<le> current_head (pb_tenant_id p) db" if "p \<in> set (db_publications db)" for p
  proof -
    have "map pb_commit_sequence (filter (\<lambda>q. pb_tenant_id q = pb_tenant_id p) (db_publications db))
        = [1..<Suc (current_head (pb_tenant_id p) db)]"
      using ok unfolding ledger_ok_def by blast
    moreover have "pb_commit_sequence p \<in> set (map pb_commit_sequence
        (filter (\<lambda>q. pb_tenant_id q = pb_tenant_id p) (db_publications db)))"
      using that by auto
    ultimately show ?thesis
      by (simp del: upt_Suc)
  qed
  have rows: "rows_of (pb_tenant_id p) (pb_commit_sequence p) (committed c db)
      = rows_of (pb_tenant_id p) (pb_commit_sequence p) db" if "p \<in> set (db_publications db)" for p
    using bound [OF that] by (auto simp: rows_of_committed)
  have "distinct (map record_key (db_records (committed c db)))"
    using assms ok by (auto simp: ledger_ok_def committed_tables distinct_map comp_def inj_on_def)
  moreover have "distinct (map publication_key (db_publications (committed c db)))"
    using ok absent by (auto simp: ledger_ok_def committed_tables find_publication_None publication_key_def)
  moreover have "map pb_commit_sequence (filter (\<lambda>p. pb_tenant_id p = t) (db_publications (committed c db)))
      = [1..<Suc (current_head t (committed c db))]" for t
    using ok by (auto simp: ledger_ok_def committed_tables current_head_committed)
  moreover have "rows_of (pb_tenant_id p) (pb_commit_sequence p) (committed c db) \<noteq> []
      \<and> pb_record_ids p = join_lines (map rr_record_id (rows_of (pb_tenant_id p) (pb_commit_sequence p) (committed c db)))"
    if "p \<in> set (db_publications (committed c db))" for p
    using that ok rows assms(4) fresh
    by (auto simp: committed_tables(2) ledger_ok_def rows_of_committed comp_def)
  moreover have "1 \<le> rr_commit_sequence row \<and> rr_commit_sequence row \<le> current_head (rr_tenant_id row) (committed c db)"
    if "row \<in> set (db_records (committed c db))" for row
    using that ok by (auto simp: committed_tables(1) ledger_ok_def current_head_committed le_SucI)
  ultimately show ?thesis
    unfolding ledger_ok_def by blast
qed

lemma publish_preflight_records: "publish_preflight m token c db = Inr True \<Longrightarrow> pc_records c \<noteq> []"
  by (auto simp: publish_preflight_def result_simps split: if_splits)

lemma ledger_ok_execute:
  assumes ok: "ledger_ok db"
  shows "ledger_ok (snd (execute m token cmd db))"
proof (cases "\<exists>c context. cmd = PublishCommand c context")
  case True
  then obtain c cx where cmd: "cmd = PublishCommand c cx" by blast
  obtain res db' where r: "publish m token c cx db = (res, db')" by fastforce
  then show ?thesis
  proof (cases rule: publish_cases)
    case committed
    then show ?thesis
      using ledger_ok_committed [OF ok] publish_preflight_records r cmd by auto
  qed (use ok r cmd in simp)
next
  case False
  then show ?thesis
    using execute_ledger ledger_ok_cong ok by blast
qed

lemma reachable_ledger_ok: "store_reachable db \<Longrightarrow> ledger_ok db"
proof (induction rule: store_reachable.induct)
  case (empty profile)
  show ?case
    by (simp add: ledger_ok_def empty_database_def current_head_def)
qed (rule ledger_ok_execute)

section \<open>Replays\<close>

lemma split_lines_from_append:
  "newline \<notin> set x \<Longrightarrow> split_lines_from acc (x @ newline # y) = (rev acc @ x) # split_lines_from [] y"
  by (induction x arbitrary: acc) auto

lemma split_lines_from_single: "newline \<notin> set x \<Longrightarrow> split_lines_from acc x = [rev acc @ x]"
  by (induction x arbitrary: acc) auto

lemma split_join_lines:
  "xs \<noteq> [] \<Longrightarrow> \<forall>x \<in> set xs. newline \<notin> set x \<Longrightarrow> split_lines (join_lines xs) = xs"
  unfolding split_lines_def
  by (induction xs rule: join_lines.induct) (simp_all add: split_lines_from_single split_lines_from_append)

lemma find_publication_committed:
  assumes "find_publication c db = None" and "pc_tenant_id c' = pc_tenant_id c"
    and "pc_operation_kind c' = pc_operation_kind c" and "pc_idempotency_key c' = pc_idempotency_key c"
  shows "find_publication c' (committed c db) =
     Some \<lparr>pb_tenant_id = pc_tenant_id c, pb_operation_kind = pc_operation_kind c,
       pb_idempotency_key = pc_idempotency_key c, pb_request_fingerprint = pc_request_fingerprint c,
       pb_commit_sequence = Suc (current_head (pc_tenant_id c) db),
       pb_record_ids = join_lines (map ph_record_id (pc_records c))\<rparr>"
proof -
  have "find P xs = None \<Longrightarrow> P y \<Longrightarrow> find P (xs @ [y]) = Some y" for P and xs :: "PublicationRow list" and y
    by (induction xs) (auto split: if_splits)
  then show ?thesis
    using assms unfolding find_publication_def committed_tables(2) by simp
qed

section \<open>Growth\<close>

lemma execute_append_only:
  "\<exists>rs ps. db_records (snd (execute m token cmd db)) = db_records db @ rs
     \<and> db_publications (snd (execute m token cmd db)) = db_publications db @ ps"
proof (cases "\<exists>c cx. cmd = PublishCommand c cx")
  case True
  then obtain c cx where cmd: "cmd = PublishCommand c cx" by blast
  obtain res db' where r: "publish m token c cx db = (res, db')" by fastforce
  then show ?thesis
    by (cases rule: publish_cases) (use r cmd in \<open>auto simp: committed_tables\<close>)
next
  case False
  then show ?thesis
    using execute_ledger [OF False] by (simp add: same_ledger_def)
qed

lemma publish_preflight_cong:
  assumes "map_of (db_fences db') (pc_tenant_id c) = map_of (db_fences db) (pc_tenant_id c)"
    and "pc_tenant_id c' = pc_tenant_id c"
    and "pc_operation_kind c' = pc_operation_kind c" and "pc_records c' = pc_records c"
    and "pc_fence_generation c' = pc_fence_generation c"
    and "pc_expected_fence_frontier c' = pc_expected_fence_frontier c"
    and "pc_minimum_fence_frontier c' = pc_minimum_fence_frontier c"
  shows "publish_preflight m token c' db' = publish_preflight m token c db"
  by (simp only: publish_preflight_def require_closed_delivery_work_publication_def require_fence_def assms)

text \<open>A publication row is found again after any later history.\<close>

definition execute_all :: "(Materializer \<times> nat \<times> StoreCommand) list \<Rightarrow> Database \<Rightarrow> Database" where
  "execute_all steps db = fold (\<lambda>(m, token, cmd) db. snd (execute m token cmd db)) steps db"

lemma find_publication_execute:
  assumes "find_publication c db = Some row"
  shows "find_publication c (snd (execute m token cmd db)) = Some row"
  using execute_append_only [of m token cmd db] find_append_Some assms
  by (auto simp: find_publication_def)

lemma find_publication_execute_all:
  "find_publication c db = Some row \<Longrightarrow> find_publication c (execute_all steps db) = Some row"
proof (induction steps arbitrary: db)
  case (Cons x xs)
  then show ?case
    by (cases x) (simp add: execute_all_def find_publication_execute)
qed (simp add: execute_all_def)

lemma publish_found_unchanged:
  assumes "find_publication c db = Some row"
  shows "snd (publish m token c cx db) = db"
proof -
  obtain res db' where p: "publish m token c cx db = (res, db')" by fastforce
  then show ?thesis
    by (cases rule: publish_cases) (use assms p in auto)
qed

lemma publish_preflight_plain:
  "\<not> requires_owner_publication_resolver (pc_operation_kind c) \<Longrightarrow> publish_preflight m token c db \<noteq> Inr False"
  by (auto simp: publish_preflight_def result_simps split: if_splits)

lemma publish_found_plain:
  assumes "find_publication c db = Some row" and "\<not> requires_owner_publication_resolver (pc_operation_kind c)"
  shows "fst (publish m token c cx db) = rbind (publish_preflight m token c db) (\<lambda>_. publish_existing m c row db)"
proof (cases "publish_preflight m token c db")
  case (Inr b)
  then have "b = True"
    using publish_preflight_plain [OF assms(2)] by (cases b) auto
  then show ?thesis
    using assms Inr by (simp add: publish_def publish_transaction_def publish_existing_def)
qed (simp add: publish_def)

text \<open>The row a durable publication left, acknowledged or not.\<close>

lemma publish_leaves_row:
  assumes "publish m token c cx db = (res, db')" and "db' \<noteq> db"
    and same: "pc_tenant_id c' = pc_tenant_id c" "pc_operation_kind c' = pc_operation_kind c"
      "pc_idempotency_key c' = pc_idempotency_key c"
  shows "find_publication c' db' =
     Some \<lparr>pb_tenant_id = pc_tenant_id c, pb_operation_kind = pc_operation_kind c,
       pb_idempotency_key = pc_idempotency_key c, pb_request_fingerprint = pc_request_fingerprint c,
       pb_commit_sequence = Suc (pc_expected_head c), pb_record_ids = join_lines (map ph_record_id (pc_records c))\<rparr>"
    and "publish_preflight m token c db = Inr True" and "db_fences db' = db_fences db"
proof -
  from assms(1) have "db' = committed c db \<and> find_publication c db = None
      \<and> current_head (pc_tenant_id c) db = pc_expected_head c \<and> publish_preflight m token c db = Inr True"
    by (cases rule: publish_cases) (use assms(2) in auto)
  then show "find_publication c' db' =
     Some \<lparr>pb_tenant_id = pc_tenant_id c, pb_operation_kind = pc_operation_kind c,
       pb_idempotency_key = pc_idempotency_key c, pb_request_fingerprint = pc_request_fingerprint c,
       pb_commit_sequence = Suc (pc_expected_head c), pb_record_ids = join_lines (map ph_record_id (pc_records c))\<rparr>"
    and "publish_preflight m token c db = Inr True" and "db_fences db' = db_fences db"
    using find_publication_committed [OF _ same] by (auto simp: committed_tables)
qed

definition fence_le :: "(string \<times> int) option \<Rightarrow> (string \<times> int) option \<Rightarrow> bool" where
  "fence_le x y \<longleftrightarrow> x = y \<or> x = None \<or> (\<exists>g f g' f'. x = Some (g, f) \<and> y = Some (g', f') \<and> f \<le> f' \<and> g \<noteq> g')"

lemma execute_fence:
  "fence_le (map_of (db_fences db) t) (map_of (db_fences (snd (execute m token cmd db))) t)"
proof (cases cmd)
  case (PublishCommand c cx)
  obtain res db' where r: "publish m token c cx db = (res, db')" by fastforce
  then show ?thesis
    by (cases rule: publish_cases) (use r PublishCommand in \<open>auto simp: committed_tables fence_le_def\<close>)
next
  case (FenceAdvanceCommand t' g f b)
  then show ?thesis
    using install_fence_effect [of m token t' g f b db]
    by (cases "t = t'") (auto simp: fence_le_def update_conv' split: option.splits prod.splits)
next
  case (IngressCommand c)
  then show ?thesis
    using admit_evidence_effect [of m token c db] by (auto simp: fence_le_def)
next
  case (FollowupCommand c)
  then show ?thesis
    using advance_evidence_effect [of m token c db] by (auto simp: fence_le_def)
next
  case (DerivativeRegistrationCommand t' r g)
  then show ?thesis
    using register_derivative_effect [of m token t' r g db] by (auto simp: fence_le_def)
qed

section \<open>The inbox\<close>

fun followup_rank :: "EvidenceFollowupKind \<Rightarrow> string \<Rightarrow> nat" where
  "followup_rank PUSH s =
     (if s = ''LOCAL_ACK_AUTHORIZED'' then 0 else if s = ''PUSH_RESPONSE_ATTEMPT_ISSUED'' then 1
      else if s = ''PUSH_RESPONSE_LOCAL_COMPLETION_OBSERVED'' then 2 else 3)"
| "followup_rank POLL s =
     (if s = ''LOCAL_ACK_AUTHORIZED'' then 0 else if s = ''POLL_CURSOR_ADVANCE_AUTHORIZED'' then 1 else 2)"
| "followup_rank RECONCILIATION s =
     (if s = ''LOCAL_ACK_AUTHORIZED'' then 0 else if s = ''RECONCILIATION_RELEASE_AUTHORIZED'' then 1 else 2)"

lemma followup_allowed_rank:
  "(a, b) \<in> set (followup_allowed k) \<Longrightarrow> followup_rank k b = Suc (followup_rank k a)"
  by (cases k) auto

text \<open>What a later row of the inbox keeps of an earlier one with the same key.\<close>

definition inbox_le :: "InboxRow \<Rightarrow> InboxRow \<Rightarrow> bool" where
  "inbox_le r r' \<longleftrightarrow>
     inbox_key r' = inbox_key r \<and> ib_fingerprint r' = ib_fingerprint r
     \<and> ib_canonical_bytes r' = ib_canonical_bytes r \<and> ib_followup_kind r' = ib_followup_kind r
     \<and> (r' = r \<or> followup_rank (ib_followup_kind r) (ib_state r') = Suc (followup_rank (ib_followup_kind r) (ib_state r)))"

definition inbox_grows :: "InboxRow list \<Rightarrow> InboxRow list \<Rightarrow> bool" where
  "inbox_grows xs ys \<longleftrightarrow> length xs \<le> length ys \<and> (\<forall>i < length xs. inbox_le (xs ! i) (ys ! i))"

lemma inbox_le_refl [simp]: "inbox_le r r"
  by (simp add: inbox_le_def)

lemma inbox_grows_refl [simp]: "inbox_grows xs xs"
  by (simp add: inbox_grows_def)

lemma inbox_grows_append: "inbox_grows xs (xs @ ys)"
  by (simp add: inbox_grows_def nth_append)

lemma find_evidence_set:
  "find_evidence k db = Some row \<Longrightarrow> row \<in> set (db_inbox db) \<and> inbox_key row = k"
  unfolding find_evidence_def by (drule find_Some_set) simp

lemma find_evidence_None:
  "find_evidence k db = None \<longleftrightarrow> k \<notin> inbox_key ` set (db_inbox db)"
  by (auto simp: find_evidence_def find_None_iff)

lemma advance_row_le:
  assumes "distinct (map inbox_key (db_inbox db))" and "r \<in> set (db_inbox db)"
    and "find_evidence (ef_tenant_id c, ef_source_id c, ef_evidence_id c) db = Some row"
    and "(ef_expected_state c, ef_next_state c) \<in> set (followup_allowed (ib_followup_kind row))"
    and "inbox_key r = (ef_tenant_id c, ef_source_id c, ef_evidence_id c)" and "ib_state r = ef_expected_state c"
  shows "inbox_le r (advance_row c r)"
proof -
  have "r = row"
    using assms(1,2,5) find_evidence_set [OF assms(3)] by (auto simp: distinct_map inj_on_def)
  then show ?thesis
    using assms(6) followup_allowed_rank [OF assms(4)]
    by (simp add: inbox_le_def advance_row_def inbox_key_def)
qed

lemma inbox_key_advance [simp]: "inbox_key (advance_row c r) = inbox_key r"
  by (simp add: advance_row_def inbox_key_def)

lemma execute_inbox:
  assumes ok: "distinct (map inbox_key (db_inbox db))"
  shows "inbox_grows (db_inbox db) (db_inbox (snd (execute m token cmd db)))
    \<and> distinct (map inbox_key (db_inbox (snd (execute m token cmd db))))"
proof (cases cmd)
  case (PublishCommand c cx)
  obtain res db' where r: "publish m token c cx db = (res, db')" by fastforce
  then show ?thesis
    by (cases rule: publish_cases) (use ok r PublishCommand in \<open>auto simp: committed_tables\<close>)
next
  case (IngressCommand c)
  show ?thesis
    using admit_evidence_effect [of m token c db] ok IngressCommand
    by (auto simp: inbox_grows_append find_evidence_None)
next
  case (FollowupCommand c)
  have keys: "map inbox_key (advance_all c rows) = map inbox_key rows" for rows
    by (induction rows) (auto simp: advance_all_def)
  show ?thesis
    using advance_evidence_effect [of m token c db]
  proof
    assume "snd (advance_evidence m token c db) = db"
    then show ?thesis using ok FollowupCommand by simp
  next
    assume eff: "snd (advance_evidence m token c db) = db\<lparr>db_inbox := advance_all c (db_inbox db)\<rparr>
      \<and> (\<exists>row. find_evidence (ef_tenant_id c, ef_source_id c, ef_evidence_id c) db = Some row
           \<and> ib_state row = ef_expected_state c
           \<and> (ef_expected_state c, ef_next_state c) \<in> set (followup_allowed (ib_followup_kind row)))"
    then obtain row where row: "find_evidence (ef_tenant_id c, ef_source_id c, ef_evidence_id c) db = Some row"
      "(ef_expected_state c, ef_next_state c) \<in> set (followup_allowed (ib_followup_kind row))" by blast
    have "inbox_grows (db_inbox db) (advance_all c (db_inbox db))"
      using advance_row_le [OF ok nth_mem row] by (auto simp: inbox_grows_def advance_all_def)
    then show ?thesis
      using eff keys ok FollowupCommand by simp
  qed
next
  case (FenceAdvanceCommand t g f b)
  then show ?thesis
    using install_fence_effect [of m token t g f b db] ok by auto
next
  case (DerivativeRegistrationCommand t r g)
  then show ?thesis
    using register_derivative_effect [of m token t r g db] ok by auto
qed

lemma reachable_inbox: "store_reachable db \<Longrightarrow> distinct (map inbox_key (db_inbox db))"
  by (induction rule: store_reachable.induct) (simp_all add: empty_database_def execute_inbox)

end
