(* ===== verification/Event_Appender.thy ===== *)
theory Event_Appender
  imports Store_History "HOL-Library.Multiset"
begin

text \<open>
  The broker-owned bounded single writer (\<open>EventAppender\<close> in \<open>platform/_sqlite.py\<close>). Submissions of
  any number of tasks, the steps of the worker and the close interleave; each step below is one
  stretch of the event loop between suspension points. A future is a ticket number; its result is
  the row of \<open>ap_results\<close>. Commands of the evidence lane are taken before ordinary ones.
\<close>

section \<open>State and steps\<close>

datatype Lane = ORDINARY | EVIDENCE

record Accepted =
  ax_ticket :: nat
  ax_command :: StoreCommand

record Appender =
  ap_ordinary :: "Accepted list"
  ap_evidence :: "Accepted list"
  ap_ordinary_capacity :: nat
  ap_evidence_capacity :: nat
  ap_ordinary_admitted :: nat
  ap_evidence_admitted :: nat
  ap_accepting :: bool
  ap_current :: "(Lane \<times> Accepted) option"
  ap_results :: "(nat \<times> (StoreError, StoreValue) result) list"
  ap_next_ticket :: nat
  ap_observer :: "(PhysicalPublicationCommand \<Rightarrow> string \<Rightarrow> (StoreError, unit) result) option"
  ap_database :: Database

datatype AppenderError = AdmissionClosed | QueueFull string | InvalidCapacity

definition create ::
  "nat \<Rightarrow> nat \<Rightarrow> (PhysicalPublicationCommand \<Rightarrow> string \<Rightarrow> (StoreError, unit) result) option \<Rightarrow> Database
     \<Rightarrow> (AppenderError, Appender) result" where
  "create capacity evidence_capacity observer db =
     (if capacity < 1 \<or> evidence_capacity < 1 then Inl InvalidCapacity
      else Inr \<lparr>ap_ordinary = [], ap_evidence = [], ap_ordinary_capacity = capacity,
                ap_evidence_capacity = evidence_capacity, ap_ordinary_admitted = 0,
                ap_evidence_admitted = 0, ap_accepting = True, ap_current = None, ap_results = [],
                ap_next_ticket = 0, ap_observer = observer, ap_database = db\<rparr>)"

fun command_lane :: "StoreCommand \<Rightarrow> Lane" where
  "command_lane (IngressCommand c) = EVIDENCE"
| "command_lane (FollowupCommand c) = EVIDENCE"
| "command_lane _ = ORDINARY"

text \<open>The observer becomes the decision guard of a publication that has none and needs no
  resolver; it decides by returning or raising.\<close>

fun attach_observer ::
  "(PhysicalPublicationCommand \<Rightarrow> string \<Rightarrow> (StoreError, unit) result) option \<Rightarrow> StoreCommand \<Rightarrow> StoreCommand"
where
  "attach_observer (Some observer) (PublishCommand c cx) =
     (if pc_decision_guard c = None \<and> \<not> requires_owner_publication_resolver (pc_operation_kind c)
      then PublishCommand (c\<lparr>pc_decision_guard :=
             Some (\<lambda>commitment db. rbind (observer c commitment) (\<lambda>_. Inr None))\<rparr>) cx
      else PublishCommand c cx)"
| "attach_observer _ cmd = cmd"

definition submit :: "StoreCommand \<Rightarrow> Appender \<Rightarrow> (AppenderError, nat) result \<times> Appender" where
  "submit cmd a =
     (let accepted = \<lparr>ax_ticket = ap_next_ticket a, ax_command = attach_observer (ap_observer a) cmd\<rparr> in
      if \<not> ap_accepting a then (Inl AdmissionClosed, a)
      else case command_lane cmd of
        ORDINARY \<Rightarrow>
          if ap_ordinary_capacity a \<le> ap_ordinary_admitted a
          then (Inl (QueueFull ''ordinary writer lane is at capacity''), a)
          else (Inr (ap_next_ticket a),
                a\<lparr>ap_ordinary := ap_ordinary a @ [accepted],
                  ap_ordinary_admitted := ap_ordinary_admitted a + 1,
                  ap_next_ticket := ap_next_ticket a + 1\<rparr>)
      | EVIDENCE \<Rightarrow>
          if ap_evidence_capacity a \<le> ap_evidence_admitted a
          then (Inl (QueueFull ''evidence writer lane is at capacity''), a)
          else (Inr (ap_next_ticket a),
                a\<lparr>ap_evidence := ap_evidence a @ [accepted],
                  ap_evidence_admitted := ap_evidence_admitted a + 1,
                  ap_next_ticket := ap_next_ticket a + 1\<rparr>))"

text \<open>The worker acquires a permit (a command is queued) and takes the next command.\<close>

definition worker_take :: "Appender \<Rightarrow> Appender option" where
  "worker_take a =
     (case (ap_current a, ap_evidence a, ap_ordinary a) of
        (None, x # xs, _) \<Rightarrow> Some (a\<lparr>ap_current := Some (EVIDENCE, x), ap_evidence := xs\<rparr>)
      | (None, [], x # xs) \<Rightarrow> Some (a\<lparr>ap_current := Some (ORDINARY, x), ap_ordinary := xs\<rparr>)
      | _ \<Rightarrow> None)"

text \<open>The executed command's result, or its exception, is set and its lane's slot is released.\<close>

definition worker_finish :: "Materializer \<Rightarrow> nat \<Rightarrow> Appender \<Rightarrow> Appender option" where
  "worker_finish m token a =
     (case ap_current a of
        None \<Rightarrow> None
      | Some (lane, x) \<Rightarrow>
          let (res, db') = execute m token (ax_command x) (ap_database a);
              a1 = a\<lparr>ap_current := None, ap_database := db',
                     ap_results := ap_results a @ [(ax_ticket x, res)]\<rparr>
          in Some (case lane of
               EVIDENCE \<Rightarrow> a1\<lparr>ap_evidence_admitted := ap_evidence_admitted a - 1\<rparr>
             | ORDINARY \<Rightarrow> a1\<lparr>ap_ordinary_admitted := ap_ordinary_admitted a - 1\<rparr>))"

definition close_admission :: "Appender \<Rightarrow> Appender" where
  "close_admission a = a\<lparr>ap_accepting := False\<rparr>"

text \<open>Both queues joined: nothing queued and nothing in service.\<close>

definition drained :: "Appender \<Rightarrow> bool" where
  "drained a \<longleftrightarrow> ap_ordinary a = [] \<and> ap_evidence a = [] \<and> ap_current a = None"

inductive appender_step :: "Materializer \<Rightarrow> nat \<Rightarrow> Appender \<Rightarrow> Appender \<Rightarrow> bool" for m token where
  submits: "submit cmd a = (r, a') \<Longrightarrow> appender_step m token a a'"
| takes: "worker_take a = Some a' \<Longrightarrow> appender_step m token a a'"
| finishes: "worker_finish m token a = Some a' \<Longrightarrow> appender_step m token a a'"
| closes: "appender_step m token a (close_admission a)"

inductive appender_reachable :: "Materializer \<Rightarrow> nat \<Rightarrow> Database \<Rightarrow> Appender \<Rightarrow> bool" for m token db where
  created: "create n k observer db = Inr a \<Longrightarrow> appender_reachable m token db a"
| steps: "appender_reachable m token db a \<Longrightarrow> appender_step m token a a' \<Longrightarrow> appender_reachable m token db a'"

section \<open>Admission accounting\<close>

definition in_service :: "Lane \<Rightarrow> Appender \<Rightarrow> nat" where
  "in_service lane a = (case ap_current a of Some (l, _) \<Rightarrow> if l = lane then 1 else 0 | None \<Rightarrow> 0)"

definition lane_ok :: "Appender \<Rightarrow> bool" where
  "lane_ok a \<longleftrightarrow>
     ap_ordinary_admitted a = length (ap_ordinary a) + in_service ORDINARY a
     \<and> ap_evidence_admitted a = length (ap_evidence a) + in_service EVIDENCE a
     \<and> ap_ordinary_admitted a \<le> ap_ordinary_capacity a
     \<and> ap_evidence_admitted a \<le> ap_evidence_capacity a"

definition current_tickets :: "Appender \<Rightarrow> nat list" where
  "current_tickets a = (case ap_current a of Some (_, x) \<Rightarrow> [ax_ticket x] | None \<Rightarrow> [])"

text \<open>Every ticket issued so far is in exactly one place.\<close>

definition tickets :: "Appender \<Rightarrow> nat list" where
  "tickets a = map fst (ap_results a) @ current_tickets a @ map ax_ticket (ap_evidence a)
     @ map ax_ticket (ap_ordinary a)"

definition tickets_ok :: "Appender \<Rightarrow> bool" where
  "tickets_ok a \<longleftrightarrow> distinct (tickets a) \<and> set (tickets a) = {0..<ap_next_ticket a}"

lemma submit_ok:
  "lane_ok a \<Longrightarrow> lane_ok (snd (submit cmd a))"
  by (auto simp: submit_def lane_ok_def in_service_def Let_def split: Lane.splits)

lemma tickets_ok_added:
  assumes "tickets_ok a" and "mset (tickets b) = add_mset (ap_next_ticket a) (mset (tickets a))"
    and "ap_next_ticket b = Suc (ap_next_ticket a)"
  shows "tickets_ok b"
proof -
  have "mset (tickets b) = mset (ap_next_ticket a # tickets a)"
    using assms(2) by simp
  from mset_eq_imp_distinct_iff [OF this] mset_eq_setD [OF this] show ?thesis
    using assms(1,3) by (simp add: tickets_ok_def atLeastLessThanSuc)
qed

lemma submit_tickets:
  assumes "tickets_ok a" shows "tickets_ok (snd (submit cmd a))"
proof -
  have "tickets_ok (a\<lparr>ap_ordinary := ap_ordinary a @ [\<lparr>ax_ticket = ap_next_ticket a, ax_command = c\<rparr>],
      ap_ordinary_admitted := n, ap_next_ticket := ap_next_ticket a + 1\<rparr>)"
    "tickets_ok (a\<lparr>ap_evidence := ap_evidence a @ [\<lparr>ax_ticket = ap_next_ticket a, ax_command = c\<rparr>],
      ap_evidence_admitted := n, ap_next_ticket := ap_next_ticket a + 1\<rparr>)" for c n
    by (rule tickets_ok_added [OF assms]; simp add: tickets_def current_tickets_def)+
  then show ?thesis
    using assms by (simp add: submit_def Let_def split: Lane.split)
qed

lemma worker_take_ok:
  "worker_take a = Some a' \<Longrightarrow> lane_ok a \<Longrightarrow> lane_ok a'"
  by (auto simp: worker_take_def lane_ok_def in_service_def split: option.splits list.splits)

lemma worker_take_tickets:
  "worker_take a = Some a' \<Longrightarrow> tickets a' = tickets a \<and> ap_next_ticket a' = ap_next_ticket a"
  by (auto simp: worker_take_def tickets_def current_tickets_def split: option.splits list.splits)

lemma worker_finish_ok:
  "worker_finish m token a = Some a' \<Longrightarrow> lane_ok a \<Longrightarrow> lane_ok a'"
  by (auto simp: worker_finish_def lane_ok_def in_service_def Let_def split: option.splits prod.splits Lane.splits)

lemma worker_finish_tickets:
  "worker_finish m token a = Some a' \<Longrightarrow> tickets a' = tickets a \<and> ap_next_ticket a' = ap_next_ticket a"
  by (auto simp: worker_finish_def tickets_def current_tickets_def Let_def
      split: option.splits prod.splits Lane.splits)

lemma close_ok: "lane_ok (close_admission a) = lane_ok a" "tickets_ok (close_admission a) = tickets_ok a"
  by (simp_all add: close_admission_def lane_ok_def in_service_def tickets_ok_def tickets_def current_tickets_def)

lemma reachable_accounting: "appender_reachable m token db a \<Longrightarrow> lane_ok a \<and> tickets_ok a"
proof (induction rule: appender_reachable.induct)
  case (created n k observer a)
  then show ?case
    by (auto simp: create_def lane_ok_def in_service_def tickets_ok_def tickets_def current_tickets_def split: if_splits)
next
  case (steps a a')
  from steps.hyps(2) steps.IH show ?case
  proof (cases rule: appender_step.cases)
    case (submits cmd r)
    then show ?thesis
      using steps.IH submit_ok [of a cmd] submit_tickets [of a cmd] by simp
  next
    case takes
    then show ?thesis
      using steps.IH worker_take_ok worker_take_tickets by (auto simp: tickets_ok_def)
  next
    case finishes
    then show ?thesis
      using steps.IH worker_finish_ok worker_finish_tickets by (auto simp: tickets_ok_def)
  qed (simp add: close_ok)
qed

section \<open>Serial execution\<close>

text \<open>
  The commands as admitted, by ticket, and their serial execution: the writer's database is the
  result of executing the finished commands one after another, and each result is the one its
  command returned in that serial order.
\<close>

fun run_all ::
  "Materializer \<Rightarrow> nat \<Rightarrow> StoreCommand list \<Rightarrow> Database \<Rightarrow> (StoreError, StoreValue) result list \<times> Database"
where
  "run_all m token [] db = ([], db)"
| "run_all m token (c # cs) db =
     (let (r, db1) = execute m token c db; (rs, db2) = run_all m token cs db1 in (r # rs, db2))"

lemma run_all_snoc:
  "run_all m token (cs @ [c]) db =
     (let (rs, db1) = run_all m token cs db; (r, db2) = execute m token c db1 in (rs @ [r], db2))"
  by (induction cs arbitrary: db) (simp_all add: case_prod_unfold Let_def)

definition waiting :: "Appender \<Rightarrow> Accepted list" where
  "waiting a = (case ap_current a of Some (_, x) \<Rightarrow> [x] | None \<Rightarrow> []) @ ap_evidence a @ ap_ordinary a"

lemma submit_frame:
  "ap_results (snd (submit cmd a)) = ap_results a" "ap_database (snd (submit cmd a)) = ap_database a"
  by (auto simp: submit_def Let_def split: Lane.splits)

lemma worker_take_frame:
  "worker_take a = Some a' \<Longrightarrow> ap_results a' = ap_results a \<and> ap_database a' = ap_database a"
  by (auto simp: worker_take_def split: option.splits list.splits)

lemma worker_finish_run:
  assumes "worker_finish m token a = Some a'"
  obtains x :: Accepted where "x \<in> set (waiting a)"
    and "ap_results a' = ap_results a @ [(ax_ticket x, fst (execute m token (ax_command x) (ap_database a)))]"
    and "ap_database a' = snd (execute m token (ax_command x) (ap_database a))"
proof (cases "ap_current a")
  case (Some y)
  then show ?thesis
    using assms that [of "snd y"]
    by (auto simp: worker_finish_def waiting_def Let_def case_prod_unfold split: Lane.splits)
qed (use assms in \<open>simp add: worker_finish_def\<close>)

lemma run_all_reachable: "store_reachable db \<Longrightarrow> store_reachable (snd (run_all m token cs db))"
proof (induction cs arbitrary: db)
  case (Cons c cs)
  show ?case
    using Cons.IH [OF store_reachable.step [OF Cons.prems, of m token c]] by (simp add: case_prod_unfold Let_def)
qed simp

section \<open>Traces\<close>

text \<open>
  The admitted commands in the order of their admission: the command of ticket \<open>t\<close> is the one at
  position \<open>t\<close>. The tickets of a lane are resolved in the order of their admission.
\<close>

inductive appender_trace ::
  "Materializer \<Rightarrow> nat \<Rightarrow> Database \<Rightarrow> StoreCommand list \<Rightarrow> Appender \<Rightarrow> bool" for m token db where
  created: "create n k observer db = Inr a \<Longrightarrow> appender_trace m token db [] a"
| admitted: "appender_trace m token db cs a \<Longrightarrow> submit cmd a = (Inr t, a') \<Longrightarrow>
    appender_trace m token db (cs @ [attach_observer (ap_observer a) cmd]) a'"
| rejected: "appender_trace m token db cs a \<Longrightarrow> submit cmd a = (Inl e, a') \<Longrightarrow> appender_trace m token db cs a'"
| takes: "appender_trace m token db cs a \<Longrightarrow> worker_take a = Some a' \<Longrightarrow> appender_trace m token db cs a'"
| finishes: "appender_trace m token db cs a \<Longrightarrow> worker_finish m token a = Some a' \<Longrightarrow>
    appender_trace m token db cs a'"
| closes: "appender_trace m token db cs a \<Longrightarrow> appender_trace m token db cs (close_admission a)"

lemma trace_reachable: "appender_trace m token db cs a \<Longrightarrow> appender_reachable m token db a"
  by (induction rule: appender_trace.induct) (auto intro: appender_reachable.intros appender_step.intros)

definition lane_tickets :: "StoreCommand list \<Rightarrow> Lane \<Rightarrow> nat list \<Rightarrow> nat list" where
  "lane_tickets cs lane ts = filter (\<lambda>t. command_lane (cs ! t) = lane) ts"

definition traced :: "StoreCommand list \<Rightarrow> Appender \<Rightarrow> bool" where
  "traced cs a \<longleftrightarrow>
     ap_next_ticket a = length cs
     \<and> (\<forall>x \<in> set (waiting a). ax_command x = cs ! ax_ticket x)
     \<and> (\<forall>x \<in> set (ap_evidence a). command_lane (ax_command x) = EVIDENCE)
     \<and> (\<forall>x \<in> set (ap_ordinary a). command_lane (ax_command x) = ORDINARY)
     \<and> (\<forall>lane. sorted (lane_tickets cs lane (tickets a)))"

lemma command_lane_attach [simp]: "command_lane (attach_observer observer cmd) = command_lane cmd"
  by (cases "(observer, cmd)" rule: attach_observer.cases) simp_all

lemma tickets_bound: "tickets_ok a \<Longrightarrow> t \<in> set (tickets a) \<Longrightarrow> t < ap_next_ticket a"
  by (simp add: tickets_ok_def)

lemma waiting_tickets: "x \<in> set (waiting a) \<Longrightarrow> ax_ticket x \<in> set (tickets a)"
  by (auto simp: waiting_def tickets_def current_tickets_def split: option.splits)

text \<open>Where an admitted command goes.\<close>

lemma submit_admitted:
  assumes "submit cmd a = (Inr t, a')"
  obtains (ordinary) x where "command_lane cmd = ORDINARY" and "t = ap_next_ticket a"
      and "x = \<lparr>ax_ticket = t, ax_command = attach_observer (ap_observer a) cmd\<rparr>"
      and "a' = a\<lparr>ap_ordinary := ap_ordinary a @ [x], ap_ordinary_admitted := ap_ordinary_admitted a + 1,
                  ap_next_ticket := Suc t\<rparr>"
  | (evidence) x where "command_lane cmd = EVIDENCE" and "t = ap_next_ticket a"
      and "x = \<lparr>ax_ticket = t, ax_command = attach_observer (ap_observer a) cmd\<rparr>"
      and "a' = a\<lparr>ap_evidence := ap_evidence a @ [x], ap_evidence_admitted := ap_evidence_admitted a + 1,
                  ap_next_ticket := Suc t\<rparr>"
  using assms by (auto simp: submit_def Let_def split: if_splits Lane.splits)

lemma lane_tickets_snoc:
  assumes "\<forall>t \<in> set ts. t < length cs"
  shows "lane_tickets (cs @ [c]) lane ts = lane_tickets cs lane ts"
  using assms unfolding lane_tickets_def by (intro filter_cong) (auto simp: nth_append)

lemma traced_submit:
  assumes tr: "traced cs a" and ok: "tickets_ok a" and s: "submit cmd a = (Inr t, a')"
  shows "traced (cs @ [attach_observer (ap_observer a) cmd]) a'"
proof -
  let ?c = "attach_observer (ap_observer a) cmd"
  have len: "ap_next_ticket a = length cs" using tr by (simp add: traced_def)
  have bound: "\<forall>t \<in> set (tickets a). t < length cs"
    using tickets_bound [OF ok] len by simp
  have old: "\<forall>x \<in> set (waiting a). ax_command x = (cs @ [?c]) ! ax_ticket x"
    using tr bound waiting_tickets [of _ a] by (simp add: traced_def nth_append)
  have lanes: "sorted (lane_tickets (cs @ [?c]) lane (tickets a) @ [length cs])" for lane
  proof -
    have "sorted (lane_tickets cs lane (tickets a) @ [length cs])"
      using tr bound by (auto simp: traced_def sorted_append lane_tickets_def less_imp_le)
    then show ?thesis
      using lane_tickets_snoc [OF bound] by simp
  qed
  have parts: "lane_tickets (cs @ [?c]) ORDINARY (map ax_ticket (ap_evidence a)) = []"
    "lane_tickets (cs @ [?c]) EVIDENCE (map ax_ticket (ap_ordinary a)) = []"
    using tr old by (auto simp: traced_def lane_tickets_def waiting_def filter_empty_conv)
  show ?thesis
    using s
  proof (cases rule: submit_admitted)
    case (ordinary x)
    have "lane_tickets (cs @ [?c]) lane (tickets a') = lane_tickets (cs @ [?c]) lane (tickets a)
        @ (if lane = ORDINARY then [length cs] else [])" for lane
      using ordinary len by (simp add: tickets_def current_tickets_def lane_tickets_def)
    then have "\<forall>lane. sorted (lane_tickets (cs @ [?c]) lane (tickets a'))"
      using lanes by (simp add: sorted_append)
    moreover have "set (waiting a') = insert x (set (waiting a))"
      using ordinary by (auto simp: waiting_def)
    ultimately show ?thesis
      using tr old ordinary len by (auto simp: traced_def)
  next
    case (evidence x)
    have "lane_tickets (cs @ [?c]) lane (tickets a') =
        (if lane = EVIDENCE then lane_tickets (cs @ [?c]) lane (tickets a) @ [length cs]
         else lane_tickets (cs @ [?c]) lane (tickets a))" for lane
      using evidence len parts by (cases lane) (simp_all add: tickets_def current_tickets_def lane_tickets_def)
    then have "\<forall>lane. sorted (lane_tickets (cs @ [?c]) lane (tickets a'))"
      using lanes by (simp add: sorted_append)
    moreover have "set (waiting a') = insert x (set (waiting a))"
      using evidence by (auto simp: waiting_def)
    ultimately show ?thesis
      using tr old evidence len by (auto simp: traced_def)
  qed
qed

lemma submit_rejected: "submit cmd a = (Inl e, a') \<Longrightarrow> a' = a"
  by (auto simp: submit_def Let_def split: if_splits Lane.splits)

lemma traced_take: "worker_take a = Some a' \<Longrightarrow> traced cs a \<Longrightarrow> traced cs a'"
  using worker_take_tickets [of a a']
  by (auto simp: traced_def worker_take_def waiting_def split: option.splits list.splits)

lemma traced_finish: "worker_finish m token a = Some a' \<Longrightarrow> traced cs a \<Longrightarrow> traced cs a'"
  using worker_finish_tickets [of m token a a']
  by (auto simp: traced_def worker_finish_def waiting_def Let_def case_prod_unfold split: option.splits Lane.splits)

lemma trace_traced: "appender_trace m token db cs a \<Longrightarrow> traced cs a"
proof (induction rule: appender_trace.induct)
  case (created n k observer a)
  then show ?case
    by (auto simp: create_def traced_def waiting_def tickets_def current_tickets_def lane_tickets_def split: if_splits)
next
  case (admitted cs a cmd t a')
  then show ?case
    using traced_submit reachable_accounting [OF trace_reachable] by blast
next
  case (closes cs a)
  then show ?case
    by (auto simp: traced_def close_admission_def waiting_def tickets_def current_tickets_def)
qed (use submit_rejected traced_take traced_finish in \<open>blast+\<close>)

definition serial :: "Materializer \<Rightarrow> nat \<Rightarrow> Database \<Rightarrow> StoreCommand list \<Rightarrow> Appender \<Rightarrow> bool" where
  "serial m token db cs a \<longleftrightarrow>
     run_all m token (map (\<lambda>t. cs ! t) (map fst (ap_results a))) db = (map snd (ap_results a), ap_database a)"

lemma serial_finish:
  assumes fin: "worker_finish m token a = Some a'" and tr: "traced cs a" and ser: "serial m token db cs a"
  shows "serial m token db cs a'"
  using fin
proof (cases rule: worker_finish_run)
  case (1 x)
  then have "ax_command x = cs ! ax_ticket x"
    using tr by (simp add: traced_def)
  then show ?thesis
    using ser 1 by (simp add: serial_def run_all_snoc case_prod_unfold Let_def)
qed

lemma trace_serial: "appender_trace m token db cs a \<Longrightarrow> serial m token db cs a"
proof (induction rule: appender_trace.induct)
  case (created n k observer a)
  then show ?case
    by (auto simp: create_def serial_def split: if_splits)
next
  case (admitted cs a cmd t a')
  have "\<forall>t \<in> set (map fst (ap_results a)). t < length cs"
    using reachable_accounting [OF trace_reachable [OF admitted.hyps(1)]] trace_traced [OF admitted.hyps(1)]
    using tickets_bound by (fastforce simp: traced_def tickets_def)
  then have "map (\<lambda>t. (cs @ [c]) ! t) (map fst (ap_results a)) = map (\<lambda>t. cs ! t) (map fst (ap_results a))" for c
    by (intro map_cong) (auto simp: nth_append)
  moreover have "ap_results a' = ap_results a" "ap_database a' = ap_database a"
    using submit_frame [of cmd a] admitted.hyps(2) by simp_all
  ultimately show ?case
    using admitted.IH unfolding serial_def by presburger
next
  case (takes cs a a')
  then show ?case using worker_take_frame by (simp add: serial_def)
next
  case (finishes cs a a')
  then show ?case using serial_finish trace_traced by blast
next
  case (closes cs a)
  then show ?case by (simp add: serial_def close_admission_def)
qed (use submit_rejected in blast)

section \<open>Draining\<close>

definition worker_run :: "Materializer \<Rightarrow> nat \<Rightarrow> Appender \<Rightarrow> Appender" where
  "worker_run m token a =
     (case worker_finish m token a of
        Some a' \<Rightarrow> a'
      | None \<Rightarrow> (case worker_take a of Some a' \<Rightarrow> a' | None \<Rightarrow> a))"

definition pending :: "Appender \<Rightarrow> nat" where
  "pending a = 2 * (length (ap_ordinary a) + length (ap_evidence a))
     + (if ap_current a = None then 0 else 1)"

lemma worker_run_progress: "\<not> drained a \<Longrightarrow> pending (worker_run m token a) < pending a"
  by (auto simp: worker_run_def worker_take_def worker_finish_def drained_def pending_def Let_def
      split: option.splits list.splits prod.splits Lane.splits)

lemma worker_run_drained: "drained a \<Longrightarrow> worker_run m token a = a"
  by (auto simp: worker_run_def worker_take_def worker_finish_def drained_def)

lemma worker_run_step: "worker_run m token a = a \<or> appender_step m token a (worker_run m token a)"
  by (auto simp: worker_run_def intro: appender_step.intros split: option.splits)

lemma pending_drained: "pending a = 0 \<longleftrightarrow> drained a"
  by (auto simp: pending_def drained_def)

lemma drain_terminates: "drained ((worker_run m token ^^ pending a) a)"
proof (induction "pending a" arbitrary: a rule: less_induct)
  case less
  show ?case
  proof (cases "drained a")
    case True
    then have "(worker_run m token ^^ n) a = a" for n
      by (induction n) (simp_all add: worker_run_drained)
    then show ?thesis using True by simp
  next
    case False
    let ?b = "worker_run m token a"
    have lt: "pending ?b < pending a"
      using False by (rule worker_run_progress)
    have drained: "drained ((worker_run m token ^^ pending ?b) ?b)"
      using lt by (rule less.hyps)
    then have stay: "(worker_run m token ^^ k) ((worker_run m token ^^ pending ?b) ?b)
        = (worker_run m token ^^ pending ?b) ?b" for k
      by (induction k) (simp_all add: worker_run_drained)
    obtain k where "pending a = Suc (k + pending ?b)"
      using lt less_imp_Suc_add by (metis add.commute)
    then have "(worker_run m token ^^ pending a) a
        = (worker_run m token ^^ k) ((worker_run m token ^^ pending ?b) ?b)"
      by (simp only: funpow_add funpow_Suc_right comp_apply)
    then show ?thesis
      using stay drained by simp
  qed
qed

lemma runs_reachable:
  "appender_reachable m token db a \<Longrightarrow> appender_reachable m token db ((worker_run m token ^^ n) a)"
proof (induction n)
  case (Suc n)
  then show ?case
    using worker_run_step [of m token "(worker_run m token ^^ n) a"] by (auto intro: appender_reachable.steps)
qed simp

lemma trace_runs:
  "appender_trace m token db cs a \<Longrightarrow> appender_trace m token db cs ((worker_run m token ^^ n) a)"
proof (induction n)
  case (Suc n)
  then have "appender_trace m token db cs ((worker_run m token ^^ n) a)" by simp
  then have "appender_trace m token db cs (worker_run m token ((worker_run m token ^^ n) a))"
    unfolding worker_run_def by (auto intro: appender_trace.takes appender_trace.finishes split: option.splits)
  then show ?case by simp
qed simp

lemma worker_run_next: "ap_next_ticket (worker_run m token a) = ap_next_ticket a"
  by (auto simp: worker_run_def worker_take_def worker_finish_def Let_def
      split: option.splits list.splits prod.splits Lane.splits)

lemma runs_next: "ap_next_ticket ((worker_run m token ^^ n) a) = ap_next_ticket a"
  by (induction n) (simp_all add: worker_run_next)

end
