(* ===== verification/Store_Properties.thy ===== *)
theory Store_Properties
  imports Event_Appender
begin

text \<open>
  The correctness statements of the physical store and of its single writer, with a sample store:
  one tenant whose deletion fence is installed and who publishes one record.
\<close>

section \<open>A sample store\<close>

definition wit_materializer :: Materializer where
  "wit_materializer = \<lparr>mt_writer_token = Some 7, mt_broker_ready = True, mt_has_gate = False,
     mt_checkpoint_enabled = False, mt_recovery_issuer = 0, mt_admission = None, mt_resolver = None,
     mt_record_pairs = [(''planning'', ''plan.v1'')], mt_derivative_contracts = [],
     mt_snapshot_bytes = \<lambda>tenant db. Inr []\<rparr>"

definition wit_fenced :: Database where
  "wit_fenced = snd (execute wit_materializer 7 (FenceAdvanceCommand ''t'' ''g1'' 5 False) (empty_database 0))"

definition wit_publication :: PhysicalPublicationCommand where
  "wit_publication = \<lparr>pc_tenant_id = ''t'', pc_operation_kind = ''planning.create'', pc_idempotency_key = ''k1'',
     pc_request_fingerprint = ''f1'', pc_expected_head = 0, pc_fence_generation = ''g1'',
     pc_expected_fence_frontier = 5, pc_minimum_fence_frontier = 0,
     pc_records = [\<lparr>ph_record_id = ''r1'', ph_owner = ''planning'', ph_schema_id = ''plan.v1'',
        ph_canonical_bytes = [1], ph_fingerprint = sha256_hex [1]\<rparr>],
     pc_expected_preimage_commitment = None, pc_fault = AFTER_COMMIT, pc_admission_guard = None,
     pc_decision_guard = None, pc_authority_checkpoint_guard = None\<rparr>"

lemma wit_fenced_eq: "wit_fenced = (empty_database 0)\<lparr>db_fences := [(''t'', (''g1'', 5))]\<rparr>"
  by (simp add: wit_fenced_def install_fence_def fence_transaction_def end_transaction_def wit_materializer_def
      require_writer_def require_ready_bundle_def empty_database_def Let_def)

lemma wit_reachable: "store_reachable wit_fenced"
  unfolding wit_fenced_def by (intro store_reachable.intros)

lemmas publish_eval = publish_def publish_preflight_def publish_transaction_def publish_admission_def
  publish_decision_def require_writer_def require_closed_delivery_work_publication_def
  require_ready_bundle_def require_fence_def find_publication_def insert_record_def insert_publication_def
  requires_owner_publication_resolver_def COMPLETE_ACCEPTANCE_V2_def DELIVERY_WORK_SCHEMA_def
  DELIVERY_WORK_OPERATIONS_def NATIVE_EXECUTION_PUBLICATION_OPERATIONS_def H1_ONLY_PAIRS_def
  delivery_work_id_def starts_with_def current_head_def empty_database_def Let_def

lemma wit_published:
  "publish wit_materializer 7 wit_publication None wit_fenced =
     (Inl (LostCommitAcknowledgement ''injected lost commit acknowledgement''), committed wit_publication wit_fenced)"
  by (simp add: wit_fenced_eq wit_publication_def wit_materializer_def publish_eval committed_def record_row_def)

lemma wit_committed_neq: "committed wit_publication wit_fenced \<noteq> wit_fenced"
proof
  assume "committed wit_publication wit_fenced = wit_fenced"
  then have "db_records (committed wit_publication wit_fenced) = db_records wit_fenced" by simp
  then show False by (simp add: committed_tables wit_publication_def)
qed

section \<open>Publication\<close>

text \<open>
  C13: A publication is all or nothing. Whatever guards, resolver and fault injection do, either the
  database is untouched and no commit is reported, or the command was new, the tenant's head was the
  expected one, all its records were new and exactly they, the publication row and the next head are
  durable; then the result is the commit or the lost acknowledgement of it.
\<close>

theorem publish_all_or_nothing:
  assumes "publish m token c cx db = (res, db')"
  shows "(db' = db \<and> (\<forall>v. res = Inr v \<longrightarrow> pu_disposition v \<noteq> D_COMMITTED))
     \<or> (db' = committed c db \<and> find_publication c db = None
        \<and> current_head (pc_tenant_id c) db = pc_expected_head c
        \<and> (\<forall>r \<in> set (pc_records c). (pc_tenant_id c, ph_record_id r) \<notin> record_key ` set (db_records db))
        \<and> current_head (pc_tenant_id c) db' = Suc (pc_expected_head c)
        \<and> (res = Inr \<lparr>pu_disposition = D_COMMITTED, pu_commit_sequence = Some (Suc (pc_expected_head c)),
                       pu_record_ids = map ph_record_id (pc_records c)\<rparr>
           \<or> res = Inl (LostCommitAcknowledgement ''injected lost commit acknowledgement'')))"
  using assms by (cases rule: publish_cases) (auto simp: current_head_committed)

theorem publish_all_or_nothing_witness:
  "current_head ''t'' (committed wit_publication wit_fenced) = 1"
  using publish_all_or_nothing [OF wit_published] wit_committed_neq by (simp add: wit_publication_def)

text \<open>
  C14: Publishing is idempotent for ever. Once a publication is durable, even when its acknowledgement
  was lost, and after any further history of executed commands, a command under the same tenant,
  operation kind and idempotency key commits nothing, whatever else it carries and whoever submits it.
  For the kinds that do not consult the owner resolver the answer is exact: the refusal of the checks
  before the transaction, if they refuse (the writer, the records, a deletion fence that has moved on),
  and otherwise the original position, as a replay with the stored identities when the request
  fingerprint is the original one and as a conflict when it is another. The stored identities are the
  lines of the joined column, which are the original identities when none contains a line feed. The
  checks do not refuse the original writer, records and fence while the tenant's fence has not moved.
\<close>

theorem publish_retry_exact:
  assumes "publish m token c cx db = (res, db')" and "db' \<noteq> db" and "later = execute_all steps db'"
    and "pc_tenant_id c' = pc_tenant_id c" and "pc_operation_kind c' = pc_operation_kind c"
    and "pc_idempotency_key c' = pc_idempotency_key c"
  shows "snd (publish m' token' c' cx' later) = later
    \<and> (\<not> requires_owner_publication_resolver (pc_operation_kind c) \<longrightarrow>
         fst (publish m' token' c' cx' later) =
           (case publish_preflight m' token' c' later of
              Inl e \<Rightarrow> Inl e
            | Inr _ \<Rightarrow> Inr (if pc_request_fingerprint c' = pc_request_fingerprint c
                then \<lparr>pu_disposition = D_REPLAY, pu_commit_sequence = Some (Suc (pc_expected_head c)),
                      pu_record_ids = split_lines (join_lines (map ph_record_id (pc_records c)))\<rparr>
                else \<lparr>pu_disposition = D_CONFLICT, pu_commit_sequence = Some (Suc (pc_expected_head c)),
                      pu_record_ids = []\<rparr>)))
    \<and> ((\<forall>r \<in> set (pc_records c). newline \<notin> set (ph_record_id r)) \<longrightarrow>
         split_lines (join_lines (map ph_record_id (pc_records c))) = map ph_record_id (pc_records c))
    \<and> (pc_records c' = pc_records c \<and> pc_fence_generation c' = pc_fence_generation c
       \<and> pc_expected_fence_frontier c' = pc_expected_fence_frontier c
       \<and> pc_minimum_fence_frontier c' = pc_minimum_fence_frontier c
       \<and> map_of (db_fences later) (pc_tenant_id c) = map_of (db_fences db) (pc_tenant_id c) \<longrightarrow>
         publish_preflight m token c' later = Inr True)"
proof -
  note row = publish_leaves_row [OF assms(1,2,4-6)]
  note found = find_publication_execute_all [OF row(1), of steps, folded assms(3)]
  have "split_lines (join_lines (map ph_record_id (pc_records c))) = map ph_record_id (pc_records c)"
    if "\<forall>r \<in> set (pc_records c). newline \<notin> set (ph_record_id r)"
    using that publish_preflight_records [OF row(2)] by (intro split_join_lines) auto
  then show ?thesis
    using publish_found_unchanged [OF found] publish_found_plain [OF found, of m' token' cx'] assms(4,5) row(2)
      publish_preflight_cong [of later c db c' m token]
    by (auto simp: publish_existing_def split: sum.splits)
qed

definition wit_retry :: PhysicalPublicationCommand where
  "wit_retry = wit_publication\<lparr>pc_fault := NO_FAULT, pc_expected_head := 9\<rparr>"

theorem publish_retry_exact_witness:
  "publish wit_materializer 7 wit_retry None
     (execute_all [(wit_materializer, 7, FenceAdvanceCommand ''u'' ''g1'' 1 False)] (committed wit_publication wit_fenced)) =
   (Inr \<lparr>pu_disposition = D_REPLAY, pu_commit_sequence = Some 1, pu_record_ids = [''r1'']\<rparr>,
    execute_all [(wit_materializer, 7, FenceAdvanceCommand ''u'' ''g1'' 1 False)] (committed wit_publication wit_fenced))"
proof -
  let ?steps = "[(wit_materializer, 7, FenceAdvanceCommand ''u'' ''g1'' 1 False)]"
  let ?later = "execute_all ?steps (committed wit_publication wit_fenced)"
  have "\<not> requires_owner_publication_resolver (pc_operation_kind wit_publication)"
    by (simp add: wit_publication_def publish_eval)
  moreover have "map_of (db_fences ?later) ''t'' = map_of (db_fences wit_fenced) ''t''"
    by (simp add: execute_all_def install_fence_def fence_transaction_def end_transaction_def wit_materializer_def
        require_writer_def require_ready_bundle_def committed_tables wit_fenced_eq empty_database_def Let_def)
  ultimately show ?thesis
    using publish_retry_exact [OF wit_published wit_committed_neq refl,
      where c' = wit_retry and steps = ?steps and m' = wit_materializer and token' = 7 and cx' = None]
    by (cases "publish wit_materializer 7 wit_retry None ?later")
      (simp add: wit_retry_def wit_publication_def newline_def)
qed

text \<open>
  C15: The ledger of every reachable store is consistent. Record and publication keys are unique, each
  tenant's publications carry the positions 1, 2, ... up to its head without gap or repetition, every
  publication row lists exactly the stored records of its position, in order, and no record lies
  beyond the head.
\<close>

theorem ledger_consistent:
  assumes "store_reachable db"
  shows "ledger_ok db"
  using assms by (rule reachable_ledger_ok)

theorem ledger_consistent_witness:
  "ledger_ok (snd (execute wit_materializer 7 (PublishCommand wit_publication None) wit_fenced))"
  by (rule ledger_consistent [OF store_reachable.step [OF wit_reachable]])

text \<open>
  The store only grows. Executing any command keeps every record and every publication row
  as a prefix; for a tenant that already has a deletion fence the frontier never decreases, and the
  fence changes only together with its generation.
\<close>

theorem execute_monotone:
  "(\<exists>rs ps. db_records (snd (execute m token cmd db)) = db_records db @ rs
      \<and> db_publications (snd (execute m token cmd db)) = db_publications db @ ps)
   \<and> fence_le (map_of (db_fences db) tenant) (map_of (db_fences (snd (execute m token cmd db))) tenant)"
  using execute_append_only execute_fence by blast

text \<open>
  C16: The evidence inbox is a forward-only journal. In a reachable store, executing any command
  keeps every inbox row at its place with its key, content and follow-up kind, and either leaves it
  unchanged or moves its state exactly one step along the registered chain of its kind; keys stay
  unique.
\<close>

theorem inbox_forward_only:
  assumes "store_reachable db"
  shows "inbox_grows (db_inbox db) (db_inbox (snd (execute m token cmd db)))
     \<and> distinct (map inbox_key (db_inbox (snd (execute m token cmd db))))"
  using execute_inbox [OF reachable_inbox [OF assms]] .

definition wit_ingress :: EvidenceIngressCommand where
  "wit_ingress = \<lparr>ei_tenant_id = ''t'', ei_source_id = ''s'', ei_evidence_id = ''e'', ei_fingerprint = ''f'',
     ei_canonical_bytes = [1], ei_followup_kind = POLL, ei_redelivery_supported = True, ei_fault = NO_FAULT\<rparr>"

theorem inbox_forward_only_witness:
  "distinct (map inbox_key (db_inbox (snd (execute wit_materializer 7 (IngressCommand wit_ingress) wit_fenced))))"
  using inbox_forward_only [OF wit_reachable] by blast

section \<open>The single writer\<close>

text \<open>
  C17: The writer is serial and first in, first out. Under every interleaving of submissions, worker
  steps and close, the database is what executing the resolved commands one after another yields, in
  the order of their resolution, every submitter gets the result of its own command in that serial
  execution, no command is executed twice, and within a lane commands are executed in the order in
  which they were admitted.
\<close>

theorem appender_serial:
  assumes "appender_trace m token db cs a"
  shows "run_all m token (map (\<lambda>t. cs ! t) (map fst (ap_results a))) db = (map snd (ap_results a), ap_database a)
     \<and> distinct (map fst (ap_results a)) \<and> set (map fst (ap_results a)) \<subseteq> {0..<length cs}
     \<and> sorted (lane_tickets cs lane (map fst (ap_results a)))"
proof -
  have "traced cs a" "tickets_ok a" "serial m token db cs a"
    using trace_traced trace_serial reachable_accounting trace_reachable assms by blast+
  then show ?thesis
    by (auto simp: traced_def tickets_ok_def serial_def tickets_def lane_tickets_def sorted_append)
qed

definition wit_appender :: Appender where
  "wit_appender = projr (create 2 1 None wit_fenced)"

lemma wit_appender_reachable: "appender_reachable wit_materializer 7 wit_fenced wit_appender"
proof -
  have "create 2 1 None wit_fenced = Inr wit_appender"
    by (simp add: wit_appender_def create_def)
  then show ?thesis by (rule appender_reachable.created)
qed

definition wit_submitted :: Appender where
  "wit_submitted = snd (submit (PublishCommand wit_publication None) wit_appender)"

lemma wit_submitted_reachable: "appender_reachable wit_materializer 7 wit_fenced wit_submitted"
  unfolding wit_submitted_def
  by (rule appender_reachable.steps [OF wit_appender_reachable], rule appender_step.submits) (rule prod.collapse [symmetric])

definition wit_finished :: Appender where
  "wit_finished = (worker_run wit_materializer 7 ^^ 2) wit_submitted"

lemma wit_trace: "appender_trace wit_materializer 7 wit_fenced [PublishCommand wit_publication None] wit_finished"
proof -
  have "create 2 1 None wit_fenced = Inr wit_appender"
    by (simp add: wit_appender_def create_def)
  then have "appender_trace wit_materializer 7 wit_fenced [] wit_appender"
    by (rule appender_trace.created)
  moreover have "submit (PublishCommand wit_publication None) wit_appender = (Inr 0, wit_submitted)"
    and "ap_observer wit_appender = None"
    by (simp_all add: wit_submitted_def wit_appender_def create_def submit_def Let_def)
  ultimately have "appender_trace wit_materializer 7 wit_fenced [PublishCommand wit_publication None] wit_submitted"
    using appender_trace.admitted by fastforce
  then show ?thesis
    unfolding wit_finished_def by (rule trace_runs)
qed

lemma wit_finished_results: "map fst (ap_results wit_finished) = [0]"
  by (simp add: wit_finished_def numeral_2_eq_2 wit_submitted_def wit_appender_def create_def submit_def worker_run_def
      worker_take_def worker_finish_def Let_def case_prod_unfold)

theorem appender_serial_witness:
  "fst (run_all wit_materializer 7 [PublishCommand wit_publication None] wit_fenced)
     = map snd (ap_results wit_finished)"
  using appender_serial [OF wit_trace] by (simp add: wit_finished_results)

text \<open>
  C18: Admission is bounded and loses nothing. In every reachable state each lane's admission counter
  is its queue length plus the command in service and never exceeds the capacity, and every issued
  ticket is in exactly one place: queued, in service or resolved.
\<close>

theorem appender_accounting:
  assumes "appender_reachable m token db a"
  shows "lane_ok a \<and> tickets_ok a"
  using reachable_accounting [OF assms] by blast

theorem appender_accounting_witness: "lane_ok wit_submitted \<and> tickets_ok wit_submitted"
  by (rule appender_accounting [OF wit_submitted_reachable])

text \<open>
  C19: Close drains. After admission is closed no submission is accepted, and running the worker a
  bounded number of times empties both lanes; then every ticket ever issued has exactly one result.
\<close>

theorem close_drains:
  assumes "appender_reachable m token db a"
  shows "fst (submit cmd (close_admission a)) = Inl AdmissionClosed
     \<and> drained ((worker_run m token ^^ pending a) a)
     \<and> distinct (map fst (ap_results ((worker_run m token ^^ pending a) a)))
     \<and> set (map fst (ap_results ((worker_run m token ^^ pending a) a))) = {0..<ap_next_ticket a}"
proof -
  let ?b = "(worker_run m token ^^ pending a) a"
  have drained: "drained ?b" by (rule drain_terminates)
  have "tickets_ok ?b"
    using reachable_accounting [OF runs_reachable [OF assms]] by blast
  then show ?thesis
    using drained by (simp add: submit_def close_admission_def drained_def tickets_ok_def tickets_def
        current_tickets_def runs_next Let_def)
qed

theorem close_drains_witness:
  "set (map fst (ap_results ((worker_run wit_materializer 7 ^^ pending wit_submitted) wit_submitted))) = {0}"
proof -
  have "ap_next_ticket wit_submitted = 1"
    by (simp add: wit_submitted_def wit_appender_def create_def submit_def Let_def)
  then show ?thesis
    using close_drains [OF wit_submitted_reachable] by (simp add: atLeast0LessThan lessThan_Suc)
qed

end
