(* ===== verification/Journal.thy ===== *)
theory Journal
  imports Py_Json Platform_Store
begin

text \<open>
  The evidence journal (\<open>capabilities/evidence_journal/journal.py\<close> with its contracts in
  \<open>commands.py\<close> and \<open>boundary.py\<close>). The owner decides over a snapshot of the tenant's records and
  publishes one record under the expected head; identities are authenticated anew at every use, so
  each operation takes the successive answers of the identity port as arguments. Serialisation and
  revalidation of the wire models are pydantic's and are parameters (\<open>JournalCodec\<close>).
\<close>

section \<open>Contracts\<close>

datatype LabelValue = UNRESTRICTED | ENDPOINT_RESTRICTED | DENY_ALL

record DisclosureLabel =
  dl_value :: LabelValue
  dl_allowed_endpoints :: "string list"

record SourceReference =
  so_tenant_id :: string
  so_owner :: string
  so_record_id :: string
  so_record_version :: string
  so_content_digest :: string
  so_label_head :: string
  so_label :: DisclosureLabel

record DisclosureEnvelope =
  de_tenant_id :: string
  de_content_digest :: string
  de_sources :: "SourceReference list"
  de_label :: DisclosureLabel
  de_policy_head :: string
  de_contour_head :: string
  de_deletion_fence_head :: string

datatype PayloadOutcome = COMPLETED | NOT_COMPLETED

record Payload =
  pl_date :: string
  pl_outcome :: PayloadOutcome

datatype ProvenanceSource = PRINCIPAL | MODEL | PROVIDER

record Provenance =
  pv_ingress_id :: string
  pv_ingress_version :: nat
  pv_utterance :: string
  pv_digest :: string
  pv_source :: ProvenanceSource

record Heads =
  he_journal :: nat
  he_policy :: string
  he_credential :: string
  he_session :: string
  he_contour :: string
  he_deletion :: string

text \<open>A subject is an occurrence: its identity.\<close>

record Claim =
  cm_subject :: string
  cm_payload :: Payload
  cm_provenance :: "Provenance list"
  cm_envelope :: DisclosureEnvelope

datatype JournalOperation = RECORD | CORRECT | RETRACT | CANDIDATE

record Display =
  ds_tenant :: string
  ds_principal :: string
  ds_candidate_id :: string
  ds_candidate_version :: nat
  ds_interpretation :: string
  ds_claim :: Claim
  ds_consequence :: string
  ds_heads :: Heads
  ds_predecessor :: "string option"
  ds_operation :: JournalOperation
  ds_digest :: string
  ds_supersedes :: "string list"

datatype JournalAction = RECORD_FACT | CORRECT_CLAIM | RETRACT_CLAIM | CONFIRM_CANDIDATE

record Command =
  jc_command_id :: string
  jc_tenant :: string
  jc_principal :: string
  jc_action :: JournalAction
  jc_claim :: Claim
  jc_heads :: Heads
  jc_predecessor :: "string option"
  jc_display :: "Display option"
  jc_supersedes :: "string list"

datatype JournalKind = FACT_CLAIM | CLAIM_DISPOSITION | CANDIDATE_EVIDENCE

record JournalRecord =
  jr_record_id :: string
  jr_tenant :: string
  jr_principal :: string
  jr_kind :: JournalKind
  jr_family :: string
  jr_predecessor :: "string option"
  jr_operation :: JournalOperation
  jr_claim :: Claim
  jr_display :: "Display option"
  jr_command_id :: string
  jr_fingerprint :: string
  jr_positive_proof :: "(string \<times> bool) list"

datatype JournalDisposition =
    J_COMMITTED | J_REPLAY | J_CONFLICT | J_STALE | J_DENIED | J_INDETERMINATE
  | J_NEEDS_CONFIRMATION | J_UNRESOLVED

record Outcome =
  oc_disposition :: JournalDisposition
  oc_record :: "JournalRecord option"
  oc_reason :: "string option"

record ConfirmationIngress =
  cf_confirmation_id :: string
  cf_binding_digest :: string

record TrustedIngress =
  ti_tenant :: string
  ti_principal :: string
  ti_heads :: Heads
  ti_items :: "Provenance list"
  ti_sources :: "SourceReference list"
  ti_endpoint :: string
  ti_confirmations :: "ConfirmationIngress list"

record Snapshot =
  sp_head :: nat
  sp_records :: "JournalRecord list"

record JournalCodec =
  dump_claim :: "Claim \<Rightarrow> json"
  dump_claim_content :: "Claim \<Rightarrow> json" \<comment> \<open>without the envelope\<close>
  dump_display_content :: "Display \<Rightarrow> json" \<comment> \<open>without the digest\<close>
  dump_journal_command :: "Command \<Rightarrow> json"
  dump_journal_record :: "JournalRecord \<Rightarrow> json"
  revalidate :: "Command \<Rightarrow> Command option"
  parse_journal_record :: "bytes \<Rightarrow> JournalRecord option"

definition journal_canonical_bytes :: "JournalCodec \<Rightarrow> JournalRecord \<Rightarrow> bytes" where
  "journal_canonical_bytes d r = canonical_json (dump_journal_record d r)"

definition claim_digest :: "JournalCodec \<Rightarrow> Claim \<Rightarrow> string" where
  "claim_digest d claim = json_digest (dump_claim_content d claim)"

definition display_digest :: "JournalCodec \<Rightarrow> Display \<Rightarrow> string" where
  "display_digest d display = json_digest (dump_display_content d display)"

definition command_digest :: "JournalCodec \<Rightarrow> Command \<Rightarrow> string" where
  "command_digest d command = json_digest (dump_journal_command d command)"

section \<open>The positive proof of a direct fact\<close>

definition PROOFS :: "string list" where
  "PROOFS =
     [''authenticated_speaker'', ''principal_endorser'', ''single_complete_span'', ''declarative'',
      ''affirmative'', ''actual'', ''not_question'', ''not_request'', ''not_command'', ''not_wish'',
      ''not_doubt'', ''not_conditional'', ''not_hypothetical'', ''not_quote_or_mention'',
      ''not_third_party'', ''not_correction_or_retraction'', ''not_negation'', ''exact_subject'',
      ''exact_payload'', ''exact_provenance'', ''no_inference_split_merge_or_consequence'']"

text \<open>The literal prefix of the pattern, in UTF-8.\<close>

definition utterance_prefix :: string where
  "utterance_prefix =
     map char_of [0xD0, 0xAF, 0x20, 0xD0, 0xB2, 0xD1, 0x8B, 0xD0, 0xBF, 0xD0, 0xBE, 0xD0, 0xBB, 0xD0, 0xBD,
       0xD0, 0xB8, 0xD0, 0xBB, 0x20 :: nat] @ ''occurrence:''"

definition id_char :: "char \<Rightarrow> bool" where
  "id_char c \<longleftrightarrow> (CHR ''A'' \<le> c \<and> c \<le> CHR ''Z'') \<or> (CHR ''a'' \<le> c \<and> c \<le> CHR ''z'')
     \<or> (CHR ''0'' \<le> c \<and> c \<le> CHR ''9'') \<or> c = CHR ''_'' \<or> c = CHR ''-''"

definition digit :: "char \<Rightarrow> bool" where
  "digit c \<longleftrightarrow> CHR ''0'' \<le> c \<and> c \<le> CHR ''9''"

fun date_shape :: "string \<Rightarrow> bool" where
  "date_shape [a, b, c, d, h1, e, f, h2, g, h] \<longleftrightarrow>
     digit a \<and> digit b \<and> digit c \<and> digit d \<and> h1 = CHR ''-'' \<and> digit e \<and> digit f
     \<and> h2 = CHR ''-'' \<and> digit g \<and> digit h"
| "date_shape _ \<longleftrightarrow> False"

text \<open>The match of the whole utterance: the identity and the date.\<close>

definition match_utterance :: "string \<Rightarrow> (string \<times> string) option" where
  "match_utterance s =
     (let n = length utterance_prefix;
          rest = drop n s;
          identity = takeWhile id_char rest;
          after = dropWhile id_char rest
      in if take n s = utterance_prefix \<and> identity \<noteq> [] \<and> length after = 12
            \<and> hd after = CHR '' '' \<and> date_shape (take 10 (tl after)) \<and> last after = CHR ''.''
         then Some (identity, take 10 (tl after)) else None)"

definition digits_nat :: "string \<Rightarrow> nat" where
  "digits_nat s = fold (\<lambda>c n. n * 10 + (of_char c - 48)) s 0"

definition leap_year :: "nat \<Rightarrow> bool" where
  "leap_year y \<longleftrightarrow> 4 dvd y \<and> (\<not> 100 dvd y \<or> 400 dvd y)"

definition days_in_month :: "nat \<Rightarrow> nat \<Rightarrow> nat" where
  "days_in_month y m =
     (if m = 2 then (if leap_year y then 29 else 28) else if m \<in> {4, 6, 9, 11} then 30 else 31)"

text \<open>\<open>date.fromisoformat\<close> on text of the shape YYYY-MM-DD: accepted exactly for calendar dates.\<close>

definition iso_date :: "string \<Rightarrow> bool" where
  "iso_date s \<longleftrightarrow>
     (let y = digits_nat (take 4 s); m = digits_nat (take 2 (drop 5 s)); d = digits_nat (drop 8 s)
      in 1 \<le> y \<and> 1 \<le> m \<and> m \<le> 12 \<and> 1 \<le> d \<and> d \<le> days_in_month y m)"

definition proof_valid :: "Claim \<Rightarrow> TrustedIngress \<Rightarrow> bool" where
  "proof_valid claim identity \<longleftrightarrow>
     (case cm_provenance claim of
        [item] \<Rightarrow>
          (case match_utterance (pv_utterance item) of
             None \<Rightarrow> False
           | Some (subject, day) \<Rightarrow>
               iso_date day
               \<and> item \<in> set (ti_items identity)
               \<and> pv_source item = PRINCIPAL
               \<and> pv_digest item = sha256_hex (encode (pv_utterance item))
               \<and> cm_subject claim = subject
               \<and> pl_date (cm_payload claim) = day
               \<and> pl_outcome (cm_payload claim) = COMPLETED)
      | _ \<Rightarrow> False)"

definition positive_proof :: "Claim \<Rightarrow> TrustedIngress \<Rightarrow> (string \<times> bool) list" where
  "positive_proof claim identity = map (\<lambda>predicate. (predicate, proof_valid claim identity)) PROOFS"

section \<open>Disclosure\<close>

definition envelope_bound :: "JournalCodec \<Rightarrow> Claim \<Rightarrow> TrustedIngress \<Rightarrow> bool" where
  "envelope_bound d claim identity \<longleftrightarrow>
     (let envelope = cm_envelope claim; sources = de_sources envelope in
      de_tenant_id envelope = ti_tenant identity
      \<and> de_content_digest envelope = claim_digest d claim
      \<and> de_policy_head envelope = he_policy (ti_heads identity)
      \<and> de_contour_head envelope = he_contour (ti_heads identity)
      \<and> de_deletion_fence_head envelope = he_deletion (ti_heads identity)
      \<and> cm_provenance claim \<noteq> [] \<and> sources \<noteq> []
      \<and> distinct (map so_record_id sources)
      \<and> sort_key so_record_id sources = sources
      \<and> pv_ingress_id ` set (cm_provenance claim) = so_record_id ` set sources)"

text \<open>One pass of the loop over the sources: \<open>None\<close> when it returns \<open>False\<close>; otherwise the
  intersection so far and whether a source denies everything.\<close>

definition join_source ::
  "Claim \<Rightarrow> TrustedIngress \<Rightarrow> SourceReference \<Rightarrow> string set option \<times> bool
     \<Rightarrow> (unit, string set option \<times> bool) result" where
  "join_source claim identity source acc =
     (let (allowed, denied) = acc;
          matching = filter (\<lambda>p. pv_ingress_id p = so_record_id source) (cm_provenance claim);
          label = so_label source;
          endpoints = dl_allowed_endpoints label
      in if source \<notin> set (ti_sources identity) \<or> so_tenant_id source \<noteq> ti_tenant identity
           then Inl ()
         else if length matching \<noteq> 1 \<or> hd matching \<notin> set (ti_items identity) then Inl ()
         else if so_content_digest source \<noteq> pv_digest (hd matching)
             \<or> so_record_version source \<noteq> nat_str (pv_ingress_version (hd matching)) then Inl ()
         else if sorted_set endpoints \<noteq> endpoints then Inl ()
         else case dl_value label of
             DENY_ALL \<Rightarrow> Inr (allowed, True)
           | ENDPOINT_RESTRICTED \<Rightarrow>
               Inr (Some (case allowed of None \<Rightarrow> set endpoints | Some a \<Rightarrow> a \<inter> set endpoints), denied)
           | UNRESTRICTED \<Rightarrow> if endpoints \<noteq> [] then Inl () else Inr (allowed, denied))"

definition expected_label :: "string set option \<Rightarrow> bool \<Rightarrow> LabelValue" where
  "expected_label allowed denied =
     (if denied \<or> allowed = Some {} then DENY_ALL
      else if allowed = None then UNRESTRICTED else ENDPOINT_RESTRICTED)"

definition disclosed :: "JournalCodec \<Rightarrow> Claim \<Rightarrow> TrustedIngress \<Rightarrow> bool" where
  "disclosed d claim identity \<longleftrightarrow>
     envelope_bound d claim identity
     \<and> (case rfold (join_source claim identity) (de_sources (cm_envelope claim)) (None, False) of
          Inl _ \<Rightarrow> False
        | Inr (allowed, denied) \<Rightarrow>
            let expected = expected_label allowed denied; label = de_label (cm_envelope claim) in
            dl_value label = expected
            \<and> dl_allowed_endpoints label
                = (case allowed of None \<Rightarrow> [] | Some a \<Rightarrow> sorted_list_of_set a)
            \<and> expected \<noteq> DENY_ALL
            \<and> (case allowed of None \<Rightarrow> True | Some a \<Rightarrow> ti_endpoint identity \<in> a))"

section \<open>Decisions over a snapshot\<close>

definition journal_identity :: "TrustedIngress option \<Rightarrow> Command \<Rightarrow> TrustedIngress option" where
  "journal_identity authenticated command =
     (case authenticated of
        None \<Rightarrow> None
      | Some identity \<Rightarrow>
          if (ti_tenant identity, ti_principal identity) \<noteq> (jc_tenant command, jc_principal command)
          then None else Some identity)"

definition journal_guard ::
  "JournalCodec \<Rightarrow> TrustedIngress option \<Rightarrow> Command \<Rightarrow> GuardVerdict option" where
  "journal_guard d authenticated command =
     (case journal_identity authenticated command of
        None \<Rightarrow> Some G_DENIED
      | Some identity \<Rightarrow>
          if ti_heads identity \<noteq> jc_heads command then Some G_STALE
          else if \<not> disclosed d (jc_claim command) identity then Some G_DENIED
          else if jc_action command = CONFIRM_CANDIDATE
              \<and> \<lparr>cf_confirmation_id = jc_command_id command, cf_binding_digest = command_digest d command\<rparr>
                \<notin> set (ti_confirmations identity)
            then Some G_DENIED
          else None)"

fun journal_verdict :: "GuardVerdict \<Rightarrow> JournalDisposition" where
  "journal_verdict G_DENIED = J_DENIED"
| "journal_verdict G_STALE = J_STALE"
| "journal_verdict G_INDETERMINATE = J_INDETERMINATE"

definition outcome :: "JournalDisposition \<Rightarrow> Outcome" where
  "outcome d = \<lparr>oc_disposition = d, oc_record = None, oc_reason = None\<rparr>"

definition journal_replay :: "JournalCodec \<Rightarrow> Snapshot \<Rightarrow> Command \<Rightarrow> Outcome option" where
  "journal_replay d snapshot command =
     (case find (\<lambda>r. jr_command_id r = jc_command_id command) (sp_records snapshot) of
        None \<Rightarrow> None
      | Some found \<Rightarrow>
          if jr_fingerprint found \<noteq> command_digest d command then Some (outcome J_CONFLICT)
          else Some \<lparr>oc_disposition = J_REPLAY, oc_record = Some found, oc_reason = None\<rparr>)"

definition journal_target :: "Snapshot \<Rightarrow> Command \<Rightarrow> JournalRecord option" where
  "journal_target snapshot command =
     (case find (\<lambda>r. Some (jr_record_id r) = jc_predecessor command \<and> jr_kind r \<noteq> CANDIDATE_EVIDENCE
                  \<and> jr_principal r = jc_principal command) (sp_records snapshot) of
        None \<Rightarrow> None
      | Some target \<Rightarrow>
          if list_ex (\<lambda>r. jr_predecessor r = Some (jr_record_id target) \<and> jr_kind r = CLAIM_DISPOSITION)
               (sp_records snapshot)
          then None else Some target)"

definition valid_supersession :: "Snapshot \<Rightarrow> Command \<Rightarrow> bool" where
  "valid_supersession snapshot command \<longleftrightarrow>
     sorted_set (jc_supersedes command) = jc_supersedes command
     \<and> set (jc_supersedes command) \<subseteq>
         jr_record_id ` set (filter (\<lambda>r. jr_kind r = CANDIDATE_EVIDENCE
             \<and> jr_principal r = jc_principal command
             \<and> cm_subject (jr_claim r) = cm_subject (jc_claim command)
             \<and> jr_predecessor r = jc_predecessor command) (sp_records snapshot))"

fun action_operation :: "JournalAction \<Rightarrow> JournalOperation" where
  "action_operation CORRECT_CLAIM = CORRECT"
| "action_operation RETRACT_CLAIM = RETRACT"
| "action_operation _ = RECORD"

fun operation_name :: "JournalOperation \<Rightarrow> string" where
  "operation_name RECORD = ''RECORD''"
| "operation_name CORRECT = ''CORRECT''"
| "operation_name RETRACT = ''RETRACT''"
| "operation_name CANDIDATE = ''CANDIDATE''"

text \<open>The common part of both operations: replay, guard and head.\<close>

definition admit_command ::
  "JournalCodec \<Rightarrow> TrustedIngress option \<Rightarrow> Command \<Rightarrow> Snapshot \<Rightarrow> Outcome option" where
  "admit_command d authenticated command snapshot =
     (case journal_replay d snapshot command of
        Some found \<Rightarrow> Some found
      | None \<Rightarrow>
          (case journal_guard d authenticated command of
             Some v \<Rightarrow> Some (outcome (journal_verdict v))
           | None \<Rightarrow> if sp_head snapshot \<noteq> he_journal (jc_heads command)
                     then Some (outcome J_STALE) else None))"

definition bad_supersession :: Outcome where
  "bad_supersession = \<lparr>oc_disposition = J_DENIED, oc_record = None,
     oc_reason = Some ''foreign or invalid candidate supersession''\<rparr>"

definition claim_proof :: "Command \<Rightarrow> TrustedIngress \<Rightarrow> (string \<times> bool) list" where
  "claim_proof command identity =
     (if jc_action command = RECORD_FACT then positive_proof (jc_claim command) identity else [])"

definition candidate_display ::
  "JournalCodec \<Rightarrow> Command \<Rightarrow> Snapshot \<Rightarrow> string \<Rightarrow> JournalOperation \<Rightarrow> Display" where
  "candidate_display d command snapshot candidate_id operation =
     (let display =
        \<lparr>ds_tenant = jc_tenant command, ds_principal = jc_principal command,
         ds_candidate_id = candidate_id, ds_candidate_version = 1,
         ds_interpretation = dumps (dump_claim d (jc_claim command)),
         ds_claim = jc_claim command,
         ds_consequence = ''Journal '' @ operation_name operation @ ''; Plan unchanged'',
         ds_heads = (jc_heads command)\<lparr>he_journal := sp_head snapshot + 1\<rparr>,
         ds_predecessor = jc_predecessor command, ds_operation = operation, ds_digest = [],
         ds_supersedes = jc_supersedes command\<rparr>
      in display\<lparr>ds_digest := display_digest d display\<rparr>)"

definition prepare_decision ::
  "JournalCodec \<Rightarrow> TrustedIngress \<Rightarrow> TrustedIngress option \<Rightarrow> Command \<Rightarrow> Snapshot
     \<Rightarrow> (Outcome, JournalRecord) result" where
  "prepare_decision d identity authenticated command snapshot =
     (case admit_command d authenticated command snapshot of
        Some found \<Rightarrow> Inl found
      | None \<Rightarrow>
          if jc_display command \<noteq> None \<or> jc_action command = CONFIRM_CANDIDATE
            then Inl (outcome J_DENIED)
          else if \<not> valid_supersession snapshot command then Inl bad_supersession
          else
            let target = journal_target snapshot command in
            if jc_action command \<noteq> RECORD_FACT \<and> target = None then Inl (outcome J_STALE)
            else if target \<noteq> None \<and> cm_subject (jr_claim (the target)) \<noteq> cm_subject (jc_claim command)
              then Inl \<lparr>oc_disposition = J_DENIED, oc_record = None,
                        oc_reason = Some ''correction cannot replace subject''\<rparr>
            else
              let operation = action_operation (jc_action command);
                  candidate_id = ''journal:candidate:'' @
                    json_digest (JArr [JStr (jc_tenant command), JStr (jc_command_id command)])
              in Inr \<lparr>jr_record_id = candidate_id, jr_tenant = jc_tenant command,
                      jr_principal = jc_principal command, jr_kind = CANDIDATE_EVIDENCE,
                      jr_family = (case target of Some t \<Rightarrow> jr_family t | None \<Rightarrow> candidate_id),
                      jr_predecessor = jc_predecessor command, jr_operation = CANDIDATE,
                      jr_claim = jc_claim command,
                      jr_display = Some (candidate_display d command snapshot candidate_id operation),
                      jr_command_id = jc_command_id command,
                      jr_fingerprint = command_digest d command,
                      jr_positive_proof = claim_proof command identity\<rparr>)"

text \<open>The candidates a principal's accepted records have used up, directly or by supersession.\<close>

definition consumed_candidates :: "string \<Rightarrow> JournalRecord list \<Rightarrow> string set" where
  "consumed_candidates speaker records =
     \<Union> (set (map (\<lambda>r. case jr_display r of
              None \<Rightarrow> {}
            | Some display \<Rightarrow> insert (ds_candidate_id display) (set (ds_supersedes display)))
          (filter (\<lambda>r. jr_principal r = speaker \<and> jr_kind r \<noteq> CANDIDATE_EVIDENCE) records)))"

text \<open>The confirmation of a displayed candidate: the operation it stands for.\<close>

definition confirm_display ::
  "JournalCodec \<Rightarrow> Command \<Rightarrow> Snapshot \<Rightarrow> (Outcome, JournalOperation) result" where
  "confirm_display d command snapshot =
     (case jc_display command of
        None \<Rightarrow> Inl (outcome J_DENIED)
      | Some display \<Rightarrow>
          if ds_digest display \<noteq> display_digest d display then Inl (outcome J_DENIED)
          else
            (case find (\<lambda>r. jr_record_id r = ds_candidate_id display \<and> jr_kind r = CANDIDATE_EVIDENCE)
                   (sp_records snapshot) of
               None \<Rightarrow> Inl (outcome J_STALE)
             | Some candidate \<Rightarrow>
                 if jr_principal candidate \<noteq> jc_principal command
                    \<or> jr_display candidate \<noteq> Some display
                    \<or> ds_claim display \<noteq> jc_claim command
                    \<or> ds_heads display \<noteq> jc_heads command
                    \<or> ds_predecessor display \<noteq> jc_predecessor command
                    \<or> (ds_tenant display, ds_principal display) \<noteq> (jc_tenant command, jc_principal command)
                   then Inl (outcome J_STALE)
                 else
                   let rivals = filter (\<lambda>r. jr_kind r = CANDIDATE_EVIDENCE
                         \<and> jr_principal r = jc_principal command
                         \<and> jr_predecessor r = jr_predecessor candidate
                         \<and> cm_subject (jr_claim r) = cm_subject (jr_claim candidate)
                         \<and> jr_record_id r \<notin> consumed_candidates (jc_principal command) (sp_records snapshot))
                         (sp_records snapshot);
                       other_ids = set (map jr_record_id rivals) - {jr_record_id candidate}
                   in if sorted_set (ds_supersedes display) \<noteq> ds_supersedes display
                         \<or> jc_supersedes command \<noteq> ds_supersedes display
                         \<or> set (ds_supersedes display) \<noteq> other_ids
                      then Inl (outcome J_UNRESOLVED)
                      else Inr (ds_operation display)))"

definition execute_operation ::
  "JournalCodec \<Rightarrow> TrustedIngress \<Rightarrow> Command \<Rightarrow> Snapshot \<Rightarrow> (Outcome, JournalOperation) result" where
  "execute_operation d identity command snapshot =
     (if jc_action command = RECORD_FACT \<and> jc_display command = None \<and> jc_predecessor command = None
        then (if list_all snd (positive_proof (jc_claim command) identity)
              then Inr RECORD else Inl (outcome J_NEEDS_CONFIRMATION))
      else if jc_action command = CONFIRM_CANDIDATE then confirm_display d command snapshot
      else Inl (outcome J_NEEDS_CONFIRMATION))"

definition execute_decision ::
  "JournalCodec \<Rightarrow> TrustedIngress \<Rightarrow> TrustedIngress option \<Rightarrow> Command \<Rightarrow> Snapshot
     \<Rightarrow> (Outcome, JournalRecord) result" where
  "execute_decision d identity authenticated command snapshot =
     (case admit_command d authenticated command snapshot of
        Some found \<Rightarrow> Inl found
      | None \<Rightarrow>
          if \<not> valid_supersession snapshot command then Inl bad_supersession
          else
            rbind (execute_operation d identity command snapshot) (\<lambda>operation.
            let target = journal_target snapshot command in
            rbind (if operation \<noteq> RECORD
                   then (case target of
                           None \<Rightarrow> Inl (outcome J_STALE)
                         | Some t \<Rightarrow> if cm_subject (jr_claim t) \<noteq> cm_subject (jc_claim command)
                                    then Inl (outcome J_DENIED) else Inr ())
                   else if jc_predecessor command \<noteq> None then Inl (outcome J_DENIED)
                   else Inr ()) (\<lambda>_.
            let record_id = ''journal:claim:'' @
                  json_digest (JArr [JStr (jc_tenant command), JStr (jc_command_id command)])
            in Inr \<lparr>jr_record_id = record_id, jr_tenant = jc_tenant command,
                    jr_principal = jc_principal command,
                    jr_kind = (if operation = RECORD then FACT_CLAIM else CLAIM_DISPOSITION),
                    jr_family = (case target of Some t \<Rightarrow> jr_family t | None \<Rightarrow> record_id),
                    jr_predecessor = jc_predecessor command, jr_operation = operation,
                    jr_claim = jc_claim command, jr_display = jc_display command,
                    jr_command_id = jc_command_id command,
                    jr_fingerprint = command_digest d command,
                    jr_positive_proof = claim_proof command identity\<rparr>)))"

section \<open>The operations over a persistence port\<close>

text \<open>\<open>JournalPersistence\<close>: its snapshot and publish, over a store of any type.\<close>

type_synonym ('e, 'st) journal_snapshot = "'st \<Rightarrow> string \<Rightarrow> ('e, Snapshot) result"
type_synonym ('e, 'st) journal_publish =
  "JournalRecord \<Rightarrow> nat \<Rightarrow> GuardVerdict option \<Rightarrow> 'st \<Rightarrow> ('e, JournalDisposition) result \<times> 'st"

definition journal_submit ::
  "('e, 'st) journal_publish \<Rightarrow> JournalRecord \<Rightarrow> nat \<Rightarrow> GuardVerdict option \<Rightarrow> 'st
     \<Rightarrow> ('e, Outcome) result \<times> 'st" where
  "journal_submit pub record head guard st =
     (case pub record head guard st of
        (Inl e, st') \<Rightarrow> (Inl e, st')
      | (Inr d, st') \<Rightarrow>
          (Inr \<lparr>oc_disposition = d,
                oc_record = (if d \<in> {J_COMMITTED, J_REPLAY} then Some record else None),
                oc_reason = None\<rparr>, st'))"

definition invalid_command :: Outcome where
  "invalid_command = \<lparr>oc_disposition = J_DENIED, oc_record = None,
     oc_reason = Some ''invalid command schema''\<rparr>"

text \<open>
  The shared frame of \<open>prepare\<close> and \<open>execute\<close>: the command is revalidated, the peer authenticated
  (\<open>auth1\<close>), the snapshot read from the store as it was then (\<open>st0\<close>), the decision taken with a second
  authentication (\<open>auth2\<close>), and the record published to the store as it is now (\<open>st\<close>), where the
  guard authenticates a third time (\<open>auth3\<close>).
\<close>

definition journal_run ::
  "(JournalCodec \<Rightarrow> TrustedIngress \<Rightarrow> TrustedIngress option \<Rightarrow> Command \<Rightarrow> Snapshot
      \<Rightarrow> (Outcome, JournalRecord) result)
   \<Rightarrow> JournalCodec \<Rightarrow> ('e, 'st) journal_snapshot \<Rightarrow> ('e, 'st) journal_publish
   \<Rightarrow> TrustedIngress option \<Rightarrow> TrustedIngress option \<Rightarrow> TrustedIngress option
   \<Rightarrow> Command \<Rightarrow> 'st \<Rightarrow> 'st \<Rightarrow> ('e, Outcome) result \<times> 'st" where
  "journal_run decide d snap pub auth1 auth2 auth3 command st0 st =
     (case revalidate d command of
        None \<Rightarrow> (Inr invalid_command, st)
      | Some c \<Rightarrow>
          (case journal_identity auth1 c of
             None \<Rightarrow> (Inr (outcome J_DENIED), st)
           | Some identity \<Rightarrow>
               if \<not> disclosed d (jc_claim c) identity then (Inr (outcome J_DENIED), st)
               else case snap st0 (jc_tenant c) of
                 Inl e \<Rightarrow> (Inl e, st)
               | Inr s \<Rightarrow>
                   (case decide d identity auth2 c s of
                      Inl early \<Rightarrow> (Inr early, st)
                    | Inr record \<Rightarrow>
                        journal_submit pub record (sp_head s) (journal_guard d auth3 c) st)))"

definition journal_prepare ::
  "JournalCodec \<Rightarrow> ('e, 'st) journal_snapshot \<Rightarrow> ('e, 'st) journal_publish
   \<Rightarrow> TrustedIngress option \<Rightarrow> TrustedIngress option \<Rightarrow> TrustedIngress option
   \<Rightarrow> Command \<Rightarrow> 'st \<Rightarrow> 'st \<Rightarrow> ('e, Outcome) result \<times> 'st" where
  "journal_prepare = journal_run prepare_decision"

definition journal_execute ::
  "JournalCodec \<Rightarrow> ('e, 'st) journal_snapshot \<Rightarrow> ('e, 'st) journal_publish
   \<Rightarrow> TrustedIngress option \<Rightarrow> TrustedIngress option \<Rightarrow> TrustedIngress option
   \<Rightarrow> Command \<Rightarrow> 'st \<Rightarrow> 'st \<Rightarrow> ('e, Outcome) result \<times> 'st" where
  "journal_execute = journal_run execute_decision"

section \<open>Lineage\<close>

text \<open>One record of the inner loop, and one pass of it over the records in order.\<close>

definition chosen_step :: "JournalRecord \<Rightarrow> string set \<Rightarrow> string set" where
  "chosen_step r chosen =
     (case jr_display r of
        Some display \<Rightarrow>
          if jr_record_id r \<in> chosen
          then insert (ds_candidate_id display) chosen \<union> set (ds_supersedes display) else chosen
      | None \<Rightarrow> chosen)"

definition chosen_pass :: "JournalRecord list \<Rightarrow> string set \<Rightarrow> string set" where
  "chosen_pass records chosen = fold chosen_step records chosen"

definition mentioned :: "JournalRecord list \<Rightarrow> string set" where
  "mentioned records = \<Union> (set (map (\<lambda>r. case jr_display r of
       Some display \<Rightarrow> insert (ds_candidate_id display) (set (ds_supersedes display)) | None \<Rightarrow> {}) records))"

lemma chosen_step_bounds:
  "chosen \<subseteq> chosen_step r chosen" "r \<in> set records \<Longrightarrow> chosen_step r chosen \<subseteq> chosen \<union> mentioned records"
  by (auto simp: chosen_step_def mentioned_def split: option.splits)

lemma fold_chosen_bounds:
  "set rs \<subseteq> set records \<Longrightarrow>
     chosen \<subseteq> fold chosen_step rs chosen \<and> fold chosen_step rs chosen \<subseteq> chosen \<union> mentioned records"
proof (induction rs arbitrary: chosen)
  case (Cons r rs)
  have "chosen_step r chosen \<subseteq> fold chosen_step (r # rs) chosen"
    and "fold chosen_step (r # rs) chosen \<subseteq> chosen_step r chosen \<union> mentioned records"
    using Cons.IH [of "chosen_step r chosen"] Cons.prems by simp_all
  moreover have "chosen \<subseteq> chosen_step r chosen" "chosen_step r chosen \<subseteq> chosen \<union> mentioned records"
    using chosen_step_bounds Cons.prems by simp_all
  ultimately show ?case by blast
qed simp

lemma chosen_pass_bounds:
  "chosen \<subseteq> chosen_pass records chosen" "chosen_pass records chosen \<subseteq> chosen \<union> mentioned records"
  using fold_chosen_bounds [of records records chosen] by (simp_all add: chosen_pass_def)

lemma finite_mentioned [simp]: "finite (mentioned records)"
  by (auto simp: mentioned_def split: option.splits)

function closure_loop :: "JournalRecord list \<Rightarrow> string set \<Rightarrow> string set" where
  "closure_loop records chosen =
     (let grown = chosen_pass records chosen
      in if grown = chosen then chosen else closure_loop records grown)"
  by pat_completeness auto
termination
proof (relation "measure (\<lambda>(records, chosen). card (mentioned records - chosen))")
  fix records chosen grown
  assume g: "grown = chosen_pass records chosen" and ne: "grown \<noteq> chosen"
  have "mentioned records - grown \<subset> mentioned records - chosen"
    using chosen_pass_bounds [where records = records and chosen = chosen] ne unfolding g by blast
  then show "((records, grown), records, chosen) \<in> measure (\<lambda>(records, chosen). card (mentioned records - chosen))"
    by (simp add: psubset_card_mono)
qed simp

declare closure_loop.simps [simp del]

definition closure :: "JournalRecord list \<Rightarrow> string \<Rightarrow> JournalRecord list" where
  "closure records family =
     (let chosen = closure_loop records
        (set (map jr_record_id (filter (\<lambda>r. jr_family r = family) records)))
      in filter (\<lambda>r. jr_record_id r \<in> chosen) records)"

definition readable :: "JournalCodec \<Rightarrow> TrustedIngress \<Rightarrow> JournalRecord list \<Rightarrow> bool" where
  "readable d identity records \<longleftrightarrow>
     list_all (\<lambda>r. jr_principal r = ti_principal identity \<and> disclosed d (jr_claim r) identity) records"

definition lineage ::
  "JournalCodec \<Rightarrow> TrustedIngress option \<Rightarrow> TrustedIngress option \<Rightarrow> string \<Rightarrow> string \<Rightarrow> Snapshot
     \<Rightarrow> JournalRecord list" where
  "lineage d auth1 auth2 tenant family snapshot =
     (case auth1 of
        None \<Rightarrow> []
      | Some identity \<Rightarrow>
          if ti_tenant identity \<noteq> tenant then []
          else
            let records = closure (sp_records snapshot) family in
            if \<not> readable d identity records then []
            else if auth2 \<noteq> Some identity then []
            else records)"

section \<open>Projection\<close>

record JournalQuery =
  jq_tenant :: string
  jq_expected_heads :: Heads
  jq_max_rows :: nat
  jq_after_id :: "string option"
  jq_subject :: "string option"

datatype RowStatus =
    USER_REPORTED | PROVIDER_OBSERVED | USER_CONFIRMED_PROVIDER_OBSERVATION
  | DISPUTED | CORRECTED | RETRACTED | UNKNOWN

record JournalRow =
  jw_record :: JournalRecord
  jw_status :: RowStatus
  jw_current_positive :: bool
  jw_lineage :: "JournalRecord list"

datatype ViewDisposition = V_CURRENT | V_DENIED | V_STALE | V_INDETERMINATE

record JournalView =
  vw_disposition :: ViewDisposition
  vw_head :: nat
  vw_rows :: "JournalRow list"
  vw_next_cursor :: "string option"

definition empty_view :: "ViewDisposition \<Rightarrow> nat \<Rightarrow> JournalView" where
  "empty_view d head = \<lparr>vw_disposition = d, vw_head = head, vw_rows = [], vw_next_cursor = None\<rparr>"

text \<open>The declared constraint of \<open>max_rows\<close>, which the revalidation of the query enforces.\<close>

definition valid_query :: "JournalQuery \<Rightarrow> bool" where
  "valid_query q \<longleftrightarrow> 0 < jq_max_rows q \<and> jq_max_rows q \<le> 1000"

definition superseded_claims :: "string \<Rightarrow> JournalRecord list \<Rightarrow> string option set" where
  "superseded_claims speaker records =
     jr_predecessor ` set (filter (\<lambda>r. jr_principal r = speaker \<and> jr_kind r = CLAIM_DISPOSITION) records)"

definition current_records :: "JournalQuery \<Rightarrow> string \<Rightarrow> JournalRecord list \<Rightarrow> JournalRecord list" where
  "current_records q speaker records =
     sort_key jr_record_id (filter (\<lambda>r. jr_principal r = speaker
        \<and> Some (jr_record_id r) \<notin> superseded_claims speaker records
        \<and> jr_record_id r \<notin> consumed_candidates speaker records
        \<and> (jr_kind r \<noteq> CANDIDATE_EVIDENCE \<or> jr_predecessor r \<notin> superseded_claims speaker records)
        \<and> (jq_subject q = None \<or> jq_subject q = Some (cm_subject (jr_claim r)))) records)"

definition row_status :: "JournalRecord list \<Rightarrow> JournalRecord \<Rightarrow> RowStatus" where
  "row_status current r =
     (let rivals = filter (\<lambda>x. cm_subject (jr_claim x) = cm_subject (jr_claim r)
            \<and> (jr_kind x = CANDIDATE_EVIDENCE) = (jr_kind r = CANDIDATE_EVIDENCE)) current;
          provided = list_ex (\<lambda>p. pv_source p = PROVIDER) (cm_provenance (jr_claim r))
      in if 1 < length rivals then DISPUTED
         else if jr_operation r = RETRACT then RETRACTED
         else if jr_operation r = CORRECT then CORRECTED
         else if jr_kind r = CANDIDATE_EVIDENCE
           then (if provided then PROVIDER_OBSERVED else UNKNOWN)
         else if provided then USER_CONFIRMED_PROVIDER_OBSERVATION
         else USER_REPORTED)"

definition lineage_total :: "JournalRow list \<Rightarrow> nat" where
  "lineage_total rows = sum_list (map (length \<circ> jw_lineage) rows)"

definition project_row ::
  "JournalCodec \<Rightarrow> TrustedIngress \<Rightarrow> JournalQuery \<Rightarrow> JournalRecord list \<Rightarrow> JournalRecord list
     \<Rightarrow> JournalRecord \<Rightarrow> JournalRow list \<Rightarrow> (ViewDisposition, JournalRow list) result" where
  "project_row d identity q records current r rows =
     (let members = closure records (jr_family r); status = row_status current r in
      if jq_max_rows q < lineage_total rows + length members then Inl V_INDETERMINATE
      else if \<not> readable d identity members then Inl V_DENIED
      else Inr (rows @ [\<lparr>jw_record = r, jw_status = status,
             jw_current_positive = (jr_kind r \<noteq> CANDIDATE_EVIDENCE \<and> jr_operation r \<noteq> RETRACT
               \<and> status \<noteq> DISPUTED),
             jw_lineage = members\<rparr>]))"

text \<open>\<open>auth2\<close> and \<open>head2\<close> are the identity and the head read again before release.\<close>

definition project ::
  "JournalCodec \<Rightarrow> TrustedIngress option \<Rightarrow> TrustedIngress option \<Rightarrow> JournalQuery \<Rightarrow> Snapshot \<Rightarrow> nat
     \<Rightarrow> JournalView" where
  "project d auth1 auth2 q snapshot head2 =
     (if \<not> valid_query q then empty_view V_DENIED 0
      else case auth1 of
        None \<Rightarrow> empty_view V_DENIED 0
      | Some identity \<Rightarrow>
          if ti_tenant identity \<noteq> jq_tenant q then empty_view V_DENIED 0
          else
            let head = sp_head snapshot; records = sp_records snapshot in
            if ti_heads identity \<noteq> jq_expected_heads q \<or> head \<noteq> he_journal (jq_expected_heads q)
              then empty_view V_STALE head
            else
              let current = current_records q (ti_principal identity) records;
                  unknown_cursor = (case jq_after_id q of
                      None \<Rightarrow> False | Some i \<Rightarrow> i \<notin> set (map jr_record_id current));
                  selected = (case jq_after_id q of
                      None \<Rightarrow> current | Some i \<Rightarrow> filter (\<lambda>r. i < jr_record_id r) current)
              in if unknown_cursor then empty_view V_INDETERMINATE head
                 else case rfold (project_row d identity q records current)
                        (take (jq_max_rows q) selected) [] of
                   Inl disposition \<Rightarrow> empty_view disposition head
                 | Inr rows \<Rightarrow>
                     if auth2 \<noteq> Some identity \<or> head2 \<noteq> head then empty_view V_STALE head
                     else \<lparr>vw_disposition = V_CURRENT, vw_head = head, vw_rows = rows,
                           vw_next_cursor =
                             (if rows \<noteq> [] \<and> length rows < length selected
                              then Some (jr_record_id (jw_record (last rows))) else None)\<rparr>)"

end
