(* ===== verification/Journal_History.thy ===== *)
theory Journal_History
  imports Journal "HOL-Library.Sublist"
begin

text \<open>
  What a journal satisfies over time. The persistence port is an interface: \<open>journal_store\<close> states
  what the owner relies on (a commit happens only at the expected head and appends exactly the
  record; anything else leaves every snapshot alone). Clients decide on snapshots they observed
  earlier, other owners commit in between, and the invariant of claim lineages is proved once for
  every store that satisfies the interface.
\<close>

section \<open>What a decision guarantees\<close>

definition disposes :: "JournalRecord list \<Rightarrow> JournalRecord \<Rightarrow> bool" where
  "disposes earlier r \<longleftrightarrow>
     (\<exists>t \<in> set earlier. jr_predecessor r = Some (jr_record_id t) \<and> jr_kind t \<noteq> CANDIDATE_EVIDENCE
        \<and> jr_principal t = jr_principal r \<and> cm_subject (jr_claim t) = cm_subject (jr_claim r)
        \<and> jr_family t = jr_family r)
     \<and> (\<forall>x \<in> set earlier. jr_kind x = CLAIM_DISPOSITION \<longrightarrow> jr_predecessor x \<noteq> jr_predecessor r)"

definition admissible :: "JournalRecord list \<Rightarrow> JournalRecord \<Rightarrow> bool" where
  "admissible earlier r \<longleftrightarrow>
     jr_command_id r \<notin> jr_command_id ` set earlier
     \<and> (jr_kind r = CLAIM_DISPOSITION \<longrightarrow> disposes earlier r)
     \<and> (jr_kind r = FACT_CLAIM \<longrightarrow> jr_predecessor r = None \<and> jr_family r = jr_record_id r)"

lemma journal_target_Some:
  assumes "journal_target s c = Some t"
  shows "t \<in> set (sp_records s)" and "jc_predecessor c = Some (jr_record_id t)"
    and "jr_kind t \<noteq> CANDIDATE_EVIDENCE" and "jr_principal t = jc_principal c"
    and "\<forall>x \<in> set (sp_records s). jr_kind x = CLAIM_DISPOSITION \<longrightarrow> jr_predecessor x \<noteq> Some (jr_record_id t)"
  using assms
  by (auto simp: journal_target_def list_ex_iff split: option.splits if_splits dest!: find_Some_set)

lemma admit_command_fresh:
  "admit_command d a c s = None \<Longrightarrow> jc_command_id c \<notin> jr_command_id ` set (sp_records s)"
  by (auto simp: admit_command_def journal_replay_def find_None_iff split: option.splits if_splits)

lemma admit_command_current:
  "admit_command d a c s = None \<Longrightarrow> journal_guard d a c = None \<and> sp_head s = he_journal (jc_heads c)"
  by (auto simp: admit_command_def split: option.splits if_splits)

lemma prepare_decision_record:
  assumes "prepare_decision d i a c s = Inr r"
  shows "admissible (sp_records s) r" and "jr_tenant r = jc_tenant c" and "jr_kind r = CANDIDATE_EVIDENCE"
proof -
  have fresh: "jc_command_id c \<notin> jr_command_id ` set (sp_records s)"
    using assms admit_command_fresh by (auto simp: prepare_decision_def split: option.splits)
  from assms have "jr_command_id r = jc_command_id c" and k: "jr_kind r = CANDIDATE_EVIDENCE"
    and t: "jr_tenant r = jc_tenant c"
    by (auto simp: prepare_decision_def Let_def split: option.splits if_splits)
  with fresh show "admissible (sp_records s) r" by (simp add: admissible_def)
  show "jr_tenant r = jc_tenant c" "jr_kind r = CANDIDATE_EVIDENCE" by fact+
qed

lemma execute_operation_cases:
  "execute_operation d i c s = Inr op \<Longrightarrow> jc_predecessor c = None \<and> op = RECORD \<or> jc_action c = CONFIRM_CANDIDATE"
  by (auto simp: execute_operation_def split: if_splits)

lemma execute_decision_parts:
  assumes "execute_decision d i a c s = Inr r"
  obtains op where "admit_command d a c s = None" and "execute_operation d i c s = Inr op"
    and "op \<noteq> RECORD \<Longrightarrow> \<exists>t. journal_target s c = Some t \<and> cm_subject (jr_claim t) = cm_subject (jc_claim c)"
    and "op = RECORD \<Longrightarrow> jc_predecessor c = None"
    and "jr_kind r = (if op = RECORD then FACT_CLAIM else CLAIM_DISPOSITION)"
    and "jr_family r = (case journal_target s c of Some t \<Rightarrow> jr_family t | None \<Rightarrow> jr_record_id r)"
    and "jr_predecessor r = jc_predecessor c" and "jr_claim r = jc_claim c"
    and "jr_principal r = jc_principal c" and "jr_command_id r = jc_command_id c" and "jr_tenant r = jc_tenant c"
    and "jr_operation r = op"
proof -
  from assms have ac: "admit_command d a c s = None"
    by (auto simp: execute_decision_def split: option.splits)
  with assms obtain op where op: "execute_operation d i c s = Inr op"
    by (auto simp: execute_decision_def result_simps split: if_splits)
  show thesis
    by (rule that [OF ac op])
       (use assms ac op in \<open>auto simp: execute_decision_def Let_def split: option.splits if_splits\<close>)
qed

lemma execute_decision_record:
  assumes "execute_decision d i a c s = Inr r"
  shows "admissible (sp_records s) r \<and> jr_tenant r = jc_tenant c"
  using assms
proof (cases rule: execute_decision_parts)
  case (1 op)
  have "disposes (sp_records s) r" if ne: "op \<noteq> RECORD"
  proof -
    obtain t where t: "journal_target s c = Some t" "cm_subject (jr_claim t) = cm_subject (jc_claim c)"
      using 1(3) ne by blast
    note target = journal_target_Some [OF t(1)]
    show ?thesis
      unfolding disposes_def using target t 1(6-9) by auto
  qed
  moreover have "journal_target s c = None" if "op = RECORD"
    using 1(4) that journal_target_Some(2) by (cases "journal_target s c") auto
  ultimately show ?thesis
    using 1 admit_command_fresh [OF 1(1)] by (auto simp: admissible_def split: if_splits)
qed

section \<open>Journals\<close>

text \<open>Every record was admissible over the records before it, and identities are unique.\<close>

definition journal_ok :: "JournalRecord list \<Rightarrow> bool" where
  "journal_ok rs \<longleftrightarrow> distinct (map jr_record_id rs) \<and> (\<forall>n < length rs. admissible (take n rs) (rs ! n))"

lemma journal_ok_Nil [simp]: "journal_ok []"
  by (simp add: journal_ok_def)

lemma journal_ok_snoc:
  "journal_ok (rs @ [r]) \<longleftrightarrow> journal_ok rs \<and> admissible rs r \<and> jr_record_id r \<notin> jr_record_id ` set rs"
  by (auto simp: journal_ok_def less_Suc_eq nth_append)

lemma journal_ok_commands: "journal_ok rs \<Longrightarrow> distinct (map jr_command_id rs)"
  by (induction rs rule: rev_induct) (auto simp: journal_ok_snoc admissible_def)

lemma journal_ok_dispositions:
  "journal_ok rs \<Longrightarrow> distinct (map jr_predecessor (filter (\<lambda>r. jr_kind r = CLAIM_DISPOSITION) rs))"
  by (induction rs rule: rev_induct) (auto simp: journal_ok_snoc admissible_def disposes_def)

section \<open>The interface of the persistence port\<close>

text \<open>
  Abstractly a store holds, for every tenant, a head and the log of its journal records. A snapshot
  shows both; a publication changes nothing, or it finds the expected head, was let through by its
  guard and appends exactly its record; other steps of the store may move heads but keep the logs.
  \<open>good\<close> is the provider's invariant.
\<close>

locale journal_store =
  fixes snap :: "('e, 'st) journal_snapshot"
    and pub :: "('e, 'st) journal_publish"
    and other :: "'st \<Rightarrow> 'st \<Rightarrow> bool"
    and good :: "'st \<Rightarrow> bool"
    and head :: "'st \<Rightarrow> string \<Rightarrow> nat"
    and log :: "'st \<Rightarrow> string \<Rightarrow> JournalRecord list"
  assumes snapshot_sound: "good st \<Longrightarrow> snap st t = Inr s \<Longrightarrow> s = \<lparr>sp_head = head st t, sp_records = log st t\<rparr>"
    and publish_good: "good st \<Longrightarrow> pub r h g st = (res, st') \<Longrightarrow> good st'"
    and publish_effect: "good st \<Longrightarrow> pub r h g st = (res, st') \<Longrightarrow>
      (res \<noteq> Inr J_COMMITTED \<and> head st' = head st \<and> log st' = log st)
      \<or> (head st (jr_tenant r) = h \<and> g = None \<and> jr_record_id r \<notin> jr_record_id ` set (log st (jr_tenant r))
          \<and> head st' = (head st)(jr_tenant r := Suc h)
          \<and> log st' = (log st)(jr_tenant r := log st (jr_tenant r) @ [r]))"
    and other_good: "good st \<Longrightarrow> other st st' \<Longrightarrow> good st'"
    and other_effect: "good st \<Longrightarrow> other st st' \<Longrightarrow> head st t \<le> head st' t \<and> log st' = log st"

text \<open>
  Histories of a store: the two operations of the owner, each with the snapshot it read at any
  earlier state, and everything else the store does. The set holds the states visited.
\<close>

inductive journal_history ::
  "('e, 'st) journal_snapshot \<Rightarrow> ('e, 'st) journal_publish \<Rightarrow> ('st \<Rightarrow> 'st \<Rightarrow> bool) \<Rightarrow> JournalCodec
     \<Rightarrow> 'st \<Rightarrow> 'st \<Rightarrow> 'st set \<Rightarrow> bool"
  for snap pub other d st0 where
  start: "journal_history snap pub other d st0 st0 {st0}"
| prepares: "journal_history snap pub other d st0 st visited \<Longrightarrow> st1 \<in> visited \<Longrightarrow>
    journal_prepare d snap pub auth1 auth2 auth3 c st1 st = (res, st') \<Longrightarrow>
    journal_history snap pub other d st0 st' (insert st' visited)"
| executes: "journal_history snap pub other d st0 st visited \<Longrightarrow> st1 \<in> visited \<Longrightarrow>
    journal_execute d snap pub auth1 auth2 auth3 c st1 st = (res, st') \<Longrightarrow>
    journal_history snap pub other d st0 st' (insert st' visited)"
| others: "journal_history snap pub other d st0 st visited \<Longrightarrow> other st st' \<Longrightarrow>
    journal_history snap pub other d st0 st' (insert st' visited)"

text \<open>What an operation of the owner may do to the store.\<close>

definition publishes_once ::
  "('e, 'st) journal_snapshot \<Rightarrow> ('e, 'st) journal_publish \<Rightarrow> 'st \<Rightarrow> 'st \<Rightarrow> 'st \<Rightarrow> bool" where
  "publishes_once snap pub st1 st st' \<longleftrightarrow>
     st' = st \<or> (\<exists>s r g res. snap st1 (jr_tenant r) = Inr s \<and> admissible (sp_records s) r
       \<and> pub r (sp_head s) g st = (res, st'))"

lemma journal_submit_state: "snd (journal_submit pub r h g st) = snd (pub r h g st)"
  by (simp add: journal_submit_def split: prod.splits sum.splits)

lemma journal_run_once:
  assumes run: "journal_run decide d snap pub auth1 auth2 auth3 c st1 st = (res, st')"
    and decision: "\<And>identity c s r. decide d identity auth2 c s = Inr r \<Longrightarrow>
        admissible (sp_records s) r \<and> jr_tenant r = jc_tenant c"
  shows "publishes_once snap pub st1 st st'"
proof (cases "st' = st")
  case False
  then obtain c' identity s r where s: "snap st1 (jc_tenant c') = Inr s" and r: "decide d identity auth2 c' s = Inr r"
    and sub: "journal_submit pub r (sp_head s) (journal_guard d auth3 c') st = (res, st')"
    using run by (auto simp: journal_run_def split: option.splits if_splits sum.splits)
  have "pub r (sp_head s) (journal_guard d auth3 c') st
      = (fst (pub r (sp_head s) (journal_guard d auth3 c') st), st')"
    using sub journal_submit_state [of pub r "sp_head s" "journal_guard d auth3 c'" st] by simp
  then show ?thesis
    using s decision [OF r] unfolding publishes_once_def by metis
qed (simp add: publishes_once_def)

lemma journal_prepare_once:
  "journal_prepare d snap pub auth1 auth2 auth3 c st1 st = (res, st') \<Longrightarrow> publishes_once snap pub st1 st st'"
  unfolding journal_prepare_def by (erule journal_run_once) (simp add: prepare_decision_record)

lemma journal_execute_once:
  "journal_execute d snap pub auth1 auth2 auth3 c st1 st = (res, st') \<Longrightarrow> publishes_once snap pub st1 st st'"
  unfolding journal_execute_def by (erule journal_run_once) (rule execute_decision_record)

text \<open>An earlier state with the same head has the same log.\<close>

definition precedes ::
  "('st \<Rightarrow> string \<Rightarrow> nat) \<Rightarrow> ('st \<Rightarrow> string \<Rightarrow> JournalRecord list) \<Rightarrow> 'st \<Rightarrow> 'st \<Rightarrow> bool" where
  "precedes head log st1 st \<longleftrightarrow>
     (\<forall>t. head st1 t \<le> head st t \<and> prefix (log st1 t) (log st t)
        \<and> (head st1 t = head st t \<longrightarrow> log st1 t = log st t))"

lemma precedes_refl [simp]: "precedes head log st st"
  by (simp add: precedes_def)

lemma precedes_trans: "precedes head log a b \<Longrightarrow> precedes head log b c \<Longrightarrow> precedes head log a c"
  unfolding precedes_def by (metis le_antisym prefix_order.trans le_trans)

context journal_store
begin

definition invariant :: "'st \<Rightarrow> 'st set \<Rightarrow> bool" where
  "invariant st visited \<longleftrightarrow>
     good st \<and> (\<forall>t. journal_ok (log st t)) \<and> (\<forall>st1 \<in> visited. good st1 \<and> precedes head log st1 st)"

lemma publish_precedes: "good st \<Longrightarrow> pub r h g st = (res, st') \<Longrightarrow> precedes head log st st'"
  using publish_effect [of st r h g res st'] by (auto simp: precedes_def)

lemma other_precedes: "good st \<Longrightarrow> other st st' \<Longrightarrow> precedes head log st st'"
  using other_effect [of st st'] by (auto simp: precedes_def)

lemma invariant_step:
  assumes "invariant st visited" and "good st'" and "precedes head log st st'" and "\<forall>t. journal_ok (log st' t)"
  shows "invariant st' (insert st' visited)"
  using assms precedes_trans unfolding invariant_def by (metis insert_iff precedes_refl)

text \<open>A record decided on an earlier snapshot that is published was decided on the current log.\<close>

lemma publish_journal_ok:
  assumes inv: "invariant st visited" and st1: "st1 \<in> visited" and s: "snap st1 (jr_tenant r) = Inr s"
    and adm: "admissible (sp_records s) r" and p: "pub r (sp_head s) g st = (res, st')"
  shows "journal_ok (log st' t)"
proof -
  have good: "good st" "good st1" and le: "precedes head log st1 st" and ok: "\<forall>t. journal_ok (log st t)"
    using inv st1 by (auto simp: invariant_def)
  have eq: "s = \<lparr>sp_head = head st1 (jr_tenant r), sp_records = log st1 (jr_tenant r)\<rparr>"
    using good(2) s by (rule snapshot_sound)
  show ?thesis
    using publish_effect [OF good(1) p]
  proof
    assume new: "head st (jr_tenant r) = sp_head s \<and> g = None
          \<and> jr_record_id r \<notin> jr_record_id ` set (log st (jr_tenant r))
          \<and> head st' = (head st)(jr_tenant r := Suc (sp_head s))
          \<and> log st' = (log st)(jr_tenant r := log st (jr_tenant r) @ [r])"
    then have same: "log st (jr_tenant r) = sp_records s"
      using le eq by (simp add: precedes_def)
    then have "journal_ok (sp_records s @ [r])"
      using new adm ok by (metis journal_ok_snoc)
    then show ?thesis
      using new same ok by simp
  qed (use ok in simp)
qed

lemma once_invariant:
  assumes inv: "invariant st visited" and st1: "st1 \<in> visited" and once: "publishes_once snap pub st1 st st'"
  shows "invariant st' (insert st' visited)"
proof (cases "st' = st")
  case True
  then show ?thesis
    using inv invariant_step [OF inv] by (simp add: invariant_def)
next
  case False
  then obtain s r g res where p: "snap st1 (jr_tenant r) = Inr s" "admissible (sp_records s) r"
    "pub r (sp_head s) g st = (res, st')"
    using once by (auto simp: publishes_once_def)
  have good: "good st" using inv by (simp add: invariant_def)
  show ?thesis
    using invariant_step [OF inv publish_good [OF good p(3)] publish_precedes [OF good p(3)]]
      publish_journal_ok [OF inv st1 p] by blast
qed

lemma history_invariant:
  assumes "journal_history snap pub other d st0 st visited"
    and "good st0" and "\<And>t. log st0 t = []"
  shows "invariant st visited"
  using assms(1)
proof (induction rule: journal_history.induct)
  case start
  then show ?case using assms(2,3) by (simp add: invariant_def)
next
  case (prepares st visited st1 auth1 auth2 auth3 c res st')
  show ?case
    by (rule once_invariant [OF prepares.IH prepares.hyps(2) journal_prepare_once [OF prepares.hyps(3)]])
next
  case (executes st visited st1 auth1 auth2 auth3 c res st')
  show ?case
    by (rule once_invariant [OF executes.IH executes.hyps(2) journal_execute_once [OF executes.hyps(3)]])
next
  case (others st visited st')
  then have "good st" and ok: "\<forall>t. journal_ok (log st t)" by (auto simp: invariant_def)
  moreover have "log st' = log st"
    using other_effect [OF \<open>good st\<close> others.hyps(2)] by blast
  ultimately show ?case
    by (intro invariant_step [OF others.IH other_good other_precedes]) (use others.hyps(2) in simp_all)
qed

end

end
