(* ===== verification/Store_Client.thy ===== *)
theory Store_Client
  imports Event_Appender
begin

text \<open>
  What an owner that publishes under one operation kind and one record owner relies on of the physical
  store: the command as the writer executes it, what a commit has passed, and that the commands of other
  owners keep its rows and publications.
\<close>

section \<open>The command the writer executes\<close>

text \<open>The command as the writer executes it: with the observer as its decision guard.\<close>

definition observed_command ::
  "(PhysicalPublicationCommand \<Rightarrow> string \<Rightarrow> (StoreError, unit) result) option \<Rightarrow> PhysicalPublicationCommand
     \<Rightarrow> PhysicalPublicationCommand" where
  "observed_command observer c =
     (case attach_observer observer (PublishCommand c None) of PublishCommand c' _ \<Rightarrow> c' | _ \<Rightarrow> c)"

lemma observed_command_fields [simp]:
  "pc_tenant_id (observed_command observer c) = pc_tenant_id c"
  "pc_operation_kind (observed_command observer c) = pc_operation_kind c"
  "pc_idempotency_key (observed_command observer c) = pc_idempotency_key c"
  "pc_request_fingerprint (observed_command observer c) = pc_request_fingerprint c"
  "pc_expected_head (observed_command observer c) = pc_expected_head c"
  "pc_fence_generation (observed_command observer c) = pc_fence_generation c"
  "pc_expected_fence_frontier (observed_command observer c) = pc_expected_fence_frontier c"
  "pc_minimum_fence_frontier (observed_command observer c) = pc_minimum_fence_frontier c"
  "pc_records (observed_command observer c) = pc_records c"
  "pc_fault (observed_command observer c) = pc_fault c"
  "pc_admission_guard (observed_command observer c) = pc_admission_guard c"
  by (cases observer; simp add: observed_command_def)+

lemma publish_admitted:
  assumes "publish m token c cx db = (res, db')" and "db' \<noteq> db"
  shows "publish_admission m c cx db = Inr None"
proof -
  from assms obtain x v where x: "publish_transaction m c cx db = Inr (Some x, v)"
    by (auto simp: publish_def split: sum.splits bool.splits prod.splits option.splits)
  then have "find_publication c db = None"
    by (rule publish_transaction_commit)
  with x show ?thesis
    by (auto simp: publish_transaction_def result_simps Let_def split: option.splits if_splits)
qed

lemma publish_guard_passed:
  assumes "publish_admission m c cx db = Inr None" and "pc_admission_guard c = Some guard"
  shows "guard db = Inr None"
  using assms by (auto simp: publish_admission_def result_simps split: if_splits)

lemma guard_disposition_not_replay [simp]: "guard_disposition v \<noteq> D_REPLAY"
  by (cases v) simp_all

text \<open>A replay is the answer to an identity that was published with the same request.\<close>

lemma publish_replayed:
  assumes "publish m token c cx db = (Inr v, db')" and "pu_disposition v = D_REPLAY"
  obtains row where "find_publication c db = Some row" and "pb_request_fingerprint row = pc_request_fingerprint c"
proof -
  have "publish_admission m c cx db = Inr (Some d) \<Longrightarrow> d \<noteq> D_REPLAY" for d
    unfolding publish_admission_def by (auto simp: result_simps split: if_splits option.splits)
  moreover have "publish_decision m c n x = Inr (Some d) \<Longrightarrow> d \<noteq> D_REPLAY" for n x d
    unfolding publish_decision_def Let_def by (auto simp: result_simps split: if_splits option.splits)
  moreover obtain saved where "publish_transaction m c cx db = Inr (saved, v)"
    using assms by (auto simp: publish_def simple_result_def split: sum.splits bool.splits prod.splits option.splits if_splits)
  ultimately have "\<exists>row. find_publication c db = Some row \<and> publish_existing m c row db = Inr v"
    using assms(2) unfolding publish_transaction_def Let_def
    by (auto simp: result_simps simple_result_def split: option.splits if_splits)
  then show thesis
    using that assms(2) by (auto simp: publish_existing_def result_simps split: if_splits)
qed

lemma committed_neq: "committed c db \<noteq> db"
proof
  assume "committed c db = db"
  then have "db_publications (committed c db) = db_publications db" by simp
  then show False by (simp add: committed_tables)
qed

text \<open>A fresh publication that every guard admits is committed.\<close>

lemma publish_commits:
  assumes "publish_preflight m token c db = Inr True" and absent: "find_publication c db = None"
    and admitted: "publish_admission m c cx db = Inr None" and "distinct (map ph_record_id (pc_records c))"
    and "\<forall>r \<in> set (pc_records c). (pc_tenant_id c, ph_record_id r) \<notin> record_key ` set (db_records db)"
    and decision: "publish_decision m c (Suc (current_head (pc_tenant_id c) db)) (committed c db) = Inr None"
    and "pc_fault c = NO_FAULT"
  shows "publish m token c cx db = (Inr \<lparr>pu_disposition = D_COMMITTED,
     pu_commit_sequence = Some (Suc (current_head (pc_tenant_id c) db)), pu_record_ids = map ph_record_id (pc_records c)\<rparr>,
     committed c db)"
proof -
  let ?t = "pc_tenant_id c" and ?n = "Suc (current_head (pc_tenant_id c) db)"
  obtain db1 where rows: "rfold (insert_record ?t ?n) (pc_records c) db = Inr db1"
    and "db1 = db\<lparr>db_records := db_records db @ map (record_row ?t ?n) (pc_records c)\<rparr>"
    using assms(4,5) by (simp add: insert_records_ok)
  then have "insert_publication c ?n db1 = committed c db"
    by (simp add: committed_inserts)
  then show ?thesis
    using assms rows by (simp add: publish_def publish_transaction_def Let_def)
qed

section \<open>The tables of one owner\<close>

definition owner_rows :: "string \<Rightarrow> string \<Rightarrow> Database \<Rightarrow> RecordRow list" where
  "owner_rows owner t db = filter (\<lambda>row. rr_tenant_id row = t \<and> rr_owner row = owner) (db_records db)"

definition kind_publications :: "string \<Rightarrow> string \<Rightarrow> Database \<Rightarrow> PublicationRow list" where
  "kind_publications kind t db =
     filter (\<lambda>p. pb_tenant_id p = t \<and> pb_operation_kind p = kind) (db_publications db)"

lemma owner_rows_facts:
  "row \<in> set (owner_rows owner t db) \<Longrightarrow> row \<in> set (db_records db) \<and> rr_tenant_id row = t"
  by (simp add: owner_rows_def)

lemma owner_rows_bound:
  assumes "ledger_ok db" and "row \<in> set (owner_rows owner t db)"
  shows "rr_commit_sequence row \<le> current_head t db"
  using assms(1) owner_rows_facts [OF assms(2)] by (auto simp: ledger_ok_def)

lemma owner_ids_distinct:
  assumes "ledger_ok db"
  shows "distinct (map rr_record_id (owner_rows owner t db))"
proof -
  have "distinct (map record_key (owner_rows owner t db))"
    using assms by (simp add: ledger_ok_def owner_rows_def distinct_map_filter)
  moreover have "map record_key (owner_rows owner t db) = map (Pair t) (map rr_record_id (owner_rows owner t db))"
    by (simp add: record_key_def owner_rows_facts)
  ultimately show ?thesis
    by (simp only: distinct_map)
qed

lemma sorted_rows:
  assumes "sorted_wrt (<) (map rr_commit_sequence rows)"
  shows "sort_key rr_commit_sequence rows = (rows :: RecordRow list)"
  using assms by (intro sort_key_id_if_sorted) (simp add: strict_sorted_iff)

lemma sort_rows:
  assumes "sorted_wrt (<) (map rr_commit_sequence rows)"
  shows "sort_key rr_commit_sequence (sort_key rr_record_id rows) = (rows :: RecordRow list)"
proof (rule map_sorted_distinct_set_unique [where f = rr_commit_sequence])
  have strict: "sorted (map rr_commit_sequence rows)" "distinct (map rr_commit_sequence rows)"
    using assms by (auto simp: strict_sorted_iff)
  then show "sorted (map rr_commit_sequence rows)" "distinct (map rr_commit_sequence rows)" by auto
  show "inj_on rr_commit_sequence
      (set (sort_key rr_commit_sequence (sort_key rr_record_id rows)) \<union> set rows)"
    using strict by (simp add: distinct_map)
  show "distinct (map rr_commit_sequence (sort_key rr_commit_sequence (sort_key rr_record_id rows)))"
    using strict by (simp add: distinct_map)
qed simp_all

text \<open>A dictionary filled from rows with different keys has one entry for each of them.\<close>

lemma update_fresh: "k \<notin> set (map fst al) \<Longrightarrow> AList.update k v al = al @ [(k, v)]"
  by (induction al) auto

lemma fold_update_fresh:
  "distinct (map fst acc @ map f ps) \<Longrightarrow>
     fold (\<lambda>p. AList.update (f p) (g p)) ps acc = acc @ map (\<lambda>p. (f p, g p)) ps"
proof (induction ps arbitrary: acc)
  case (Cons p ps)
  have "AList.update (f p) (g p) acc = acc @ [(f p, g p)]"
    using Cons.prems by (intro update_fresh) auto
  then show ?case
    using Cons.IH Cons.prems by simp
qed simp

section \<open>Other owners\<close>

text \<open>The other owners execute any command but a publication of this kind or with a record of this owner.\<close>

fun foreign_command :: "string \<Rightarrow> string \<Rightarrow> StoreCommand \<Rightarrow> bool" where
  "foreign_command kind owner (PublishCommand c cx) \<longleftrightarrow>
     pc_operation_kind c \<noteq> kind \<and> list_all (\<lambda>r. ph_owner r \<noteq> owner) (pc_records c)"
| "foreign_command kind owner _ \<longleftrightarrow> True"

definition foreign_change :: "string \<Rightarrow> string \<Rightarrow> Database \<Rightarrow> Database \<Rightarrow> bool" where
  "foreign_change kind owner db db' \<longleftrightarrow>
     (\<exists>m token cmd. foreign_command kind owner cmd \<and> db' = snd (execute m token cmd db))"

definition same_tables :: "string \<Rightarrow> string \<Rightarrow> Database \<Rightarrow> Database \<Rightarrow> bool" where
  "same_tables kind owner db db' \<longleftrightarrow>
     (\<forall>t. owner_rows owner t db' = owner_rows owner t db
        \<and> kind_publications kind t db' = kind_publications kind t db
        \<and> current_head t db \<le> current_head t db')
     \<and> set (db_records db) \<subseteq> set (db_records db')"

lemma same_ledger_tables: "same_ledger db db' \<Longrightarrow> same_tables kind owner db db'"
  by (simp add: same_tables_def same_ledger_def owner_rows_def kind_publications_def current_head_def)

lemma foreign_committed:
  assumes "foreign_command kind owner (PublishCommand c cx)"
  shows "same_tables kind owner db (committed c db)"
proof -
  have "filter (\<lambda>row. rr_tenant_id row = t \<and> rr_owner row = owner) (map (record_row u n) (pc_records c)) = []"
    for t u n
    using assms by (auto simp: filter_empty_conv record_row_def list_all_iff)
  then show ?thesis
    using assms by (simp add: same_tables_def owner_rows_def kind_publications_def committed_tables
        current_head_committed)
qed

lemma foreign_change_tables:
  assumes "foreign_change kind owner db db'"
  shows "same_tables kind owner db db'"
proof -
  from assms obtain m token cmd where cmd: "foreign_command kind owner cmd" and db': "db' = snd (execute m token cmd db)"
    by (auto simp: foreign_change_def)
  show ?thesis
  proof (cases "\<exists>c cx. cmd = PublishCommand c cx")
    case True
    then obtain c cx where c: "cmd = PublishCommand c cx" by blast
    obtain res x where r: "publish m token c cx db = (res, x)" by fastforce
    then show ?thesis
      by (cases rule: publish_cases) (use cmd db' c r foreign_committed same_ledger_tables in auto)
  qed (use db' execute_ledger same_ledger_tables in blast)
qed

lemma foreign_change_ledger: "ledger_ok db \<Longrightarrow> foreign_change kind owner db db' \<Longrightarrow> ledger_ok db'"
  using ledger_ok_execute by (auto simp: foreign_change_def)

end
