(* ===== verification/Journal_Sqlite.thy ===== *)
theory Journal_Sqlite
  imports Journal_History Store_Client
begin

text \<open>
  The journal's persistence adapter (\<open>adapters/driven/journal_sqlite.py\<close>) over the physical store.
  A publication goes through the single writer; a snapshot reads the tables back, checks that
  publications and records correspond one to one and decodes every record strictly. The adapter is
  an implementation of the interface of the persistence port, and what it writes it reads back.
\<close>

section \<open>The adapter\<close>

datatype JournalStoreError = JournalIntegrityError string string | StoreFailure StoreError

record SQLiteJournal =
  sj_generation :: string
  sj_frontier :: int
  sj_fault :: Fault

definition JOURNAL_OWNER :: string where
  "JOURNAL_OWNER = ''evidence_journal''"

definition JOURNAL_SCHEMA :: string where
  "JOURNAL_SCHEMA = ''chiplog.evidence_journal.record.v1''"

definition JOURNAL_COMMAND :: string where
  "JOURNAL_COMMAND = ''evidence_journal.command''"

fun journal_disposition :: "Disposition \<Rightarrow> JournalDisposition" where
  "journal_disposition D_COMMITTED = J_COMMITTED"
| "journal_disposition D_REPLAY = J_REPLAY"
| "journal_disposition D_CONFLICT = J_CONFLICT"
| "journal_disposition D_STALE = J_STALE"
| "journal_disposition D_DENIED = J_DENIED"
| "journal_disposition D_INDETERMINATE = J_INDETERMINATE"

definition journal_physical ::
  "JournalCodec \<Rightarrow> SQLiteJournal \<Rightarrow> JournalRecord \<Rightarrow> nat \<Rightarrow> GuardVerdict option \<Rightarrow> PhysicalPublicationCommand" where
  "journal_physical d j r expected_head guard =
     (let payload = journal_canonical_bytes d r in
      \<lparr>pc_tenant_id = jr_tenant r, pc_operation_kind = JOURNAL_COMMAND,
       pc_idempotency_key = jr_command_id r, pc_request_fingerprint = sha256_hex payload,
       pc_expected_head = expected_head, pc_fence_generation = sj_generation j,
       pc_expected_fence_frontier = sj_frontier j, pc_minimum_fence_frontier = sj_frontier j,
       pc_records = [\<lparr>ph_record_id = jr_record_id r, ph_owner = JOURNAL_OWNER, ph_schema_id = JOURNAL_SCHEMA,
                      ph_canonical_bytes = payload, ph_fingerprint = sha256_hex payload\<rparr>],
       pc_expected_preimage_commitment = None, pc_fault = sj_fault j,
       pc_admission_guard = Some (\<lambda>_. Inr guard), pc_decision_guard = None,
       pc_authority_checkpoint_guard = None\<rparr>)"

definition sqlite_journal_publish ::
  "JournalCodec \<Rightarrow> Materializer \<Rightarrow> nat
     \<Rightarrow> (PhysicalPublicationCommand \<Rightarrow> string \<Rightarrow> (StoreError, unit) result) option
     \<Rightarrow> SQLiteJournal \<Rightarrow> (JournalStoreError, Database) journal_publish" where
  "sqlite_journal_publish d m token observer j r expected_head guard db =
     (case publish m token (observed_command observer (journal_physical d j r expected_head guard)) None db of
        (Inl e, db') \<Rightarrow> (Inl (StoreFailure e), db')
      | (Inr v, db') \<Rightarrow> (Inr (journal_disposition (pu_disposition v)), db'))"

definition journal_rows :: "string \<Rightarrow> Database \<Rightarrow> RecordRow list" where
  "journal_rows t db = filter (\<lambda>row. rr_tenant_id row = t \<and> rr_owner row = JOURNAL_OWNER) (db_records db)"

definition journal_publications :: "string \<Rightarrow> Database \<Rightarrow> PublicationRow list" where
  "journal_publications t db =
     filter (\<lambda>p. pb_tenant_id p = t \<and> pb_operation_kind p = JOURNAL_COMMAND) (db_publications db)"

definition journal_bindings :: "PublicationRow list \<Rightarrow> (string \<times> string \<times> string) list" where
  "journal_bindings ps =
     fold (\<lambda>p. AList.update (pb_record_ids p) (pb_idempotency_key p, pb_request_fingerprint p)) ps []"

definition journal_decode_row ::
  "JournalCodec \<Rightarrow> string \<Rightarrow> (string \<times> string \<times> string) list \<Rightarrow> RecordRow \<Rightarrow> JournalRecord list
     \<Rightarrow> (JournalStoreError, JournalRecord list) result" where
  "journal_decode_row d tenant bindings row records =
     (case parse_journal_record d (rr_canonical_bytes row) of
        None \<Rightarrow> Inl (JournalIntegrityError tenant (rr_record_id row))
      | Some r \<Rightarrow>
          (case map_of bindings (rr_record_id row) of
             None \<Rightarrow> Inl (JournalIntegrityError tenant (rr_record_id row))
           | Some (command_id, fingerprint) \<Rightarrow>
               if jr_record_id r \<noteq> rr_record_id row \<or> jr_tenant r \<noteq> tenant
                  \<or> rr_schema_id row \<noteq> JOURNAL_SCHEMA \<or> command_id \<noteq> jr_command_id r
                  \<or> rr_canonical_bytes row \<noteq> journal_canonical_bytes d r
                  \<or> sha256_hex (rr_canonical_bytes row) \<noteq> fingerprint
               then Inl (JournalIntegrityError tenant (rr_record_id row))
               else Inr (records @ [r])))"

definition sqlite_journal_snapshot ::
  "JournalCodec \<Rightarrow> SQLiteJournal \<Rightarrow> (JournalStoreError, Database) journal_snapshot" where
  "sqlite_journal_snapshot d j db tenant =
     (if map_of (db_fences db) tenant \<noteq> Some (sj_generation j, sj_frontier j)
        then Inl (JournalIntegrityError tenant ''snapshot'')
      else
        let rows = sort_key rr_commit_sequence (sort_key rr_record_id (journal_rows tenant db));
            bindings = journal_bindings (journal_publications tenant db)
        in if set (map fst bindings) \<noteq> set (map rr_record_id rows) \<or> length bindings \<noteq> length rows
             then Inl (JournalIntegrityError tenant ''snapshot'')
           else rbind (rfold (journal_decode_row d tenant bindings) rows []) (\<lambda>records.
             Inr \<lparr>sp_head = current_head tenant db, sp_records = records\<rparr>))"

section \<open>The invariant of the journal's tables\<close>

text \<open>What pydantic promises of a model: its canonical JSON validates to the same instance.\<close>

definition codec_ok :: "JournalCodec \<Rightarrow> bool" where
  "codec_ok d \<longleftrightarrow> (\<forall>r. parse_journal_record d (journal_canonical_bytes d r) = Some r)"

definition row_bound :: "JournalCodec \<Rightarrow> string \<Rightarrow> RecordRow \<Rightarrow> PublicationRow \<Rightarrow> bool" where
  "row_bound d t row p \<longleftrightarrow>
     (\<exists>r. rr_canonical_bytes row = journal_canonical_bytes d r \<and> jr_record_id r = rr_record_id row
        \<and> jr_tenant r = t \<and> rr_schema_id row = JOURNAL_SCHEMA \<and> pb_record_ids p = rr_record_id row
        \<and> pb_idempotency_key p = jr_command_id r \<and> pb_request_fingerprint p = sha256_hex (rr_canonical_bytes row))"

definition journal_tables_ok :: "JournalCodec \<Rightarrow> Database \<Rightarrow> bool" where
  "journal_tables_ok d db \<longleftrightarrow>
     codec_ok d \<and> ledger_ok db
     \<and> (\<forall>t. list_all2 (row_bound d t) (journal_rows t db) (journal_publications t db)
          \<and> sorted_wrt (<) (map rr_commit_sequence (journal_rows t db)))"

definition journal_log :: "JournalCodec \<Rightarrow> Database \<Rightarrow> string \<Rightarrow> JournalRecord list" where
  "journal_log d db t = map (\<lambda>row. the (parse_journal_record d (rr_canonical_bytes row))) (journal_rows t db)"

lemma journal_rows_facts:
  "row \<in> set (journal_rows t db) \<Longrightarrow> row \<in> set (db_records db) \<and> rr_tenant_id row = t"
  by (simp add: journal_rows_def)

lemma decode_rows:
  "rfold (journal_decode_row d t bindings) rows acc = Inr records \<Longrightarrow>
     records = acc @ map (\<lambda>row. the (parse_journal_record d (rr_canonical_bytes row))) rows"
proof (induction rows arbitrary: acc)
  case (Cons row rows)
  then obtain acc' where one: "journal_decode_row d t bindings row acc = Inr acc'"
    and rest: "rfold (journal_decode_row d t bindings) rows acc' = Inr records"
    by (auto simp: rbind_eq_Inr)
  from one have "acc' = acc @ [the (parse_journal_record d (rr_canonical_bytes row))]"
    by (auto simp: journal_decode_row_def split: option.splits prod.splits if_splits)
  with Cons.IH [OF rest] show ?case by simp
qed simp

lemma sqlite_snapshot_sound:
  assumes "journal_tables_ok d db" and "sqlite_journal_snapshot d j db t = Inr s"
  shows "s = \<lparr>sp_head = current_head t db, sp_records = journal_log d db t\<rparr>"
  using assms decode_rows [where acc = "[]"] sort_rows
  by (auto simp: sqlite_journal_snapshot_def journal_tables_ok_def journal_log_def Let_def result_simps
      split: if_splits)

section \<open>Publishing\<close>

text \<open>The commit of a journal record, and everything else.\<close>

lemma sqlite_publish_cases:
  assumes "sqlite_journal_publish d m token observer j r h g db = (res, db')"
  obtains (unchanged) "db' = db" and "res \<noteq> Inr J_COMMITTED"
  | (committed) "db' = committed (observed_command observer (journal_physical d j r h g)) db"
      and "current_head (jr_tenant r) db = h" and "g = None"
      and "(jr_tenant r, jr_record_id r) \<notin> record_key ` set (db_records db)"
      and "find_publication (observed_command observer (journal_physical d j r h g)) db = None"
proof -
  let ?c = "observed_command observer (journal_physical d j r h g)"
  obtain pres where p: "publish m token ?c None db = (pres, db')"
    and res: "\<And>v. pres = Inr v \<Longrightarrow> res = Inr (journal_disposition (pu_disposition v))"
      "\<And>e. pres = Inl e \<Longrightarrow> res = Inl (StoreFailure e)"
    using assms by (auto simp: sqlite_journal_publish_def split: prod.splits sum.splits)
  have jd: "journal_disposition x = J_COMMITTED \<longleftrightarrow> x = D_COMMITTED" for x
    by (cases x) simp_all
  show thesis
    using p
  proof (cases rule: publish_cases)
    case unchanged
    have "res \<noteq> Inr J_COMMITTED"
      using unchanged(2) res jd by (cases pres) auto
    with unchanged(1) show thesis by (rule that(1))
  next
    case committed
    have "g = None"
      using publish_guard_passed [OF publish_admitted [OF p], of "\<lambda>_. Inr g"] committed(6) committed_neq
      by (simp add: journal_physical_def Let_def)
    then show thesis
      using committed that(2) by (simp add: journal_physical_def Let_def)
  qed
qed

lemma journal_rows_committed:
  "journal_rows t (committed (observed_command observer (journal_physical d j r h g)) db) =
     journal_rows t db @ (if t = jr_tenant r
       then [\<lparr>rr_tenant_id = t, rr_record_id = jr_record_id r, rr_owner = JOURNAL_OWNER,
              rr_schema_id = JOURNAL_SCHEMA, rr_canonical_bytes = journal_canonical_bytes d r,
              rr_commit_sequence = Suc (current_head t db)\<rparr>] else [])"
  by (simp add: journal_rows_def committed_tables journal_physical_def record_row_def Let_def)

lemma journal_publications_committed:
  "journal_publications t (committed (observed_command observer (journal_physical d j r h g)) db) =
     journal_publications t db @ (if t = jr_tenant r
       then [\<lparr>pb_tenant_id = t, pb_operation_kind = JOURNAL_COMMAND, pb_idempotency_key = jr_command_id r,
              pb_request_fingerprint = sha256_hex (journal_canonical_bytes d r),
              pb_commit_sequence = Suc (current_head t db), pb_record_ids = jr_record_id r\<rparr>] else [])"
  by (simp add: journal_publications_def committed_tables journal_physical_def Let_def)

lemma journal_rows_bound:
  assumes "ledger_ok db" and "row \<in> set (journal_rows t db)"
  shows "rr_commit_sequence row \<le> current_head t db"
  using assms journal_rows_facts [OF assms(2)] by (auto simp: ledger_ok_def)

lemma journal_tables_committed:
  assumes ok: "journal_tables_ok d db"
    and fresh: "(jr_tenant r, jr_record_id r) \<notin> record_key ` set (db_records db)"
    and absent: "find_publication (observed_command observer (journal_physical d j r h g)) db = None"
  shows "journal_tables_ok d (committed (observed_command observer (journal_physical d j r h g)) db)"
    (is "journal_tables_ok d ?db'")
proof -
  have "ledger_ok ?db'"
    using ok fresh absent by (intro ledger_ok_committed) (auto simp: journal_tables_ok_def journal_physical_def Let_def)
  moreover have "list_all2 (row_bound d t) (journal_rows t ?db') (journal_publications t ?db')" for t
    using ok by (auto simp: journal_tables_ok_def journal_rows_committed journal_publications_committed
        row_bound_def intro!: list_all2_appendI)
  moreover have "sorted_wrt (<) (map rr_commit_sequence (journal_rows t ?db'))" for t
    using ok journal_rows_bound [of db _ t]
    by (auto simp: journal_tables_ok_def journal_rows_committed sorted_wrt_append less_Suc_eq_le)
  ultimately show ?thesis
    using ok by (simp add: journal_tables_ok_def)
qed

lemma journal_log_ids:
  assumes "journal_tables_ok d db"
  shows "map jr_record_id (journal_log d db t) = map rr_record_id (journal_rows t db)"
proof -
  have "jr_record_id (the (parse_journal_record d (rr_canonical_bytes row))) = rr_record_id row"
    if row: "row \<in> set (journal_rows t db)" for row
  proof -
    have "list_all2 (row_bound d t) (journal_rows t db) (journal_publications t db)"
      using assms by (simp add: journal_tables_ok_def)
    then obtain p where "row_bound d t row p"
      using row by (metis list_all2_conv_all_nth in_set_conv_nth)
    then show ?thesis
      using assms by (auto simp: row_bound_def journal_tables_ok_def codec_ok_def)
  qed
  then show ?thesis by (simp add: journal_log_def)
qed

lemma sqlite_publish_effect:
  assumes ok: "journal_tables_ok d db"
    and p: "sqlite_journal_publish d m token observer j r h g db = (res, db')"
  shows "(res \<noteq> Inr J_COMMITTED \<and> (\<lambda>t. current_head t db') = (\<lambda>t. current_head t db) \<and> journal_log d db' = journal_log d db)
      \<or> (current_head (jr_tenant r) db = h \<and> g = None
          \<and> jr_record_id r \<notin> jr_record_id ` set (journal_log d db (jr_tenant r))
          \<and> (\<lambda>t. current_head t db') = (\<lambda>t. current_head t db)(jr_tenant r := Suc h)
          \<and> journal_log d db' = (journal_log d db)(jr_tenant r := journal_log d db (jr_tenant r) @ [r]))"
  using p
proof (cases rule: sqlite_publish_cases)
  case committed
  have "journal_log d db' = (journal_log d db)(jr_tenant r := journal_log d db (jr_tenant r) @ [r])"
    using ok committed(1) by (auto simp: journal_log_def journal_rows_committed journal_tables_ok_def codec_ok_def)
  moreover have "(\<lambda>t. current_head t db') = (\<lambda>t. current_head t db)(jr_tenant r := Suc h)"
    using committed(1,2) by (auto simp: current_head_committed journal_physical_def Let_def)
  moreover have "jr_record_id r \<notin> jr_record_id ` set (journal_log d db (jr_tenant r))"
  proof -
    have "jr_record_id ` set (journal_log d db (jr_tenant r)) = rr_record_id ` set (journal_rows (jr_tenant r) db)"
      using journal_log_ids [OF ok, of "jr_tenant r"] by (metis set_map)
    then show ?thesis
      using committed(4) by (force simp: record_key_def dest!: journal_rows_facts)
  qed
  ultimately show ?thesis using committed(2,3) by simp
qed simp

section \<open>Everything else the store does\<close>

abbreviation foreign_step :: "Database \<Rightarrow> Database \<Rightarrow> bool" where
  "foreign_step \<equiv> foreign_change JOURNAL_COMMAND JOURNAL_OWNER"

lemma journal_tables_eq:
  "journal_rows t db = owner_rows JOURNAL_OWNER t db"
  "journal_publications t db = kind_publications JOURNAL_COMMAND t db"
  by (simp_all add: journal_rows_def owner_rows_def journal_publications_def kind_publications_def)

lemma foreign_step_journal:
  assumes "foreign_step db db'"
  shows "journal_rows t db' = journal_rows t db" and "journal_publications t db' = journal_publications t db"
    and "current_head t db \<le> current_head t db'"
  using foreign_change_tables [OF assms] by (simp_all add: same_tables_def journal_tables_eq)

lemma foreign_step_ok:
  assumes "journal_tables_ok d db" and "foreign_step db db'"
  shows "journal_tables_ok d db'"
  using assms(1) foreign_step_journal [OF assms(2)] foreign_change_ledger [OF _ assms(2)]
  by (simp add: journal_tables_ok_def)

section \<open>The adapter implements the port\<close>

lemma sqlite_publish_ok:
  assumes "journal_tables_ok d db" and "sqlite_journal_publish d m token observer j r h g db = (res, db')"
  shows "journal_tables_ok d db'"
  using assms(2) by (cases rule: sqlite_publish_cases) (use assms(1) journal_tables_committed in auto)

interpretation sj: journal_store "sqlite_journal_snapshot d j" "sqlite_journal_publish d m token observer j"
    foreign_step "journal_tables_ok d" "\<lambda>db t. current_head t db" "journal_log d"
  for d j m token observer
proof unfold_locales
  fix db t s
  assume "journal_tables_ok d db" and "sqlite_journal_snapshot d j db t = Inr s"
  then show "s = \<lparr>sp_head = current_head t db, sp_records = journal_log d db t\<rparr>"
    by (rule sqlite_snapshot_sound)
next
  fix db r h g res db'
  assume ok: "journal_tables_ok d db" and p: "sqlite_journal_publish d m token observer j r h g db = (res, db')"
  show "journal_tables_ok d db'"
    using ok p by (rule sqlite_publish_ok)
  show "(res \<noteq> Inr J_COMMITTED \<and> (\<lambda>t. current_head t db') = (\<lambda>t. current_head t db) \<and> journal_log d db' = journal_log d db)
      \<or> (current_head (jr_tenant r) db = h \<and> g = None
          \<and> jr_record_id r \<notin> jr_record_id ` set (journal_log d db (jr_tenant r))
          \<and> (\<lambda>t. current_head t db') = (\<lambda>t. current_head t db)(jr_tenant r := Suc h)
          \<and> journal_log d db' = (journal_log d db)(jr_tenant r := journal_log d db (jr_tenant r) @ [r]))"
    using ok p by (rule sqlite_publish_effect)
next
  fix db db' t
  assume ok: "journal_tables_ok d db" and step: "foreign_step db db'"
  show "journal_tables_ok d db'"
    using ok step by (rule foreign_step_ok)
  show "current_head t db \<le> current_head t db' \<and> journal_log d db' = journal_log d db"
    using foreign_step_journal [OF step] by (auto simp: journal_log_def)
qed

section \<open>Reading back\<close>

lemma decode_row_bound:
  assumes "codec_ok d" and "row_bound d t row p"
    and "map_of bindings (rr_record_id row) = Some (pb_idempotency_key p, pb_request_fingerprint p)"
  shows "journal_decode_row d t bindings row acc
     = Inr (acc @ [the (parse_journal_record d (rr_canonical_bytes row))])"
  using assms by (auto simp: journal_decode_row_def row_bound_def codec_ok_def)

lemma decode_rows_bound:
  assumes "codec_ok d" and "list_all2 (row_bound d t) rows ps"
    and "\<forall>(row, p) \<in> set (zip rows ps).
       map_of bindings (rr_record_id row) = Some (pb_idempotency_key p, pb_request_fingerprint p)"
  shows "rfold (journal_decode_row d t bindings) rows acc
     = Inr (acc @ map (\<lambda>row. the (parse_journal_record d (rr_canonical_bytes row))) rows)"
  using assms(2,3)
proof (induction rows ps arbitrary: acc rule: list_all2_induct)
  case (Cons row rows p ps)
  then show ?case
    using decode_row_bound [OF assms(1) Cons.hyps(1)] by simp
qed simp

lemma bound_ids: "list_all2 (row_bound d t) rows ps \<Longrightarrow> map pb_record_ids ps = map rr_record_id rows"
  by (induction rule: list_all2_induct) (auto simp: row_bound_def)

text \<open>Under the adapter's fence the snapshot of a good store exists and shows the whole log.\<close>

lemma sqlite_snapshot_complete:
  assumes ok: "journal_tables_ok d db" and fence: "map_of (db_fences db) t = Some (sj_generation j, sj_frontier j)"
  shows "sqlite_journal_snapshot d j db t = Inr \<lparr>sp_head = current_head t db, sp_records = journal_log d db t\<rparr>"
proof -
  let ?rows = "journal_rows t db" and ?ps = "journal_publications t db"
  let ?b = "map (\<lambda>p. (pb_record_ids p, pb_idempotency_key p, pb_request_fingerprint p)) ?ps"
  have all: "list_all2 (row_bound d t) ?rows ?ps" and codec: "codec_ok d"
    and strict: "sorted_wrt (<) (map rr_commit_sequence ?rows)"
    using ok by (auto simp: journal_tables_ok_def)
  have ids: "map pb_record_ids ?ps = map rr_record_id ?rows" by (rule bound_ids [OF all])
  have distinct: "distinct (map rr_record_id ?rows)"
    using ok owner_ids_distinct by (simp add: journal_tables_ok_def journal_tables_eq)
  have bindings: "journal_bindings ?ps = ?b"
    unfolding journal_bindings_def using fold_update_fresh [of "[]" pb_record_ids ?ps] ids distinct by simp
  have keys: "map fst ?b = map rr_record_id ?rows"
    using ids by (simp add: comp_def)
  have lookup: "map_of ?b (rr_record_id row) = Some (pb_idempotency_key p, pb_request_fingerprint p)"
    if z: "(row, p) \<in> set (zip ?rows ?ps)" for row p
  proof -
    have "row_bound d t row p"
      using all z by (auto simp: list_all2_iff)
    then have "(rr_record_id row, pb_idempotency_key p, pb_request_fingerprint p) \<in> set ?b"
      using set_zip_rightD [OF z] by (force simp: row_bound_def)
    moreover have "distinct (map fst ?b)"
      unfolding keys by (rule distinct)
    ultimately show ?thesis by (rule map_of_is_SomeI [rotated])
  qed
  have "rfold (journal_decode_row d t ?b) ?rows [] = Inr (journal_log d db t)"
    using decode_rows_bound [OF codec all, of ?b "[]"] lookup by (auto simp: journal_log_def)
  moreover have "set (map fst ?b) = set (map rr_record_id ?rows)" "length ?b = length ?rows"
    unfolding keys by (simp_all only: length_map map_eq_imp_length_eq [OF ids])
  ultimately show ?thesis
    unfolding sqlite_journal_snapshot_def bindings sort_rows [OF strict] Let_def using fence by simp
qed

end
