(* ===== verification/Journal_Views.thy ===== *)
theory Journal_Views
  imports Journal_History
begin

text \<open>
  What the reads of the journal guarantee: the meet of the disclosure labels, the closure of a family
  as reachability along displayed candidates, and the bound and readability of a projection.
\<close>

section \<open>Disclosure\<close>

text \<open>What one source must satisfy, and what the accumulated restriction says about it.\<close>

definition source_bound :: "Claim \<Rightarrow> TrustedIngress \<Rightarrow> SourceReference \<Rightarrow> bool" where
  "source_bound claim identity source \<longleftrightarrow>
     source \<in> set (ti_sources identity) \<and> so_tenant_id source = ti_tenant identity
     \<and> (\<exists>p \<in> set (cm_provenance claim) \<inter> set (ti_items identity).
          pv_ingress_id p = so_record_id source \<and> pv_digest p = so_content_digest source)"

definition source_admits :: "string \<Rightarrow> SourceReference \<Rightarrow> bool" where
  "source_admits endpoint source \<longleftrightarrow>
     (case dl_value (so_label source) of
        DENY_ALL \<Rightarrow> False
      | ENDPOINT_RESTRICTED \<Rightarrow> endpoint \<in> set (dl_allowed_endpoints (so_label source))
      | UNRESTRICTED \<Rightarrow> True)"

definition passes :: "string \<Rightarrow> string set option \<times> bool \<Rightarrow> bool" where
  "passes endpoint acc \<longleftrightarrow> \<not> snd acc \<and> (case fst acc of None \<Rightarrow> True | Some a \<Rightarrow> endpoint \<in> a)"

lemma join_source_bound:
  assumes "join_source claim identity source acc = Inr acc'"
  shows "source_bound claim identity source"
    and "passes endpoint acc' \<longleftrightarrow> passes endpoint acc \<and> source_admits endpoint source"
proof -
  let ?m = "filter (\<lambda>p. pv_ingress_id p = so_record_id source) (cm_provenance claim)"
  have one: "length ?m = 1" "hd ?m \<in> set (ti_items identity)" "so_content_digest source = pv_digest (hd ?m)"
    and known: "source \<in> set (ti_sources identity)" "so_tenant_id source = ti_tenant identity"
    using assms by (auto simp: join_source_def Let_def split: if_splits prod.splits)
  have "hd ?m \<in> set ?m"
    using one(1) by (intro hd_in_set) auto
  then show "source_bound claim identity source"
    using one known by (auto simp: source_bound_def)
  show "passes endpoint acc' \<longleftrightarrow> passes endpoint acc \<and> source_admits endpoint source"
    using assms
    by (auto simp: join_source_def Let_def passes_def source_admits_def
        split: if_splits prod.splits LabelValue.splits option.splits)
qed

lemma join_sources_bound:
  assumes "rfold (join_source claim identity) sources acc = Inr acc'"
  shows "(\<forall>source \<in> set sources. source_bound claim identity source)
     \<and> (passes endpoint acc' \<longleftrightarrow> passes endpoint acc \<and> (\<forall>source \<in> set sources. source_admits endpoint source))"
  using assms
proof (induction sources arbitrary: acc)
  case (Cons source sources)
  then obtain acc1 where one: "join_source claim identity source acc = Inr acc1"
    and rest: "rfold (join_source claim identity) sources acc1 = Inr acc'"
    by (auto simp: rbind_eq_Inr)
  show ?case
    using Cons.IH [OF rest] join_source_bound(1) [OF one] join_source_bound(2) [OF one, of endpoint] by auto
qed simp

lemma disclosed_sources:
  assumes "disclosed d claim identity"
  shows "\<forall>source \<in> set (de_sources (cm_envelope claim)).
     source_bound claim identity source \<and> source_admits (ti_endpoint identity) source"
proof -
  from assms obtain allowed denied where
    fold: "rfold (join_source claim identity) (de_sources (cm_envelope claim)) (None, False) = Inr (allowed, denied)"
    and "expected_label allowed denied \<noteq> DENY_ALL" and "case allowed of None \<Rightarrow> True | Some a \<Rightarrow> ti_endpoint identity \<in> a"
    by (auto simp: disclosed_def Let_def split: sum.splits)
  then have "passes (ti_endpoint identity) (allowed, denied)"
    by (auto simp: passes_def expected_label_def split: if_splits)
  then show ?thesis
    using join_sources_bound [OF fold, of "ti_endpoint identity"] by simp
qed

section \<open>Families\<close>

text \<open>A record refers to the candidate it displays and to the candidates that one supersedes.\<close>

definition refers :: "JournalRecord list \<Rightarrow> (string \<times> string) set" where
  "refers records =
     {(jr_record_id r, x) | r display x. r \<in> set records \<and> jr_display r = Some display
        \<and> (x = ds_candidate_id display \<or> x \<in> set (ds_supersedes display))}"

lemma chosen_step_refers: "r \<in> set records \<Longrightarrow> chosen_step r chosen \<subseteq> chosen \<union> refers records `` chosen"
  by (auto simp: chosen_step_def refers_def split: option.splits)

lemma fold_chosen_reach:
  assumes "set rs \<subseteq> set records" and "chosen \<subseteq> (refers records)\<^sup>* `` start"
  shows "fold chosen_step rs chosen \<subseteq> (refers records)\<^sup>* `` start"
  using assms
proof (induction rs arbitrary: chosen)
  case (Cons r rs)
  have "chosen_step r chosen \<subseteq> (refers records)\<^sup>* `` start"
  proof
    fix x
    assume "x \<in> chosen_step r chosen"
    then consider "x \<in> chosen" | y where "y \<in> chosen" "(y, x) \<in> refers records"
      using chosen_step_refers [of r records chosen] Cons.prems(1) by auto
    then show "x \<in> (refers records)\<^sup>* `` start"
      using Cons.prems(2) by cases (auto intro: rtrancl.rtrancl_into_rtrancl)
  qed
  with Cons show ?case by simp
qed simp

lemma chosen_pass_stable:
  assumes "chosen_pass records chosen = chosen"
  shows "refers records `` chosen \<subseteq> chosen"
proof -
  have sub: "chosen_step r chosen \<subseteq> chosen_pass records chosen" if r: "r \<in> set records" for r
  proof -
    obtain xs ys where rs: "records = xs @ r # ys"
      using split_list [OF r] by blast
    have "chosen \<subseteq> fold chosen_step xs chosen"
      using fold_chosen_bounds [of xs records chosen] rs by auto
    then have "chosen_step r chosen \<subseteq> chosen_step r (fold chosen_step xs chosen)"
      by (auto simp: chosen_step_def split: option.splits)
    also have "\<dots> \<subseteq> fold chosen_step ys (chosen_step r (fold chosen_step xs chosen))"
      using fold_chosen_bounds [of ys records] rs by auto
    finally show ?thesis
      by (simp add: chosen_pass_def rs)
  qed
  show ?thesis
    using sub assms by (fastforce simp: refers_def chosen_step_def)
qed

lemma closure_loop_reach:
  "chosen \<subseteq> (refers records)\<^sup>* `` start \<Longrightarrow> start \<subseteq> chosen \<Longrightarrow>
     closure_loop records chosen = (refers records)\<^sup>* `` start"
proof (induction records chosen rule: closure_loop.induct)
  case (1 records chosen)
  let ?grown = "chosen_pass records chosen"
  have up: "?grown \<subseteq> (refers records)\<^sup>* `` start"
    using fold_chosen_reach [OF subset_refl "1.prems"(1)] by (simp add: chosen_pass_def)
  have down: "start \<subseteq> ?grown"
    using "1.prems"(2) chosen_pass_bounds(1) by blast
  show ?case
  proof (cases "?grown = chosen")
    case True
    have closed: "refers records `` chosen \<subseteq> chosen"
      using True by (rule chosen_pass_stable)
    have "(refers records)\<^sup>* `` start \<subseteq> chosen"
      using Image_closed_trancl [OF closed] "1.prems"(2) by blast
    then show ?thesis
      using True "1.prems"(1) by (subst closure_loop.simps) (simp add: Let_def)
  next
    case False
    then show ?thesis
      using "1.IH" [OF refl False up down] by (subst closure_loop.simps) (simp add: Let_def)
  qed
qed

lemma closure_reach:
  "r \<in> set (closure records family) \<longleftrightarrow>
     r \<in> set records
     \<and> (\<exists>r0 \<in> set records. jr_family r0 = family \<and> (jr_record_id r0, jr_record_id r) \<in> (refers records)\<^sup>*)"
proof -
  have "closure_loop records (set (map jr_record_id (filter (\<lambda>r. jr_family r = family) records)))
      = (refers records)\<^sup>* `` set (map jr_record_id (filter (\<lambda>r. jr_family r = family) records))"
    by (rule closure_loop_reach) auto
  then show ?thesis
    by (auto simp: closure_def Let_def)
qed

section \<open>Projection\<close>

definition view_row_ok ::
  "JournalCodec \<Rightarrow> TrustedIngress \<Rightarrow> JournalRecord list \<Rightarrow> JournalRow \<Rightarrow> bool" where
  "view_row_ok d identity records row \<longleftrightarrow>
     jw_lineage row = closure records (jr_family (jw_record row))
     \<and> (\<forall>r \<in> set (jw_lineage row). jr_principal r = ti_principal identity
          \<and> (\<forall>source \<in> set (de_sources (cm_envelope (jr_claim r))).
               source_bound (jr_claim r) identity source \<and> source_admits (ti_endpoint identity) source))"

lemma project_row_ok:
  assumes "project_row d identity q records current r rows = Inr rows'"
  obtains row where "rows' = rows @ [row]" and "jw_record row = r" and "view_row_ok d identity records row"
    and "lineage_total rows' \<le> jq_max_rows q"
proof -
  let ?row = "\<lparr>jw_record = r, jw_status = row_status current r,
     jw_current_positive = (jr_kind r \<noteq> CANDIDATE_EVIDENCE \<and> jr_operation r \<noteq> RETRACT
        \<and> row_status current r \<noteq> DISPUTED), jw_lineage = closure records (jr_family r)\<rparr>"
  have "rows' = rows @ [?row]" and read: "readable d identity (closure records (jr_family r))"
    and "lineage_total rows + length (closure records (jr_family r)) \<le> jq_max_rows q"
    using assms by (auto simp: project_row_def Let_def split: if_splits)
  moreover have "view_row_ok d identity records ?row"
    using read disclosed_sources [of d _ identity]
    unfolding view_row_ok_def readable_def list_all_iff by (metis JournalRow.select_convs(1,4))
  ultimately show thesis
    by (intro that [of ?row]) (simp_all add: lineage_total_def)
qed

lemma project_rows_ok:
  assumes "rfold (project_row d identity q records current) rs acc = Inr rows"
    and "lineage_total acc \<le> jq_max_rows q" and "\<forall>row \<in> set acc. view_row_ok d identity records row"
  shows "map jw_record rows = map jw_record acc @ rs \<and> lineage_total rows \<le> jq_max_rows q
     \<and> (\<forall>row \<in> set rows. view_row_ok d identity records row)"
  using assms
proof (induction rs arbitrary: acc)
  case (Cons r rs)
  then obtain acc1 where one: "project_row d identity q records current r acc = Inr acc1"
    and rest: "rfold (project_row d identity q records current) rs acc1 = Inr rows"
    by (auto simp: rbind_eq_Inr)
  from one obtain row where row: "acc1 = acc @ [row]" "jw_record row = r" "view_row_ok d identity records row"
    "lineage_total acc1 \<le> jq_max_rows q"
    by (rule project_row_ok)
  have "\<forall>row \<in> set acc1. view_row_ok d identity records row"
    using row(1,3) Cons.prems(3) by simp
  from Cons.IH [OF rest row(4) this] show ?case
    unfolding row(1) by (simp add: row(2))
qed simp

text \<open>The rows a current view shows: a page of the current records, in order.\<close>

definition page :: "JournalQuery \<Rightarrow> string \<Rightarrow> JournalRecord list \<Rightarrow> JournalRecord list" where
  "page q speaker records =
     take (jq_max_rows q) (filter (\<lambda>r. case jq_after_id q of None \<Rightarrow> True | Some i \<Rightarrow> i < jr_record_id r)
       (current_records q speaker records))"

lemma project_current:
  assumes "vw_disposition (project d auth1 auth2 q snapshot head2) = V_CURRENT"
  obtains identity where "auth1 = Some identity" and "auth2 = Some identity"
    and "ti_tenant identity = jq_tenant q" and "ti_heads identity = jq_expected_heads q"
    and "head2 = sp_head snapshot" and "sp_head snapshot = he_journal (jq_expected_heads q)"
    and "rfold (project_row d identity q (sp_records snapshot)
            (current_records q (ti_principal identity) (sp_records snapshot)))
          (page q (ti_principal identity) (sp_records snapshot)) []
        = Inr (vw_rows (project d auth1 auth2 q snapshot head2))"
proof -
  have no: "vw_disposition (empty_view x h) = x" for x h
    by (simp add: empty_view_def)
  have bad: "e \<noteq> V_CURRENT" if "rfold (project_row d identity q records current) rs acc = Inl e"
    for e identity records current rs acc
    using that
    by (induction rs arbitrary: acc) (auto simp: rbind_eq_Inl project_row_def Let_def split: if_splits)
  obtain identity where i: "auth1 = Some identity"
    using assms no by (cases auth1) (auto simp: project_def split: if_splits)
  let ?f = "rfold (project_row d identity q (sp_records snapshot)
            (current_records q (ti_principal identity) (sp_records snapshot)))
          (page q (ti_principal identity) (sp_records snapshot)) []"
  have page: "(case jq_after_id q of None \<Rightarrow> xs | Some i \<Rightarrow> filter (\<lambda>r. i < jr_record_id r) xs)
      = filter (\<lambda>r. case jq_after_id q of None \<Rightarrow> True | Some i \<Rightarrow> i < jr_record_id r) xs" for xs
    by (cases "jq_after_id q") simp_all
  obtain rows where rows: "?f = Inr rows"
    using assms i no bad
    by (auto simp: project_def Let_def page page_def split: if_splits sum.splits)
  show thesis
    using assms i no rows
    by (intro that [OF i]) (auto simp: project_def Let_def page page_def split: if_splits)
qed

end
