(* ===== verification/Journal_Properties.thy ===== *)
theory Journal_Properties
  imports Journal_Sqlite Journal_Views Store_Properties
begin

text \<open>
  The correctness statements of the evidence journal. The sample codec encodes a record as a JSON
  array of its fields; the sample journal has one tenant who reports one completed occurrence.
\<close>

section \<open>A sample codec\<close>

definition wj_label :: "DisclosureLabel \<Rightarrow> json" where
  "wj_label l = JArr [JInt (case dl_value l of UNRESTRICTED \<Rightarrow> 0 | ENDPOINT_RESTRICTED \<Rightarrow> 1 | DENY_ALL \<Rightarrow> 2),
     JArr (map JStr (dl_allowed_endpoints l))]"

definition wj_source :: "SourceReference \<Rightarrow> json" where
  "wj_source s = JArr [JStr (so_tenant_id s), JStr (so_owner s), JStr (so_record_id s), JStr (so_record_version s),
     JStr (so_content_digest s), JStr (so_label_head s), wj_label (so_label s)]"

definition wj_envelope :: "DisclosureEnvelope \<Rightarrow> json" where
  "wj_envelope e = JArr [JStr (de_tenant_id e), JStr (de_content_digest e), JArr (map wj_source (de_sources e)),
     wj_label (de_label e), JStr (de_policy_head e), JStr (de_contour_head e), JStr (de_deletion_fence_head e)]"

definition wj_payload :: "Payload \<Rightarrow> json" where
  "wj_payload p = JArr [JStr (pl_date p), JBool (pl_outcome p = COMPLETED)]"

definition wj_provenance :: "Provenance \<Rightarrow> json" where
  "wj_provenance p = JArr [JStr (pv_ingress_id p), JInt (int (pv_ingress_version p)), JStr (pv_utterance p),
     JStr (pv_digest p), JInt (case pv_source p of PRINCIPAL \<Rightarrow> 0 | MODEL \<Rightarrow> 1 | PROVIDER \<Rightarrow> 2)]"

definition wj_claim_content :: "Claim \<Rightarrow> json" where
  "wj_claim_content c = JArr [JStr (cm_subject c), wj_payload (cm_payload c), JArr (map wj_provenance (cm_provenance c))]"

definition wj_claim :: "Claim \<Rightarrow> json" where
  "wj_claim c = JArr [wj_claim_content c, wj_envelope (cm_envelope c)]"

definition wj_heads :: "Heads \<Rightarrow> json" where
  "wj_heads h = JArr [JInt (int (he_journal h)), JStr (he_policy h), JStr (he_credential h), JStr (he_session h),
     JStr (he_contour h), JStr (he_deletion h)]"

definition wj_operation :: "JournalOperation \<Rightarrow> json" where
  "wj_operation x = JStr (operation_name x)"

definition wj_display_content :: "Display \<Rightarrow> json" where
  "wj_display_content x = JArr [JStr (ds_tenant x), JStr (ds_principal x), JStr (ds_candidate_id x),
     JInt (int (ds_candidate_version x)), JStr (ds_interpretation x), wj_claim (ds_claim x),
     JStr (ds_consequence x), wj_heads (ds_heads x), json_opt JStr (ds_predecessor x),
     wj_operation (ds_operation x), JArr (map JStr (ds_supersedes x))]"

definition wj_display :: "Display \<Rightarrow> json" where
  "wj_display x = JArr [wj_display_content x, JStr (ds_digest x)]"

definition wj_command :: "Command \<Rightarrow> json" where
  "wj_command c = JArr [JStr (jc_command_id c), JStr (jc_tenant c), JStr (jc_principal c),
     JInt (case jc_action c of RECORD_FACT \<Rightarrow> 0 | CORRECT_CLAIM \<Rightarrow> 1 | RETRACT_CLAIM \<Rightarrow> 2 | CONFIRM_CANDIDATE \<Rightarrow> 3),
     wj_claim (jc_claim c), wj_heads (jc_heads c), json_opt JStr (jc_predecessor c),
     json_opt wj_display (jc_display c), JArr (map JStr (jc_supersedes c))]"

definition wj_record :: "JournalRecord \<Rightarrow> json" where
  "wj_record r = JArr [JStr (jr_record_id r), JStr (jr_tenant r), JStr (jr_principal r),
     JInt (case jr_kind r of FACT_CLAIM \<Rightarrow> 0 | CLAIM_DISPOSITION \<Rightarrow> 1 | CANDIDATE_EVIDENCE \<Rightarrow> 2),
     JStr (jr_family r), json_opt JStr (jr_predecessor r), wj_operation (jr_operation r),
     wj_claim (jr_claim r), json_opt wj_display (jr_display r), JStr (jr_command_id r),
     JStr (jr_fingerprint r), JArr (map (\<lambda>(k, b). JArr [JStr k, JBool b]) (jr_positive_proof r))]"

lemma json_opt_eq: "(\<And>x y. f x = f y \<longleftrightarrow> x = y) \<Longrightarrow> (\<And>x. f x \<noteq> JNull) \<Longrightarrow> json_opt f a = json_opt f b \<longleftrightarrow> a = b"
  by (cases a; cases b) (simp_all add: json_opt_def, metis)

lemma map_json_eq: "(\<And>x y. f x = f y \<longleftrightarrow> x = y) \<Longrightarrow> map f xs = map f ys \<longleftrightarrow> xs = ys"
  by (rule inj_map_eq_map) (simp add: inj_def)

lemma wj_label_eq: "wj_label a = wj_label b \<longleftrightarrow> a = b"
  by (cases a; cases b) (simp add: wj_label_def map_json_eq split: LabelValue.splits)

lemma wj_source_eq: "wj_source a = wj_source b \<longleftrightarrow> a = b"
  by (cases a; cases b) (simp add: wj_source_def wj_label_eq)

lemma wj_envelope_eq: "wj_envelope a = wj_envelope b \<longleftrightarrow> a = b"
  by (cases a; cases b) (simp add: wj_envelope_def wj_label_eq map_json_eq [OF wj_source_eq])

lemma wj_payload_eq: "wj_payload a = wj_payload b \<longleftrightarrow> a = b"
proof -
  have "(x = COMPLETED) = (y = COMPLETED) \<longleftrightarrow> x = y" for x y
    by (cases x; cases y) simp_all
  then show ?thesis
    by (cases a; cases b) (simp add: wj_payload_def)
qed

lemma wj_provenance_eq: "wj_provenance a = wj_provenance b \<longleftrightarrow> a = b"
  by (cases a; cases b) (simp add: wj_provenance_def split: ProvenanceSource.splits)

lemma wj_claim_eq: "wj_claim a = wj_claim b \<longleftrightarrow> a = b"
  by (cases a; cases b)
    (simp add: wj_claim_def wj_claim_content_def wj_envelope_eq wj_payload_eq map_json_eq [OF wj_provenance_eq])

lemma wj_heads_eq: "wj_heads a = wj_heads b \<longleftrightarrow> a = b"
  by (cases a; cases b) (simp add: wj_heads_def)

lemma wj_operation_eq: "wj_operation a = wj_operation b \<longleftrightarrow> a = b"
  by (cases a; cases b) (simp_all add: wj_operation_def)

lemma wj_display_eq: "wj_display a = wj_display b \<longleftrightarrow> a = b"
  by (cases a; cases b)
    (auto simp: wj_display_def wj_display_content_def wj_claim_eq wj_heads_eq wj_operation_eq json_opt_eq map_json_eq)

lemma wj_record_eq: "wj_record a = wj_record b \<longleftrightarrow> a = b"
proof -
  have "(\<lambda>(k, b). JArr [JStr k, JBool b]) x = (\<lambda>(k, b). JArr [JStr k, JBool b]) y \<longleftrightarrow> x = y" for x y
    by (cases x; cases y) simp
  note proof_eq = map_json_eq [of "\<lambda>(k, b). JArr [JStr k, JBool b]", OF this]
  have display: "json_opt wj_display x = json_opt wj_display y \<longleftrightarrow> x = y" for x y
    by (rule json_opt_eq) (simp_all add: wj_display_eq, simp add: wj_display_def)
  show ?thesis
    by (cases a; cases b)
      (auto simp: wj_record_def wj_claim_eq wj_operation_eq display proof_eq json_opt_eq split: JournalKind.splits)
qed

lemmas wj_defs = wj_record_def wj_display_def wj_display_content_def wj_claim_def wj_claim_content_def
  wj_heads_def wj_operation_def wj_provenance_def wj_payload_def wj_envelope_def wj_source_def wj_label_def

lemma wj_norm: "json_norm (wj_record r) = wj_record r"
  by (auto simp: wj_defs json_opt_def comp_def split: option.splits intro!: map_idI)

definition wj_codec :: JournalCodec where
  "wj_codec = \<lparr>dump_claim = wj_claim, dump_claim_content = wj_claim_content,
     dump_display_content = wj_display_content, dump_journal_command = wj_command,
     dump_journal_record = wj_record, revalidate = Some,
     parse_journal_record = (\<lambda>payload. if payload \<in> range (\<lambda>r. canonical_json (wj_record r))
        then Some (the_inv (\<lambda>r. canonical_json (wj_record r)) payload) else None)\<rparr>"

lemma wj_codec_ok: "codec_ok wj_codec"
proof -
  have "inj (\<lambda>r. canonical_json (wj_record r))"
    by (rule injI) (metis canonical_json_inj wj_norm wj_record_eq)
  then have "the_inv (\<lambda>r. canonical_json (wj_record r)) (canonical_json (wj_record r)) = r" for r
    by (rule the_inv_f_f)
  then show ?thesis
    by (simp add: codec_ok_def wj_codec_def journal_canonical_bytes_def)
qed

section \<open>A sample journal\<close>

definition wj_item :: Provenance where
  "wj_item = (let utterance = utterance_prefix @ ''a1 2026-01-02.'' in
     \<lparr>pv_ingress_id = ''i1'', pv_ingress_version = 1, pv_utterance = utterance,
      pv_digest = sha256_hex (encode utterance), pv_source = PRINCIPAL\<rparr>)"

definition wj_source_ref :: SourceReference where
  "wj_source_ref = \<lparr>so_tenant_id = ''t'', so_owner = ''ingress'', so_record_id = ''i1'', so_record_version = ''1'',
     so_content_digest = pv_digest wj_item, so_label_head = ''l'',
     so_label = \<lparr>dl_value = ENDPOINT_RESTRICTED, dl_allowed_endpoints = [''e1'', ''e2'']\<rparr>\<rparr>"

definition wj_body :: "string \<Rightarrow> Claim" where
  "wj_body content = \<lparr>cm_subject = ''a1'', cm_payload = \<lparr>pl_date = ''2026-01-02'', pl_outcome = COMPLETED\<rparr>,
     cm_provenance = [wj_item],
     cm_envelope = \<lparr>de_tenant_id = ''t'', de_content_digest = content, de_sources = [wj_source_ref],
       de_label = so_label wj_source_ref, de_policy_head = ''p'', de_contour_head = ''c'',
       de_deletion_fence_head = ''g1''\<rparr>\<rparr>"

definition wj_report :: Claim where
  "wj_report = wj_body (claim_digest wj_codec (wj_body []))"

definition wj_now :: Heads where
  "wj_now = \<lparr>he_journal = 0, he_policy = ''p'', he_credential = ''k'', he_session = ''s'', he_contour = ''c'',
     he_deletion = ''g1''\<rparr>"

definition wj_identity :: TrustedIngress where
  "wj_identity = \<lparr>ti_tenant = ''t'', ti_principal = ''u'', ti_heads = wj_now, ti_items = [wj_item],
     ti_sources = [wj_source_ref], ti_endpoint = ''e1'', ti_confirmations = []\<rparr>"

definition wj_direct :: Command where
  "wj_direct = \<lparr>jc_command_id = ''c1'', jc_tenant = ''t'', jc_principal = ''u'', jc_action = RECORD_FACT,
     jc_claim = wj_report, jc_heads = wj_now, jc_predecessor = None, jc_display = None, jc_supersedes = []\<rparr>"

lemma wj_disclosed: "disclosed wj_codec wj_report wj_identity"
proof -
  have "claim_digest wj_codec wj_report = claim_digest wj_codec (wj_body [])"
    by (simp add: wj_report_def claim_digest_def wj_codec_def wj_claim_content_def wj_body_def)
  then have "envelope_bound wj_codec wj_report wj_identity"
    by (simp add: envelope_bound_def wj_report_def wj_body_def wj_identity_def wj_now_def wj_source_ref_def
        wj_item_def Let_def)
  moreover have "nat_str 1 = ''1''"
    by code_simp
  ultimately show ?thesis
    by (simp add: disclosed_def join_source_def wj_report_def wj_body_def wj_identity_def wj_source_ref_def
        wj_item_def expected_label_def sorted_set_def Let_def)
qed

lemma wj_proof: "proof_valid wj_report wj_identity"
proof -
  have "match_utterance (utterance_prefix @ ''a1 2026-01-02.'') = Some (''a1'', ''2026-01-02'')"
    by (simp add: match_utterance_def Let_def id_char_def digit_def)
  moreover have "iso_date ''2026-01-02''"
    by (simp add: iso_date_def digits_nat_def days_in_month_def Let_def)
  ultimately show ?thesis
    by (simp add: proof_valid_def wj_report_def wj_body_def wj_item_def wj_identity_def Let_def)
qed

definition wj_journal :: SQLiteJournal where
  "wj_journal = \<lparr>sj_generation = ''g1'', sj_frontier = 5, sj_fault = NO_FAULT\<rparr>"

definition wj_materializer :: Materializer where
  "wj_materializer = wit_materializer\<lparr>mt_record_pairs := [(JOURNAL_OWNER, JOURNAL_SCHEMA)]\<rparr>"

definition wj_fact :: JournalRecord where
  "wj_fact = projr (execute_decision wj_codec wj_identity (Some wj_identity) wj_direct
     \<lparr>sp_head = 0, sp_records = []\<rparr>)"

lemma wj_guard: "journal_guard wj_codec (Some wj_identity) wj_direct = None"
  using wj_disclosed
  by (simp add: journal_guard_def journal_identity_def wj_identity_def wj_direct_def)

lemma wj_decided:
  "execute_decision wj_codec wj_identity (Some wj_identity) wj_direct \<lparr>sp_head = 0, sp_records = []\<rparr> = Inr wj_fact"
proof -
  have "admit_command wj_codec (Some wj_identity) wj_direct \<lparr>sp_head = 0, sp_records = []\<rparr> = None"
    by (simp add: admit_command_def wj_guard journal_replay_def) (simp add: wj_direct_def wj_now_def)
  moreover have "execute_operation wj_codec wj_identity wj_direct \<lparr>sp_head = 0, sp_records = []\<rparr> = Inr RECORD"
    using wj_proof by (simp add: execute_operation_def positive_proof_def wj_direct_def list_all_iff)
  ultimately have "\<exists>r. execute_decision wj_codec wj_identity (Some wj_identity) wj_direct
      \<lparr>sp_head = 0, sp_records = []\<rparr> = Inr r"
    by (simp add: execute_decision_def valid_supersession_def wj_direct_def Let_def)
  then show ?thesis by (auto simp: wj_fact_def)
qed

lemma claim_record_id:
  "execute_decision d identity auth2 c s = Inr r \<Longrightarrow> starts_with (jr_record_id r) ''journal:claim:''"
  by (auto simp: execute_decision_def starts_with_def Let_def result_simps split: option.splits if_splits)

lemma wj_fact_fields:
  "jr_tenant wj_fact = ''t''" "jr_command_id wj_fact = ''c1''" "starts_with (jr_record_id wj_fact) ''journal:claim:''"
proof -
  have "jr_tenant wj_fact = ''t'' \<and> jr_command_id wj_fact = ''c1''"
    using wj_decided by (rule execute_decision_parts) (simp add: wj_direct_def)
  then show "jr_tenant wj_fact = ''t''" "jr_command_id wj_fact = ''c1''" by simp_all
  show "starts_with (jr_record_id wj_fact) ''journal:claim:''"
    using wj_decided by (rule claim_record_id)
qed

lemma wj_tables: "journal_tables_ok wj_codec wit_fenced"
  using wj_codec_ok reachable_ledger_ok [OF wit_reachable]
  by (simp add: journal_tables_ok_def wit_fenced_eq journal_rows_def journal_publications_def empty_database_def)

lemma wj_snapshot:
  "sqlite_journal_snapshot wj_codec wj_journal wit_fenced ''t'' = Inr \<lparr>sp_head = 0, sp_records = []\<rparr>"
  using sqlite_snapshot_complete [OF wj_tables, of "''t''" wj_journal]
  by (simp add: wj_journal_def wit_fenced_eq journal_log_def journal_rows_def empty_database_def current_head_def)

definition wj_committed :: Database where
  "wj_committed = committed (journal_physical wj_codec wj_journal wj_fact 0 None) wit_fenced"

lemma wj_published:
  "sqlite_journal_publish wj_codec wj_materializer 7 None wj_journal wj_fact 0 None wit_fenced
     = (Inr J_COMMITTED, wj_committed)"
proof -
  have "\<not> starts_with (jr_record_id wj_fact) ''delivery-work:''"
    using wj_fact_fields(3) by (cases "jr_record_id wj_fact") (auto simp: starts_with_def)
  then show ?thesis
    by (simp add: sqlite_journal_publish_def observed_command_def wj_committed_def journal_physical_def
      wj_fact_fields(1,2) wj_journal_def wj_materializer_def wit_materializer_def wit_fenced_eq publish_eval
      JOURNAL_COMMAND_def JOURNAL_OWNER_def JOURNAL_SCHEMA_def committed_def record_row_def)
qed

lemma wj_executed:
  "journal_execute wj_codec (sqlite_journal_snapshot wj_codec wj_journal)
     (sqlite_journal_publish wj_codec wj_materializer 7 None wj_journal)
     (Some wj_identity) (Some wj_identity) (Some wj_identity) wj_direct wit_fenced wit_fenced
   = (Inr \<lparr>oc_disposition = J_COMMITTED, oc_record = Some wj_fact, oc_reason = None\<rparr>, wj_committed)"
proof -
  have "journal_identity (Some wj_identity) wj_direct = Some wj_identity" "jc_tenant wj_direct = ''t''"
    "jc_claim wj_direct = wj_report" "revalidate wj_codec wj_direct = Some wj_direct"
    by (simp_all add: journal_identity_def wj_identity_def wj_direct_def wj_codec_def)
  then show ?thesis
    using wj_disclosed wj_guard wj_snapshot wj_decided wj_published
    by (simp add: journal_execute_def journal_run_def journal_submit_def)
qed

abbreviation wj_history :: "Database \<Rightarrow> Database set \<Rightarrow> bool" where
  "wj_history \<equiv> journal_history (sqlite_journal_snapshot wj_codec wj_journal)
     (sqlite_journal_publish wj_codec wj_materializer 7 None wj_journal) foreign_step wj_codec (empty_database 0)"

lemma wj_history_fenced: "wj_history wit_fenced {wit_fenced, empty_database 0}"
proof -
  have "foreign_step (empty_database 0) wit_fenced"
    unfolding foreign_change_def wit_fenced_def by (intro exI conjI) (rule foreign_command.simps(4) [THEN iffD2, OF TrueI], rule refl)
  then show ?thesis
    by (rule journal_history.others [OF journal_history.start])
qed

lemma wj_history_committed: "wj_history wj_committed {wj_committed, wit_fenced, empty_database 0}"
  by (rule journal_history.executes [OF wj_history_fenced _ wj_executed]) simp

lemma wj_committed_eq:
  "map_of (db_fences wj_committed) ''t'' = Some (sj_generation wj_journal, sj_frontier wj_journal)"
  "current_head ''t'' wj_committed = 1" "journal_log wj_codec wj_committed ''t'' = [wj_fact]"
proof -
  have "journal_rows ''t'' wj_committed = journal_rows ''t'' wit_fenced
      @ [\<lparr>rr_tenant_id = ''t'', rr_record_id = jr_record_id wj_fact, rr_owner = JOURNAL_OWNER,
          rr_schema_id = JOURNAL_SCHEMA, rr_canonical_bytes = journal_canonical_bytes wj_codec wj_fact,
          rr_commit_sequence = Suc (current_head ''t'' wit_fenced)\<rparr>]"
    using journal_rows_committed [of "''t''" None wj_codec wj_journal wj_fact 0 None wit_fenced]
    by (simp add: wj_committed_def observed_command_def wj_fact_fields)
  then show "journal_log wj_codec wj_committed ''t'' = [wj_fact]"
    using wj_codec_ok by (simp add: journal_log_def codec_ok_def wit_fenced_eq journal_rows_def empty_database_def)
  show "map_of (db_fences wj_committed) ''t'' = Some (sj_generation wj_journal, sj_frontier wj_journal)"
    by (simp add: wj_committed_def committed_tables wit_fenced_eq wj_journal_def)
  show "current_head ''t'' wj_committed = 1"
    unfolding wj_committed_def current_head_committed
    by (simp add: journal_physical_def wj_fact_fields wit_fenced_eq current_head_def empty_database_def Let_def)
qed

lemma execute_fingerprint:
  "execute_decision d identity auth2 c s = Inr r \<Longrightarrow> jr_fingerprint r = command_digest d c"
  by (auto simp: execute_decision_def Let_def result_simps split: option.splits if_splits)

section \<open>Lineages\<close>

lemma empty_tables_ok: "codec_ok d \<Longrightarrow> journal_tables_ok d (empty_database profile)"
  using reachable_ledger_ok [OF store_reachable.empty]
  by (simp add: journal_tables_ok_def journal_rows_def journal_publications_def empty_database_def)

lemma history_tables:
  assumes "codec_ok d"
    and "journal_history (sqlite_journal_snapshot d j) (sqlite_journal_publish d m token observer j) foreign_step d
           (empty_database profile) db visited"
  shows "journal_tables_ok d db \<and> journal_ok (journal_log d db t)"
  using sj.history_invariant [OF assms(2) empty_tables_ok [OF assms(1)]]
  by (simp add: sj.invariant_def journal_log_def journal_rows_def empty_database_def)

text \<open>
  C20: Claim lineages never fork. Clients prepare and execute journal commands on snapshots that may be
  stale while other owners use the same database, and writes may be lost or cut off by faults. Still,
  in every snapshot the adapter returns, record and command identities are unique; every disposition
  names an earlier non-candidate record of the same principal, subject and family; and no two
  dispositions name the same predecessor.
\<close>

theorem journal_lineages_linear:
  assumes "codec_ok d"
    and "journal_history (sqlite_journal_snapshot d j) (sqlite_journal_publish d m token observer j) foreign_step d
           (empty_database profile) db visited"
    and "sqlite_journal_snapshot d j db tenant = Inr s"
  shows "journal_ok (sp_records s) \<and> distinct (map jr_command_id (sp_records s))
    \<and> distinct (map jr_predecessor (filter (\<lambda>r. jr_kind r = CLAIM_DISPOSITION) (sp_records s)))"
proof -
  have "journal_ok (sp_records s)"
    using history_tables [OF assms(1,2), of tenant] sqlite_snapshot_sound [OF _ assms(3)] by simp
  then show ?thesis
    using journal_ok_commands journal_ok_dispositions by blast
qed

theorem journal_lineages_linear_witness:
  "\<exists>s. sqlite_journal_snapshot wj_codec wj_journal wj_committed ''t'' = Inr s \<and> sp_records s \<noteq> []
     \<and> journal_ok (sp_records s)"
proof -
  obtain s where s: "sqlite_journal_snapshot wj_codec wj_journal wj_committed ''t'' = Inr s" "sp_records s \<noteq> []"
    using sqlite_snapshot_complete [of wj_codec wj_committed "''t''" wj_journal]
      history_tables [OF wj_codec_ok wj_history_committed, of "''t''"] by (simp add: wj_committed_eq)
  then show ?thesis
    using journal_lineages_linear [OF wj_codec_ok wj_history_committed s(1)] by blast
qed

lemma preflight_fence:
  "publish_preflight m token c db = Inr True \<Longrightarrow>
     map_of (db_fences db) (pc_tenant_id c) = Some (pc_fence_generation c, pc_expected_fence_frontier c)"
  by (auto simp: publish_preflight_def require_fence_def result_simps split: if_splits option.splits)

lemma committed_fence:
  assumes "sqlite_journal_publish d m token observer j r h g db = (Inr J_COMMITTED, db')"
  shows "map_of (db_fences db) (jr_tenant r) = Some (sj_generation j, sj_frontier j)" and "db_fences db' = db_fences db"
proof -
  let ?c = "observed_command observer (journal_physical d j r h g)"
  obtain pres where p: "publish m token ?c None db = (pres, db')"
    and "\<exists>v. pres = Inr v \<and> journal_disposition (pu_disposition v) = J_COMMITTED"
    using assms by (auto simp: sqlite_journal_publish_def split: prod.splits sum.splits)
  then obtain v where "pres = Inr v" "pu_disposition v = D_COMMITTED"
    by (metis journal_disposition.cases journal_disposition.simps JournalDisposition.distinct)
  with p have pre: "publish_preflight m token ?c db = Inr True" and db': "db' = committed ?c db"
    by (cases rule: publish_cases; auto)+
  show "map_of (db_fences db) (jr_tenant r) = Some (sj_generation j, sj_frontier j)" "db_fences db' = db_fences db"
    using preflight_fence [OF pre] db' by (simp_all add: journal_physical_def Let_def committed_tables)
qed

text \<open>
  C21: What a commit writes is what the next snapshot reads. When publishing reports COMMITTED, the
  tenant's snapshot existed at the expected head, afterwards it is the same log with exactly the
  record appended and the next head, and the snapshots of all other tenants are what they were.
\<close>

theorem journal_commit_reads_back:
  assumes "codec_ok d"
    and "journal_history (sqlite_journal_snapshot d j) (sqlite_journal_publish d m token observer j) foreign_step d
           (empty_database profile) db visited"
    and "sqlite_journal_publish d m token observer j r h g db = (Inr J_COMMITTED, db')"
  shows "\<exists>s. sqlite_journal_snapshot d j db (jr_tenant r) = Inr s \<and> sp_head s = h
     \<and> sqlite_journal_snapshot d j db' (jr_tenant r) = Inr \<lparr>sp_head = Suc h, sp_records = sp_records s @ [r]\<rparr>
     \<and> (\<forall>t. t \<noteq> jr_tenant r \<longrightarrow> sqlite_journal_snapshot d j db' t = sqlite_journal_snapshot d j db t)"
proof -
  have ok: "journal_tables_ok d db" using history_tables [OF assms(1,2)] by blast
  have ok': "journal_tables_ok d db'" by (rule sqlite_publish_ok [OF ok assms(3)])
  note fence = committed_fence [OF assms(3)]
  have eff: "current_head (jr_tenant r) db = h" "current_head (jr_tenant r) db' = Suc h"
    "journal_log d db' (jr_tenant r) = journal_log d db (jr_tenant r) @ [r]"
    using sqlite_publish_effect [OF ok assms(3)] by (auto dest!: fun_cong [where x = "jr_tenant r"])
  have "sqlite_journal_snapshot d j db' t = sqlite_journal_snapshot d j db t" if t: "t \<noteq> jr_tenant r" for t
    using assms(3)
  proof (cases rule: sqlite_publish_cases)
    case committed
    have same: "current_head t db' = current_head t db" "journal_rows t db' = journal_rows t db"
      "journal_publications t db' = journal_publications t db"
      unfolding committed(1) current_head_committed journal_rows_committed journal_publications_committed
      using t by (simp_all add: journal_physical_def Let_def)
    show ?thesis
      unfolding sqlite_journal_snapshot_def fence(2) same ..
  qed simp
  moreover have "sqlite_journal_snapshot d j db (jr_tenant r)
      = Inr \<lparr>sp_head = h, sp_records = journal_log d db (jr_tenant r)\<rparr>"
    using sqlite_snapshot_complete [OF ok fence(1)] eff(1) by simp
  moreover have "sqlite_journal_snapshot d j db' (jr_tenant r)
      = Inr \<lparr>sp_head = Suc h, sp_records = journal_log d db (jr_tenant r) @ [r]\<rparr>"
    using sqlite_snapshot_complete [OF ok', of "jr_tenant r" j] fence eff by simp
  ultimately show ?thesis by auto
qed

theorem journal_commit_reads_back_witness:
  "sqlite_journal_snapshot wj_codec wj_journal wj_committed ''t'' = Inr \<lparr>sp_head = 1, sp_records = [wj_fact]\<rparr>"
  using journal_commit_reads_back [OF wj_codec_ok wj_history_fenced wj_published]
  by (simp add: wj_fact_fields wj_snapshot)

text \<open>
  Retrying a command is safe. When the snapshot already holds a record of the command's identity,
  an authenticated and disclosed retry of prepare or execute returns that record as a replay if the
  command is byte for byte the accepted one and a conflict otherwise, whatever the heads have become,
  and leaves the store alone.
\<close>

theorem journal_retry_exact:
  assumes "revalidate d command = Some c" and "journal_identity auth1 c = Some identity"
    and "disclosed d (jc_claim c) identity" and "snap st0 (jc_tenant c) = Inr s"
    and "r \<in> set (sp_records s)" and "jr_command_id r = jc_command_id c"
    and "distinct (map jr_command_id (sp_records s))"
  shows "journal_execute d snap pub auth1 auth2 auth3 command st0 st =
           (Inr (if jr_fingerprint r = command_digest d c
                 then \<lparr>oc_disposition = J_REPLAY, oc_record = Some r, oc_reason = None\<rparr>
                 else outcome J_CONFLICT), st)
     \<and> journal_prepare d snap pub auth1 auth2 auth3 command st0 st =
         journal_execute d snap pub auth1 auth2 auth3 command st0 st"
proof -
  have "find (\<lambda>r. jr_command_id r = jc_command_id c) (sp_records s) \<noteq> None"
    using assms(5,6) by (auto simp: find_None_iff)
  then obtain r' where r': "find (\<lambda>r. jr_command_id r = jc_command_id c) (sp_records s) = Some r'"
    by blast
  then have "r' = r"
    using find_Some_set [OF r'] assms(5-7) unfolding distinct_map by (metis inj_onD)
  then have admit: "admit_command d auth2 c s = Some (if jr_fingerprint r = command_digest d c
                 then \<lparr>oc_disposition = J_REPLAY, oc_record = Some r, oc_reason = None\<rparr>
                 else outcome J_CONFLICT)"
    using r' by (simp add: admit_command_def journal_replay_def)
  have "execute_decision d identity auth2 c s = Inl (the (admit_command d auth2 c s))"
    "prepare_decision d identity auth2 c s = Inl (the (admit_command d auth2 c s))"
    by (simp_all add: execute_decision_def prepare_decision_def admit)
  then show ?thesis
    using assms(1-4) admit by (simp add: journal_execute_def journal_prepare_def journal_run_def)
qed

theorem journal_retry_exact_witness:
  "fst (journal_execute wj_codec (sqlite_journal_snapshot wj_codec wj_journal)
      (sqlite_journal_publish wj_codec wj_materializer 7 None wj_journal)
      (Some wj_identity) None None wj_direct wj_committed wj_committed)
   = Inr \<lparr>oc_disposition = J_REPLAY, oc_record = Some wj_fact, oc_reason = None\<rparr>"
proof -
  have snap: "sqlite_journal_snapshot wj_codec wj_journal wj_committed (jc_tenant wj_direct)
      = Inr \<lparr>sp_head = 1, sp_records = [wj_fact]\<rparr>"
    using sqlite_snapshot_complete [of wj_codec wj_committed "''t''" wj_journal]
      history_tables [OF wj_codec_ok wj_history_committed, of "''t''"]
    by (simp add: wj_direct_def wj_committed_eq)
  have "jr_fingerprint wj_fact = command_digest wj_codec wj_direct"
    using wj_decided by (rule execute_fingerprint)
  then show ?thesis
    using journal_retry_exact [of wj_codec wj_direct wj_direct "Some wj_identity" wj_identity
        "sqlite_journal_snapshot wj_codec wj_journal", OF _ _ _ snap, of wj_fact]
      wj_disclosed wj_fact_fields
    by (simp add: journal_identity_def wj_identity_def wj_direct_def wj_codec_def)
qed

section \<open>Admission of facts\<close>

lemma twelve_split: "length xs = 12 \<Longrightarrow> xs = hd xs # take 10 (tl xs) @ [last xs]"
proof (cases xs)
  case (Cons x ys)
  assume "length xs = 12"
  then have "length ys = Suc 10" using Cons by simp
  then have "ys = take 10 ys @ [last ys]" "ys \<noteq> []"
    by (metis append_butlast_last_id butlast_conv_take diff_Suc_1 list.size(3) nat.distinct(1), auto)
  then show ?thesis using Cons by simp
qed simp

lemma match_utterance_exact:
  assumes "match_utterance u = Some (subject, day)"
  shows "u = utterance_prefix @ subject @ '' '' @ day @ ''.''"
proof -
  let ?rest = "drop (length utterance_prefix) u"
  let ?after = "dropWhile id_char ?rest"
  from assms have m: "take (length utterance_prefix) u = utterance_prefix" "subject = takeWhile id_char ?rest"
    "length ?after = 12" "hd ?after = CHR '' ''" "day = take 10 (tl ?after)" "last ?after = CHR ''.''"
    by (auto simp: match_utterance_def Let_def split: if_splits)
  have "?after = CHR '' '' # day @ [CHR ''.'']"
    using twelve_split [OF m(3)] m(4-6) by simp
  moreover have "u = utterance_prefix @ subject @ ?after"
    using m(1,2) by (metis append_take_drop_id takeWhile_dropWhile_id)
  ultimately show ?thesis by simp
qed

lemma direct_fact_parts:
  assumes "execute_decision d identity auth2 c s = Inr r" and "jc_action c = RECORD_FACT"
  shows "proof_valid (jc_claim c) identity" and "jr_kind r = FACT_CLAIM" and "jr_family r = jr_record_id r"
    and "jr_positive_proof r = positive_proof (jc_claim c) identity" and "jr_claim r = jc_claim c"
proof -
  from assms(1) have ac: "admit_command d auth2 c s = None"
    by (auto simp: execute_decision_def split: option.splits)
  then obtain op where op: "execute_operation d identity c s = Inr op"
    using assms(1) by (auto simp: execute_decision_def result_simps split: if_splits)
  then show pv: "proof_valid (jc_claim c) identity"
    using assms(2) by (auto simp: execute_operation_def positive_proof_def PROOFS_def split: if_splits)
  from op have "op = RECORD" "jc_predecessor c = None"
    using assms(2) by (auto simp: execute_operation_def split: if_splits)
  moreover have "journal_target s c = None" if "jc_predecessor c = None"
    using that by (auto simp: journal_target_def find_None_iff split: option.splits dest!: find_Some_set)
  ultimately show "jr_kind r = FACT_CLAIM" "jr_family r = jr_record_id r"
    "jr_positive_proof r = positive_proof (jc_claim c) identity" "jr_claim r = jc_claim c"
    using assms op ac by (auto simp: execute_decision_def claim_proof_def Let_def split: if_splits)
qed

text \<open>
  C22: A fact is recorded without confirmation only from the principal's own exact words. If executing
  a direct report yields a record, the claim has exactly one provenance item, an authenticated item of
  the principal whose digest is that of its text, the text is the canonical sentence for precisely the
  claimed occurrence and date, the date exists in the calendar and the outcome is completed; the record
  is a fact whose family is itself and which carries every proof as true.
\<close>

theorem direct_fact_exact:
  assumes "execute_decision d identity auth2 c s = Inr r" and "jc_action c = RECORD_FACT"
  shows "(\<exists>p. cm_provenance (jc_claim c) = [p] \<and> p \<in> set (ti_items identity) \<and> pv_source p = PRINCIPAL
        \<and> pv_digest p = sha256_hex (encode (pv_utterance p))
        \<and> pv_utterance p = utterance_prefix @ cm_subject (jc_claim c) @ '' '' @ pl_date (cm_payload (jc_claim c)) @ ''.'')
     \<and> iso_date (pl_date (cm_payload (jc_claim c))) \<and> pl_outcome (cm_payload (jc_claim c)) = COMPLETED
     \<and> jr_kind r = FACT_CLAIM \<and> jr_family r = jr_record_id r \<and> jr_claim r = jc_claim c
     \<and> jr_positive_proof r = map (\<lambda>p. (p, True)) PROOFS"
proof -
  note parts = direct_fact_parts [OF assms]
  from parts(1) obtain p day where "cm_provenance (jc_claim c) = [p]"
    and "match_utterance (pv_utterance p) = Some (cm_subject (jc_claim c), day)"
    and "day = pl_date (cm_payload (jc_claim c))" "iso_date day" "p \<in> set (ti_items identity)" "pv_source p = PRINCIPAL"
    "pv_digest p = sha256_hex (encode (pv_utterance p))" "pl_outcome (cm_payload (jc_claim c)) = COMPLETED"
    by (auto simp: proof_valid_def split: list.splits option.splits)
  then show ?thesis
    using parts match_utterance_exact by (auto simp: positive_proof_def)
qed

theorem direct_fact_exact_witness: "jr_kind wj_fact = FACT_CLAIM \<and> iso_date (pl_date (cm_payload wj_report))"
  using direct_fact_exact [OF wj_decided] by (simp add: wj_direct_def)

section \<open>Reads\<close>

text \<open>
  C23: Disclosure is the meet of the sources. If a claim is disclosed to an identity, each of its sources
  is known to the identity and belongs to its tenant, is backed by an authenticated provenance item of
  the claim with the same digest, and its own label admits the identity's endpoint: no source denies
  everything and every restricted source lists the endpoint.
\<close>

theorem disclosed_meet:
  assumes "disclosed d claim identity"
  shows "\<forall>source \<in> set (de_sources (cm_envelope claim)).
     source_bound claim identity source \<and> source_admits (ti_endpoint identity) source"
  using assms by (rule disclosed_sources)

theorem disclosed_meet_witness: "source_admits ''e1'' wj_source_ref"
  using disclosed_meet [OF wj_disclosed] by (simp add: wj_report_def wj_body_def wj_identity_def)

text \<open>
  C24: The closure of a family is reachability. The loop ends, and it selects exactly the records that are
  reachable from a record of the family by following the displayed candidate and the candidates it
  supersedes.
\<close>

theorem closure_is_reachability:
  "r \<in> set (closure records family) \<longleftrightarrow>
     r \<in> set records
     \<and> (\<exists>r0 \<in> set records. jr_family r0 = family \<and> (jr_record_id r0, jr_record_id r) \<in> (refers records)\<^sup>*)"
  by (rule closure_reach)

theorem closure_is_reachability_witness: "wj_fact \<in> set (closure [wj_fact] (jr_record_id wj_fact))"
proof -
  have "jr_family wj_fact = jr_record_id wj_fact"
    using wj_decided by (rule direct_fact_parts) (simp add: wj_direct_def)
  then show ?thesis
    using closure_is_reachability [of wj_fact "[wj_fact]" "jr_record_id wj_fact"] by simp
qed

text \<open>
  A projection is bounded, ordered and fully readable. A current view was computed at the head and
  trust heads the query expects, both unchanged at release; its rows are a page of the speaker's current
  records in the order of their identities; the lineages shown have at most the requested number of
  records in total; and every record in every lineage is the speaker's own with all its sources
  admitting the speaker's endpoint.
\<close>

theorem project_bounded:
  assumes "vw_disposition (project d auth1 auth2 q snapshot head2) = V_CURRENT"
  shows "\<exists>identity. auth1 = Some identity \<and> auth2 = auth1 \<and> head2 = sp_head snapshot
     \<and> sp_head snapshot = he_journal (jq_expected_heads q) \<and> ti_heads identity = jq_expected_heads q
     \<and> map jw_record (vw_rows (project d auth1 auth2 q snapshot head2))
         = page q (ti_principal identity) (sp_records snapshot)
     \<and> sorted (map (jr_record_id \<circ> jw_record) (vw_rows (project d auth1 auth2 q snapshot head2)))
     \<and> lineage_total (vw_rows (project d auth1 auth2 q snapshot head2)) \<le> jq_max_rows q
     \<and> (\<forall>row \<in> set (vw_rows (project d auth1 auth2 q snapshot head2)).
          view_row_ok d identity (sp_records snapshot) row)"
  using assms
proof (cases rule: project_current)
  case (1 identity)
  let ?rows = "vw_rows (project d auth1 auth2 q snapshot head2)"
  have rows: "map jw_record ?rows = page q (ti_principal identity) (sp_records snapshot)"
    "lineage_total ?rows \<le> jq_max_rows q" "\<forall>row \<in> set ?rows. view_row_ok d identity (sp_records snapshot) row"
    using project_rows_ok [OF 1(7)] by (auto simp: lineage_total_def)
  have "sorted (map jr_record_id (page q (ti_principal identity) (sp_records snapshot)))"
    by (simp add: page_def current_records_def sorted_filter take_map [symmetric] sorted_wrt_take)
  then have "sorted (map (jr_record_id \<circ> jw_record) ?rows)"
    by (metis rows(1) map_map)
  then show ?thesis
    using 1 rows by blast
qed

definition wj_query :: JournalQuery where
  "wj_query = \<lparr>jq_tenant = ''t'', jq_expected_heads = wj_now, jq_max_rows = 10, jq_after_id = None, jq_subject = None\<rparr>"

theorem project_bounded_witness:
  "lineage_total (vw_rows (project wj_codec (Some wj_identity) (Some wj_identity) wj_query
     \<lparr>sp_head = 0, sp_records = []\<rparr> 0)) \<le> 10"
proof -
  have "vw_disposition (project wj_codec (Some wj_identity) (Some wj_identity) wj_query
     \<lparr>sp_head = 0, sp_records = []\<rparr> 0) = V_CURRENT"
    by (simp add: project_def valid_query_def wj_query_def wj_identity_def wj_now_def current_records_def Let_def)
  from project_bounded [OF this] show ?thesis by (auto simp: wj_query_def)
qed

end
