(* ===== verification/Primitives.thy ===== *)
theory Primitives
  imports Py_Json
begin

text \<open>
  The domain primitives (\<open>domain_primitives/\<close>): identities, producing versions, canonical record bytes
  and their fingerprints. The one-field wrappers (tenant, principal, scope, owner tag, version numbers)
  are the value they wrap.
\<close>

section \<open>Identities and versions\<close>

record RecordId =
  ri_tenant_id :: string
  ri_value :: string

record RecordTypeId =
  rt_namespace :: string
  rt_name :: string

record SchemaId =
  sc_namespace :: string
  sc_name :: string
  sc_version :: int

record ProducingVersions =
  pvs_schema_id :: SchemaId
  pvs_codec :: int
  pvs_canonicalization :: int

record CanonicalBytes =
  cb_payload :: bytes
  cb_producing_versions :: ProducingVersions

record PreservedBytes =
  pr_original :: bytes
  pr_producing_versions :: ProducingVersions

record Fingerprint =
  fp_algorithm :: string
  fp_digest :: bytes

section \<open>Canonical bytes\<close>

definition versions_json :: "ProducingVersions \<Rightarrow> json" where
  "versions_json v = JObj
     [(''canonicalization'', JInt (pvs_canonicalization v)),
      (''codec'', JInt (pvs_codec v)),
      (''schema'', JObj [(''name'', JStr (sc_name (pvs_schema_id v))),
                         (''namespace'', JStr (sc_namespace (pvs_schema_id v))),
                         (''version'', JInt (sc_version (pvs_schema_id v)))])]"

definition record_id_json :: "RecordId \<Rightarrow> json" where
  "record_id_json i = JObj [(''tenant_id'', JStr (ri_tenant_id i)), (''value'', JStr (ri_value i))]"

definition record_envelope ::
  "RecordId \<Rightarrow> RecordTypeId \<Rightarrow> string \<Rightarrow> ProducingVersions \<Rightarrow> json \<Rightarrow> json" where
  "record_envelope record_id record_type owner versions members = JObj
     [(''fields'', members),
      (''owner'', JStr owner),
      (''record_id'', record_id_json record_id),
      (''record_type'', JObj [(''name'', JStr (rt_name record_type)),
                              (''namespace'', JStr (rt_namespace record_type))]),
      (''versions'', versions_json versions)]"

definition canonical_record_bytes ::
  "RecordId \<Rightarrow> RecordTypeId \<Rightarrow> string \<Rightarrow> ProducingVersions \<Rightarrow> json \<Rightarrow> CanonicalBytes" where
  "canonical_record_bytes record_id record_type owner versions members =
     \<lparr>cb_payload = canonical_json (record_envelope record_id record_type owner versions members),
      cb_producing_versions = versions\<rparr>"

section \<open>Fingerprints\<close>

definition FINGERPRINT_ALGORITHM :: string where
  "FINGERPRINT_ALGORITHM = ''sha256''"

definition FINGERPRINT_DOMAIN :: bytes where
  "FINGERPRINT_DOMAIN = encode ''chiplog.record.v1'' @ [0]"

definition bound_bytes :: "CanonicalBytes \<Rightarrow> bytes" where
  "bound_bytes c =
     FINGERPRINT_DOMAIN @ encode (dumps_ascii (versions_json (cb_producing_versions c))) @ [0] @ cb_payload c"

definition fingerprint :: "CanonicalBytes \<Rightarrow> Fingerprint" where
  "fingerprint c = \<lparr>fp_algorithm = FINGERPRINT_ALGORITHM, fp_digest = sha256 (bound_bytes c)\<rparr>"

definition verify_preserved_bytes :: "PreservedBytes \<Rightarrow> Fingerprint \<Rightarrow> bool" where
  "verify_preserved_bytes preserved expected \<longleftrightarrow>
     fingerprint \<lparr>cb_payload = pr_original preserved, cb_producing_versions = pr_producing_versions preserved\<rparr> = expected"

section \<open>Admission of preserved bytes\<close>

datatype AdmissionStatus = ADMITTED | HOLD

record AdmissionResult =
  ar_status :: AdmissionStatus
  ar_reason :: string
  ar_preserved :: PreservedBytes
  ar_fingerprint :: "Fingerprint option"

definition admit_exact_version ::
  "PreservedBytes \<Rightarrow> int \<Rightarrow> int list \<Rightarrow> SchemaId list \<Rightarrow> int list \<Rightarrow> int list
     \<Rightarrow> (PreservedBytes \<Rightarrow> Fingerprint \<Rightarrow> 's \<Rightarrow> 's) \<Rightarrow> 's \<Rightarrow> AdmissionResult \<times> 's" where
  "admit_exact_version preserved store_version stores schemas codecs canonicalizations write st =
     (let versions = pr_producing_versions preserved;
          reasons = [(store_version \<notin> set stores, ''unknown store version''),
                     (pvs_schema_id versions \<notin> set schemas, ''unknown schema version''),
                     (pvs_codec versions \<notin> set codecs, ''unknown codec version''),
                     (pvs_canonicalization versions \<notin> set canonicalizations,
                      ''unknown canonicalization version'')]
      in case find fst reasons of
           Some (_, reason) \<Rightarrow>
             (\<lparr>ar_status = HOLD, ar_reason = reason, ar_preserved = preserved, ar_fingerprint = None\<rparr>, st)
         | None \<Rightarrow>
             let observed = fingerprint \<lparr>cb_payload = pr_original preserved, cb_producing_versions = versions\<rparr>
             in (\<lparr>ar_status = ADMITTED, ar_reason = ''exact producing versions admitted'',
                  ar_preserved = preserved, ar_fingerprint = Some observed\<rparr>,
                 write preserved observed st))"

section \<open>The bytes bind the record\<close>

lemma concat_join_chars: "set (join_with sep xs) \<subseteq> set sep \<union> \<Union> (set ` set xs)"
  by (induction sep xs rule: join_with.induct) auto

text \<open>A property of characters that the punctuation, the digits and the quoting have, every document has.\<close>

lemma dumps_with_chars:
  assumes q: "\<And>s. \<forall>c \<in> set (q s). P c"
    and p: "\<forall>c \<in> set ''[]{},:-0123456789truefalsenull''. P c"
  shows "\<forall>c \<in> set (dumps_with q j). P c"
proof (induction j)
  case (JInt i)
  have "P c" if "is_digit c" for c
  proof -
    define n :: nat where "n = of_char c - 48"
    have "of_char c = 48 + n" "n < 10"
      using that unfolding is_digit_def n_def by linarith+
    then have "c = digit_char n"
      by (metis digit_char_def char_of_char)
    moreover have "n \<in> set [0..<10]" using \<open>n < 10\<close> by simp
    moreover have "map digit_char [0..<10] = ''0123456789''" by code_simp
    ultimately have "c \<in> set ''0123456789''" by (metis image_eqI list.set_map)
    then show ?thesis using p by auto
  qed
  then show ?case
    using p nat_str_digits by (auto simp: int_str_def)
next
  case (JArr js)
  show ?case
    using JArr p concat_join_chars [of "'',''" "map (dumps_with q) js"] by fastforce
next
  case (JObj kvs)
  let ?item = "\<lambda>(k, t). q k @ '':'' @ t"
  have colon: "P (CHR '':'')" and braces: "P (CHR ''{'')" "P (CHR ''}'')" "P (CHR '','')"
    using p by simp_all
  have item: "\<forall>c \<in> set (?item x). P c" if x: "x \<in> set (map (map_prod id (dumps_with q)) kvs)" for x
  proof -
    obtain k j where kj: "(k, j) \<in> set kvs" "x = (k, dumps_with q j)" using x by auto
    have "\<forall>c \<in> set (dumps_with q j). P c"
      using JObj.IH [OF kj(1)] by (simp add: snds.simps)
    then show ?thesis using kj(2) q colon by auto
  qed
  have "\<forall>c \<in> set (join_with '','' (map ?item (sort_key fst (map (map_prod id (dumps_with q)) kvs)))). P c"
  proof
    fix c
    assume "c \<in> set (join_with '','' (map ?item (sort_key fst (map (map_prod id (dumps_with q)) kvs))))"
    then have "c = CHR '','' \<or> (\<exists>x \<in> set (map (map_prod id (dumps_with q)) kvs). c \<in> set (?item x))"
      using concat_join_chars [of "'',''" "map ?item (sort_key fst (map (map_prod id (dumps_with q)) kvs))"] by auto
    then show "P c" using item braces by blast
  qed
  then show ?case using braces by simp
qed (use q p in auto)

lemma quote_ascii_nonzero: "\<forall>c \<in> set (quote_ascii s). c \<noteq> CHR 0x00"
proof -
  have hex: "CHR 0x00 \<noteq> hex_digit n" if "n < 16" for n
  proof -
    have "n \<in> set [0..<16]" using that by simp
    moreover have "CHR 0x00 \<notin> set (map hex_digit [0..<16])" by code_simp
    ultimately show ?thesis by (metis image_eqI list.set_map)
  qed
  have four: "CHR 0x00 \<notin> set (hex4 n)" for n
    by (simp add: hex4_def hex)
  have "CHR 0x00 \<notin> set (esc_char c)" for c
  proof (cases "c = CHR 0x00")
    case True
    then show ?thesis using four by (simp add: esc_char_def)
  qed (use four in \<open>auto simp: esc_char_def Let_def\<close>)
  then have "CHR 0x00 \<notin> set (esc_code_point n)" for n
    using four by (auto simp: esc_code_point_def Let_def)
  then show ?thesis by (auto simp: quote_ascii_def)
qed

lemma binding_nonzero: "0 \<notin> set (encode (dumps_ascii j))"
proof
  assume "0 \<in> set (encode (dumps_ascii j))"
  then obtain c where c: "c \<in> set (dumps_ascii j)" "(of_char c :: 8 word) = 0"
    unfolding encode_def set_map by force
  have "\<forall>c \<in> set (dumps_ascii j). c \<noteq> CHR 0x00"
    unfolding dumps_ascii_def by (rule dumps_with_chars [OF quote_ascii_nonzero]) simp
  moreover have "c = CHR 0x00"
    using encode_inj [of "[c]" "[CHR 0x00]"] c(2) by (simp add: encode_def)
  ultimately show False
    using c(1) by blast
qed

lemma append_sep_unique: "x \<notin> set xs \<Longrightarrow> x \<notin> set ys \<Longrightarrow> xs @ x # us = ys @ x # vs \<Longrightarrow> xs = ys \<and> us = vs"
proof (induction xs arbitrary: ys)
  case Nil
  then show ?case by (cases ys) auto
next
  case (Cons a xs)
  then show ?case by (cases ys) auto
qed

lemma bound_bytes_payload: "bound_bytes a = bound_bytes b \<Longrightarrow> cb_payload a = cb_payload b"
  using append_sep_unique [OF binding_nonzero binding_nonzero] by (simp add: bound_bytes_def)

lemma json_norm_sorted:
  "sorted (map fst kvs) \<Longrightarrow> json_norm (JObj kvs) = JObj (map (\<lambda>(k, j). (k, json_norm j)) kvs)"
  by (simp add: sort_key_id_if_sorted comp_def case_prod_unfold map_prod_def)

lemma record_keys_sorted:
  "sorted [''fields'', ''owner'', ''record_id'', ''record_type'', ''versions'']"
  "sorted [''canonicalization'', ''codec'', ''schema'']" "sorted [''name'', ''namespace'', ''version'']"
  "sorted [''name'', ''namespace'']" "sorted [''tenant_id'', ''value'']"
  by code_simp+

lemma record_envelope_norm:
  "json_norm (record_envelope i t ow v f) = JObj
     [(''fields'', json_norm f), (''owner'', JStr ow), (''record_id'', record_id_json i),
      (''record_type'', JObj [(''name'', JStr (rt_name t)), (''namespace'', JStr (rt_namespace t))]),
      (''versions'', versions_json v)]"
proof -
  have "json_norm (record_id_json i) = record_id_json i"
    unfolding record_id_json_def by (subst json_norm_sorted) (use record_keys_sorted in simp_all)
  moreover have "json_norm (JObj [(''name'', JStr a), (''namespace'', JStr b)])
      = JObj [(''name'', JStr a), (''namespace'', JStr b)]" for a b
    by (subst json_norm_sorted) (use record_keys_sorted in simp_all)
  moreover have "json_norm (JObj [(''name'', JStr a), (''namespace'', JStr b), (''version'', JInt n)])
      = JObj [(''name'', JStr a), (''namespace'', JStr b), (''version'', JInt n)]" for a b n
    by (subst json_norm_sorted) (use record_keys_sorted in simp_all)
  moreover from this have "json_norm (versions_json v) = versions_json v"
    unfolding versions_json_def by (subst json_norm_sorted) (use record_keys_sorted in simp_all)
  ultimately show ?thesis
    unfolding record_envelope_def by (subst json_norm_sorted) (use record_keys_sorted in simp_all)
qed

lemma canonical_record_bytes_inj:
  assumes "cb_payload (canonical_record_bytes i t ow v f) = cb_payload (canonical_record_bytes i' t' ow' v' f')"
  shows "i = i' \<and> t = t' \<and> ow = ow' \<and> v = v' \<and> json_norm f = json_norm f'"
proof -
  have "canonical_json (record_envelope i t ow v f) = canonical_json (record_envelope i' t' ow' v' f')"
    using assms by (simp add: canonical_record_bytes_def)
  then have "json_norm (record_envelope i t ow v f) = json_norm (record_envelope i' t' ow' v' f')"
    by (rule canonical_json_inj)
  then have "json_norm f = json_norm f'" "ow = ow'" "ri_tenant_id i = ri_tenant_id i'" "ri_value i = ri_value i'"
    "rt_name t = rt_name t'" "rt_namespace t = rt_namespace t'"
    "pvs_canonicalization v = pvs_canonicalization v'" "pvs_codec v = pvs_codec v'"
    "sc_name (pvs_schema_id v) = sc_name (pvs_schema_id v')" "sc_namespace (pvs_schema_id v) = sc_namespace (pvs_schema_id v')"
    "sc_version (pvs_schema_id v) = sc_version (pvs_schema_id v')"
    by (simp_all add: record_envelope_norm versions_json_def record_id_json_def)
  then show ?thesis
    by (auto intro!: RecordId.equality RecordTypeId.equality ProducingVersions.equality SchemaId.equality)
qed

end
