(* ===== verification/Planning.thy ===== *)
theory Planning
  imports Primitives "HOL-Library.AList"
begin

text \<open>
  The planning owner (\<open>capabilities/planning/_planning.py\<close>): construction of the five records of an
  intention line, the commit of a command against the tenant's state and the repository port with its
  in-memory adapter. The trust port may take arbitrarily long, and the repository lock is reentrant, so
  revalidation is a function that also returns the state as it is afterwards.
\<close>

section \<open>Values\<close>

definition CREATE_INTENTION_LINE :: string where
  "CREATE_INTENTION_LINE = ''CREATE_INTENTION_LINE''"

definition CREATE_SCOPE :: string where
  "CREATE_SCOPE = ''planning.create_intention_line''"

definition DIRECT_CONTOURS :: "string list" where
  "DIRECT_CONTOURS = [''CLI'', ''TELEGRAM'']"

definition PLANNING_VERSIONS :: ProducingVersions where
  "PLANNING_VERSIONS = \<lparr>pvs_schema_id = \<lparr>sc_namespace = ''chiplog.planning'', sc_name = ''record'', sc_version = 1\<rparr>,
     pvs_codec = 1, pvs_canonicalization = 1\<rparr>"

definition PLANNING_OWNER :: string where
  "PLANNING_OWNER = ''planning''"

record PlanningTrustReference =
  ptr_tenant_id :: string
  ptr_principal_id :: string
  ptr_contour :: string
  ptr_credential_head :: string
  ptr_session_head :: string
  ptr_source_head :: string
  ptr_trust_head :: string
  ptr_materialization_head :: string
  ptr_freshness_sequence :: int
  ptr_peer_credential :: string

record InvocationContext =
  ic_tenant_id :: string
  ic_principal_id :: string
  ic_permission_scope :: string
  ic_trust_reference :: PlanningTrustReference

record CreateIntentionLine =
  cl_command_id :: RecordId
  cl_intention_line_id :: RecordId
  cl_revision_id :: RecordId
  cl_purpose :: string
  cl_authority_act_id :: string

datatype TrustDisposition = T_VALID | T_DENIED | T_STALE | T_INDETERMINATE

record PlanningTrustDecision =
  td_disposition :: TrustDisposition
  td_reason :: "string option"

record OwnedRecord =
  or_record_id :: RecordId
  or_record_type_id :: string
  or_fields :: json
  or_canonical_bytes :: bytes
  or_fingerprint :: string

type_synonym manifest = "(RecordId \<times> string \<times> string) list"

record PlanningCommittedResult =
  cr_command_id :: RecordId
  cr_result_id :: RecordId
  cr_intention_line_id :: RecordId
  cr_revision_id :: RecordId
  cr_authorization_evidence_id :: RecordId
  cr_commit_sequence :: nat
  cr_allocation_manifest :: "(nat \<times> string \<times> RecordId) list"
  cr_record_manifest :: manifest
  cr_batch_fingerprint :: string
  cr_result_fingerprint :: string
  cr_publication_fingerprint :: string

record PlanningPublication =
  pp_tenant_id :: string
  pp_command_id :: RecordId
  pp_request_fingerprint :: string
  pp_commit_sequence :: nat
  pp_records :: "OwnedRecord list"
  pp_result :: PlanningCommittedResult
  pp_record_manifest :: manifest
  pp_batch_fingerprint :: string

datatype PlanningDisposition = P_COMMITTED | P_REPLAY | P_CONFLICT | P_STALE | P_DENIED | P_INDETERMINATE

record PlanningOutcome =
  po_disposition :: PlanningDisposition
  po_result :: "PlanningCommittedResult option"
  po_reason :: "string option"

record PlanningState =
  ps_tenant_id :: string
  ps_head :: nat
  ps_version :: nat
  ps_publications :: "PlanningPublication list"
  ps_by_command :: "(string \<times> PlanningPublication) list"
  ps_record_ids :: "string set"

definition new_state :: "string \<Rightarrow> PlanningState" where
  "new_state tenant_id = \<lparr>ps_tenant_id = tenant_id, ps_head = 0, ps_version = 0, ps_publications = [],
     ps_by_command = [], ps_record_ids = {}\<rparr>"

section \<open>Records\<close>

text \<open>\<open>s.rsplit(".", 1)\<close> on text with a dot.\<close>

definition rsplit_dot :: "string \<Rightarrow> string \<times> string" where
  "rsplit_dot s =
     (let name = takeWhile (\<lambda>c. c \<noteq> CHR ''.'') (rev s)
      in (take (length s - length name - 1) s, rev name))"

definition planning_record :: "RecordId \<Rightarrow> string \<Rightarrow> json \<Rightarrow> OwnedRecord" where
  "planning_record record_id record_type_id members =
     (let (namespace, name) = rsplit_dot record_type_id;
          canonical = canonical_record_bytes record_id \<lparr>rt_namespace = namespace, rt_name = name\<rparr>
            PLANNING_OWNER PLANNING_VERSIONS members
      in \<lparr>or_record_id = record_id, or_record_type_id = record_type_id, or_fields = members,
          or_canonical_bytes = cb_payload canonical, or_fingerprint = bytes_hex (fp_digest (fingerprint canonical))\<rparr>)"

definition trust_fields :: "PlanningTrustReference \<Rightarrow> json" where
  "trust_fields reference = JObj
     [(''contour'', JStr (ptr_contour reference)),
      (''credential_head'', JStr (ptr_credential_head reference)),
      (''freshness_sequence'', JInt (ptr_freshness_sequence reference)),
      (''materialization_head'', JStr (ptr_materialization_head reference)),
      (''principal_id'', JStr (ptr_principal_id reference)),
      (''session_head'', JStr (ptr_session_head reference)),
      (''source_head'', JStr (ptr_source_head reference)),
      (''tenant_id'', JStr (ptr_tenant_id reference)),
      (''trust_head'', JStr (ptr_trust_head reference)),
      (''peer_credential'', JStr (ptr_peer_credential reference))]"

definition request_value :: "InvocationContext \<Rightarrow> CreateIntentionLine \<Rightarrow> RecordId option \<Rightarrow> json" where
  "request_value ctx command predecessor = JObj
     [(''command'', JObj
         [(''authority_act_id'', JStr (cl_authority_act_id command)),
          (''command_id'', record_id_json (cl_command_id command)),
          (''intention_line_id'', record_id_json (cl_intention_line_id command)),
          (''purpose'', JStr (cl_purpose command)),
          (''revision_id'', record_id_json (cl_revision_id command))]),
      (''context'', JObj
         [(''permission_scope'', JStr (ic_permission_scope ctx)),
          (''principal_id'', JStr (ic_principal_id ctx)),
          (''tenant_id'', JStr (ic_tenant_id ctx)),
          (''trust_reference'', trust_fields (ic_trust_reference ctx))]),
      (''operation'', JStr CREATE_INTENTION_LINE),
      (''predecessor_result_id'', json_opt record_id_json predecessor)]"

definition request_fingerprint :: "InvocationContext \<Rightarrow> CreateIntentionLine \<Rightarrow> RecordId option \<Rightarrow> string" where
  "request_fingerprint ctx command predecessor = json_digest_ascii (request_value ctx command predecessor)"

definition manifest_json :: "manifest \<Rightarrow> json" where
  "manifest_json m = JArr (map (\<lambda>(record_id, record_type_id, item_fingerprint).
     JObj [(''fingerprint'', JStr item_fingerprint), (''record_id'', record_id_json record_id),
           (''record_type_id'', JStr record_type_id)]) m)"

definition batch_fingerprint :: "manifest \<Rightarrow> string" where
  "batch_fingerprint m = json_digest_ascii (manifest_json m)"

definition publication_fingerprint :: "string \<Rightarrow> nat \<Rightarrow> manifest \<Rightarrow> string" where
  "publication_fingerprint request commit_sequence m = json_digest_ascii (JObj
     [(''commit_sequence'', JInt (int commit_sequence)), (''record_manifest'', manifest_json m),
      (''request_fingerprint'', JStr request)])"

section \<open>Structural admission\<close>

text \<open>The white space \<open>str.strip\<close> removes.\<close>

definition space_code_point :: "nat \<Rightarrow> bool" where
  "space_code_point n \<longleftrightarrow> 9 \<le> n \<and> n \<le> 13 \<or> 28 \<le> n \<and> n \<le> 32 \<or> n = 133 \<or> n = 160 \<or> n = 5760
     \<or> 8192 \<le> n \<and> n \<le> 8202 \<or> n = 8232 \<or> n = 8233 \<or> n = 8239 \<or> n = 8287 \<or> n = 12288"

definition strip :: "nat list \<Rightarrow> nat list" where
  "strip cs = rev (dropWhile space_code_point (rev (dropWhile space_code_point cs)))"

definition structural_error ::
  "InvocationContext \<Rightarrow> CreateIntentionLine \<Rightarrow> RecordId option \<Rightarrow> string option" where
  "structural_error ctx command predecessor =
     (let tenant = ic_tenant_id ctx; reference = ic_trust_reference ctx;
          ids = [cl_command_id command, cl_intention_line_id command, cl_revision_id command];
          heads = [ptr_credential_head reference, ptr_session_head reference, ptr_source_head reference,
                   ptr_trust_head reference, ptr_materialization_head reference]
      in if list_ex (\<lambda>i. ri_tenant_id i \<noteq> tenant) ids then Some ''foreign tenant identifier''
         else if \<not> distinct (map ri_value ids) then Some ''planning identifiers must be distinct''
         else if ptr_tenant_id reference \<noteq> tenant then Some ''trust tenant mismatch''
         else if ptr_principal_id reference \<noteq> ic_principal_id ctx then Some ''trust principal mismatch''
         else if ic_permission_scope ctx \<noteq> CREATE_SCOPE
           then Some ''forbidden actor-operation-authority tuple''
         else if ptr_contour reference \<notin> set DIRECT_CONTOURS
           then Some ''wrong direct-principal source contour''
         else if predecessor \<noteq> None then Some ''CREATE_INTENTION_LINE forbids a predecessor''
         else if cl_purpose command = [] \<or> code_points (cl_purpose command) \<noteq> strip (code_points (cl_purpose command))
           then Some ''purpose must be nonblank normalized text''
         else if strip (code_points (cl_authority_act_id command)) = [] then Some ''authority act is required''
         else if [] \<in> set heads then Some ''complete authority heads are required''
         else None)"

section \<open>The owner factory\<close>

definition manifest_of :: "OwnedRecord list \<Rightarrow> manifest" where
  "manifest_of rs = map (\<lambda>r. (or_record_id r, or_record_type_id r, or_fingerprint r)) rs"

definition common_fields :: "InvocationContext \<Rightarrow> CreateIntentionLine \<Rightarrow> (string \<times> json) list" where
  "common_fields ctx command =
     [(''authority_act_id'', JStr (cl_authority_act_id command)),
      (''principal_id'', JStr (ic_principal_id ctx)),
      (''tenant_id'', JStr (ic_tenant_id ctx))]"

definition allocation_manifest :: "CreateIntentionLine \<Rightarrow> (nat \<times> string \<times> RecordId) list" where
  "allocation_manifest command =
     [(0, ''chiplog.planning.intention_line'', cl_intention_line_id command),
      (1, ''chiplog.planning.intention_line_revision'', cl_revision_id command)]"

definition allocation_fields :: "CreateIntentionLine \<Rightarrow> json" where
  "allocation_fields command = JArr (map (\<lambda>(ordinal, kind, item).
     JObj [(''ordinal'', JInt (int ordinal)), (''record_id'', record_id_json item), (''record_type_id'', JStr kind)])
     (allocation_manifest command))"

definition evidence_id :: "InvocationContext \<Rightarrow> CreateIntentionLine \<Rightarrow> RecordId" where
  "evidence_id ctx command =
     \<lparr>ri_tenant_id = ic_tenant_id ctx, ri_value = ri_value (cl_command_id command) @ ''.authorization''\<rparr>"

definition result_id :: "InvocationContext \<Rightarrow> CreateIntentionLine \<Rightarrow> RecordId" where
  "result_id ctx command =
     \<lparr>ri_tenant_id = ic_tenant_id ctx, ri_value = ri_value (cl_command_id command) @ ''.result''\<rparr>"

definition committed_records :: "InvocationContext \<Rightarrow> CreateIntentionLine \<Rightarrow> OwnedRecord list" where
  "committed_records ctx command =
     (let common = common_fields ctx command; trust = trust_fields (ic_trust_reference ctx) in
      [planning_record (cl_command_id command) ''chiplog.planning.planning_command''
         (JObj (common @ [(''allocation_manifest'', allocation_fields command),
            (''operation'', JStr CREATE_INTENTION_LINE),
            (''permission_scope'', JStr (ic_permission_scope ctx)), (''trust_reference'', trust)])),
       planning_record (evidence_id ctx command) ''chiplog.planning.authorization_evidence''
         (JObj (common @ [(''operation'', JStr CREATE_INTENTION_LINE), (''trust_reference'', trust)])),
       planning_record (cl_intention_line_id command) ''chiplog.planning.intention_line''
         (JObj (common @ [(''initial_revision_id'', record_id_json (cl_revision_id command))])),
       planning_record (cl_revision_id command) ''chiplog.planning.intention_line_revision''
         (JObj (common @ [(''activity'', JStr ''ACTIVE''),
            (''intention_line_id'', record_id_json (cl_intention_line_id command)),
            (''ordinal'', JInt 0), (''personal_outcome'', JStr ''OPEN''),
            (''purpose'', JStr (cl_purpose command)), (''predecessor_revision_id'', JNull)]))])"

definition result_record :: "InvocationContext \<Rightarrow> CreateIntentionLine \<Rightarrow> nat \<Rightarrow> OwnedRecord" where
  "result_record ctx command commit_sequence =
     (let m = manifest_of (committed_records ctx command) in
      planning_record (result_id ctx command) ''chiplog.planning.committed_result'' (JObj
        [(''allocation_manifest'', allocation_fields command),
         (''authorization_evidence_id'', record_id_json (evidence_id ctx command)),
         (''command_id'', record_id_json (cl_command_id command)),
         (''commit_sequence'', JInt (int commit_sequence)),
         (''batch_fingerprint'', JStr (batch_fingerprint m)),
         (''record_manifest'', manifest_json m),
         (''tenant_id'', JStr (ic_tenant_id ctx))]))"

definition construct ::
  "InvocationContext \<Rightarrow> CreateIntentionLine \<Rightarrow> nat \<Rightarrow> string \<Rightarrow> OwnedRecord list \<times> PlanningCommittedResult" where
  "construct ctx command commit_sequence request =
     (let records = committed_records ctx command @ [result_record ctx command commit_sequence];
          m = manifest_of records
      in (records,
          \<lparr>cr_command_id = cl_command_id command, cr_result_id = result_id ctx command,
           cr_intention_line_id = cl_intention_line_id command, cr_revision_id = cl_revision_id command,
           cr_authorization_evidence_id = evidence_id ctx command, cr_commit_sequence = commit_sequence,
           cr_allocation_manifest = allocation_manifest command, cr_record_manifest = m,
           cr_batch_fingerprint = batch_fingerprint m,
           cr_result_fingerprint = or_fingerprint (result_record ctx command commit_sequence),
           cr_publication_fingerprint = publication_fingerprint request commit_sequence m\<rparr>))"

section \<open>The command\<close>

type_synonym revalidation =
  "PlanningTrustReference \<Rightarrow> string \<Rightarrow> RecordId \<Rightarrow> PlanningState \<Rightarrow> PlanningTrustDecision \<times> PlanningState"

fun trust_disposition :: "TrustDisposition \<Rightarrow> PlanningDisposition" where
  "trust_disposition T_STALE = P_STALE"
| "trust_disposition T_INDETERMINATE = P_INDETERMINATE"
| "trust_disposition _ = P_DENIED"

definition refused :: "PlanningDisposition \<Rightarrow> string option \<Rightarrow> PlanningOutcome" where
  "refused d reason = \<lparr>po_disposition = d, po_result = None, po_reason = reason\<rparr>"

definition accepted :: "PlanningDisposition \<Rightarrow> PlanningCommittedResult \<Rightarrow> PlanningOutcome" where
  "accepted d result = \<lparr>po_disposition = d, po_result = Some result, po_reason = None\<rparr>"

definition append_publication :: "PlanningPublication \<Rightarrow> nat \<Rightarrow> PlanningState \<Rightarrow> PlanningState" where
  "append_publication p observed_version s =
     s\<lparr>ps_publications := ps_publications s @ [p],
       ps_by_command := AList.update (ri_value (pp_command_id p)) p (ps_by_command s),
       ps_record_ids := ps_record_ids s \<union> set (map (ri_value \<circ> or_record_id) (pp_records p)),
       ps_head := pp_commit_sequence p, ps_version := observed_version + 1\<rparr>"

definition planning_commit ::
  "revalidation \<Rightarrow> InvocationContext \<Rightarrow> CreateIntentionLine \<Rightarrow> string \<Rightarrow> PlanningState
     \<Rightarrow> PlanningOutcome \<times> PlanningState" where
  "planning_commit revalidate ctx command request s =
     (case map_of (ps_by_command s) (ri_value (cl_command_id command)) of
        Some prior \<Rightarrow>
          if pp_request_fingerprint prior \<noteq> request
          then (refused P_CONFLICT (Some ''command identity reused with changed bytes''), s)
          else
            let (decision, s1) = revalidate (ic_trust_reference ctx) CREATE_INTENTION_LINE
                  (cl_intention_line_id command) s
            in if td_disposition decision \<noteq> T_VALID
               then (refused (trust_disposition (td_disposition decision)) (td_reason decision), s1)
               else (accepted P_REPLAY (pp_result prior), s1)
      | None \<Rightarrow>
          let (decision, s1) = revalidate (ic_trust_reference ctx) CREATE_INTENTION_LINE
                (cl_intention_line_id command) s
          in if td_disposition decision \<noteq> T_VALID
             then (refused (trust_disposition (td_disposition decision)) (td_reason decision), s1)
             else if ps_head s1 \<noteq> ps_head s \<or> ps_version s1 \<noteq> ps_version s
               then (refused P_STALE (Some ''planning head changed during revalidation''), s1)
             else
               let (records, result) = construct ctx command (ps_head s + 1) request;
                   record_values = map (ri_value \<circ> or_record_id) records
               in if \<not> distinct record_values \<or> set record_values \<inter> ps_record_ids s1 \<noteq> {}
                  then (refused P_CONFLICT (Some ''record identity collision''), s1)
                  else (accepted P_COMMITTED result,
                    append_publication
                      \<lparr>pp_tenant_id = ps_tenant_id s1, pp_command_id = cl_command_id command,
                       pp_request_fingerprint = request, pp_commit_sequence = ps_head s + 1,
                       pp_records = records, pp_result = result,
                       pp_record_manifest = cr_record_manifest result,
                       pp_batch_fingerprint = cr_batch_fingerprint result\<rparr> (ps_version s) s1))"

text \<open>The use case over a repository: \<open>transact\<close> runs a body on the tenant's state.\<close>

type_synonym 'r transact =
  "string \<Rightarrow> (PlanningState \<Rightarrow> PlanningOutcome \<times> PlanningState) \<Rightarrow> 'r \<Rightarrow> PlanningOutcome \<times> 'r"

definition planning_execute ::
  "'r transact \<Rightarrow> revalidation \<Rightarrow> InvocationContext \<Rightarrow> CreateIntentionLine \<Rightarrow> 'r \<Rightarrow> PlanningOutcome \<times> 'r" where
  "planning_execute transact revalidate ctx command repository =
     (case structural_error ctx command None of
        Some e \<Rightarrow> (refused P_DENIED (Some e), repository)
      | None \<Rightarrow> transact (ic_tenant_id ctx)
          (planning_commit revalidate ctx command (request_fingerprint ctx command None)) repository)"

section \<open>The in-memory repository\<close>

type_synonym memory_repository = "(string \<times> PlanningState) list"

definition tenant_state :: "memory_repository \<Rightarrow> string \<Rightarrow> PlanningState" where
  "tenant_state repository tenant_id =
     (case map_of repository tenant_id of None \<Rightarrow> new_state tenant_id | Some s \<Rightarrow> s)"

definition memory_transact :: "memory_repository transact" where
  "memory_transact tenant_id body repository =
     (let (result, s) = body (tenant_state repository tenant_id)
      in (result, AList.update tenant_id s repository))"

definition committed_publications :: "memory_repository \<Rightarrow> string \<Rightarrow> PlanningPublication list" where
  "committed_publications repository tenant_id =
     (case map_of repository tenant_id of None \<Rightarrow> [] | Some s \<Rightarrow> ps_publications s)"

definition invalidate_head :: "string \<Rightarrow> memory_repository \<Rightarrow> memory_repository" where
  "invalidate_head tenant_id repository =
     (let s = tenant_state repository tenant_id
      in AList.update tenant_id (s\<lparr>ps_version := ps_version s + 1\<rparr>) repository)"

end
