(* ===== verification/Planning_History.thy ===== *)
theory Planning_History
  imports Planning "HOL-Library.Sublist"
begin

text \<open>
  What the planning owner keeps true of a tenant's state, for any repository that runs each body on the
  tenant's current state, and the in-memory repository as an instance.
\<close>

section \<open>The invariant of a tenant's state\<close>

definition publication_of ::
  "string \<Rightarrow> InvocationContext \<Rightarrow> CreateIntentionLine \<Rightarrow> nat \<Rightarrow> PlanningPublication" where
  "publication_of tenant ctx command sequence =
     (let request = request_fingerprint ctx command None; (records, result) = construct ctx command sequence request
      in \<lparr>pp_tenant_id = tenant, pp_command_id = cl_command_id command, pp_request_fingerprint = request,
          pp_commit_sequence = sequence, pp_records = records, pp_result = result,
          pp_record_manifest = cr_record_manifest result, pp_batch_fingerprint = cr_batch_fingerprint result\<rparr>)"

text \<open>A publication is the construction for a structurally admitted request of its tenant.\<close>

definition genuine :: "string \<Rightarrow> PlanningPublication \<Rightarrow> bool" where
  "genuine tenant p \<longleftrightarrow>
     (\<exists>ctx command. structural_error ctx command None = None \<and> ic_tenant_id ctx = tenant
        \<and> p = publication_of tenant ctx command (pp_commit_sequence p))"

definition record_values :: "PlanningPublication \<Rightarrow> string list" where
  "record_values p = map (ri_value \<circ> or_record_id) (pp_records p)"

definition command_value :: "PlanningPublication \<Rightarrow> string" where
  "command_value p = ri_value (pp_command_id p)"

definition planning_ok :: "PlanningState \<Rightarrow> bool" where
  "planning_ok s \<longleftrightarrow>
     ps_head s = length (ps_publications s)
     \<and> map pp_commit_sequence (ps_publications s) = [1..<Suc (length (ps_publications s))]
     \<and> distinct (map command_value (ps_publications s))
     \<and> map_of (ps_by_command s) = map_of (map (\<lambda>p. (command_value p, p)) (ps_publications s))
     \<and> distinct (concat (map record_values (ps_publications s)))
     \<and> ps_record_ids s = set (concat (map record_values (ps_publications s)))
     \<and> (\<forall>p \<in> set (ps_publications s). genuine (ps_tenant_id s) p)"

lemma planning_ok_new [simp]: "planning_ok (new_state t)"
  by (simp add: planning_ok_def new_state_def)

lemma planning_ok_version [simp]: "planning_ok (s\<lparr>ps_version := v\<rparr>) = planning_ok s"
  by (simp add: planning_ok_def)

text \<open>
  What the owner relies on of the trust port: revalidating leaves a good state good, of the same tenant
  and without losing publications. It may commit other commands meanwhile.
\<close>

definition trust_frame :: "revalidation \<Rightarrow> bool" where
  "trust_frame revalidate \<longleftrightarrow>
     (\<forall>reference operation subject s. planning_ok s \<longrightarrow>
        (let s1 = snd (revalidate reference operation subject s)
         in planning_ok s1 \<and> ps_tenant_id s1 = ps_tenant_id s \<and> prefix (ps_publications s) (ps_publications s1)))"

lemma same_head_same_publications:
  assumes "planning_ok s" and "planning_ok s1" and "prefix (ps_publications s) (ps_publications s1)"
    and "ps_head s1 = ps_head s"
  shows "ps_publications s1 = ps_publications s"
proof -
  obtain ps where ps: "ps_publications s1 = ps_publications s @ ps"
    using assms(3) by (auto simp: prefix_def)
  have "length (ps_publications s1) = length (ps_publications s)"
    using assms(1,2,4) unfolding planning_ok_def by metis
  then show ?thesis using ps by simp
qed

text \<open>The five records of a construction and what their identities are.\<close>

lemma construct_values:
  "map (ri_value \<circ> or_record_id) (fst (construct ctx command sequence request)) =
     [ri_value (cl_command_id command), ri_value (cl_command_id command) @ ''.authorization'',
      ri_value (cl_intention_line_id command), ri_value (cl_revision_id command),
      ri_value (cl_command_id command) @ ''.result'']"
  by (simp add: construct_def committed_records_def result_record_def planning_record_def evidence_id_def
      result_id_def Let_def case_prod_unfold)

lemma publication_of_fields [simp]:
  "pp_tenant_id (publication_of t ctx command n) = t"
  "pp_command_id (publication_of t ctx command n) = cl_command_id command"
  "pp_request_fingerprint (publication_of t ctx command n) = request_fingerprint ctx command None"
  "pp_commit_sequence (publication_of t ctx command n) = n"
  "pp_records (publication_of t ctx command n) = fst (construct ctx command n (request_fingerprint ctx command None))"
  "pp_result (publication_of t ctx command n) = snd (construct ctx command n (request_fingerprint ctx command None))"
  "pp_record_manifest (publication_of t ctx command n) = cr_record_manifest (pp_result (publication_of t ctx command n))"
  "pp_batch_fingerprint (publication_of t ctx command n) = cr_batch_fingerprint (pp_result (publication_of t ctx command n))"
  by (simp_all add: publication_of_def Let_def case_prod_unfold)

lemma command_in_records:
  assumes "genuine t p"
  shows "command_value p \<in> set (record_values p)"
proof -
  from assms obtain ctx command where p: "p = publication_of t ctx command (pp_commit_sequence p)"
    by (auto simp: genuine_def)
  show ?thesis
    by (subst p, subst (2) p) (simp add: record_values_def command_value_def construct_values del: map_map)
qed

lemma append_publication_fields [simp]:
  "ps_tenant_id (append_publication p v s) = ps_tenant_id s"
  "ps_publications (append_publication p v s) = ps_publications s @ [p]"
  "ps_by_command (append_publication p v s) = AList.update (ri_value (pp_command_id p)) p (ps_by_command s)"
  by (simp_all add: append_publication_def)

lemma append_publication_ok:
  assumes ok: "planning_ok s" and gen: "genuine (ps_tenant_id s) p" and seq: "pp_commit_sequence p = ps_head s + 1"
    and fresh: "distinct (record_values p)" "set (record_values p) \<inter> ps_record_ids s = {}"
  shows "planning_ok (append_publication p v s)"
proof -
  have new: "command_value p \<notin> set (map command_value (ps_publications s))"
  proof
    assume "command_value p \<in> set (map command_value (ps_publications s))"
    then obtain q where q: "q \<in> set (ps_publications s)" "command_value p = command_value q" by auto
    then have "command_value p \<in> ps_record_ids s"
      using ok command_in_records [of "ps_tenant_id s" q] by (auto simp: planning_ok_def)
    then show False
      using fresh(2) command_in_records [OF gen] by blast
  qed
  then have none: "map_of (map (\<lambda>p. (command_value p, p)) (ps_publications s)) (command_value p) = None"
    by (simp add: map_of_eq_None_iff image_image)
  have "map_of (AList.update (command_value p) p (ps_by_command s))
      = map_of (map (\<lambda>p. (command_value p, p)) (ps_publications s @ [p]))"
    using ok none by (auto simp: update_conv' planning_ok_def map_add_def split: option.splits)
  then show ?thesis
    using ok gen seq fresh new
    by (auto simp: planning_ok_def append_publication_def record_values_def command_value_def)
qed

section \<open>Committing\<close>

lemma planning_commit_cases:
  assumes "planning_commit revalidate ctx command request s = (res, s')"
  obtains (revalidated) "s' = s \<or> s' = snd (revalidate (ic_trust_reference ctx) CREATE_INTENTION_LINE
             (cl_intention_line_id command) s)"
      and "po_disposition res \<noteq> P_COMMITTED"
  | (committed) s1 p where
      "s1 = snd (revalidate (ic_trust_reference ctx) CREATE_INTENTION_LINE (cl_intention_line_id command) s)"
      and "td_disposition (fst (revalidate (ic_trust_reference ctx) CREATE_INTENTION_LINE
             (cl_intention_line_id command) s)) = T_VALID"
      and "map_of (ps_by_command s) (ri_value (cl_command_id command)) = None"
      and "ps_head s1 = ps_head s" and "ps_version s1 = ps_version s"
      and "pp_tenant_id p = ps_tenant_id s1" and "pp_command_id p = cl_command_id command"
      and "pp_request_fingerprint p = request" and "pp_commit_sequence p = ps_head s + 1"
      and "(pp_records p, pp_result p) = construct ctx command (ps_head s + 1) request"
      and "pp_record_manifest p = cr_record_manifest (pp_result p)"
      and "pp_batch_fingerprint p = cr_batch_fingerprint (pp_result p)"
      and "distinct (record_values p)" and "set (record_values p) \<inter> ps_record_ids s1 = {}"
      and "res = accepted P_COMMITTED (pp_result p)" and "s' = append_publication p (ps_version s) s1"
proof -
  let ?t = "revalidate (ic_trust_reference ctx) CREATE_INTENTION_LINE (cl_intention_line_id command) s"
  obtain records result where con: "construct ctx command (ps_head s + 1) request = (records, result)"
    by fastforce
  let ?p = "\<lparr>pp_tenant_id = ps_tenant_id (snd ?t), pp_command_id = cl_command_id command,
     pp_request_fingerprint = request, pp_commit_sequence = ps_head s + 1, pp_records = records, pp_result = result,
     pp_record_manifest = cr_record_manifest result, pp_batch_fingerprint = cr_batch_fingerprint result\<rparr>"
  have not: "trust_disposition x \<noteq> P_COMMITTED" for x by (cases x) simp_all
  show thesis
  proof (cases "map_of (ps_by_command s) (ri_value (cl_command_id command)) = None
      \<and> td_disposition (fst ?t) = T_VALID \<and> ps_head (snd ?t) = ps_head s \<and> ps_version (snd ?t) = ps_version s
      \<and> distinct (record_values ?p) \<and> set (record_values ?p) \<inter> ps_record_ids (snd ?t) = {}")
    case True
    then show thesis
      using assms con by (intro that(2) [of "snd ?t" ?p])
        (auto simp: planning_commit_def case_prod_unfold Let_def record_values_def)
  next
    case False
    then show thesis
      using assms con not
      by (intro that(1))
        (auto simp: planning_commit_def case_prod_unfold Let_def record_values_def refused_def accepted_def
          split: option.splits if_splits)
  qed
qed

lemma planning_commit_ok:
  assumes ok: "planning_ok s" and frame: "trust_frame revalidate"
    and structural: "structural_error ctx command None = None" and tenant: "ic_tenant_id ctx = ps_tenant_id s"
    and c: "planning_commit revalidate ctx command (request_fingerprint ctx command None) s = (res, s')"
  shows "planning_ok s' \<and> ps_tenant_id s' = ps_tenant_id s \<and> prefix (ps_publications s) (ps_publications s')"
proof -
  let ?s1 = "snd (revalidate (ic_trust_reference ctx) CREATE_INTENTION_LINE (cl_intention_line_id command) s)"
  have s1: "planning_ok ?s1" "ps_tenant_id ?s1 = ps_tenant_id s" "prefix (ps_publications s) (ps_publications ?s1)"
    using frame ok by (auto simp: trust_frame_def Let_def)
  show ?thesis
    using c
  proof (cases rule: planning_commit_cases)
    case revalidated
    then show ?thesis using ok s1 by auto
  next
    case (committed s1' p)
    have "p = publication_of (ps_tenant_id s) ctx command (pp_commit_sequence p)"
      using committed s1(2) by (intro PlanningPublication.equality) (auto dest: arg_cong [of _ _ fst] arg_cong [of _ _ snd])
    then have "genuine (ps_tenant_id ?s1) p"
      using structural tenant s1(2) unfolding genuine_def by metis
    then have "planning_ok s'"
      using append_publication_ok [of ?s1 p "ps_version s"] committed s1(1) by simp
    then show ?thesis
      using committed(1,16) s1 by (simp add: prefix_prefix)
  qed
qed

section \<open>The repository port\<close>

definition repository_ok :: "('r \<Rightarrow> string \<Rightarrow> PlanningState) \<Rightarrow> 'r \<Rightarrow> bool" where
  "repository_ok state_of r \<longleftrightarrow> (\<forall>t. planning_ok (state_of r t) \<and> ps_tenant_id (state_of r t) = t)"

text \<open>The body runs on the tenant's state, its result is returned and its state is kept.\<close>

locale planning_repository =
  fixes transact :: "'r transact"
    and state_of :: "'r \<Rightarrow> string \<Rightarrow> PlanningState"
  assumes transact_result: "fst (transact t body r) = fst (body (state_of r t))"
    and transact_state: "state_of (snd (transact t body r)) u
      = (if u = t then snd (body (state_of r t)) else state_of r u)"
begin

lemma execute_other_tenants:
  "t \<noteq> ic_tenant_id ctx \<Longrightarrow>
     state_of (snd (planning_execute transact revalidate ctx command r)) t = state_of r t"
  by (simp add: planning_execute_def transact_state split: option.splits)

lemma execute_own_tenant:
  "structural_error ctx command None = None \<Longrightarrow>
     fst (planning_execute transact revalidate ctx command r)
       = fst (planning_commit revalidate ctx command (request_fingerprint ctx command None) (state_of r (ic_tenant_id ctx)))
     \<and> state_of (snd (planning_execute transact revalidate ctx command r)) (ic_tenant_id ctx)
       = snd (planning_commit revalidate ctx command (request_fingerprint ctx command None) (state_of r (ic_tenant_id ctx)))"
  by (simp add: planning_execute_def transact_state transact_result)

lemma execute_ok:
  assumes ok: "repository_ok state_of r" and frame: "trust_frame revalidate"
  shows "repository_ok state_of (snd (planning_execute transact revalidate ctx command r))"
proof (cases "structural_error ctx command None")
  case None
  have "planning_ok (state_of (snd (planning_execute transact revalidate ctx command r)) t)
      \<and> ps_tenant_id (state_of (snd (planning_execute transact revalidate ctx command r)) t) = t" for t
  proof (cases "t = ic_tenant_id ctx")
    case True
    let ?c = "planning_commit revalidate ctx command (request_fingerprint ctx command None) (state_of r t)"
    have "planning_ok (state_of r t)" "ic_tenant_id ctx = ps_tenant_id (state_of r t)"
      using ok True by (simp_all add: repository_ok_def)
    then have "planning_ok (snd ?c) \<and> ps_tenant_id (snd ?c) = ps_tenant_id (state_of r t)"
      using planning_commit_ok [OF _ frame None, of "state_of r t" "fst ?c" "snd ?c"] by simp
    then show ?thesis
      using execute_own_tenant [OF None, of revalidate r] ok True by (simp add: repository_ok_def)
  next
    case False
    then show ?thesis
      using execute_other_tenants ok by (simp add: repository_ok_def)
  qed
  then show ?thesis by (simp add: repository_ok_def)
next
  case (Some e)
  then show ?thesis using ok by (simp add: planning_execute_def)
qed

end

interpretation mem: planning_repository memory_transact tenant_state
proof
  fix t body r u
  show "fst (memory_transact t body r) = fst (body (tenant_state r t))"
    by (simp add: memory_transact_def Let_def case_prod_unfold)
  show "tenant_state (snd (memory_transact t body r)) u
      = (if u = t then snd (body (tenant_state r t)) else tenant_state r u)"
    by (simp add: memory_transact_def tenant_state_def Let_def case_prod_unfold update_conv')
qed

section \<open>Histories\<close>

inductive planning_reachable :: "memory_repository \<Rightarrow> bool" where
  empty: "planning_reachable []"
| executes: "planning_reachable r \<Longrightarrow> trust_frame revalidate \<Longrightarrow>
    planning_reachable (snd (planning_execute memory_transact revalidate ctx command r))"
| invalidates: "planning_reachable r \<Longrightarrow> planning_reachable (invalidate_head t r)"

lemma invalidate_head_state:
  "tenant_state (invalidate_head t r) u =
     (if u = t then (tenant_state r t)\<lparr>ps_version := ps_version (tenant_state r t) + 1\<rparr> else tenant_state r u)"
  by (simp add: invalidate_head_def tenant_state_def Let_def update_conv')

lemma reachable_repository_ok: "planning_reachable r \<Longrightarrow> repository_ok tenant_state r"
proof (induction rule: planning_reachable.induct)
  case empty
  have "tenant_state [] t = new_state t" for t by (simp add: tenant_state_def)
  then show ?case by (simp add: repository_ok_def) (simp add: new_state_def)
next
  case (executes r revalidate ctx command)
  then show ?case by (intro mem.execute_ok)
next
  case (invalidates r t)
  then show ?case
    by (simp add: repository_ok_def invalidate_head_state)
qed

lemma committed_publications_state: "committed_publications r t = ps_publications (tenant_state r t)"
  by (simp add: committed_publications_def tenant_state_def new_state_def split: option.splits)

text \<open>What the lookup of a committed command finds.\<close>

lemma by_command_committed:
  assumes "planning_ok s" and "p \<in> set (ps_publications s)"
  shows "map_of (ps_by_command s) (command_value p) = Some p"
proof -
  have "distinct (map fst (map (\<lambda>p. (command_value p, p)) (ps_publications s)))"
    using assms(1) by (simp add: planning_ok_def comp_def)
  then have "map_of (map (\<lambda>p. (command_value p, p)) (ps_publications s)) (command_value p) = Some p"
    by (rule map_of_is_SomeI) (use assms(2) in auto)
  then show ?thesis using assms(1) by (simp add: planning_ok_def)
qed

end
