(* ===== verification/Planning_Properties.thy ===== *)
theory Planning_Properties
  imports Planning_History
begin

text \<open>
  The correctness statements of the planning owner and of the record fingerprints, with a sample command.
\<close>

section \<open>A sample command\<close>

definition wp_id :: "string \<Rightarrow> RecordId" where
  "wp_id v = \<lparr>ri_tenant_id = ''t'', ri_value = v\<rparr>"

definition wp_context :: InvocationContext where
  "wp_context = \<lparr>ic_tenant_id = ''t'', ic_principal_id = ''u'', ic_permission_scope = CREATE_SCOPE,
     ic_trust_reference = \<lparr>ptr_tenant_id = ''t'', ptr_principal_id = ''u'', ptr_contour = ''CLI'',
       ptr_credential_head = ''k'', ptr_session_head = ''s'', ptr_source_head = ''o'', ptr_trust_head = ''h'',
       ptr_materialization_head = ''m'', ptr_freshness_sequence = 3, ptr_peer_credential = ''p''\<rparr>\<rparr>"

definition wp_command :: CreateIntentionLine where
  "wp_command = \<lparr>cl_command_id = wp_id ''c'', cl_intention_line_id = wp_id ''l'', cl_revision_id = wp_id ''r'',
     cl_purpose = ''walk'', cl_authority_act_id = ''a''\<rparr>"

definition wp_trust :: revalidation where
  "wp_trust reference operation subject s = (\<lparr>td_disposition = T_VALID, td_reason = None\<rparr>, s)"

lemma wp_trust_frame: "trust_frame wp_trust"
  by (simp add: trust_frame_def wp_trust_def)

lemma wp_code_points:
  "code_points ''walk'' = [119, 97, 108, 107]" "code_points ''run'' = [114, 117, 110]" "code_points ''a'' = [97]"
  by (simp_all add: code_points_def of_char_def)

lemmas wp_admission = structural_error_def wp_context_def wp_command_def wp_id_def CREATE_SCOPE_def
  DIRECT_CONTOURS_def strip_def space_code_point_def Let_def wp_code_points

lemma wp_structural: "structural_error wp_context wp_command None = None"
  by (simp add: wp_admission)

lemma wp_changed: "structural_error wp_context (wp_command\<lparr>cl_purpose := ''run''\<rparr>) None = None"
  by (simp add: wp_admission)

definition wp_repository :: memory_repository where
  "wp_repository = snd (planning_execute memory_transact wp_trust wp_context wp_command [])"

lemma wp_reachable: "planning_reachable wp_repository"
  unfolding wp_repository_def by (intro planning_reachable.intros wp_trust_frame)

lemma wp_committed:
  "fst (planning_execute memory_transact wp_trust wp_context wp_command []) =
     accepted P_COMMITTED (snd (construct wp_context wp_command 1 (request_fingerprint wp_context wp_command None)))"
proof -
  let ?q = "request_fingerprint wp_context wp_command None"
  have s: "tenant_state [] ''t'' = new_state ''t''" by (simp add: tenant_state_def)
  have v: "map (ri_value \<circ> or_record_id) (fst (construct wp_context wp_command (Suc 0) ?q))
      = [''c'', ''c.authorization'', ''l'', ''r'', ''c.result'']"
    by (subst construct_values) (simp add: wp_command_def wp_id_def)
  have "fst (planning_commit wp_trust wp_context wp_command ?q (new_state ''t''))
      = accepted P_COMMITTED (snd (construct wp_context wp_command 1 ?q))"
    unfolding planning_commit_def using v
    by (simp add: new_state_def wp_trust_def case_prod_unfold Let_def del: map_map)
  then show ?thesis
    using mem.execute_own_tenant [OF wp_structural, of wp_trust "[]"] s by (simp add: wp_context_def)
qed

lemma wp_published: "map command_value (ps_publications (tenant_state wp_repository ''t'')) = [''c'']"
proof -
  let ?q = "request_fingerprint wp_context wp_command None"
  have own: "fst (planning_execute memory_transact wp_trust wp_context wp_command [])
        = fst (planning_commit wp_trust wp_context wp_command ?q (new_state ''t''))"
      "tenant_state wp_repository ''t'' = snd (planning_commit wp_trust wp_context wp_command ?q (new_state ''t''))"
    using mem.execute_own_tenant [OF wp_structural, of wp_trust "[]"]
    by (simp_all add: wp_context_def wp_repository_def tenant_state_def [of "[]"])
  have "planning_commit wp_trust wp_context wp_command ?q (new_state ''t'')
      = (fst (planning_commit wp_trust wp_context wp_command ?q (new_state ''t'')), tenant_state wp_repository ''t'')"
    using own(2) by simp
  then show ?thesis
  proof (cases rule: planning_commit_cases)
    case revalidated
    then show ?thesis using wp_committed own(1) by (simp add: accepted_def)
  next
    case (committed s1 p)
    then show ?thesis
      by (simp add: wp_trust_def new_state_def command_value_def wp_command_def wp_id_def)
  qed
qed

section \<open>Commands\<close>

text \<open>
  C25: Planning state is consistent in every history. However commands of any callers interleave,
  whatever the trust port answers or commits meanwhile, and however often heads are invalidated, each
  tenant's state has its head equal to the number of publications, the commit sequences 1, 2, ... in
  order, unique command and record identities over all publications, lookup tables that agree with the
  publications, and only publications that are the exact construction for a structurally admitted
  request of that tenant.
\<close>

theorem planning_consistent:
  assumes "planning_reachable r"
  shows "planning_ok (tenant_state r t) \<and> ps_tenant_id (tenant_state r t) = t"
  using reachable_repository_ok [OF assms] by (simp add: repository_ok_def)

theorem planning_consistent_witness:
  "planning_ok (tenant_state wp_repository ''t'')"
  using planning_consistent [OF wp_reachable] by blast

text \<open>
  C26: A command commits once, exactly and in isolation. When executing reports COMMITTED, the trust
  decision was VALID, the command's identity was new, the tenant's publications are those before with
  exactly one more, whose position is the next one and whose records and result are the construction
  for this very request; when it reports anything else and revalidation leaves the state alone, nothing
  changes; and no execution changes another tenant.
\<close>

theorem planning_commit_exact:
  assumes "planning_reachable r" and "trust_frame revalidate"
    and "planning_execute memory_transact revalidate ctx command r = (res, r')"
  shows "(po_disposition res = P_COMMITTED \<longrightarrow>
            committed_publications r' (ic_tenant_id ctx) = committed_publications r (ic_tenant_id ctx)
              @ [publication_of (ic_tenant_id ctx) ctx command (Suc (length (committed_publications r (ic_tenant_id ctx))))]
            \<and> ri_value (cl_command_id command) \<notin> set (map command_value (committed_publications r (ic_tenant_id ctx)))
            \<and> td_disposition (fst (revalidate (ic_trust_reference ctx) CREATE_INTENTION_LINE
                (cl_intention_line_id command) (tenant_state r (ic_tenant_id ctx)))) = T_VALID)
     \<and> (po_disposition res \<noteq> P_COMMITTED \<and> (\<forall>reference operation subject s. snd (revalidate reference operation subject s) = s)
          \<longrightarrow> tenant_state r' (ic_tenant_id ctx) = tenant_state r (ic_tenant_id ctx))
     \<and> (\<forall>t. t \<noteq> ic_tenant_id ctx \<longrightarrow> tenant_state r' t = tenant_state r t)"
proof -
  let ?t = "ic_tenant_id ctx"
  have others: "\<forall>t. t \<noteq> ?t \<longrightarrow> tenant_state r' t = tenant_state r t"
    using mem.execute_other_tenants [of _ ctx revalidate command r] assms(3) by simp
  show ?thesis
  proof (cases "structural_error ctx command None")
    case (Some e)
    then show ?thesis
      using assms(3) others by (auto simp: planning_execute_def refused_def)
  next
    case None
    have ok: "planning_ok (tenant_state r ?t)" "ps_tenant_id (tenant_state r ?t) = ?t"
      using reachable_repository_ok [OF assms(1)] by (auto simp: repository_ok_def)
    have c: "planning_commit revalidate ctx command (request_fingerprint ctx command None) (tenant_state r ?t)
        = (res, tenant_state r' ?t)"
      using mem.execute_own_tenant [OF None, of revalidate r] assms(3) by (metis fst_conv snd_conv prod.collapse)
    show ?thesis
      using c
    proof (cases rule: planning_commit_cases)
      case revalidated
      then show ?thesis using others by auto
    next
      case (committed s1 p)
      have s1: "planning_ok s1" "ps_tenant_id s1 = ?t" "ps_publications s1 = ps_publications (tenant_state r ?t)"
        using assms(2) ok committed(1,4) same_head_same_publications [of "tenant_state r ?t" s1]
        by (auto simp: trust_frame_def Let_def)
      have "ps_head (tenant_state r ?t) = length (ps_publications (tenant_state r ?t))"
        using ok by (simp add: planning_ok_def)
      then have "p = publication_of ?t ctx command (Suc (length (ps_publications (tenant_state r ?t))))"
        using committed(6-12) s1(2) by (intro PlanningPublication.equality) (auto dest: arg_cong [of _ _ fst] arg_cong [of _ _ snd])
      moreover have "ri_value (cl_command_id command) \<notin> set (map command_value (ps_publications (tenant_state r ?t)))"
        using committed(3) by_command_committed [OF ok(1)] by (auto simp del: not_None_eq)
      ultimately show ?thesis
        using committed(2,15,16) s1(3) others by (simp add: committed_publications_state accepted_def)
    qed
  qed
qed

theorem planning_commit_exact_witness:
  "map command_value (committed_publications wp_repository ''t'') = [''c'']"
proof -
  have "planning_execute memory_transact wp_trust wp_context wp_command [] =
      (accepted P_COMMITTED (snd (construct wp_context wp_command 1 (request_fingerprint wp_context wp_command None))),
       wp_repository)"
    using wp_committed by (simp add: wp_repository_def prod_eq_iff)
  from planning_commit_exact [OF planning_reachable.empty wp_trust_frame this] show ?thesis
    by (simp add: accepted_def committed_publications_def wp_context_def command_value_def wp_command_def wp_id_def)
qed

text \<open>
  C27: Repeating a command is idempotent and reusing its identity is refused. After a command committed,
  in every later state of the tenant's history the same request returns the original result as a replay
  whenever trust is still valid and the trust port's refusal otherwise; any request with the same
  command identity but another fingerprint is a conflict. Neither publishes anything.
\<close>

theorem planning_replay_exact:
  assumes "planning_reachable r" and "p \<in> set (committed_publications r (ic_tenant_id ctx))"
    and "structural_error ctx command None = None" and "ri_value (cl_command_id command) = command_value p"
    and "revalidate (ic_trust_reference ctx) CREATE_INTENTION_LINE (cl_intention_line_id command)
           (tenant_state r (ic_tenant_id ctx)) = (decision, tenant_state r (ic_tenant_id ctx))"
  shows "fst (planning_execute memory_transact revalidate ctx command r) =
     (if pp_request_fingerprint p \<noteq> request_fingerprint ctx command None
        then refused P_CONFLICT (Some ''command identity reused with changed bytes'')
      else if td_disposition decision = T_VALID then accepted P_REPLAY (pp_result p)
      else refused (trust_disposition (td_disposition decision)) (td_reason decision))
     \<and> (\<forall>t. committed_publications (snd (planning_execute memory_transact revalidate ctx command r)) t
            = committed_publications r t)"
proof -
  let ?t = "ic_tenant_id ctx"
  have "planning_ok (tenant_state r ?t)"
    using reachable_repository_ok [OF assms(1)] by (simp add: repository_ok_def)
  then have "map_of (ps_by_command (tenant_state r ?t)) (ri_value (cl_command_id command)) = Some p"
    using by_command_committed assms(2,4) by (simp add: committed_publications_state)
  then have c: "planning_commit revalidate ctx command (request_fingerprint ctx command None) (tenant_state r ?t) =
     (if pp_request_fingerprint p \<noteq> request_fingerprint ctx command None
        then refused P_CONFLICT (Some ''command identity reused with changed bytes'')
      else if td_disposition decision = T_VALID then accepted P_REPLAY (pp_result p)
      else refused (trust_disposition (td_disposition decision)) (td_reason decision), tenant_state r ?t)"
    using assms(5) by (simp add: planning_commit_def)
  have "tenant_state (snd (planning_execute memory_transact revalidate ctx command r)) t = tenant_state r t" for t
    using mem.execute_own_tenant [OF assms(3), of revalidate r] mem.execute_other_tenants [of t ctx revalidate command r] c
    by (cases "t = ?t") auto
  then show ?thesis
    using mem.execute_own_tenant [OF assms(3), of revalidate r] c by (simp add: committed_publications_state)
qed

theorem planning_replay_exact_witness:
  "po_disposition (fst (planning_execute memory_transact wp_trust wp_context
     (wp_command\<lparr>cl_purpose := ''run''\<rparr>) wp_repository)) \<in> {P_REPLAY, P_CONFLICT}"
proof -
  obtain p where "p \<in> set (committed_publications wp_repository ''t'')" "command_value p = ''c''"
    using wp_published by (cases "ps_publications (tenant_state wp_repository ''t'')") (auto simp: committed_publications_state)
  then show ?thesis
    using planning_replay_exact [OF wp_reachable, of p wp_context "wp_command\<lparr>cl_purpose := ''run''\<rparr>" wp_trust]
      wp_changed
    by (auto simp: wp_context_def wp_command_def wp_id_def wp_trust_def refused_def accepted_def)
qed

section \<open>Fingerprints\<close>

text \<open>
  C28: A record's fingerprint binds the whole record. Two owned records have equal fingerprint preimages
  only if they have the same identity, type, owner, versions and fields (up to the order of
  dictionary entries); so equal fingerprints of different records would be a collision of SHA-256.
\<close>

theorem record_fingerprint_binds:
  assumes "bound_bytes (canonical_record_bytes i t ow v f) = bound_bytes (canonical_record_bytes i' t' ow' v' f')"
  shows "i = i' \<and> t = t' \<and> ow = ow' \<and> v = v' \<and> json_norm f = json_norm f'"
  using canonical_record_bytes_inj [OF bound_bytes_payload [OF assms]] .

theorem record_fingerprint_binds_witness:
  "bound_bytes (canonical_record_bytes (wp_id ''a'') \<lparr>rt_namespace = ''n'', rt_name = ''m''\<rparr> ''w'' PLANNING_VERSIONS JNull)
     \<noteq> bound_bytes (canonical_record_bytes (wp_id ''b'') \<lparr>rt_namespace = ''n'', rt_name = ''m''\<rparr> ''w'' PLANNING_VERSIONS JNull)"
  by (rule notI, drule record_fingerprint_binds) (simp add: wp_id_def)

end
