(* ===== verification/Loop_Contracts.thy ===== *)
theory Loop_Contracts
  imports Py_Json Prelude
begin

text \<open>
  The values the agent loop works on (\<open>capabilities/agent_loop/contracts.py\<close>, \<open>delivery_contracts.py\<close> and the
  models of \<open>delivery_preparation.py\<close>). Fields with a single possible value (schema versions, literal
  kinds) are left out. Serialisation and schema validation are pydantic's and are the parameters of
  \<open>LoopCodec\<close>. A base64 text is the bytes it encodes; the request of an attempt, which the code keeps
  as the text of a JSON object and loads again, is that object.
\<close>

section \<open>Errors\<close>

text \<open>\<open>LoopRejected\<close> and pydantic's \<open>ValidationError\<close> are \<open>ValueError\<close>s; an \<open>IndexError\<close> is not.\<close>

datatype LoopError = LoopRejected string | ResponseInvalid | IndexFailed

section \<open>Runs, Turns and attempts\<close>

datatype RunState = CREATED | ACTIVE | SUCCEEDED | SUSPENDED | SUPERSEDED | ABORTED | CANCELLED

datatype ModelAttemptState =
    PREPARED_NOT_EMITTED | EMITTED_OUTCOME_UNKNOWN | RESPONSE_CAPTURED | TERMINAL_REJECTED | TERMINAL_ACCEPTED

record LiveModelBinding =
  lm_provider :: string
  lm_recipient :: string
  lm_model :: string
  lm_effort :: string
  lm_credential_identity :: string

datatype BudgetKind = MAX_TURNS | NO_POLICY

record BudgetPolicy =
  bp_live_model :: "LiveModelBinding option"
  bp_kind :: BudgetKind
  bp_max_turns :: nat
  bp_max_request_bytes :: nat
  bp_max_response_bytes :: nat
  bp_max_tool_calls :: nat
  bp_max_model_retries :: "nat option"

datatype ToolName = propose_planning | propose_intent

record ToolSpec =
  ts_name :: ToolName
  ts_schema_id :: string

record ToolCall =
  tl_call_id :: string
  tl_tool :: ToolName
  tl_text :: string

record EndpointSelection =
  en_kind :: string
  en_ingress_binding_head :: string
  en_endpoint_head :: string
  en_endpoint_id :: string
  en_provider :: string
  en_recipient :: string
  en_canonical_address :: string
  en_credential_binding_head :: string

datatype DeliveryKind = NonAuthoritativeText | DeliveryAssertion

record Delivery =
  dy_kind :: DeliveryKind
  dy_text :: "string option"
  dy_endpoint :: "EndpointSelection option"
  dy_assertion_code :: "string option"
  dy_evidence_id :: "string option"

datatype LoopLabelValue = LL_UNRESTRICTED | LL_ENDPOINT_RESTRICTED | LL_DENY_ALL

record LoopLabel =
  ll_value :: LoopLabelValue
  ll_allowed_endpoints :: "string list"

record VisibilityMember =
  vm_record_id :: string
  vm_revision_head :: string
  vm_content :: string
  vm_provenance_head :: string
  vm_label_head :: string
  vm_label :: LoopLabel
  vm_producer :: string
  vm_surface :: string

record PromptArtifact =
  pa_content_hash :: string
  pa_library_version :: string
  pa_generator_version :: string
  pa_tools :: "ToolSpec list"
  pa_response_schema_json :: string
  pa_rendered :: string

record VisibilityManifest =
  mf_tenant :: string
  mf_principal :: string
  mf_contour_head :: string
  mf_run_id :: string
  mf_turn_id :: string
  mf_generation :: nat
  mf_worker_session :: string
  mf_members :: "VisibilityMember list"
  mf_joined_label :: LoopLabel
  mf_artifact :: PromptArtifact

record ModelAttempt =
  ma_attempt_id :: string
  ma_lineage_id :: string
  ma_generation :: nat
  ma_state :: ModelAttemptState
  ma_head :: string
  ma_manifest :: VisibilityManifest
  ma_request :: json
  ma_provider_contract :: string
  ma_recipient :: string
  ma_live_model :: "LiveModelBinding option"
  ma_worker_session :: string
  ma_response :: "bytes option"
  ma_receipt :: "string option"
  ma_rejection :: "string option"

record NoExposureProof =
  nx_attempt_id :: string
  nx_attempt_head :: string
  nx_run_head :: string
  nx_worker_session :: string
  nx_provider_contract :: string

datatype OutcomeState = INITIALIZED | TERMINAL | RECOVERY_REQUIRED

record ToolOutcome =
  to_call :: ToolCall
  to_state :: OutcomeState
  to_result :: "string option"
  to_evidence_id :: "string option"
  to_proposal_id :: "string option"

record LocalPlanningReceipt =
  lr_evidence_id :: string
  lr_proposal_id :: string
  lr_display_id :: string
  lr_command_id :: string
  lr_revision_id :: string
  lr_purpose :: string
  lr_canonical_result :: string
  lr_result_digest :: string

datatype TurnState = PREPARING | CALL_ACTIVE | RESPONSE_AVAILABLE | ACCEPTED | REJECTED

record Turn =
  tn_turn_id :: string
  tn_ordinal :: nat
  tn_head :: string
  tn_state :: TurnState
  tn_accumulator :: "VisibilityMember list"
  tn_attempts :: "ModelAttempt list"
  tn_selector :: nat
  tn_sealed_calls :: "ToolOutcome list option"

record AcceptedDelivery =
  ad_delivery_id :: string
  ad_payload :: Delivery
  ad_rendered :: string
  ad_visibility_digest :: string

text \<open>\<open>None\<close> stands for \<open>"NOT_APPLICABLE"\<close> and \<open>"LEGACY_R13"\<close> in the two bindings; the references are
  carried by their identities and fingerprints.\<close>

record SchedulerRootReference =
  sr_root_id :: string
  sr_subject_canonical :: bytes
  sr_subject_schema_version :: string
  sr_root_fingerprint :: string
  sr_initial_run_id :: string

record DeliveryAcceptanceReference =
  da_acceptance_identity :: string
  da_acceptance_head :: string
  da_acceptance_fingerprint :: string
  da_proposal_canonical :: bytes

record RunRecord =
  rn_tenant :: string
  rn_principal :: string
  rn_run_id :: string
  rn_state :: RunState
  rn_head :: string
  rn_predecessor :: "string option"
  rn_prompt :: string
  rn_policy :: BudgetPolicy
  rn_origin :: EndpointSelection
  rn_contour_head :: string
  rn_policy_head :: string
  rn_worker_session :: string
  rn_root_binding :: "SchedulerRootReference option"
  rn_accepted_delivery_binding :: "DeliveryAcceptanceReference option"
  rn_turns :: "Turn list"
  rn_deliveries :: "AcceptedDelivery list"
  rn_accepted_text :: "string list"
  rn_planning_receipts :: "LocalPlanningReceipt list"
  rn_event :: string

section \<open>Delivery contracts\<close>

record DeliveryHead =
  dh_identity :: string
  dh_head :: string
  dh_fingerprint :: string

record DeliveryRecipient =
  dr_provider_id :: string
  dr_account_id :: string
  dr_recipient_id :: string
  dr_endpoint :: DeliveryHead
  dr_canonical_address :: bytes
  dr_credential_binding :: DeliveryHead

datatype SelectedEndpoint =
    OriginSelection DeliveryHead (sel_recipient: DeliveryRecipient)
  | ModelSelection (sel_recipient: DeliveryRecipient)

record QueryBase =
  qb_tenant :: string
  qb_subject :: DeliveryHead
  qb_correlation :: DeliveryHead
  qb_query :: DeliveryHead
  qb_records :: "DeliveryHead list"
  qb_source_frontier :: nat

datatype PlanQueryState = PLAN_ACTIVE | PLAN_COMPLETED | PLAN_CANCELLED
datatype FactQueryState = FACT_OWNER_ASSERTED | FACT_RETRACTED
datatype CandidateQueryState = CANDIDATE_PENDING | CANDIDATE_ACCEPTED | CANDIDATE_REJECTED
datatype Classification = NONTERMINAL_CANDIDATE | TERMINAL_CANDIDATE
datatype ProviderOutcome = PROVIDER_CONFIRMED_SUCCESS | PROVIDER_CONFIRMED_FAILURE | PROVIDER_UNKNOWN
datatype ProviderEvidenceKind = AUTHENTICATED_RECEIPT | COMPLETED_RECONCILIATION

datatype CurrentQuery =
    PlanQuery (query_base: QueryBase) PlanQueryState DeliveryHead
  | FactQuery (query_base: QueryBase) FactQueryState DeliveryHead string
  | CandidateQuery (query_base: QueryBase) DeliveryHead DeliveryHead CandidateQueryState Classification string
  | ProviderQuery (query_base: QueryBase) ProviderEvidenceKind DeliveryHead ProviderOutcome

datatype QueryKind = K_PLAN | K_FACT | K_CANDIDATE | K_PROVIDER

fun query_kind :: "CurrentQuery \<Rightarrow> QueryKind" where
  "query_kind (PlanQuery _ _ _) = K_PLAN"
| "query_kind (FactQuery _ _ _ _) = K_FACT"
| "query_kind (CandidateQuery _ _ _ _ _ _) = K_CANDIDATE"
| "query_kind (ProviderQuery _ _ _ _) = K_PROVIDER"

record AssertionPayload =
  ap_assertion_kind :: QueryKind
  ap_subject :: DeliveryHead
  ap_correlation :: DeliveryHead
  ap_query :: DeliveryHead
  ap_records :: "DeliveryHead list"
  ap_source_frontier :: nat
  ap_candidate_disposition :: "DeliveryHead option"
  ap_codes :: "string list"

datatype DeliveryPayload = Commentary string | Assertion AssertionPayload

record ProposedDelivery =
  pd_selection :: "SelectedEndpoint option"
  pd_payload :: "DeliveryPayload list"

record DeliveryCompletion =
  dc_tenant :: string
  dc_run_id :: string
  dc_turn_id :: string
  dc_deliveries :: "ProposedDelivery list"

record HistoricalEnvelope =
  he_content :: DeliveryHead
  he_visibility :: DeliveryHead
  he_provenance :: DeliveryHead
  he_disclosure :: DeliveryHead
  he_label :: LoopLabel
  he_narrowing :: "DeliveryHead list"

record DeliveryObservation =
  do_tenant :: string
  do_run :: DeliveryHead
  do_turn_id :: string
  do_captured_response :: bytes
  do_source_frontier :: nat
  do_origin :: SelectedEndpoint
  do_recipients :: "DeliveryRecipient list"
  do_history :: "HistoricalEnvelope list"
  do_queries :: "CurrentQuery list"
  do_policy :: DeliveryHead
  do_worker_fence :: DeliveryHead

record ManifestDelivery =
  md_delivery_id :: string
  md_acceptance :: DeliveryHead
  md_selection :: SelectedEndpoint
  md_rendered_bytes :: bytes
  md_render_digest :: string
  md_manifest_digest :: string
  md_visibility :: "DeliveryHead list"
  md_provenance :: "DeliveryHead list"
  md_disclosure :: "DeliveryHead list"
  md_narrowing :: "DeliveryHead list"
  md_policy :: DeliveryHead

record DeliveryManifest =
  dm_manifest_id :: string
  dm_run_id :: string
  dm_turn_id :: string
  dm_complete_acceptance :: DeliveryHead
  dm_authenticated_worker_fence :: DeliveryHead
  dm_ordered_deliveries :: "ManifestDelivery list"

record DeliveryAcceptanceProposal =
  dp_source_command_digest :: string
  dp_source_snapshot_digest :: string
  dp_acceptance :: DeliveryHead
  dp_manifest :: DeliveryManifest
  dp_history_rendered_bytes :: "bytes list"
  dp_proposal_digest :: string

section \<open>Responses and the codec\<close>

text \<open>A parsed response: \<open>Continue\<close> with its calls, \<open>Complete\<close> with its deliveries, or the
  \<open>DeliveryCompletion\<close> of the delivery generator.\<close>

datatype Response = Continue "ToolCall list" | Complete "Delivery list" | CompleteDelivery DeliveryCompletion

text \<open>
  What the loop uses of pydantic: \<open>model_dump(mode="json")\<close> of each model, the JSON schema and the
  \<open>validate_json\<close> of the two response adapters for a tool tuple, and \<open>model_validate_json\<close> of
  \<open>Continue\<close> and \<open>Complete\<close>.
\<close>

record LoopCodec =
  dump_run :: "RunRecord \<Rightarrow> json"
  dump_turn :: "Turn \<Rightarrow> json"
  dump_attempt :: "ModelAttempt \<Rightarrow> json"
  dump_manifest :: "VisibilityManifest \<Rightarrow> json"
  dump_artifact :: "PromptArtifact \<Rightarrow> json"
  dump_member :: "VisibilityMember \<Rightarrow> json"
  dump_response :: "Response \<Rightarrow> json"
  dump_observation :: "DeliveryObservation \<Rightarrow> json"
  dump_selection :: "SelectedEndpoint \<Rightarrow> json"
  dump_envelope :: "HistoricalEnvelope \<Rightarrow> json"
  dump_delivery_head :: "DeliveryHead \<Rightarrow> json"
  dump_delivery_manifest :: "DeliveryManifest \<Rightarrow> json"
  dump_proposal :: "DeliveryAcceptanceProposal \<Rightarrow> json"
  response_schema :: "ToolSpec list \<Rightarrow> json"
  validate_response :: "ToolSpec list \<Rightarrow> bytes \<Rightarrow> (ToolCall list + Delivery list) option"
  delivery_schema :: "ToolSpec list \<Rightarrow> json"
  validate_delivery :: "ToolSpec list \<Rightarrow> bytes \<Rightarrow> (ToolCall list + DeliveryCompletion) option"
  parse_continue :: "bytes \<Rightarrow> ToolCall list option"
  parse_complete :: "bytes \<Rightarrow> Delivery list option"

definition rejected :: "string \<Rightarrow> (LoopError, 'a) result" where
  "rejected reason = Inl (LoopRejected reason)"

lemma rejected_neq_Inr [simp]: "rejected reason \<noteq> Inr x"
  by (simp add: rejected_def)

definition loop_require :: "bool \<Rightarrow> string \<Rightarrow> (LoopError, unit) result" where
  "loop_require condition reason = (if condition then Inr () else rejected reason)"

lemma loop_require_eq_Inr [simp]: "loop_require b r = Inr u \<longleftrightarrow> b"
  by (simp add: loop_require_def)

text \<open>A pydantic validation: \<open>None\<close> is its \<open>ValidationError\<close>.\<close>

definition validated :: "'a option \<Rightarrow> (LoopError, 'a) result" where
  "validated x = (case x of None \<Rightarrow> Inl ResponseInvalid | Some v \<Rightarrow> Inr v)"

lemma validated_eq_Inr [simp]: "validated x = Inr v \<longleftrightarrow> x = Some v"
  by (cases x) (auto simp: validated_def)

end
