(* ===== verification/Loop_Delivery.thy ===== *)
theory Loop_Delivery
  imports Loop_Contracts
begin

text \<open>
  Delivery proposals and response parsing (\<open>capabilities/agent_loop/delivery_preparation.py\<close> and
  \<open>response_parsing.py\<close>): the rendering of a model's completion against the broker's observation, and the
  parser a captured prompt artifact selects. \<open>complete_delivery\<close>, which also needs the Run operations,
  is in the theory of validated records.
\<close>

section \<open>Rendering of assertions\<close>

fun plan_state_text :: "PlanQueryState \<Rightarrow> string" where
  "plan_state_text PLAN_ACTIVE = ''ACTIVE''"
| "plan_state_text PLAN_COMPLETED = ''COMPLETED''"
| "plan_state_text PLAN_CANCELLED = ''CANCELLED''"

fun fact_state_text :: "FactQueryState \<Rightarrow> string" where
  "fact_state_text FACT_OWNER_ASSERTED = ''OWNER_ASSERTED''"
| "fact_state_text FACT_RETRACTED = ''RETRACTED''"

fun candidate_state_text :: "CandidateQueryState \<Rightarrow> string" where
  "candidate_state_text CANDIDATE_PENDING = ''PENDING''"
| "candidate_state_text CANDIDATE_ACCEPTED = ''ACCEPTED''"
| "candidate_state_text CANDIDATE_REJECTED = ''REJECTED''"

fun provider_outcome_text :: "ProviderOutcome \<Rightarrow> string" where
  "provider_outcome_text PROVIDER_CONFIRMED_SUCCESS = ''CONFIRMED_SUCCESS''"
| "provider_outcome_text PROVIDER_CONFIRMED_FAILURE = ''CONFIRMED_FAILURE''"
| "provider_outcome_text PROVIDER_UNKNOWN = ''UNKNOWN''"

fun provider_evidence_text :: "ProviderEvidenceKind \<Rightarrow> string" where
  "provider_evidence_text AUTHENTICATED_RECEIPT = ''AUTHENTICATED_RECEIPT''"
| "provider_evidence_text COMPLETED_RECONCILIATION = ''COMPLETED_RECONCILIATION''"

text \<open>The check of the typed query, the code it entails and the text it is rendered as.\<close>

fun entailed :: "AssertionPayload \<Rightarrow> CurrentQuery \<Rightarrow> (LoopError, string \<times> string) result" where
  "entailed assertion (PlanQuery base state planning_head) =
     rbind (loop_require (planning_head \<in> set (qb_records base)) ''planning head absent from query evidence'') (\<lambda>_.
       Inr (''PLAN_'' @ plan_state_text state, ''Plan state: '' @ plan_state_text state @ ''.''))"
| "entailed assertion (FactQuery base state claim_head attribution) =
     rbind (loop_require (claim_head \<in> set (qb_records base)) ''claim head absent from query evidence'') (\<lambda>_.
       Inr (''FACT_'' @ fact_state_text state,
            ''Owner-authored fact claim: '' @ fact_state_text state @ ''; attributed to ''
              @ dumps (JStr attribution) @ ''.''))"
| "entailed assertion (CandidateQuery base candidate_version disposition state classification attribution) =
     rbind (loop_require
         (Some disposition = ap_candidate_disposition assertion
          \<and> disposition \<in> set (qb_records base) \<and> candidate_version \<in> set (qb_records base)
          \<and> classification = (if state = CANDIDATE_PENDING then NONTERMINAL_CANDIDATE else TERMINAL_CANDIDATE))
         ''candidate version/disposition or terminal classification differs'') (\<lambda>_.
       Inr (''CANDIDATE_'' @ candidate_state_text state,
            ''Candidate status: '' @ candidate_state_text state @ ''; attributed to ''
              @ dumps (JStr attribution) @ ''.''))"
| "entailed assertion (ProviderQuery base evidence_kind evidence outcome) =
     rbind (loop_require (evidence \<in> set (qb_records base)) ''provider receipt/reconciliation absent'') (\<lambda>_.
       Inr (''PROVIDER_'' @ provider_outcome_text outcome,
            ''Provider outcome: '' @ provider_outcome_text outcome @ ''; evidence: ''
              @ provider_evidence_text evidence_kind @ ''.''))"

definition render_assertion :: "AssertionPayload \<Rightarrow> DeliveryObservation \<Rightarrow> (LoopError, bytes) result" where
  "render_assertion assertion snapshot =
     (case filter (\<lambda>q. qb_query (query_base q) = ap_query assertion) (do_queries snapshot) of
        [query] \<Rightarrow>
          let base = query_base query in
          rbind (loop_require
              (qb_tenant base = do_tenant snapshot \<and> qb_subject base = ap_subject assertion
               \<and> qb_correlation base = ap_correlation assertion \<and> query_kind query = ap_assertion_kind assertion
               \<and> qb_records base = ap_records assertion
               \<and> qb_source_frontier base = ap_source_frontier assertion
               \<and> ap_source_frontier assertion = do_source_frontier snapshot)
              ''assertion source tenant/subject/correlation/frontier differs'') (\<lambda>_.
          rbind (loop_require (distinct (ap_codes assertion)) ''duplicate assertion code'') (\<lambda>_.
          rbind (loop_require (distinct (qb_records base)) ''duplicate assertion evidence'') (\<lambda>_.
          rbind (entailed assertion query) (\<lambda>(code, text).
          rbind (loop_require (query_kind query = K_CANDIDATE \<or> ap_candidate_disposition assertion = None)
              ''noncandidate assertion carries candidate disposition'') (\<lambda>_.
          rbind (loop_require (ap_codes assertion = [code])
              ''assertion code not entailed by typed current record'') (\<lambda>_.
          Inr (encode (text @ '' Subject: '' @ dumps (JStr (dh_identity (qb_subject base))) @ ''.''))))))))
      | _ \<Rightarrow> rejected ''assertion has no unique current admissible query'')"

section \<open>Completion\<close>

definition recipient_key :: "DeliveryRecipient \<Rightarrow> string \<times> string \<times> string" where
  "recipient_key r = (dr_provider_id r, dr_account_id r, dr_recipient_id r)"

definition newline :: string where
  "newline = [CHR 0x0A]"

definition render_payload :: "DeliveryObservation \<Rightarrow> DeliveryPayload \<Rightarrow> (LoopError, bytes) result" where
  "render_payload snapshot payload =
     (case payload of
        Commentary text \<Rightarrow> Inr (encode (''UNVERIFIED MODEL COMMENTARY'' @ newline) @ canonical_json (JStr text)
          @ encode (newline @ ''END UNVERIFIED MODEL COMMENTARY''))
      | Assertion assertion \<Rightarrow> render_assertion assertion snapshot)"

fun join_bytes :: "bytes \<Rightarrow> bytes list \<Rightarrow> bytes" where
  "join_bytes sep [] = []"
| "join_bytes sep [x] = x"
| "join_bytes sep (x # y # xs) = x @ sep @ join_bytes sep (y # xs)"

definition label_permits :: "LoopLabel \<Rightarrow> string \<Rightarrow> bool" where
  "label_permits label endpoint \<longleftrightarrow>
     ll_value label = LL_UNRESTRICTED \<and> ll_allowed_endpoints label = []
     \<or> ll_value label = LL_ENDPOINT_RESTRICTED \<and> endpoint \<in> set (ll_allowed_endpoints label)"

type_synonym prepared_deliveries = "(SelectedEndpoint \<times> bytes) list \<times> (string \<times> string \<times> string) list"

definition check_envelope ::
  "SelectedEndpoint \<Rightarrow> HistoricalEnvelope \<Rightarrow> unit \<Rightarrow> (LoopError, unit) result" where
  "check_envelope selection envelope _ =
     loop_require (label_permits (he_label envelope) (dh_identity (dr_endpoint (sel_recipient selection))))
       ''historical disclosure forbids endpoint''"

definition append_rendered ::
  "DeliveryObservation \<Rightarrow> DeliveryPayload \<Rightarrow> bytes list \<Rightarrow> (LoopError, bytes list) result" where
  "append_rendered snapshot payload rendered =
     rbind (render_payload snapshot payload) (\<lambda>raw. Inr (rendered @ [raw]))"

definition prepare_delivery ::
  "DeliveryObservation \<Rightarrow> ProposedDelivery \<Rightarrow> prepared_deliveries \<Rightarrow> (LoopError, prepared_deliveries) result" where
  "prepare_delivery snapshot delivery acc =
     (let (prepared, recipient_keys) = acc;
          selection = (case pd_selection delivery of Some s \<Rightarrow> s | None \<Rightarrow> do_origin snapshot)
      in
      rbind (loop_require (case selection of OriginSelection _ _ \<Rightarrow> selection = do_origin snapshot | _ \<Rightarrow> True)
          ''origin differs from authenticated ingress binding'') (\<lambda>_.
      rbind (loop_require (count_list (do_recipients snapshot) (sel_recipient selection) = 1)
          ''endpoint tuple is not uniquely registered and current'') (\<lambda>_.
      let key = recipient_key (sel_recipient selection) in
      rbind (loop_require (key \<notin> set recipient_keys) ''duplicate authenticated provider recipient'') (\<lambda>_.
      rbind (rfold (check_envelope selection) (do_history snapshot) ()) (\<lambda>_.
      rbind (rfold (append_rendered snapshot) (pd_payload delivery) []) (\<lambda>rendered.
      Inr (prepared @ [(selection, join_bytes (encode (newline @ newline)) rendered)], recipient_keys @ [key])))))))"

definition acceptance_primitive :: "LoopCodec \<Rightarrow> DeliveryCompletion \<Rightarrow> DeliveryObservation \<Rightarrow> json" where
  "acceptance_primitive d completion snapshot =
     JObj [(''domain'', JStr ''chiplog.delivery-acceptance-primitive.v1''),
           (''command'', dump_response d (CompleteDelivery completion)),
           (''observation'', dump_observation d snapshot)]"

definition acceptance_head :: "LoopCodec \<Rightarrow> DeliveryCompletion \<Rightarrow> DeliveryObservation \<Rightarrow> DeliveryHead" where
  "acceptance_head d completion snapshot =
     (let fingerprint = json_digest (acceptance_primitive d completion snapshot) in
      \<lparr>dh_identity = dc_run_id completion @ ''/'' @ dc_turn_id completion @ ''/complete'',
       dh_head = ''delivery-acceptance:'' @ fingerprint, dh_fingerprint = fingerprint\<rparr>)"

definition manifest_delivery ::
  "LoopCodec \<Rightarrow> DeliveryHead \<Rightarrow> DeliveryObservation \<Rightarrow> nat \<times> SelectedEndpoint \<times> bytes \<Rightarrow> ManifestDelivery" where
  "manifest_delivery d acceptance snapshot entry =
     (let (index, selection, rendered_bytes) = entry in
      \<lparr>md_delivery_id = dh_identity acceptance @ ''/delivery/'' @ nat_str index,
       md_acceptance = acceptance,
       md_selection = selection,
       md_rendered_bytes = rendered_bytes,
       md_render_digest = sha256_hex rendered_bytes,
       md_manifest_digest = json_digest (JObj
         [(''selection'', dump_selection d selection),
          (''render_digest'', JStr (sha256_hex rendered_bytes)),
          (''history'', JArr (map (dump_envelope d) (do_history snapshot))),
          (''policy'', dump_delivery_head d (do_policy snapshot))]),
       md_visibility = map he_visibility (do_history snapshot),
       md_provenance = map he_provenance (do_history snapshot),
       md_disclosure = map he_disclosure (do_history snapshot),
       md_narrowing = concat (map he_narrowing (do_history snapshot)),
       md_policy = do_policy snapshot\<rparr>)"

definition prepare_completion ::
  "LoopCodec \<Rightarrow> DeliveryCompletion \<Rightarrow> DeliveryObservation \<Rightarrow> (LoopError, DeliveryAcceptanceProposal) result" where
  "prepare_completion d completion snapshot =
     (let completion_bytes = canonical_json (dump_response d (CompleteDelivery completion)) in
      rbind (loop_require
          (completion_bytes = do_captured_response snapshot \<and> dc_tenant completion = do_tenant snapshot
           \<and> dc_run_id completion = dh_identity (do_run snapshot) \<and> dc_turn_id completion = do_turn_id snapshot)
          ''completion differs from exact captured Run/Turn response'') (\<lambda>_.
      rbind (loop_require (distinct (map (\<lambda>e. (he_content e, he_visibility e)) (do_history snapshot)))
          ''duplicate historical revision'') (\<lambda>_.
      rbind (loop_require (distinct (map (\<lambda>q. qb_query (query_base q)) (do_queries snapshot)))
          ''duplicate current query'') (\<lambda>_.
      rbind (loop_require
          (distinct (map (\<lambda>q. (query_kind q, dh_identity (qb_subject (query_base q)))) (do_queries snapshot)))
          ''rival current subject queries'') (\<lambda>_.
      rbind (rfold (prepare_delivery snapshot) (dc_deliveries completion) ([], [])) (\<lambda>(prepared, _).
      let acceptance = acceptance_head d completion snapshot;
          manifest =
            \<lparr>dm_manifest_id = dh_identity acceptance @ ''/manifest'', dm_run_id = dc_run_id completion,
             dm_turn_id = dc_turn_id completion, dm_complete_acceptance = acceptance,
             dm_authenticated_worker_fence = do_worker_fence snapshot,
             dm_ordered_deliveries =
               map (manifest_delivery d acceptance snapshot) (zip [0..<length prepared] prepared)\<rparr>
      in Inr
        \<lparr>dp_source_command_digest = sha256_hex completion_bytes,
         dp_source_snapshot_digest = json_digest (dump_observation d snapshot),
         dp_acceptance = acceptance,
         dp_manifest = manifest,
         dp_history_rendered_bytes = map snd prepared,
         dp_proposal_digest = json_digest (dump_delivery_manifest d manifest)\<rparr>))))))"

definition revalidate_delivery ::
  "LoopCodec \<Rightarrow> DeliveryAcceptanceProposal \<Rightarrow> DeliveryCompletion \<Rightarrow> DeliveryObservation \<Rightarrow> (LoopError, unit) result" where
  "revalidate_delivery d accepted completion current =
     rbind (prepare_completion d completion current) (\<lambda>proposal.
       loop_require (proposal = accepted) ''accepted delivery cut changed'')"

section \<open>Response parsing\<close>

definition TOOLS :: "ToolSpec list" where
  "TOOLS =
     [\<lparr>ts_name = propose_planning, ts_schema_id = ''chiplog.propose-planning.v1''\<rparr>,
      \<lparr>ts_name = propose_intent, ts_schema_id = ''chiplog.propose-intent.v1''\<rparr>]"

definition DELIVERY_GENERATOR :: string where
  "DELIVERY_GENERATOR = ''chiplog.turn-schema.delivery.v1''"

definition DELIVERY_TOOLS :: "ToolSpec list" where
  "DELIVERY_TOOLS =
     [\<lparr>ts_name = propose_planning, ts_schema_id = ''chiplog.propose-planning.v1''\<rparr>,
      \<lparr>ts_name = propose_intent, ts_schema_id = ''chiplog.propose-intent.v1''\<rparr>]"

definition delivery_response_adapter :: "ToolSpec list \<Rightarrow> (LoopError, unit) result" where
  "delivery_response_adapter tools =
     rbind (loop_require (tools \<noteq> [] \<and> distinct tools) ''empty/duplicate delivery tools'') (\<lambda>_.
       loop_require (tools = filter (\<lambda>t. t \<in> set tools) DELIVERY_TOOLS)
         ''unknown or noncanonical delivery tool identities'')"

definition parse_delivery_response ::
  "LoopCodec \<Rightarrow> bytes \<Rightarrow> PromptArtifact \<Rightarrow> (LoopError, Response) result" where
  "parse_delivery_response d raw artifact =
     rbind (loop_require (pa_generator_version artifact = DELIVERY_GENERATOR)
         ''wrong captured delivery generator'') (\<lambda>_.
     rbind (delivery_response_adapter (pa_tools artifact)) (\<lambda>_.
     rbind (loop_require (pa_response_schema_json artifact = dumps (delivery_schema d (pa_tools artifact)))
         ''wrong captured delivery response schema'') (\<lambda>_.
     rbind (validated (validate_delivery d (pa_tools artifact) raw)) (\<lambda>response.
     case response of
       Inl tool_calls \<Rightarrow>
         rbind (loop_require (canonical_json (dump_response d (Continue tool_calls)) = raw)
             ''noncanonical delivery response bytes'') (\<lambda>_.
         rbind (loop_require (distinct (map tl_call_id tool_calls)) ''duplicate delivery tool call'') (\<lambda>_.
         rbind (validated (parse_continue d raw)) (\<lambda>calls. Inr (Continue calls))))
     | Inr completion \<Rightarrow>
         rbind (loop_require (canonical_json (dump_response d (CompleteDelivery completion)) = raw)
             ''noncanonical delivery response bytes'') (\<lambda>_. Inr (CompleteDelivery completion))))))"

definition response_adapter :: "ToolSpec list \<Rightarrow> (LoopError, unit) result" where
  "response_adapter tools =
     rbind (loop_require (tools \<noteq> [] \<and> distinct (map ts_name tools)) ''empty or duplicate ToolSpec set'') (\<lambda>_.
       loop_require (set tools \<subseteq> set TOOLS) ''unknown ToolSpec identity/version'')"

definition parse_response :: "LoopCodec \<Rightarrow> bytes \<Rightarrow> PromptArtifact \<Rightarrow> (LoopError, Response) result" where
  "parse_response d raw artifact =
     rbind (loop_require (pa_generator_version artifact = ''chiplog.turn-schema.v1'')
         ''legacy parser rejects other response generators'') (\<lambda>_.
     rbind (response_adapter (pa_tools artifact)) (\<lambda>_.
     rbind (loop_require (pa_response_schema_json artifact = dumps_ascii (response_schema d (pa_tools artifact)))
         ''schema bytes differ from exact versioned generator'') (\<lambda>_.
     rbind (validated (validate_response d (pa_tools artifact) raw)) (\<lambda>response.
     case response of
       Inl tool_calls \<Rightarrow>
         rbind (loop_require (tl_tool ` set tool_calls \<subseteq> ts_name ` set (pa_tools artifact))
             ''tool absent from exact Turn schema'') (\<lambda>_.
         rbind (loop_require (distinct (map tl_call_id tool_calls)) ''duplicate sealed call identity'') (\<lambda>_.
         rbind (validated (parse_continue d (canonical_json (dump_response d (Continue tool_calls))))) (\<lambda>calls.
           Inr (Continue calls))))
     | Inr deliveries \<Rightarrow> Inr (Complete deliveries)))))"

definition parse_captured_response ::
  "LoopCodec \<Rightarrow> bytes \<Rightarrow> PromptArtifact \<Rightarrow> (LoopError, Response) result" where
  "parse_captured_response d raw artifact =
     (if pa_generator_version artifact = ''chiplog.turn-schema.v1'' then parse_response d raw artifact
      else if pa_generator_version artifact = DELIVERY_GENERATOR then parse_delivery_response d raw artifact
      else rejected ''unknown captured response generator'')"

end
