(* ===== verification/Loop.thy ===== *)
theory Loop
  imports Loop_Delivery "HOL-Library.AList"
begin

text \<open>
  The agent loop's owner decisions (\<open>capabilities/agent_loop/domain.py\<close>): a Run is an immutable record, and
  every operation returns its successor or raises.
\<close>

section \<open>Successors\<close>

definition run_successor :: "LoopCodec \<Rightarrow> RunRecord \<Rightarrow> string \<Rightarrow> (RunRecord \<Rightarrow> RunRecord) \<Rightarrow> RunRecord" where
  "run_successor d run event changes =
     (let candidate = (changes run)\<lparr>rn_predecessor := Some (rn_head run), rn_event := event, rn_head := ''pending''\<rparr>
      in candidate\<lparr>rn_head := ''loop:'' @ json_digest (dump_run d candidate)\<rparr>)"

definition current_turn :: "RunRecord \<Rightarrow> (LoopError, Turn) result" where
  "current_turn run =
     (if rn_state run \<noteq> ACTIVE \<or> rn_turns run = [] then rejected ''no active Turn''
      else Inr (last (rn_turns run)))"

definition current_attempt :: "RunRecord \<Rightarrow> ModelAttemptState \<Rightarrow> (LoopError, ModelAttempt) result" where
  "current_attempt run state =
     rbind (current_turn run) (\<lambda>turn.
       if tn_attempts turn = [] \<or> tn_selector turn \<noteq> length (tn_attempts turn) - 1
         then rejected ''missing or nonmonotone selected generation''
       else
         let attempt = tn_attempts turn ! tn_selector turn in
         if ma_generation attempt \<noteq> tn_selector turn \<or> ma_state attempt \<noteq> state
           then rejected ''attempt transition out of order''
         else Inr attempt)"

definition with_turn :: "LoopCodec \<Rightarrow> RunRecord \<Rightarrow> Turn \<Rightarrow> string \<Rightarrow> RunRecord" where
  "with_turn d run turn event =
     (let turn = turn\<lparr>tn_head := event @ '':'' @ json_digest (dump_turn d turn)\<rparr>
      in run_successor d run event (\<lambda>r. r\<lparr>rn_turns := butlast (rn_turns run) @ [turn]\<rparr>))"

definition with_attempt ::
  "LoopCodec \<Rightarrow> RunRecord \<Rightarrow> ModelAttempt \<Rightarrow> string \<Rightarrow> (LoopError, RunRecord) result" where
  "with_attempt d run attempt event =
     rbind (current_turn run) (\<lambda>turn.
       let attempt = attempt\<lparr>ma_head := event @ '':'' @ json_digest (dump_attempt d attempt)\<rparr>;
           turn = turn\<lparr>tn_attempts := butlast (tn_attempts turn) @ [attempt]\<rparr>
       in Inr (with_turn d run turn event))"

section \<open>Continuation\<close>

text \<open>One earlier Turn. \<open>attempts[selector]\<close> raises \<open>IndexError\<close> out of range.\<close>

definition continuation_turn :: "LoopCodec \<Rightarrow> Turn \<Rightarrow> unit \<Rightarrow> (LoopError, unit) result" where
  "continuation_turn d turn _ =
     (if tn_state turn = REJECTED \<and> tn_attempts turn \<noteq> []
        then
          rbind (require (tn_selector turn < length (tn_attempts turn)) IndexFailed) (\<lambda>_.
          let attempt = tn_attempts turn ! tn_selector turn in
          if ma_state attempt \<noteq> TERMINAL_REJECTED \<or> ma_response attempt = None
             \<or> ma_rejection attempt = None \<or> ma_rejection attempt = Some [] \<or> tn_sealed_calls turn \<noteq> Some []
            then rejected ''incomplete immutable rejection disposition''
          else Inr ())
      else case tn_sealed_calls turn of
        None \<Rightarrow> rejected ''prior response is unsealed''
      | Some calls \<Rightarrow>
          if tn_state turn \<noteq> ACCEPTED \<or> tn_attempts turn = [] then rejected ''prior response is not accepted''
          else
            rbind (require (tn_selector turn < length (tn_attempts turn)) IndexFailed) (\<lambda>_.
            let attempt = tn_attempts turn ! tn_selector turn in
            if ma_state attempt \<noteq> TERMINAL_ACCEPTED \<or> ma_response attempt = None
              then rejected ''missing immutable accepted response''
            else rbind (validated (parse_continue d (the (ma_response attempt)))) (\<lambda>tool_calls.
                if map to_call calls \<noteq> tool_calls then rejected ''partial, extra or reordered sealed calls''
                else if \<not> distinct (map tl_call_id tool_calls) then rejected ''duplicate call identity''
                else if list_ex (\<lambda>x. to_state x \<noteq> TERMINAL \<or> to_result x = None) calls
                  then rejected ''call not continuation-ready; recovery HOLD''
                else Inr ())))"

definition continuation :: "LoopCodec \<Rightarrow> RunRecord \<Rightarrow> (LoopError, unit) result" where
  "continuation d run = rfold (continuation_turn d) (rn_turns run) ()"

section \<open>Run and Turn transitions\<close>

fun run_edges :: "RunState \<Rightarrow> RunState list" where
  "run_edges CREATED = [ACTIVE, ABORTED, CANCELLED]"
| "run_edges ACTIVE = [SUSPENDED, ABORTED, CANCELLED]"
| "run_edges SUSPENDED = [ABORTED, CANCELLED]"
| "run_edges _ = []"

text \<open>\<open>"Run" + target.title()\<close>.\<close>

fun run_event :: "RunState \<Rightarrow> string" where
  "run_event CREATED = ''RunCreated''"
| "run_event ACTIVE = ''RunActive''"
| "run_event SUCCEEDED = ''RunSucceeded''"
| "run_event SUSPENDED = ''RunSuspended''"
| "run_event SUPERSEDED = ''RunSuperseded''"
| "run_event ABORTED = ''RunAborted''"
| "run_event CANCELLED = ''RunCancelled''"

definition loop_transition :: "LoopCodec \<Rightarrow> RunRecord \<Rightarrow> RunState \<Rightarrow> (LoopError, RunRecord) result" where
  "loop_transition d run target =
     (if target \<notin> set (run_edges (rn_state run))
        then rejected ''illegal Run transition; recovery/success requires owned acceptance''
      else
        rbind (if rn_turns run \<noteq> [] then continuation d run else Inr ()) (\<lambda>_.
          Inr (run_successor d run (run_event target) (\<lambda>r. r\<lparr>rn_state := target\<rparr>))))"

definition start_turn :: "LoopCodec \<Rightarrow> RunRecord \<Rightarrow> (LoopError, RunRecord) result" where
  "start_turn d run =
     (if rn_state run \<noteq> ACTIVE then rejected ''Run is not ACTIVE''
      else
        rbind (continuation d run) (\<lambda>_.
        let ordinal = length (rn_turns run) + 1 in
        if bp_kind (rn_policy run) = MAX_TURNS \<and> bp_max_turns (rn_policy run) < ordinal
          then Inr (run_successor d run ''RunBudgetSuspended'' (\<lambda>r. r\<lparr>rn_state := SUSPENDED\<rparr>))
        else
          let turn = \<lparr>tn_turn_id = rn_run_id run @ ''/turn/'' @ nat_str ordinal, tn_ordinal = ordinal,
                tn_head = rn_head run @ ''/turn/'' @ nat_str ordinal, tn_state = PREPARING, tn_accumulator = [],
                tn_attempts = [], tn_selector = 0, tn_sealed_calls = None\<rparr>
          in Inr (run_successor d run ''TurnStarted'' (\<lambda>r. r\<lparr>rn_turns := rn_turns run @ [turn]\<rparr>))))"

section \<open>Visibility\<close>

definition accumulate_member ::
  "VisibilityMember \<Rightarrow> VisibilityMember list \<Rightarrow> (LoopError, VisibilityMember list) result" where
  "accumulate_member member result =
     (case find (\<lambda>x. vm_record_id x = vm_record_id member) (rev result) of
        Some previous \<Rightarrow> if previous \<noteq> member then rejected ''visibility identity rebound'' else Inr result
      | None \<Rightarrow> Inr (result @ [member]))"

definition accumulate :: "LoopCodec \<Rightarrow> RunRecord \<Rightarrow> VisibilityMember list \<Rightarrow> (LoopError, RunRecord) result" where
  "accumulate d run members =
     rbind (current_turn run) (\<lambda>turn.
       if tn_attempts turn \<noteq> [] \<or> tn_state turn \<noteq> PREPARING
         then rejected ''cannot rewrite a sealed historical accumulator''
       else rbind (rfold accumulate_member members (tn_accumulator turn)) (\<lambda>result.
         Inr (with_turn d run (turn\<lparr>tn_accumulator := result\<rparr>) ''TurnVisibilityAccumulated'')))"

definition join_label ::
  "LoopLabel \<Rightarrow> string set option \<times> bool \<Rightarrow> (LoopError, string set option \<times> bool) result" where
  "join_label label acc =
     (let (endpoints, deny) = acc; allowed = ll_allowed_endpoints label in
      if allowed \<noteq> sorted_set allowed \<or> [] \<in> set allowed then rejected ''noncanonical endpoint restrictions''
      else if (ll_value label = LL_ENDPOINT_RESTRICTED) \<noteq> (allowed \<noteq> [])
        then rejected ''invalid disclosure lattice member''
      else Inr
        (if ll_value label = LL_ENDPOINT_RESTRICTED
         then Some (case endpoints of None \<Rightarrow> set allowed | Some e \<Rightarrow> e \<inter> set allowed) else endpoints,
         deny \<or> ll_value label = LL_DENY_ALL))"

definition join_labels :: "LoopLabel list \<Rightarrow> (LoopError, LoopLabel) result" where
  "join_labels labels =
     (if labels = [] then rejected ''missing disclosure label is not unrestricted''
      else rbind (rfold join_label labels (None, False)) (\<lambda>(endpoints, deny).
        Inr (if deny \<or> endpoints = Some {} then \<lparr>ll_value = LL_DENY_ALL, ll_allowed_endpoints = []\<rparr>
             else case endpoints of
               None \<Rightarrow> \<lparr>ll_value = LL_UNRESTRICTED, ll_allowed_endpoints = []\<rparr>
             | Some e \<Rightarrow> \<lparr>ll_value = LL_ENDPOINT_RESTRICTED, ll_allowed_endpoints = sorted_list_of_set e\<rparr>)))"

definition context_label :: "RunRecord \<Rightarrow> (LoopError, LoopLabel) result" where
  "context_label run = join_labels
     (\<lparr>ll_value = LL_ENDPOINT_RESTRICTED,
       ll_allowed_endpoints =
         (case bp_live_model (rn_policy run) of
            Some live \<Rightarrow> sort [en_endpoint_id (rn_origin run), lm_recipient live]
          | None \<Rightarrow> [en_endpoint_id (rn_origin run)])\<rparr>
      # map (mf_joined_label \<circ> ma_manifest) (concat (map tn_attempts (butlast (rn_turns run)))))"

section \<open>Attempts\<close>

text \<open>\<open>needle in haystack\<close> on strings.\<close>

fun substring :: "string \<Rightarrow> string \<Rightarrow> bool" where
  "substring needle [] = (needle = [])"
| "substring needle (c # cs) = (take (length needle) (c # cs) = needle \<or> substring needle cs)"

definition manifest_exact :: "RunRecord \<Rightarrow> Turn \<Rightarrow> VisibilityManifest \<Rightarrow> bool" where
  "manifest_exact run turn manifest \<longleftrightarrow>
     mf_members manifest = tn_accumulator turn \<and> mf_tenant manifest = rn_tenant run
     \<and> mf_principal manifest = rn_principal run \<and> mf_contour_head manifest = rn_contour_head run
     \<and> mf_run_id manifest = rn_run_id run \<and> mf_turn_id manifest = tn_turn_id turn \<and> mf_generation manifest = 0"

definition live_authorized :: "RunRecord \<Rightarrow> LoopLabel \<Rightarrow> bool" where
  "live_authorized run joined =
     (case bp_live_model (rn_policy run) of
        None \<Rightarrow> True
      | Some live \<Rightarrow> en_provider (rn_origin run) = ''local-cli'' \<and> ll_value joined \<noteq> LL_DENY_ALL
          \<and> (ll_value joined = LL_ENDPOINT_RESTRICTED \<longrightarrow> lm_recipient live \<in> set (ll_allowed_endpoints joined)))"

text \<open>The closure of a request over its prompt, schema and context members; \<open>context_label\<close> is only
  computed when the tests before it pass, and it may raise.\<close>

definition require_closure :: "LoopCodec \<Rightarrow> RunRecord \<Rightarrow> VisibilityManifest \<Rightarrow> (LoopError, unit) result" where
  "require_closure d run manifest =
     (let surface = \<lambda>s. filter (\<lambda>m. vm_surface m = s) (mf_members manifest);
          artifact = mf_artifact manifest;
          fail = rejected ''request lacks exact prompt/schema/context visibility closure''
      in case (surface ''prompt'', surface ''schema'', surface ''context'') of
        ([prompt], [schema], [ctx]) \<Rightarrow>
          if vm_content prompt \<noteq> pa_rendered artifact
             \<or> vm_revision_head prompt \<noteq> pa_content_hash artifact
             \<or> vm_content schema \<noteq> pa_response_schema_json artifact
             \<or> vm_revision_head schema \<noteq> json_digest (dump_artifact d artifact)
             \<or> Some (vm_provenance_head ctx) \<noteq> rn_predecessor run
             \<or> \<not> substring (vm_content ctx) (pa_rendered artifact)
            then fail
          else rbind (context_label run) (\<lambda>label.
            if vm_label ctx \<noteq> label \<or> vm_label prompt \<noteq> vm_label ctx then fail else Inr ())
      | _ \<Rightarrow> fail)"

definition request_json :: "LoopCodec \<Rightarrow> VisibilityManifest \<Rightarrow> json" where
  "request_json d manifest =
     JObj [(''prompt'', JStr (pa_rendered (mf_artifact manifest))),
           (''schema'', JStr (pa_response_schema_json (mf_artifact manifest))),
           (''manifest'', JStr (json_digest (dump_manifest d manifest)))]"

definition initial_attempt :: "LoopCodec \<Rightarrow> RunRecord \<Rightarrow> Turn \<Rightarrow> VisibilityManifest \<Rightarrow> ModelAttempt" where
  "initial_attempt d run turn manifest =
     (let live = bp_live_model (rn_policy run); lineage = tn_turn_id turn @ ''/slot/0'' in
      \<lparr>ma_attempt_id = lineage @ ''/generation/0'', ma_lineage_id = lineage, ma_generation = 0,
       ma_state = PREPARED_NOT_EMITTED, ma_head = json_digest (dump_manifest d manifest), ma_manifest = manifest,
       ma_request = request_json d manifest,
       ma_provider_contract = (case live of Some l \<Rightarrow> lm_provider l | None \<Rightarrow> ''hermetic-model.v1''),
       ma_recipient = (case live of Some l \<Rightarrow> lm_recipient l | None \<Rightarrow> ''hermetic-model''),
       ma_live_model = live, ma_worker_session = mf_worker_session manifest,
       ma_response = None, ma_receipt = None, ma_rejection = None\<rparr>)"

definition prepare_attempt ::
  "LoopCodec \<Rightarrow> RunRecord \<Rightarrow> VisibilityManifest \<Rightarrow> (LoopError, RunRecord) result" where
  "prepare_attempt d run manifest =
     rbind (current_turn run) (\<lambda>turn.
     if tn_state turn \<noteq> PREPARING \<or> tn_attempts turn \<noteq> [] \<or> tn_accumulator turn = []
       then rejected ''duplicate attempt lineage or missing accumulator''
     else if \<not> manifest_exact run turn manifest
       then rejected ''manifest is not exact current accumulated visibility''
     else rbind (join_labels (map vm_label (tn_accumulator turn))) (\<lambda>joined.
     if mf_joined_label manifest \<noteq> joined then rejected ''missing or narrower manifest label''
     else if \<not> live_authorized run joined
       then rejected ''context does not authorize the exact live model recipient''
     else rbind (require_closure d run manifest) (\<lambda>_.
     if bp_max_request_bytes (rn_policy run) < length (encode (dumps_ascii (request_json d manifest)))
       then rejected ''request exceeds physical transport bound''
     else Inr (with_turn d run
       (turn\<lparr>tn_attempts := [initial_attempt d run turn manifest], tn_state := CALL_ACTIVE\<rparr>)
       ''ModelAttemptPrepared''))))"

definition emit_attempt :: "LoopCodec \<Rightarrow> RunRecord \<Rightarrow> (LoopError, RunRecord) result" where
  "emit_attempt d run =
     rbind (current_attempt run PREPARED_NOT_EMITTED) (\<lambda>attempt.
       with_attempt d run (attempt\<lparr>ma_state := EMITTED_OUTCOME_UNKNOWN\<rparr>) ''ModelAttemptEmitted'')"

text \<open>\<open>request["manifest"] = ...\<close> on the loaded object.\<close>

fun json_set :: "string \<Rightarrow> json \<Rightarrow> json \<Rightarrow> json" where
  "json_set key v (JObj kvs) = JObj (AList.update key v kvs)"
| "json_set key v j = j"

definition replacement_attempt :: "LoopCodec \<Rightarrow> ModelAttempt \<Rightarrow> ModelAttempt" where
  "replacement_attempt d attempt =
     (let generation = ma_generation attempt + 1;
          manifest = (ma_manifest attempt)\<lparr>mf_generation := generation\<rparr>;
          digest = json_digest (dump_manifest d manifest)
      in attempt\<lparr>ma_generation := generation,
           ma_attempt_id := ma_lineage_id attempt @ ''/generation/'' @ nat_str generation,
           ma_manifest := manifest, ma_head := digest,
           ma_request := json_set ''manifest'' (JStr digest) (ma_request attempt)\<rparr>)"

definition replace_unemitted ::
  "LoopCodec \<Rightarrow> RunRecord \<Rightarrow> NoExposureProof \<Rightarrow> (LoopError, RunRecord) result" where
  "replace_unemitted d run np =
     rbind (current_attempt run PREPARED_NOT_EMITTED) (\<lambda>attempt.
     rbind (current_turn run) (\<lambda>turn.
     if nx_attempt_id np \<noteq> ma_attempt_id attempt \<or> nx_attempt_head np \<noteq> ma_head attempt
        \<or> nx_run_head np \<noteq> rn_head run \<or> nx_worker_session np \<noteq> ma_worker_session attempt
        \<or> nx_provider_contract np \<noteq> ma_provider_contract attempt
       then rejected ''no-exposure proof is not exact current pre-emission state''
     else
       let generation = ma_generation attempt + 1 in
       if (case bp_max_model_retries (rn_policy run) of None \<Rightarrow> False | Some n \<Rightarrow> n < generation)
         then rejected ''durable model retry budget exhausted''
       else Inr (with_turn d run
         (turn\<lparr>tn_attempts := tn_attempts turn @ [replacement_attempt d attempt], tn_selector := generation\<rparr>)
         ''ModelAttemptReplacedWithoutExposure'')))"

section \<open>Responses\<close>

definition capture :: "LoopCodec \<Rightarrow> RunRecord \<Rightarrow> bytes \<Rightarrow> string \<Rightarrow> (LoopError, RunRecord) result" where
  "capture d run raw receipt =
     rbind (current_attempt run EMITTED_OUTCOME_UNKNOWN) (\<lambda>attempt.
     if bp_max_response_bytes (rn_policy run) < length raw \<or> receipt = []
       then rejected ''response exceeds transport bound or receipt is missing''
     else
       rbind (with_attempt d run
           (attempt\<lparr>ma_state := RESPONSE_CAPTURED, ma_response := Some raw, ma_receipt := Some receipt\<rparr>)
           ''ModelResponseCaptured'') (\<lambda>updated.
       rbind (current_turn updated) (\<lambda>turn.
       Inr (with_turn d run (turn\<lparr>tn_state := RESPONSE_AVAILABLE\<rparr>) ''ModelResponseCaptured''))))"

definition reject_response :: "LoopCodec \<Rightarrow> RunRecord \<Rightarrow> string \<Rightarrow> (LoopError, RunRecord) result" where
  "reject_response d run reason =
     rbind (current_attempt run RESPONSE_CAPTURED) (\<lambda>attempt.
     rbind (with_attempt d run (attempt\<lparr>ma_state := TERMINAL_REJECTED, ma_rejection := Some reason\<rparr>)
         ''ModelResponseRejected'') (\<lambda>updated.
     rbind (current_turn updated) (\<lambda>turn.
     Inr (with_turn d run (turn\<lparr>tn_state := REJECTED, tn_sealed_calls := Some []\<rparr>) ''ModelResponseRejected''))))"

text \<open>The captured bytes of the selected attempt parse to exactly this response.\<close>

definition require_captured ::
  "LoopCodec \<Rightarrow> ModelAttempt \<Rightarrow> Response \<Rightarrow> string \<Rightarrow> (LoopError, unit) result" where
  "require_captured d attempt response reason =
     (case ma_response attempt of
        None \<Rightarrow> rejected reason
      | Some raw \<Rightarrow> rbind (parse_captured_response d raw (mf_artifact (ma_manifest attempt))) (\<lambda>parsed.
          loop_require (parsed = response) reason))"

definition sealed_outcome :: "Turn \<Rightarrow> ToolCall \<Rightarrow> ToolOutcome" where
  "sealed_outcome turn call =
     \<lparr>to_call = call, to_state = INITIALIZED, to_result = None, to_evidence_id = None,
      to_proposal_id = Some (tn_turn_id turn @ ''/proposal/'' @ tl_call_id call)\<rparr>"

definition accept_tools :: "LoopCodec \<Rightarrow> RunRecord \<Rightarrow> ToolCall list \<Rightarrow> (LoopError, RunRecord) result" where
  "accept_tools d run tool_calls =
     rbind (current_attempt run RESPONSE_CAPTURED) (\<lambda>attempt.
     rbind (require_captured d attempt (Continue tool_calls) ''response differs from captured bytes'') (\<lambda>_.
     if bp_max_tool_calls (rn_policy run) < length tool_calls then rejected ''sealed fan-out exceeds bound''
     else if \<not> distinct (map tl_call_id tool_calls) then rejected ''duplicate call identity''
     else if \<not> tl_tool ` set tool_calls \<subseteq> ts_name ` set (pa_tools (mf_artifact (ma_manifest attempt)))
       then rejected ''call outside exact Turn schema''
     else
       rbind (with_attempt d run (attempt\<lparr>ma_state := TERMINAL_ACCEPTED\<rparr>) ''ModelResponseReceived'') (\<lambda>updated.
       rbind (current_turn updated) (\<lambda>turn.
       rbind (current_turn run) (\<lambda>original.
       Inr (with_turn d run
         (turn\<lparr>tn_state := ACCEPTED, tn_sealed_calls := Some (map (sealed_outcome original) tool_calls)\<rparr>)
         ''ModelResponseReceived''))))))"

definition terminal_tool :: "LoopCodec \<Rightarrow> RunRecord \<Rightarrow> string \<Rightarrow> string \<Rightarrow> (LoopError, RunRecord) result" where
  "terminal_tool d run call_id outcome =
     rbind (current_turn run) (\<lambda>turn.
     case tn_sealed_calls turn of
       None \<Rightarrow> rejected ''response is not sealed''
     | Some calls \<Rightarrow>
         (case filter (\<lambda>i. tl_call_id (to_call (calls ! i)) = call_id) [0..<length calls] of
            [i] \<Rightarrow>
              if to_state (calls ! i) \<noteq> INITIALIZED then rejected ''call is absent or already terminal''
              else Inr (with_turn d run
                (turn\<lparr>tn_sealed_calls := Some (calls[i := (calls ! i)\<lparr>to_state := TERMINAL, to_result := Some outcome\<rparr>])\<rparr>)
                ''ToolTerminal'')
          | _ \<Rightarrow> rejected ''call is absent or already terminal''))"

section \<open>Completion\<close>

definition render_receipt :: "LocalPlanningReceipt \<Rightarrow> string" where
  "render_receipt receipt = ''Committed local intention: '' @ lr_purpose receipt @ ''.''"

definition historical_labels :: "RunRecord \<Rightarrow> LoopLabel list" where
  "historical_labels run =
     concat (map (\<lambda>turn. concat (map (\<lambda>a. map vm_label (mf_members (ma_manifest a))) (tn_attempts turn))) (rn_turns run))"

text \<open>The text of one delivery: the rendering of the unique receipt it cites, or its commentary.\<close>

definition render_delivery :: "RunRecord \<Rightarrow> Delivery \<Rightarrow> (LoopError, string) result" where
  "render_delivery run delivery =
     (case dy_kind delivery of
        DeliveryAssertion \<Rightarrow>
          (case filter (\<lambda>r. Some (lr_evidence_id r) = dy_evidence_id delivery) (rn_planning_receipts run) of
             [receipt] \<Rightarrow>
               if dy_assertion_code delivery \<noteq> Some ''LOCAL_PLANNING_COMMITTED'' \<or> dy_text delivery \<noteq> None
                 then rejected ''assertion lacks exact evidence or code entailment''
               else Inr (render_receipt receipt)
           | _ \<Rightarrow> rejected ''assertion lacks exact evidence or code entailment'')
      | NonAuthoritativeText \<Rightarrow>
          if dy_assertion_code delivery \<noteq> None \<or> dy_evidence_id delivery \<noteq> None
            then rejected ''non-authoritative text missing or carrying assertion evidence''
          else case dy_text delivery of
              None \<Rightarrow> rejected ''non-authoritative text missing or carrying assertion evidence''
            | Some text \<Rightarrow> Inr text)"

type_synonym delivery_state = "AcceptedDelivery list \<times> (string \<times> string \<times> string) set"

definition accept_delivery ::
  "LoopCodec \<Rightarrow> RunRecord \<Rightarrow> ModelAttempt \<Rightarrow> Delivery \<Rightarrow> delivery_state \<Rightarrow> (LoopError, delivery_state) result" where
  "accept_delivery d run attempt delivery acc =
     (let (deliveries, recipients) = acc;
          endpoint = (case dy_endpoint delivery of Some e \<Rightarrow> e | None \<Rightarrow> rn_origin run)
      in
      if endpoint \<noteq> rn_origin run then rejected ''unregistered/stale exact endpoint selection''
      else rbind (join_labels (historical_labels run)) (\<lambda>label.
        if label \<noteq> mf_joined_label (ma_manifest attempt) \<or> ll_value label = LL_DENY_ALL
           \<or> ll_value label = LL_ENDPOINT_RESTRICTED \<and> en_endpoint_id endpoint \<notin> set (ll_allowed_endpoints label)
          then rejected ''delivery violates complete historical disclosure manifest''
        else
          let target = (en_provider endpoint, en_recipient endpoint, en_canonical_address endpoint) in
          if target \<in> recipients then rejected ''duplicate exact delivery recipient''
          else rbind (render_delivery run delivery) (\<lambda>rendered.
            Inr (deliveries @
                  [\<lparr>ad_delivery_id = rn_run_id run @ ''/delivery/'' @ nat_str (length deliveries),
                    ad_payload = delivery\<lparr>dy_endpoint := Some endpoint\<rparr>, ad_rendered = rendered,
                    ad_visibility_digest = json_digest (dump_manifest d (ma_manifest attempt))\<rparr>],
                 insert target recipients))))"

definition complete :: "LoopCodec \<Rightarrow> RunRecord \<Rightarrow> Delivery list \<Rightarrow> (LoopError, RunRecord) result" where
  "complete d run response =
     rbind (current_attempt run RESPONSE_CAPTURED) (\<lambda>attempt.
     rbind (require_captured d attempt (Complete response) ''completion differs from selected captured bytes'') (\<lambda>_.
     rbind (continuation d (run\<lparr>rn_turns := butlast (rn_turns run)\<rparr>)) (\<lambda>_.
     rbind (rfold (accept_delivery d run attempt) response ([], {})) (\<lambda>(deliveries, _).
     rbind (with_attempt d run (attempt\<lparr>ma_state := TERMINAL_ACCEPTED\<rparr>) ''CompleteAcceptance'') (\<lambda>updated.
     rbind (current_turn updated) (\<lambda>turn.
     let turn = turn\<lparr>tn_state := ACCEPTED, tn_sealed_calls := Some []\<rparr> in
     Inr (run_successor d run ''CompleteAcceptance''
       (\<lambda>r. r\<lparr>rn_state := SUCCEEDED, rn_turns := butlast (rn_turns updated) @ [turn], rn_deliveries := deliveries,
              rn_accepted_text := map ad_rendered deliveries\<rparr>))))))))"

section \<open>Planning receipts\<close>

definition planning_proposals :: "RunRecord \<Rightarrow> (string option \<times> string) list" where
  "planning_proposals run =
     concat (map (\<lambda>turn. map (\<lambda>x. (to_proposal_id x, tl_text (to_call x)))
         (filter (\<lambda>x. tl_tool (to_call x) = propose_planning) (case tn_sealed_calls turn of None \<Rightarrow> [] | Some c \<Rightarrow> c)))
       (rn_turns run))"

definition observe_receipt :: "LoopCodec \<Rightarrow> RunRecord \<Rightarrow> LocalPlanningReceipt \<Rightarrow> (LoopError, RunRecord) result" where
  "observe_receipt d run receipt =
     (if rn_state run \<noteq> ACTIVE then rejected ''receipt observation requires ACTIVE Run''
      else rbind (continuation d run) (\<lambda>_.
        if map_of (rev (planning_proposals run)) (Some (lr_proposal_id receipt)) \<noteq> Some (lr_purpose receipt)
           \<or> lr_evidence_id receipt \<noteq> lr_command_id receipt
           \<or> lr_result_digest receipt \<noteq> sha256_hex (encode (lr_canonical_result receipt))
           \<or> lr_evidence_id receipt \<in> lr_evidence_id ` set (rn_planning_receipts run)
          then rejected ''foreign, duplicated or corrupt planning receipt''
        else Inr (run_successor d run ''PlanningReceiptObserved''
          (\<lambda>r. r\<lparr>rn_planning_receipts := rn_planning_receipts run @ [receipt]\<rparr>))))"

end
