(* ===== verification/Loop_Labels.thy ===== *)
theory Loop_Labels
  imports Loop
begin

text \<open>
  The disclosure lattice of the agent loop. A label admits a set of endpoints; \<open>join_labels\<close> is the meet of
  these sets, in a canonical form that the set determines.
\<close>

fun admits :: "LoopLabel \<Rightarrow> string \<Rightarrow> bool" where
  "admits l e =
     (case ll_value l of LL_UNRESTRICTED \<Rightarrow> True | LL_ENDPOINT_RESTRICTED \<Rightarrow> e \<in> set (ll_allowed_endpoints l) | LL_DENY_ALL \<Rightarrow> False)"

definition canonical_label :: "LoopLabel \<Rightarrow> bool" where
  "canonical_label l \<longleftrightarrow>
     ll_allowed_endpoints l = sorted_set (ll_allowed_endpoints l) \<and> [] \<notin> set (ll_allowed_endpoints l)
     \<and> (ll_value l = LL_ENDPOINT_RESTRICTED \<longleftrightarrow> ll_allowed_endpoints l \<noteq> [])"

lemma canonical_label_unique:
  assumes "canonical_label k" and "canonical_label l" and eq: "\<And>e. admits k e = admits l e"
  shows "k = l"
proof -
  have nil: "ll_value k = LL_UNRESTRICTED \<longleftrightarrow> ll_value l = LL_UNRESTRICTED"
    using assms(1,2) eq [of "[]"] by (auto simp: canonical_label_def split: LoopLabelValue.splits)
  have none: "ll_value m = LL_DENY_ALL \<longleftrightarrow> (\<forall>e. \<not> admits m e)" if "canonical_label m" for m
    using that by (cases "ll_value m"; cases "ll_allowed_endpoints m") (auto simp: canonical_label_def)
  have deny: "ll_value k = LL_DENY_ALL \<longleftrightarrow> ll_value l = LL_DENY_ALL"
    using none [OF assms(1)] none [OF assms(2)] eq by simp
  have val: "ll_value k = ll_value l"
    using nil deny by (cases "ll_value k"; cases "ll_value l") auto
  have "ll_allowed_endpoints k = ll_allowed_endpoints l"
  proof (cases "ll_value k = LL_ENDPOINT_RESTRICTED")
    case True
    then have "set (ll_allowed_endpoints k) = set (ll_allowed_endpoints l)"
      using eq val by auto
    then have "sorted_set (ll_allowed_endpoints k) = sorted_set (ll_allowed_endpoints l)"
      by (rule sorted_set_cong)
    then show ?thesis
      using assms(1,2) by (simp add: canonical_label_def)
  qed (use assms(1,2) val in \<open>auto simp: canonical_label_def\<close>)
  with val show ?thesis
    by (intro LoopLabel.equality) simp_all
qed

definition within :: "string set option \<Rightarrow> string \<Rightarrow> bool" where
  "within endpoints e = (case endpoints of None \<Rightarrow> True | Some s \<Rightarrow> e \<in> s)"

definition endpoints_ok :: "string set option \<Rightarrow> bool" where
  "endpoints_ok endpoints = (case endpoints of None \<Rightarrow> True | Some s \<Rightarrow> finite s \<and> [] \<notin> s)"

lemma join_label_ok:
  assumes "join_label l (E, D) = Inr (E', D')"
  shows "canonical_label l" and "endpoints_ok E \<Longrightarrow> endpoints_ok E'"
    and "(within E' e \<and> \<not> D') = (within E e \<and> \<not> D \<and> admits l e)"
  using assms
  by (auto simp: join_label_def canonical_label_def endpoints_ok_def within_def Let_def
      split: if_splits option.splits LoopLabelValue.splits)

lemma join_label_total:
  assumes "canonical_label l"
  shows "\<exists>acc'. join_label l acc = Inr acc'"
  using assms by (cases acc) (simp add: join_label_def canonical_label_def Let_def)

lemma join_fold_ok:
  assumes "rfold join_label ls (E, D) = Inr (E', D')"
  shows "(\<forall>l \<in> set ls. canonical_label l) \<and> (endpoints_ok E \<longrightarrow> endpoints_ok E')
    \<and> (\<forall>e. (within E' e \<and> \<not> D') = (within E e \<and> \<not> D \<and> (\<forall>l \<in> set ls. admits l e)))"
  using assms
proof (induction ls arbitrary: E D)
  case (Cons l ls)
  from Cons.prems obtain E1 D1 where step: "join_label l (E, D) = Inr (E1, D1)" and
      rest: "rfold join_label ls (E1, D1) = Inr (E', D')"
    by (auto simp: rbind_eq_Inr)
  show ?case
    using Cons.IH [OF rest] join_label_ok [OF step] by auto
qed simp

lemma join_fold_total:
  assumes "\<forall>l \<in> set ls. canonical_label l"
  shows "\<exists>acc'. rfold join_label ls acc = Inr acc'"
  using assms
proof (induction ls arbitrary: acc)
  case (Cons l ls)
  then obtain acc1 where "join_label l acc = Inr acc1"
    using join_label_total [of l acc] by auto
  with Cons show ?case by simp
qed simp

lemma join_labels_ok:
  assumes "join_labels ls = Inr l"
  shows "ls \<noteq> []" and "\<forall>x \<in> set ls. canonical_label x" and "canonical_label l"
    and "admits l e \<longleftrightarrow> (\<forall>x \<in> set ls. admits x e)"
proof -
  obtain E D where fold: "rfold join_label ls (None, False) = Inr (E, D)" and ne: "ls \<noteq> []"
    and l: "l = (if D \<or> E = Some {} then \<lparr>ll_value = LL_DENY_ALL, ll_allowed_endpoints = []\<rparr>
             else case E of
               None \<Rightarrow> \<lparr>ll_value = LL_UNRESTRICTED, ll_allowed_endpoints = []\<rparr>
             | Some e \<Rightarrow> \<lparr>ll_value = LL_ENDPOINT_RESTRICTED, ll_allowed_endpoints = sorted_list_of_set e\<rparr>)"
    using assms by (auto simp: join_labels_def rbind_eq_Inr split: if_splits)
  note ok = join_fold_ok [OF fold]
  have E: "endpoints_ok E" and meet: "(within E e \<and> \<not> D) = (\<forall>x \<in> set ls. admits x e)" for e
    using ok by (auto simp: endpoints_ok_def within_def)
  show "ls \<noteq> []" by (rule ne)
  show "\<forall>x \<in> set ls. canonical_label x" using ok by simp
  show "canonical_label l"
    using E by (auto simp: l canonical_label_def endpoints_ok_def sorted_set_def sorted_sort_id distinct_remdups_id split: option.splits)
  show "admits l e \<longleftrightarrow> (\<forall>x \<in> set ls. admits x e)"
    unfolding meet [symmetric] using E by (auto simp: l within_def endpoints_ok_def split: option.splits)
qed

lemma join_labels_eqI:
  assumes "ls \<noteq> []" and "\<forall>x \<in> set ls. canonical_label x" and "canonical_label l"
    and "\<And>e. admits l e \<longleftrightarrow> (\<forall>x \<in> set ls. admits x e)"
  shows "join_labels ls = Inr l"
proof -
  obtain E D where "rfold join_label ls (None, False) = Inr (E, D)"
    using join_fold_total [OF assms(2), of "(None, False)"] by (auto simp: split_paired_Ex)
  then obtain k where k: "join_labels ls = Inr k"
    using assms(1) by (simp add: join_labels_def)
  have "k = l"
    by (rule canonical_label_unique) (use join_labels_ok [OF k] assms(3,4) in \<open>simp_all del: admits.simps\<close>)
  with k show ?thesis by simp
qed

declare admits.simps [simp del]

end
