(* ===== verification/Loop_Validate.thy ===== *)
theory Loop_Validate
  imports Loop
begin

text \<open>
  Acceptance of a delivery completion (\<open>complete_delivery\<close> of \<open>capabilities/agent_loop/delivery_preparation.py\<close>)
  and the validation of a published Run record against its predecessor (\<open>validate_record\<close> of \<open>domain.py\<close>),
  which repeats the owner operation the record's event names and compares the result.
\<close>

section \<open>Delivery acceptance\<close>

definition expected_history :: "RunRecord \<Rightarrow> (ModelAttempt \<times> VisibilityMember) list" where
  "expected_history run =
     concat (map (\<lambda>turn. concat (map (\<lambda>a. map (Pair a) (mf_members (ma_manifest a))) (tn_attempts turn))) (rn_turns run))"

definition envelope_matches :: "LoopCodec \<Rightarrow> ModelAttempt \<times> VisibilityMember \<Rightarrow> HistoricalEnvelope \<Rightarrow> bool" where
  "envelope_matches d entry envelope =
     (let (historical, member) = entry; manifest_digest = json_digest (dump_manifest d (ma_manifest historical)) in
      he_content envelope = \<lparr>dh_identity = vm_record_id member, dh_head = vm_revision_head member,
        dh_fingerprint = json_digest (dump_member d member)\<rparr>
      \<and> he_visibility envelope = \<lparr>dh_identity = ma_attempt_id historical, dh_head = manifest_digest,
        dh_fingerprint = manifest_digest\<rparr>
      \<and> dh_head (he_provenance envelope) = vm_provenance_head member
      \<and> dh_head (he_disclosure envelope) = vm_label_head member
      \<and> he_label envelope = vm_label member)"

text \<open>\<open>bytes.decode()\<close> of UTF-8 bytes.\<close>

definition decode :: "bytes \<Rightarrow> string" where
  "decode raw = map (\<lambda>b. char_of (unat b)) raw"

definition run_head_of :: "LoopCodec \<Rightarrow> RunRecord \<Rightarrow> string" where
  "run_head_of d run = ''loop:'' @ json_digest (dump_run d (run\<lparr>rn_head := ''pending''\<rparr>))"

definition complete_delivery ::
  "LoopCodec \<Rightarrow> RunRecord \<Rightarrow> DeliveryObservation \<Rightarrow> (LoopError, RunRecord) result" where
  "complete_delivery d run observation =
     rbind (current_attempt run RESPONSE_CAPTURED) (\<lambda>attempt.
     rbind (continuation d (run\<lparr>rn_turns := butlast (rn_turns run)\<rparr>)) (\<lambda>_.
     rbind (loop_require (rn_accepted_delivery_binding run = None) ''Run already has accepted delivery'') (\<lambda>_.
     case ma_response attempt of
       None \<Rightarrow> rejected ''missing captured response bytes''
     | Some raw \<Rightarrow>
         rbind (parse_delivery_response d raw (mf_artifact (ma_manifest attempt))) (\<lambda>parsed.
         case parsed of
           CompleteDelivery response \<Rightarrow>
             rbind (loop_require (rn_head run = run_head_of d run)
                 ''current captured Run head is not canonical'') (\<lambda>_.
             rbind (loop_require
                 (do_run observation = \<lparr>dh_identity = rn_run_id run, dh_head = rn_head run,
                    dh_fingerprint = json_digest (dump_run d run)\<rparr>
                  \<and> do_tenant observation = rn_tenant run
                  \<and> do_turn_id observation = tn_turn_id (last (rn_turns run))
                  \<and> do_captured_response observation = raw)
                 ''delivery observation differs from exact selected captured Run/Turn'') (\<lambda>_.
             rbind (loop_require (length (expected_history run) = length (do_history observation))
                 ''incomplete historical disclosure'') (\<lambda>_.
             rbind (loop_require (list_all2 (envelope_matches d) (expected_history run) (do_history observation))
                 ''historical envelope differs from exact captured visibility member'') (\<lambda>_.
             rbind (prepare_completion d response observation) (\<lambda>proposal.
             rbind (with_attempt d run (attempt\<lparr>ma_state := TERMINAL_ACCEPTED\<rparr>) ''CompleteAcceptance'') (\<lambda>accepted.
             rbind (current_turn accepted) (\<lambda>turn.
             let reference =
                   \<lparr>da_acceptance_identity = dh_identity (dp_acceptance proposal),
                    da_acceptance_head = dh_head (dp_acceptance proposal),
                    da_acceptance_fingerprint = dh_fingerprint (dp_acceptance proposal),
                    da_proposal_canonical = canonical_json (dump_proposal d proposal)\<rparr>;
                 turn = turn\<lparr>tn_state := ACCEPTED, tn_sealed_calls := Some []\<rparr>
             in Inr (run_successor d run ''CompleteAcceptance''
                  (\<lambda>r. r\<lparr>rn_state := SUCCEEDED, rn_turns := butlast (rn_turns accepted) @ [turn], rn_deliveries := [],
                         rn_accepted_text := map decode (dp_history_rendered_bytes proposal),
                         rn_accepted_delivery_binding := Some reference\<rparr>)))))))))
         | _ \<Rightarrow> rejected ''captured response is not delivery completion''))))"

section \<open>Validation of a record\<close>

definition genesis_ok :: "RunRecord \<Rightarrow> bool" where
  "genesis_ok record \<longleftrightarrow>
     rn_event record = ''RunCreated'' \<and> rn_state record = CREATED \<and> rn_predecessor record = None
     \<and> rn_turns record = [] \<and> rn_deliveries record = [] \<and> rn_accepted_text record = []
     \<and> rn_planning_receipts record = [] \<and> rn_accepted_delivery_binding record = None"

text \<open>The outcome whose terminal state a \<open>ToolTerminal\<close> record publishes.\<close>

definition terminal_call :: "RunRecord \<Rightarrow> RunRecord \<Rightarrow> (LoopError, string \<times> string) result" where
  "terminal_call previous record =
     rbind (current_turn previous) (\<lambda>old_turn.
     rbind (current_turn record) (\<lambda>new_turn.
     case (tn_sealed_calls old_turn, tn_sealed_calls new_turn) of
       (Some old_calls, Some new_calls) \<Rightarrow>
         if length old_calls \<noteq> length new_calls then rejected ''sealed-call membership changed''
         else (case map snd (filter (\<lambda>(old, new). old \<noteq> new) (zip old_calls new_calls)) of
           [changed] \<Rightarrow>
             (case to_result changed of
                None \<Rightarrow> rejected ''terminal publication must advance exactly one call''
              | Some outcome \<Rightarrow> Inr (tl_call_id (to_call changed), outcome))
         | _ \<Rightarrow> rejected ''terminal publication must advance exactly one call'')
     | _ \<Rightarrow> rejected ''sealed-call membership changed''))"

text \<open>\<open>attempts[-1]\<close> of an empty tuple raises \<open>IndexError\<close>.\<close>

definition last_attempt :: "Turn \<Rightarrow> (LoopError, ModelAttempt) result" where
  "last_attempt turn = (if tn_attempts turn = [] then Inl IndexFailed else Inr (last (tn_attempts turn)))"

definition expected_record ::
  "LoopCodec \<Rightarrow> RunRecord \<Rightarrow> RunRecord \<Rightarrow> DeliveryObservation option \<Rightarrow> (LoopError, RunRecord) result" where
  "expected_record d previous record delivery_observation =
     (let event = rn_event record in
      if event = ''PlanningReceiptObserved'' then
        if rn_planning_receipts record = [] then rejected ''missing planning receipt''
        else observe_receipt d previous (last (rn_planning_receipts record))
      else if event = ''TurnStarted'' \<or> event = ''RunBudgetSuspended'' then start_turn d previous
      else if event = ''TurnVisibilityAccumulated'' then
        rbind (current_turn record) (\<lambda>turn. accumulate d previous (tn_accumulator turn))
      else if event = ''ModelAttemptPrepared'' then
        rbind (current_turn record) (\<lambda>turn. rbind (last_attempt turn) (\<lambda>attempt.
          prepare_attempt d previous (ma_manifest attempt)))
      else if event = ''ModelAttemptEmitted'' then emit_attempt d previous
      else if event = ''ModelAttemptReplacedWithoutExposure'' then
        rbind (current_attempt previous PREPARED_NOT_EMITTED) (\<lambda>old_attempt.
          replace_unemitted d previous
            \<lparr>nx_attempt_id = ma_attempt_id old_attempt, nx_attempt_head = ma_head old_attempt,
             nx_run_head = rn_head previous, nx_worker_session = rn_worker_session previous,
             nx_provider_contract = ''hermetic-model.v1''\<rparr>)
      else if event = ''ModelResponseCaptured'' then
        rbind (current_attempt record RESPONSE_CAPTURED) (\<lambda>attempt.
          case (ma_response attempt, ma_receipt attempt) of
            (Some raw, Some receipt) \<Rightarrow> capture d previous raw receipt
          | _ \<Rightarrow> rejected ''missing captured bytes or receipt'')
      else if event = ''ModelResponseRejected'' then
        rbind (current_attempt record TERMINAL_REJECTED) (\<lambda>attempt.
          case ma_rejection attempt of
            Some reason \<Rightarrow> reject_response d previous reason
          | None \<Rightarrow> rejected ''missing rejection reason'')
      else if event = ''ModelResponseReceived'' \<or> event = ''CompleteAcceptance'' then
        rbind (current_attempt previous RESPONSE_CAPTURED) (\<lambda>attempt.
          case ma_response attempt of
            None \<Rightarrow> rejected ''missing immutable response''
          | Some raw \<Rightarrow>
              if event = ''ModelResponseReceived'' then rbind (validated (parse_continue d raw)) (accept_tools d previous)
              else if rn_accepted_delivery_binding record \<noteq> None then
                (case delivery_observation of
                   None \<Rightarrow> rejected ''expanded acceptance requires independent delivery observation''
                 | Some observation \<Rightarrow> complete_delivery d previous observation)
              else rbind (validated (parse_complete d raw)) (complete d previous))
      else if event = ''ToolTerminal'' then
        rbind (terminal_call previous record) (\<lambda>(call_id, outcome). terminal_tool d previous call_id outcome)
      else if event = ''RunActive'' \<or> event = ''RunSuspended'' \<or> event = ''RunAborted'' \<or> event = ''RunCancelled'' then
        loop_transition d previous (rn_state record)
      else rejected ''unknown orchestration event'')"

definition validate_record ::
  "LoopCodec \<Rightarrow> RunRecord option \<Rightarrow> RunRecord \<Rightarrow> DeliveryObservation option \<Rightarrow> (LoopError, unit) result" where
  "validate_record d previous record delivery_observation =
     (if rn_head record \<noteq> run_head_of d record then rejected ''content-derived Run head mismatch''
      else case previous of
        None \<Rightarrow> if genesis_ok record then Inr () else rejected ''invalid Run genesis''
      | Some previous \<Rightarrow>
          if rn_accepted_delivery_binding previous \<noteq> None
            then rejected ''accepted delivery Run is terminal and immutable''
          else if rn_accepted_delivery_binding record \<noteq> None \<and> rn_event record \<noteq> ''CompleteAcceptance''
            then rejected ''delivery reference is only valid at CompleteAcceptance''
          else rbind (expected_record d previous record delivery_observation) (\<lambda>expected.
            loop_require (expected = record) ''changed immutable ancestry or invalid exact transition''))"

end
