(* ===== verification/Loop_History.thy ===== *)
theory Loop_History
  imports Loop_Validate
begin

text \<open>
  Histories of a Run. \<open>run_step\<close> is the abstract state machine of a Run, \<open>turn_step\<close> that of its last Turn;
  every record \<open>validate_record\<close> admits after another is a step of it, and every owner operation produces
  a record that is admitted. The invariants are proved of the machine by rule induction.
\<close>

section \<open>The abstract machine\<close>

definition same_identity :: "RunRecord \<Rightarrow> RunRecord \<Rightarrow> bool" where
  "same_identity run run' \<longleftrightarrow>
     rn_tenant run' = rn_tenant run \<and> rn_principal run' = rn_principal run \<and> rn_run_id run' = rn_run_id run
     \<and> rn_prompt run' = rn_prompt run \<and> rn_policy run' = rn_policy run \<and> rn_origin run' = rn_origin run
     \<and> rn_contour_head run' = rn_contour_head run \<and> rn_policy_head run' = rn_policy_head run
     \<and> rn_worker_session run' = rn_worker_session run \<and> rn_root_binding run' = rn_root_binding run"

definition linked :: "LoopCodec \<Rightarrow> RunRecord \<Rightarrow> RunRecord \<Rightarrow> bool" where
  "linked d run run' \<longleftrightarrow>
     same_identity run run' \<and> rn_predecessor run' = Some (rn_head run) \<and> rn_head run' = run_head_of d run'"

definition selected :: "Turn \<Rightarrow> ModelAttemptState \<Rightarrow> ModelAttempt \<Rightarrow> bool" where
  "selected turn state attempt \<longleftrightarrow>
     tn_attempts turn \<noteq> [] \<and> tn_selector turn = length (tn_attempts turn) - 1 \<and> attempt = last (tn_attempts turn)
     \<and> ma_generation attempt = tn_selector turn \<and> ma_state attempt = state"

definition set_selected :: "Turn \<Rightarrow> ModelAttempt \<Rightarrow> Turn" where
  "set_selected turn attempt = turn\<lparr>tn_attempts := butlast (tn_attempts turn) @ [attempt]\<rparr>"

text \<open>One step of the last Turn of an active Run; \<open>h\<close> and \<open>h'\<close> are the new heads.\<close>

inductive turn_step :: "LoopCodec \<Rightarrow> RunRecord \<Rightarrow> Turn \<Rightarrow> Turn \<Rightarrow> bool" for d run where
  accumulated:
    "tn_attempts t = [] \<Longrightarrow> tn_state t = PREPARING \<Longrightarrow> rfold accumulate_member ms (tn_accumulator t) = Inr acc
     \<Longrightarrow> turn_step d run t (t\<lparr>tn_accumulator := acc, tn_head := h\<rparr>)"
| prepared:
    "tn_attempts t = [] \<Longrightarrow> tn_state t = PREPARING \<Longrightarrow> tn_accumulator t \<noteq> [] \<Longrightarrow> manifest_exact run t m
     \<Longrightarrow> join_labels (map vm_label (tn_accumulator t)) = Inr (mf_joined_label m)
     \<Longrightarrow> live_authorized run (mf_joined_label m) \<Longrightarrow> require_closure d run m = Inr ()
     \<Longrightarrow> length (encode (dumps_ascii (request_json d m))) \<le> bp_max_request_bytes (rn_policy run)
     \<Longrightarrow> turn_step d run t (t\<lparr>tn_attempts := [initial_attempt d run t m], tn_state := CALL_ACTIVE, tn_head := h\<rparr>)"
| emitted:
    "selected t PREPARED_NOT_EMITTED a
     \<Longrightarrow> turn_step d run t ((set_selected t (a\<lparr>ma_state := EMITTED_OUTCOME_UNKNOWN, ma_head := h'\<rparr>))\<lparr>tn_head := h\<rparr>)"
| replaced:
    "selected t PREPARED_NOT_EMITTED a
     \<Longrightarrow> (case bp_max_model_retries (rn_policy run) of None \<Rightarrow> True | Some n \<Rightarrow> ma_generation a + 1 \<le> n)
     \<Longrightarrow> turn_step d run t (t\<lparr>tn_attempts := tn_attempts t @ [replacement_attempt d a],
           tn_selector := ma_generation a + 1, tn_head := h\<rparr>)"
| captured:
    "selected t EMITTED_OUTCOME_UNKNOWN a \<Longrightarrow> length raw \<le> bp_max_response_bytes (rn_policy run) \<Longrightarrow> receipt \<noteq> []
     \<Longrightarrow> turn_step d run t
           ((set_selected t (a\<lparr>ma_state := RESPONSE_CAPTURED, ma_response := Some raw, ma_receipt := Some receipt, ma_head := h'\<rparr>))
              \<lparr>tn_state := RESPONSE_AVAILABLE, tn_head := h\<rparr>)"
| rejected_response:
    "selected t RESPONSE_CAPTURED a
     \<Longrightarrow> turn_step d run t
           ((set_selected t (a\<lparr>ma_state := TERMINAL_REJECTED, ma_rejection := Some reason, ma_head := h'\<rparr>))
              \<lparr>tn_state := REJECTED, tn_sealed_calls := Some [], tn_head := h\<rparr>)"
| sealed:
    "selected t RESPONSE_CAPTURED a \<Longrightarrow> require_captured d a (Continue calls) reason = Inr ()
     \<Longrightarrow> length calls \<le> bp_max_tool_calls (rn_policy run) \<Longrightarrow> distinct (map tl_call_id calls)
     \<Longrightarrow> tl_tool ` set calls \<subseteq> ts_name ` set (pa_tools (mf_artifact (ma_manifest a)))
     \<Longrightarrow> turn_step d run t
           ((set_selected t (a\<lparr>ma_state := TERMINAL_ACCEPTED, ma_head := h'\<rparr>))
              \<lparr>tn_state := ACCEPTED, tn_sealed_calls := Some (map (sealed_outcome t) calls), tn_head := h\<rparr>)"
| terminalised:
    "tn_sealed_calls t = Some calls \<Longrightarrow> i < length calls \<Longrightarrow> to_state (calls ! i) = INITIALIZED
     \<Longrightarrow> turn_step d run t
           (t\<lparr>tn_sealed_calls := Some (calls[i := (calls ! i)\<lparr>to_state := TERMINAL, to_result := Some result\<rparr>]),
              tn_head := h\<rparr>)"

definition new_turn :: "RunRecord \<Rightarrow> Turn" where
  "new_turn run =
     (let ordinal = length (rn_turns run) + 1 in
      \<lparr>tn_turn_id = rn_run_id run @ ''/turn/'' @ nat_str ordinal, tn_ordinal = ordinal,
       tn_head = rn_head run @ ''/turn/'' @ nat_str ordinal, tn_state = PREPARING, tn_accumulator = [],
       tn_attempts = [], tn_selector = 0, tn_sealed_calls = None\<rparr>)"

definition results_kept :: "RunRecord \<Rightarrow> RunRecord \<Rightarrow> bool" where
  "results_kept run run' \<longleftrightarrow> rn_deliveries run' = rn_deliveries run \<and> rn_accepted_text run' = rn_accepted_text run
     \<and> rn_accepted_delivery_binding run' = rn_accepted_delivery_binding run"

text \<open>One step of a Run.\<close>

inductive run_step :: "LoopCodec \<Rightarrow> RunRecord \<Rightarrow> RunRecord \<Rightarrow> bool" for d where
  turn_advanced:
    "linked d run run' \<Longrightarrow> results_kept run run' \<Longrightarrow> rn_planning_receipts run' = rn_planning_receipts run
     \<Longrightarrow> rn_state run = ACTIVE \<Longrightarrow> rn_state run' = ACTIVE \<Longrightarrow> rn_turns run = ts @ [t] \<Longrightarrow> turn_step d run t t'
     \<Longrightarrow> rn_turns run' = ts @ [t'] \<Longrightarrow> run_step d run run'"
| turn_started:
    "linked d run run' \<Longrightarrow> results_kept run run' \<Longrightarrow> rn_planning_receipts run' = rn_planning_receipts run
     \<Longrightarrow> rn_state run = ACTIVE \<Longrightarrow> rn_state run' = ACTIVE \<Longrightarrow> continuation d run = Inr ()
     \<Longrightarrow> bp_kind (rn_policy run) = MAX_TURNS \<longrightarrow> length (rn_turns run) + 1 \<le> bp_max_turns (rn_policy run)
     \<Longrightarrow> rn_turns run' = rn_turns run @ [new_turn run] \<Longrightarrow> run_step d run run'"
| state_moved:
    "linked d run run' \<Longrightarrow> results_kept run run' \<Longrightarrow> rn_planning_receipts run' = rn_planning_receipts run
     \<Longrightarrow> rn_state run' \<in> set (run_edges (rn_state run)) \<Longrightarrow> continuation d run = Inr ()
     \<Longrightarrow> rn_turns run' = rn_turns run \<Longrightarrow> run_step d run run'"
| receipt_observed:
    "linked d run run' \<Longrightarrow> results_kept run run' \<Longrightarrow> rn_state run = ACTIVE \<Longrightarrow> rn_state run' = ACTIVE
     \<Longrightarrow> continuation d run = Inr () \<Longrightarrow> rn_turns run' = rn_turns run
     \<Longrightarrow> lr_evidence_id receipt \<notin> lr_evidence_id ` set (rn_planning_receipts run)
     \<Longrightarrow> (Some (lr_proposal_id receipt), lr_purpose receipt) \<in> set (planning_proposals run)
     \<Longrightarrow> rn_planning_receipts run' = rn_planning_receipts run @ [receipt] \<Longrightarrow> run_step d run run'"
| completed:
    "linked d run run' \<Longrightarrow> rn_planning_receipts run' = rn_planning_receipts run
     \<Longrightarrow> rn_state run = ACTIVE \<Longrightarrow> rn_state run' = SUCCEEDED \<Longrightarrow> rn_turns run = ts @ [t]
     \<Longrightarrow> selected t RESPONSE_CAPTURED a \<Longrightarrow> continuation d (run\<lparr>rn_turns := ts\<rparr>) = Inr ()
     \<Longrightarrow> rn_turns run' = ts @ [(set_selected t (a\<lparr>ma_state := TERMINAL_ACCEPTED, ma_head := h'\<rparr>))
           \<lparr>tn_state := ACCEPTED, tn_sealed_calls := Some [], tn_head := h\<rparr>]
     \<Longrightarrow> run_step d run run'"

section \<open>Validated records are steps\<close>

lemma current_turn_eq:
  "current_turn run = Inr t \<longleftrightarrow> rn_state run = ACTIVE \<and> rn_turns run \<noteq> [] \<and> t = last (rn_turns run)"
  by (auto simp: current_turn_def)

lemma current_attempt_eq:
  "current_attempt run s = Inr a \<longleftrightarrow>
     rn_state run = ACTIVE \<and> rn_turns run \<noteq> [] \<and> selected (last (rn_turns run)) s a"
  by (auto simp: current_attempt_def rbind_eq_Inr current_turn_eq Let_def selected_def last_conv_nth
      split: if_splits)

lemma run_successor_linked:
  assumes "same_identity run (changes run)"
  shows "linked d run (run_successor d run event changes)"
  using assms by (simp add: linked_def run_successor_def same_identity_def run_head_of_def Let_def)

lemma run_successor_fields [simp]:
  "rn_event (run_successor d run event changes) = event"
  "rn_state (run_successor d run event changes) = rn_state (changes run)"
  "rn_turns (run_successor d run event changes) = rn_turns (changes run)"
  "rn_deliveries (run_successor d run event changes) = rn_deliveries (changes run)"
  "rn_accepted_text (run_successor d run event changes) = rn_accepted_text (changes run)"
  "rn_accepted_delivery_binding (run_successor d run event changes) = rn_accepted_delivery_binding (changes run)"
  "rn_planning_receipts (run_successor d run event changes) = rn_planning_receipts (changes run)"
  by (simp_all add: run_successor_def Let_def)

lemma same_identity_updates [simp]:
  "same_identity run run"
  "same_identity run (run'\<lparr>rn_state := s\<rparr>) = same_identity run run'"
  "same_identity run (run'\<lparr>rn_turns := ts\<rparr>) = same_identity run run'"
  "same_identity run (run'\<lparr>rn_deliveries := ds\<rparr>) = same_identity run run'"
  "same_identity run (run'\<lparr>rn_accepted_text := xs\<rparr>) = same_identity run run'"
  "same_identity run (run'\<lparr>rn_planning_receipts := rs\<rparr>) = same_identity run run'"
  "same_identity run (run'\<lparr>rn_accepted_delivery_binding := b\<rparr>) = same_identity run run'"
  by (simp_all add: same_identity_def)

definition headed_turn :: "LoopCodec \<Rightarrow> string \<Rightarrow> Turn \<Rightarrow> Turn" where
  "headed_turn d event turn = turn\<lparr>tn_head := event @ '':'' @ json_digest (dump_turn d turn)\<rparr>"

definition headed_attempt :: "LoopCodec \<Rightarrow> string \<Rightarrow> ModelAttempt \<Rightarrow> ModelAttempt" where
  "headed_attempt d event attempt = attempt\<lparr>ma_head := event @ '':'' @ json_digest (dump_attempt d attempt)\<rparr>"

lemma with_turn_fields [simp]:
  "rn_event (with_turn d run turn event) = event"
  "rn_state (with_turn d run turn event) = rn_state run"
  "rn_turns (with_turn d run turn event) = butlast (rn_turns run) @ [headed_turn d event turn]"
  "rn_deliveries (with_turn d run turn event) = rn_deliveries run"
  "rn_accepted_text (with_turn d run turn event) = rn_accepted_text run"
  "rn_accepted_delivery_binding (with_turn d run turn event) = rn_accepted_delivery_binding run"
  "rn_planning_receipts (with_turn d run turn event) = rn_planning_receipts run"
  "linked d run (with_turn d run turn event)"
  by (simp_all add: with_turn_def headed_turn_def Let_def run_successor_linked)

lemma with_attempt_eq:
  assumes "rn_state run = ACTIVE" and "rn_turns run \<noteq> []"
  shows "with_attempt d run attempt event =
    Inr (with_turn d run (set_selected (last (rn_turns run)) (headed_attempt d event attempt)) event)"
proof -
  have "current_turn run = Inr (last (rn_turns run))"
    using assms by (simp add: current_turn_eq)
  then show ?thesis
    by (simp add: with_attempt_def set_selected_def headed_attempt_def Let_def)
qed

text \<open>The Turn a second update starts from.\<close>

lemma current_turn_with_turn:
  assumes "rn_state run = ACTIVE"
  shows "current_turn (with_turn d run turn event) = Inr (headed_turn d event turn)"
  using assms by (simp add: current_turn_eq)

lemma with_turn_step:
  assumes "rn_state run = ACTIVE" and "rn_turns run \<noteq> []" and "turn_step d run (last (rn_turns run)) (headed_turn d event turn)"
  shows "run_step d run (with_turn d run turn event)"
  by (rule turn_advanced [where ts = "butlast (rn_turns run)" and t = "last (rn_turns run)"])
    (use assms in \<open>simp_all add: results_kept_def\<close>)

lemma accumulate_step:
  assumes "accumulate d run ms = Inr r"
  shows "run_step d run r"
proof -
  from assms obtain acc where act: "rn_state run = ACTIVE" "rn_turns run \<noteq> []"
      and t: "tn_attempts (last (rn_turns run)) = []" "tn_state (last (rn_turns run)) = PREPARING"
      and acc: "rfold accumulate_member ms (tn_accumulator (last (rn_turns run))) = Inr acc"
      and r: "r = with_turn d run ((last (rn_turns run))\<lparr>tn_accumulator := acc\<rparr>) ''TurnVisibilityAccumulated''"
    by (auto simp: accumulate_def rbind_eq_Inr current_turn_eq split: if_splits)
  show ?thesis
    unfolding r by (rule with_turn_step [OF act]) (use turn_step.accumulated [OF t acc] in \<open>simp add: headed_turn_def\<close>)
qed

lemma prepare_attempt_step:
  assumes "prepare_attempt d run m = Inr r"
  shows "run_step d run r"
proof -
  let ?t = "last (rn_turns run)"
  from assms have act: "rn_state run = ACTIVE" "rn_turns run \<noteq> []"
      and t: "tn_attempts ?t = []" "tn_state ?t = PREPARING" "tn_accumulator ?t \<noteq> []" "manifest_exact run ?t m"
        "join_labels (map vm_label (tn_accumulator ?t)) = Inr (mf_joined_label m)"
        "live_authorized run (mf_joined_label m)" "require_closure d run m = Inr ()"
        "length (encode (dumps_ascii (request_json d m))) \<le> bp_max_request_bytes (rn_policy run)"
      and r: "r = with_turn d run (?t\<lparr>tn_attempts := [initial_attempt d run ?t m], tn_state := CALL_ACTIVE\<rparr>)
        ''ModelAttemptPrepared''"
    by (auto simp: prepare_attempt_def rbind_eq_Inr current_turn_eq not_less split: if_splits)
  show ?thesis
    unfolding r by (rule with_turn_step [OF act]) (use turn_step.prepared [OF t] in \<open>simp add: headed_turn_def\<close>)
qed

lemma emit_attempt_step:
  assumes "emit_attempt d run = Inr r"
  shows "run_step d run r"
proof -
  from assms obtain a where act: "rn_state run = ACTIVE" "rn_turns run \<noteq> []"
      and a: "selected (last (rn_turns run)) PREPARED_NOT_EMITTED a"
      and r: "with_attempt d run (a\<lparr>ma_state := EMITTED_OUTCOME_UNKNOWN\<rparr>) ''ModelAttemptEmitted'' = Inr r"
    by (auto simp: emit_attempt_def rbind_eq_Inr current_attempt_eq)
  note r = r [unfolded with_attempt_eq [OF act], simplified, symmetric]
  show ?thesis
    unfolding r
    by (rule with_turn_step [OF act])
      (use turn_step.emitted [OF a] in \<open>simp add: headed_turn_def headed_attempt_def set_selected_def\<close>)
qed

lemma replace_unemitted_step:
  assumes "replace_unemitted d run np = Inr r"
  shows "run_step d run r"
proof -
  let ?t = "last (rn_turns run)"
  from assms obtain a where act: "rn_state run = ACTIVE" "rn_turns run \<noteq> []"
      and a: "selected ?t PREPARED_NOT_EMITTED a"
        "case bp_max_model_retries (rn_policy run) of None \<Rightarrow> True | Some n \<Rightarrow> ma_generation a + 1 \<le> n"
      and r: "r = with_turn d run (?t\<lparr>tn_attempts := tn_attempts ?t @ [replacement_attempt d a],
          tn_selector := ma_generation a + 1\<rparr>) ''ModelAttemptReplacedWithoutExposure''"
    by (auto simp: replace_unemitted_def rbind_eq_Inr current_attempt_eq current_turn_eq Let_def not_less
        split: if_splits option.splits)
  show ?thesis
    unfolding r by (rule with_turn_step [OF act]) (use turn_step.replaced [OF a] in \<open>simp add: headed_turn_def\<close>)
qed

text \<open>Operations that set the selected attempt and then the Turn.\<close>

definition settle_turn :: "LoopCodec \<Rightarrow> RunRecord \<Rightarrow> ModelAttempt \<Rightarrow> string \<Rightarrow> Turn" where
  "settle_turn d run attempt event =
     headed_turn d event (set_selected (last (rn_turns run)) (headed_attempt d event attempt))"

lemma with_attempt_settles:
  assumes "current_attempt run s = Inr a"
  shows "rbind (with_attempt d run x event) (\<lambda>updated. rbind (current_turn updated) f) = f (settle_turn d run x event)"
  using assms by (simp add: current_attempt_eq with_attempt_eq current_turn_with_turn settle_turn_def)

lemma capture_eq:
  assumes "current_attempt run EMITTED_OUTCOME_UNKNOWN = Inr a"
  shows "capture d run raw receipt =
     (if bp_max_response_bytes (rn_policy run) < length raw \<or> receipt = []
        then rejected ''response exceeds transport bound or receipt is missing''
      else Inr (with_turn d run ((settle_turn d run
             (a\<lparr>ma_state := RESPONSE_CAPTURED, ma_response := Some raw, ma_receipt := Some receipt\<rparr>)
             ''ModelResponseCaptured'')\<lparr>tn_state := RESPONSE_AVAILABLE\<rparr>) ''ModelResponseCaptured''))"
  using assms by (simp add: capture_def with_attempt_settles)

lemma reject_response_eq:
  assumes "current_attempt run RESPONSE_CAPTURED = Inr a"
  shows "reject_response d run reason =
     Inr (with_turn d run ((settle_turn d run (a\<lparr>ma_state := TERMINAL_REJECTED, ma_rejection := Some reason\<rparr>)
       ''ModelResponseRejected'')\<lparr>tn_state := REJECTED, tn_sealed_calls := Some []\<rparr>) ''ModelResponseRejected'')"
  using assms by (simp add: reject_response_def with_attempt_settles)

lemma accept_tools_eq:
  assumes "current_attempt run RESPONSE_CAPTURED = Inr a"
  shows "accept_tools d run calls =
     rbind (require_captured d a (Continue calls) ''response differs from captured bytes'') (\<lambda>_.
     if bp_max_tool_calls (rn_policy run) < length calls then rejected ''sealed fan-out exceeds bound''
     else if \<not> distinct (map tl_call_id calls) then rejected ''duplicate call identity''
     else if \<not> tl_tool ` set calls \<subseteq> ts_name ` set (pa_tools (mf_artifact (ma_manifest a)))
       then rejected ''call outside exact Turn schema''
     else Inr (with_turn d run ((settle_turn d run (a\<lparr>ma_state := TERMINAL_ACCEPTED\<rparr>) ''ModelResponseReceived'')
             \<lparr>tn_state := ACCEPTED, tn_sealed_calls := Some (map (sealed_outcome (last (rn_turns run))) calls)\<rparr>)
             ''ModelResponseReceived''))"
proof -
  have "current_turn run = Inr (last (rn_turns run))"
    using assms by (simp add: current_attempt_eq current_turn_eq)
  with assms show ?thesis
    by (simp add: accept_tools_def with_attempt_settles)
qed

lemma settled_step:
  assumes "current_attempt run s = Inr a"
    and "\<And>h h'. turn_step d run (last (rn_turns run))
      ((upd (set_selected (last (rn_turns run)) (x\<lparr>ma_head := h'\<rparr>)))\<lparr>tn_head := h\<rparr>)"
    and "\<And>t h. upd (t\<lparr>tn_head := h\<rparr>) = (upd t)\<lparr>tn_head := h\<rparr>"
  shows "run_step d run (with_turn d run (upd (settle_turn d run x event)) event)"
proof -
  have act: "rn_state run = ACTIVE" "rn_turns run \<noteq> []"
    using assms(1) by (auto simp: current_attempt_eq)
  show ?thesis
    by (rule with_turn_step [OF act])
      (use assms(2) in \<open>simp add: headed_turn_def assms(3) settle_turn_def headed_attempt_def\<close>)
qed

lemma capture_step:
  assumes "capture d run raw receipt = Inr r"
  shows "run_step d run r"
proof -
  from assms obtain a where a: "current_attempt run EMITTED_OUTCOME_UNKNOWN = Inr a"
    by (auto simp: capture_def rbind_eq_Inr)
  have sel: "selected (last (rn_turns run)) EMITTED_OUTCOME_UNKNOWN a"
    using a by (simp add: current_attempt_eq)
  have ok: "length raw \<le> bp_max_response_bytes (rn_policy run)" "receipt \<noteq> []"
    and r: "r = with_turn d run ((settle_turn d run
             (a\<lparr>ma_state := RESPONSE_CAPTURED, ma_response := Some raw, ma_receipt := Some receipt\<rparr>)
             ''ModelResponseCaptured'')\<lparr>tn_state := RESPONSE_AVAILABLE\<rparr>) ''ModelResponseCaptured''"
    using assms by (auto simp: capture_eq [OF a] split: if_splits)
  show ?thesis
    unfolding r
    by (rule settled_step [OF a, where upd = "\<lambda>t. t\<lparr>tn_state := RESPONSE_AVAILABLE\<rparr>"])
      (use turn_step.captured [OF sel ok] in \<open>simp_all\<close>)
qed

lemma reject_response_step:
  assumes "reject_response d run reason = Inr r"
  shows "run_step d run r"
proof -
  from assms obtain a where a: "current_attempt run RESPONSE_CAPTURED = Inr a"
    by (auto simp: reject_response_def rbind_eq_Inr)
  have sel: "selected (last (rn_turns run)) RESPONSE_CAPTURED a"
    using a by (simp add: current_attempt_eq)
  note r = assms [unfolded reject_response_eq [OF a], simplified, symmetric]
  show ?thesis
    unfolding r
    by (rule settled_step [OF a, where upd = "\<lambda>t. t\<lparr>tn_state := REJECTED, tn_sealed_calls := Some []\<rparr>"])
      (use turn_step.rejected_response [OF sel] in \<open>simp_all\<close>)
qed

lemma accept_tools_step:
  assumes "accept_tools d run calls = Inr r"
  shows "run_step d run r"
proof -
  let ?seal = "\<lambda>t. t\<lparr>tn_state := ACCEPTED, tn_sealed_calls := Some (map (sealed_outcome (last (rn_turns run))) calls)\<rparr>"
  from assms obtain a where a: "current_attempt run RESPONSE_CAPTURED = Inr a"
    by (auto simp: accept_tools_def rbind_eq_Inr)
  have sel: "selected (last (rn_turns run)) RESPONSE_CAPTURED a"
    using a by (simp add: current_attempt_eq)
  have ok: "require_captured d a (Continue calls) ''response differs from captured bytes'' = Inr ()"
      "length calls \<le> bp_max_tool_calls (rn_policy run)" "distinct (map tl_call_id calls)"
      "tl_tool ` set calls \<subseteq> ts_name ` set (pa_tools (mf_artifact (ma_manifest a)))"
    and r: "r = with_turn d run
      (?seal (settle_turn d run (a\<lparr>ma_state := TERMINAL_ACCEPTED\<rparr>) ''ModelResponseReceived'')) ''ModelResponseReceived''"
    using assms by (auto simp: accept_tools_eq [OF a] rbind_eq_Inr split: if_splits)
  show ?thesis
    unfolding r
    by (rule settled_step [OF a, where upd = ?seal]) (use turn_step.sealed [OF sel ok] in \<open>simp_all\<close>)
qed

lemma filter_upt_single:
  assumes "filter p [0..<n] = [i]"
  shows "i < n" and "p i"
proof -
  have "i \<in> set (filter p [0..<n])"
    using assms by simp
  then show "i < n" and "p i"
    by auto
qed

lemma terminal_tool_Inr:
  assumes "terminal_tool d run call_id outcome = Inr r"
  obtains calls i where "rn_state run = ACTIVE" "rn_turns run \<noteq> []"
    "tn_sealed_calls (last (rn_turns run)) = Some calls" "i < length calls"
    "tl_call_id (to_call (calls ! i)) = call_id" "to_state (calls ! i) = INITIALIZED"
    "filter (\<lambda>i. tl_call_id (to_call (calls ! i)) = call_id) [0..<length calls] = [i]"
    "r = with_turn d run ((last (rn_turns run))\<lparr>tn_sealed_calls :=
       Some (calls[i := (calls ! i)\<lparr>to_state := TERMINAL, to_result := Some outcome\<rparr>])\<rparr>) ''ToolTerminal''"
  using assms by (auto simp: terminal_tool_def rbind_eq_Inr current_turn_eq dest: filter_upt_single
      split: option.splits list.splits if_splits)

lemma terminal_tool_step:
  assumes "terminal_tool d run call_id outcome = Inr r"
  shows "run_step d run r"
  using assms
proof (cases rule: terminal_tool_Inr)
  case (1 calls i)
  show ?thesis
    unfolding 1(8)
    by (rule with_turn_step [OF 1(1,2)]) (use turn_step.terminalised [OF 1(3,4,6)] in \<open>simp add: headed_turn_def\<close>)
qed

lemma loop_transition_step:
  assumes "loop_transition d run target = Inr r"
  shows "run_step d run r"
proof (rule state_moved)
  have "continuation d (run\<lparr>rn_turns := []\<rparr>) = Inr ()"
    by (simp add: continuation_def)
  then show "continuation d run = Inr ()"
    using assms by (auto simp: loop_transition_def rbind_eq_Inr continuation_def split: if_splits)
qed (use assms in \<open>auto simp: loop_transition_def rbind_eq_Inr results_kept_def run_successor_linked split: if_splits\<close>)

lemma start_turn_step:
  assumes "start_turn d run = Inr r"
  shows "run_step d run r"
proof -
  have act: "rn_state run = ACTIVE" and cont: "continuation d run = Inr ()"
    using assms by (auto simp: start_turn_def rbind_eq_Inr split: if_splits)
  show ?thesis
  proof (cases "bp_kind (rn_policy run) = MAX_TURNS \<and> bp_max_turns (rn_policy run) < length (rn_turns run) + 1")
    case True
    then have r: "r = run_successor d run ''RunBudgetSuspended'' (\<lambda>r. r\<lparr>rn_state := SUSPENDED\<rparr>)"
      using assms act cont by (simp add: start_turn_def)
    show ?thesis
      unfolding r by (rule state_moved) (simp_all add: act cont results_kept_def run_successor_linked)
  next
    case False
    then have r: "r = run_successor d run ''TurnStarted'' (\<lambda>r. r\<lparr>rn_turns := rn_turns run @ [new_turn run]\<rparr>)"
      using assms act cont by (auto simp: start_turn_def new_turn_def Let_def split: if_splits)
    show ?thesis
      unfolding r by (rule turn_started) (use False in \<open>auto simp: act cont results_kept_def run_successor_linked\<close>)
  qed
qed

lemma observe_receipt_step:
  assumes "observe_receipt d run receipt = Inr r"
  shows "run_step d run r"
proof (rule receipt_observed)
  show "(Some (lr_proposal_id receipt), lr_purpose receipt) \<in> set (planning_proposals run)"
    using assms by (auto simp: observe_receipt_def rbind_eq_Inr split: if_splits dest!: map_of_SomeD)
qed (use assms in \<open>auto simp: observe_receipt_def rbind_eq_Inr results_kept_def run_successor_linked split: if_splits\<close>)

text \<open>Both forms of completion settle the selected attempt and end the Run.\<close>

lemma completed_step:
  assumes a: "current_attempt run RESPONSE_CAPTURED = Inr a"
    and "continuation d (run\<lparr>rn_turns := butlast (rn_turns run)\<rparr>) = Inr ()"
    and "with_attempt d run (a\<lparr>ma_state := TERMINAL_ACCEPTED\<rparr>) ev = Inr u" and "current_turn u = Inr t"
    and "same_identity run (changes run)" and "rn_planning_receipts (changes run) = rn_planning_receipts run"
    and "rn_state (changes run) = SUCCEEDED"
    and "rn_turns (changes run) = butlast (rn_turns u) @ [t\<lparr>tn_state := ACCEPTED, tn_sealed_calls := Some []\<rparr>]"
  shows "run_step d run (run_successor d run event changes)"
proof -
  have act: "rn_state run = ACTIVE" "rn_turns run \<noteq> []" and sel: "selected (last (rn_turns run)) RESPONSE_CAPTURED a"
    using a by (auto simp: current_attempt_eq)
  have u: "u = with_turn d run (set_selected (last (rn_turns run))
      (headed_attempt d ev (a\<lparr>ma_state := TERMINAL_ACCEPTED\<rparr>))) ev"
    using assms(3) by (simp add: with_attempt_eq [OF act])
  have t: "t = headed_turn d ev (set_selected (last (rn_turns run)) (headed_attempt d ev (a\<lparr>ma_state := TERMINAL_ACCEPTED\<rparr>)))"
    using assms(4) act(1) by (simp add: u current_turn_with_turn)
  let ?h' = "ma_head (headed_attempt d ev (a\<lparr>ma_state := TERMINAL_ACCEPTED\<rparr>))"
  have turn: "t\<lparr>tn_state := ACCEPTED, tn_sealed_calls := Some []\<rparr> =
      (set_selected (last (rn_turns run)) (a\<lparr>ma_state := TERMINAL_ACCEPTED, ma_head := ?h'\<rparr>))
        \<lparr>tn_state := ACCEPTED, tn_sealed_calls := Some [], tn_head := tn_head t\<rparr>"
    by (simp add: t headed_turn_def headed_attempt_def)
  show ?thesis
    by (rule completed [where ts = "butlast (rn_turns run)" and t = "last (rn_turns run)" and a = a
        and h = "tn_head t" and h' = ?h'])
      (use assms(2,5-8) act sel in \<open>simp_all add: run_successor_linked u flip: turn\<close>)
qed

lemma complete_step:
  assumes "complete d run response = Inr r"
  shows "run_step d run r"
proof -
  from assms obtain a ds rs u t where parts: "current_attempt run RESPONSE_CAPTURED = Inr a"
      "continuation d (run\<lparr>rn_turns := butlast (rn_turns run)\<rparr>) = Inr ()"
      "with_attempt d run (a\<lparr>ma_state := TERMINAL_ACCEPTED\<rparr>) ''CompleteAcceptance'' = Inr u" "current_turn u = Inr t"
      and r: "r = run_successor d run ''CompleteAcceptance''
       (\<lambda>r. r\<lparr>rn_state := SUCCEEDED, rn_turns := butlast (rn_turns u) @ [t\<lparr>tn_state := ACCEPTED, tn_sealed_calls := Some []\<rparr>],
              rn_deliveries := ds, rn_accepted_text := map ad_rendered ds\<rparr>)"
    by (auto simp: complete_def rbind_eq_Inr Let_def)
  show ?thesis
    unfolding r by (rule completed_step [OF parts]) simp_all
qed

lemma case_completion [simp]:
  "(case x of CompleteDelivery c \<Rightarrow> f c | _ \<Rightarrow> rejected reason) = Inr y \<longleftrightarrow> (\<exists>c. x = CompleteDelivery c \<and> f c = Inr y)"
  by (cases x) auto

definition delivery_reference :: "LoopCodec \<Rightarrow> DeliveryAcceptanceProposal \<Rightarrow> DeliveryAcceptanceReference" where
  "delivery_reference d proposal =
     \<lparr>da_acceptance_identity = dh_identity (dp_acceptance proposal),
      da_acceptance_head = dh_head (dp_acceptance proposal),
      da_acceptance_fingerprint = dh_fingerprint (dp_acceptance proposal),
      da_proposal_canonical = canonical_json (dump_proposal d proposal)\<rparr>"

lemma complete_delivery_Inr:
  assumes "complete_delivery d run observation = Inr r"
  obtains a raw response p u t where "current_attempt run RESPONSE_CAPTURED = Inr a"
    "continuation d (run\<lparr>rn_turns := butlast (rn_turns run)\<rparr>) = Inr ()"
    "with_attempt d run (a\<lparr>ma_state := TERMINAL_ACCEPTED\<rparr>) ''CompleteAcceptance'' = Inr u" "current_turn u = Inr t"
    "ma_response a = Some raw" "parse_delivery_response d raw (mf_artifact (ma_manifest a)) = Inr (CompleteDelivery response)"
    "list_all2 (envelope_matches d) (expected_history run) (do_history observation)"
    "prepare_completion d response observation = Inr p"
    "r = run_successor d run ''CompleteAcceptance''
       (\<lambda>r. r\<lparr>rn_state := SUCCEEDED, rn_turns := butlast (rn_turns u) @ [t\<lparr>tn_state := ACCEPTED, tn_sealed_calls := Some []\<rparr>],
              rn_deliveries := [], rn_accepted_text := map decode (dp_history_rendered_bytes p),
              rn_accepted_delivery_binding := Some (delivery_reference d p)\<rparr>)"
proof -
  from assms obtain a raw response p u t where *: "current_attempt run RESPONSE_CAPTURED = Inr a"
    "continuation d (run\<lparr>rn_turns := butlast (rn_turns run)\<rparr>) = Inr ()" "ma_response a = Some raw"
    "parse_delivery_response d raw (mf_artifact (ma_manifest a)) = Inr (CompleteDelivery response)"
    "list_all2 (envelope_matches d) (expected_history run) (do_history observation)"
    "prepare_completion d response observation = Inr p"
    "with_attempt d run (a\<lparr>ma_state := TERMINAL_ACCEPTED\<rparr>) ''CompleteAcceptance'' = Inr u" "current_turn u = Inr t"
    "Inr (run_successor d run ''CompleteAcceptance''
       (\<lambda>r. r\<lparr>rn_state := SUCCEEDED, rn_turns := butlast (rn_turns u) @ [t\<lparr>tn_state := ACCEPTED, tn_sealed_calls := Some []\<rparr>],
              rn_deliveries := [], rn_accepted_text := map decode (dp_history_rendered_bytes p),
              rn_accepted_delivery_binding := Some (delivery_reference d p)\<rparr>)) = (Inr r :: (LoopError, RunRecord) result)"
    unfolding complete_delivery_def delivery_reference_def [symmetric] Let_def
    by (auto simp: rbind_eq_Inr split: option.splits simp del: sum.inject)
  show ?thesis
    by (rule that [OF *(1,2,7,8,3,4,5,6)]) (use *(9) in simp)
qed

lemma complete_delivery_step:
  assumes "complete_delivery d run observation = Inr r"
  shows "run_step d run r"
  using assms
proof (cases rule: complete_delivery_Inr)
  case (1 a raw response p u t)
  show ?thesis
    unfolding 1(9) by (rule completed_step [OF 1(1-4)]) simp_all
qed

lemma expected_record_step:
  assumes "expected_record d run record obs = Inr r"
  shows "run_step d run r"
  using assms
  by (auto simp: expected_record_def Let_def rbind_eq_Inr split: if_splits option.splits
      intro: observe_receipt_step start_turn_step accumulate_step prepare_attempt_step emit_attempt_step
        replace_unemitted_step capture_step reject_response_step accept_tools_step complete_delivery_step
        complete_step terminal_tool_step loop_transition_step)

lemma validate_record_step:
  assumes "validate_record d (Some run) record obs = Inr ()"
  shows "run_step d run record"
  using assms expected_record_step by (auto simp: validate_record_def rbind_eq_Inr split: if_splits)

end
