(* ===== verification/Loop_Invariant.thy ===== *)
theory Loop_Invariant
  imports Loop_Labels Loop_History
begin

text \<open>
  The invariant of a Run: identities and generations of Turns and attempts, the budgets, the agreement of
  Turn and attempt states, and the disclosure labels along the Turns. It is preserved by every step and so
  holds in every lineage of validated records.
\<close>

section \<open>Turn invariant\<close>

definition attempt_ok :: "LoopCodec \<Rightarrow> RunRecord \<Rightarrow> Turn \<Rightarrow> nat \<Rightarrow> ModelAttempt \<Rightarrow> bool" where
  "attempt_ok d run turn i attempt \<longleftrightarrow>
     ma_generation attempt = i \<and> ma_lineage_id attempt = tn_turn_id turn @ ''/slot/0''
     \<and> ma_attempt_id attempt = tn_turn_id turn @ ''/slot/0/generation/'' @ nat_str i
     \<and> mf_generation (ma_manifest attempt) = i \<and> mf_members (ma_manifest attempt) = tn_accumulator turn
     \<and> join_labels (map vm_label (tn_accumulator turn)) = Inr (mf_joined_label (ma_manifest attempt))
     \<and> live_authorized run (mf_joined_label (ma_manifest attempt))
     \<and> ma_request attempt = request_json d (ma_manifest attempt)
     \<and> length (encode (dumps_ascii (ma_request attempt))) \<le> bp_max_request_bytes (rn_policy run)
     \<and> (\<forall>raw. ma_response attempt = Some raw \<longrightarrow> length raw \<le> bp_max_response_bytes (rn_policy run))"

text \<open>The state of a Turn agrees with the state of its selected attempt.\<close>

fun phase_ok :: "Turn \<Rightarrow> ModelAttempt \<Rightarrow> bool" where
  "phase_ok turn attempt =
     (case ma_state attempt of
        RESPONSE_CAPTURED \<Rightarrow> tn_state turn = RESPONSE_AVAILABLE \<and> tn_sealed_calls turn = None \<and> ma_response attempt \<noteq> None
      | TERMINAL_REJECTED \<Rightarrow> tn_state turn = REJECTED \<and> tn_sealed_calls turn = Some [] \<and> ma_response attempt \<noteq> None
      | TERMINAL_ACCEPTED \<Rightarrow> tn_state turn = ACCEPTED \<and> tn_sealed_calls turn \<noteq> None \<and> ma_response attempt \<noteq> None
      | _ \<Rightarrow> tn_state turn = CALL_ACTIVE \<and> tn_sealed_calls turn = None \<and> ma_response attempt = None)"

definition turn_ok :: "LoopCodec \<Rightarrow> RunRecord \<Rightarrow> Turn \<Rightarrow> bool" where
  "turn_ok d run turn \<longleftrightarrow>
     distinct (map vm_record_id (tn_accumulator turn))
     \<and> (if tn_attempts turn = [] then tn_state turn = PREPARING \<and> tn_sealed_calls turn = None \<and> tn_selector turn = 0
        else tn_selector turn = length (tn_attempts turn) - 1 \<and> phase_ok turn (last (tn_attempts turn)))
     \<and> (\<forall>i < length (tn_attempts turn). attempt_ok d run turn i (tn_attempts turn ! i))
     \<and> (\<forall>a \<in> set (butlast (tn_attempts turn)). ma_state a = PREPARED_NOT_EMITTED)
     \<and> (case bp_max_model_retries (rn_policy run) of None \<Rightarrow> True | Some n \<Rightarrow> length (tn_attempts turn) \<le> n + 1)
     \<and> (\<forall>calls. tn_sealed_calls turn = Some calls \<longrightarrow>
          length calls \<le> bp_max_tool_calls (rn_policy run) \<and> distinct (map (tl_call_id \<circ> to_call) calls))"

lemma accumulate_member_distinct:
  assumes "accumulate_member m acc = Inr acc'" and "distinct (map vm_record_id acc)"
  shows "distinct (map vm_record_id acc')"
  using assms by (fastforce simp: accumulate_member_def find_None_iff split: option.splits if_splits)

lemma accumulate_distinct:
  assumes "rfold accumulate_member ms acc = Inr acc'" and "distinct (map vm_record_id acc)"
  shows "distinct (map vm_record_id acc')"
  using assms by (rule rfold_invariant) (auto dest: accumulate_member_distinct)

text \<open>Replacing the selected attempt by one that keeps its identity, manifest and request.\<close>

lemma set_selected_attempts:
  assumes "turn_ok d run t" and "tn_attempts t \<noteq> []"
    and "attempt_ok d run t (length (tn_attempts t) - 1) a'"
    and "\<And>i a. attempt_ok d run t' i a = attempt_ok d run t i a"
    and "tn_attempts t' = butlast (tn_attempts t) @ [a']"
  shows "\<forall>i < length (tn_attempts t'). attempt_ok d run t' i (tn_attempts t' ! i)"
    and "\<forall>a \<in> set (butlast (tn_attempts t')). ma_state a = PREPARED_NOT_EMITTED"
    and "length (tn_attempts t') = length (tn_attempts t)"
proof -
  show "\<forall>i < length (tn_attempts t'). attempt_ok d run t' i (tn_attempts t' ! i)"
  proof (intro allI impI)
    fix i assume "i < length (tn_attempts t')"
    then consider "i < length (tn_attempts t) - 1" | "i = length (tn_attempts t) - 1"
      using assms(2,5) by fastforce
    then show "attempt_ok d run t' i (tn_attempts t' ! i)"
      using assms by cases (auto simp: turn_ok_def nth_append nth_butlast)
  qed
qed (use assms in \<open>auto simp: turn_ok_def\<close>)

lemma request_replaced:
  "json_set ''manifest'' (JStr (json_digest (dump_manifest d (m\<lparr>mf_generation := g\<rparr>)))) (request_json d m)
     = request_json d (m\<lparr>mf_generation := g\<rparr>)"
  by (simp add: request_json_def)

text \<open>A digest is plain text, so exchanging it leaves the length of the request unchanged.\<close>

definition plain_char :: "char \<Rightarrow> bool" where
  "plain_char c \<longleftrightarrow> (48 :: nat) \<le> of_char c \<and> of_char c < (127 :: nat) \<and> of_char c \<noteq> (92 :: nat)"

lemma hex_digit_plain: "n < 16 \<Longrightarrow> plain_char (hex_digit n)"
  by (auto simp: plain_char_def hex_digit_def of_char_of)

lemma sha256_hex_plain: "\<forall>c \<in> set (sha256_hex m). plain_char c"
proof -
  have "unat b < 256" for b :: "8 word"
    using unsigned_less [of b] by simp
  then have "unat b div 16 < 16" for b :: "8 word"
    by (simp add: less_mult_imp_div_less)
  then show ?thesis
    by (auto simp: sha256_hex_def bytes_hex_def intro!: hex_digit_plain)
qed

lemma utf8_decode_plain: "\<forall>n \<in> set ns. n < 128 \<Longrightarrow> utf8_decode ns = ns"
  by (induction ns) simp_all

lemma quote_ascii_plain:
  assumes "\<forall>c \<in> set s. plain_char c"
  shows "quote_ascii s = [CHR 0x22] @ s @ [CHR 0x22]"
proof -
  have "code_points s = map of_char s"
    unfolding code_points_def by (rule utf8_decode_plain) (use assms in \<open>auto simp: plain_char_def\<close>)
  moreover have "map (esc_code_point \<circ> of_char) s = map (\<lambda>c. [c]) s"
    using assms by (auto simp: esc_code_point_def esc_char_def plain_char_def Let_def)
  ultimately show ?thesis
    by (simp only: quote_ascii_def map_map) simp
qed

lemma length_quoted_digest: "length (quote_ascii (json_digest j)) = 66"
  by (simp add: json_digest_def quote_ascii_plain sha256_hex_plain)

lemma request_length:
  assumes "mf_artifact m = mf_artifact m'"
  shows "length (encode (dumps_ascii (request_json d m))) = length (encode (dumps_ascii (request_json d m')))"
proof -
  have "dumps_ascii (request_json d m) =
      ''{'' @ quote_ascii ''manifest'' @ '':'' @ quote_ascii (json_digest (dump_manifest d m)) @ '','' @
      quote_ascii ''prompt'' @ '':'' @ quote_ascii (pa_rendered (mf_artifact m)) @ '','' @
      quote_ascii ''schema'' @ '':'' @ quote_ascii (pa_response_schema_json (mf_artifact m)) @ ''}''" for m
    by (simp add: dumps_ascii_def request_json_def)
  then show ?thesis
    by (simp add: encode_def assms length_quoted_digest)
qed

section \<open>Preservation by the steps of a Turn\<close>

lemma attempt_ok_turn_cong:
  assumes "tn_turn_id t' = tn_turn_id t" and "tn_accumulator t' = tn_accumulator t"
  shows "attempt_ok d run t' i a = attempt_ok d run t i a"
  using assms by (simp add: attempt_ok_def)

lemma attempt_ok_updates [simp]:
  "attempt_ok d run (t\<lparr>tn_attempts := xs\<rparr>) i a = attempt_ok d run t i a"
  "attempt_ok d run (t\<lparr>tn_selector := k\<rparr>) i a = attempt_ok d run t i a"
  "attempt_ok d run (t\<lparr>tn_head := h\<rparr>) i a = attempt_ok d run t i a"
  "attempt_ok d run (t\<lparr>tn_state := s\<rparr>) i a = attempt_ok d run t i a"
  "attempt_ok d run (t\<lparr>tn_sealed_calls := c\<rparr>) i a = attempt_ok d run t i a"
  by (simp_all add: attempt_ok_def)

lemma turn_ok_selected:
  assumes "turn_ok d run t" and "selected t s a"
  shows "attempt_ok d run t (length (tn_attempts t) - 1) a" and "phase_ok t a" and "tn_attempts t \<noteq> []"
  using assms by (auto simp: turn_ok_def selected_def last_conv_nth)

text \<open>A step that only moves the selected attempt along.\<close>

lemma turn_ok_set_selected:
  assumes ok: "turn_ok d run t" and sel: "selected t s a"
    and same: "tn_turn_id t' = tn_turn_id t" "tn_accumulator t' = tn_accumulator t" "tn_selector t' = tn_selector t"
    and t': "tn_attempts t' = butlast (tn_attempts t) @ [a']"
    and a': "\<And>i. attempt_ok d run t i a \<Longrightarrow> attempt_ok d run t i a'" and phase: "phase_ok t' a'"
    and calls: "\<And>calls. tn_sealed_calls t' = Some calls \<Longrightarrow>
          length calls \<le> bp_max_tool_calls (rn_policy run) \<and> distinct (map (tl_call_id \<circ> to_call) calls)"
  shows "turn_ok d run t'"
proof -
  note sel' = turn_ok_selected [OF ok sel]
  note parts = set_selected_attempts [OF ok sel'(3) a' [OF sel'(1)] attempt_ok_turn_cong [OF same(1,2)] t']
  have ne: "tn_attempts t' \<noteq> []" and last: "last (tn_attempts t') = a'"
    by (simp_all add: t')
  show ?thesis
    using ok parts ne phase calls sel'(3)
    by (auto simp: turn_ok_def same last simp del: phase_ok.simps split: option.splits)
qed

lemma accumulated_ok:
  assumes "turn_ok d run t" and "tn_attempts t = []" and "rfold accumulate_member ms (tn_accumulator t) = Inr acc"
  shows "turn_ok d run (t\<lparr>tn_accumulator := acc, tn_head := h\<rparr>)"
  using assms accumulate_distinct [OF assms(3)] by (auto simp: turn_ok_def split: option.splits)

lemma nat_str_0: "nat_str 0 = ''0''"
  by code_simp

lemma initial_attempt_fields [simp]:
  "ma_state (initial_attempt d run t m) = PREPARED_NOT_EMITTED"
  "ma_response (initial_attempt d run t m) = None"
  "ma_manifest (initial_attempt d run t m) = m"
  by (simp_all add: initial_attempt_def Let_def)

lemma initial_attempt_ok:
  assumes "manifest_exact run t m" and "join_labels (map vm_label (tn_accumulator t)) = Inr (mf_joined_label m)"
    and "live_authorized run (mf_joined_label m)"
    and "length (encode (dumps_ascii (request_json d m))) \<le> bp_max_request_bytes (rn_policy run)"
  shows "attempt_ok d run t 0 (initial_attempt d run t m)"
  using assms by (simp add: attempt_ok_def initial_attempt_def manifest_exact_def Let_def nat_str_0)

lemma replacement_attempt_ok:
  assumes "attempt_ok d run t i a" and "ma_response a = None"
  shows "attempt_ok d run t (i + 1) (replacement_attempt d a)"
proof -
  have "length (encode (dumps_ascii (request_json d ((ma_manifest a)\<lparr>mf_generation := i + 1\<rparr>)))) =
      length (encode (dumps_ascii (request_json d (ma_manifest a))))"
    by (rule request_length) simp
  then show ?thesis
    using assms by (auto simp: attempt_ok_def replacement_attempt_def Let_def request_replaced)
qed

lemma replaced_ok:
  assumes ok: "turn_ok d run t" and sel: "selected t PREPARED_NOT_EMITTED a"
    and "case bp_max_model_retries (rn_policy run) of None \<Rightarrow> True | Some n \<Rightarrow> ma_generation a + 1 \<le> n"
  shows "turn_ok d run (t\<lparr>tn_attempts := tn_attempts t @ [replacement_attempt d a],
           tn_selector := ma_generation a + 1, tn_head := h\<rparr>)" (is "turn_ok d run ?t'")
proof -
  note sel' = turn_ok_selected [OF ok sel]
  have len: "ma_generation a + 1 = length (tn_attempts t)"
    using sel sel'(3) by (auto simp: selected_def)
  have rep: "attempt_ok d run t (length (tn_attempts t)) (replacement_attempt d a)"
    using replacement_attempt_ok [OF sel'(1)] sel sel'(2,3) by (auto simp: selected_def)
  have all: "\<forall>i < length (tn_attempts ?t'). attempt_ok d run ?t' i (tn_attempts ?t' ! i)"
    using ok rep by (auto simp: turn_ok_def nth_append less_Suc_eq)
  have "\<forall>x \<in> set (tn_attempts t). ma_state x = PREPARED_NOT_EMITTED"
    using ok sel by (cases "tn_attempts t" rule: rev_cases) (auto simp: turn_ok_def selected_def)
  moreover have "phase_ok ?t' (replacement_attempt d a)"
    using sel sel'(2) by (auto simp: selected_def replacement_attempt_def Let_def)
  ultimately show ?thesis
    using ok all assms(3) len by (auto simp: turn_ok_def simp del: phase_ok.simps split: option.splits)
qed

lemma turn_step_ok:
  assumes "turn_step d run t t'" and ok: "turn_ok d run t"
  shows "turn_ok d run t'"
  using assms(1)
proof cases
  case (accumulated ms acc h)
  then show ?thesis using accumulated_ok [OF ok] by simp
next
  case (prepared m h)
  then show ?thesis
    using ok initial_attempt_ok [OF prepared(5-7) prepared(9)] by (auto simp: turn_ok_def split: option.splits)
next
  case (emitted a h' h)
  show ?thesis
    by (rule turn_ok_set_selected [OF ok emitted(2)])
      (use turn_ok_selected(2) [OF ok emitted(2)] emitted in \<open>auto simp: set_selected_def selected_def attempt_ok_def\<close>)
next
  case (replaced a h)
  then show ?thesis using replaced_ok [OF ok] by simp
next
  case (captured a raw receipt h' h)
  show ?thesis
    by (rule turn_ok_set_selected [OF ok captured(2)])
      (use turn_ok_selected(2) [OF ok captured(2)] captured in \<open>auto simp: set_selected_def selected_def attempt_ok_def\<close>)
next
  case (rejected_response a reason h' h)
  show ?thesis
    by (rule turn_ok_set_selected [OF ok rejected_response(2)])
      (use turn_ok_selected(2) [OF ok rejected_response(2)] rejected_response in
        \<open>auto simp: set_selected_def selected_def attempt_ok_def\<close>)
next
  case (sealed a calls reason h' h)
  show ?thesis
    by (rule turn_ok_set_selected [OF ok sealed(2)])
      (use turn_ok_selected(2) [OF ok sealed(2)] sealed in
        \<open>auto simp: set_selected_def selected_def attempt_ok_def sealed_outcome_def comp_def\<close>)
next
  case (terminalised calls i h result)
  have "map (tl_call_id \<circ> to_call) (calls[i := (calls ! i)\<lparr>to_state := TERMINAL, to_result := Some result\<rparr>]) =
      map (tl_call_id \<circ> to_call) calls"
    using terminalised(3) by (intro nth_equalityI) (auto simp: nth_list_update)
  with terminalised ok show ?thesis
    by (auto simp: turn_ok_def split: option.splits ModelAttemptState.splits if_splits)
qed

section \<open>Run invariant\<close>

definition closed_turn :: "Turn \<Rightarrow> bool" where
  "closed_turn turn \<longleftrightarrow> tn_state turn = ACCEPTED \<or> tn_state turn = REJECTED"

definition attempt_labels :: "Turn \<Rightarrow> LoopLabel set" where
  "attempt_labels turn = (mf_joined_label \<circ> ma_manifest) ` set (tn_attempts turn)"

text \<open>What a Turn may see, its predecessors may be shown too.\<close>

definition label_chain :: "Turn list \<Rightarrow> bool" where
  "label_chain turns \<longleftrightarrow>
     (\<forall>k < length turns. \<forall>j < k. \<forall>l \<in> attempt_labels (turns ! k). \<forall>l' \<in> attempt_labels (turns ! j).
        \<forall>e. admits l e \<longrightarrow> admits l' e)"

definition numbered :: "RunRecord \<Rightarrow> nat \<Rightarrow> Turn \<Rightarrow> bool" where
  "numbered run i turn \<longleftrightarrow> tn_ordinal turn = i + 1 \<and> tn_turn_id turn = rn_run_id run @ ''/turn/'' @ nat_str (i + 1)"

definition turns_ok :: "LoopCodec \<Rightarrow> RunRecord \<Rightarrow> Turn list \<Rightarrow> bool" where
  "turns_ok d run turns \<longleftrightarrow> (\<forall>i < length turns. numbered run i (turns ! i) \<and> turn_ok d run (turns ! i))"

definition run_ok :: "LoopCodec \<Rightarrow> RunRecord \<Rightarrow> bool" where
  "run_ok d run \<longleftrightarrow>
     turns_ok d run (rn_turns run)
     \<and> (bp_kind (rn_policy run) = MAX_TURNS \<longrightarrow> length (rn_turns run) \<le> bp_max_turns (rn_policy run))
     \<and> (\<forall>t \<in> set (butlast (rn_turns run)). closed_turn t)
     \<and> (rn_state run \<noteq> ACTIVE \<longrightarrow> (\<forall>t \<in> set (rn_turns run). closed_turn t))
     \<and> distinct (map lr_evidence_id (rn_planning_receipts run))
     \<and> (rn_state run \<noteq> SUCCEEDED \<longrightarrow>
          rn_deliveries run = [] \<and> rn_accepted_text run = [] \<and> rn_accepted_delivery_binding run = None)
     \<and> label_chain (rn_turns run)"

lemma run_ok_genesis:
  assumes "genesis_ok run"
  shows "run_ok d run"
  using assms by (simp add: genesis_ok_def run_ok_def turns_ok_def label_chain_def)

lemma continuation_turn_closed:
  assumes "continuation_turn d t () = Inr ()"
  shows "closed_turn t" and "tn_attempts t \<noteq> []"
  using assms
  by (auto simp: continuation_turn_def closed_turn_def rbind_eq_Inr Let_def split: if_splits option.splits)

lemma rfold_unit:
  assumes "rfold f xs () = Inr ()" and "x \<in> set xs"
  shows "f x () = Inr ()"
  using assms by (induction xs) (auto simp: rbind_eq_Inr)

lemma continuation_closed:
  assumes "continuation d run = Inr ()" and "t \<in> set (rn_turns run)"
  shows "closed_turn t" and "tn_attempts t \<noteq> []"
proof -
  have "continuation_turn d t () = Inr ()"
    using assms by (simp add: continuation_def rfold_unit)
  then show "closed_turn t" and "tn_attempts t \<noteq> []"
    by (rule continuation_turn_closed)+
qed

lemma run_ok_identity:
  assumes "same_identity run run'"
  shows "turn_ok d run' t = turn_ok d run t" and "numbered run' i t = numbered run i t"
proof -
  have "live_authorized run' l = live_authorized run l" for l
    using assms by (simp add: same_identity_def live_authorized_def split: option.split)
  then have "attempt_ok d run' t i a = attempt_ok d run t i a" for i a
    using assms by (simp add: same_identity_def attempt_ok_def)
  then show "turn_ok d run' t = turn_ok d run t" and "numbered run' i t = numbered run i t"
    using assms by (simp_all add: turn_ok_def numbered_def same_identity_def del: phase_ok.simps)
qed

text \<open>The label of a prepared attempt lies below the labels of all earlier Turns.\<close>

lemma context_label_below:
  assumes "context_label run = Inr l" and "u \<in> set (butlast (rn_turns run))" and "l' \<in> attempt_labels u"
    and "admits l e"
  shows "admits l' e"
proof -
  have "l' \<in> set (map (mf_joined_label \<circ> ma_manifest) (concat (map tn_attempts (butlast (rn_turns run)))))"
    using assms(2,3) by (auto simp: attempt_labels_def)
  then show ?thesis
    using assms(1,4) join_labels_ok(4) [of _ l e] unfolding context_label_def by (auto simp del: admits.simps)
qed

lemma require_closure_context:
  assumes "require_closure d run m = Inr ()"
  obtains ctx where "ctx \<in> set (mf_members m)" and "context_label run = Inr (vm_label ctx)"
proof -
  obtain ctx where ctx: "filter (\<lambda>x. vm_surface x = ''context'') (mf_members m) = [ctx]"
    and "context_label run = Inr (vm_label ctx)"
    using assms by (auto simp: require_closure_def Let_def rbind_eq_Inr split: list.splits if_splits)
  moreover have "ctx \<in> set (filter (\<lambda>x. vm_surface x = ''context'') (mf_members m))"
    unfolding ctx by simp
  then have "ctx \<in> set (mf_members m)"
    by simp
  ultimately show ?thesis
    using that by blast
qed

lemma prepared_label_below:
  assumes "manifest_exact run t m" and "join_labels (map vm_label (tn_accumulator t)) = Inr (mf_joined_label m)"
    and "require_closure d run m = Inr ()" and "u \<in> set (butlast (rn_turns run))" and "l' \<in> attempt_labels u"
    and "admits (mf_joined_label m) e"
  shows "admits l' e"
proof -
  from assms(3) obtain ctx where "ctx \<in> set (mf_members m)" and label: "context_label run = Inr (vm_label ctx)"
    by (rule require_closure_context)
  then have "admits (vm_label ctx) e"
    using assms(1,6) join_labels_ok(4) [OF assms(2), of e] by (auto simp: manifest_exact_def simp del: admits.simps)
  then show ?thesis
    by (rule context_label_below [OF label assms(4,5)])
qed

lemma set_selected_labels:
  assumes "selected t s a" and "ma_manifest a' = ma_manifest a"
  shows "attempt_labels (set_selected t a') = attempt_labels t"
proof -
  have "set (tn_attempts t) = set (butlast (tn_attempts t)) \<union> {a}"
    using assms(1) set_append [of "butlast (tn_attempts t)" "[a]"] by (simp add: selected_def)
  then show ?thesis
    using assms(2) by (simp add: attempt_labels_def set_selected_def)
qed

lemma attempt_labels_updates [simp]:
  "attempt_labels (t\<lparr>tn_head := h\<rparr>) = attempt_labels t"
  "attempt_labels (t\<lparr>tn_state := s\<rparr>) = attempt_labels t"
  "attempt_labels (t\<lparr>tn_selector := k\<rparr>) = attempt_labels t"
  "attempt_labels (t\<lparr>tn_accumulator := acc\<rparr>) = attempt_labels t"
  "attempt_labels (t\<lparr>tn_sealed_calls := c\<rparr>) = attempt_labels t"
  by (simp_all add: attempt_labels_def)

lemma turn_step_labels:
  assumes "turn_step d run t t'" and "u \<in> set (butlast (rn_turns run))" and "l \<in> attempt_labels t'"
    and "l' \<in> attempt_labels u" and "admits l e" and "\<And>l. l \<in> attempt_labels t \<Longrightarrow> admits l e \<Longrightarrow> admits l' e"
  shows "admits l' e"
  using assms(1)
proof cases
  case (prepared m h)
  then show ?thesis
    using assms(3,5) prepared_label_below [OF prepared(5,6,8) assms(2,4)] by (simp add: attempt_labels_def)
next
  case (replaced a h)
  have "a \<in> set (tn_attempts t)"
    using replaced(2) by (simp add: selected_def)
  then have "attempt_labels t' \<subseteq> attempt_labels t"
    by (auto simp: replaced(1) attempt_labels_def replacement_attempt_def Let_def)
  then show ?thesis using assms(3,5,6) by blast
qed (use assms(3,5,6) in \<open>simp_all add: set_selected_labels\<close>)

lemma label_chain_snoc:
  "label_chain (ts @ [t]) \<longleftrightarrow> label_chain ts \<and>
     (\<forall>u \<in> set ts. \<forall>l \<in> attempt_labels t. \<forall>l' \<in> attempt_labels u. \<forall>e. admits l e \<longrightarrow> admits l' e)"
proof -
  have "label_chain (ts @ [t]) \<longleftrightarrow> label_chain ts \<and>
     (\<forall>j < length ts. \<forall>l \<in> attempt_labels t. \<forall>l' \<in> attempt_labels (ts ! j). \<forall>e. admits l e \<longrightarrow> admits l' e)"
    by (simp add: label_chain_def All_less_Suc nth_append conj_commute)
  then show ?thesis
    by (simp add: all_set_conv_all_nth)
qed

lemma turns_ok_snoc:
  "turns_ok d run (ts @ [t]) \<longleftrightarrow> turns_ok d run ts \<and> numbered run (length ts) t \<and> turn_ok d run t"
  by (auto simp: turns_ok_def nth_append less_Suc_eq)

lemma turns_ok_identity:
  assumes "same_identity run run'"
  shows "turns_ok d run' ts = turns_ok d run ts"
  by (simp add: turns_ok_def run_ok_identity [OF assms])

lemma turn_step_kept:
  assumes "turn_step d run t t'"
  shows "tn_ordinal t' = tn_ordinal t" and "tn_turn_id t' = tn_turn_id t"
  using assms by (cases; simp add: set_selected_def)+

lemma run_ok_turn_advanced:
  assumes ok: "run_ok d run" and "linked d run run'" and "results_kept run run'"
    and "rn_planning_receipts run' = rn_planning_receipts run" and "rn_state run = ACTIVE" and "rn_state run' = ACTIVE"
    and ts: "rn_turns run = ts @ [t]" and step: "turn_step d run t t'" and ts': "rn_turns run' = ts @ [t']"
  shows "run_ok d run'"
proof -
  have id: "same_identity run run'"
    using assms(2) by (simp add: linked_def)
  have "label_chain (ts @ [t'])"
    using ok turn_step_labels [OF step] by (simp add: run_ok_def ts label_chain_snoc)
  moreover have "turn_ok d run t'"
    using turn_step_ok [OF step] ok by (simp add: run_ok_def ts turns_ok_snoc)
  moreover have "numbered run (length ts) t'"
    using ok turn_step_kept [OF step] by (simp add: run_ok_def ts numbered_def turns_ok_snoc)
  ultimately show ?thesis
    using ok assms(3-6) id
    by (simp add: run_ok_def ts ts' turns_ok_snoc run_ok_identity [OF id] turns_ok_identity [OF id] results_kept_def same_identity_def)
qed

lemma new_turn_ok: "turn_ok d run (new_turn run)" "attempt_labels (new_turn run) = {}" "numbered run (length (rn_turns run)) (new_turn run)"
  by (simp_all add: turn_ok_def new_turn_def attempt_labels_def numbered_def Let_def split: option.split)

lemma run_ok_turn_started:
  assumes ok: "run_ok d run" and "linked d run run'" and "results_kept run run'"
    and "rn_planning_receipts run' = rn_planning_receipts run" and "rn_state run = ACTIVE" and "rn_state run' = ACTIVE"
    and "continuation d run = Inr ()"
    and "bp_kind (rn_policy run) = MAX_TURNS \<longrightarrow> length (rn_turns run) + 1 \<le> bp_max_turns (rn_policy run)"
    and "rn_turns run' = rn_turns run @ [new_turn run]"
  shows "run_ok d run'"
proof -
  have id: "same_identity run run'"
    using assms(2) by (simp add: linked_def)
  show ?thesis
    using ok assms(3-6,8,9) continuation_closed(1) [OF assms(7)] id new_turn_ok
    by (simp add: run_ok_def turns_ok_snoc run_ok_identity [OF id] turns_ok_identity [OF id] label_chain_snoc results_kept_def same_identity_def)
qed

lemma run_edges_not_succeeded: "s' \<in> set (run_edges s) \<Longrightarrow> s \<noteq> SUCCEEDED \<and> s' \<noteq> SUCCEEDED"
  by (cases s) auto

lemma run_ok_same_turns:
  assumes ok: "run_ok d run" and "linked d run run'" and "results_kept run run'" and "continuation d run = Inr ()"
    and "rn_turns run' = rn_turns run" and "distinct (map lr_evidence_id (rn_planning_receipts run'))"
    and "rn_state run \<noteq> SUCCEEDED"
  shows "run_ok d run'"
proof -
  have id: "same_identity run run'"
    using assms(2) by (simp add: linked_def)
  show ?thesis
    using ok assms(3,5-7) continuation_closed(1) [OF assms(4)] id
    by (simp add: run_ok_def turns_ok_identity [OF id] results_kept_def same_identity_def)
qed

lemma run_ok_completed:
  assumes ok: "run_ok d run" and "linked d run run'" and "rn_planning_receipts run' = rn_planning_receipts run"
    and "rn_state run' = SUCCEEDED" and ts: "rn_turns run = ts @ [t]"
    and sel: "selected t RESPONSE_CAPTURED a" and "continuation d (run\<lparr>rn_turns := ts\<rparr>) = Inr ()"
    and ts': "rn_turns run' = ts @ [(set_selected t (a\<lparr>ma_state := TERMINAL_ACCEPTED, ma_head := h'\<rparr>))
           \<lparr>tn_state := ACCEPTED, tn_sealed_calls := Some [], tn_head := h\<rparr>]" (is "_ = ts @ [?t']")
  shows "run_ok d run'"
proof -
  have id: "same_identity run run'"
    using assms(2) by (simp add: linked_def)
  have t: "turn_ok d run t" "numbered run (length ts) t"
    using ok by (simp_all add: run_ok_def ts turns_ok_snoc)
  have "turn_ok d run ?t'"
    by (rule turn_ok_set_selected [OF t(1) sel])
      (use turn_ok_selected(2) [OF t(1) sel] sel in \<open>auto simp: set_selected_def selected_def attempt_ok_def\<close>)
  moreover have "numbered run (length ts) ?t'"
    using t(2) by (simp add: numbered_def set_selected_def)
  moreover have "label_chain (ts @ [?t'])"
    using ok by (simp add: run_ok_def ts label_chain_snoc set_selected_labels [OF sel])
  moreover have "closed_turn ?t'"
    by (simp add: closed_turn_def)
  ultimately show ?thesis
    using ok assms(3,4) id
    by (simp add: run_ok_def ts ts' turns_ok_snoc run_ok_identity [OF id] turns_ok_identity [OF id] same_identity_def)
qed

theorem run_step_ok:
  assumes "run_step d run run'" and ok: "run_ok d run"
  shows "run_ok d run'"
  using assms(1)
proof cases
  case (turn_advanced ts t t')
  then show ?thesis using run_ok_turn_advanced [OF ok] by blast
next
  case turn_started
  then show ?thesis using run_ok_turn_started [OF ok] by blast
next
  case state_moved
  then show ?thesis
    using run_ok_same_turns [OF ok] run_edges_not_succeeded ok by (simp add: run_ok_def)
next
  case (receipt_observed receipt)
  then show ?thesis
    using run_ok_same_turns [OF ok] ok by (simp add: run_ok_def)
next
  case (completed ts t a h' h)
  then show ?thesis using run_ok_completed [OF ok] by blast
qed

end
