(* ===== verification/Loop_Lineage.thy ===== *)
theory Loop_Lineage
  imports Loop_Invariant
begin

text \<open>
  Lineages: the records of one Run from its genesis on, each validated against its predecessor. What a
  lineage keeps, what it exposes to the model, and the equivalence of validation with the owner operations.
\<close>

section \<open>Lineages of validated records\<close>

inductive loop_lineage :: "LoopCodec \<Rightarrow> RunRecord list \<Rightarrow> bool" for d where
  genesis: "validate_record d None r obs = Inr () \<Longrightarrow> loop_lineage d [r]"
| extend: "loop_lineage d rs \<Longrightarrow> validate_record d (Some (last rs)) r obs = Inr () \<Longrightarrow> loop_lineage d (rs @ [r])"

lemma lineage_nonempty: "loop_lineage d rs \<Longrightarrow> rs \<noteq> []"
  by (cases rule: loop_lineage.cases) auto

lemma lineage_genesis: "validate_record d None r obs = Inr () \<Longrightarrow> genesis_ok r"
  by (auto simp: validate_record_def split: if_splits)

lemma lineage_ok:
  assumes "loop_lineage d rs"
  shows "\<forall>r \<in> set rs. run_ok d r"
  using assms
proof (induction rule: loop_lineage.induct)
  case (genesis r obs)
  then show ?case
    using run_ok_genesis [OF lineage_genesis] by auto
next
  case (extend rs r obs)
  have "run_ok d (last rs)"
    using extend.IH lineage_nonempty [OF extend.hyps(1)] by simp
  then have "run_ok d r"
    using run_step_ok [OF validate_record_step [OF extend.hyps(2)]] by simp
  with extend.IH show ?case by simp
qed

lemma lineage_steps:
  assumes "loop_lineage d rs" and "Suc i < length rs"
  shows "run_step d (rs ! i) (rs ! Suc i)"
  using assms
proof (induction rule: loop_lineage.induct)
  case (extend rs r obs)
  show ?case
  proof (cases "Suc i < length rs")
    case True
    then show ?thesis using extend.IH by (simp add: nth_append)
  next
    case False
    then have "i = length rs - 1"
      using extend.prems by simp
    then show ?thesis
      using validate_record_step [OF extend.hyps(2)] lineage_nonempty [OF extend.hyps(1)]
      by (simp add: nth_append last_conv_nth)
  qed
qed simp

lemma lineage_induct_pairs:
  assumes "loop_lineage d rs" and "i \<le> j" and "j < length rs"
    and "\<And>r. R r r" and "\<And>r s t. R r s \<Longrightarrow> run_step d s t \<Longrightarrow> R r t"
  shows "R (rs ! i) (rs ! j)"
  using assms(2,3)
proof (induction j)
  case (Suc j)
  show ?case
  proof (cases "i = Suc j")
    case False
    then have "R (rs ! i) (rs ! j)"
      using Suc by simp
    then show ?thesis
      using assms(5) lineage_steps [OF assms(1) Suc.prems(2)] by blast
  qed (simp add: assms(4))
qed (simp add: assms(4))

section \<open>What a step keeps\<close>

lemma run_step_linked: "run_step d run run' \<Longrightarrow> linked d run run'"
  by (cases rule: run_step.cases) auto

lemma same_identity_trans: "same_identity r s \<Longrightarrow> same_identity s t \<Longrightarrow> same_identity r t"
  by (simp add: same_identity_def)

lemma run_step_turns:
  assumes "run_step d run run'"
  shows "length (rn_turns run) \<le> length (rn_turns run')" and "take (length (rn_turns run) - 1) (rn_turns run') = butlast (rn_turns run)"
  using assms by (cases; simp add: butlast_conv_take)+

lemma run_step_state:
  assumes "run_step d run run'"
  shows "rn_state run = CREATED \<or> rn_state run = ACTIVE \<or>
    rn_state run = SUSPENDED \<and> (rn_state run' = ABORTED \<or> rn_state run' = CANCELLED)"
  using assms by (cases; cases "rn_state run"; auto)

definition settled_prefix :: "RunRecord \<Rightarrow> RunRecord \<Rightarrow> bool" where
  "settled_prefix run run' \<longleftrightarrow> length (rn_turns run) \<le> length (rn_turns run')
     \<and> take (length (rn_turns run) - 1) (rn_turns run') = butlast (rn_turns run)"

lemma settled_prefix_refl: "settled_prefix run run"
  by (simp add: settled_prefix_def butlast_conv_take)

lemma settled_prefix_step:
  assumes "settled_prefix r s" and "run_step d s t"
  shows "settled_prefix r t"
proof -
  have "take (length (rn_turns r) - 1) (rn_turns t) = take (length (rn_turns r) - 1) (butlast (rn_turns s))"
    using assms(1)
    by (simp add: settled_prefix_def take_take min.absorb1 diff_le_mono flip: run_step_turns(2) [OF assms(2)])
  also have "\<dots> = take (length (rn_turns r) - 1) (rn_turns s)"
    using assms(1) by (simp add: settled_prefix_def butlast_conv_take take_take min.absorb1 diff_le_mono)
  finally show ?thesis
    using assms(1) run_step_turns(1) [OF assms(2)] by (simp add: settled_prefix_def)
qed

section \<open>Exposure\<close>

definition exposed :: "Turn \<Rightarrow> bool" where
  "exposed turn \<longleftrightarrow> (\<exists>a \<in> set (tn_attempts turn). ma_state a \<noteq> PREPARED_NOT_EMITTED)"

lemma turn_step_exposed:
  assumes "turn_step d run t t'" and "exposed t"
  shows "exposed t'"
  using assms by cases (auto simp: exposed_def set_selected_def selected_def)

definition exposed_turns :: "RunRecord \<Rightarrow> nat set" where
  "exposed_turns run = {i. i < length (rn_turns run) \<and> exposed (rn_turns run ! i)}"

lemma run_step_exposed:
  assumes "run_step d run run'"
  shows "exposed_turns run \<subseteq> exposed_turns run'"
  using assms
proof cases
  case (turn_advanced ts t t')
  then show ?thesis
    using turn_step_exposed [OF turn_advanced(7)] by (auto simp: exposed_turns_def nth_append)
next
  case (completed ts t a h' h)
  then show ?thesis
    by (auto simp: exposed_turns_def nth_append exposed_def set_selected_def)
qed (auto simp: exposed_turns_def nth_append)

lemma emit_attempt_exposes:
  assumes "emit_attempt d run = Inr run'" and ok: "run_ok d run"
  shows "length (rn_turns run') = length (rn_turns run)" and "rn_turns run' \<noteq> []"
    and "length (rn_turns run') - 1 \<in> exposed_turns run'" and "length (rn_turns run') - 1 \<notin> exposed_turns run"
proof -
  from assms obtain a where act: "rn_state run = ACTIVE" "rn_turns run \<noteq> []"
      and a: "selected (last (rn_turns run)) PREPARED_NOT_EMITTED a"
      and r: "with_attempt d run (a\<lparr>ma_state := EMITTED_OUTCOME_UNKNOWN\<rparr>) ''ModelAttemptEmitted'' = Inr run'"
    by (auto simp: emit_attempt_def rbind_eq_Inr current_attempt_eq)
  note r = r [unfolded with_attempt_eq [OF act], simplified, symmetric]
  obtain ts t where ts: "rn_turns run = ts @ [t]"
    using act(2) by (cases "rn_turns run" rule: rev_cases) auto
  have "turn_ok d run t"
    using ok by (simp add: run_ok_def ts turns_ok_snoc)
  then have "\<not> exposed t"
    using a by (cases "tn_attempts t" rule: rev_cases) (auto simp: turn_ok_def exposed_def selected_def ts)
  then show "length (rn_turns run') - 1 \<notin> exposed_turns run"
    by (simp add: r ts exposed_turns_def)
  show "length (rn_turns run') = length (rn_turns run)" and "rn_turns run' \<noteq> []"
    and "length (rn_turns run') - 1 \<in> exposed_turns run'"
    by (simp_all add: r ts exposed_turns_def headed_turn_def headed_attempt_def set_selected_def exposed_def)
qed

definition emissions :: "RunRecord list \<Rightarrow> nat list" where
  "emissions rs = map (\<lambda>r. length (rn_turns r) - 1) (filter (\<lambda>r. rn_event r = ''ModelAttemptEmitted'') rs)"

lemma lineage_emissions:
  assumes "loop_lineage d rs"
  shows "distinct (emissions rs) \<and> set (emissions rs) \<subseteq> exposed_turns (last rs)"
  using assms
proof (induction rule: loop_lineage.induct)
  case (genesis r obs)
  then show ?case
    using lineage_genesis by (auto simp: emissions_def genesis_ok_def)
next
  case (extend rs r obs)
  have mono: "exposed_turns (last rs) \<subseteq> exposed_turns r"
    by (rule run_step_exposed [OF validate_record_step [OF extend.hyps(2)]])
  show ?case
  proof (cases "rn_event r = ''ModelAttemptEmitted''")
    case True
    then have "emit_attempt d (last rs) = Inr r"
      using extend.hyps(2) by (auto simp: validate_record_def expected_record_def rbind_eq_Inr split: if_splits)
    moreover have "run_ok d (last rs)"
      using lineage_ok [OF extend.hyps(1)] lineage_nonempty [OF extend.hyps(1)] by simp
    ultimately have "length (rn_turns r) - 1 \<in> exposed_turns r" "length (rn_turns r) - 1 \<notin> exposed_turns (last rs)"
      by (rule emit_attempt_exposes)+
    then show ?thesis
      using extend.IH mono True by (auto simp: emissions_def)
  next
    case False
    then show ?thesis
      using extend.IH mono by (auto simp: emissions_def)
  qed
qed

section \<open>Owner operations are admitted\<close>

inductive owner_step :: "LoopCodec \<Rightarrow> DeliveryObservation option \<Rightarrow> RunRecord \<Rightarrow> RunRecord \<Rightarrow> bool" for d obs run r where
  "observe_receipt d run receipt = Inr r \<Longrightarrow> owner_step d obs run r"
| "start_turn d run = Inr r \<Longrightarrow> owner_step d obs run r"
| "accumulate d run ms = Inr r \<Longrightarrow> owner_step d obs run r"
| "prepare_attempt d run m = Inr r \<Longrightarrow> owner_step d obs run r"
| "emit_attempt d run = Inr r \<Longrightarrow> owner_step d obs run r"
| "replace_unemitted d run np = Inr r \<Longrightarrow> owner_step d obs run r"
| "capture d run raw receipt = Inr r \<Longrightarrow> owner_step d obs run r"
| "reject_response d run reason = Inr r \<Longrightarrow> owner_step d obs run r"
| "accept_tools d run calls = Inr r \<Longrightarrow> owner_step d obs run r"
| "terminal_tool d run call_id outcome = Inr r \<Longrightarrow> owner_step d obs run r"
| "complete d run response = Inr r \<Longrightarrow> owner_step d obs run r"
| "obs = Some observation \<Longrightarrow> complete_delivery d run observation = Inr r \<Longrightarrow> owner_step d obs run r"
| "loop_transition d run target = Inr r \<Longrightarrow> owner_step d obs run r"

text \<open>
  Validation rebuilds the no-exposure proof of a replacement with the Run's worker session and the default
  provider contract; the operation itself demands those of the attempt. What validation admits is an owner
  operation that is not a replacement under another session or contract.
\<close>

definition admitted_step :: "LoopCodec \<Rightarrow> DeliveryObservation option \<Rightarrow> RunRecord \<Rightarrow> RunRecord \<Rightarrow> bool" where
  "admitted_step d obs run r \<longleftrightarrow> owner_step d obs run r
     \<and> (\<forall>np. replace_unemitted d run np = Inr r \<longrightarrow>
          nx_worker_session np = rn_worker_session run \<and> nx_provider_contract np = ''hermetic-model.v1'')"

lemma replace_unemitted_proof:
  assumes "replace_unemitted d run np = Inr r"
  shows "rn_event r = ''ModelAttemptReplacedWithoutExposure''"
    and "\<exists>a. current_attempt run PREPARED_NOT_EMITTED = Inr a \<and> nx_attempt_id np = ma_attempt_id a
      \<and> nx_attempt_head np = ma_head a \<and> nx_run_head np = rn_head run
      \<and> nx_worker_session np = ma_worker_session a \<and> nx_provider_contract np = ma_provider_contract a"
  using assms by (auto simp: replace_unemitted_def rbind_eq_Inr Let_def split: if_splits)

lemma plain_step:
  "owner_step d obs run r \<Longrightarrow> rn_event r \<noteq> ''ModelAttemptReplacedWithoutExposure'' \<Longrightarrow> admitted_step d obs run r"
  using replace_unemitted_proof(1) by (auto simp: admitted_step_def)

lemma expected_admitted_step:
  assumes "expected_record d run r obs = Inr r"
  shows "admitted_step d obs run r"
  unfolding admitted_step_def
proof (intro conjI allI impI)
  show "owner_step d obs run r"
    using assms
    by (auto simp: expected_record_def Let_def rbind_eq_Inr split: if_splits option.splits intro: owner_step.intros)
  fix np
  assume np: "replace_unemitted d run np = Inr r"
  with assms obtain a where a: "current_attempt run PREPARED_NOT_EMITTED = Inr a"
    and rebuilt: "replace_unemitted d run \<lparr>nx_attempt_id = ma_attempt_id a, nx_attempt_head = ma_head a,
       nx_run_head = rn_head run, nx_worker_session = rn_worker_session run,
       nx_provider_contract = ''hermetic-model.v1''\<rparr> = Inr r"
    using replace_unemitted_proof(1) [OF np] by (auto simp: expected_record_def rbind_eq_Inr)
  show "nx_worker_session np = rn_worker_session run" "nx_provider_contract np = ''hermetic-model.v1''"
    using replace_unemitted_proof(2) [OF np] replace_unemitted_proof(2) [OF rebuilt] a by auto
qed

lemma validate_admitted_step: "validate_record d (Some run) r obs = Inr () \<Longrightarrow> admitted_step d obs run r"
  by (auto simp: validate_record_def rbind_eq_Inr split: if_splits intro: expected_admitted_step)

text \<open>pydantic: a union adapter returns what the member's own validation returns, and a validated value
  survives serialisation.\<close>

definition loop_codec_ok :: "LoopCodec \<Rightarrow> bool" where
  "loop_codec_ok d \<longleftrightarrow>
     (\<forall>tools raw calls. validate_response d tools raw = Some (Inl calls) \<longrightarrow>
        parse_continue d raw = Some calls
        \<and> parse_continue d (canonical_json (dump_response d (Continue calls))) = Some calls)
     \<and> (\<forall>tools raw ds. validate_response d tools raw = Some (Inr ds) \<longrightarrow> parse_complete d raw = Some ds)"

lemma case_sum_eq:
  "(case x of Inl a \<Rightarrow> f a | Inr b \<Rightarrow> g b) = y \<longleftrightarrow> (\<exists>a. x = Inl a \<and> f a = y) \<or> (\<exists>b. x = Inr b \<and> g b = y)"
  by (cases x) auto

lemma captured_continue:
  assumes "loop_codec_ok d" and "parse_captured_response d raw artifact = Inr (Continue calls)"
  shows "parse_continue d raw = Some calls"
  using assms
  by (auto simp: loop_codec_ok_def parse_captured_response_def parse_response_def parse_delivery_response_def
      rbind_eq_Inr case_sum_eq split: if_splits)

lemma captured_complete:
  assumes "loop_codec_ok d" and "parse_captured_response d raw artifact = Inr (Complete ds)"
  shows "parse_complete d raw = Some ds"
  using assms
  by (auto simp: loop_codec_ok_def parse_captured_response_def parse_response_def parse_delivery_response_def
      rbind_eq_Inr case_sum_eq split: if_splits)

subsection \<open>Accumulation\<close>

lemma accumulate_extends:
  assumes "rfold accumulate_member ms acc = Inr res"
  shows "\<exists>new. res = acc @ new"
  by (rule rfold_invariant [OF assms, where P = "\<lambda>r. \<exists>new. r = acc @ new"])
    (auto simp: accumulate_member_def split: option.splits if_splits)

lemma accumulate_known:
  assumes "distinct (map vm_record_id acc)" and "set ms \<subseteq> set acc"
  shows "rfold accumulate_member ms acc = Inr acc"
  using assms(2)
proof (induction ms)
  case (Cons m ms)
  have "find (\<lambda>x. vm_record_id x = vm_record_id m) (rev acc) = Some m"
  proof (cases "find (\<lambda>x. vm_record_id x = vm_record_id m) (rev acc)")
    case None
    then show ?thesis using Cons.prems by (auto simp: find_None_iff)
  next
    case (Some x)
    then have "x \<in> set acc" "vm_record_id x = vm_record_id m"
      by (auto dest: find_Some_set)
    then show ?thesis
      using Some Cons.prems assms(1) by (auto simp: distinct_map inj_on_def)
  qed
  with Cons show ?case
    by (simp add: accumulate_member_def)
qed simp

lemma accumulate_fresh:
  assumes "distinct (map vm_record_id (acc @ new))"
  shows "rfold accumulate_member new acc = Inr (acc @ new)"
  using assms
proof (induction new arbitrary: acc)
  case (Cons m new)
  have "vm_record_id m \<notin> vm_record_id ` set acc"
    using Cons.prems by auto
  then have "find (\<lambda>x. vm_record_id x = vm_record_id m) (rev acc) = None"
    by (auto simp: find_None_iff image_iff)
  with Cons.IH [of "acc @ [m]"] Cons.prems show ?case
    by (simp add: accumulate_member_def)
qed simp

lemma accumulate_again:
  assumes "rfold accumulate_member ms acc = Inr res" and "distinct (map vm_record_id acc)"
  shows "rfold accumulate_member res acc = Inr res"
proof -
  obtain new where "res = acc @ new"
    using accumulate_extends [OF assms(1)] by blast
  moreover have "distinct (map vm_record_id res)"
    by (rule accumulate_distinct [OF assms])
  ultimately show ?thesis
    using accumulate_known [OF assms(2)] accumulate_fresh by (simp add: rfold_append)
qed

lemma accumulate_expected:
  assumes "accumulate d run ms = Inr r" and ok: "run_ok d run"
  shows "rn_event r = ''TurnVisibilityAccumulated'' \<and> expected_record d run r obs = Inr r"
proof -
  from assms obtain acc where act: "rn_state run = ACTIVE" "rn_turns run \<noteq> []"
      and t: "tn_attempts (last (rn_turns run)) = []" "tn_state (last (rn_turns run)) = PREPARING"
      and acc: "rfold accumulate_member ms (tn_accumulator (last (rn_turns run))) = Inr acc"
      and r: "r = with_turn d run ((last (rn_turns run))\<lparr>tn_accumulator := acc\<rparr>) ''TurnVisibilityAccumulated''"
    by (auto simp: accumulate_def rbind_eq_Inr current_turn_eq split: if_splits)
  have "turn_ok d run (last (rn_turns run))"
    using ok act(2) by (cases "rn_turns run" rule: rev_cases) (auto simp: run_ok_def turns_ok_snoc)
  then have "rfold accumulate_member acc (tn_accumulator (last (rn_turns run))) = Inr acc"
    using accumulate_again [OF acc] by (simp add: turn_ok_def)
  moreover have "current_turn r = Inr (headed_turn d ''TurnVisibilityAccumulated'' ((last (rn_turns run))\<lparr>tn_accumulator := acc\<rparr>))"
    using act(1) by (simp add: r current_turn_with_turn)
  moreover have "current_turn run = Inr (last (rn_turns run))"
    using act by (simp add: current_turn_eq)
  ultimately have "rbind (current_turn r) (\<lambda>turn. accumulate d run (tn_accumulator turn)) = Inr r"
    using t by (simp add: accumulate_def headed_turn_def r)
  then show ?thesis
    by (simp add: expected_record_def r)
qed

subsection \<open>The other operations\<close>

lemma prepare_attempt_expected:
  assumes "prepare_attempt d run m = Inr r"
  shows "rn_event r = ''ModelAttemptPrepared'' \<and> expected_record d run r obs = Inr r"
proof -
  from assms have act: "rn_state run = ACTIVE"
      and r: "r = with_turn d run ((last (rn_turns run))\<lparr>tn_attempts := [initial_attempt d run (last (rn_turns run)) m],
        tn_state := CALL_ACTIVE\<rparr>) ''ModelAttemptPrepared''"
    by (auto simp: prepare_attempt_def rbind_eq_Inr current_turn_eq not_less split: if_splits)
  have "rbind (current_turn r) (\<lambda>turn. rbind (last_attempt turn) (\<lambda>attempt. prepare_attempt d run (ma_manifest attempt))) = Inr r"
    using assms by (simp add: current_turn_with_turn [OF act] r headed_turn_def last_attempt_def)
  then show ?thesis
    by (simp add: expected_record_def r)
qed

lemma emit_attempt_expected:
  assumes "emit_attempt d run = Inr r"
  shows "rn_event r = ''ModelAttemptEmitted'' \<and> expected_record d run r obs = Inr r"
proof -
  have "rn_event r = ''ModelAttemptEmitted''"
    using assms by (auto simp: emit_attempt_def rbind_eq_Inr with_attempt_def Let_def)
  then show ?thesis
    using assms by (simp add: expected_record_def)
qed

lemma replace_unemitted_expected:
  assumes "replace_unemitted d run np = Inr r" and "admitted_step d obs run r"
  shows "expected_record d run r obs = Inr r"
proof -
  obtain a where a: "current_attempt run PREPARED_NOT_EMITTED = Inr a"
      and np: "nx_attempt_id np = ma_attempt_id a" "nx_attempt_head np = ma_head a" "nx_run_head np = rn_head run"
    using replace_unemitted_proof(2) [OF assms(1)] by blast
  have "np = \<lparr>nx_attempt_id = ma_attempt_id a, nx_attempt_head = ma_head a, nx_run_head = rn_head run,
      nx_worker_session = rn_worker_session run, nx_provider_contract = ''hermetic-model.v1''\<rparr>"
    using assms by (intro NoExposureProof.equality) (simp_all add: np admitted_step_def)
  then show ?thesis
    using assms(1) replace_unemitted_proof(1) [OF assms(1)] a by (simp add: expected_record_def)
qed

text \<open>The selected attempt of the record after a settling operation.\<close>

lemma settled_attempt:
  assumes "current_attempt run s = Inr a" and "ma_generation x = ma_generation a" and "ma_state x = s'"
    and "\<And>t. tn_attempts (upd t) = tn_attempts t \<and> tn_selector (upd t) = tn_selector t"
  shows "current_attempt (with_turn d run (upd (settle_turn d run x event)) event) s' = Inr (headed_attempt d event x)"
proof -
  have "selected (last (rn_turns run)) s a" and act: "rn_state run = ACTIVE"
    using assms(1) by (simp_all add: current_attempt_eq)
  then show ?thesis
    using assms(2-4)
    by (auto simp: current_attempt_eq selected_def headed_turn_def settle_turn_def set_selected_def headed_attempt_def)
qed

lemma capture_expected:
  assumes "capture d run raw receipt = Inr r"
  shows "rn_event r = ''ModelResponseCaptured'' \<and> expected_record d run r obs = Inr r"
proof -
  let ?e = "''ModelResponseCaptured''" and ?upd = "\<lambda>t. t\<lparr>tn_state := RESPONSE_AVAILABLE\<rparr>"
  from assms obtain a where a: "current_attempt run EMITTED_OUTCOME_UNKNOWN = Inr a"
    by (auto simp: capture_def rbind_eq_Inr)
  let ?x = "a\<lparr>ma_state := RESPONSE_CAPTURED, ma_response := Some raw, ma_receipt := Some receipt\<rparr>"
  have r: "r = with_turn d run (?upd (settle_turn d run ?x ?e)) ?e"
    using assms by (auto simp: capture_eq [OF a] split: if_splits)
  have "current_attempt r RESPONSE_CAPTURED = Inr (headed_attempt d ?e ?x)"
    unfolding r by (rule settled_attempt [OF a, where upd = ?upd]) simp_all
  then have "expected_record d run r obs = capture d run raw receipt"
    by (simp add: expected_record_def r headed_attempt_def)
  then show ?thesis
    using assms by (simp add: r)
qed

lemma reject_response_expected:
  assumes "reject_response d run reason = Inr r"
  shows "rn_event r = ''ModelResponseRejected'' \<and> expected_record d run r obs = Inr r"
proof -
  let ?e = "''ModelResponseRejected''" and ?upd = "\<lambda>t. t\<lparr>tn_state := REJECTED, tn_sealed_calls := Some []\<rparr>"
  from assms obtain a where a: "current_attempt run RESPONSE_CAPTURED = Inr a"
    by (auto simp: reject_response_def rbind_eq_Inr)
  let ?x = "a\<lparr>ma_state := TERMINAL_REJECTED, ma_rejection := Some reason\<rparr>"
  have r: "r = with_turn d run (?upd (settle_turn d run ?x ?e)) ?e"
    using assms by (auto simp: reject_response_eq [OF a])
  have "current_attempt r TERMINAL_REJECTED = Inr (headed_attempt d ?e ?x)"
    unfolding r by (rule settled_attempt [OF a, where upd = ?upd]) simp_all
  then have "expected_record d run r obs = reject_response d run reason"
    by (simp add: expected_record_def r headed_attempt_def)
  then show ?thesis
    using assms by (simp add: r)
qed

lemma require_captured_Inr:
  assumes "require_captured d a response reason = Inr ()"
  obtains raw where "ma_response a = Some raw" and "parse_captured_response d raw (mf_artifact (ma_manifest a)) = Inr response"
  using assms by (auto simp: require_captured_def rbind_eq_Inr split: option.splits)

lemma accept_tools_expected:
  assumes "loop_codec_ok d" and "accept_tools d run calls = Inr r"
  shows "rn_event r = ''ModelResponseReceived'' \<and> expected_record d run r obs = Inr r"
proof -
  from assms obtain a where a: "current_attempt run RESPONSE_CAPTURED = Inr a"
    by (auto simp: accept_tools_def rbind_eq_Inr)
  then have req: "require_captured d a (Continue calls) ''response differs from captured bytes'' = Inr ()"
    and event: "rn_event r = ''ModelResponseReceived''"
    using assms(2) by (auto simp: accept_tools_eq rbind_eq_Inr split: if_splits)
  from req obtain raw where "ma_response a = Some raw"
      and "parse_captured_response d raw (mf_artifact (ma_manifest a)) = Inr (Continue calls)"
    by (rule require_captured_Inr)
  with captured_continue [OF assms(1)] a event show ?thesis
    using assms(2) by (simp add: expected_record_def validated_def)
qed

lemma zip_changed:
  assumes "i < length xs" and "x \<noteq> xs ! i"
  shows "filter (\<lambda>(a, b). a \<noteq> b) (zip xs (xs[i := x])) = [(xs ! i, x)]"
  using assms
proof (induction xs arbitrary: i)
  case (Cons y xs)
  have "filter (\<lambda>(a, b). a \<noteq> b) (zip xs xs) = []"
    by (auto simp: filter_empty_conv in_set_zip)
  with Cons show ?case
    by (cases i) auto
qed simp

lemma terminal_tool_expected:
  assumes "terminal_tool d run call_id outcome = Inr r"
  shows "rn_event r = ''ToolTerminal'' \<and> expected_record d run r obs = Inr r"
  using assms
proof (cases rule: terminal_tool_Inr)
  case (1 calls i)
  let ?x = "(calls ! i)\<lparr>to_state := TERMINAL, to_result := Some outcome\<rparr>"
  have "to_state ?x \<noteq> to_state (calls ! i)"
    using 1(6) by simp
  then have "?x \<noteq> calls ! i"
    by metis
  note changed = zip_changed [OF 1(4) this]
  have "current_turn r = Inr (headed_turn d ''ToolTerminal'' ((last (rn_turns run))\<lparr>tn_sealed_calls := Some (calls[i := ?x])\<rparr>))"
    unfolding 1(8) by (rule current_turn_with_turn [OF 1(1)])
  moreover have "current_turn run = Inr (last (rn_turns run))"
    using 1(1,2) by (simp add: current_turn_eq)
  ultimately have "terminal_call run r = Inr (call_id, outcome)"
    using 1(3,5) changed by (simp add: terminal_call_def headed_turn_def)
  then show ?thesis
    using assms by (simp add: expected_record_def 1(8))
qed

lemma start_turn_expected:
  assumes "start_turn d run = Inr r"
  shows "(rn_event r = ''TurnStarted'' \<or> rn_event r = ''RunBudgetSuspended'') \<and> expected_record d run r obs = Inr r"
proof -
  have "rn_event r = ''TurnStarted'' \<or> rn_event r = ''RunBudgetSuspended''"
    using assms by (auto simp: start_turn_def rbind_eq_Inr Let_def split: if_splits)
  then show ?thesis
    using assms by (auto simp: expected_record_def)
qed

lemma observe_receipt_expected:
  assumes "observe_receipt d run receipt = Inr r"
  shows "rn_event r = ''PlanningReceiptObserved'' \<and> expected_record d run r obs = Inr r"
proof -
  have "rn_event r = ''PlanningReceiptObserved'' \<and> rn_planning_receipts r = rn_planning_receipts run @ [receipt]"
    using assms by (auto simp: observe_receipt_def rbind_eq_Inr split: if_splits)
  then show ?thesis
    using assms by (simp add: expected_record_def)
qed

lemma loop_transition_expected:
  assumes "loop_transition d run target = Inr r"
  shows "rn_event r = run_event target \<and> expected_record d run r obs = Inr r"
proof -
  have r: "rn_event r = run_event target" "rn_state r = target" "target \<in> set (run_edges (rn_state run))"
    using assms by (auto simp: loop_transition_def rbind_eq_Inr split: if_splits)
  then have "target \<in> {ACTIVE, SUSPENDED, ABORTED, CANCELLED}"
    by (cases "rn_state run") auto
  with r show ?thesis
    using assms by (auto simp: expected_record_def)
qed

lemma complete_expected:
  assumes "loop_codec_ok d" and "complete d run response = Inr r" and "rn_accepted_delivery_binding run = None"
  shows "rn_event r = ''CompleteAcceptance'' \<and> expected_record d run r obs = Inr r"
proof -
  from assms(2) obtain a where a: "current_attempt run RESPONSE_CAPTURED = Inr a"
      and req: "require_captured d a (Complete response) ''completion differs from selected captured bytes'' = Inr ()"
      and r: "rn_event r = ''CompleteAcceptance''" "rn_accepted_delivery_binding r = rn_accepted_delivery_binding run"
    by (auto simp: complete_def rbind_eq_Inr Let_def)
  from req obtain raw where "ma_response a = Some raw"
      and "parse_captured_response d raw (mf_artifact (ma_manifest a)) = Inr (Complete response)"
    by (rule require_captured_Inr)
  with captured_complete [OF assms(1)] a r show ?thesis
    using assms(2,3) by (simp add: expected_record_def validated_def)
qed

lemma complete_delivery_expected:
  assumes "complete_delivery d run observation = Inr r"
  shows "rn_event r = ''CompleteAcceptance'' \<and> expected_record d run r (Some observation) = Inr r"
  using assms
proof (cases rule: complete_delivery_Inr)
  case (1 a raw response p u t)
  then have "rn_event r = ''CompleteAcceptance''" "rn_accepted_delivery_binding r \<noteq> None"
    by simp_all
  then show ?thesis
    using assms 1(1,5) by (simp add: expected_record_def)
qed

text \<open>The records a Run admits next are exactly those its owner operations produce, replacements under another
  session or contract excepted.\<close>

lemma owner_step_run_step:
  assumes "owner_step d obs run r"
  shows "run_step d run r"
  using assms
  by cases (auto intro: observe_receipt_step start_turn_step accumulate_step prepare_attempt_step emit_attempt_step
      replace_unemitted_step capture_step reject_response_step accept_tools_step complete_delivery_step
      complete_step terminal_tool_step loop_transition_step)

lemma owner_step_expected:
  assumes "admitted_step d obs run r" and "loop_codec_ok d" and "run_ok d run" and "rn_accepted_delivery_binding run = None"
  shows "expected_record d run r obs = Inr r"
  using assms(1) [unfolded admitted_step_def, THEN conjunct1]
  by cases (use assms in \<open>simp_all add: accumulate_expected prepare_attempt_expected emit_attempt_expected
      replace_unemitted_expected [OF _ assms(1)] capture_expected reject_response_expected accept_tools_expected
      terminal_tool_expected start_turn_expected observe_receipt_expected loop_transition_expected
      complete_expected complete_delivery_expected\<close>)

lemma run_step_binding:
  assumes "run_step d run r" and "run_ok d run"
  shows "rn_accepted_delivery_binding run = None"
  using run_step_state [OF assms(1)] assms(2) by (auto simp: run_ok_def)

lemma with_attempt_binding:
  "with_attempt d run a event = Inr r \<Longrightarrow> rn_accepted_delivery_binding r = rn_accepted_delivery_binding run"
  by (auto simp: with_attempt_def rbind_eq_Inr Let_def)

lemma owner_step_binding:
  assumes "owner_step d obs run r" and "rn_event r \<noteq> ''CompleteAcceptance''"
  shows "rn_accepted_delivery_binding r = rn_accepted_delivery_binding run"
  using assms(1)
proof cases
  case (10 call_id outcome)
  then show ?thesis by (cases rule: terminal_tool_Inr) simp
next
  case (11 response)
  with assms(2) show ?thesis by (auto simp: complete_def rbind_eq_Inr Let_def)
next
  case (12 observation)
  with assms(2) show ?thesis using complete_delivery_expected by blast
qed (auto simp: observe_receipt_def start_turn_def accumulate_def prepare_attempt_def emit_attempt_def
      replace_unemitted_def capture_def reject_response_def accept_tools_def loop_transition_def
      rbind_eq_Inr Let_def split: if_splits option.splits dest: with_attempt_binding)

lemma validate_admitted:
  assumes "loop_codec_ok d" and "run_ok d run"
  shows "validate_record d (Some run) r obs = Inr () \<longleftrightarrow> admitted_step d obs run r"
proof
  assume admitted: "admitted_step d obs run r"
  then have step: "owner_step d obs run r"
    by (simp add: admitted_step_def)
  note run = owner_step_run_step [OF step]
  have none: "rn_accepted_delivery_binding run = None"
    by (rule run_step_binding [OF run assms(2)])
  moreover have "rn_head r = run_head_of d r"
    using run_step_linked [OF run] by (simp add: linked_def)
  ultimately show "validate_record d (Some run) r obs = Inr ()"
    using owner_step_expected [OF admitted assms none] owner_step_binding [OF step]
    by (auto simp: validate_record_def)
qed (rule validate_admitted_step)

section \<open>Disclosure of a completion\<close>

definition shown_labels :: "RunRecord \<Rightarrow> LoopLabel set" where
  "shown_labels run = {vm_label m |turn a m. turn \<in> set (rn_turns run) \<and> a \<in> set (tn_attempts turn) \<and> m \<in> set (mf_members (ma_manifest a))}"

lemma set_historical_labels: "set (historical_labels run) = shown_labels run"
  by (auto simp: historical_labels_def shown_labels_def)

lemma attempt_label_meet:
  assumes "turn_ok d run t" and "a \<in> set (tn_attempts t)"
  shows "\<forall>m \<in> set (mf_members (ma_manifest a)). canonical_label (vm_label m)"
    and "canonical_label (mf_joined_label (ma_manifest a))" and "mf_members (ma_manifest a) \<noteq> []"
    and "admits (mf_joined_label (ma_manifest a)) e \<longleftrightarrow> (\<forall>m \<in> set (mf_members (ma_manifest a)). admits (vm_label m) e)"
proof -
  from assms obtain i where "attempt_ok d run t i a"
    by (auto simp: turn_ok_def in_set_conv_nth)
  then have "join_labels (map vm_label (mf_members (ma_manifest a))) = Inr (mf_joined_label (ma_manifest a))"
    by (simp add: attempt_ok_def)
  note join = join_labels_ok [OF this]
  show "\<forall>m \<in> set (mf_members (ma_manifest a)). canonical_label (vm_label m)" "mf_members (ma_manifest a) \<noteq> []"
    "canonical_label (mf_joined_label (ma_manifest a))"
    "admits (mf_joined_label (ma_manifest a)) e \<longleftrightarrow> (\<forall>m \<in> set (mf_members (ma_manifest a)). admits (vm_label m) e)"
    using join by simp_all
qed

text \<open>All attempts of one Turn carry the same label.\<close>

lemma attempt_labels_same:
  assumes "turn_ok d run t" and "a \<in> set (tn_attempts t)" and "b \<in> set (tn_attempts t)"
  shows "mf_joined_label (ma_manifest a) = mf_joined_label (ma_manifest b)"
proof -
  from assms obtain i j where "attempt_ok d run t i a" "attempt_ok d run t j b"
    by (auto simp: turn_ok_def in_set_conv_nth)
  then show ?thesis by (simp add: attempt_ok_def)
qed

lemma historical_join:
  assumes ok: "run_ok d run" and ts: "rn_turns run = ts @ [t]" and a: "a \<in> set (tn_attempts t)"
  shows "join_labels (historical_labels run) = Inr (mf_joined_label (ma_manifest a))"
proof -
  have turns: "turn_ok d run u" if "u \<in> set (rn_turns run)" for u
    using ok that by (auto simp: run_ok_def turns_ok_def in_set_conv_nth)
  have t: "turn_ok d run t"
    using turns ts by simp
  note meet = attempt_label_meet [OF t a]
  have below: "admits (mf_joined_label (ma_manifest b)) e"
    if adm: "admits (mf_joined_label (ma_manifest a)) e" and u: "u \<in> set (rn_turns run)" and b: "b \<in> set (tn_attempts u)" for e u b
  proof (cases "u \<in> set ts")
    case True
    then show ?thesis
      using ok adm b a by (auto simp: run_ok_def ts label_chain_snoc attempt_labels_def)
  next
    case False
    then have "u = t"
      using u ts by simp
    then show ?thesis
      using adm attempt_labels_same [OF t a] b by simp
  qed
  show ?thesis
  proof (rule join_labels_eqI)
    obtain m where "m \<in> set (mf_members (ma_manifest a))"
      using meet(3) by (cases "mf_members (ma_manifest a)") auto
    then have "vm_label m \<in> shown_labels run"
      using a ts by (auto simp: shown_labels_def)
    then show "historical_labels run \<noteq> []"
      by (auto simp flip: set_historical_labels)
    show "\<forall>x \<in> set (historical_labels run). canonical_label x"
      using attempt_label_meet(1) [OF turns] by (auto simp: set_historical_labels shown_labels_def)
    show "canonical_label (mf_joined_label (ma_manifest a))"
      by (rule meet(2))
    show "admits (mf_joined_label (ma_manifest a)) e \<longleftrightarrow> (\<forall>x \<in> set (historical_labels run). admits x e)" for e
    proof
      assume adm: "admits (mf_joined_label (ma_manifest a)) e"
      show "\<forall>x \<in> set (historical_labels run). admits x e"
        using below [OF adm] attempt_label_meet(4) [OF turns] by (auto simp: set_historical_labels shown_labels_def)
    next
      assume "\<forall>x \<in> set (historical_labels run). admits x e"
      then show "admits (mf_joined_label (ma_manifest a)) e"
        unfolding meet(4) using a ts by (auto simp: set_historical_labels shown_labels_def)
    qed
  qed
qed

end
