(* ===== verification/Loop_Completion.thy ===== *)
theory Loop_Completion
  imports Loop_Lineage
begin

text \<open>
  What a completion publishes: the single delivery a \<open>Complete\<close> response can make, the proposal of a
  delivery completion, and the disclosure labels its endpoints are checked against.
\<close>

section \<open>Completion\<close>

definition accepted_delivery :: "LoopCodec \<Rightarrow> RunRecord \<Rightarrow> ModelAttempt \<Rightarrow> Delivery \<Rightarrow> string \<Rightarrow> AcceptedDelivery" where
  "accepted_delivery d run attempt delivery shown =
     \<lparr>ad_delivery_id = rn_run_id run @ ''/delivery/0'', ad_payload = delivery\<lparr>dy_endpoint := Some (rn_origin run)\<rparr>,
      ad_rendered = shown, ad_visibility_digest = json_digest (dump_manifest d (ma_manifest attempt))\<rparr>"

definition origin_target :: "RunRecord \<Rightarrow> string \<times> string \<times> string" where
  "origin_target run =
     (en_provider (rn_origin run), en_recipient (rn_origin run), en_canonical_address (rn_origin run))"

lemma accept_delivery_Inr:
  assumes "accept_delivery d run a delivery ([], {}) = Inr acc"
  obtains shown label where "dy_endpoint delivery = None \<or> dy_endpoint delivery = Some (rn_origin run)"
    and "render_delivery run delivery = Inr shown" and "join_labels (historical_labels run) = Inr label"
    and "admits label (en_endpoint_id (rn_origin run))"
    and "acc = ([accepted_delivery d run a delivery shown], {origin_target run})"
  using assms
  by (auto simp: accept_delivery_def Let_def rbind_eq_Inr accepted_delivery_def origin_target_def nat_str_0 admits.simps
      split: if_splits option.splits LoopLabelValue.splits)

lemma accept_delivery_again:
  assumes "origin_target run \<in> rs"
  shows "accept_delivery d run a delivery (ds, rs) \<noteq> Inr acc"
  using assms by (auto simp: accept_delivery_def Let_def rbind_eq_Inr origin_target_def split: if_splits)

text \<open>Every delivery goes to the origin and no recipient is addressed twice: there is at most one.\<close>

lemma accept_deliveries_Inr:
  assumes "rfold (accept_delivery d run a) response ([], {}) = Inr (ds, rs)" and "response \<noteq> []"
  obtains delivery shown label where "response = [delivery]"
    and "dy_endpoint delivery = None \<or> dy_endpoint delivery = Some (rn_origin run)"
    and "render_delivery run delivery = Inr shown" and "join_labels (historical_labels run) = Inr label"
    and "admits label (en_endpoint_id (rn_origin run))" and "ds = [accepted_delivery d run a delivery shown]"
proof -
  obtain delivery rest where response: "response = delivery # rest"
    using assms(2) by (cases response) auto
  then obtain acc where first: "accept_delivery d run a delivery ([], {}) = Inr acc"
      and fold: "rfold (accept_delivery d run a) rest acc = Inr (ds, rs)"
    using assms(1) by (auto simp: rbind_eq_Inr)
  from first obtain shown label where parts: "dy_endpoint delivery = None \<or> dy_endpoint delivery = Some (rn_origin run)"
      "render_delivery run delivery = Inr shown" "join_labels (historical_labels run) = Inr label"
      "admits label (en_endpoint_id (rn_origin run))"
      and acc: "acc = ([accepted_delivery d run a delivery shown], {origin_target run})"
    by (rule accept_delivery_Inr)
  have "rest = []"
    using fold by (cases rest) (auto simp: acc rbind_eq_Inr accept_delivery_again)
  then show ?thesis
    using that parts fold response by (simp add: acc)
qed

lemma complete_Inr:
  assumes "complete d run response = Inr r" and "response \<noteq> []"
  obtains a delivery shown label where "current_attempt run RESPONSE_CAPTURED = Inr a"
    and "require_captured d a (Complete response) ''completion differs from selected captured bytes'' = Inr ()"
    and "response = [delivery]" and "dy_endpoint delivery = None \<or> dy_endpoint delivery = Some (rn_origin run)"
    and "render_delivery run delivery = Inr shown" and "join_labels (historical_labels run) = Inr label"
    and "admits label (en_endpoint_id (rn_origin run))"
    and "rn_deliveries r = [accepted_delivery d run a delivery shown]" and "rn_accepted_text r = [shown]"
proof -
  from assms(1) obtain a ds rs where a: "current_attempt run RESPONSE_CAPTURED = Inr a"
      and req: "require_captured d a (Complete response) ''completion differs from selected captured bytes'' = Inr ()"
      and fold: "rfold (accept_delivery d run a) response ([], {}) = Inr (ds, rs)"
      and r: "rn_deliveries r = ds" "rn_accepted_text r = map ad_rendered ds"
    by (auto simp: complete_def rbind_eq_Inr Let_def)
  from fold assms(2) show ?thesis
    by (rule accept_deliveries_Inr) (use that a req r in \<open>auto simp: accepted_delivery_def\<close>)
qed

section \<open>Delivery proposals\<close>

definition chosen_endpoint :: "DeliveryObservation \<Rightarrow> ProposedDelivery \<Rightarrow> SelectedEndpoint" where
  "chosen_endpoint snapshot delivery = (case pd_selection delivery of Some s \<Rightarrow> s | None \<Rightarrow> do_origin snapshot)"

definition rendering :: "DeliveryObservation \<Rightarrow> ProposedDelivery \<Rightarrow> bytes \<Rightarrow> bool" where
  "rendering snapshot delivery raw \<longleftrightarrow>
     (\<exists>parts. list_all2 (\<lambda>payload part. render_payload snapshot payload = Inr part) (pd_payload delivery) parts
        \<and> raw = join_bytes (encode (newline @ newline)) parts)"

definition endpoint_ok :: "DeliveryObservation \<Rightarrow> SelectedEndpoint \<Rightarrow> bool" where
  "endpoint_ok snapshot selection \<longleftrightarrow>
     (case selection of OriginSelection _ _ \<Rightarrow> selection = do_origin snapshot | _ \<Rightarrow> True)
     \<and> count_list (do_recipients snapshot) (sel_recipient selection) = 1
     \<and> (\<forall>envelope \<in> set (do_history snapshot).
          label_permits (he_label envelope) (dh_identity (dr_endpoint (sel_recipient selection))))"

definition entry_key :: "SelectedEndpoint \<times> bytes \<Rightarrow> string \<times> string \<times> string" where
  "entry_key entry = recipient_key (sel_recipient (fst entry))"

lemma append_rendered_fold:
  assumes "rfold (append_rendered snapshot) payloads acc = Inr res"
  shows "\<exists>parts. list_all2 (\<lambda>payload part. render_payload snapshot payload = Inr part) payloads parts \<and> res = acc @ parts"
  using assms
proof (induction payloads arbitrary: acc)
  case (Cons payload payloads)
  from Cons.prems obtain raw where raw: "render_payload snapshot payload = Inr raw"
      and rest: "rfold (append_rendered snapshot) payloads (acc @ [raw]) = Inr res"
    by (auto simp: append_rendered_def [of snapshot payload] rbind_eq_Inr)
  from Cons.IH [OF rest] raw show ?case
    by (auto intro: exI [of _ "raw # _"])
qed simp

lemma check_envelopes:
  assumes "rfold (check_envelope selection) envelopes () = Inr ()"
  shows "\<forall>envelope \<in> set envelopes. label_permits (he_label envelope) (dh_identity (dr_endpoint (sel_recipient selection)))"
  using assms by (induction envelopes) (auto simp: rbind_eq_Inr check_envelope_def)

lemma prepare_delivery_Inr:
  assumes "prepare_delivery snapshot delivery (prepared, keys) = Inr acc"
  obtains raw where "endpoint_ok snapshot (chosen_endpoint snapshot delivery)" and "rendering snapshot delivery raw"
    and "recipient_key (sel_recipient (chosen_endpoint snapshot delivery)) \<notin> set keys"
    and "acc = (prepared @ [(chosen_endpoint snapshot delivery, raw)],
       keys @ [recipient_key (sel_recipient (chosen_endpoint snapshot delivery))])"
proof -
  from assms obtain rendered where parts: "endpoint_ok snapshot (chosen_endpoint snapshot delivery)"
      "recipient_key (sel_recipient (chosen_endpoint snapshot delivery)) \<notin> set keys"
      and fold: "rfold (append_rendered snapshot) (pd_payload delivery) [] = Inr rendered"
      and acc: "acc = (prepared @ [(chosen_endpoint snapshot delivery, join_bytes (encode (newline @ newline)) rendered)],
        keys @ [recipient_key (sel_recipient (chosen_endpoint snapshot delivery))])"
    by (auto simp: prepare_delivery_def Let_def rbind_eq_Inr endpoint_ok_def chosen_endpoint_def dest!: check_envelopes
        split: option.splits)
  from append_rendered_fold [OF fold] have "rendering snapshot delivery (join_bytes (encode (newline @ newline)) rendered)"
    by (auto simp: rendering_def)
  then show ?thesis
    using that parts acc by blast
qed

lemma prepare_deliveries_fold:
  assumes "rfold (prepare_delivery snapshot) deliveries (prepared, keys) = Inr (prepared', keys')"
    and "keys = map entry_key prepared" and "distinct keys"
  shows "\<exists>new. prepared' = prepared @ new \<and> distinct (map entry_key prepared')
     \<and> list_all2 (\<lambda>delivery entry. fst entry = chosen_endpoint snapshot delivery
          \<and> endpoint_ok snapshot (fst entry) \<and> rendering snapshot delivery (snd entry)) deliveries new"
  using assms
proof (induction deliveries arbitrary: prepared keys)
  case (Cons delivery deliveries)
  from Cons.prems(1) obtain acc where first: "prepare_delivery snapshot delivery (prepared, keys) = Inr acc"
      and rest: "rfold (prepare_delivery snapshot) deliveries acc = Inr (prepared', keys')"
    by (auto simp: rbind_eq_Inr)
  from first obtain raw where ok: "endpoint_ok snapshot (chosen_endpoint snapshot delivery)" "rendering snapshot delivery raw"
      and key: "recipient_key (sel_recipient (chosen_endpoint snapshot delivery)) \<notin> set keys"
      and acc: "acc = (prepared @ [(chosen_endpoint snapshot delivery, raw)],
       keys @ [recipient_key (sel_recipient (chosen_endpoint snapshot delivery))])"
    by (rule prepare_delivery_Inr)
  have key_eq: "recipient_key (sel_recipient (chosen_endpoint snapshot delivery)) = entry_key (chosen_endpoint snapshot delivery, raw)"
    by (simp add: entry_key_def)
  from Cons.IH [OF rest [unfolded acc]] Cons.prems(2,3) key obtain new where
      "prepared' = (prepared @ [(chosen_endpoint snapshot delivery, raw)]) @ new"
      "distinct (map entry_key prepared')"
      "list_all2 (\<lambda>delivery entry. fst entry = chosen_endpoint snapshot delivery
          \<and> endpoint_ok snapshot (fst entry) \<and> rendering snapshot delivery (snd entry)) deliveries new"
    by (auto simp: key_eq)
  with ok show ?case
    by (auto intro: exI [of _ "(chosen_endpoint snapshot delivery, raw) # new"])
qed simp

lemma prepare_completion_Inr:
  assumes "prepare_completion d completion snapshot = Inr p"
  obtains prepared where "canonical_json (dump_response d (CompleteDelivery completion)) = do_captured_response snapshot"
    and "dc_tenant completion = do_tenant snapshot" and "dc_run_id completion = dh_identity (do_run snapshot)"
    and "dc_turn_id completion = do_turn_id snapshot"
    and "list_all2 (\<lambda>delivery entry. fst entry = chosen_endpoint snapshot delivery
          \<and> endpoint_ok snapshot (fst entry) \<and> rendering snapshot delivery (snd entry)) (dc_deliveries completion) prepared"
    and "distinct (map entry_key prepared)"
    and "dp_acceptance p = acceptance_head d completion snapshot" and "dp_history_rendered_bytes p = map snd prepared"
    and "dm_ordered_deliveries (dp_manifest p) =
      map (manifest_delivery d (acceptance_head d completion snapshot) snapshot) (zip [0..<length prepared] prepared)"
proof -
  from assms obtain prepared keys where head: "canonical_json (dump_response d (CompleteDelivery completion)) = do_captured_response snapshot"
      "dc_tenant completion = do_tenant snapshot" "dc_run_id completion = dh_identity (do_run snapshot)"
      "dc_turn_id completion = do_turn_id snapshot"
      and fold: "rfold (prepare_delivery snapshot) (dc_deliveries completion) ([], []) = Inr (prepared, keys)"
      and p: "dp_acceptance p = acceptance_head d completion snapshot" "dp_history_rendered_bytes p = map snd prepared"
        "dm_ordered_deliveries (dp_manifest p) =
          map (manifest_delivery d (acceptance_head d completion snapshot) snapshot) (zip [0..<length prepared] prepared)"
    by (auto simp: prepare_completion_def Let_def rbind_eq_Inr)
  from prepare_deliveries_fold [OF fold] show ?thesis
    using that head p by auto
qed

lemma manifest_delivery_fields [simp]:
  "md_delivery_id (manifest_delivery d acceptance snapshot (i, selection, raw)) = dh_identity acceptance @ ''/delivery/'' @ nat_str i"
  "md_acceptance (manifest_delivery d acceptance snapshot (i, selection, raw)) = acceptance"
  "md_selection (manifest_delivery d acceptance snapshot (i, selection, raw)) = selection"
  "md_rendered_bytes (manifest_delivery d acceptance snapshot (i, selection, raw)) = raw"
  "md_render_digest (manifest_delivery d acceptance snapshot (i, selection, raw)) = sha256_hex raw"
  by (simp_all add: manifest_delivery_def)

text \<open>An assertion is rendered from the one current query it names, and states no more than it entails.\<close>

lemma render_assertion_Inr:
  assumes "render_assertion assertion snapshot = Inr raw"
  obtains query code shown where "query \<in> set (do_queries snapshot)" and "qb_query (query_base query) = ap_query assertion"
    and "qb_tenant (query_base query) = do_tenant snapshot" and "qb_subject (query_base query) = ap_subject assertion"
    and "qb_source_frontier (query_base query) = do_source_frontier snapshot"
    and "query_kind query = ap_assertion_kind assertion" and "qb_records (query_base query) = ap_records assertion"
    and "entailed assertion query = Inr (code, shown)" and "ap_codes assertion = [code]"
    and "raw = encode (shown @ '' Subject: '' @ dumps (JStr (dh_identity (qb_subject (query_base query)))) @ ''.'')"
proof -
  from assms obtain query where single: "filter (\<lambda>q. qb_query (query_base q) = ap_query assertion) (do_queries snapshot) = [query]"
    by (auto simp: render_assertion_def split: list.splits)
  then have "query \<in> set (do_queries snapshot)" "qb_query (query_base query) = ap_query assertion"
    using filter_set [of "\<lambda>q. qb_query (query_base q) = ap_query assertion" "do_queries snapshot"] by auto
  with assms single show ?thesis
    using that by (auto simp: render_assertion_def Let_def rbind_eq_Inr)
qed

section \<open>Disclosure\<close>

lemma label_permits_admits: "label_permits l e \<Longrightarrow> admits l e"
  by (auto simp: label_permits_def admits.simps)

lemma expected_history_labels: "(vm_label \<circ> snd) ` set (expected_history run) = shown_labels run"
  by (force simp: expected_history_def shown_labels_def)

lemma envelopes_cover:
  assumes "list_all2 (envelope_matches d) (expected_history run) (do_history observation)"
  shows "shown_labels run = he_label ` set (do_history observation)"
proof -
  have "map (vm_label \<circ> snd) (expected_history run) = map he_label (do_history observation)"
    using assms by (induction rule: list_all2_induct) (auto simp: envelope_matches_def Let_def)
  then have "(vm_label \<circ> snd) ` set (expected_history run) = he_label ` set (do_history observation)"
    by (metis list.set_map)
  then show ?thesis
    by (simp only: expected_history_labels)
qed

end
