(* ===== verification/Loop_Sample.thy ===== *)
theory Loop_Sample
  imports Loop_Completion
begin

text \<open>
  A sample Run that is created, activated, given one Turn, prepared, emitted and captured, for the witnesses;
  \<open>g\<close> is the response generator of its prompt artifact.
\<close>

section \<open>A sample Run\<close>

definition wl_delivery :: Delivery where
  "wl_delivery = \<lparr>dy_kind = NonAuthoritativeText, dy_text = Some ''hi'', dy_endpoint = None, dy_assertion_code = None,
     dy_evidence_id = None\<rparr>"

definition wl_raw :: bytes where
  "wl_raw = canonical_json JNull"

definition wl_head :: "string \<Rightarrow> DeliveryHead" where
  "wl_head identity = \<lparr>dh_identity = identity, dh_head = ''h'', dh_fingerprint = ''f''\<rparr>"

definition wl_recipient :: DeliveryRecipient where
  "wl_recipient = \<lparr>dr_provider_id = ''local-cli'', dr_account_id = ''a'', dr_recipient_id = ''me'', dr_endpoint = wl_head ''cli'',
     dr_canonical_address = [], dr_credential_binding = wl_head ''c''\<rparr>"

definition wl_completion :: DeliveryCompletion where
  "wl_completion = \<lparr>dc_tenant = ''t'', dc_run_id = ''r'', dc_turn_id = ''r/turn/1'',
     dc_deliveries = [\<lparr>pd_selection = None, pd_payload = [Commentary ''hi'']\<rparr>]\<rparr>"

definition wl_codec :: LoopCodec where
  "wl_codec =
     \<lparr>dump_run = \<lambda>r. JStr (rn_event r), dump_turn = \<lambda>t. JStr (tn_turn_id t), dump_attempt = \<lambda>a. JStr (ma_attempt_id a),
      dump_manifest = \<lambda>m. JStr (mf_turn_id m), dump_artifact = \<lambda>a. JStr (pa_content_hash a),
      dump_member = \<lambda>m. JStr (vm_record_id m), dump_response = \<lambda>r. JNull, dump_observation = \<lambda>x. JStr (do_tenant x),
      dump_selection = \<lambda>s. JStr (dr_recipient_id (sel_recipient s)), dump_envelope = \<lambda>e. JStr (dh_identity (he_content e)),
      dump_delivery_head = \<lambda>h. JStr (dh_identity h), dump_delivery_manifest = \<lambda>m. JStr (dm_manifest_id m),
      dump_proposal = \<lambda>p. JStr (dp_proposal_digest p), response_schema = \<lambda>tools. JNull,
      validate_response = \<lambda>tools raw. if raw = wl_raw then Some (Inr [wl_delivery]) else None,
      delivery_schema = \<lambda>tools. JNull, validate_delivery = \<lambda>tools raw. if raw = wl_raw then Some (Inr wl_completion) else None, parse_continue = \<lambda>raw. None,
      parse_complete = \<lambda>raw. if raw = wl_raw then Some [wl_delivery] else None\<rparr>"

definition wl_label :: LoopLabel where
  "wl_label = \<lparr>ll_value = LL_ENDPOINT_RESTRICTED, ll_allowed_endpoints = [''cli'']\<rparr>"

definition wl_origin :: EndpointSelection where
  "wl_origin = \<lparr>en_kind = ''ORIGIN_EXACT'', en_ingress_binding_head = ''i'', en_endpoint_head = ''h'', en_endpoint_id = ''cli'',
     en_provider = ''local-cli'', en_recipient = ''me'', en_canonical_address = ''tty'', en_credential_binding_head = ''c''\<rparr>"

definition wl_policy :: BudgetPolicy where
  "wl_policy = \<lparr>bp_live_model = None, bp_kind = MAX_TURNS, bp_max_turns = 1, bp_max_request_bytes = 200,
     bp_max_response_bytes = 4, bp_max_tool_calls = 1, bp_max_model_retries = Some 0\<rparr>"

definition wl_created :: RunRecord where
  "wl_created =
     \<lparr>rn_tenant = ''t'', rn_principal = ''p'', rn_run_id = ''r'', rn_state = CREATED,
      rn_head = ''loop:'' @ json_digest (JStr ''RunCreated''), rn_predecessor = None, rn_prompt = ''go'', rn_policy = wl_policy,
      rn_origin = wl_origin, rn_contour_head = ''k'', rn_policy_head = ''q'', rn_worker_session = ''w'', rn_root_binding = None,
      rn_accepted_delivery_binding = None, rn_turns = [], rn_deliveries = [], rn_accepted_text = [],
      rn_planning_receipts = [], rn_event = ''RunCreated''\<rparr>"

definition wl_active :: RunRecord where
  "wl_active = run_successor wl_codec wl_created ''RunActive'' (\<lambda>r. r\<lparr>rn_state := ACTIVE\<rparr>)"

definition wl_started :: RunRecord where
  "wl_started = run_successor wl_codec wl_active ''TurnStarted'' (\<lambda>r. r\<lparr>rn_turns := [new_turn wl_active]\<rparr>)"

definition wl_artifact :: "string \<Rightarrow> PromptArtifact" where
  "wl_artifact g = \<lparr>pa_content_hash = ''a'', pa_library_version = ''1'', pa_generator_version = g,
     pa_tools = TOOLS, pa_response_schema_json = ''null'', pa_rendered = ''go''\<rparr>"

definition wl_member :: "string \<Rightarrow> string \<Rightarrow> string \<Rightarrow> string \<Rightarrow> VisibilityMember" where
  "wl_member surface content revision provenance =
     \<lparr>vm_record_id = surface, vm_revision_head = revision, vm_content = content, vm_provenance_head = provenance,
      vm_label_head = ''k'', vm_label = wl_label, vm_producer = ''agent_loop'', vm_surface = surface\<rparr>"

definition wl_members :: "VisibilityMember list" where
  "wl_members =
     [wl_member ''context'' ''go'' ''x'' (rn_head wl_started), wl_member ''prompt'' ''go'' ''a'' ''a'',
      wl_member ''schema'' ''null'' (json_digest (JStr ''a'')) ''s'']"

definition wl_accumulated :: RunRecord where
  "wl_accumulated = with_turn wl_codec wl_started ((new_turn wl_active)\<lparr>tn_accumulator := wl_members\<rparr>) ''TurnVisibilityAccumulated''"

definition wl_turn :: Turn where
  "wl_turn = last (rn_turns wl_accumulated)"

definition wl_manifest :: "string \<Rightarrow> VisibilityManifest" where
  "wl_manifest g = \<lparr>mf_tenant = ''t'', mf_principal = ''p'', mf_contour_head = ''k'', mf_run_id = ''r'',
     mf_turn_id = tn_turn_id wl_turn, mf_generation = 0, mf_worker_session = ''w'', mf_members = wl_members,
     mf_joined_label = wl_label, mf_artifact = wl_artifact g\<rparr>"

definition wl_prepared :: "string \<Rightarrow> RunRecord" where
  "wl_prepared g = with_turn wl_codec wl_accumulated
     (wl_turn\<lparr>tn_attempts := [initial_attempt wl_codec wl_accumulated wl_turn (wl_manifest g)], tn_state := CALL_ACTIVE\<rparr>)
     ''ModelAttemptPrepared''"

lemma wl_codec_ok: "loop_codec_ok wl_codec"
  by (simp add: loop_codec_ok_def wl_codec_def)

lemma wl_genesis: "loop_lineage wl_codec [wl_created]"
  by (rule loop_lineage.genesis [where obs = None])
    (simp add: validate_record_def genesis_ok_def wl_created_def run_head_of_def wl_codec_def)

text \<open>A lineage grows by an owner operation on its last record.\<close>

lemma lineage_extend:
  assumes "loop_lineage d rs" and "loop_codec_ok d" and "last rs = run" and "owner_step d obs run r"
    and "rn_event r \<noteq> ''ModelAttemptReplacedWithoutExposure''"
  shows "loop_lineage d (rs @ [r])"
proof (rule loop_lineage.extend [OF assms(1), where obs = obs])
  have "run_ok d run"
    using lineage_ok [OF assms(1)] lineage_nonempty [OF assms(1)] assms(3) by auto
  then show "validate_record d (Some (last rs)) r obs = Inr ()"
    using validate_admitted [OF assms(2)] plain_step [OF assms(4,5)] assms(3) by simp
qed

lemma wl_active_step: "loop_transition wl_codec wl_created ACTIVE = Inr wl_active"
  by (simp add: loop_transition_def wl_created_def wl_active_def)

lemma wl_started_step: "start_turn wl_codec wl_active = Inr wl_started"
proof -
  have f: "rn_state wl_active = ACTIVE" "rn_turns wl_active = []" "rn_policy wl_active = wl_policy"
    by (simp_all add: wl_active_def wl_created_def run_successor_def Let_def)
  show ?thesis
    by (simp add: start_turn_def f continuation_def wl_started_def new_turn_def wl_policy_def)
qed

lemma wl_started_fields:
  "rn_state wl_started = ACTIVE" "rn_turns wl_started = [new_turn wl_active]" "rn_policy wl_started = wl_policy"
  "rn_tenant wl_started = ''t''" "rn_principal wl_started = ''p''" "rn_run_id wl_started = ''r''" "rn_contour_head wl_started = ''k''"
  "rn_origin wl_started = wl_origin"
  by (simp_all add: wl_started_def wl_active_def wl_created_def run_successor_def Let_def)

lemma wl_accumulated_step: "accumulate wl_codec wl_started wl_members = Inr wl_accumulated"
proof -
  have "current_turn wl_started = Inr (new_turn wl_active)"
    by (simp add: current_turn_eq wl_started_fields)
  moreover have "rfold accumulate_member wl_members [] = Inr wl_members"
    using accumulate_fresh [of "[]" wl_members] by (simp add: wl_members_def wl_member_def)
  ultimately show ?thesis
    by (simp add: accumulate_def wl_accumulated_def new_turn_def Let_def)
qed

lemma with_turn_identity:
  "rn_policy (with_turn d run turn event) = rn_policy run" "rn_tenant (with_turn d run turn event) = rn_tenant run"
  "rn_principal (with_turn d run turn event) = rn_principal run" "rn_run_id (with_turn d run turn event) = rn_run_id run"
  "rn_contour_head (with_turn d run turn event) = rn_contour_head run" "rn_origin (with_turn d run turn event) = rn_origin run"
  "rn_predecessor (with_turn d run turn event) = Some (rn_head run)"
  using with_turn_fields(8) [of d run turn event] by (simp_all add: linked_def same_identity_def)

lemma wl_accumulated_fields:
  "rn_state wl_accumulated = ACTIVE" "rn_turns wl_accumulated = [wl_turn]" "rn_policy wl_accumulated = wl_policy"
  "rn_tenant wl_accumulated = ''t''" "rn_principal wl_accumulated = ''p''" "rn_run_id wl_accumulated = ''r''"
  "rn_contour_head wl_accumulated = ''k''" "rn_origin wl_accumulated = wl_origin"
  "rn_predecessor wl_accumulated = Some (rn_head wl_started)"
  by (simp_all add: wl_accumulated_def wl_turn_def wl_started_fields with_turn_identity)

lemma wl_turn_fields:
  "tn_state wl_turn = PREPARING" "tn_attempts wl_turn = []" "tn_accumulator wl_turn = wl_members" "tn_selector wl_turn = 0"
  "tn_sealed_calls wl_turn = None"
  by (simp_all add: wl_turn_def wl_accumulated_def headed_turn_def new_turn_def Let_def)

lemma wl_label_join:
  assumes "set ls = {wl_label}"
  shows "join_labels ls = Inr wl_label"
proof (rule join_labels_eqI)
  show "ls \<noteq> []"
    using assms by auto
  show canonical: "canonical_label wl_label"
    by (simp add: wl_label_def canonical_label_def sorted_set_def)
  show "\<forall>x \<in> set ls. canonical_label x"
    by (simp add: assms canonical)
qed (simp add: assms)

lemma wl_closure: "require_closure wl_codec wl_accumulated (wl_manifest g) = Inr ()"
proof -
  have "context_label wl_accumulated = Inr wl_label"
    unfolding context_label_def
    by (rule wl_label_join) (simp add: wl_accumulated_fields wl_policy_def wl_origin_def wl_label_def)
  moreover have "dump_artifact wl_codec (wl_artifact g) = JStr ''a''"
    by (simp add: wl_codec_def wl_artifact_def)
  ultimately show ?thesis
    by (simp add: require_closure_def wl_manifest_def wl_members_def wl_member_def wl_accumulated_fields)
      (simp add: wl_artifact_def)
qed

lemma wl_request_length: "length (encode (dumps_ascii (request_json wl_codec (wl_manifest g)))) \<le> 200"
proof -
  have "dumps_ascii (request_json wl_codec (wl_manifest g)) =
      ''{'' @ quote_ascii ''manifest'' @ '':'' @ quote_ascii (json_digest (dump_manifest wl_codec (wl_manifest g))) @ '','' @
      quote_ascii ''prompt'' @ '':'' @ quote_ascii ''go'' @ '','' @ quote_ascii ''schema'' @ '':'' @ quote_ascii ''null'' @ ''}''"
    by (simp add: dumps_ascii_def request_json_def wl_manifest_def wl_artifact_def)
  moreover have "length (quote_ascii ''manifest'') = 10" "length (quote_ascii ''prompt'') = 8" "length (quote_ascii ''go'') = 4"
      "length (quote_ascii ''schema'') = 8" "length (quote_ascii ''null'') = 6"
    by code_simp+
  ultimately show ?thesis
    by (simp add: encode_def length_quoted_digest)
qed

lemma wl_prepared_step: "prepare_attempt wl_codec wl_accumulated (wl_manifest g) = Inr (wl_prepared g)"
proof -
  have "current_turn wl_accumulated = Inr wl_turn"
    by (simp add: current_turn_eq wl_accumulated_fields)
  moreover have "manifest_exact wl_accumulated wl_turn (wl_manifest g)"
    by (simp add: manifest_exact_def wl_manifest_def wl_accumulated_fields wl_turn_fields)
  moreover have "join_labels (map vm_label wl_members) = Inr wl_label"
    by (rule wl_label_join) (simp add: wl_members_def wl_member_def)
  moreover have "live_authorized wl_accumulated wl_label"
    by (simp add: live_authorized_def wl_accumulated_fields wl_policy_def)
  moreover have "wl_members \<noteq> []"
    by (simp add: wl_members_def)
  moreover have "mf_joined_label (wl_manifest g) = wl_label"
    by (simp add: wl_manifest_def)
  moreover have "bp_max_request_bytes wl_policy = 200"
    by (simp add: wl_policy_def)
  ultimately show ?thesis
    using wl_closure wl_request_length [of g]
    by (simp add: prepare_attempt_def wl_turn_fields wl_accumulated_fields wl_prepared_def)
qed

definition wl_emitted :: "string \<Rightarrow> RunRecord" where
  "wl_emitted g = with_turn wl_codec (wl_prepared g) (set_selected (last (rn_turns (wl_prepared g)))
     (headed_attempt wl_codec ''ModelAttemptEmitted''
       ((initial_attempt wl_codec wl_accumulated wl_turn (wl_manifest g))\<lparr>ma_state := EMITTED_OUTCOME_UNKNOWN\<rparr>)))
     ''ModelAttemptEmitted''"

lemma wl_prepared_attempt:
  "current_attempt (wl_prepared g) PREPARED_NOT_EMITTED = Inr (initial_attempt wl_codec wl_accumulated wl_turn (wl_manifest g))"
  by (simp add: current_attempt_eq wl_prepared_def wl_accumulated_fields selected_def headed_turn_def wl_turn_fields
      initial_attempt_def Let_def)

lemma wl_emitted_step: "emit_attempt wl_codec (wl_prepared g) = Inr (wl_emitted g)"
proof -
  have "rn_state (wl_prepared g) = ACTIVE" "rn_turns (wl_prepared g) \<noteq> []"
    using wl_prepared_attempt [of g] by (simp_all add: current_attempt_eq)
  then show ?thesis
    by (simp add: emit_attempt_def wl_prepared_attempt with_attempt_eq wl_emitted_def)
qed

definition wl_sent :: "string \<Rightarrow> ModelAttempt" where
  "wl_sent g = headed_attempt wl_codec ''ModelAttemptEmitted''
     ((initial_attempt wl_codec wl_accumulated wl_turn (wl_manifest g))\<lparr>ma_state := EMITTED_OUTCOME_UNKNOWN\<rparr>)"

lemma wl_emitted_attempt: "current_attempt (wl_emitted g) EMITTED_OUTCOME_UNKNOWN = Inr (wl_sent g)"
  using wl_prepared_attempt [of g]
  by (auto simp: current_attempt_eq wl_emitted_def wl_sent_def selected_def headed_turn_def set_selected_def headed_attempt_def)

definition wl_captured :: "string \<Rightarrow> RunRecord" where
  "wl_captured g = with_turn wl_codec (wl_emitted g) ((settle_turn wl_codec (wl_emitted g)
     ((wl_sent g)\<lparr>ma_state := RESPONSE_CAPTURED, ma_response := Some wl_raw, ma_receipt := Some ''ok''\<rparr>)
     ''ModelResponseCaptured'')\<lparr>tn_state := RESPONSE_AVAILABLE\<rparr>) ''ModelResponseCaptured''"

lemma wl_policy_kept: "rn_policy (wl_emitted g) = wl_policy" "rn_origin (wl_emitted g) = wl_origin"
  by (simp_all add: wl_emitted_def wl_prepared_def with_turn_identity wl_accumulated_fields)

lemma wl_captured_step: "capture wl_codec (wl_emitted g) wl_raw ''ok'' = Inr (wl_captured g)"
  by (simp add: capture_eq [OF wl_emitted_attempt] wl_policy_kept wl_captured_def) (simp add: wl_policy_def wl_raw_def canonical_json_def dumps_def encode_def)

definition wl_lineage :: "string \<Rightarrow> RunRecord list" where
  "wl_lineage g = [wl_created, wl_active, wl_started, wl_accumulated, wl_prepared g, wl_emitted g, wl_captured g]"

lemma wl_events:
  "map rn_event (wl_lineage g) = [''RunCreated'', ''RunActive'', ''TurnStarted'', ''TurnVisibilityAccumulated'',
     ''ModelAttemptPrepared'', ''ModelAttemptEmitted'', ''ModelResponseCaptured'']"
  by (simp add: wl_lineage_def wl_created_def wl_active_def wl_started_def wl_accumulated_def wl_prepared_def
      wl_emitted_def wl_captured_def run_successor_def Let_def)

lemma wl_lineage: "loop_lineage wl_codec (wl_lineage g)"
proof -
  note next_step = lineage_extend [OF _ wl_codec_ok, where obs = None]
  note events = wl_events [of g, unfolded wl_lineage_def]
  have "loop_lineage wl_codec ([wl_created] @ [wl_active])"
    by (rule next_step [OF wl_genesis]) (use events in \<open>auto intro: owner_step.intros wl_active_step\<close>)
  from next_step [OF this refl, of wl_started] have "loop_lineage wl_codec ([wl_created, wl_active] @ [wl_started])"
    using events by (auto intro: owner_step.intros wl_started_step)
  from next_step [OF this refl, of wl_accumulated]
  have "loop_lineage wl_codec ([wl_created, wl_active, wl_started] @ [wl_accumulated])"
    using events by (auto intro: owner_step.intros wl_accumulated_step)
  from next_step [OF this refl, of "wl_prepared g"]
  have "loop_lineage wl_codec ([wl_created, wl_active, wl_started, wl_accumulated] @ [wl_prepared g])"
    using events by (auto intro: owner_step.intros wl_prepared_step)
  from next_step [OF this refl, of "wl_emitted g"]
  have "loop_lineage wl_codec ([wl_created, wl_active, wl_started, wl_accumulated, wl_prepared g] @ [wl_emitted g])"
    using events by (auto intro: owner_step.intros wl_emitted_step)
  from next_step [OF this refl, of "wl_captured g"] show ?thesis
    using events by (auto simp: wl_lineage_def intro: owner_step.intros wl_captured_step)
qed

end
