(* ===== verification/Loop_Properties.thy ===== *)
theory Loop_Properties
  imports Loop_Sample
begin

text \<open>
  The properties of the agent loop: budgets, single exposure, immutable ancestry, exactness of validation,
  and the disclosure and content of completions and delivery proposals.
\<close>

section \<open>Budgets\<close>

definition wl_v1 :: string where
  "wl_v1 = ''chiplog.turn-schema.v1''"

lemma wl_captured_in: "wl_captured g \<in> set (wl_lineage g)"
  by (simp add: wl_lineage_def)

lemma wl_captured_policy: "rn_policy (wl_captured g) = wl_policy"
  by (simp add: wl_captured_def with_turn_identity wl_policy_kept)

lemma run_ok_turn:
  assumes "run_ok d r" and "turn \<in> set (rn_turns r)"
  shows "turn_ok d r turn"
  using assms by (auto simp: run_ok_def turns_ok_def in_set_conv_nth)

lemma turn_ok_attempt:
  assumes "turn_ok d r turn" and "a \<in> set (tn_attempts turn)"
  obtains i where "attempt_ok d r turn i a"
  using assms by (auto simp: turn_ok_def in_set_conv_nth)

definition wl_reply :: "string \<Rightarrow> ModelAttempt" where
  "wl_reply g = last (tn_attempts (last (rn_turns (wl_captured g))))"

lemma wl_captured_attempt:
  "current_attempt (wl_captured g) RESPONSE_CAPTURED = Inr (wl_reply g)"
  "ma_response (wl_reply g) = Some wl_raw" "mf_artifact (ma_manifest (wl_reply g)) = wl_artifact g"
  "mf_joined_label (ma_manifest (wl_reply g)) = wl_label"
proof -
  let ?x = "(wl_sent g)\<lparr>ma_state := RESPONSE_CAPTURED, ma_response := Some wl_raw, ma_receipt := Some ''ok''\<rparr>"
  have "current_attempt (wl_captured g) RESPONSE_CAPTURED = Inr (headed_attempt wl_codec ''ModelResponseCaptured'' ?x)"
    unfolding wl_captured_def
    by (rule settled_attempt [OF wl_emitted_attempt, where upd = "\<lambda>t. t\<lparr>tn_state := RESPONSE_AVAILABLE\<rparr>"]) simp_all
  moreover have "wl_reply g = headed_attempt wl_codec ''ModelResponseCaptured'' ?x"
    using calculation by (simp add: current_attempt_eq selected_def wl_reply_def)
  ultimately show "current_attempt (wl_captured g) RESPONSE_CAPTURED = Inr (wl_reply g)"
    "ma_response (wl_reply g) = Some wl_raw" "mf_artifact (ma_manifest (wl_reply g)) = wl_artifact g"
    "mf_joined_label (ma_manifest (wl_reply g)) = wl_label"
    by (simp_all add: headed_attempt_def wl_sent_def wl_manifest_def)
qed

lemma wl_reply_in:
  "last (rn_turns (wl_captured g)) \<in> set (rn_turns (wl_captured g))"
  "wl_reply g \<in> set (tn_attempts (last (rn_turns (wl_captured g))))"
  using wl_captured_attempt(1) [of g] by (simp_all add: current_attempt_eq selected_def)

text \<open>
  C29: In every validated lineage the Run keeps the budgets of its policy: it opens at most \<open>max_turns\<close> Turns
  under \<open>MAX_TURNS\<close>, a Turn has at most one attempt more than the retry budget and seals at most
  \<open>max_tool_calls\<close> calls with distinct identities, and every attempt's request and response stay within the
  transport bounds, those of replaced attempts included.
\<close>

theorem loop_run_bounded:
  assumes "loop_lineage d rs" and "r \<in> set rs" and "turn \<in> set (rn_turns r)" and "a \<in> set (tn_attempts turn)"
  shows "(bp_kind (rn_policy r) = MAX_TURNS \<longrightarrow> length (rn_turns r) \<le> bp_max_turns (rn_policy r))
    \<and> (\<forall>n. bp_max_model_retries (rn_policy r) = Some n \<longrightarrow> length (tn_attempts turn) \<le> n + 1)
    \<and> (\<forall>calls. tn_sealed_calls turn = Some calls \<longrightarrow>
         length calls \<le> bp_max_tool_calls (rn_policy r) \<and> distinct (map (tl_call_id \<circ> to_call) calls))
    \<and> length (encode (dumps_ascii (ma_request a))) \<le> bp_max_request_bytes (rn_policy r)
    \<and> (\<forall>raw. ma_response a = Some raw \<longrightarrow> length raw \<le> bp_max_response_bytes (rn_policy r))"
proof -
  have ok: "run_ok d r"
    using lineage_ok [OF assms(1)] assms(2) by blast
  have turn: "turn_ok d r turn"
    by (rule run_ok_turn [OF ok assms(3)])
  then obtain i where "attempt_ok d r turn i a"
    using assms(4) by (rule turn_ok_attempt)
  then have "length (encode (dumps_ascii (ma_request a))) \<le> bp_max_request_bytes (rn_policy r)"
      "\<forall>raw. ma_response a = Some raw \<longrightarrow> length raw \<le> bp_max_response_bytes (rn_policy r)"
    unfolding attempt_ok_def by blast+
  moreover have "bp_kind (rn_policy r) = MAX_TURNS \<longrightarrow> length (rn_turns r) \<le> bp_max_turns (rn_policy r)"
    using ok by (simp add: run_ok_def)
  moreover have "\<forall>n. bp_max_model_retries (rn_policy r) = Some n \<longrightarrow> length (tn_attempts turn) \<le> n + 1"
    using turn by (auto simp: turn_ok_def)
  moreover have "\<forall>calls. tn_sealed_calls turn = Some calls \<longrightarrow>
         length calls \<le> bp_max_tool_calls (rn_policy r) \<and> distinct (map (tl_call_id \<circ> to_call) calls)"
    using turn by (simp add: turn_ok_def)
  ultimately show ?thesis by blast
qed

theorem loop_run_bounded_witness:
  "length (rn_turns (wl_captured wl_v1)) \<le> 1 \<and> length (tn_attempts (last (rn_turns (wl_captured wl_v1)))) \<le> 1
   \<and> length (encode (dumps_ascii (ma_request (wl_reply wl_v1)))) \<le> 200 \<and> length wl_raw \<le> 4"
  using loop_run_bounded [OF wl_lineage wl_captured_in wl_reply_in, of wl_v1]
  by (simp add: wl_captured_policy wl_captured_attempt(2)) (simp add: wl_policy_def)

section \<open>Exposure to the model\<close>

text \<open>
  C30: In every validated lineage each Turn emits its request at most once: two \<open>ModelAttemptEmitted\<close> records
  belong to different Turns, and a Turn never has two attempts that have left \<open>PREPARED_NOT_EMITTED\<close>, however
  its attempts were replaced.
\<close>

theorem loop_single_exposure:
  assumes "loop_lineage d rs" and "r \<in> set rs" and "turn \<in> set (rn_turns r)"
  shows "distinct (emissions rs)
    \<and> length (filter (\<lambda>a. ma_state a \<noteq> PREPARED_NOT_EMITTED) (tn_attempts turn)) \<le> 1"
proof -
  have "turn_ok d r turn"
    using lineage_ok [OF assms(1)] assms(2) by (intro run_ok_turn [OF _ assms(3)]) blast
  then have "filter (\<lambda>a. ma_state a \<noteq> PREPARED_NOT_EMITTED) (butlast (tn_attempts turn)) = []"
    by (simp add: turn_ok_def filter_empty_conv)
  then have "length (filter (\<lambda>a. ma_state a \<noteq> PREPARED_NOT_EMITTED) (tn_attempts turn)) \<le> 1"
    by (cases "tn_attempts turn" rule: rev_cases) auto
  then show ?thesis
    using lineage_emissions [OF assms(1)] by blast
qed

lemma wl_emissions: "emissions (wl_lineage g) = [0]"
  by (simp add: emissions_def wl_lineage_def wl_created_def wl_active_def wl_started_def wl_accumulated_def
      wl_prepared_def wl_emitted_def wl_captured_def)

theorem loop_single_exposure_witness:
  "distinct (emissions (wl_lineage wl_v1)) \<and> emissions (wl_lineage wl_v1) = [0]
   \<and> length (filter (\<lambda>a. ma_state a \<noteq> PREPARED_NOT_EMITTED) (tn_attempts (last (rn_turns (wl_captured wl_v1))))) \<le> 1"
  using loop_single_exposure [OF wl_lineage wl_captured_in wl_reply_in(1), of wl_v1] by (simp add: wl_emissions)

section \<open>Immutable ancestry\<close>

text \<open>
  C31: The records of a lineage form a chain of content-derived heads. Between any two of them the identity,
  policy, origin and bindings of the Run are unchanged and every Turn but the last of the earlier one is kept
  as it was; no record follows one that is \<open>SUCCEEDED\<close>, \<open>ABORTED\<close>, \<open>CANCELLED\<close> or \<open>SUPERSEDED\<close>, and a suspended Run
  only goes to \<open>ABORTED\<close> or \<open>CANCELLED\<close>.
\<close>

theorem loop_lineage_immutable:
  assumes "loop_lineage d rs" and "i < j" and "j < length rs"
  shows "same_identity (rs ! i) (rs ! j) \<and> settled_prefix (rs ! i) (rs ! j)
    \<and> rn_predecessor (rs ! Suc i) = Some (rn_head (rs ! i)) \<and> rn_head (rs ! Suc i) = run_head_of d (rs ! Suc i)
    \<and> rn_state (rs ! i) \<in> {CREATED, ACTIVE, SUSPENDED}
    \<and> (rn_state (rs ! i) = SUSPENDED \<longrightarrow> rn_state (rs ! Suc i) \<in> {ABORTED, CANCELLED})"
proof -
  have "same_identity (rs ! i) (rs ! j)"
    by (rule lineage_induct_pairs [OF assms(1) less_imp_le [OF assms(2)] assms(3)])
      (auto intro: same_identity_trans dest!: run_step_linked simp: linked_def)
  moreover have "settled_prefix (rs ! i) (rs ! j)"
    by (rule lineage_induct_pairs [OF assms(1) less_imp_le [OF assms(2)] assms(3)])
      (auto intro: settled_prefix_refl settled_prefix_step)
  moreover have step: "run_step d (rs ! i) (rs ! Suc i)"
    by (rule lineage_steps [OF assms(1)]) (use assms(2,3) in simp)
  ultimately show ?thesis
    using run_step_linked [OF step] run_step_state [OF step] by (auto simp: linked_def)
qed

theorem loop_lineage_immutable_witness:
  "settled_prefix (wl_started) (wl_captured wl_v1) \<and> same_identity wl_started (wl_captured wl_v1)
   \<and> rn_predecessor wl_accumulated = Some (rn_head wl_started)"
  using loop_lineage_immutable [OF wl_lineage, of 2 6 wl_v1] by (simp add: wl_lineage_def numeral_eq_Suc)

section \<open>Validation\<close>

text \<open>
  C32: On the last record of any validated lineage, \<open>validate_record\<close> admits a record exactly when some owner
  operation of the loop produces it, with one exception that it refuses: the replacement of a prepared
  attempt whose worker session is not the Run's or whose provider contract is not the default one. Validation rebuilds the
  operation's arguments from the two records, and the no-exposure proof of a replacement it rebuilds from the
  Run instead of the attempt.
\<close>

theorem loop_validate_exact:
  assumes "loop_codec_ok d" and "loop_lineage d rs"
  shows "validate_record d (Some (last rs)) r obs = Inr () \<longleftrightarrow>
     owner_step d obs (last rs) r
     \<and> (\<forall>np. replace_unemitted d (last rs) np = Inr r \<longrightarrow>
          nx_worker_session np = rn_worker_session (last rs) \<and> nx_provider_contract np = ''hermetic-model.v1'')"
proof -
  have "run_ok d (last rs)"
    using lineage_ok [OF assms(2)] lineage_nonempty [OF assms(2)] by simp
  then show ?thesis
    using validate_admitted [OF assms(1)] by (simp add: admitted_step_def)
qed

lemma wl_rejected: "owner_step wl_codec None (wl_captured g) (with_turn wl_codec (wl_captured g)
    ((settle_turn wl_codec (wl_captured g) ((wl_reply g)\<lparr>ma_state := TERMINAL_REJECTED, ma_rejection := Some ''no''\<rparr>)
      ''ModelResponseRejected'')\<lparr>tn_state := REJECTED, tn_sealed_calls := Some []\<rparr>) ''ModelResponseRejected'')"
  by (rule owner_step.intros(8) [OF reject_response_eq [OF wl_captured_attempt(1)]])

theorem loop_validate_exact_witness:
  "\<exists>r. validate_record wl_codec (Some (wl_captured wl_v1)) r None = Inr () \<and> rn_event r = ''ModelResponseRejected''"
proof -
  let ?r = "with_turn wl_codec (wl_captured wl_v1) ((settle_turn wl_codec (wl_captured wl_v1)
      ((wl_reply wl_v1)\<lparr>ma_state := TERMINAL_REJECTED, ma_rejection := Some ''no''\<rparr>) ''ModelResponseRejected'')
      \<lparr>tn_state := REJECTED, tn_sealed_calls := Some []\<rparr>) ''ModelResponseRejected''"
  have "last (wl_lineage wl_v1) = wl_captured wl_v1" "rn_event ?r = ''ModelResponseRejected''"
    by (simp_all add: wl_lineage_def)
  then show ?thesis
    using loop_validate_exact [OF wl_codec_ok wl_lineage, of wl_v1 ?r None] wl_rejected [of wl_v1]
      replace_unemitted_proof(1) [of wl_codec "wl_captured wl_v1" _ ?r]
    by (intro exI [of _ ?r]) fastforce
qed

section \<open>Completion\<close>

text \<open>
  C33: A completed Run made exactly one delivery, to its origin: its text is the rendering of a planning receipt
  the Run observed or unasserted commentary, and every member ever shown to the model in any Turn carries a
  label that admits the origin's endpoint. The comparison of the historical join with the label of the
  current manifest never refuses a completion: the two are equal on every lineage.
\<close>

theorem loop_completion_disclosed:
  assumes "loop_lineage d rs" and "complete d (last rs) response = Inr r" and "response \<noteq> []"
  shows "\<exists>a delivery shown. current_attempt (last rs) RESPONSE_CAPTURED = Inr a
    \<and> join_labels (historical_labels (last rs)) = Inr (mf_joined_label (ma_manifest a))
    \<and> response = [delivery] \<and> render_delivery (last rs) delivery = Inr shown
    \<and> rn_deliveries r = [accepted_delivery d (last rs) a delivery shown] \<and> rn_accepted_text r = [shown]
    \<and> (\<forall>l \<in> shown_labels (last rs). admits l (en_endpoint_id (rn_origin (last rs))))"
proof -
  let ?run = "last rs"
  from assms(2,3) obtain a delivery shown label where a: "current_attempt ?run RESPONSE_CAPTURED = Inr a"
      and parts: "response = [delivery]" "render_delivery ?run delivery = Inr shown"
        "rn_deliveries r = [accepted_delivery d ?run a delivery shown]" "rn_accepted_text r = [shown]"
      and label: "join_labels (historical_labels ?run) = Inr label" "admits label (en_endpoint_id (rn_origin ?run))"
    by (rule complete_Inr)
  obtain ts t where ts: "rn_turns ?run = ts @ [t]" and at: "a \<in> set (tn_attempts t)"
    using a by (cases "rn_turns ?run" rule: rev_cases) (auto simp: current_attempt_eq selected_def)
  have ok: "run_ok d ?run"
    using lineage_ok [OF assms(1)] lineage_nonempty [OF assms(1)] by simp
  have "join_labels (historical_labels ?run) = Inr (mf_joined_label (ma_manifest a))"
    by (rule historical_join [OF ok ts at])
  moreover have "\<forall>l \<in> shown_labels ?run. admits l (en_endpoint_id (rn_origin ?run))"
    using join_labels_ok(4) [OF label(1)] label(2) by (simp add: set_historical_labels)
  ultimately show ?thesis
    using a parts by blast
qed

lemma wl_captured_turns:
  "rn_turns (wl_captured g) = [last (rn_turns (wl_captured g))]" "rn_state (wl_captured g) = ACTIVE"
  "rn_origin (wl_captured g) = wl_origin" "last (wl_lineage g) = wl_captured g"
  by (simp_all add: wl_captured_def wl_emitted_def wl_prepared_def wl_accumulated_fields wl_policy_kept wl_lineage_def
      with_turn_identity)

lemma wl_historical: "join_labels (historical_labels (wl_captured g)) = Inr wl_label"
proof -
  have "run_ok wl_codec (wl_captured g)"
    using lineage_ok [OF wl_lineage] wl_captured_in by blast
  moreover have "rn_turns (wl_captured g) = [] @ [last (rn_turns (wl_captured g))]"
    using wl_captured_turns(1) by simp
  ultimately show ?thesis
    using historical_join [OF _ _ wl_reply_in(2)] wl_captured_attempt(4) by metis
qed

lemma wl_origin_fields: "en_endpoint_id wl_origin = ''cli''"
  by (simp add: wl_origin_def)

lemma wl_completes: "\<exists>r. complete wl_codec (wl_captured wl_v1) [wl_delivery] = Inr r"
proof -
  have "parse_captured_response wl_codec wl_raw (wl_artifact wl_v1) = Inr (Complete [wl_delivery])"
    by (simp add: parse_captured_response_def parse_response_def wl_artifact_def wl_v1_def wl_codec_def response_adapter_def
        TOOLS_def dumps_ascii_def loop_require_def validated_def)
  then have "require_captured wl_codec (wl_reply wl_v1) (Complete [wl_delivery]) reason = Inr ()" for reason
    by (simp add: require_captured_def wl_captured_attempt loop_require_def)
  moreover have "accept_delivery wl_codec (wl_captured wl_v1) (wl_reply wl_v1) wl_delivery ([], {}) =
      Inr ([accepted_delivery wl_codec (wl_captured wl_v1) (wl_reply wl_v1) wl_delivery ''hi''], {origin_target (wl_captured wl_v1)})"
    by (simp add: accept_delivery_def wl_historical wl_captured_attempt(4) accepted_delivery_def origin_target_def
        wl_captured_turns(3) nat_str_0 Let_def)
      (simp add: wl_delivery_def wl_label_def wl_origin_fields render_delivery_def wl_captured_turns(3))
  moreover have "rn_turns (wl_captured wl_v1) \<noteq> []" "butlast (rn_turns (wl_captured wl_v1)) = []"
    by (subst wl_captured_turns(1); simp)+
  ultimately show ?thesis
    by (simp add: complete_def wl_captured_attempt(1) continuation_def with_attempt_settles [OF wl_captured_attempt(1)]
        with_attempt_eq wl_captured_turns(2) current_turn_with_turn)
qed

theorem loop_completion_disclosed_witness:
  "\<exists>r. complete wl_codec (wl_captured wl_v1) [wl_delivery] = Inr r \<and> rn_accepted_text r = [''hi'']
    \<and> join_labels (historical_labels (wl_captured wl_v1)) = Inr wl_label"
proof -
  obtain r where r: "complete wl_codec (wl_captured wl_v1) [wl_delivery] = Inr r"
    using wl_completes by blast
  then show ?thesis
    using loop_completion_disclosed [OF wl_lineage, of wl_v1 "[wl_delivery]" r] wl_captured_attempt [of wl_v1]
    by (auto simp: wl_captured_turns render_delivery_def wl_delivery_def)
qed

section \<open>Delivery proposals\<close>

definition supported :: "DeliveryObservation \<Rightarrow> AssertionPayload \<Rightarrow> CurrentQuery \<Rightarrow> bool" where
  "supported snapshot assertion query \<longleftrightarrow>
     query \<in> set (do_queries snapshot) \<and> qb_query (query_base query) = ap_query assertion
     \<and> qb_tenant (query_base query) = do_tenant snapshot
     \<and> qb_source_frontier (query_base query) = do_source_frontier snapshot
     \<and> qb_subject (query_base query) = ap_subject assertion \<and> qb_records (query_base query) = ap_records assertion
     \<and> (\<exists>code shown. entailed assertion query = Inr (code, shown) \<and> ap_codes assertion = [code])"

lemma rendering_supported:
  assumes "rendering snapshot delivery raw" and "Assertion assertion \<in> set (pd_payload delivery)"
  shows "\<exists>query. supported snapshot assertion query"
proof -
  from assms obtain part where "render_payload snapshot (Assertion assertion) = Inr part"
    by (auto simp: rendering_def list_all2_conv_all_nth in_set_conv_nth)
  then have "render_assertion assertion snapshot = Inr part"
    by (simp add: render_payload_def)
  then show ?thesis
    by (rule render_assertion_Inr) (auto simp: supported_def)
qed

definition wl_gen :: string where
  "wl_gen = DELIVERY_GENERATOR"

definition wl_envelope :: "ModelAttempt \<Rightarrow> VisibilityMember \<Rightarrow> HistoricalEnvelope" where
  "wl_envelope a m =
     \<lparr>he_content = \<lparr>dh_identity = vm_record_id m, dh_head = vm_revision_head m, dh_fingerprint = json_digest (dump_member wl_codec m)\<rparr>,
      he_visibility = \<lparr>dh_identity = ma_attempt_id a, dh_head = json_digest (dump_manifest wl_codec (ma_manifest a)),
        dh_fingerprint = json_digest (dump_manifest wl_codec (ma_manifest a))\<rparr>,
      he_provenance = \<lparr>dh_identity = ''p'', dh_head = vm_provenance_head m, dh_fingerprint = ''f''\<rparr>,
      he_disclosure = \<lparr>dh_identity = ''d'', dh_head = vm_label_head m, dh_fingerprint = ''f''\<rparr>,
      he_label = vm_label m, he_narrowing = []\<rparr>"

definition wl_observation :: DeliveryObservation where
  "wl_observation =
     \<lparr>do_tenant = ''t'', do_run = \<lparr>dh_identity = ''r'', dh_head = rn_head (wl_captured wl_gen),
        dh_fingerprint = json_digest (dump_run wl_codec (wl_captured wl_gen))\<rparr>,
      do_turn_id = ''r/turn/1'', do_captured_response = wl_raw, do_source_frontier = 0,
      do_origin = OriginSelection (wl_head ''i'') wl_recipient, do_recipients = [wl_recipient],
      do_history = map (wl_envelope (wl_reply wl_gen)) wl_members, do_queries = [], do_policy = wl_head ''q'',
      do_worker_fence = wl_head ''w''\<rparr>"

lemma wl_prepares: "\<exists>p. prepare_completion wl_codec wl_completion wl_observation = Inr p"
proof -
  have "dump_response wl_codec (CompleteDelivery wl_completion) = JNull"
    by (simp add: wl_codec_def)
  then show ?thesis
    by (simp add: prepare_completion_def wl_observation_def wl_completion_def wl_raw_def loop_require_def wl_members_def
        wl_member_def wl_envelope_def prepare_delivery_def check_envelope_def label_permits_def wl_label_def
        wl_recipient_def wl_head_def append_rendered_def render_payload_def Let_def)
qed

text \<open>
  C35: An accepted delivery proposal has one entry per proposed delivery, in order and numbered: its endpoint is
  the chosen one or the authenticated origin, registered exactly once, admitted by every historical label and
  addressed by no other entry; its bytes are the joined renderings of the payloads. Every assertion rests on a
  current query of the same tenant and frontier that entails exactly the code it carries.
\<close>

theorem delivery_proposal_exact:
  assumes "prepare_completion d completion snapshot = Inr p"
  defines "ds \<equiv> dm_ordered_deliveries (dp_manifest p)"
  shows "length ds = length (dc_deliveries completion)
    \<and> distinct (map (recipient_key \<circ> sel_recipient \<circ> md_selection) ds)
    \<and> dp_history_rendered_bytes p = map md_rendered_bytes ds
    \<and> (\<forall>i < length ds.
         md_delivery_id (ds ! i) = dh_identity (dp_acceptance p) @ ''/delivery/'' @ nat_str i
         \<and> md_selection (ds ! i) = chosen_endpoint snapshot (dc_deliveries completion ! i)
         \<and> endpoint_ok snapshot (md_selection (ds ! i))
         \<and> rendering snapshot (dc_deliveries completion ! i) (md_rendered_bytes (ds ! i))
         \<and> md_render_digest (ds ! i) = sha256_hex (md_rendered_bytes (ds ! i)))
    \<and> (\<forall>delivery \<in> set (dc_deliveries completion). \<forall>assertion.
         Assertion assertion \<in> set (pd_payload delivery) \<longrightarrow> (\<exists>query. supported snapshot assertion query))"
proof -
  from assms(1) obtain prepared where
      all: "list_all2 (\<lambda>delivery entry. fst entry = chosen_endpoint snapshot delivery
          \<and> endpoint_ok snapshot (fst entry) \<and> rendering snapshot delivery (snd entry)) (dc_deliveries completion) prepared"
      and dist: "distinct (map entry_key prepared)" and acc: "dp_acceptance p = acceptance_head d completion snapshot"
      and hist: "dp_history_rendered_bytes p = map snd prepared"
      and ds: "ds = map (manifest_delivery d (acceptance_head d completion snapshot) snapshot) (zip [0..<length prepared] prepared)"
    unfolding ds_def by (rule prepare_completion_Inr)
  have len: "length ds = length (dc_deliveries completion)"
    using list_all2_lengthD [OF all] by (simp add: ds)
  have entry: "md_selection (ds ! i) = fst (prepared ! i) \<and> md_rendered_bytes (ds ! i) = snd (prepared ! i)
      \<and> md_delivery_id (ds ! i) = dh_identity (dp_acceptance p) @ ''/delivery/'' @ nat_str i
      \<and> md_render_digest (ds ! i) = sha256_hex (md_rendered_bytes (ds ! i))" if "i < length ds" for i
    using that by (cases "prepared ! i") (simp add: ds acc)
  have sel: "map md_selection ds = map fst prepared" and raw: "map md_rendered_bytes ds = map snd prepared"
    using entry by (auto intro!: nth_equalityI simp: ds)
  have "map (recipient_key \<circ> sel_recipient \<circ> md_selection) ds = map (recipient_key \<circ> sel_recipient) (map md_selection ds)"
    by simp
  also have "\<dots> = map entry_key prepared"
    unfolding sel by (simp add: entry_key_def)
  finally have "distinct (map (recipient_key \<circ> sel_recipient \<circ> md_selection) ds)"
    using dist by simp
  moreover have "\<forall>i < length ds. md_selection (ds ! i) = chosen_endpoint snapshot (dc_deliveries completion ! i)
      \<and> endpoint_ok snapshot (md_selection (ds ! i))
      \<and> rendering snapshot (dc_deliveries completion ! i) (md_rendered_bytes (ds ! i))"
  proof (intro allI impI)
    fix i assume i: "i < length ds"
    show "md_selection (ds ! i) = chosen_endpoint snapshot (dc_deliveries completion ! i)
      \<and> endpoint_ok snapshot (md_selection (ds ! i))
      \<and> rendering snapshot (dc_deliveries completion ! i) (md_rendered_bytes (ds ! i))"
      using list_all2_nthD [OF all, of i] entry [OF i] i len by auto
  qed
  moreover have "\<exists>query. supported snapshot assertion query"
    if "delivery \<in> set (dc_deliveries completion)" "Assertion assertion \<in> set (pd_payload delivery)" for delivery assertion
  proof -
    from that(1) obtain i where "i < length (dc_deliveries completion)" "delivery = dc_deliveries completion ! i"
      by (auto simp: in_set_conv_nth)
    then have "rendering snapshot delivery (snd (prepared ! i))"
      using list_all2_nthD [OF all, of i] by simp
    then show ?thesis
      using that(2) by (rule rendering_supported)
  qed
  ultimately show ?thesis
    using len hist raw entry by auto
qed

theorem delivery_proposal_exact_witness:
  "\<exists>p. prepare_completion wl_codec wl_completion wl_observation = Inr p
    \<and> length (dm_ordered_deliveries (dp_manifest p)) = 1 \<and> length (dp_history_rendered_bytes p) = 1"
proof -
  obtain p where p: "prepare_completion wl_codec wl_completion wl_observation = Inr p"
    using wl_prepares by blast
  then show ?thesis
    using delivery_proposal_exact [OF p] by (auto simp: wl_completion_def)
qed

lemma manifest_delivery_selection: "md_selection (manifest_delivery d acceptance snapshot (i, entry)) = fst entry"
  by (cases entry) simp

lemma wl_reply_manifest:
  "tn_attempts (last (rn_turns (wl_captured g))) = [wl_reply g]" "mf_members (ma_manifest (wl_reply g)) = wl_members"
proof -
  show one: "tn_attempts (last (rn_turns (wl_captured g))) = [wl_reply g]"
    unfolding wl_reply_def
    by (simp add: wl_captured_def wl_emitted_def wl_prepared_def headed_turn_def settle_turn_def set_selected_def)
  show "mf_members (ma_manifest (wl_reply g)) = wl_members"
    by (simp add: wl_reply_def wl_captured_def headed_turn_def settle_turn_def set_selected_def headed_attempt_def
        wl_sent_def wl_manifest_def)
qed

lemma wl_turn_id: "tn_turn_id (last (rn_turns (wl_captured g))) = ''r/turn/1''"
proof -
  have "nat_str 1 = ''1''"
    by code_simp
  then show ?thesis
    by (simp add: wl_captured_def wl_emitted_def wl_prepared_def headed_turn_def settle_turn_def set_selected_def
        wl_turn_def wl_accumulated_def new_turn_def wl_active_def wl_created_def run_successor_def Let_def)
qed

lemma wl_captured_head:
  "rn_head (wl_captured g) = run_head_of wl_codec (wl_captured g)" "rn_tenant (wl_captured g) = ''t''"
  "rn_run_id (wl_captured g) = ''r''" "rn_accepted_delivery_binding (wl_captured g) = None"
proof -
  show "rn_head (wl_captured g) = run_head_of wl_codec (wl_captured g)"
    using with_turn_fields(8) unfolding wl_captured_def linked_def by blast
  show "rn_accepted_delivery_binding (wl_captured g) = None"
    by (simp add: wl_captured_def wl_emitted_def wl_prepared_def wl_accumulated_def wl_started_def wl_active_def wl_created_def)
qed (simp_all add: wl_captured_def wl_emitted_def wl_prepared_def with_turn_identity wl_accumulated_fields)

lemma wl_parses: "parse_delivery_response wl_codec wl_raw (wl_artifact wl_gen) = Inr (CompleteDelivery wl_completion)"
  by (simp add: parse_delivery_response_def wl_artifact_def wl_gen_def wl_codec_def delivery_response_adapter_def
      DELIVERY_TOOLS_def TOOLS_def dumps_def loop_require_def validated_def wl_raw_def)

lemma wl_history:
  "list_all2 (envelope_matches wl_codec) (expected_history (wl_captured wl_gen)) (do_history wl_observation)"
proof -
  have "expected_history (wl_captured wl_gen) = map (Pair (wl_reply wl_gen)) wl_members"
    unfolding expected_history_def by (subst wl_captured_turns(1)) (simp add: wl_reply_manifest)
  then show ?thesis
    by (simp add: wl_observation_def list_all2_map1 list_all2_map2 list_all2_same envelope_matches_def wl_envelope_def Let_def)
qed

lemma wl_delivers: "\<exists>r. complete_delivery wl_codec (wl_captured wl_gen) wl_observation = Inr r"
proof -
  obtain p where p: "prepare_completion wl_codec wl_completion wl_observation = Inr p"
    using wl_prepares by blast
  have "rn_turns (wl_captured wl_gen) \<noteq> []" "butlast (rn_turns (wl_captured wl_gen)) = []"
    by (subst wl_captured_turns(1); simp)+
  moreover have "do_run wl_observation = \<lparr>dh_identity = ''r'', dh_head = rn_head (wl_captured wl_gen),
        dh_fingerprint = json_digest (dump_run wl_codec (wl_captured wl_gen))\<rparr>" "do_tenant wl_observation = ''t''"
      "do_turn_id wl_observation = ''r/turn/1''" "do_captured_response wl_observation = wl_raw"
    by (simp_all add: wl_observation_def)
  moreover have "rn_head (wl_captured wl_gen) = run_head_of wl_codec (wl_captured wl_gen)"
    by (rule wl_captured_head(1))
  ultimately show ?thesis
    using wl_history list_all2_lengthD [OF wl_history]
    by (simp add: complete_delivery_def wl_captured_attempt continuation_def loop_require_def wl_parses wl_captured_head(2-4)
        wl_turn_id p with_attempt_eq wl_captured_turns(2) current_turn_with_turn)
qed

text \<open>
  C34: A Run completed with a delivery acceptance publishes the texts of a proposal prepared against exactly the
  members its model was shown: every endpoint the proposal addresses is admitted by the label of every one of
  them, in every Turn and every replaced attempt, and the acceptance the Run binds is the proposal's.
\<close>

theorem loop_delivery_disclosed:
  assumes "complete_delivery d run observation = Inr r"
  shows "\<exists>completion p. prepare_completion d completion observation = Inr p
    \<and> rn_accepted_text r = map decode (dp_history_rendered_bytes p)
    \<and> rn_accepted_delivery_binding r = Some (delivery_reference d p) \<and> rn_state r = SUCCEEDED
    \<and> (\<forall>delivery \<in> set (dm_ordered_deliveries (dp_manifest p)). \<forall>l \<in> shown_labels run.
         admits l (dh_identity (dr_endpoint (sel_recipient (md_selection delivery)))))"
  using assms
proof (cases rule: complete_delivery_Inr)
  case (1 a raw response p u t)
  from 1(8) obtain prepared where
      all: "list_all2 (\<lambda>delivery entry. fst entry = chosen_endpoint observation delivery
          \<and> endpoint_ok observation (fst entry) \<and> rendering observation delivery (snd entry)) (dc_deliveries response) prepared"
      and ds: "dm_ordered_deliveries (dp_manifest p) =
        map (manifest_delivery d (acceptance_head d response observation) observation) (zip [0..<length prepared] prepared)"
    by (rule prepare_completion_Inr)
  have "endpoint_ok observation (md_selection delivery)" if "delivery \<in> set (dm_ordered_deliveries (dp_manifest p))" for delivery
    using that all by (auto simp: ds list_all2_conv_all_nth set_zip manifest_delivery_selection)
  then have "\<forall>delivery \<in> set (dm_ordered_deliveries (dp_manifest p)). \<forall>l \<in> shown_labels run.
      admits l (dh_identity (dr_endpoint (sel_recipient (md_selection delivery))))"
    unfolding envelopes_cover [OF 1(7)] by (auto simp: endpoint_ok_def intro: label_permits_admits)
  moreover have "rn_accepted_text r = map decode (dp_history_rendered_bytes p)"
      "rn_accepted_delivery_binding r = Some (delivery_reference d p)" "rn_state r = SUCCEEDED"
    by (simp_all add: 1(9))
  ultimately show ?thesis
    using 1(8) by blast
qed

theorem loop_delivery_disclosed_witness:
  "\<exists>r. complete_delivery wl_codec (wl_captured wl_gen) wl_observation = Inr r \<and> rn_state r = SUCCEEDED"
proof -
  obtain r where r: "complete_delivery wl_codec (wl_captured wl_gen) wl_observation = Inr r"
    using wl_delivers by blast
  then show ?thesis
    using loop_delivery_disclosed [OF r] by blast
qed

section \<open>Replacement under another session\<close>

text \<open>\<open>validate_record\<close> rebuilds the no-exposure proof with the Run's worker session, the operation demands the
  attempt's: a replacement of an attempt prepared under another session is never admitted.\<close>

lemma replacement_other_session_refused:
  assumes "replace_unemitted d run np = Inr r" and "nx_worker_session np \<noteq> rn_worker_session run"
  shows "validate_record d (Some run) r obs \<noteq> Inr ()"
  using validate_admitted_step [of d run r obs] assms by (auto simp: admitted_step_def)

end
