(* ===== verification/Loop_Store.thy ===== *)
theory Loop_Store
  imports Loop_Lineage Store_Client
begin

text \<open>
  The durable store of the agent loop (\<open>adapters/driven/loop_sqlite.py\<close>) over the physical store. A
  publication goes through the single writer with a guard that rereads the whole log inside the
  transaction; a snapshot reads the log back and validates every record against its predecessor.
  The transition authority is a parameter: its companions may depend on the database they are computed
  over. \<open>sl_parse\<close> is \<open>RunRecord.model_validate_json\<close>; \<open>None\<close> is its \<open>ValidationError\<close>.
\<close>

section \<open>The port\<close>

record DurableCompanion =
  cm_record_id :: string
  cm_owner :: string
  cm_schema_id :: string
  cm_payload :: bytes

record LoopSnapshot =
  lo_tenant_head :: nat
  lo_records :: "RunRecord list"

datatype LoopStoreError =
    LoopIntegrityError string string
  | LoopFailed LoopError
  | LoopAppenderError StoreError
  | StopIterationRaised

record TransitionAuthority =
  tz_validate :: "RunRecord option \<Rightarrow> RunRecord \<Rightarrow> (StoreError, unit) result"
  tz_companions :: "Database \<Rightarrow> RunRecord \<Rightarrow> DurableCompanion list"
  tz_decide :: "RunRecord \<Rightarrow> LoopSnapshot \<Rightarrow> string \<Rightarrow> DurableCompanion list \<Rightarrow> Database \<Rightarrow> (StoreError, unit) result"
  tz_committed :: "RunRecord \<Rightarrow> (LoopStoreError, unit) result"

record SQLiteLoopStore =
  sl_tenant :: string
  sl_generation :: string
  sl_frontier :: int
  sl_authority :: "TransitionAuthority option"
  sl_codec :: LoopCodec
  sl_parse :: "bytes \<Rightarrow> RunRecord option"

definition LOOP_OWNER :: string where
  "LOOP_OWNER = ''agent_loop''"

definition LOOP_SCHEMA :: string where
  "LOOP_SCHEMA = ''chiplog.agent-loop.record.v1''"

abbreviation run_bytes :: "SQLiteLoopStore \<Rightarrow> RunRecord \<Rightarrow> bytes" where
  "run_bytes s record \<equiv> canonical_json (dump_run (sl_codec s) record)"

section \<open>Reading\<close>

definition loop_rows :: "SQLiteLoopStore \<Rightarrow> Database \<Rightarrow> RecordRow list" where
  "loop_rows s db = owner_rows LOOP_OWNER (sl_tenant s) db"

definition loop_publications :: "SQLiteLoopStore \<Rightarrow> Database \<Rightarrow> PublicationRow list" where
  "loop_publications s db = kind_publications ''agent_loop'' (sl_tenant s) db"

definition loop_bindings :: "PublicationRow list \<Rightarrow> (string \<times> string \<times> nat \<times> string) list" where
  "loop_bindings ps =
     fold (\<lambda>p. AList.update (hd (split_lines (pb_record_ids p)))
             (pb_request_fingerprint p, pb_commit_sequence p, pb_idempotency_key p)) ps []"

text \<open>The rows a publication must have besides the record itself.\<close>

definition companions_of :: "SQLiteLoopStore \<Rightarrow> Database \<Rightarrow> RunRecord \<Rightarrow> DurableCompanion list" where
  "companions_of s db record =
     (case sl_authority s of None \<Rightarrow> [] | Some authority \<Rightarrow> tz_companions authority db record)"

definition expected_ids :: "SQLiteLoopStore \<Rightarrow> Database \<Rightarrow> RunRecord \<Rightarrow> string list" where
  "expected_ids s db record =
     rn_head record # map cm_record_id (companions_of s db record)
       @ (if sl_authority s = None \<and> rn_event record = ''CompleteAcceptance''
            then [rn_run_id record @ ''/accepted''] else [])"

definition companion_present :: "SQLiteLoopStore \<Rightarrow> Database \<Rightarrow> nat \<Rightarrow> DurableCompanion \<Rightarrow> bool" where
  "companion_present s db sequence c =
     (case find (\<lambda>row. rr_tenant_id row = sl_tenant s \<and> rr_record_id row = cm_record_id c) (db_records db) of
        None \<Rightarrow> False
      | Some row \<Rightarrow> (rr_owner row, rr_schema_id row, rr_canonical_bytes row, rr_commit_sequence row)
          = (cm_owner c, cm_schema_id c, cm_payload c, sequence))"

text \<open>\<open>except (ValueError, TypeError, sqlite3.Error)\<close>: an \<open>IndexError\<close> escapes.\<close>

definition integrity :: "SQLiteLoopStore \<Rightarrow> string \<Rightarrow> (LoopStoreError, 'a) result" where
  "integrity s record_id = Inl (LoopIntegrityError (sl_tenant s) record_id)"

definition integrity_checked ::
  "SQLiteLoopStore \<Rightarrow> string \<Rightarrow> (LoopError, unit) result \<Rightarrow> (LoopStoreError, unit) result" where
  "integrity_checked s record_id outcome =
     (case outcome of
        Inr u \<Rightarrow> Inr u
      | Inl IndexFailed \<Rightarrow> Inl (LoopFailed IndexFailed)
      | Inl _ \<Rightarrow> integrity s record_id)"

definition loop_read_row ::
  "SQLiteLoopStore \<Rightarrow> Database \<Rightarrow> (string \<times> string \<times> nat \<times> string) list \<Rightarrow> PublicationRow list \<Rightarrow> RecordRow \<Rightarrow>
   (string \<times> RunRecord) list \<times> RunRecord list \<Rightarrow>
   (LoopStoreError, (string \<times> RunRecord) list \<times> RunRecord list) result" where
  "loop_read_row s db bindings publications row = (\<lambda>(heads, records).
     case sl_parse s (rr_canonical_bytes row) of
       None \<Rightarrow> integrity s (rr_record_id row)
     | Some record \<Rightarrow>
         if rn_tenant record \<noteq> sl_tenant s \<or> rn_head record \<noteq> rr_record_id row \<or> rr_schema_id row \<noteq> LOOP_SCHEMA
            \<or> rr_canonical_bytes row \<noteq> run_bytes s record
            \<or> map_of bindings (rr_record_id row)
                \<noteq> Some (sha256_hex (rr_canonical_bytes row), rr_commit_sequence row, rr_record_id row)
           then integrity s (rr_record_id row)
         else rbind (integrity_checked s (rr_record_id row)
                (validate_record (sl_codec s) (map_of heads (rn_run_id record)) record None)) (\<lambda>_.
           case find (\<lambda>p. pb_idempotency_key p = rn_head record) publications of
             None \<Rightarrow> Inl StopIterationRaised
           | Some p \<Rightarrow>
               if list_all (companion_present s db (rr_commit_sequence row)) (companions_of s db record)
                  \<and> split_lines (pb_record_ids p) = expected_ids s db record
                 then Inr (AList.update (rn_run_id record) record heads, records @ [record])
               else integrity s (rr_record_id row)))"

definition loop_snapshot :: "SQLiteLoopStore \<Rightarrow> Database \<Rightarrow> (LoopStoreError, LoopSnapshot) result" where
  "loop_snapshot s db =
     (if map_of (db_fences db) (sl_tenant s) \<noteq> Some (sl_generation s, sl_frontier s)
        then integrity s ''<enumeration>''
      else
        let rows = sort_key rr_commit_sequence (loop_rows s db);
            publications = loop_publications s db;
            bindings = loop_bindings publications
        in if length bindings \<noteq> length rows \<or> set (map fst bindings) \<noteq> set (map rr_record_id rows)
             then integrity s ''<enumeration>''
           else rbind (rfold (loop_read_row s db bindings publications) rows ([], [])) (\<lambda>(heads, records).
             Inr \<lparr>lo_tenant_head = current_head (sl_tenant s) db, lo_records = records\<rparr>))"

section \<open>Publishing\<close>

text \<open>An exception of the guard, as the writer passes it on.\<close>

fun raised :: "LoopStoreError \<Rightarrow> StoreError" where
  "raised (LoopIntegrityError tenant record_id) =
     CallbackError (''operation=snapshot tenant='' @ tenant @ '' record_id='' @ record_id)"
| "raised (LoopFailed (LoopRejected reason)) = CallbackError reason"
| "raised (LoopFailed ResponseInvalid) = CallbackError ''ValidationError''"
| "raised (LoopFailed IndexFailed) = CallbackError ''IndexError''"
| "raised (LoopAppenderError e) = e"
| "raised StopIterationRaised = CallbackError ''StopIteration''"

definition in_guard :: "(LoopStoreError, 'a) result \<Rightarrow> (StoreError, 'a) result" where
  "in_guard outcome = (case outcome of Inl e \<Rightarrow> Inl (raised e) | Inr x \<Rightarrow> Inr x)"

definition loop_result :: "(LoopError, 'a) result \<Rightarrow> (LoopStoreError, 'a) result" where
  "loop_result outcome = (case outcome of Inl e \<Rightarrow> Inl (LoopFailed e) | Inr x \<Rightarrow> Inr x)"

text \<open>\<open>prior[-1] if prior else None\<close>.\<close>

definition last_of :: "string \<Rightarrow> RunRecord list \<Rightarrow> RunRecord option" where
  "last_of run_id records =
     (let prior = filter (\<lambda>r. rn_run_id r = run_id) records in if prior = [] then None else Some (last prior))"

definition loop_guard ::
  "SQLiteLoopStore \<Rightarrow> RunRecord \<Rightarrow> LoopSnapshot \<Rightarrow> (LoopSnapshot \<Rightarrow> (LoopError, unit) result) \<Rightarrow> Database \<Rightarrow>
   (StoreError, GuardVerdict option) result" where
  "loop_guard s record expected validate db =
     rbind (in_guard (loop_snapshot s db)) (\<lambda>current.
     if current \<noteq> expected then Inr (Some G_STALE)
     else
       let prior = last_of (rn_run_id record) (lo_records current)
       in rbind (in_guard (loop_result (validate_record (sl_codec s) prior record None))) (\<lambda>_.
          rbind (case sl_authority s of None \<Rightarrow> Inr () | Some authority \<Rightarrow> tz_validate authority prior record) (\<lambda>_.
          rbind (in_guard (loop_result (validate current))) (\<lambda>_. Inr None))))"

definition companion_record :: "DurableCompanion \<Rightarrow> PhysicalRecord" where
  "companion_record c =
     \<lparr>ph_record_id = cm_record_id c, ph_owner = cm_owner c, ph_schema_id = cm_schema_id c,
      ph_canonical_bytes = cm_payload c, ph_fingerprint = sha256_hex (cm_payload c)\<rparr>"

definition loop_physical ::
  "SQLiteLoopStore \<Rightarrow> RunRecord \<Rightarrow> LoopSnapshot \<Rightarrow> (LoopSnapshot \<Rightarrow> (LoopError, unit) result) \<Rightarrow>
   DurableCompanion list \<Rightarrow> PhysicalPublicationCommand" where
  "loop_physical s record expected validate companions =
     (let payload = run_bytes s record in
      \<lparr>pc_tenant_id = sl_tenant s, pc_operation_kind = ''agent_loop'', pc_idempotency_key = rn_head record,
       pc_request_fingerprint = sha256_hex payload, pc_expected_head = lo_tenant_head expected,
       pc_fence_generation = sl_generation s, pc_expected_fence_frontier = sl_frontier s,
       pc_minimum_fence_frontier = sl_frontier s,
       pc_records = \<lparr>ph_record_id = rn_head record, ph_owner = LOOP_OWNER, ph_schema_id = LOOP_SCHEMA,
                     ph_canonical_bytes = payload, ph_fingerprint = sha256_hex payload\<rparr>
                    # map companion_record companions,
       pc_expected_preimage_commitment = None, pc_fault = NO_FAULT,
       pc_admission_guard = Some (loop_guard s record expected validate),
       pc_decision_guard = (case sl_authority s of
           None \<Rightarrow> None
         | Some authority \<Rightarrow> Some (\<lambda>commitment db.
             rbind (tz_decide authority record expected commitment companions db) (\<lambda>_. Inr None))),
       pc_authority_checkpoint_guard = None\<rparr>)"

fun disposition_text :: "Disposition \<Rightarrow> string" where
  "disposition_text D_COMMITTED = ''COMMITTED''"
| "disposition_text D_REPLAY = ''REPLAY''"
| "disposition_text D_CONFLICT = ''CONFLICT''"
| "disposition_text D_STALE = ''STALE''"
| "disposition_text D_DENIED = ''DENIED''"
| "disposition_text D_INDETERMINATE = ''INDETERMINATE''"

text \<open>
  \<open>publish\<close>: the companions are computed over the database of the call, the command runs when the writer
  reaches it.
\<close>

definition loop_publish ::
  "SQLiteLoopStore \<Rightarrow> Materializer \<Rightarrow> nat
     \<Rightarrow> (PhysicalPublicationCommand \<Rightarrow> string \<Rightarrow> (StoreError, unit) result) option
     \<Rightarrow> RunRecord \<Rightarrow> LoopSnapshot \<Rightarrow> (LoopSnapshot \<Rightarrow> (LoopError, unit) result) \<Rightarrow> Database \<Rightarrow> Database
     \<Rightarrow> (LoopStoreError, unit) result \<times> Database" where
  "loop_publish s m token observer record expected validate db0 db =
     (if rn_tenant record \<noteq> sl_tenant s
        then (Inl (LoopFailed (LoopRejected ''foreign tenant publication'')), db)
      else case publish m token
          (observed_command observer (loop_physical s record expected validate (companions_of s db0 record))) None db of
        (Inl e, db') \<Rightarrow> (Inl (LoopAppenderError e), db')
      | (Inr v, db') \<Rightarrow>
          (if pu_disposition v \<notin> {D_COMMITTED, D_REPLAY}
             then Inl (LoopFailed (LoopRejected (''publication '' @ disposition_text (pu_disposition v))))
           else (case sl_authority s of None \<Rightarrow> Inr () | Some authority \<Rightarrow> tz_committed authority record), db'))"

end
