(* ===== verification/Loop_Store_History.thy ===== *)
theory Loop_Store_History
  imports Loop_Store
begin

text \<open>
  What the durable store of the agent loop keeps: the log of published Run records, one publication for
  each, every record validated against the last record of its Run. Under the adapter's fence the log can
  always be read back, provided the companions of a record can.
\<close>

section \<open>Validated logs\<close>

definition log_valid :: "LoopCodec \<Rightarrow> RunRecord list \<Rightarrow> bool" where
  "log_valid d rs \<longleftrightarrow>
     (\<forall>i < length rs. validate_record d (last_of (rn_run_id (rs ! i)) (take i rs)) (rs ! i) None = Inr ())"

lemma log_valid_Nil [simp]: "log_valid d []"
  by (simp add: log_valid_def)

lemma log_valid_snoc [simp]:
  "log_valid d (rs @ [r]) \<longleftrightarrow> log_valid d rs \<and> validate_record d (last_of (rn_run_id r) rs) r None = Inr ()"
  by (auto simp: log_valid_def nth_append less_Suc_eq)

lemma last_of_Nil [simp]: "last_of k [] = None"
  by (simp add: last_of_def)

lemma last_of_snoc [simp]: "last_of k (rs @ [r]) = (if rn_run_id r = k then Some r else last_of k rs)"
  by (simp add: last_of_def Let_def)

lemma log_valid_at:
  "log_valid d (rs @ r # rest) \<Longrightarrow> validate_record d (last_of (rn_run_id r) rs) r None = Inr ()"
  by (auto simp: log_valid_def dest: spec [of _ "length rs"])

lemma log_valid_head:
  assumes "log_valid d rs" and "r \<in> set rs"
  shows "rn_head r = run_head_of d r"
proof -
  obtain i where "i < length rs" and "r = rs ! i"
    using assms(2) by (metis in_set_conv_nth)
  with assms(1) have "validate_record d (last_of (rn_run_id r) (take i rs)) r None = Inr ()"
    by (auto simp: log_valid_def)
  then show ?thesis
    by (auto simp: validate_record_def split: if_splits)
qed

text \<open>The records of one Run in a validated log are a lineage.\<close>

lemma log_valid_lineage:
  assumes "log_valid d rs" and "filter (\<lambda>r. rn_run_id r = k) rs \<noteq> []"
  shows "loop_lineage d (filter (\<lambda>r. rn_run_id r = k) rs)"
  using assms
proof (induction rs rule: rev_induct)
  case (snoc r rs)
  let ?run = "filter (\<lambda>r. rn_run_id r = k) rs"
  show ?case
  proof (cases "rn_run_id r = k")
    case True
    have valid: "validate_record d (last_of k rs) r None = Inr ()"
      using snoc.prems(1) True by simp
    show ?thesis
    proof (cases "?run = []")
      case empty: True
      with valid True have "validate_record d None r None = Inr ()"
        by (simp add: last_of_def)
      then show ?thesis
        using empty True by (simp add: loop_lineage.genesis)
    next
      case False
      then have "loop_lineage d ?run"
        using snoc by simp
      moreover have "validate_record d (Some (last ?run)) r None = Inr ()"
        using valid False by (simp add: last_of_def)
      ultimately show ?thesis
        using True by (simp add: loop_lineage.extend)
    qed
  qed (use snoc in simp)
qed simp

section \<open>The invariant of the tables\<close>

definition companion_row :: "SQLiteLoopStore \<Rightarrow> nat \<Rightarrow> DurableCompanion \<Rightarrow> RecordRow" where
  "companion_row s sequence c = record_row (sl_tenant s) sequence (companion_record c)"

definition loop_bound :: "SQLiteLoopStore \<Rightarrow> Database \<Rightarrow> RecordRow \<Rightarrow> PublicationRow \<Rightarrow> bool" where
  "loop_bound s db row p \<longleftrightarrow>
     (\<exists>r db0. sl_parse s (rr_canonical_bytes row) = Some r \<and> rr_canonical_bytes row = run_bytes s r
        \<and> rn_tenant r = sl_tenant s \<and> rn_head r = rr_record_id row \<and> rr_schema_id row = LOOP_SCHEMA
        \<and> pb_record_ids p = join_lines (rn_head r # map cm_record_id (companions_of s db0 r))
        \<and> pb_idempotency_key p = rn_head r \<and> pb_request_fingerprint p = sha256_hex (rr_canonical_bytes row)
        \<and> pb_commit_sequence p = rr_commit_sequence row
        \<and> (\<forall>c \<in> set (companions_of s db0 r). companion_row s (rr_commit_sequence row) c \<in> set (db_records db)))"

definition row_run :: "SQLiteLoopStore \<Rightarrow> RecordRow \<Rightarrow> RunRecord" where
  "row_run s row = the (sl_parse s (rr_canonical_bytes row))"

definition loop_log :: "SQLiteLoopStore \<Rightarrow> Database \<Rightarrow> RunRecord list" where
  "loop_log s db = map (row_run s) (loop_rows s db)"

definition loop_store_ok :: "SQLiteLoopStore \<Rightarrow> Database \<Rightarrow> bool" where
  "loop_store_ok s db \<longleftrightarrow>
     ledger_ok db \<and> list_all2 (loop_bound s db) (loop_rows s db) (loop_publications s db)
     \<and> sorted_wrt (<) (map rr_commit_sequence (loop_rows s db)) \<and> log_valid (sl_codec s) (loop_log s db)"

text \<open>The authority's companions are records of other owners.\<close>

definition companions_foreign :: "SQLiteLoopStore \<Rightarrow> bool" where
  "companions_foreign s \<longleftrightarrow> (\<forall>db r. \<forall>c \<in> set (companions_of s db r). cm_owner c \<noteq> LOOP_OWNER)"

text \<open>
  What reading back needs of the authority over a database: it is mounted, the companions of a logged record,
  once stored, are computed the same again, and none of their identities has a line break.
\<close>

definition companions_stable :: "SQLiteLoopStore \<Rightarrow> Database \<Rightarrow> bool" where
  "companions_stable s db \<longleftrightarrow> sl_authority s \<noteq> None
     \<and> (\<forall>r \<in> set (loop_log s db). \<forall>db0 n.
          (\<forall>c \<in> set (companions_of s db0 r). companion_row s n c \<in> set (db_records db))
          \<longrightarrow> companions_of s db r = companions_of s db0 r)"

definition companions_plain :: "SQLiteLoopStore \<Rightarrow> Database \<Rightarrow> bool" where
  "companions_plain s db \<longleftrightarrow>
     (\<forall>r \<in> set (loop_log s db). \<forall>c \<in> set (companions_of s db r). newline \<notin> set (cm_record_id c))"

section \<open>A snapshot shows the log\<close>

lemma read_row_run:
  "loop_read_row s db bindings ps row (heads, records) = Inr (heads', records') \<Longrightarrow>
     records' = records @ [row_run s row]"
  by (auto simp: loop_read_row_def row_run_def integrity_def rbind_eq_Inr split: option.splits if_splits)

lemma read_rows_runs:
  "rfold (loop_read_row s db bindings ps) rows (heads, records) = Inr (heads', records') \<Longrightarrow>
     records' = records @ map (row_run s) rows"
proof (induction rows arbitrary: heads records)
  case (Cons row rows)
  then obtain h1 r1 where one: "loop_read_row s db bindings ps row (heads, records) = Inr (h1, r1)"
    and rest: "rfold (loop_read_row s db bindings ps) rows (h1, r1) = Inr (heads', records')"
    by (auto simp: rbind_eq_Inr)
  show ?case
    using Cons.IH [OF rest] read_row_run [OF one] by simp
qed simp

lemma loop_snapshot_sound:
  assumes "loop_store_ok s db" and "loop_snapshot s db = Inr x"
  shows "x = \<lparr>lo_tenant_head = current_head (sl_tenant s) db, lo_records = loop_log s db\<rparr>"
    and "map_of (db_fences db) (sl_tenant s) = Some (sl_generation s, sl_frontier s)"
proof -
  have "sort_key rr_commit_sequence (loop_rows s db) = loop_rows s db"
    using assms(1) by (intro sorted_rows) (simp add: loop_store_ok_def)
  with assms(2) obtain heads records where read:
    "rfold (loop_read_row s db (loop_bindings (loop_publications s db)) (loop_publications s db)) (loop_rows s db) ([], [])
       = Inr (heads, records)"
    and "x = \<lparr>lo_tenant_head = current_head (sl_tenant s) db, lo_records = records\<rparr>"
    "map_of (db_fences db) (sl_tenant s) = Some (sl_generation s, sl_frontier s)"
    by (auto simp: loop_snapshot_def integrity_def Let_def rbind_eq_Inr split: if_splits)
  then show "x = \<lparr>lo_tenant_head = current_head (sl_tenant s) db, lo_records = loop_log s db\<rparr>"
    "map_of (db_fences db) (sl_tenant s) = Some (sl_generation s, sl_frontier s)"
    using read_rows_runs [OF read(1)] by (simp_all add: loop_log_def)
qed

text \<open>No line of a split text has a line break, so a companion identity with one is never read back.\<close>

lemma split_lines_plain: "x \<in> set (split_lines t) \<Longrightarrow> newline \<notin> set x"
proof -
  have "x \<in> set (split_lines_from acc t) \<Longrightarrow> newline \<notin> set acc \<Longrightarrow> newline \<notin> set x" for acc
    by (induction acc t rule: split_lines_from.induct) (auto split: if_splits)
  then show "x \<in> set (split_lines t) \<Longrightarrow> newline \<notin> set x"
    by (simp add: split_lines_def)
qed

lemma rfold_each:
  assumes "rfold f xs s = Inr t" and "x \<in> set xs"
  obtains a b where "f x a = Inr b"
proof -
  have "\<exists>a b. f x a = Inr b"
    using assms by (induction xs arbitrary: s) (auto simp: rbind_eq_Inr)
  then show thesis
    using that by blast
qed

lemma snapshot_companions_plain:
  assumes "loop_snapshot s db = Inr x" and "r \<in> set (loop_log s db)" and "c \<in> set (companions_of s db r)"
  shows "newline \<notin> set (cm_record_id c)"
proof -
  obtain row where row: "row \<in> set (loop_rows s db)" "r = row_run s row"
    using assms(2) by (auto simp: loop_log_def)
  from assms(1) obtain bindings acc where
    "rfold (loop_read_row s db bindings (loop_publications s db)) (sort_key rr_commit_sequence (loop_rows s db)) ([], [])
       = Inr acc"
    by (auto simp: loop_snapshot_def integrity_def Let_def rbind_eq_Inr split: if_splits)
  then obtain a b where "loop_read_row s db bindings (loop_publications s db) row a = Inr b"
    using row(1) by (auto elim: rfold_each)
  then have "\<exists>p :: PublicationRow. split_lines (pb_record_ids p) = expected_ids s db r"
    by (auto simp: loop_read_row_def row(2) row_run_def integrity_def rbind_eq_Inr split: option.splits if_splits prod.splits)
  moreover have "cm_record_id c \<in> set (expected_ids s db r)"
    using assms(3) by (simp add: expected_ids_def)
  ultimately show ?thesis
    using split_lines_plain by metis
qed

section \<open>The log can be read\<close>

lemma find_unique:
  assumes "x \<in> set xs" and "distinct (map f xs)" and "\<And>y. P y \<longleftrightarrow> f y = f x"
  shows "find P xs = Some x"
  using assms(1,2)
proof (induction xs)
  case (Cons y ys)
  show ?case
  proof (cases "y = x")
    case False
    then have "f y \<noteq> f x"
      using Cons.prems by (auto simp: image_iff)
    then show ?thesis
      using Cons False assms(3) by auto
  qed (use assms(3) in simp)
qed simp

lemma stored_companion_present:
  assumes "ledger_ok db" and "companion_row s n c \<in> set (db_records db)"
  shows "companion_present s db n c"
proof -
  have "find (\<lambda>row. rr_tenant_id row = sl_tenant s \<and> rr_record_id row = cm_record_id c) (db_records db)
      = Some (companion_row s n c)"
    using assms by (intro find_unique [where f = record_key])
      (auto simp: ledger_ok_def record_key_def companion_row_def record_row_def companion_record_def)
  then show ?thesis
    by (simp add: companion_present_def companion_row_def record_row_def companion_record_def)
qed

lemma newline_not_hex: "newline \<notin> set (sha256_hex x)"
proof -
  have "\<forall>n \<in> set [0..<16]. hex_digit n \<noteq> newline"
    by code_simp
  then have "n < 16 \<Longrightarrow> hex_digit n \<noteq> newline" for n
    by simp
  moreover have "unat b div 16 < 16" for b :: "8 word"
  proof -
    have "unat b < 256"
      using unsigned_less [of b] by simp
    then show ?thesis
      by (simp add: less_mult_imp_div_less)
  qed
  ultimately show ?thesis
    by (auto simp: sha256_hex_def bytes_hex_def) (metis mod_less_divisor zero_less_numeral)+
qed

lemma newline_not_head: "newline \<notin> set (run_head_of d r)"
  using newline_not_hex by (auto simp: run_head_of_def json_digest_def newline_def)

lemma loop_ids_distinct:
  assumes "ledger_ok db"
  shows "distinct (map pb_idempotency_key (loop_publications s db))"
proof -
  have "distinct (map publication_key (loop_publications s db))"
    using assms by (simp add: ledger_ok_def loop_publications_def kind_publications_def distinct_map_filter)
  moreover have "map publication_key (loop_publications s db)
      = map (\<lambda>k. (sl_tenant s, ''agent_loop'', k)) (map pb_idempotency_key (loop_publications s db))"
    by (simp add: publication_key_def loop_publications_def kind_publications_def)
  ultimately show ?thesis
    by (simp only: distinct_map)
qed

text \<open>What a bound row gives the reader, once its companions are computed over the current database.\<close>

lemma loop_bound_read:
  assumes bound: "loop_bound s db row p" and stable: "companions_stable s db" and plain: "companions_plain s db"
    and row: "row \<in> set (loop_rows s db)" and head: "newline \<notin> set (rr_record_id row)"
  obtains r where "sl_parse s (rr_canonical_bytes row) = Some r" and "rr_canonical_bytes row = run_bytes s r"
    and "rn_tenant r = sl_tenant s" and "rn_head r = rr_record_id row" and "rr_schema_id row = LOOP_SCHEMA"
    and "split_lines (pb_record_ids p) = expected_ids s db r" and "pb_idempotency_key p = rr_record_id row"
    and "pb_request_fingerprint p = sha256_hex (rr_canonical_bytes row)"
    and "pb_commit_sequence p = rr_commit_sequence row"
    and "\<forall>c \<in> set (companions_of s db r). companion_row s (rr_commit_sequence row) c \<in> set (db_records db)"
proof -
  from bound obtain r db0 where r: "sl_parse s (rr_canonical_bytes row) = Some r"
    "rr_canonical_bytes row = run_bytes s r" "rn_tenant r = sl_tenant s" "rn_head r = rr_record_id row"
    "rr_schema_id row = LOOP_SCHEMA"
    and ids: "pb_record_ids p = join_lines (rn_head r # map cm_record_id (companions_of s db0 r))"
    and p: "pb_idempotency_key p = rr_record_id row" "pb_request_fingerprint p = sha256_hex (rr_canonical_bytes row)"
      "pb_commit_sequence p = rr_commit_sequence row"
    and stored: "\<forall>c \<in> set (companions_of s db0 r). companion_row s (rr_commit_sequence row) c \<in> set (db_records db)"
    unfolding loop_bound_def by force
  have logged: "r \<in> set (loop_log s db)"
    using row r(1) by (force simp: loop_log_def row_run_def)
  then have same: "companions_of s db r = companions_of s db0 r"
    using stable stored unfolding companions_stable_def by blast
  then have "\<forall>c \<in> set (companions_of s db0 r). newline \<notin> set (cm_record_id c)"
    using plain logged unfolding companions_plain_def by metis
  then have "split_lines (pb_record_ids p) = rn_head r # map cm_record_id (companions_of s db0 r)"
    unfolding ids using head r(4) by (intro split_join_lines) auto
  moreover have "sl_authority s \<noteq> None"
    using stable unfolding companions_stable_def by blast
  ultimately have "split_lines (pb_record_ids p) = expected_ids s db r"
    by (simp add: expected_ids_def same)
  from that [OF r this p] stored same show thesis by simp
qed

lemma loop_bindings_of:
  assumes "list_all2 (loop_bound s db) rows ps" and "companions_stable s db" and "companions_plain s db"
    and "\<forall>row \<in> set rows. row \<in> set (loop_rows s db) \<and> newline \<notin> set (rr_record_id row)"
    and "distinct (map rr_record_id rows)"
  shows "loop_bindings ps = map (\<lambda>row. (rr_record_id row, sha256_hex (rr_canonical_bytes row),
     rr_commit_sequence row, rr_record_id row)) rows"
proof -
  define k where "k p = hd (split_lines (pb_record_ids p))" for p :: PublicationRow
  define v where "v p = (pb_request_fingerprint p, pb_commit_sequence p, pb_idempotency_key p)" for p :: PublicationRow
  have each: "(k p, v p) = (rr_record_id row, sha256_hex (rr_canonical_bytes row), rr_commit_sequence row, rr_record_id row)"
    if "loop_bound s db row p" "row \<in> set (loop_rows s db)" "newline \<notin> set (rr_record_id row)" for row p
    using that(1) assms(2,3) that(2,3) by (rule loop_bound_read) (simp add: k_def v_def expected_ids_def)
  have all: "map (\<lambda>p. (k p, v p)) ps = map (\<lambda>row. (rr_record_id row, sha256_hex (rr_canonical_bytes row),
     rr_commit_sequence row, rr_record_id row)) rows"
    using assms(1,4) by (induction rule: list_all2_induct) (simp_all add: each)
  have "map k ps = map rr_record_id rows"
    using arg_cong [OF all, of "map fst"] by (simp add: comp_def)
  with assms(5) have "loop_bindings ps = map (\<lambda>p. (k p, v p)) ps"
    using fold_update_fresh [of "[]" k ps v] by (simp add: loop_bindings_def k_def [symmetric] v_def [symmetric])
  with all show ?thesis by simp
qed

lemma loop_read_row_bound:
  assumes bound: "loop_bound s db row p" and stable: "companions_stable s db" and plain: "companions_plain s db"
    and row: "row \<in> set (loop_rows s db)" and head: "newline \<notin> set (rr_record_id row)"
    and bindings: "map_of bindings (rr_record_id row)
      = Some (sha256_hex (rr_canonical_bytes row), rr_commit_sequence row, rr_record_id row)"
    and ledger: "ledger_ok db" and p: "p \<in> set (loop_publications s db)"
    and valid: "validate_record (sl_codec s) (map_of heads (rn_run_id (row_run s row))) (row_run s row) None = Inr ()"
  shows "loop_read_row s db bindings (loop_publications s db) row (heads, records)
     = Inr (AList.update (rn_run_id (row_run s row)) (row_run s row) heads, records @ [row_run s row])"
  using bound stable plain row head
proof (rule loop_bound_read)
  fix r
  assume r: "sl_parse s (rr_canonical_bytes row) = Some r" "rr_canonical_bytes row = run_bytes s r"
    "rn_tenant r = sl_tenant s" "rn_head r = rr_record_id row" "rr_schema_id row = LOOP_SCHEMA"
    "split_lines (pb_record_ids p) = expected_ids s db r" "pb_idempotency_key p = rr_record_id row"
    "\<forall>c \<in> set (companions_of s db r). companion_row s (rr_commit_sequence row) c \<in> set (db_records db)"
  have run: "row_run s row = r"
    using r(1) by (simp add: row_run_def)
  have "find (\<lambda>p. pb_idempotency_key p = rr_record_id row) (loop_publications s db) = Some p"
    using p loop_ids_distinct [OF ledger] r(7) by (intro find_unique [where f = pb_idempotency_key]) auto
  moreover have "list_all (companion_present s db (rr_commit_sequence row)) (companions_of s db r)"
    using r(8) stored_companion_present [OF ledger] by (simp add: list_all_iff)
  ultimately show ?thesis
    using r(1-6) bindings valid by (simp add: loop_read_row_def run integrity_checked_def)
qed

lemma loop_read_rows:
  assumes "\<And>row. row \<in> set rows \<Longrightarrow> \<exists>p \<in> set (loop_publications s db). loop_bound s db row p
        \<and> row \<in> set (loop_rows s db) \<and> newline \<notin> set (rr_record_id row) \<and> map_of bindings (rr_record_id row)
          = Some (sha256_hex (rr_canonical_bytes row), rr_commit_sequence row, rr_record_id row)"
    and "companions_stable s db" and "companions_plain s db" and "ledger_ok db"
    and "log_valid (sl_codec s) (map (row_run s) rows)"
  shows "\<exists>heads. rfold (loop_read_row s db bindings (loop_publications s db)) rows ([], [])
        = Inr (heads, map (row_run s) rows)
     \<and> (\<forall>k. map_of heads k = last_of k (map (row_run s) rows))"
  using assms(1,5)
proof (induction rows rule: rev_induct)
  case (snoc row rows)
  then obtain heads where
    heads: "rfold (loop_read_row s db bindings (loop_publications s db)) rows ([], []) = Inr (heads, map (row_run s) rows)"
      "\<And>k. map_of heads k = last_of k (map (row_run s) rows)"
    by auto
  obtain p where p: "p \<in> set (loop_publications s db)" "loop_bound s db row p" "row \<in> set (loop_rows s db)"
    "newline \<notin> set (rr_record_id row)" "map_of bindings (rr_record_id row)
       = Some (sha256_hex (rr_canonical_bytes row), rr_commit_sequence row, rr_record_id row)"
    using snoc.prems(1) [of row] by auto
  have "validate_record (sl_codec s) (map_of heads (rn_run_id (row_run s row))) (row_run s row) None = Inr ()"
    using snoc.prems(2) heads(2) by simp
  note loop_read_row_bound [OF p(2) assms(2,3) p(3-5) assms(4) p(1) this]
  then show ?case
    using heads by (simp add: rfold_append update_conv')
qed simp

text \<open>Under the adapter's fence the snapshot of a good store exists and shows the whole log.\<close>

lemma loop_snapshot_complete:
  assumes ok: "loop_store_ok s db" and stable: "companions_stable s db" and companions: "companions_plain s db"
    and fence: "map_of (db_fences db) (sl_tenant s) = Some (sl_generation s, sl_frontier s)"
  shows "loop_snapshot s db = Inr \<lparr>lo_tenant_head = current_head (sl_tenant s) db, lo_records = loop_log s db\<rparr>"
proof -
  let ?rows = "loop_rows s db" and ?ps = "loop_publications s db"
  have ledger: "ledger_ok db" and all: "list_all2 (loop_bound s db) ?rows ?ps"
    and valid: "log_valid (sl_codec s) (map (row_run s) ?rows)"
    using ok by (simp_all add: loop_store_ok_def loop_log_def)
  have sorted: "sort_key rr_commit_sequence ?rows = ?rows"
    using ok by (intro sorted_rows) (simp add: loop_store_ok_def)
  have partner: "\<exists>p \<in> set ?ps. loop_bound s db row p" if "row \<in> set ?rows" for row
    using all that by (metis in_set_conv_nth list_all2_conv_all_nth)
  have plain: "newline \<notin> set (rr_record_id row)" if "row \<in> set ?rows" for row
  proof -
    have "rn_head (row_run s row) = run_head_of (sl_codec s) (row_run s row)"
      using that by (intro log_valid_head [OF valid]) simp
    moreover have "rn_head (row_run s row) = rr_record_id row"
      using partner [OF that] by (auto simp: loop_bound_def row_run_def)
    ultimately show ?thesis
      using newline_not_head [of "sl_codec s" "row_run s row"] by simp
  qed
  have distinct: "distinct (map rr_record_id ?rows)"
    unfolding loop_rows_def by (rule owner_ids_distinct [OF ledger])
  note bindings = loop_bindings_of [OF all stable companions _ distinct]
  have lookup: "map_of (loop_bindings ?ps) (rr_record_id row)
      = Some (sha256_hex (rr_canonical_bytes row), rr_commit_sequence row, rr_record_id row)"
    if "row \<in> set ?rows" for row
    using that plain distinct by (intro map_of_is_SomeI) (auto simp: bindings comp_def)
  obtain heads where "rfold (loop_read_row s db (loop_bindings ?ps) ?ps) ?rows ([], []) = Inr (heads, map (row_run s) ?rows)"
    using loop_read_rows [OF _ stable companions ledger valid, of "loop_bindings ?ps"] partner plain lookup by blast
  moreover have "set (map fst (loop_bindings ?ps)) = set (map rr_record_id ?rows)"
    "length (loop_bindings ?ps) = length ?rows"
    using plain by (auto simp: bindings comp_def)
  ultimately show ?thesis
    unfolding loop_snapshot_def sorted Let_def using fence by (simp add: loop_log_def)
qed

text \<open>So it exists exactly when no companion identity of the log has a line break.\<close>

lemma loop_snapshot_exists:
  assumes "loop_store_ok s db" and "companions_stable s db"
    and "map_of (db_fences db) (sl_tenant s) = Some (sl_generation s, sl_frontier s)"
  shows "loop_snapshot s db = Inr x \<longleftrightarrow>
     companions_plain s db \<and> x = \<lparr>lo_tenant_head = current_head (sl_tenant s) db, lo_records = loop_log s db\<rparr>"
proof
  assume "loop_snapshot s db = Inr x"
  then show "companions_plain s db \<and> x = \<lparr>lo_tenant_head = current_head (sl_tenant s) db, lo_records = loop_log s db\<rparr>"
    using snapshot_companions_plain loop_snapshot_sound(1) [OF assms(1)] by (auto simp: companions_plain_def)
qed (use loop_snapshot_complete [OF assms(1,2) _ assms(3)] in simp)

end
