(* ===== verification/Loop_Application.thy ===== *)
theory Loop_Application
  imports Loop_Store
begin

text \<open>
  The application of the agent loop (\<open>capabilities/agent_loop/application.py\<close>). A coroutine is a tree: each
  node is a call that leaves the application (the worker session, the store, the workspace, the prompt
  library, the model, the planning port) and continues with the answer. Between two calls the code runs
  without suspension, so a tree has exactly the points at which other work can interleave. An exception of
  a port is caught nowhere and ends the coroutine there. The lane lock of an instance only forbids
  interleavings; it is not part of the tree.
\<close>

section \<open>Coroutines\<close>

record ProposalDisplay =
  pj_display_id :: string
  pj_proposal_id :: string
  pj_revision :: nat
  pj_run_id :: string
  pj_tenant :: string
  pj_principal :: string
  pj_adoption_act_id :: string
  pj_canonical_command :: string
  pj_display_text :: string
  pj_display_digest :: string
  pj_original_binding :: bytes

record RunView =
  rv_run_id :: string
  rv_state :: RunState
  rv_head :: string
  rv_turn_ordinal :: nat
  rv_turn_head :: "string option"

text \<open>
  The validation callback of a publication runs inside the writer's transaction; it reads the worker
  session that is current then, its first argument.
\<close>

type_synonym writer_check = "string \<Rightarrow> LoopSnapshot \<Rightarrow> (LoopError, unit) result"

datatype 'a task =
    Return 'a
  | Raise LoopStoreError
  | CurrentWorker "string \<Rightarrow> 'a task"
  | ReadLog "LoopSnapshot \<Rightarrow> 'a task"
  | PublishRun RunRecord LoopSnapshot writer_check "'a task"
  | Ingest string string "'a task"
  | ReadContext RunRecord "VisibilityMember \<Rightarrow> 'a task"
  | Render string "PromptArtifact \<Rightarrow> 'a task"
  | Invoke ModelAttempt "bytes \<times> string \<Rightarrow> 'a task"
  | Display string "ProposalDisplay \<Rightarrow> 'a task"
  | Adopt string string string string "LocalPlanningReceipt \<Rightarrow> 'a task"

primrec task_bind :: "'a task \<Rightarrow> ('a \<Rightarrow> 'b task) \<Rightarrow> 'b task" where
  "task_bind (Return x) f = f x"
| "task_bind (Raise e) f = Raise e"
| "task_bind (CurrentWorker k) f = CurrentWorker (\<lambda>w. task_bind (k w) f)"
| "task_bind (ReadLog k) f = ReadLog (\<lambda>x. task_bind (k x) f)"
| "task_bind (PublishRun r x v t) f = PublishRun r x v (task_bind t f)"
| "task_bind (Ingest run_id prompt t) f = Ingest run_id prompt (task_bind t f)"
| "task_bind (ReadContext r k) f = ReadContext r (\<lambda>m. task_bind (k m) f)"
| "task_bind (Render c k) f = Render c (\<lambda>a. task_bind (k a) f)"
| "task_bind (Invoke a k) f = Invoke a (\<lambda>y. task_bind (k y) f)"
| "task_bind (Display p k) f = Display p (\<lambda>y. task_bind (k y) f)"
| "task_bind (Adopt peer display_id digest act k) f = Adopt peer display_id digest act (\<lambda>y. task_bind (k y) f)"

definition task_reject :: "string \<Rightarrow> 'a task" where
  "task_reject reason = Raise (LoopFailed (LoopRejected reason))"

definition lift_task :: "(LoopError, 'a) result \<Rightarrow> 'a task" where
  "lift_task outcome = (case outcome of Inl e \<Rightarrow> Raise (LoopFailed e) | Inr x \<Rightarrow> Return x)"

section \<open>The application object\<close>

text \<open>
  \<open>ag_parse\<close> is the parser of the prompt library, with the two response types of its contract;
  \<open>ag_invalid_text\<close> is the text of a pydantic \<open>ValidationError\<close> raised over a captured Run. The last two
  are the \<open>model_dump(mode="json")\<close> of the models the context shows.
\<close>

record AgentLoop =
  ag_tenant :: string
  ag_principal :: string
  ag_origin :: EndpointSelection
  ag_contour :: string
  ag_policy :: string
  ag_worker :: string
  ag_has_planning :: bool
  ag_has_workspace :: bool
  ag_has_session :: bool
  ag_owner_session :: string
  ag_codec :: LoopCodec
  ag_parse :: "bytes \<Rightarrow> PromptArtifact \<Rightarrow> (LoopError, ToolCall list + Delivery list) result"
  ag_invalid_text :: "RunRecord \<Rightarrow> string"
  ag_dump_receipt :: "LocalPlanningReceipt \<Rightarrow> json"
  ag_dump_outcome :: "ToolOutcome \<Rightarrow> json"

text \<open>The end of \<open>__init__\<close>: an instance belongs to the worker session that opened it.\<close>

definition open_loop :: "AgentLoop \<Rightarrow> AgentLoop task" where
  "open_loop a =
     (if ag_has_session a then CurrentWorker (\<lambda>w. Return (a\<lparr>ag_owner_session := w\<rparr>))
      else Return (a\<lparr>ag_owner_session := ag_worker a\<rparr>))"

definition STALE_WORKER :: string where
  "STALE_WORKER = ''stale loop worker generation; open a fresh registered instance''"

definition require_live :: "AgentLoop \<Rightarrow> string \<Rightarrow> (LoopError, unit) result" where
  "require_live a w =
     (if ag_has_session a \<and> w \<noteq> ag_owner_session a then rejected STALE_WORKER else Inr ())"

definition live :: "AgentLoop \<Rightarrow> unit task" where
  "live a = (if ag_has_session a then CurrentWorker (\<lambda>w. lift_task (require_live a w)) else Return ())"

section \<open>Reading a Run\<close>

definition run_records :: "string \<Rightarrow> LoopSnapshot \<Rightarrow> RunRecord list" where
  "run_records run_id snapshot = filter (\<lambda>r. rn_run_id r = run_id) (lo_records snapshot)"

definition bound_here :: "AgentLoop \<Rightarrow> RunRecord \<Rightarrow> bool" where
  "bound_here a run \<longleftrightarrow> rn_tenant run = ag_tenant a \<and> rn_principal run = ag_principal a
     \<and> rn_origin run = ag_origin a \<and> rn_contour_head run = ag_contour a \<and> rn_policy_head run = ag_policy a
     \<and> rn_worker_session run = ag_worker a"

definition run_record :: "AgentLoop \<Rightarrow> string \<Rightarrow> RunRecord task" where
  "run_record a run_id =
     task_bind (live a) (\<lambda>_.
     ReadLog (\<lambda>snapshot.
       let matches = run_records run_id snapshot in
       if matches = [] then task_reject ''Run is absent''
       else if \<not> bound_here a (last matches)
         then task_reject ''current authenticated binding differs from Run''
       else Return (last matches)))"

definition run_view :: "RunRecord \<Rightarrow> RunView" where
  "run_view run =
     \<lparr>rv_run_id = rn_run_id run, rv_state = rn_state run, rv_head = rn_head run,
      rv_turn_ordinal = length (rn_turns run),
      rv_turn_head = (if rn_turns run = [] then None else Some (tn_head (last (rn_turns run))))\<rparr>"

definition run_status :: "AgentLoop \<Rightarrow> string \<Rightarrow> RunView task" where
  "run_status a run_id = task_bind (run_record a run_id) (\<lambda>run. Return (run_view run))"

definition expected_run :: "AgentLoop \<Rightarrow> string \<Rightarrow> string \<Rightarrow> RunRecord task" where
  "expected_run a run_id expected_head =
     task_bind (run_record a run_id) (\<lambda>run.
       if rn_head run \<noteq> expected_head then task_reject ''stale exact Run head'' else Return run)"

section \<open>Publishing\<close>

text \<open>The predicate that the writer evaluates over the log inside its transaction.\<close>

definition publish_check :: "AgentLoop \<Rightarrow> RunRecord \<Rightarrow> RunRecord \<Rightarrow> writer_check" where
  "publish_check a previous result w current =
     rbind (require_live a w) (\<lambda>_.
     let lineage = run_records (rn_run_id previous) current in
     if lineage = [] \<or> last lineage \<noteq> previous then rejected ''Run changed inside writer transaction''
     else
       let observed = last lineage in
       if rn_event result = ''CompleteAcceptance'' then
         rbind (current_attempt observed RESPONSE_CAPTURED) (\<lambda>attempt.
         case ma_response attempt of
           None \<Rightarrow> rejected ''missing captured response''
         | Some raw \<Rightarrow>
             rbind (validated (parse_complete (ag_codec a) raw)) (\<lambda>response.
             rbind (complete (ag_codec a) observed response) (\<lambda>decided.
             loop_require (decided = result) ''completion decision changed inside writer transaction'')))
       else if rn_event result = ''TurnStarted'' \<or> rn_event result = ''RunBudgetSuspended'' then
         rbind (start_turn (ag_codec a) observed) (\<lambda>decided.
         loop_require (decided = result) ''continuation changed inside writer transaction'')
       else Inr ())"

definition publish_run :: "AgentLoop \<Rightarrow> RunRecord \<Rightarrow> RunRecord \<Rightarrow> unit task" where
  "publish_run a previous result =
     task_bind (live a) (\<lambda>_.
     ReadLog (\<lambda>snapshot.
       let records = run_records (rn_run_id previous) snapshot in
       if records = [] \<or> last records \<noteq> previous then task_reject ''stale exact Run head''
       else PublishRun result snapshot (publish_check a previous result) (Return ())))"

section \<open>Creating and activating\<close>

definition created_run :: "AgentLoop \<Rightarrow> string \<Rightarrow> string \<Rightarrow> BudgetPolicy \<Rightarrow> RunRecord" where
  "created_run a run_id prompt policy =
     (let run = \<lparr>rn_tenant = ag_tenant a, rn_principal = ag_principal a, rn_run_id = run_id, rn_state = CREATED,
            rn_head = ''pending'', rn_predecessor = None, rn_prompt = prompt, rn_policy = policy,
            rn_origin = ag_origin a, rn_contour_head = ag_contour a, rn_policy_head = ag_policy a,
            rn_worker_session = ag_worker a, rn_root_binding = None, rn_accepted_delivery_binding = None,
            rn_turns = [], rn_deliveries = [], rn_accepted_text = [], rn_planning_receipts = [],
            rn_event = ''RunCreated''\<rparr>
      in run\<lparr>rn_head := ''loop:'' @ json_digest (dump_run (ag_codec a) run)\<rparr>)"

definition create_check :: "AgentLoop \<Rightarrow> writer_check" where
  "create_check a w current = require_live a w"

definition create_run :: "AgentLoop \<Rightarrow> string \<Rightarrow> string \<Rightarrow> BudgetPolicy \<Rightarrow> RunView task" where
  "create_run a run_id prompt policy =
     task_bind (live a) (\<lambda>_.
     if run_id = [] \<or> prompt = [] then task_reject ''empty Run identity or prompt''
     else ReadLog (\<lambda>snapshot.
       let run = created_run a run_id prompt policy;
           existing = run_records run_id snapshot;
           status = run_status a run_id
       in if existing \<noteq> [] then
            (if hd existing \<noteq> run then task_reject ''Run identity reuse conflicts'' else status)
          else if ag_has_workspace a then
            Ingest run_id prompt (ReadLog (\<lambda>snapshot. PublishRun run snapshot (create_check a) status))
          else PublishRun run snapshot (create_check a) status))"

definition activate_run :: "AgentLoop \<Rightarrow> string \<Rightarrow> string \<Rightarrow> RunView task" where
  "activate_run a run_id expected_head =
     task_bind (expected_run a run_id expected_head) (\<lambda>run.
     task_bind (lift_task (loop_transition (ag_codec a) run ACTIVE)) (\<lambda>active.
     task_bind (publish_run a run active) (\<lambda>_. run_status a run_id)))"

section \<open>One step of a Run\<close>

text \<open>What the model is shown of an earlier Turn. \<open>attempts[selector]\<close> raises \<open>IndexError\<close> out of range.\<close>

definition prior_turn :: "AgentLoop \<Rightarrow> Turn \<Rightarrow> (LoopError, json) result" where
  "prior_turn a turn =
     (if length (tn_attempts turn) \<le> tn_selector turn then Inl IndexFailed
      else
        let attempt = tn_attempts turn ! tn_selector turn in
        Inr (JObj
          [(''turn_id'', JStr (tn_turn_id turn)),
           (''response_base64'', json_opt (JStr \<circ> b64encode) (ma_response attempt)),
           (''rejection'', json_opt JStr (ma_rejection attempt)),
           (''visibility'', JStr (json_digest (dump_manifest (ag_codec a) (ma_manifest attempt)))),
           (''results'', JArr (map (ag_dump_outcome a)
              (case tn_sealed_calls turn of None \<Rightarrow> [] | Some calls \<Rightarrow> calls)))]))"

definition step_content :: "AgentLoop \<Rightarrow> RunRecord \<Rightarrow> VisibilityMember option \<Rightarrow> (LoopError, string) result" where
  "step_content a started workspace =
     rbind (rfold (\<lambda>turn shown. rbind (prior_turn a turn) (\<lambda>j. Inr (shown @ [j]))) (butlast (rn_turns started)) [])
       (\<lambda>prior_turns.
       Inr (dumps_ascii (JObj
         [(''prompt'', JStr (rn_prompt started)),
          (''workspace'', json_opt (JStr \<circ> vm_content) workspace),
          (''planning_receipts'', JArr (map (ag_dump_receipt a) (rn_planning_receipts started))),
          (''prior_turns'', JArr prior_turns)])))"

text \<open>The fields of a \<open>VisibilityMember\<close> but its content have a minimal length of one.\<close>

definition visibility_member ::
  "string \<Rightarrow> string \<Rightarrow> string \<Rightarrow> string \<Rightarrow> string \<Rightarrow> LoopLabel \<Rightarrow> string \<Rightarrow> string \<Rightarrow> (LoopError, VisibilityMember) result" where
  "visibility_member record_id revision_head content provenance_head label_head label producer surface =
     (if [] \<in> {record_id, revision_head, provenance_head, label_head, producer, surface} then Inl ResponseInvalid
      else Inr \<lparr>vm_record_id = record_id, vm_revision_head = revision_head, vm_content = content,
             vm_provenance_head = provenance_head, vm_label_head = label_head, vm_label = label,
             vm_producer = producer, vm_surface = surface\<rparr>)"

text \<open>The prompt identity and version of an artifact have one value each.\<close>

definition PROMPT_RECORD :: string where
  "PROMPT_RECORD = ''chiplog.agent-loop/1''"

definition step_members ::
  "AgentLoop \<Rightarrow> string \<Rightarrow> RunRecord \<Rightarrow> VisibilityMember option \<Rightarrow> string \<Rightarrow> PromptArtifact \<Rightarrow>
   (LoopError, VisibilityMember list) result" where
  "step_members a run_id started workspace content artifact =
     (let turn = nat_str (length (rn_turns started));
          digest = json_digest (dump_artifact (ag_codec a) artifact)
      in rbind (context_label started) (\<lambda>restricted.
         rbind (visibility_member (run_id @ ''/context/'' @ turn) (rn_head started) content (rn_head started)
             (rn_contour_head started) restricted ''agent_loop'' ''context'') (\<lambda>ctx.
         rbind (visibility_member PROMPT_RECORD (pa_content_hash artifact) (pa_rendered artifact)
             (pa_content_hash artifact) (rn_policy_head started) restricted ''promptstrings'' ''prompt'') (\<lambda>prompt.
         rbind (visibility_member (''turn-schema/'' @ turn) digest (pa_response_schema_json artifact) digest
             (rn_policy_head started) \<lparr>ll_value = LL_UNRESTRICTED, ll_allowed_endpoints = []\<rparr> ''agent_loop'' ''schema'')
           (\<lambda>schema.
         Inr ((case workspace of None \<Rightarrow> [] | Some w \<Rightarrow> [w]) @ [ctx, prompt, schema]))))))"

definition step_manifest ::
  "AgentLoop \<Rightarrow> string \<Rightarrow> RunRecord \<Rightarrow> RunRecord \<Rightarrow> VisibilityMember list \<Rightarrow> PromptArtifact \<Rightarrow>
   (LoopError, VisibilityManifest) result" where
  "step_manifest a run_id run accumulated members artifact =
     rbind (join_labels (map vm_label members)) (\<lambda>joined.
       if ag_owner_session a = [] then Inl ResponseInvalid
       else Inr \<lparr>mf_tenant = rn_tenant run, mf_principal = rn_principal run, mf_contour_head = rn_contour_head run,
              mf_run_id = run_id, mf_turn_id = tn_turn_id (last (rn_turns accumulated)), mf_generation = 0,
              mf_worker_session = ag_owner_session a, mf_members = members, mf_joined_label = joined,
              mf_artifact = artifact\<rparr>)"

fun tool_text :: "ToolName \<Rightarrow> string" where
  "tool_text propose_planning = ''propose_planning''"
| "tool_text propose_intent = ''propose_intent''"

text \<open>\<open>json.dumps({...}, sort_keys=True)\<close> with its default separators.\<close>

definition spaced_member :: "string \<Rightarrow> string \<Rightarrow> string" where
  "spaced_member key v = quote_ascii key @ '': '' @ quote_ascii v"

definition proposal_only :: "ToolCall \<Rightarrow> string" where
  "proposal_only call =
     ''{'' @ join_with '', '' [spaced_member ''kind'' ''PROPOSAL_ONLY'', spaced_member ''text'' (tl_text call),
       spaced_member ''tool'' (tool_text (tl_tool call))] @ ''}''"

primrec close_calls :: "AgentLoop \<Rightarrow> string \<Rightarrow> ToolCall list \<Rightarrow> unit task" where
  "close_calls a run_id [] = Return ()"
| "close_calls a run_id (call # calls) =
     task_bind (run_record a run_id) (\<lambda>current.
     task_bind (lift_task (current_turn current)) (\<lambda>turn.
     case filter (\<lambda>x. tl_call_id (to_call x) = tl_call_id call)
         (case tn_sealed_calls turn of None \<Rightarrow> [] | Some outcomes \<Rightarrow> outcomes) of
       [outcome] \<Rightarrow>
         if to_state outcome = TERMINAL then close_calls a run_id calls
         else task_bind (lift_task (terminal_tool (ag_codec a) current (tl_call_id call) (proposal_only call))) (\<lambda>closed.
              task_bind (publish_run a current closed) (\<lambda>_. close_calls a run_id calls))
     | _ \<Rightarrow> task_reject ''sealed call disappeared before terminalization''))"

definition accept_response ::
  "AgentLoop \<Rightarrow> RunRecord \<Rightarrow> bytes \<Rightarrow> PromptArtifact \<Rightarrow> (LoopError, (ToolCall list + Delivery list) \<times> RunRecord) result" where
  "accept_response a captured raw artifact =
     rbind (ag_parse a raw artifact) (\<lambda>response.
     rbind (case response of
         Inl calls \<Rightarrow> accept_tools (ag_codec a) captured calls
       | Inr deliveries \<Rightarrow> complete (ag_codec a) captured deliveries) (\<lambda>accepted.
     Inr (response, accepted)))"

text \<open>\<open>str(error)\<close>.\<close>

fun error_text :: "AgentLoop \<Rightarrow> RunRecord \<Rightarrow> LoopError \<Rightarrow> string" where
  "error_text a captured (LoopRejected reason) = reason"
| "error_text a captured _ = ag_invalid_text a captured"

text \<open>The response is captured before anything is made of it; a \<open>ValueError\<close> rejects it.\<close>

definition settle_response ::
  "AgentLoop \<Rightarrow> string \<Rightarrow> RunRecord \<Rightarrow> PromptArtifact \<Rightarrow> bytes \<times> string \<Rightarrow> RunView task" where
  "settle_response a run_id emitted artifact = (\<lambda>(raw, receipt).
     task_bind (lift_task (capture (ag_codec a) emitted raw receipt)) (\<lambda>captured.
     task_bind (publish_run a emitted captured) (\<lambda>_.
     case accept_response a captured raw artifact of
       Inl e \<Rightarrow>
         if e = IndexFailed then Raise (LoopFailed IndexFailed)
         else task_bind (lift_task (reject_response (ag_codec a) captured (error_text a captured e))) (\<lambda>refused.
              task_bind (publish_run a captured refused) (\<lambda>_. run_status a run_id))
     | Inr (response, accepted) \<Rightarrow>
         task_bind (publish_run a captured accepted) (\<lambda>_.
         task_bind (case response of Inl calls \<Rightarrow> close_calls a run_id calls | Inr _ \<Rightarrow> Return ()) (\<lambda>_.
         run_status a run_id)))))"

definition call_model ::
  "AgentLoop \<Rightarrow> string \<Rightarrow> RunRecord \<Rightarrow> RunRecord \<Rightarrow> VisibilityMember option \<Rightarrow> string \<Rightarrow> PromptArtifact \<Rightarrow> RunView task" where
  "call_model a run_id run started workspace content artifact =
     task_bind (lift_task (step_members a run_id started workspace content artifact)) (\<lambda>members.
     task_bind (lift_task (accumulate (ag_codec a) started members)) (\<lambda>accumulated.
     task_bind (publish_run a started accumulated) (\<lambda>_.
     task_bind (lift_task (step_manifest a run_id run accumulated members artifact)) (\<lambda>manifest.
     task_bind (lift_task (prepare_attempt (ag_codec a) accumulated manifest)) (\<lambda>prepared.
     task_bind (publish_run a accumulated prepared) (\<lambda>_.
     task_bind (lift_task (emit_attempt (ag_codec a) prepared)) (\<lambda>emitted.
     task_bind (publish_run a prepared emitted) (\<lambda>_.
     Invoke (last (tn_attempts (last (rn_turns emitted)))) (settle_response a run_id emitted artifact)))))))))"

definition step_run :: "AgentLoop \<Rightarrow> string \<Rightarrow> string \<Rightarrow> RunView task" where
  "step_run a run_id expected_head =
     task_bind (expected_run a run_id expected_head) (\<lambda>run.
     task_bind (lift_task (start_turn (ag_codec a) run)) (\<lambda>started.
     task_bind (publish_run a run started) (\<lambda>_.
     if rn_state started = SUSPENDED then run_status a run_id
     else
       task_bind (if ag_has_workspace a then ReadContext started (\<lambda>m. Return (Some m)) else Return None) (\<lambda>workspace.
       task_bind (lift_task (step_content a started workspace)) (\<lambda>content.
       Render content (\<lambda>artifact. call_model a run_id run started workspace content artifact))))))"

section \<open>Planning proposals\<close>

definition display_proposal :: "AgentLoop \<Rightarrow> string \<Rightarrow> ProposalDisplay task" where
  "display_proposal a proposal_id =
     task_bind (live a) (\<lambda>_.
       if \<not> ag_has_planning a then task_reject ''planning proposal port unavailable''
       else Display proposal_id Return)"

text \<open>\<open>{record.run_id: record for record in records}\<close>: the last record of every Run.\<close>

definition latest_runs :: "RunRecord list \<Rightarrow> (string \<times> RunRecord) list" where
  "latest_runs records = fold (\<lambda>r. AList.update (rn_run_id r) r) records []"

definition proposed_in :: "string \<Rightarrow> RunRecord \<Rightarrow> bool" where
  "proposed_in proposal_id run =
     list_ex (\<lambda>turn. list_ex (\<lambda>outcome. to_proposal_id outcome = Some proposal_id)
       (case tn_sealed_calls turn of None \<Rightarrow> [] | Some calls \<Rightarrow> calls)) (rn_turns run)"

definition adopt_proposal :: "AgentLoop \<Rightarrow> string \<Rightarrow> string \<Rightarrow> string \<Rightarrow> string \<Rightarrow> LocalPlanningReceipt task" where
  "adopt_proposal a peer display_id digest adoption_act_id =
     task_bind (live a) (\<lambda>_.
     if \<not> ag_has_planning a then task_reject ''planning adoption port unavailable''
     else Adopt peer display_id digest adoption_act_id (\<lambda>receipt.
       ReadLog (\<lambda>snapshot.
         case filter (proposed_in (lr_proposal_id receipt)) (map snd (latest_runs (lo_records snapshot))) of
           [run] \<Rightarrow>
             (let existing = filter (\<lambda>v. lr_evidence_id v = lr_evidence_id receipt) (rn_planning_receipts run) in
              if existing \<noteq> [] then
                (if existing \<noteq> [receipt] then task_reject ''receipt identity changed'' else Return receipt)
              else
                task_bind (lift_task (observe_receipt (ag_codec a) run receipt)) (\<lambda>observed.
                task_bind (publish_run a run observed) (\<lambda>_. Return receipt)))
         | _ \<Rightarrow> task_reject ''receipt has no unique original Run'')))"

section \<open>The public operations\<close>

datatype loop_request =
    CreateRun string string BudgetPolicy
  | ActivateRun string string
  | StepRun string string
  | RunStatus string
  | DisplayProposal string
  | AdoptProposal string string string string

datatype loop_reply = ViewReply RunView | DisplayReply ProposalDisplay | ReceiptReply LocalPlanningReceipt

fun serve :: "AgentLoop \<Rightarrow> loop_request \<Rightarrow> loop_reply task" where
  "serve a (CreateRun run_id prompt policy) = task_bind (create_run a run_id prompt policy) (Return \<circ> ViewReply)"
| "serve a (ActivateRun run_id expected_head) = task_bind (activate_run a run_id expected_head) (Return \<circ> ViewReply)"
| "serve a (StepRun run_id expected_head) = task_bind (step_run a run_id expected_head) (Return \<circ> ViewReply)"
| "serve a (RunStatus run_id) = task_bind (run_status a run_id) (Return \<circ> ViewReply)"
| "serve a (DisplayProposal proposal_id) = task_bind (display_proposal a proposal_id) (Return \<circ> DisplayReply)"
| "serve a (AdoptProposal peer display_id digest act) =
     task_bind (adopt_proposal a peer display_id digest act) (Return \<circ> ReceiptReply)"

end
