(* ===== verification/Loop_Client.thy ===== *)
theory Loop_Client
  imports Loop_Application
begin

text \<open>
  The agent loop's application against an abstract store. Any number of coroutines of any number of
  instances interleave with each other, with other owners of the store, with changes of the current worker
  session and with the writer. The port is the locale \<open>loop_store\<close>; its client's lemma is about every
  interleaving: what is committed is an owner decision taken on the last record of its Run by a live worker,
  and the model is called only for an attempt whose emission is in the log.
\<close>

section \<open>What a coroutine may publish and invoke\<close>

text \<open>The identity under which a record is published: its head and the digest of its bytes.\<close>

definition run_key :: "LoopCodec \<Rightarrow> RunRecord \<Rightarrow> string \<times> string" where
  "run_key d r = (rn_head r, json_digest (dump_run d r))"

definition is_live :: "AgentLoop \<Rightarrow> string \<Rightarrow> bool" where
  "is_live a w \<longleftrightarrow> (ag_has_session a \<longrightarrow> w = ag_owner_session a)"

text \<open>The callback of a publication admits only a first record or an owner decision on the last one.\<close>

definition decided :: "AgentLoop \<Rightarrow> RunRecord \<Rightarrow> LoopSnapshot \<Rightarrow> writer_check \<Rightarrow> bool" where
  "decided a r x v \<longleftrightarrow> (\<forall>w. v w x = Inr () \<longrightarrow> is_live a w \<and>
     (rn_predecessor r = None
      \<or> (\<exists>previous. last_of (rn_run_id previous) (lo_records x) = Some previous
           \<and> owner_step (ag_codec a) None previous r)))"

definition emission_of :: "AgentLoop \<Rightarrow> ModelAttempt \<Rightarrow> RunRecord \<Rightarrow> bool" where
  "emission_of a attempt r \<longleftrightarrow> (\<exists>prepared. emit_attempt (ag_codec a) prepared = Inr r)
     \<and> attempt = last (tn_attempts (last (rn_turns r)))"

definition emitted_before :: "AgentLoop \<Rightarrow> ModelAttempt \<Rightarrow> (string \<times> string) set \<Rightarrow> bool" where
  "emitted_before a attempt K \<longleftrightarrow> (\<exists>r. emission_of a attempt r \<and> run_key (ag_codec a) r \<in> K)"

text \<open>
  \<open>wp a t K Q\<close>: started when the identities in \<open>K\<close> are published, \<open>t\<close> publishes and invokes only what it
  may, whatever the ports answer, and \<open>Q\<close> holds of its result.
\<close>

primrec wp :: "AgentLoop \<Rightarrow> 'a task \<Rightarrow> (string \<times> string) set \<Rightarrow> ('a \<Rightarrow> (string \<times> string) set \<Rightarrow> bool) \<Rightarrow> bool" where
  "wp a (Return x) K Q = Q x K"
| "wp a (Raise e) K Q = True"
| "wp a (CurrentWorker k) K Q = (\<forall>w. wp a (k w) K Q)"
| "wp a (ReadLog k) K Q = (\<forall>x. wp a (k x) K Q)"
| "wp a (PublishRun r x v t) K Q = (decided a r x v \<and> wp a t (insert (run_key (ag_codec a) r) K) Q)"
| "wp a (Ingest run_id prompt t) K Q = wp a t K Q"
| "wp a (ReadContext r k) K Q = (\<forall>m. wp a (k m) K Q)"
| "wp a (Render c k) K Q = (\<forall>y. wp a (k y) K Q)"
| "wp a (Invoke attempt k) K Q = (emitted_before a attempt K \<and> (\<forall>y. wp a (k y) K Q))"
| "wp a (Display p k) K Q = (\<forall>y. wp a (k y) K Q)"
| "wp a (Adopt peer display_id digest act k) K Q = (\<forall>y. wp a (k y) K Q)"

abbreviation safe :: "AgentLoop \<Rightarrow> 'a task \<Rightarrow> (string \<times> string) set \<Rightarrow> bool" where
  "safe a t K \<equiv> wp a t K (\<lambda>_ _. True)"

lemma wp_bind [simp]: "wp a (task_bind t f) K Q = wp a t K (\<lambda>x K'. wp a (f x) K' Q)"
  by (induction t arbitrary: K) simp_all

lemma task_bind_assoc: "task_bind (task_bind t f) g = task_bind t (\<lambda>x. task_bind (f x) g)"
  by (induction t) simp_all

lemma wp_mono:
  assumes "wp a t K Q" and "K \<subseteq> K'" and "\<And>x K K'. Q x K \<Longrightarrow> K \<subseteq> K' \<Longrightarrow> Q' x K'"
  shows "wp a t K' Q'"
  using assms(1,2)
proof (induction t arbitrary: K K')
  case (PublishRun r x v t)
  have "insert (run_key (ag_codec a) r) K \<subseteq> insert (run_key (ag_codec a) r) K'"
    using PublishRun.prems by auto
  then show ?case
    using PublishRun by auto
next
  case (Invoke attempt k)
  have "emitted_before a attempt K'"
    using Invoke.prems by (auto simp: emitted_before_def)
  moreover have "wp a (k y) K' Q'" for y
    using Invoke.prems by (intro Invoke.IH [of _ K]) (simp_all del: split_paired_All)
  ultimately show ?case by simp
qed (simp_all, (blast intro: assms(3))+)

lemma wp_reject [simp]: "wp a (task_reject reason) K Q"
  by (simp add: task_reject_def)

lemma wp_lift [simp]: "wp a (lift_task m) K Q \<longleftrightarrow> (\<forall>x. m = Inr x \<longrightarrow> Q x K)"
  by (cases m) (simp_all add: lift_task_def)

lemma wp_live: "Q () K \<Longrightarrow> wp a (live a) K Q"
  by (simp add: live_def)

lemma wp_run_record: "(\<And>run. Q run K) \<Longrightarrow> wp a (run_record a run_id) K Q"
  by (simp add: run_record_def Let_def wp_live)

lemma wp_run_status: "(\<And>view. Q view K) \<Longrightarrow> wp a (run_status a run_id) K Q"
  by (simp add: run_status_def wp_run_record)

lemma wp_expected_run: "(\<And>run. Q run K) \<Longrightarrow> wp a (expected_run a run_id head) K Q"
  by (simp add: expected_run_def wp_run_record)

lemma require_live_Inr [simp]: "require_live a w = Inr u \<longleftrightarrow> is_live a w"
  by (auto simp: require_live_def is_live_def)

lemma publish_check_Inr:
  assumes "publish_check a previous result w x = Inr ()"
  shows "is_live a w" and "last_of (rn_run_id previous) (lo_records x) = Some previous"
  using assms
  by (auto simp: publish_check_def run_records_def last_of_def Let_def rbind_eq_Inr split: if_splits)

text \<open>The weakest precondition of a publication: the record is an owner decision on its predecessor.\<close>

lemma wp_publish_run:
  assumes "owner_step (ag_codec a) None previous result"
    and "Q () (insert (run_key (ag_codec a) result) K)"
  shows "wp a (publish_run a previous result) K Q"
  using assms publish_check_Inr [of a previous result]
  by (auto simp: publish_run_def Let_def decided_def intro!: wp_live)

lemma safe_create_run: "safe a (create_run a run_id prompt policy) K"
proof -
  have "rn_predecessor (created_run a run_id prompt policy) = None"
    by (simp add: created_run_def Let_def)
  then have "decided a (created_run a run_id prompt policy) x (create_check a)" for x
    by (simp add: decided_def create_check_def)
  then show ?thesis
    by (simp add: create_run_def Let_def wp_live wp_run_status)
qed

lemma safe_activate_run: "safe a (activate_run a run_id head) K"
  by (auto simp: activate_run_def intro!: wp_expected_run wp_publish_run wp_run_status intro: owner_step.intros)

lemma wp_close_calls: "(\<And>K'. Q () K') \<Longrightarrow> wp a (close_calls a run_id calls) K Q"
proof (induction calls arbitrary: K)
  case (Cons call calls)
  then show ?case
    by (auto intro!: wp_run_record wp_publish_run intro: owner_step.intros split: list.splits)
qed simp

lemma safe_settle_response: "safe a (settle_response a run_id emitted artifact answer) K"
proof -
  have "owner_step (ag_codec a) None captured accepted"
    if "accept_response a captured raw artifact = Inr (response, accepted)" for captured accepted raw response
    using that by (auto simp: accept_response_def rbind_eq_Inr split: sum.splits intro: owner_step.intros)
  then show ?thesis
    by (auto simp: settle_response_def split: prod.splits sum.splits
        intro!: wp_publish_run wp_run_status wp_close_calls intro: owner_step.intros)
qed

lemma safe_call_model: "safe a (call_model a run_id run started workspace content artifact) K"
  by (auto simp: call_model_def emitted_before_def emission_of_def intro!: wp_publish_run safe_settle_response
      intro: owner_step.intros)

lemma safe_step_run: "safe a (step_run a run_id head) K"
  by (auto simp: step_run_def intro!: wp_expected_run wp_publish_run wp_run_status safe_call_model
      intro: owner_step.intros)

lemma safe_adopt_proposal: "safe a (adopt_proposal a peer display_id digest act) K"
  by (auto simp: adopt_proposal_def Let_def intro!: wp_live wp_publish_run intro: owner_step.intros split: list.splits)

lemma safe_serve: "safe a (serve a request) K"
  by (cases request)
    (simp_all add: safe_create_run safe_activate_run safe_step_run safe_adopt_proposal wp_run_status
      display_proposal_def wp_live)

end
