(* ===== verification/Loop_World.thy ===== *)
theory Loop_World
  imports Loop_Client
begin

text \<open>
  Histories of the agent loop: the application's coroutines over any store that keeps the laws of the
  locale \<open>loop_store\<close>.
\<close>

section \<open>Histories\<close>

datatype loop_event = Committed AgentLoop RunRecord string | Invoked AgentLoop ModelAttempt

text \<open>
  A coroutine between two of its calls, waiting for the writer (with the state its call was made in), or
  waiting for the model.
\<close>

datatype 'st activity =
    Running "loop_reply task"
  | Queued 'st RunRecord LoopSnapshot writer_check "loop_reply task"
  | Calling "bytes \<times> string \<Rightarrow> loop_reply task"

record 'st world =
  wd_store :: 'st
  wd_worker :: string
  wd_active :: "(AgentLoop \<times> 'st activity) list"
  wd_trace :: "loop_event list"

text \<open>A call that neither writes nor reaches the model: a port may answer anything.\<close>

inductive task_move ::
  "(LoopStoreError, LoopSnapshot) result \<Rightarrow> string \<Rightarrow> 'a task \<Rightarrow> 'a task \<Rightarrow> bool" for snapshot w where
  "task_move snapshot w (CurrentWorker k) (k w)"
| "snapshot = Inr x \<Longrightarrow> task_move snapshot w (ReadLog k) (k x)"
| "task_move snapshot w (Ingest run_id prompt t) t"
| "task_move snapshot w (ReadContext r k) (k m)"
| "task_move snapshot w (Render c k) (k artifact)"
| "task_move snapshot w (Display p k) (k display)"
| "task_move snapshot w (Adopt peer display_id digest act k) (k receipt)"

text \<open>
  One step of the world: a request arrives, another worker session becomes current, another owner changes
  the store, a coroutine ends (it returned, raised, or was cancelled), moves on, calls the writer or the
  model, or gets the answer. \<open>e\<close> stands for what the writer chooses of its own.
\<close>

inductive world_step ::
  "LoopCodec \<Rightarrow> ('st \<Rightarrow> (LoopStoreError, LoopSnapshot) result) \<Rightarrow>
   ('e \<Rightarrow> RunRecord \<Rightarrow> LoopSnapshot \<Rightarrow> (LoopSnapshot \<Rightarrow> (LoopError, unit) result) \<Rightarrow> 'st \<Rightarrow> 'st \<Rightarrow>
     (LoopStoreError, unit) result \<times> 'st) \<Rightarrow>
   ('st \<Rightarrow> 'st \<Rightarrow> bool) \<Rightarrow> 'st world \<Rightarrow> 'st world \<Rightarrow> bool"
  for d snap pub other where
  request: "ag_codec a = d \<Longrightarrow> world_step d snap pub other W
     (W\<lparr>wd_active := wd_active W @ [(a, Running (serve a q))]\<rparr>)"
| worker: "world_step d snap pub other W (W\<lparr>wd_worker := w\<rparr>)"
| foreign: "other (wd_store W) st \<Longrightarrow> world_step d snap pub other W (W\<lparr>wd_store := st\<rparr>)"
| ended: "wd_active W = pre @ c # post \<Longrightarrow> world_step d snap pub other W (W\<lparr>wd_active := pre @ post\<rparr>)"
| moved: "wd_active W = pre @ (a, Running t) # post \<Longrightarrow> task_move (snap (wd_store W)) (wd_worker W) t t' \<Longrightarrow>
     world_step d snap pub other W (W\<lparr>wd_active := pre @ (a, Running t') # post\<rparr>)"
| submitted: "wd_active W = pre @ (a, Running (PublishRun r x v t)) # post \<Longrightarrow>
     world_step d snap pub other W (W\<lparr>wd_active := pre @ (a, Queued (wd_store W) r x v t) # post\<rparr>)"
| written: "wd_active W = pre @ (a, Queued st0 r x v t) # post \<Longrightarrow>
     pub e r x (v (wd_worker W)) st0 (wd_store W) = (outcome, st) \<Longrightarrow>
     world_step d snap pub other W
       (W\<lparr>wd_store := st,
          wd_active := pre @ (if outcome = Inr () then [(a, Running t)] else []) @ post,
          wd_trace := wd_trace W @ (if st = wd_store W then [] else [Committed a r (wd_worker W)])\<rparr>)"
| invoked: "wd_active W = pre @ (a, Running (Invoke attempt k)) # post \<Longrightarrow>
     world_step d snap pub other W
       (W\<lparr>wd_active := pre @ (a, Calling k) # post, wd_trace := wd_trace W @ [Invoked a attempt]\<rparr>)"
| answered: "wd_active W = pre @ (a, Calling k) # post \<Longrightarrow>
     world_step d snap pub other W (W\<lparr>wd_active := pre @ (a, Running (k y)) # post\<rparr>)"

fun event_records :: "loop_event \<Rightarrow> RunRecord list" where
  "event_records (Committed a r w) = [r]"
| "event_records (Invoked a attempt) = []"

definition commits :: "loop_event list \<Rightarrow> RunRecord list" where
  "commits es = concat (map event_records es)"

lemma commits_simps [simp]: "commits [] = []" "commits (es @ fs) = commits es @ commits fs"
  "commits (e # es) = event_records e @ commits es"
  by (simp_all add: commits_def)

text \<open>What an event must be, after the records committed before it.\<close>

definition owned :: "LoopCodec \<Rightarrow> RunRecord list \<Rightarrow> RunRecord \<Rightarrow> bool" where
  "owned d before r \<longleftrightarrow>
     (case last_of (rn_run_id r) before of
        None \<Rightarrow> genesis_ok r
      | Some previous \<Rightarrow> owner_step d None previous r)"

fun event_ok :: "LoopCodec \<Rightarrow> RunRecord list \<Rightarrow> loop_event \<Rightarrow> bool" where
  "event_ok d before (Committed a r w) = (is_live a w \<and> owned d before r)"
| "event_ok d before (Invoked a attempt) = (ag_codec a = d \<and> emitted_before a attempt (run_key d ` set before))"

primrec trace_ok :: "LoopCodec \<Rightarrow> RunRecord list \<Rightarrow> loop_event list \<Rightarrow> bool" where
  "trace_ok d before [] = True"
| "trace_ok d before (e # es) = (event_ok d before e \<and> trace_ok d (before @ event_records e) es)"

lemma trace_ok_append [simp]:
  "trace_ok d before (es @ fs) \<longleftrightarrow> trace_ok d before es \<and> trace_ok d (before @ commits es) fs"
  by (induction es arbitrary: before) auto

text \<open>A coroutine keeps its obligations while the log grows.\<close>

fun activity_ok :: "LoopCodec \<Rightarrow> (string \<times> string) set \<Rightarrow> AgentLoop \<times> 'st activity \<Rightarrow> bool" where
  "activity_ok d K (a, Running t) = (ag_codec a = d \<and> safe a t K)"
| "activity_ok d K (a, Queued st0 r x v t) =
     (ag_codec a = d \<and> decided a r x v \<and> safe a t (insert (run_key d r) K))"
| "activity_ok d K (a, Calling k) = (ag_codec a = d \<and> (\<forall>y. safe a (k y) K))"

lemma activity_ok_mono:
  assumes "activity_ok d K p" and "K \<subseteq> K'"
  shows "activity_ok d K' p"
proof -
  obtain a c where p: "p = (a, c)"
    by (cases p)
  have "insert k K \<subseteq> insert k K'" for k
    using assms(2) by auto
  then show ?thesis
    using assms by (cases c) (auto simp: p simp del: split_paired_All elim: wp_mono)
qed

lemma move_safe: "task_move snapshot w t t' \<Longrightarrow> safe a t K \<Longrightarrow> safe a t' K"
  by (induction rule: task_move.induct) auto

lemma step_trace:
  assumes "world_step d snap pub other W W'"
  shows "\<exists>es. wd_trace W' = wd_trace W @ es"
  using assms by cases auto

section \<open>The store port\<close>

text \<open>
  \<open>lawful\<close> are the records that are read back as they were written. A publication appends its record, under
  the snapshot it names and after its check, or changes nothing; it is accepted only when the record, or one
  published under the same identity, is in the log.
\<close>

locale loop_store =
  fixes d :: LoopCodec
    and snap :: "'st \<Rightarrow> (LoopStoreError, LoopSnapshot) result"
    and pub :: "'e \<Rightarrow> RunRecord \<Rightarrow> LoopSnapshot \<Rightarrow> (LoopSnapshot \<Rightarrow> (LoopError, unit) result) \<Rightarrow> 'st \<Rightarrow> 'st \<Rightarrow>
      (LoopStoreError, unit) result \<times> 'st"
    and other :: "'st \<Rightarrow> 'st \<Rightarrow> bool"
    and good :: "'st \<Rightarrow> bool"
    and log :: "'st \<Rightarrow> RunRecord list"
    and lawful :: "RunRecord \<Rightarrow> bool"
  assumes publish_good: "good st \<Longrightarrow> st = st' \<or> lawful r \<Longrightarrow> pub e r x v st0 st = (outcome, st') \<Longrightarrow> good st'"
    and publish_appends: "good st \<Longrightarrow> lawful r \<Longrightarrow> pub e r x v st0 st = (outcome, st') \<Longrightarrow> st' \<noteq> st \<Longrightarrow>
      log st' = log st @ [r] \<and> lo_records x = log st \<and> v x = Inr ()
      \<and> validate_record d (last_of (rn_run_id r) (log st)) r None = Inr ()"
    and publish_accepted: "good st \<Longrightarrow> st = st' \<or> lawful r \<Longrightarrow> pub e r x v st0 st = (Inr (), st') \<Longrightarrow>
      run_key d r \<in> run_key d ` set (log st')"
    and other_good: "good st \<Longrightarrow> other st st' \<Longrightarrow> good st'"
    and other_log: "good st \<Longrightarrow> other st st' \<Longrightarrow> log st' = log st"
begin

definition world_ok :: "RunRecord list \<Rightarrow> 'st world \<Rightarrow> bool" where
  "world_ok before W \<longleftrightarrow> good (wd_store W) \<and> log (wd_store W) = before @ commits (wd_trace W)
     \<and> list_all (activity_ok d (run_key d ` set (log (wd_store W)))) (wd_active W)
     \<and> trace_ok d before (wd_trace W)"

text \<open>A committed record is a first record or an owner decision on the last record of its Run.\<close>

lemma committed_owned:
  assumes "decided a r x v" and "v w x = Inr ()" and "ag_codec a = d" and "lo_records x = before"
    and "validate_record d (last_of (rn_run_id r) before) r None = Inr ()"
  shows "is_live a w" and "owned d before r"
proof -
  show "is_live a w"
    using assms(1,2) by (simp add: decided_def)
  show "owned d before r"
  proof (cases "last_of (rn_run_id r) before")
    case None
    then show ?thesis
      using assms(5) lineage_genesis by (auto simp: owned_def)
  next
    case (Some p)
    have "linked d p r"
      using assms(5) Some run_step_linked [OF validate_record_step] by auto
    then have "rn_predecessor r \<noteq> None"
      by (simp add: linked_def)
    then obtain previous where previous: "last_of (rn_run_id previous) before = Some previous"
      "owner_step d None previous r"
      using assms(1-4) by (auto simp: decided_def)
    have "rn_run_id r = rn_run_id previous"
      using run_step_linked [OF owner_step_run_step [OF previous(2)]] by (simp add: linked_def same_identity_def)
    then show ?thesis
      using previous by (simp add: owned_def)
  qed
qed

text \<open>The writer's step: the record is appended or not, and the coroutine goes on only when it is there.\<close>

lemma written_ok:
  assumes ok: "world_ok before W" and active: "wd_active W = pre @ (a, Queued st0 r x v t) # post"
    and pub: "pub e r x (v (wd_worker W)) st0 (wd_store W) = (outcome, st)"
    and lawful: "\<forall>r \<in> set (commits (wd_trace W')). lawful r"
    and after: "W' = W\<lparr>wd_store := st,
      wd_active := pre @ (if outcome = Inr () then [(a, Running t)] else []) @ post,
      wd_trace := wd_trace W @ (if st = wd_store W then [] else [Committed a r (wd_worker W)])\<rparr>"
  shows "world_ok before W'"
proof -
  let ?K = "run_key d ` set (log (wd_store W))" and ?K' = "run_key d ` set (log st)"
  have good: "good (wd_store W)" and a: "ag_codec a = d" and queued: "decided a r x v"
    "safe a t (insert (run_key d r) ?K)"
    using ok active by (auto simp: world_ok_def)
  have store: "wd_store W' = st"
    and active': "wd_active W' = pre @ (if outcome = Inr () then [(a, Running t)] else []) @ post"
    by (simp_all add: after)
  have lawful_r: "wd_store W = st \<or> lawful r"
    using lawful after by (auto split: if_splits)
  note appended = publish_appends [OF good _ pub]
  have log: "log st = log (wd_store W) @ (if st = wd_store W then [] else [r])"
    using appended lawful_r by auto
  then have grow: "?K \<subseteq> ?K'"
    by auto
  have "good st"
    using publish_good [OF good lawful_r pub] .
  moreover have "list_all (activity_ok d ?K') (if outcome = Inr () then [(a, Running t)] else [])"
  proof (cases "outcome = Inr ()")
    case True
    have "run_key d r \<in> ?K'"
      using publish_accepted [OF good lawful_r] pub True by simp
    with grow have "insert (run_key d r) ?K \<subseteq> ?K'"
      by simp
    then have "safe a t ?K'"
      by (rule wp_mono [OF queued(2)])
    then show ?thesis
      by (simp add: a)
  qed simp
  moreover have "list_all (activity_ok d ?K') (pre @ post)"
  proof -
    have "list_all (activity_ok d ?K) (pre @ post)"
      using ok active by (auto simp: world_ok_def)
    then show ?thesis
      by (rule list.pred_mono_strong) (rule activity_ok_mono [OF _ grow])
  qed
  moreover have "trace_ok d before (wd_trace W')"
  proof (cases "st = wd_store W")
    case False
    with appended lawful_r have "lo_records x = log (wd_store W)" "v (wd_worker W) x = Inr ()"
      "validate_record d (last_of (rn_run_id r) (log (wd_store W))) r None = Inr ()"
      by auto
    from committed_owned [OF queued(1) this(2) a this(1,3)] show ?thesis
      using ok False by (simp add: after world_ok_def)
  qed (use ok in \<open>simp add: after world_ok_def\<close>)
  moreover have "log st = before @ commits (wd_trace W')"
    using ok log by (simp add: world_ok_def after)
  ultimately show ?thesis
    unfolding world_ok_def store active' list_all_append by blast
qed

lemma world_step_ok:
  assumes step: "world_step d snap pub other W W'" and ok: "world_ok before W"
    and lawful: "\<forall>r \<in> set (commits (wd_trace W')). lawful r"
  shows "world_ok before W'"
  using step
proof cases
  case (request a q)
  then show ?thesis
    using ok by (auto simp: world_ok_def safe_serve)
next
  case (foreign st)
  then show ?thesis
    using ok other_good other_log by (auto simp: world_ok_def)
next
  case (moved pre a t post t')
  then show ?thesis
    using ok move_safe [OF moved(3)] by (auto simp: world_ok_def)
next
  case (written pre a st0 r x v t post e outcome st)
  show ?thesis
    by (rule written_ok [OF ok written(2,3) lawful written(1)])
next
  case (invoked pre a attempt k post)
  then show ?thesis
    using ok by (auto simp: world_ok_def)
qed (use ok in \<open>auto simp: world_ok_def\<close>)

text \<open>Every history of the loop is made of owner decisions of live workers and of emitted requests.\<close>

lemma history_ok:
  assumes "(world_step d snap pub other)\<^sup>*\<^sup>* W W'" and "good (wd_store W)" and "wd_active W = []" and "wd_trace W = []"
    and "\<forall>r \<in> set (commits (wd_trace W')). lawful r"
  shows "world_ok (log (wd_store W)) W'"
  using assms(1,5)
proof (induction rule: rtranclp_induct)
  case base
  then show ?case
    using assms(2-4) by (simp add: world_ok_def)
next
  case (step V V')
  have "\<forall>r \<in> set (commits (wd_trace V)). lawful r"
    using step.prems step_trace [OF step.hyps(2)] by auto
  then show ?case
    using world_step_ok [OF step.hyps(2) step.IH step.prems] by blast
qed

end

end
