(* ===== verification/Loop_Port.thy ===== *)
theory Loop_Port
  imports Loop_Store_History Loop_World
begin

text \<open>
  The store port of the agent loop as an interface, and the SQLite adapter as its implementation: a
  publication appends exactly its record, under the very snapshot it was decided on, or changes nothing.
\<close>

section \<open>What a publication does\<close>

lemma loop_physical_fields [simp]:
  "pc_tenant_id (loop_physical s r x v cs) = sl_tenant s"
  "pc_operation_kind (loop_physical s r x v cs) = ''agent_loop''"
  "pc_idempotency_key (loop_physical s r x v cs) = rn_head r"
  "pc_request_fingerprint (loop_physical s r x v cs) = sha256_hex (run_bytes s r)"
  "pc_expected_head (loop_physical s r x v cs) = lo_tenant_head x"
  "pc_records (loop_physical s r x v cs) =
     \<lparr>ph_record_id = rn_head r, ph_owner = LOOP_OWNER, ph_schema_id = LOOP_SCHEMA,
      ph_canonical_bytes = run_bytes s r, ph_fingerprint = sha256_hex (run_bytes s r)\<rparr> # map companion_record cs"
  "pc_admission_guard (loop_physical s r x v cs) = Some (loop_guard s r x v)"
  by (simp_all add: loop_physical_def Let_def)

lemma loop_guard_passed:
  assumes "loop_guard s record expected validate db = Inr None"
  shows "loop_snapshot s db = Inr expected"
    and "validate_record (sl_codec s) (last_of (rn_run_id record) (lo_records expected)) record None = Inr ()"
    and "validate expected = Inr ()"
  using assms
  by (auto simp: loop_guard_def in_guard_def loop_result_def Let_def rbind_eq_Inr split: if_splits sum.splits)

lemma loop_publish_cases:
  assumes "loop_publish s m token observer record expected validate db0 db = (res, db')"
  obtains (unchanged) "db' = db"
      and "res = Inr () \<Longrightarrow> \<exists>p \<in> set (loop_publications s db). pb_idempotency_key p = rn_head record
        \<and> pb_request_fingerprint p = sha256_hex (run_bytes s record)"
  | (committed) c where "db' = committed c db"
      and "c = observed_command observer (loop_physical s record expected validate (companions_of s db0 record))"
      and "rn_tenant record = sl_tenant s" and "loop_guard s record expected validate db = Inr None"
      and "find_publication c db = None" and "distinct (map ph_record_id (pc_records c))"
      and "\<forall>r \<in> set (pc_records c). (sl_tenant s, ph_record_id r) \<notin> record_key ` set (db_records db)"
proof (cases "rn_tenant record = sl_tenant s")
  case False
  then have "db' = db" and "res \<noteq> Inr ()"
    using assms by (auto simp: loop_publish_def)
  then show thesis
    by (intro that(1)) simp_all
next
  case True
  define c where "c = observed_command observer (loop_physical s record expected validate (companions_of s db0 record))"
  obtain pres where p: "publish m token c None db = (pres, db')"
    and res: "res = Inr () \<Longrightarrow> \<exists>v. pres = Inr v \<and> (pu_disposition v = D_COMMITTED \<or> pu_disposition v = D_REPLAY)"
    using assms True by (auto simp: loop_publish_def c_def split: prod.splits sum.splits if_splits)
  from p show thesis
  proof (cases rule: publish_cases)
    case unchanged
    have "\<exists>p \<in> set (loop_publications s db). pb_idempotency_key p = rn_head record
        \<and> pb_request_fingerprint p = sha256_hex (run_bytes s record)" if ok: "res = Inr ()"
    proof -
      obtain v where v: "pres = Inr v" "pu_disposition v = D_REPLAY"
        using res [OF ok] unchanged(2) by blast
      obtain row where row: "find_publication c db = Some row" "pb_request_fingerprint row = pc_request_fingerprint c"
        using publish_replayed p v by blast
      then show ?thesis
        by (auto simp: find_publication_def loop_publications_def kind_publications_def c_def find_Some_iff
            intro!: bexI [of _ row] dest: nth_mem)
    qed
    then show thesis
      using unchanged(1) by (intro that(1))
  next
    case committed
    have "loop_guard s record expected validate db = Inr None"
      using publish_guard_passed [OF publish_admitted [OF p]] committed(6) committed_neq by (simp add: c_def)
    then show thesis
      using committed True by (intro that(2) [of c]) (simp_all add: c_def)
  qed
qed

lemma loop_rows_committed:
  assumes "companions_foreign s"
  shows "loop_rows s (committed (observed_command observer (loop_physical s r x v (companions_of s db0 r))) db) =
     loop_rows s db @ [\<lparr>rr_tenant_id = sl_tenant s, rr_record_id = rn_head r, rr_owner = LOOP_OWNER,
       rr_schema_id = LOOP_SCHEMA, rr_canonical_bytes = run_bytes s r,
       rr_commit_sequence = Suc (current_head (sl_tenant s) db)\<rparr>]"
proof -
  have "filter (\<lambda>row. rr_tenant_id row = sl_tenant s \<and> rr_owner row = LOOP_OWNER)
      (map (record_row (sl_tenant s) n) (map companion_record (companions_of s db0 r))) = []" for n
    using assms by (auto simp: filter_empty_conv companions_foreign_def record_row_def companion_record_def)
  then show ?thesis
    by (simp add: loop_rows_def owner_rows_def committed_tables record_row_def)
qed

lemma loop_publications_committed:
  "loop_publications s (committed (observed_command observer (loop_physical s r x v cs)) db) =
     loop_publications s db @ [\<lparr>pb_tenant_id = sl_tenant s, pb_operation_kind = ''agent_loop'',
       pb_idempotency_key = rn_head r, pb_request_fingerprint = sha256_hex (run_bytes s r),
       pb_commit_sequence = Suc (current_head (sl_tenant s) db),
       pb_record_ids = join_lines (rn_head r # map cm_record_id cs)\<rparr>]"
  by (simp add: loop_publications_def kind_publications_def committed_tables companion_record_def comp_def)

lemma loop_bound_mono:
  "loop_bound s db row p \<Longrightarrow> set (db_records db) \<subseteq> set (db_records db') \<Longrightarrow> loop_bound s db' row p"
  unfolding loop_bound_def by (meson subsetD)

lemma loop_log_committed:
  assumes "companions_foreign s" and "sl_parse s (run_bytes s r) = Some r"
  shows "loop_log s (committed (observed_command observer (loop_physical s r x v (companions_of s db0 r))) db)
    = loop_log s db @ [r]"
  using assms by (simp add: loop_log_def loop_rows_committed row_run_def)

lemma loop_store_ok_committed:
  assumes ok: "loop_store_ok s db" and foreign: "companions_foreign s"
    and parse: "sl_parse s (run_bytes s r) = Some r"
    and c: "c = observed_command observer (loop_physical s r x v (companions_of s db0 r))"
    and tenant: "rn_tenant r = sl_tenant s"
    and valid: "validate_record (sl_codec s) (last_of (rn_run_id r) (loop_log s db)) r None = Inr ()"
    and absent: "find_publication c db = None" and distinct: "distinct (map ph_record_id (pc_records c))"
    and fresh: "\<forall>r \<in> set (pc_records c). (sl_tenant s, ph_record_id r) \<notin> record_key ` set (db_records db)"
  shows "loop_store_ok s (committed c db)"
proof -
  have grow: "set (db_records db) \<subseteq> set (db_records (committed c db))"
    by (simp add: committed_tables)
  have "ledger_ok (committed c db)"
    using ok absent distinct fresh by (intro ledger_ok_committed) (simp_all add: loop_store_ok_def c)
  moreover have "list_all2 (loop_bound s (committed c db)) (loop_rows s (committed c db)) (loop_publications s (committed c db))"
  proof -
    have "list_all2 (loop_bound s (committed c db)) (loop_rows s db) (loop_publications s db)"
      using ok grow by (auto simp: loop_store_ok_def intro: list_all2_mono loop_bound_mono)
    moreover have "companion_row s (Suc (current_head (sl_tenant s) db)) k \<in> set (db_records (committed c db))"
      if "k \<in> set (companions_of s db0 r)" for k
      using that by (simp add: committed_tables c companion_row_def)
    ultimately show ?thesis
      unfolding c loop_rows_committed [OF foreign] loop_publications_committed
      using parse tenant by (intro list_all2_appendI) (auto simp: loop_bound_def)
  qed
  moreover have "sorted_wrt (<) (map rr_commit_sequence (loop_rows s (committed c db)))"
    using ok owner_rows_bound [of db _ LOOP_OWNER "sl_tenant s", folded loop_rows_def]
    by (auto simp: c loop_rows_committed [OF foreign] loop_store_ok_def sorted_wrt_append less_Suc_eq_le)
  moreover have "log_valid (sl_codec s) (loop_log s (committed c db))"
    using ok valid by (simp add: c loop_log_committed [OF foreign parse] loop_store_ok_def)
  ultimately show ?thesis
    by (simp add: loop_store_ok_def)
qed

lemma loop_log_has:
  assumes "loop_store_ok s db" and "p \<in> set (loop_publications s db)"
  shows "\<exists>r \<in> set (loop_log s db). rn_head r = pb_idempotency_key p \<and> sha256_hex (run_bytes s r) = pb_request_fingerprint p"
proof -
  from assms obtain row where "row \<in> set (loop_rows s db)" and bound: "loop_bound s db row p"
    unfolding loop_store_ok_def by (metis in_set_conv_nth list_all2_conv_all_nth)
  then have "row_run s row \<in> set (loop_log s db)"
    by (simp add: loop_log_def)
  with bound show ?thesis
    by (intro bexI [of _ "row_run s row"]) (auto simp: loop_bound_def row_run_def)
qed

text \<open>
  A publication of a record that pydantic reads back as it was written appends that record, decided on the
  snapshot of this very database, or changes nothing.
\<close>

lemma loop_publish_commit:
  assumes ok: "loop_store_ok s db" and foreign: "companions_foreign s"
    and parse: "sl_parse s (run_bytes s record) = Some record"
    and p: "loop_publish s m token observer record expected validate db0 db = (res, db')" and change: "db' \<noteq> db"
  shows "loop_store_ok s db'" and "loop_log s db' = loop_log s db @ [record]" and "loop_snapshot s db = Inr expected"
    and "validate expected = Inr ()"
    and "validate_record (sl_codec s) (last_of (rn_run_id record) (loop_log s db)) record None = Inr ()"
    and "current_head (sl_tenant s) db' = Suc (current_head (sl_tenant s) db)" and "db_fences db' = db_fences db"
    and "rn_tenant record = sl_tenant s"
proof -
  from p obtain c where committed: "db' = committed c db"
    "c = observed_command observer (loop_physical s record expected validate (companions_of s db0 record))"
    "rn_tenant record = sl_tenant s" "loop_guard s record expected validate db = Inr None"
    "find_publication c db = None" "distinct (map ph_record_id (pc_records c))"
    "\<forall>r \<in> set (pc_records c). (sl_tenant s, ph_record_id r) \<notin> record_key ` set (db_records db)"
    using change by (cases rule: loop_publish_cases) auto
  note guard = loop_guard_passed [OF committed(4)]
  have "lo_records expected = loop_log s db"
    using loop_snapshot_sound(1) [OF ok guard(1)] by simp
  with guard(2) show valid: "validate_record (sl_codec s) (last_of (rn_run_id record) (loop_log s db)) record None = Inr ()"
    by simp
  show "loop_store_ok s db'"
    unfolding committed(1) by (rule loop_store_ok_committed [OF ok foreign parse committed(2,3) valid committed(5-7)])
  show "loop_log s db' = loop_log s db @ [record]"
    unfolding committed(1,2) by (rule loop_log_committed [OF foreign parse])
  show "current_head (sl_tenant s) db' = Suc (current_head (sl_tenant s) db)"
    by (simp add: committed(1,2) current_head_committed)
  show "db_fences db' = db_fences db"
    by (simp add: committed(1) committed_tables)
  show "loop_snapshot s db = Inr expected" "validate expected = Inr ()" "rn_tenant record = sl_tenant s"
    using guard committed(3) by simp_all
qed

text \<open>An accepted publication is in the log, under its identity; a replay finds it there.\<close>

lemma loop_publish_accepted:
  assumes ok: "loop_store_ok s db" and foreign: "companions_foreign s"
    and parse: "db' = db \<or> sl_parse s (run_bytes s record) = Some record"
    and p: "loop_publish s m token observer record expected validate db0 db = (Inr (), db')"
  shows "run_key (sl_codec s) record \<in> run_key (sl_codec s) ` set (loop_log s db')"
proof (cases "db' = db")
  case True
  from p obtain q where "q \<in> set (loop_publications s db)" "pb_idempotency_key q = rn_head record"
    "pb_request_fingerprint q = sha256_hex (run_bytes s record)"
    by (cases rule: loop_publish_cases) (use True committed_neq [THEN not_sym] in auto)
  with loop_log_has [OF ok, of q] obtain r where "r \<in> set (loop_log s db)"
    "run_key (sl_codec s) record = run_key (sl_codec s) r"
    by (auto simp: run_key_def json_digest_def)
  then show ?thesis
    by (simp add: True)
next
  case False
  then show ?thesis
    using loop_publish_commit(2) [OF ok foreign _ p False] parse by simp
qed

text \<open>
  An admissible record is accepted: decided on the current snapshot, not yet published, and
  refused neither by the writer nor by the authority.
\<close>

lemma loop_publish_commits:
  assumes snapshot: "loop_snapshot s db = Inr x" and tenant: "rn_tenant record = sl_tenant s"
    and x: "x = \<lparr>lo_tenant_head = current_head (sl_tenant s) db, lo_records = loop_log s db\<rparr>"
    and c: "c = observed_command observer (loop_physical s record x v (companions_of s db0 record))"
    and valid: "validate_record (sl_codec s) (last_of (rn_run_id record) (loop_log s db)) record None = Inr ()" "v x = Inr ()"
    and authority: "sl_authority s = Some z" "tz_validate z (last_of (rn_run_id record) (loop_log s db)) record = Inr ()"
      "tz_committed z record = Inr ()"
    and writer: "publish_preflight m token c db = Inr True" "require_ready_bundle m True A_PUBLICATION None db = Inr ()"
      "publish_decision m c (Suc (current_head (sl_tenant s) db)) (committed c db) = Inr None"
    and fresh: "find_publication c db = None" "distinct (map ph_record_id (pc_records c))"
      "\<forall>r \<in> set (pc_records c). (sl_tenant s, ph_record_id r) \<notin> record_key ` set (db_records db)"
  shows "loop_publish s m token observer record x v db0 db = (Inr (), committed c db)"
proof -
  have guard: "loop_guard s record x v db = Inr None"
    using snapshot valid authority by (simp add: loop_guard_def in_guard_def loop_result_def x)
  have plain: "pc_expected_preimage_commitment c = None" "pc_fault c = NO_FAULT"
    "\<not> requires_owner_publication_resolver ''agent_loop''"
    by (cases observer; simp add: c observed_command_def loop_physical_def Let_def)+
      (simp add: requires_owner_publication_resolver_def COMPLETE_ACCEPTANCE_V2_def NATIVE_EXECUTION_PUBLICATION_OPERATIONS_def
        DELIVERY_WORK_OPERATIONS_def)
  have "publish_admission m c None db = Inr None"
    using guard plain writer(2) by (simp add: publish_admission_def c x)
  from publish_commits [OF writer(1) fresh(1) this fresh(2)] show ?thesis
    using fresh(3) writer(3) plain(2) tenant authority by (simp add: loop_publish_def c)
qed

abbreviation loop_foreign :: "Database \<Rightarrow> Database \<Rightarrow> bool" where
  "loop_foreign \<equiv> foreign_change ''agent_loop'' LOOP_OWNER"

lemma loop_foreign_ok:
  assumes "loop_store_ok s db" and "loop_foreign db db'"
  shows "loop_store_ok s db'" and "loop_log s db' = loop_log s db"
proof -
  have same: "loop_rows s db' = loop_rows s db" "loop_publications s db' = loop_publications s db"
    "set (db_records db) \<subseteq> set (db_records db')"
    using foreign_change_tables [OF assms(2)] by (simp_all add: same_tables_def loop_rows_def loop_publications_def)
  then show log: "loop_log s db' = loop_log s db"
    by (simp add: loop_log_def)
  have "list_all2 (loop_bound s db') (loop_rows s db) (loop_publications s db)"
    using assms(1) same(3) by (auto simp: loop_store_ok_def intro: list_all2_mono loop_bound_mono)
  then show "loop_store_ok s db'"
    using assms(1) foreign_change_ledger [OF _ assms(2)] by (simp add: loop_store_ok_def same log)
qed

text \<open>The adapter implements the port. What the writer chooses is its token, its observer and the materialiser.\<close>

definition loop_port_publish ::
  "SQLiteLoopStore \<Rightarrow> Materializer \<times> nat \<times> (PhysicalPublicationCommand \<Rightarrow> string \<Rightarrow> (StoreError, unit) result) option
     \<Rightarrow> RunRecord \<Rightarrow> LoopSnapshot \<Rightarrow> (LoopSnapshot \<Rightarrow> (LoopError, unit) result) \<Rightarrow> Database \<Rightarrow> Database
     \<Rightarrow> (LoopStoreError, unit) result \<times> Database" where
  "loop_port_publish s = (\<lambda>(m, token, observer). loop_publish s m token observer)"

definition loop_store_good :: "SQLiteLoopStore \<Rightarrow> Database \<Rightarrow> bool" where
  "loop_store_good s db \<longleftrightarrow> companions_foreign s \<and> loop_store_ok s db"

definition round_trips :: "SQLiteLoopStore \<Rightarrow> RunRecord \<Rightarrow> bool" where
  "round_trips s r \<longleftrightarrow> sl_parse s (run_bytes s r) = Some r"

interpretation sqlite_loop: loop_store "sl_codec s" "loop_snapshot s" "loop_port_publish s" loop_foreign
    "loop_store_good s" "loop_log s" "round_trips s"
proof (unfold_locales, goal_cases)
  case (1 db db' r e x v db0 outcome)
  then show ?case
    using loop_publish_commit(1) by (cases "db' = db") (auto simp: loop_store_good_def loop_port_publish_def round_trips_def split: prod.splits)
next
  case (2 db r e x v db0 outcome db')
  then obtain m token observer where p: "loop_publish s m token observer r x v db0 db = (outcome, db')"
    by (cases e) (auto simp: loop_port_publish_def)
  have ok: "loop_store_ok s db" and foreign: "companions_foreign s" and parse: "sl_parse s (run_bytes s r) = Some r"
    using 2 by (simp_all add: loop_store_good_def round_trips_def)
  show ?case
    using loop_publish_commit(2-5) [OF ok foreign parse p 2(4)] loop_snapshot_sound(1) [OF ok] by auto
next
  case (3 db db' r e x v db0)
  then show ?case
    using loop_publish_accepted by (auto simp: loop_store_good_def loop_port_publish_def round_trips_def split: prod.splits)
qed (auto simp: loop_store_good_def intro: loop_foreign_ok)

end
