(* ===== verification/Loop_World_Sample.thy ===== *)
theory Loop_World_Sample
  imports Loop_Port Loop_Sample Sha256_Eval
begin

text \<open>
  A sample history of the agent loop for the witnesses: an instance over the SQLite store creates the sample
  Run, activates it and takes one step up to the call of the model. The records it publishes are told apart
  by their evaluated digests.
\<close>

section \<open>The records of the history\<close>

definition ws_agent :: AgentLoop where
  "ws_agent =
     \<lparr>ag_tenant = ''t'', ag_principal = ''p'', ag_origin = wl_origin, ag_contour = ''k'', ag_policy = ''q'',
      ag_worker = ''w'', ag_has_planning = False, ag_has_workspace = False, ag_has_session = True,
      ag_owner_session = ''s1'', ag_codec = wl_codec, ag_parse = \<lambda>raw artifact. Inl ResponseInvalid,
      ag_invalid_text = \<lambda>run. ''invalid'', ag_dump_receipt = \<lambda>r. JNull, ag_dump_outcome = \<lambda>x. JNull\<rparr>"

definition ws_content :: string where
  "ws_content = dumps_ascii (JObj [(''prompt'', JStr ''go''), (''workspace'', JNull),
     (''planning_receipts'', JArr []), (''prior_turns'', JArr [])])"

definition ws_artifact :: PromptArtifact where
  "ws_artifact = (wl_artifact ''g'')\<lparr>pa_rendered := ws_content\<rparr>"

definition ws_members :: "VisibilityMember list" where
  "ws_members =
     [\<lparr>vm_record_id = ''r/context/1'', vm_revision_head = rn_head wl_started, vm_content = ws_content,
       vm_provenance_head = rn_head wl_started, vm_label_head = ''k'', vm_label = wl_label, vm_producer = ''agent_loop'',
       vm_surface = ''context''\<rparr>,
      \<lparr>vm_record_id = PROMPT_RECORD, vm_revision_head = ''a'', vm_content = ws_content, vm_provenance_head = ''a'',
       vm_label_head = ''q'', vm_label = wl_label, vm_producer = ''promptstrings'', vm_surface = ''prompt''\<rparr>,
      \<lparr>vm_record_id = ''turn-schema/1'', vm_revision_head = json_digest (JStr ''a''), vm_content = ''null'',
       vm_provenance_head = json_digest (JStr ''a''), vm_label_head = ''q'',
       vm_label = \<lparr>ll_value = LL_UNRESTRICTED, ll_allowed_endpoints = []\<rparr>, vm_producer = ''agent_loop'',
       vm_surface = ''schema''\<rparr>]"

definition ws_accumulated :: RunRecord where
  "ws_accumulated =
     with_turn wl_codec wl_started ((new_turn wl_active)\<lparr>tn_accumulator := ws_members\<rparr>) ''TurnVisibilityAccumulated''"

definition ws_turn :: Turn where
  "ws_turn = last (rn_turns ws_accumulated)"

definition ws_manifest :: VisibilityManifest where
  "ws_manifest = \<lparr>mf_tenant = ''t'', mf_principal = ''p'', mf_contour_head = ''k'', mf_run_id = ''r'',
     mf_turn_id = tn_turn_id ws_turn, mf_generation = 0, mf_worker_session = ''s1'', mf_members = ws_members,
     mf_joined_label = wl_label, mf_artifact = ws_artifact\<rparr>"

definition ws_attempt :: ModelAttempt where
  "ws_attempt = initial_attempt wl_codec ws_accumulated ws_turn ws_manifest"

definition ws_prepared :: RunRecord where
  "ws_prepared = with_turn wl_codec ws_accumulated (ws_turn\<lparr>tn_attempts := [ws_attempt], tn_state := CALL_ACTIVE\<rparr>)
     ''ModelAttemptPrepared''"

definition ws_emitted :: RunRecord where
  "ws_emitted = with_turn wl_codec ws_prepared (set_selected (last (rn_turns ws_prepared))
     (headed_attempt wl_codec ''ModelAttemptEmitted'' (ws_attempt\<lparr>ma_state := EMITTED_OUTCOME_UNKNOWN\<rparr>)))
     ''ModelAttemptEmitted''"

lemma ws_created: "created_run ws_agent ''r'' ''go'' wl_policy = wl_created"
  by (simp add: created_run_def ws_agent_def wl_created_def wl_codec_def Let_def)

lemma wl_started_more:
  "rn_prompt wl_started = ''go''" "rn_planning_receipts wl_started = []" "rn_policy_head wl_started = ''q''"
  "rn_worker_session wl_started = ''w''"
  by (simp_all add: wl_started_def wl_active_def wl_created_def run_successor_def Let_def)

lemma ws_content_step: "step_content ws_agent wl_started None = Inr ws_content"
  by (simp add: step_content_def wl_started_fields wl_started_more ws_content_def json_opt_def)

lemma wl_started_label: "context_label wl_started = Inr wl_label"
  unfolding context_label_def
  by (rule wl_label_join) (simp add: wl_started_fields wl_policy_def wl_origin_def wl_label_def)

lemma nat_str_one: "nat_str (Suc 0) = ''1''"
  by code_simp

lemma ws_members_step: "step_members ws_agent ''r'' wl_started None ws_content ws_artifact = Inr ws_members"
proof -
  have "rn_head wl_started \<noteq> []"
    by (simp add: wl_started_def run_successor_def Let_def)
  moreover have "json_digest j \<noteq> []" "[] \<noteq> json_digest j" for j
    by (simp_all add: json_digest_def not_sym)
  moreover have "dump_artifact wl_codec ws_artifact = JStr ''a''" "pa_content_hash ws_artifact = ''a''"
    "pa_rendered ws_artifact = ws_content" "pa_response_schema_json ws_artifact = ''null''"
    by (simp_all add: wl_codec_def ws_artifact_def wl_artifact_def)
  ultimately show ?thesis
    by (simp add: step_members_def visibility_member_def wl_started_label wl_started_fields wl_started_more
        ws_members_def ws_agent_def PROMPT_RECORD_def nat_str_one Let_def)
qed

lemma ws_accumulated_step: "accumulate wl_codec wl_started ws_members = Inr ws_accumulated"
proof -
  have "current_turn wl_started = Inr (new_turn wl_active)"
    by (simp add: current_turn_eq wl_started_fields)
  moreover have "rfold accumulate_member ws_members [] = Inr ws_members"
    using accumulate_fresh [of "[]" ws_members] by (simp add: ws_members_def PROMPT_RECORD_def)
  ultimately show ?thesis
    by (simp add: accumulate_def ws_accumulated_def new_turn_def Let_def)
qed

lemma ws_accumulated_fields:
  "rn_state ws_accumulated = ACTIVE" "rn_turns ws_accumulated = [ws_turn]" "rn_policy ws_accumulated = wl_policy"
  "rn_tenant ws_accumulated = ''t''" "rn_principal ws_accumulated = ''p''" "rn_run_id ws_accumulated = ''r''"
  "rn_contour_head ws_accumulated = ''k''" "rn_origin ws_accumulated = wl_origin"
  "rn_predecessor ws_accumulated = Some (rn_head wl_started)"
  by (simp_all add: ws_accumulated_def ws_turn_def wl_started_fields with_turn_identity)

lemma ws_turn_fields:
  "tn_state ws_turn = PREPARING" "tn_attempts ws_turn = []" "tn_accumulator ws_turn = ws_members" "tn_selector ws_turn = 0"
  "tn_sealed_calls ws_turn = None"
  by (simp_all add: ws_turn_def ws_accumulated_def headed_turn_def new_turn_def Let_def)

lemma ws_label_join: "join_labels (map vm_label ws_members) = Inr wl_label"
proof (rule join_labels_eqI)
  show "\<forall>x \<in> set (map vm_label ws_members). canonical_label x" "canonical_label wl_label"
    by (simp_all add: ws_members_def wl_label_def canonical_label_def sorted_set_def)
qed (simp_all add: ws_members_def admits.simps)

lemma ws_manifest_step: "step_manifest ws_agent ''r'' wl_active ws_accumulated ws_members ws_artifact = Inr ws_manifest"
proof -
  have "rn_tenant wl_active = ''t''" "rn_principal wl_active = ''p''" "rn_contour_head wl_active = ''k''"
    by (simp_all add: wl_active_def wl_created_def run_successor_def Let_def)
  then show ?thesis
    by (simp add: step_manifest_def ws_label_join ws_manifest_def ws_turn_def) (simp add: ws_agent_def)
qed

lemma substring_self: "substring xs xs"
  by (cases xs) simp_all

lemma ws_closure: "require_closure wl_codec ws_accumulated ws_manifest = Inr ()"
proof -
  have "context_label ws_accumulated = Inr wl_label"
    unfolding context_label_def
    by (rule wl_label_join) (simp add: ws_accumulated_fields wl_policy_def wl_origin_def wl_label_def)
  moreover have "dump_artifact wl_codec ws_artifact = JStr ''a''"
    by (simp add: wl_codec_def ws_artifact_def wl_artifact_def)
  ultimately show ?thesis
    by (simp add: require_closure_def ws_manifest_def ws_members_def ws_accumulated_fields)
      (simp add: ws_artifact_def wl_artifact_def substring_self)
qed

lemma ws_request_length: "length (encode (dumps_ascii (request_json wl_codec ws_manifest))) \<le> 200"
proof -
  have "dumps_ascii (request_json wl_codec ws_manifest) =
      ''{'' @ quote_ascii ''manifest'' @ '':'' @ quote_ascii (json_digest (dump_manifest wl_codec ws_manifest)) @ '','' @
      quote_ascii ''prompt'' @ '':'' @ quote_ascii ws_content @ '','' @ quote_ascii ''schema'' @ '':'' @ quote_ascii ''null'' @ ''}''"
    by (simp add: dumps_ascii_def request_json_def ws_manifest_def ws_artifact_def wl_artifact_def)
  moreover have "length (quote_ascii ''manifest'') = 10" "length (quote_ascii ''prompt'') = 8"
      "length (quote_ascii ''schema'') = 8" "length (quote_ascii ''null'') = 6"
    by code_simp+
  moreover have "length (quote_ascii ws_content) \<le> 90"
    by code_simp
  ultimately show ?thesis
    by (simp add: encode_def length_quoted_digest)
qed

lemma ws_prepared_step: "prepare_attempt wl_codec ws_accumulated ws_manifest = Inr ws_prepared"
proof -
  have "current_turn ws_accumulated = Inr ws_turn"
    by (simp add: current_turn_eq ws_accumulated_fields)
  moreover have "manifest_exact ws_accumulated ws_turn ws_manifest"
    by (simp add: manifest_exact_def ws_manifest_def ws_accumulated_fields ws_turn_fields)
  moreover have "live_authorized ws_accumulated wl_label"
    by (simp add: live_authorized_def ws_accumulated_fields wl_policy_def)
  moreover have "ws_members \<noteq> []"
    by (simp add: ws_members_def)
  moreover have "mf_joined_label ws_manifest = wl_label"
    by (simp add: ws_manifest_def)
  moreover have "bp_max_request_bytes wl_policy = 200"
    by (simp add: wl_policy_def)
  ultimately show ?thesis
    using ws_closure ws_request_length ws_label_join
    by (simp add: prepare_attempt_def ws_turn_fields ws_accumulated_fields ws_prepared_def ws_attempt_def)
qed

lemma ws_prepared_attempt: "current_attempt ws_prepared PREPARED_NOT_EMITTED = Inr ws_attempt"
  by (simp add: current_attempt_eq ws_prepared_def ws_accumulated_fields selected_def headed_turn_def ws_turn_fields
      ws_attempt_def initial_attempt_def Let_def)

lemma ws_emitted_step: "emit_attempt wl_codec ws_prepared = Inr ws_emitted"
proof -
  have "rn_state ws_prepared = ACTIVE" "rn_turns ws_prepared \<noteq> []"
    using ws_prepared_attempt by (simp_all add: current_attempt_eq)
  then show ?thesis
    by (simp add: emit_attempt_def ws_prepared_attempt with_attempt_eq ws_emitted_def)
qed

section \<open>The digests are different\<close>

definition ws_records :: "RunRecord list" where
  "ws_records = [wl_created, wl_active, wl_started, ws_accumulated, ws_prepared, ws_emitted]"

definition ws_events :: "string list" where
  "ws_events = [''RunCreated'', ''RunActive'', ''TurnStarted'', ''TurnVisibilityAccumulated'', ''ModelAttemptPrepared'',
     ''ModelAttemptEmitted'']"

definition event_text :: "string \<Rightarrow> string" where
  "event_text event = [CHR 0x22] @ event @ [CHR 0x22]"

text \<open>Four bits of each digest suffice.\<close>

definition digest_tag :: "string \<Rightarrow> bits" where
  "digest_tag t = take (Suc (Suc (Suc (Suc 0)))) (hd (bits_block (text_block t) (map bits_of sha256_h0)))"

lemma ws_tag_0: "digest_tag (event_text ''RunCreated'') = [False, False, True, False]"
  unfolding digest_tag_def event_text_def
  by (simp add: message_eval) (simp only: compress_eval list.sel take_Suc_Cons take_0)

lemma ws_tag_1: "digest_tag (event_text ''RunActive'') = [True, True, False, True]"
  unfolding digest_tag_def event_text_def
  by (simp add: message_eval) (simp only: compress_eval list.sel take_Suc_Cons take_0)

lemma ws_tag_2: "digest_tag (event_text ''TurnStarted'') = [False, True, True, False]"
  unfolding digest_tag_def event_text_def
  by (simp add: message_eval) (simp only: compress_eval list.sel take_Suc_Cons take_0)

lemma ws_tag_3: "digest_tag (event_text ''TurnVisibilityAccumulated'') = [True, True, False, False]"
  unfolding digest_tag_def event_text_def
  by (simp add: message_eval) (simp only: compress_eval list.sel take_Suc_Cons take_0)

lemma ws_tag_4: "digest_tag (event_text ''ModelAttemptPrepared'') = [True, True, True, True]"
  unfolding digest_tag_def event_text_def
  by (simp add: message_eval) (simp only: compress_eval list.sel take_Suc_Cons take_0)

lemma ws_tag_5: "digest_tag (event_text ''ModelAttemptEmitted'') = [True, False, False, True]"
  unfolding digest_tag_def event_text_def
  by (simp add: message_eval) (simp only: compress_eval list.sel take_Suc_Cons take_0)

lemmas ws_tags = ws_tag_0 ws_tag_1 ws_tag_2 ws_tag_3 ws_tag_4 ws_tag_5

lemma event_bytes: "event \<in> set ws_events \<Longrightarrow> canonical_json (JStr event) = map of_char (event_text event)"
proof -
  have "\<forall>event \<in> set ws_events. dumps (JStr event) = event_text event"
    by code_simp
  then show "event \<in> set ws_events \<Longrightarrow> canonical_json (JStr event) = map of_char (event_text event)"
    by (simp add: canonical_json_def encode_def)
qed

lemma event_digests:
  assumes "e \<in> set ws_events" and "f \<in> set ws_events" and "e \<noteq> f"
  shows "json_digest (JStr e) \<noteq> json_digest (JStr f)"
proof -
  have "\<forall>e \<in> set ws_events. length (event_text e) < 32"
    by (simp add: ws_events_def event_text_def)
  then have "length (event_text e) < 32" "length (event_text f) < 32"
    using assms(1,2) by blast+
  moreover have "distinct (map (\<lambda>e. digest_tag (event_text e)) ws_events)"
    unfolding ws_events_def list.map ws_tags by simp
  then have "digest_tag (event_text e) \<noteq> digest_tag (event_text f)"
    using assms unfolding distinct_map inj_on_def by blast
  then have "text_digest (event_text e) \<noteq> text_digest (event_text f)"
    by (auto simp: digest_tag_def text_digest_def)
  ultimately show ?thesis
    using sha256_text_differs event_bytes [OF assms(1)] event_bytes [OF assms(2)] by (simp add: json_digest_def)
qed

lemma ws_record_fields:
  "map rn_event ws_records = ws_events" "\<forall>r \<in> set ws_records. rn_run_id r = ''r'' \<and> rn_tenant r = ''t''"
  "\<forall>r \<in> set ws_records. rn_head r = ''loop:'' @ json_digest (JStr (rn_event r))"
proof -
  have prepared: "rn_run_id ws_prepared = ''r''" "rn_tenant ws_prepared = ''t''"
    by (simp_all add: ws_prepared_def with_turn_identity ws_accumulated_fields)
  have head: "rn_head (with_turn wl_codec run turn event) = ''loop:'' @ json_digest (JStr event)"
    "rn_head (run_successor wl_codec run event changes) = ''loop:'' @ json_digest (JStr event)" for run turn event changes
    by (simp_all add: with_turn_def run_successor_def wl_codec_def Let_def)
  have event: "rn_event (run_successor wl_codec run event changes) = event" for run event changes
    by (simp add: run_successor_def Let_def)
  show "map rn_event ws_records = ws_events"
    by (simp add: ws_records_def ws_events_def ws_accumulated_def ws_prepared_def ws_emitted_def wl_created_def
        wl_active_def wl_started_def event)
  show "\<forall>r \<in> set ws_records. rn_run_id r = ''r'' \<and> rn_tenant r = ''t''"
    by (simp add: ws_records_def ws_accumulated_fields prepared wl_started_fields ws_emitted_def with_turn_identity)
      (simp add: wl_active_def wl_created_def run_successor_def Let_def)
  show "\<forall>r \<in> set ws_records. rn_head r = ''loop:'' @ json_digest (JStr (rn_event r))"
    by (simp add: ws_records_def ws_accumulated_def ws_prepared_def ws_emitted_def wl_active_def wl_started_def head event)
      (simp add: wl_created_def)
qed

lemma ws_heads_distinct: "distinct (map rn_head ws_records)"
proof -
  have "map rn_head ws_records = map (\<lambda>e. ''loop:'' @ json_digest (JStr e)) ws_events"
    unfolding ws_record_fields(1) [symmetric] using ws_record_fields(3) by simp
  moreover have "distinct ws_events"
    by (simp add: ws_events_def)
  then have "distinct (map (\<lambda>e. ''loop:'' @ json_digest (JStr e)) ws_events)"
    using event_digests by (auto simp: distinct_map inj_on_def)
  ultimately show ?thesis by simp
qed

section \<open>The store\<close>

definition ws_authority :: TransitionAuthority where
  "ws_authority = \<lparr>tz_validate = \<lambda>previous r. Inr (), tz_companions = \<lambda>db r. [],
     tz_decide = \<lambda>r x commitment cs db. Inr (), tz_committed = \<lambda>r. Inr ()\<rparr>"

definition ws_store :: SQLiteLoopStore where
  "ws_store = \<lparr>sl_tenant = ''t'', sl_generation = ''g1'', sl_frontier = 5, sl_authority = Some ws_authority,
     sl_codec = wl_codec, sl_parse = \<lambda>raw. find (\<lambda>r. canonical_json (JStr (rn_event r)) = raw) ws_records\<rparr>"

definition ws_materializer :: Materializer where
  "ws_materializer = \<lparr>mt_writer_token = Some 7, mt_broker_ready = True, mt_has_gate = False,
     mt_checkpoint_enabled = False, mt_recovery_issuer = 0, mt_admission = None, mt_resolver = None,
     mt_record_pairs = [(LOOP_OWNER, LOOP_SCHEMA)], mt_derivative_contracts = [],
     mt_snapshot_bytes = \<lambda>tenant db. Inr []\<rparr>"

definition ws_database :: Database where
  "ws_database = (empty_database 0)\<lparr>db_fences := [(''t'', (''g1'', 5))]\<rparr>"

lemma ws_store_fields [simp]:
  "sl_tenant ws_store = ''t''" "sl_codec ws_store = wl_codec" "sl_authority ws_store = Some ws_authority"
  "sl_generation ws_store = ''g1''" "sl_frontier ws_store = 5" "companions_of ws_store db r = []"
  by (simp_all add: ws_store_def companions_of_def ws_authority_def)

lemma ws_foreign: "companions_foreign ws_store"
  by (simp add: companions_foreign_def)

lemma ws_readable: "companions_stable ws_store db" "companions_plain ws_store db"
  by (simp_all add: companions_stable_def companions_plain_def)

lemma ws_round_trips:
  assumes "r \<in> set ws_records"
  shows "round_trips ws_store r"
proof -
  have "find (\<lambda>y. canonical_json (JStr (rn_event y)) = canonical_json (JStr (rn_event r))) ws_records = Some r"
  proof (rule find_unique [where f = rn_event, OF assms])
    show "distinct (map rn_event ws_records)"
      by (simp add: ws_record_fields(1) ws_events_def)
    show "canonical_json (JStr (rn_event y)) = canonical_json (JStr (rn_event r)) \<longleftrightarrow> rn_event y = rn_event r" for y
      by (auto dest: canonical_json_inj)
  qed
  then show ?thesis
    by (simp add: round_trips_def ws_store_def wl_codec_def)
qed

text \<open>A database that holds exactly these records.\<close>

definition ws_holds :: "Database \<Rightarrow> RunRecord list \<Rightarrow> bool" where
  "ws_holds db L \<longleftrightarrow> loop_store_ok ws_store db \<and> loop_log ws_store db = L
     \<and> db_fences db = [(''t'', (''g1'', 5))] \<and> db_user_version db = 0
     \<and> (\<forall>row \<in> set (db_records db). rr_record_id row \<in> rn_head ` set L)
     \<and> (\<forall>p \<in> set (db_publications db). pb_idempotency_key p \<in> rn_head ` set L)"

lemma ws_holds_nothing: "ws_holds ws_database []"
  by (simp add: ws_holds_def ws_database_def empty_database_def loop_store_ok_def loop_log_def loop_rows_def
      loop_publications_def owner_rows_def kind_publications_def ledger_ok_def rows_of_def current_head_def)

abbreviation ws_snapshot :: "Database \<Rightarrow> RunRecord list \<Rightarrow> LoopSnapshot" where
  "ws_snapshot db L \<equiv> \<lparr>lo_tenant_head = current_head ''t'' db, lo_records = L\<rparr>"

lemma ws_snapshot_read: "ws_holds db L \<Longrightarrow> loop_snapshot ws_store db = Inr (ws_snapshot db L)"
  using loop_snapshot_complete [OF _ ws_readable, of db] by (simp add: ws_holds_def)

lemma ws_publish:
  assumes holds: "ws_holds db L" and r: "r \<in> set ws_records" and fresh: "rn_head r \<notin> rn_head ` set L"
    and valid: "validate_record wl_codec (last_of ''r'' L) r None = Inr ()" and v: "v (ws_snapshot db L) = Inr ()"
  obtains db' where "loop_publish ws_store ws_materializer 7 None r (ws_snapshot db L) v db db = (Inr (), db')"
    and "db' \<noteq> db" and "ws_holds db' (L @ [r])"
proof -
  define c where "c = observed_command None (loop_physical ws_store r (ws_snapshot db L) v [])"
  have ok: "loop_store_ok ws_store db" and log: "loop_log ws_store db = L"
    and fence: "db_fences db = [(''t'', (''g1'', 5))]" and profile: "db_user_version db = 0"
    and rows: "\<forall>row \<in> set (db_records db). rr_record_id row \<in> rn_head ` set L"
    and pubs: "\<forall>p \<in> set (db_publications db). pb_idempotency_key p \<in> rn_head ` set L"
    using holds by (simp_all add: ws_holds_def)
  have fields: "rn_run_id r = ''r''" "rn_tenant r = ''t''" "rn_head r = ''loop:'' @ json_digest (JStr (rn_event r))"
    using r ws_record_fields(2,3) by blast+
  have tables: "pc_tenant_id c = ''t''" "pc_operation_kind c = ''agent_loop''" "pc_idempotency_key c = rn_head r"
    "pc_fence_generation c = ''g1''" "pc_minimum_fence_frontier c = 5" "pc_expected_fence_frontier c = 5"
    "pc_records c = [\<lparr>ph_record_id = rn_head r, ph_owner = LOOP_OWNER, ph_schema_id = LOOP_SCHEMA,
      ph_canonical_bytes = run_bytes ws_store r, ph_fingerprint = sha256_hex (run_bytes ws_store r)\<rparr>]"
    "pc_authority_checkpoint_guard c = None"
    "pc_decision_guard c = Some (\<lambda>commitment db. Inr None)"
    by (simp_all add: c_def observed_command_def loop_physical_def ws_authority_def Let_def)
  have plain: "\<not> starts_with (rn_head r) ''delivery-work:''"
    by (simp add: fields(3) starts_with_def)
  have "loop_publish ws_store ws_materializer 7 None r (ws_snapshot db L) v db db = (Inr (), committed c db)"
  proof (rule loop_publish_commits [where z = ws_authority])
    show "publish_preflight ws_materializer 7 c db = Inr True"
      by (simp add: publish_preflight_def tables fence require_fence_def require_writer_def ws_materializer_def
          require_closed_delivery_work_publication_def requires_owner_publication_resolver_def LOOP_OWNER_def
          LOOP_SCHEMA_def H1_ONLY_PAIRS_def COMPLETE_ACCEPTANCE_V2_def DELIVERY_WORK_SCHEMA_def
          DELIVERY_WORK_OPERATIONS_def NATIVE_EXECUTION_PUBLICATION_OPERATIONS_def delivery_work_id_def plain)
    show "find_publication c db = None"
      using pubs fresh by (auto simp: find_publication_def tables find_None_iff) metis
    show "\<forall>r \<in> set (pc_records c). (sl_tenant ws_store, ph_record_id r) \<notin> record_key ` set (db_records db)"
      using rows fresh by (auto simp: tables record_key_def)
    show "publish_decision ws_materializer c (Suc (current_head (sl_tenant ws_store) db)) (committed c db) = Inr None"
      by (simp add: publish_decision_def tables ws_materializer_def requires_owner_publication_resolver_def
          COMPLETE_ACCEPTANCE_V2_def DELIVERY_WORK_OPERATIONS_def NATIVE_EXECUTION_PUBLICATION_OPERATIONS_def)
  qed (use valid v fields profile ws_snapshot_read [OF holds] in \<open>simp_all add: log c_def ws_authority_def require_ready_bundle_def ws_materializer_def
      tables [unfolded c_def]\<close>)
  moreover have "ws_holds (committed c db) (L @ [r])"
  proof -
    note commit = loop_publish_commit [OF ok ws_foreign _ calculation committed_neq]
    have "sl_parse ws_store (run_bytes ws_store r) = Some r"
      using ws_round_trips [OF r] by (simp add: round_trips_def)
    note commit [OF this]
    then show ?thesis
      using rows pubs fence profile by (auto simp: ws_holds_def log committed_tables tables)
  qed
  ultimately show thesis
    using that committed_neq by blast
qed

section \<open>The history\<close>

abbreviation ws_step :: "Database world \<Rightarrow> Database world \<Rightarrow> bool" where
  "ws_step \<equiv> world_step wl_codec (loop_snapshot ws_store) (loop_port_publish ws_store) loop_foreign"

definition ws_idle :: "Database \<Rightarrow> loop_event list \<Rightarrow> Database world" where
  "ws_idle db es = \<lparr>wd_store = db, wd_worker = ''s1'', wd_active = [], wd_trace = es\<rparr>"

definition ws_world :: "Database \<Rightarrow> loop_reply task \<Rightarrow> loop_event list \<Rightarrow> Database world" where
  "ws_world db t es = (ws_idle db es)\<lparr>wd_active := [(ws_agent, Running t)]\<rparr>"

lemma ws_agent_fields [simp]:
  "ag_codec ws_agent = wl_codec" "ag_has_session ws_agent" "ag_owner_session ws_agent = ''s1''" "\<not> ag_has_workspace ws_agent"
  by (simp_all add: ws_agent_def)

lemma ws_request: "ws_step (ws_idle db es) (ws_world db (serve ws_agent q) es)"
  using world_step.request [of ws_agent wl_codec _ _ _ "ws_idle db es" q] by (simp add: ws_idle_def ws_world_def)

lemma ws_ended: "ws_step (ws_world db t es) (ws_idle db es)"
  using world_step.ended [of "ws_world db t es" "[]" "(ws_agent, Running t)" "[]"] by (simp add: ws_idle_def ws_world_def)

lemma ws_move:
  assumes "task_move (loop_snapshot ws_store db) ''s1'' t t'"
  shows "ws_step (ws_world db t es) (ws_world db t' es)"
  using world_step.moved [of "ws_world db t es" "[]" ws_agent t "[]" "loop_snapshot ws_store" t'] assms
  by (simp add: ws_idle_def ws_world_def)

lemma ws_then:
  assumes "ws_step\<^sup>*\<^sup>* A B" and "ws_step B C" and "ws_step\<^sup>*\<^sup>* C D"
  shows "ws_step\<^sup>*\<^sup>* A D"
  by (rule rtranclp_trans [OF assms(1) converse_rtranclp_into_rtranclp [where r = ws_step, OF assms(2,3)]])

lemma ws_snoc: "ws_step\<^sup>*\<^sup>* A B \<Longrightarrow> ws_step B C \<Longrightarrow> ws_step\<^sup>*\<^sup>* A C"
  by (rule rtranclp.rtrancl_into_rtrancl)

lemma ws_trans: "ws_step\<^sup>*\<^sup>* A B \<Longrightarrow> ws_step\<^sup>*\<^sup>* B C \<Longrightarrow> ws_step\<^sup>*\<^sup>* A C"
  by (rule rtranclp_trans)

text \<open>A request that runs up to some point of its coroutine and is then dropped.\<close>

lemma ws_session:
  assumes "ws_step\<^sup>*\<^sup>* (ws_world db (serve ws_agent q) es) (ws_world db' t es')"
  shows "ws_step\<^sup>*\<^sup>* (ws_idle db es) (ws_idle db' es')"
proof -
  have "ws_step\<^sup>*\<^sup>* (ws_idle db es) (ws_world db' t es')"
    using ws_request assms by (rule converse_rtranclp_into_rtranclp)
  then show ?thesis
    using ws_ended by (rule rtranclp.rtrancl_into_rtrancl)
qed

lemma ws_live: "ws_step\<^sup>*\<^sup>* (ws_world db (task_bind (live ws_agent) f) es) (ws_world db (f ()) es)"
proof -
  have "task_bind (live ws_agent) f = CurrentWorker (\<lambda>w. task_bind (lift_task (require_live ws_agent w)) f)"
    by (simp add: live_def)
  then have "ws_step (ws_world db (task_bind (live ws_agent) f) es)
      (ws_world db (task_bind (lift_task (require_live ws_agent ''s1'')) f) es)"
    using ws_move [OF task_move.intros(1)] by simp
  then show ?thesis
    by (simp add: require_live_def lift_task_def)
qed

lemma ws_read: "ws_holds db L \<Longrightarrow> ws_step (ws_world db (ReadLog k) es) (ws_world db (k (ws_snapshot db L)) es)"
  by (intro ws_move task_move.intros ws_snapshot_read)

lemma ws_write:
  assumes holds: "ws_holds db L" and "r \<in> set ws_records" and "rn_head r \<notin> rn_head ` set L"
    and "validate_record wl_codec (last_of ''r'' L) r None = Inr ()" and "v ''s1'' (ws_snapshot db L) = Inr ()"
  obtains db' where "ws_holds db' (L @ [r])"
    and "ws_step\<^sup>*\<^sup>* (ws_world db (PublishRun r (ws_snapshot db L) v t) es) (ws_world db' t (es @ [Committed ws_agent r ''s1'']))"
proof -
  obtain db' where p: "loop_publish ws_store ws_materializer 7 None r (ws_snapshot db L) (v ''s1'') db db = (Inr (), db')"
    and "db' \<noteq> db" and holds': "ws_holds db' (L @ [r])"
    using ws_publish [OF assms(1-4), of "v ''s1''"] assms(5) by blast
  let ?W = "ws_world db (PublishRun r (ws_snapshot db L) v t) es"
  let ?Q = "(ws_idle db es)\<lparr>wd_active := [(ws_agent, Queued db r (ws_snapshot db L) v t)]\<rparr>"
  have "ws_step ?W ?Q"
    using world_step.submitted [of ?W "[]" ws_agent r "ws_snapshot db L" v t "[]"] by (simp add: ws_idle_def ws_world_def)
  moreover have "ws_step ?Q (ws_world db' t (es @ [Committed ws_agent r ''s1'']))"
    using world_step.written [of ?Q "[]" ws_agent db r "ws_snapshot db L" v t "[]" "loop_port_publish ws_store"
        "(ws_materializer, 7, None)" "Inr ()" db'] p \<open>db' \<noteq> db\<close>
    by (simp add: ws_idle_def ws_world_def loop_port_publish_def)
  ultimately show thesis
    using that holds' by (meson converse_rtranclp_into_rtranclp rtranclp.rtrancl_refl)
qed

lemma ws_run_records: "set L \<subseteq> set ws_records \<Longrightarrow> run_records ''r'' (ws_snapshot db L) = L"
  using ws_record_fields(2) by (auto simp: run_records_def filter_id_conv)

lemma ws_last_of: "set L \<subseteq> set ws_records \<Longrightarrow> L \<noteq> [] \<Longrightarrow> last_of ''r'' L = Some (last L)"
  using ws_run_records [of L] by (simp add: last_of_def run_records_def)

text \<open>Publishing an owner decision on the last record of the sample Run.\<close>

lemma ws_publish_run:
  assumes holds: "ws_holds db L" and L: "set L \<subseteq> set ws_records" "L \<noteq> []" and lineage: "loop_lineage wl_codec L"
    and r: "r \<in> set ws_records" "rn_head r \<notin> rn_head ` set L" and step: "owner_step wl_codec None (last L) r"
    and check: "publish_check ws_agent (last L) r ''s1'' (ws_snapshot db L) = Inr ()"
  obtains db' where "ws_holds db' (L @ [r])" and "loop_lineage wl_codec (L @ [r])"
    and "ws_step\<^sup>*\<^sup>* (ws_world db (task_bind (publish_run ws_agent (last L) r) f) es)
       (ws_world db' (f ()) (es @ [Committed ws_agent r ''s1'']))"
proof -
  have last: "rn_run_id (last L) = ''r''"
    using L ws_record_fields(2) last_in_set by blast
  have ok: "run_ok wl_codec (last L)"
    using lineage_ok [OF lineage] L(2) by simp
  have "rn_event r \<in> set ws_events"
    using r(1) unfolding ws_record_fields(1) [symmetric] by simp
  then have plain: "rn_event r \<noteq> ''ModelAttemptReplacedWithoutExposure''"
    by (auto simp: ws_events_def)
  then have "validate_record wl_codec (last_of ''r'' L) r None = Inr ()"
    using validate_admitted [OF wl_codec_ok ok] plain_step [OF step] ws_last_of [OF L] by simp
  then obtain db' where holds': "ws_holds db' (L @ [r])"
    and wrote: "ws_step\<^sup>*\<^sup>* (ws_world db (PublishRun r (ws_snapshot db L) (publish_check ws_agent (last L) r) (f ())) es)
      (ws_world db' (f ()) (es @ [Committed ws_agent r ''s1'']))"
    by (rule ws_write [where v = "publish_check ws_agent (last L) r", OF holds r _ check])
  define k where "k x = task_bind (let records = run_records (rn_run_id (last L)) x in
      if records = [] \<or> last records \<noteq> last L then task_reject ''stale exact Run head''
      else PublishRun r x (publish_check ws_agent (last L) r) (Return ())) f" for x
  have first: "ws_step\<^sup>*\<^sup>* (ws_world db (task_bind (publish_run ws_agent (last L) r) f) es) (ws_world db (ReadLog k) es)"
    using ws_live [of db "\<lambda>_. ReadLog k" es] by (simp add: publish_run_def task_bind_assoc k_def [abs_def])
  have "ws_step (ws_world db (ReadLog k) es)
      (ws_world db (PublishRun r (ws_snapshot db L) (publish_check ws_agent (last L) r) (f ())) es)"
    using ws_read [OF holds, of k] L by (simp add: k_def last ws_run_records Let_def)
  from ws_then [OF first this wrote] show thesis
    by (rule that [OF holds' lineage_extend [OF lineage wl_codec_ok refl step plain]])
qed

lemma ws_expected_run:
  assumes holds: "ws_holds db L" and L: "set L \<subseteq> set ws_records" "L \<noteq> []" and bound: "bound_here ws_agent (last L)"
  shows "ws_step\<^sup>*\<^sup>* (ws_world db (task_bind (expected_run ws_agent ''r'' (rn_head (last L))) f) es) (ws_world db (f (last L)) es)"
proof -
  define k where "k x = task_bind (let matches = run_records ''r'' x in
      if matches = [] then task_reject ''Run is absent''
      else if \<not> bound_here ws_agent (last matches) then task_reject ''current authenticated binding differs from Run''
      else Return (last matches))
    (\<lambda>run. task_bind (if rn_head run \<noteq> rn_head (last L) then task_reject ''stale exact Run head'' else Return run) f)"
    for x :: LoopSnapshot
  have "ws_step\<^sup>*\<^sup>* (ws_world db (task_bind (expected_run ws_agent ''r'' (rn_head (last L))) f) es) (ws_world db (ReadLog k) es)"
    using ws_live [of db "\<lambda>_. ReadLog k" es] by (simp add: expected_run_def run_record_def task_bind_assoc k_def [abs_def])
  moreover have "ws_step (ws_world db (ReadLog k) es) (ws_world db (f (last L)) es)"
    using ws_read [OF holds, of k es] L bound by (simp add: k_def ws_run_records Let_def)
  ultimately show ?thesis
    by (rule rtranclp.rtrancl_into_rtrancl)
qed

lemma ws_member: "r \<in> set ws_records" if "r \<in> {wl_created, wl_active, wl_started, ws_accumulated, ws_prepared, ws_emitted}"
  using that by (auto simp: ws_records_def)

lemma ws_fresh:
  assumes "ws_records = L @ r # M"
  shows "rn_head r \<notin> rn_head ` set L" and "set L \<subseteq> set ws_records" and "r \<in> set ws_records"
  using ws_heads_distinct by (auto simp: assms image_iff)

lemma ws_check:
  assumes "set L \<subseteq> set ws_records" and "L \<noteq> []"
    and "rn_event r \<noteq> ''CompleteAcceptance''"
    and "rn_event r \<in> {''TurnStarted'', ''RunBudgetSuspended''} \<Longrightarrow> start_turn wl_codec (last L) = Inr r"
  shows "publish_check ws_agent (last L) r ''s1'' (ws_snapshot db L) = Inr ()"
proof -
  have "rn_run_id (last L) = ''r''"
    using assms(1,2) ws_record_fields(2) last_in_set by blast
  then show ?thesis
    using assms by (auto simp: publish_check_def ws_run_records require_live_def Let_def)
qed

text \<open>One publication of the sample history.\<close>

lemma ws_advance:
  assumes "ws_records = L @ r # M" and "L \<noteq> []" and "ws_holds db L" and "loop_lineage wl_codec L"
    and "owner_step wl_codec None (last L) r"
    and "rn_event r \<in> {''TurnStarted'', ''RunBudgetSuspended''} \<Longrightarrow> start_turn wl_codec (last L) = Inr r"
  obtains db' where "ws_holds db' (L @ [r])" and "loop_lineage wl_codec (L @ [r])"
    and "ws_step\<^sup>*\<^sup>* (ws_world db (task_bind (publish_run ws_agent (last L) r) f) es)
       (ws_world db' (f ()) (es @ [Committed ws_agent r ''s1'']))"
proof -
  note fresh = ws_fresh [OF assms(1)]
  have "rn_event r \<in> set ws_events"
    using fresh(3) unfolding ws_record_fields(1) [symmetric] by simp
  then have "rn_event r \<noteq> ''CompleteAcceptance''"
    by (auto simp: ws_events_def)
  from ws_publish_run [OF assms(3) fresh(2) assms(2,4) fresh(3,1) assms(5) ws_check [OF fresh(2) assms(2) this assms(6)]] that
  show thesis by blast
qed

abbreviation ws_commits :: "RunRecord list \<Rightarrow> loop_event list" where
  "ws_commits rs \<equiv> map (\<lambda>r. Committed ws_agent r ''s1'') rs"

lemma ws_created_history:
  obtains db where "ws_holds db [wl_created]" and "ws_step\<^sup>*\<^sup>* (ws_idle ws_database []) (ws_idle db (ws_commits [wl_created]))"
proof -
  let ?t = "task_bind (run_status ws_agent ''r'') (Return \<circ> ViewReply)"
  define k where "k x = task_bind (let run = created_run ws_agent ''r'' ''go'' wl_policy; existing = run_records ''r'' x;
      status = run_status ws_agent ''r''
    in if existing \<noteq> [] then (if hd existing \<noteq> run then task_reject ''Run identity reuse conflicts'' else status)
       else if ag_has_workspace ws_agent then
         Ingest ''r'' ''go'' (ReadLog (\<lambda>x. PublishRun run x (create_check ws_agent) status))
       else PublishRun run x (create_check ws_agent) status) (Return \<circ> ViewReply)" for x
  have genesis: "validate_record wl_codec (last_of ''r'' []) wl_created None = Inr ()"
    by (simp add: validate_record_def genesis_ok_def wl_created_def run_head_of_def wl_codec_def)
  have check: "create_check ws_agent ''s1'' (ws_snapshot ws_database []) = Inr ()"
    by (simp add: create_check_def is_live_def)
  obtain db where holds: "ws_holds db [wl_created]"
    and wrote: "ws_step\<^sup>*\<^sup>* (ws_world ws_database (PublishRun wl_created (ws_snapshot ws_database []) (create_check ws_agent) ?t) [])
      (ws_world db ?t (ws_commits [wl_created]))"
    using ws_write [where v = "create_check ws_agent", OF ws_holds_nothing ws_member _ genesis check, of ?t "[]"] by auto
  have start: "ws_step\<^sup>*\<^sup>* (ws_world ws_database (serve ws_agent (CreateRun ''r'' ''go'' wl_policy)) []) (ws_world ws_database (ReadLog k) [])"
    using ws_live [of ws_database "\<lambda>_. ReadLog k" "[]"] by (simp add: create_run_def task_bind_assoc k_def [abs_def])
  have "ws_step (ws_world ws_database (ReadLog k) [])
      (ws_world ws_database (PublishRun wl_created (ws_snapshot ws_database []) (create_check ws_agent) ?t) [])"
    using ws_read [OF ws_holds_nothing, of k] by (simp add: k_def run_records_def ws_created Let_def)
  from ws_session [OF ws_then [OF start this wrote]] holds show thesis
    by (intro that)
qed

lemma ws_bound: "bound_here ws_agent wl_created" "bound_here ws_agent wl_active"
  by (simp_all add: bound_here_def ws_agent_def wl_active_def wl_created_def run_successor_def Let_def)

lemma ws_active_history:
  assumes "ws_holds db [wl_created]"
  obtains db' where "ws_holds db' [wl_created, wl_active]" and "loop_lineage wl_codec [wl_created, wl_active]"
    and "ws_step\<^sup>*\<^sup>* (ws_idle db es) (ws_idle db' (es @ ws_commits [wl_active]))"
proof -
  let ?f = "\<lambda>_. task_bind (run_status ws_agent ''r'') (Return \<circ> ViewReply)"
  have step: "owner_step wl_codec None (last [wl_created]) wl_active"
    using owner_step.intros(13) [OF wl_active_step] by simp
  have "rn_event wl_active = ''RunActive''"
    by (simp add: wl_active_def run_successor_def Let_def)
  then obtain db' where holds: "ws_holds db' ([wl_created] @ [wl_active])" and lineage: "loop_lineage wl_codec ([wl_created] @ [wl_active])"
    and wrote: "ws_step\<^sup>*\<^sup>* (ws_world db (task_bind (publish_run ws_agent (last [wl_created]) wl_active) ?f) es)
      (ws_world db' (?f ()) (es @ ws_commits [wl_active]))"
    using ws_advance [of "[wl_created]" wl_active _ db ?f es, OF _ _ assms wl_genesis step] by (auto simp: ws_records_def)
  have start: "ws_step\<^sup>*\<^sup>* (ws_world db (serve ws_agent (ActivateRun ''r'' (rn_head wl_created))) es)
      (ws_world db (task_bind (publish_run ws_agent wl_created wl_active) ?f) es)"
    using ws_expected_run [OF assms, of "\<lambda>run. task_bind (lift_task (loop_transition wl_codec run ACTIVE))
        (\<lambda>active. task_bind (publish_run ws_agent run active) ?f)" es] ws_bound ws_member
    by (simp add: activate_run_def task_bind_assoc wl_active_step lift_task_def)
  from ws_trans [OF start] wrote
  have "ws_step\<^sup>*\<^sup>* (ws_world db (serve ws_agent (ActivateRun ''r'' (rn_head wl_created))) es)
      (ws_world db' (?f ()) (es @ ws_commits [wl_active]))"
    by simp
  from ws_session [OF this] show thesis
    using holds lineage by (intro that) simp_all
qed

text \<open>The step: four publications, then the call.\<close>

definition ws_call :: "loop_reply task" where
  "ws_call = Invoke (last (tn_attempts (last (rn_turns ws_emitted))))
     (\<lambda>y. task_bind (settle_response ws_agent ''r'' ws_emitted ws_artifact y) (Return \<circ> ViewReply))"

abbreviation ws_emit :: "unit \<Rightarrow> loop_reply task" where
  "ws_emit \<equiv> \<lambda>_. task_bind (publish_run ws_agent ws_prepared ws_emitted) (\<lambda>_. ws_call)"

abbreviation ws_prepare :: "unit \<Rightarrow> loop_reply task" where
  "ws_prepare \<equiv> \<lambda>_. task_bind (publish_run ws_agent ws_accumulated ws_prepared) ws_emit"

abbreviation ws_accumulate :: "loop_reply task" where
  "ws_accumulate \<equiv> task_bind (publish_run ws_agent wl_started ws_accumulated) ws_prepare"

lemma ws_call_model:
  "task_bind (call_model ws_agent ''r'' wl_active wl_started None ws_content ws_artifact) (Return \<circ> ViewReply) = ws_accumulate"
  by (simp add: call_model_def task_bind_assoc ws_members_step ws_accumulated_step ws_manifest_step ws_prepared_step
      ws_emitted_step lift_task_def ws_call_def)

abbreviation ws_render :: "unit \<Rightarrow> loop_reply task" where
  "ws_render \<equiv> \<lambda>_. Render ws_content (\<lambda>artifact.
     task_bind (call_model ws_agent ''r'' wl_active wl_started None ws_content artifact) (Return \<circ> ViewReply))"

lemma ws_step_run:
  assumes "ws_holds db [wl_created, wl_active]"
  shows "ws_step\<^sup>*\<^sup>* (ws_world db (serve ws_agent (StepRun ''r'' (rn_head wl_active))) es)
     (ws_world db (task_bind (publish_run ws_agent wl_active wl_started) ws_render) es)"
proof -
  define f where "f run = task_bind (lift_task (start_turn wl_codec run)) (\<lambda>started.
     task_bind (publish_run ws_agent run started) (\<lambda>_.
     task_bind (if rn_state started = SUSPENDED then run_status ws_agent ''r''
     else
       task_bind (if ag_has_workspace ws_agent then ReadContext started (\<lambda>m. Return (Some m)) else Return None) (\<lambda>workspace.
       task_bind (lift_task (step_content ws_agent started workspace)) (\<lambda>content.
       Render content (\<lambda>artifact. call_model ws_agent ''r'' run started workspace content artifact)))) (Return \<circ> ViewReply)))"
    for run
  have serve: "serve ws_agent (StepRun ''r'' (rn_head wl_active)) = task_bind (expected_run ws_agent ''r'' (rn_head wl_active)) f"
    by (simp add: step_run_def task_bind_assoc f_def [abs_def])
  have next_task: "f wl_active = task_bind (publish_run ws_agent wl_active wl_started) ws_render"
    by (simp add: f_def wl_started_step lift_task_def wl_started_fields ws_content_step)
  have "ws_step\<^sup>*\<^sup>* (ws_world db (task_bind (expected_run ws_agent ''r'' (rn_head wl_active)) f) es) (ws_world db (f wl_active) es)"
    using ws_expected_run [OF assms, of f es] ws_bound ws_member by simp
  then show ?thesis
    unfolding serve next_task .
qed

definition ws_before :: "RunRecord list" where
  "ws_before = [wl_created, wl_active, wl_started]"

lemma ws_started_history:
  assumes "ws_holds db [wl_created, wl_active]" and "loop_lineage wl_codec [wl_created, wl_active]"
  obtains db' where "ws_holds db' ws_before" and "loop_lineage wl_codec ws_before"
    and "ws_step\<^sup>*\<^sup>* (ws_idle db es) (ws_world db' ws_accumulate (es @ ws_commits [wl_started]))"
proof -
  have step: "owner_step wl_codec None (last [wl_created, wl_active]) wl_started"
    using owner_step.intros(2) [OF wl_started_step] by simp
  have split: "ws_records = [wl_created, wl_active] @ wl_started # [ws_accumulated, ws_prepared, ws_emitted]"
    by (simp add: ws_records_def)
  have start: "start_turn wl_codec (last [wl_created, wl_active]) = Inr wl_started"
    using wl_started_step by simp
  obtain db' where holds: "ws_holds db' ([wl_created, wl_active] @ [wl_started])"
    and lineage: "loop_lineage wl_codec ([wl_created, wl_active] @ [wl_started])"
    and wrote: "ws_step\<^sup>*\<^sup>* (ws_world db (task_bind (publish_run ws_agent (last [wl_created, wl_active]) wl_started) ws_render) es)
      (ws_world db' (ws_render ()) (es @ [Committed ws_agent wl_started ''s1'']))"
    by (rule ws_advance [OF split _ assms step start]) simp
  have "task_move snapshot w (ws_render ()) ws_accumulate" for snapshot w
    using task_move.intros(5) [of snapshot w ws_content "\<lambda>artifact.
      task_bind (call_model ws_agent ''r'' wl_active wl_started None ws_content artifact) (Return \<circ> ViewReply)" ws_artifact]
    by (simp only: ws_call_model)
  then have "ws_step (ws_world db' (ws_render ()) (es @ [Committed ws_agent wl_started ''s1'']))
      (ws_world db' ws_accumulate (es @ [Committed ws_agent wl_started ''s1'']))"
    by (rule ws_move)
  from ws_snoc [OF wrote this]
  have "ws_step\<^sup>*\<^sup>* (ws_world db (task_bind (publish_run ws_agent wl_active wl_started) ws_render) es)
      (ws_world db' ws_accumulate (es @ [Committed ws_agent wl_started ''s1'']))"
    by simp
  from ws_trans [OF r_into_rtranclp [where r = ws_step, OF ws_request] ws_trans [OF ws_step_run [OF assms(1)] this]]
  have "ws_step\<^sup>*\<^sup>* (ws_idle db es) (ws_world db' ws_accumulate (es @ [Committed ws_agent wl_started ''s1'']))" .
  then show thesis
    using holds lineage by (intro that) (simp_all add: ws_before_def)
qed

lemma ws_emitted_history:
  assumes "ws_holds db ws_before" and "loop_lineage wl_codec ws_before"
  obtains db' where "ws_holds db' ws_records"
    and "ws_step\<^sup>*\<^sup>* (ws_world db ws_accumulate es)
       (ws_world db' ws_call (es @ ws_commits [ws_accumulated, ws_prepared, ws_emitted]))"
proof -
  have steps: "owner_step wl_codec None wl_started ws_accumulated" "owner_step wl_codec None ws_accumulated ws_prepared"
    "owner_step wl_codec None ws_prepared ws_emitted"
    using owner_step.intros(3) [OF ws_accumulated_step] owner_step.intros(4) [OF ws_prepared_step]
      owner_step.intros(5) [OF ws_emitted_step] by simp_all
  have plain: "rn_event ws_accumulated = ''TurnVisibilityAccumulated''" "rn_event ws_prepared = ''ModelAttemptPrepared''"
    "rn_event ws_emitted = ''ModelAttemptEmitted''"
    by (simp_all add: ws_accumulated_def ws_prepared_def ws_emitted_def)
  have last: "last ws_before = wl_started" "ws_before \<noteq> []"
    by (simp_all add: ws_before_def)
  have split: "ws_records = ws_before @ ws_accumulated # [ws_prepared, ws_emitted]"
    "ws_records = (ws_before @ [ws_accumulated]) @ ws_prepared # [ws_emitted]"
    "ws_records = (ws_before @ [ws_accumulated, ws_prepared]) @ ws_emitted # []"
    by (simp_all add: ws_records_def ws_before_def)
  obtain db1 where one: "ws_holds db1 (ws_before @ [ws_accumulated])" "loop_lineage wl_codec (ws_before @ [ws_accumulated])"
    "ws_step\<^sup>*\<^sup>* (ws_world db ws_accumulate es) (ws_world db1 (ws_prepare ()) (es @ [Committed ws_agent ws_accumulated ''s1'']))"
    using ws_advance [OF split(1) last(2) assms, of ws_prepare es] steps(1) plain(1) by (auto simp: last)
  obtain db2 where two: "ws_holds db2 (ws_before @ [ws_accumulated, ws_prepared])"
    "loop_lineage wl_codec (ws_before @ [ws_accumulated, ws_prepared])"
    "ws_step\<^sup>*\<^sup>* (ws_world db1 (ws_prepare ()) (es @ [Committed ws_agent ws_accumulated ''s1'']))
       (ws_world db2 (ws_emit ()) (es @ ws_commits [ws_accumulated, ws_prepared]))"
    using ws_advance [OF split(2) _ one(1,2), of ws_emit "es @ [Committed ws_agent ws_accumulated ''s1'']"] steps(2) plain(2)
    by auto
  obtain db3 where three: "ws_holds db3 (ws_before @ [ws_accumulated, ws_prepared, ws_emitted])"
    "ws_step\<^sup>*\<^sup>* (ws_world db2 (ws_emit ()) (es @ ws_commits [ws_accumulated, ws_prepared]))
       (ws_world db3 ws_call (es @ ws_commits [ws_accumulated, ws_prepared, ws_emitted]))"
    using ws_advance [OF split(3) _ two(1,2), of "\<lambda>_. ws_call" "es @ ws_commits [ws_accumulated, ws_prepared]"] steps(3) plain(3)
    by auto
  from ws_trans [OF ws_trans [OF one(3) two(3)] three(2)] show thesis
    using three(1) by (intro that) (simp_all add: ws_records_def ws_before_def)
qed

definition ws_called :: "Database \<Rightarrow> Database world" where
  "ws_called db =
     (ws_idle db (ws_commits ws_records @ [Invoked ws_agent (last (tn_attempts (last (rn_turns ws_emitted))))]))
     \<lparr>wd_active := [(ws_agent, Calling
        (\<lambda>y. task_bind (settle_response ws_agent ''r'' ws_emitted ws_artifact y) (Return \<circ> ViewReply)))]\<rparr>"

lemma ws_history:
  obtains db where "ws_holds db ws_records" and "ws_step\<^sup>*\<^sup>* (ws_idle ws_database []) (ws_called db)"
proof -
  obtain db1 where one: "ws_holds db1 [wl_created]" "ws_step\<^sup>*\<^sup>* (ws_idle ws_database []) (ws_idle db1 (ws_commits [wl_created]))"
    by (rule ws_created_history)
  obtain db2 where two: "ws_holds db2 [wl_created, wl_active]" "loop_lineage wl_codec [wl_created, wl_active]"
    "ws_step\<^sup>*\<^sup>* (ws_idle db1 (ws_commits [wl_created])) (ws_idle db2 (ws_commits [wl_created] @ ws_commits [wl_active]))"
    using ws_active_history [OF one(1)] by blast
  obtain db3 where three: "ws_holds db3 ws_before" "loop_lineage wl_codec ws_before"
    "ws_step\<^sup>*\<^sup>* (ws_idle db2 (ws_commits [wl_created] @ ws_commits [wl_active]))
       (ws_world db3 ws_accumulate ((ws_commits [wl_created] @ ws_commits [wl_active]) @ ws_commits [wl_started]))"
    using ws_started_history [OF two(1,2)] by blast
  obtain db4 where four: "ws_holds db4 ws_records"
    "ws_step\<^sup>*\<^sup>* (ws_world db3 ws_accumulate ((ws_commits [wl_created] @ ws_commits [wl_active]) @ ws_commits [wl_started]))
       (ws_world db4 ws_call (((ws_commits [wl_created] @ ws_commits [wl_active]) @ ws_commits [wl_started])
         @ ws_commits [ws_accumulated, ws_prepared, ws_emitted]))"
    using ws_emitted_history [OF three(1,2)] by blast
  have "ws_step (ws_world db4 ws_call (ws_commits ws_records)) (ws_called db4)"
    using world_step.invoked [of "ws_world db4 ws_call (ws_commits ws_records)" "[]" ws_agent
        "last (tn_attempts (last (rn_turns ws_emitted)))"
        "\<lambda>y. task_bind (settle_response ws_agent ''r'' ws_emitted ws_artifact y) (Return \<circ> ViewReply)" "[]"]
    by (simp add: ws_idle_def ws_world_def ws_call_def ws_called_def)
  moreover have "ws_step\<^sup>*\<^sup>* (ws_idle ws_database []) (ws_world db4 ws_call (ws_commits ws_records))"
    using ws_trans [OF ws_trans [OF ws_trans [OF one(2) two(3)] three(3)] four(2)] by (simp add: ws_records_def)
  ultimately show thesis
    using four(1) ws_snoc by (intro that)
qed

end
