(* ===== verification/Loop_World_Properties.thy ===== *)
theory Loop_World_Properties
  imports Loop_World_Sample
begin

text \<open>
  The correctness statements of the agent loop as it runs: the durable store on the physical store, and every
  interleaving of the application's coroutines over it.
\<close>

section \<open>The application\<close>

abbreviation loop_run :: "SQLiteLoopStore \<Rightarrow> Database world \<Rightarrow> Database world \<Rightarrow> bool" where
  "loop_run s \<equiv> (world_step (sl_codec s) (loop_snapshot s) (loop_port_publish s) loop_foreign)\<^sup>*\<^sup>*"

lemma loop_run_ok:
  assumes "loop_run s W W'" and "loop_store_ok s (wd_store W)" and "companions_foreign s"
    and "wd_active W = []" and "wd_trace W = []" and "\<forall>r \<in> set (commits (wd_trace W')). round_trips s r"
  shows "loop_store_ok s (wd_store W')" and "loop_log s (wd_store W') = loop_log s (wd_store W) @ commits (wd_trace W')"
    and "trace_ok (sl_codec s) (loop_log s (wd_store W)) (wd_trace W')"
proof -
  have good: "loop_store_good s (wd_store W)"
    using assms(2,3) by (simp add: loop_store_good_def)
  have "sqlite_loop.world_ok s (loop_log s (wd_store W)) W'"
    by (rule sqlite_loop.history_ok [OF assms(1) good assms(4-6)])
  then show "loop_store_ok s (wd_store W')" "loop_log s (wd_store W') = loop_log s (wd_store W) @ commits (wd_trace W')"
    "trace_ok (sl_codec s) (loop_log s (wd_store W)) (wd_trace W')"
    by (simp_all add: sqlite_loop.world_ok_def loop_store_good_def)
qed

lemma commits_of: "commits (ws_commits rs) = rs"
  by (induction rs) simp_all

lemma ws_start:
  "loop_store_ok ws_store (wd_store (ws_idle ws_database []))" "loop_log ws_store (wd_store (ws_idle ws_database [])) = []"
  "wd_active (ws_idle ws_database []) = []" "wd_trace (ws_idle ws_database []) = []"
  using ws_holds_nothing by (simp_all add: ws_holds_def ws_idle_def)

lemma ws_run:
  obtains db where "loop_run ws_store (ws_idle ws_database []) (ws_called db)" and "ws_holds db ws_records"
    and "\<forall>r \<in> set (commits (wd_trace (ws_called db))). round_trips ws_store r"
proof -
  obtain db where "ws_holds db ws_records" "ws_step\<^sup>*\<^sup>* (ws_idle ws_database []) (ws_called db)"
    by (rule ws_history)
  moreover have "\<forall>r \<in> set (commits (wd_trace (ws_called db))). round_trips ws_store r"
    using ws_round_trips by (simp add: ws_called_def ws_idle_def commits_of)
  ultimately show thesis
    by (intro that) simp_all
qed

text \<open>
  C8: Every record in the log is an owner decision of a live worker. However the coroutines of any number of
  instances interleave with each other, with other owners of the store, with the writer and with changes of the
  worker session, the log grows by exactly the committed records; each was committed while the session
  of its instance was current, and it is a first record of its Run or the result of an owner operation on the
  record that was last then (a replacement of an attempt only under the Run's own worker session and the
  default provider contract).
\<close>

theorem loop_history_owned:
  assumes "loop_run s W W'" and "loop_store_ok s (wd_store W)" and "companions_foreign s"
    and "wd_active W = []" and "wd_trace W = []" and "\<forall>r \<in> set (commits (wd_trace W')). round_trips s r"
  shows "loop_log s (wd_store W') = loop_log s (wd_store W) @ commits (wd_trace W')
    \<and> (\<forall>pre a r w post. wd_trace W' = pre @ Committed a r w # post \<longrightarrow>
        (ag_has_session a \<longrightarrow> w = ag_owner_session a)
        \<and> (case last_of (rn_run_id r) (loop_log s (wd_store W) @ commits pre) of
             None \<Rightarrow> genesis_ok r
           | Some previous \<Rightarrow> admitted_step (sl_codec s) None previous r))"
proof (intro conjI allI impI)
  show "loop_log s (wd_store W') = loop_log s (wd_store W) @ commits (wd_trace W')"
    by (rule loop_run_ok(2) [OF assms])
next
  fix pre a r w post
  assume "wd_trace W' = pre @ Committed a r w # post"
  then have trace: "commits (wd_trace W') = commits pre @ r # commits post"
    and "is_live a w \<and> owned (sl_codec s) (loop_log s (wd_store W) @ commits pre) r"
    using loop_run_ok(3) [OF assms] by simp_all
  then show "ag_has_session a \<Longrightarrow> w = ag_owner_session a"
    by (simp add: is_live_def)
  have "log_valid (sl_codec s) ((loop_log s (wd_store W) @ commits pre) @ r # commits post)"
    using loop_run_ok(1,2) [OF assms] trace by (simp add: loop_store_ok_def)
  from log_valid_at [OF this]
  show "case last_of (rn_run_id r) (loop_log s (wd_store W) @ commits pre) of
       None \<Rightarrow> genesis_ok r | Some previous \<Rightarrow> admitted_step (sl_codec s) None previous r"
    using validate_admitted_step by (auto simp: validate_record_def split: option.splits if_splits)
qed

theorem loop_history_owned_witness:
  "\<exists>db. loop_log ws_store db = ws_records \<and> admitted_step wl_codec None ws_prepared ws_emitted"
proof -
  obtain db where run: "loop_run ws_store (ws_idle ws_database []) (ws_called db)"
    and holds: "ws_holds db ws_records" and trips: "\<forall>r \<in> set (commits (wd_trace (ws_called db))). round_trips ws_store r"
    by (rule ws_run)
  let ?before = "[wl_created, wl_active, wl_started, ws_accumulated, ws_prepared]"
  have trace: "wd_trace (ws_called db) = ws_commits ?before
      @ Committed ws_agent ws_emitted ''s1'' # [Invoked ws_agent (last (tn_attempts (last (rn_turns ws_emitted))))]"
    by (simp add: ws_called_def ws_idle_def ws_records_def)
  have "case last_of (rn_run_id ws_emitted) (loop_log ws_store (wd_store (ws_idle ws_database [])) @ commits (ws_commits ?before)) of
      None \<Rightarrow> genesis_ok ws_emitted | Some previous \<Rightarrow> admitted_step (sl_codec ws_store) None previous ws_emitted"
    by (rule loop_history_owned [OF run ws_start(1) ws_foreign ws_start(3,4) trips, THEN conjunct2, rule_format,
          OF trace, THEN conjunct2])
  moreover have "set ?before \<subseteq> set ws_records" "ws_emitted \<in> set ws_records"
    by (simp_all only: ws_records_def list.set) blast+
  then have "last_of ''r'' ?before = Some (last ?before)" "rn_run_id ws_emitted = ''r''"
    using ws_last_of [of ?before] ws_record_fields(2) by blast+
  ultimately have "admitted_step wl_codec None ws_prepared ws_emitted"
    by (simp add: ws_start(2) commits_of)
  then show ?thesis
    using holds by (auto simp: ws_holds_def)
qed

text \<open>
  C9: No request reaches the model before its emission is durable. Whenever an instance calls the model, the log
  already holds a record published under the head and digest of an emission whose last attempt is the one
  that is sent.
\<close>

theorem model_after_emission:
  assumes "loop_run s W W'" and "loop_store_ok s (wd_store W)" and "companions_foreign s"
    and "wd_active W = []" and "wd_trace W = []" and "\<forall>r \<in> set (commits (wd_trace W')). round_trips s r"
    and "wd_trace W' = pre @ Invoked a attempt # post"
  shows "\<exists>prepared emitted. emit_attempt (sl_codec s) prepared = Inr emitted
    \<and> attempt = last (tn_attempts (last (rn_turns emitted)))
    \<and> (\<exists>r \<in> set (loop_log s (wd_store W) @ commits pre). rn_head r = rn_head emitted
         \<and> json_digest (dump_run (sl_codec s) r) = json_digest (dump_run (sl_codec s) emitted))"
proof -
  have "event_ok (sl_codec s) (loop_log s (wd_store W) @ commits pre) (Invoked a attempt)"
    using loop_run_ok(3) [OF assms(1-6)] by (simp add: assms(7))
  then obtain emitted where emission: "emission_of a attempt emitted" and codec: "ag_codec a = sl_codec s"
    and key: "run_key (sl_codec s) emitted \<in> run_key (sl_codec s) ` set (loop_log s (wd_store W) @ commits pre)"
    by (auto simp: emitted_before_def)
  obtain r where "r \<in> set (loop_log s (wd_store W) @ commits pre)" "run_key (sl_codec s) emitted = run_key (sl_codec s) r"
    using key by (rule imageE)
  moreover obtain prepared where "emit_attempt (sl_codec s) prepared = Inr emitted"
    "attempt = last (tn_attempts (last (rn_turns emitted)))"
    using emission unfolding emission_of_def codec by blast
  ultimately show ?thesis
    by (intro exI [of _ prepared] exI [of _ emitted] conjI bexI [of _ r]) (simp_all add: run_key_def)
qed

theorem model_after_emission_witness:
  "\<exists>prepared emitted. emit_attempt wl_codec prepared = Inr emitted
    \<and> last (tn_attempts (last (rn_turns ws_emitted))) = last (tn_attempts (last (rn_turns emitted)))
    \<and> (\<exists>r \<in> set ws_records. rn_head r = rn_head emitted)"
proof -
  obtain db where run: "loop_run ws_store (ws_idle ws_database []) (ws_called db)"
    and trips: "\<forall>r \<in> set (commits (wd_trace (ws_called db))). round_trips ws_store r"
    by (rule ws_run)
  have "wd_trace (ws_called db) = ws_commits ws_records @ Invoked ws_agent (last (tn_attempts (last (rn_turns ws_emitted)))) # []"
    by (simp add: ws_called_def ws_idle_def)
  from model_after_emission [OF run ws_start(1) ws_foreign ws_start(3,4) trips this] show ?thesis
    unfolding ws_start(2) commits_of by auto
qed

section \<open>The store\<close>

text \<open>
  C10: When what is published can be read. In every history of the loop, whenever the deletion fence of the
  tenant is the adapter's own, the snapshot succeeds exactly when no companion identity of a logged record has
  a line break, and it then shows exactly the committed records in order; in any case the records of each Run form
  a validated lineage. The transition authority is mounted, its companions are other owners' records, and
  the companions of a logged record are computed the same once they are stored. (The authority of the
  workspace names the one companion of an accepted Run \<open>run_id + "/accepted"\<close>, so the log is readable exactly
  when no accepted Run has an identity with a line break, which nothing checks.)
\<close>

theorem loop_store_readable:
  assumes "loop_run s W W'" and "loop_store_ok s (wd_store W)" and "companions_foreign s"
    and "wd_active W = []" and "wd_trace W = []" and "\<forall>r \<in> set (commits (wd_trace W')). round_trips s r"
    and "companions_stable s (wd_store W')"
    and "map_of (db_fences (wd_store W')) (sl_tenant s) = Some (sl_generation s, sl_frontier s)"
  shows "(loop_snapshot s (wd_store W') = Inr x \<longleftrightarrow>
       (\<forall>r \<in> set (loop_log s (wd_store W) @ commits (wd_trace W')).
          \<forall>c \<in> set (companions_of s (wd_store W') r). newline \<notin> set (cm_record_id c))
       \<and> x = \<lparr>lo_tenant_head = current_head (sl_tenant s) (wd_store W'),
              lo_records = loop_log s (wd_store W) @ commits (wd_trace W')\<rparr>)
    \<and> (let run = filter (\<lambda>r. rn_run_id r = run_id) (loop_log s (wd_store W) @ commits (wd_trace W'))
       in run \<noteq> [] \<longrightarrow> loop_lineage (sl_codec s) run)"
proof -
  note ok = loop_run_ok [OF assms(1-6)]
  have "log_valid (sl_codec s) (loop_log s (wd_store W'))"
    using ok(1) by (simp add: loop_store_ok_def)
  then show ?thesis
    using loop_snapshot_exists [OF ok(1) assms(7,8), of x] log_valid_lineage [of "sl_codec s" "loop_log s (wd_store W')"]
    by (simp add: ok(2) companions_plain_def Let_def)
qed

theorem loop_store_readable_witness: "\<exists>db. loop_snapshot ws_store db = Inr \<lparr>lo_tenant_head = current_head ''t'' db, lo_records = ws_records\<rparr>"
proof -
  obtain db where run: "loop_run ws_store (ws_idle ws_database []) (ws_called db)"
    and holds: "ws_holds db ws_records" and trips: "\<forall>r \<in> set (commits (wd_trace (ws_called db))). round_trips ws_store r"
    by (rule ws_run)
  have db: "wd_store (ws_called db) = db" "wd_trace (ws_called db)
      = ws_commits ws_records @ [Invoked ws_agent (last (tn_attempts (last (rn_turns ws_emitted))))]"
    by (simp_all add: ws_called_def ws_idle_def)
  have "map_of (db_fences (wd_store (ws_called db))) (sl_tenant ws_store) = Some (sl_generation ws_store, sl_frontier ws_store)"
    using holds by (simp add: db ws_holds_def)
  from loop_store_readable [OF run ws_start(1) ws_foreign ws_start(3,4) trips ws_readable(1) this, THEN conjunct1]
  show ?thesis
    by (auto simp: db ws_start(2) commits_of ws_store_fields)
qed

text \<open>
  C11: A publication commits its record on the very snapshot it was decided on, or changes nothing. A commit means
  that the log read inside the transaction was the expected one in full, that the record is a valid
  successor of the last record of its Run, and that the caller's check passed; the log then grows by exactly this
  record at the next head. Without a commit, success is the replay of a record published under the same
  head with the same digest.
\<close>

theorem loop_publish_exact:
  assumes "loop_store_ok s db" and "companions_foreign s" and "round_trips s record"
    and "loop_publish s m token observer record expected validate db0 db = (res, db')"
  shows "loop_store_ok s db' \<and>
    (if db' = db
     then res = Inr () \<longrightarrow> (\<exists>r \<in> set (loop_log s db). rn_head r = rn_head record
            \<and> json_digest (dump_run (sl_codec s) r) = json_digest (dump_run (sl_codec s) record))
     else loop_log s db' = loop_log s db @ [record] \<and> loop_snapshot s db = Inr expected
       \<and> lo_records expected = loop_log s db \<and> validate expected = Inr ()
       \<and> validate_record (sl_codec s) (last_of (rn_run_id record) (loop_log s db)) record None = Inr ()
       \<and> current_head (sl_tenant s) db' = Suc (current_head (sl_tenant s) db))"
proof (cases "db' = db")
  case True
  have "\<exists>r \<in> set (loop_log s db). rn_head r = rn_head record
      \<and> json_digest (dump_run (sl_codec s) r) = json_digest (dump_run (sl_codec s) record)" if "res = Inr ()"
  proof -
    have "loop_publish s m token observer record expected validate db0 db = (Inr (), db')"
      using assms(4) that by simp
    from loop_publish_accepted [OF assms(1,2) disjI1 [OF True] this] show ?thesis
      by (auto simp: run_key_def True)
  qed
  then show ?thesis
    using True assms(1) by simp
next
  case False
  note commit = loop_publish_commit [OF assms(1,2) assms(3) [unfolded round_trips_def] assms(4) False]
  then show ?thesis
    using False loop_snapshot_sound(1) [OF assms(1) commit(3)] by simp
qed

theorem loop_publish_exact_witness: "\<exists>db. loop_log ws_store db = [wl_created] \<and> loop_store_ok ws_store db"
proof -
  have "wl_created \<in> set ws_records"
    by (simp add: ws_records_def)
  moreover have "validate_record wl_codec (last_of ''r'' []) wl_created None = Inr ()"
    by (simp add: validate_record_def genesis_ok_def wl_created_def run_head_of_def wl_codec_def)
  ultimately obtain db where p: "loop_publish ws_store ws_materializer 7 None wl_created (ws_snapshot ws_database [])
      (\<lambda>x. Inr ()) ws_database ws_database = (Inr (), db)" and "db \<noteq> ws_database"
    using ws_publish [OF ws_holds_nothing, of wl_created "\<lambda>x. Inr ()"] by auto
  have "loop_store_ok ws_store ws_database" "loop_log ws_store ws_database = []"
    using ws_holds_nothing by (simp_all add: ws_holds_def)
  with loop_publish_exact [OF _ ws_foreign ws_round_trips p] \<open>wl_created \<in> set ws_records\<close> \<open>db \<noteq> ws_database\<close>
  show ?thesis by auto
qed

text \<open>The steps that other users of the database and the adapter itself can take.\<close>

definition store_moves :: "SQLiteLoopStore \<Rightarrow> Database \<Rightarrow> Database \<Rightarrow> bool" where
  "store_moves s x y \<longleftrightarrow> loop_foreign x y
     \<or> (\<exists>m token observer record expected validate x0.
          y = snd (loop_publish s m token observer record expected validate x0 x))"

lemma unreadable_moves:
  assumes "loop_store_ok s x" and "\<And>e. loop_snapshot s x \<noteq> Inr e" and "store_moves s x y"
  shows "loop_store_ok s y" and "loop_log s y = loop_log s x"
proof -
  have "y = x" if pub: "y = snd (loop_publish s m token observer r expected validate x0 x)"
    for m token observer r expected validate x0
  proof -
    obtain res where "loop_publish s m token observer r expected validate x0 x = (res, y)"
      using pub by (metis surjective_pairing)
    then show ?thesis
      by (cases rule: loop_publish_cases) (use assms(2) loop_guard_passed(1) in blast)+
  qed
  then have "y = x \<or> loop_foreign x y"
    using assms(3) unfolding store_moves_def by blast
  then show "loop_store_ok s y" "loop_log s y = loop_log s x"
    using assms(1) loop_foreign_ok [OF assms(1)] by auto
qed

text \<open>
  C12: A companion identity with a line break makes the log unreadable for good. The identities of a publication
  are stored joined by line breaks and split again when they are read, so once a record is committed whose
  companions, over whatever database they are computed, have such an identity (their payloads may depend on the
  database), no snapshot succeeds any more, whatever other owners or later publications do, and nothing
  is ever published again. In the workspace this is an accepted Run whose identity has a line break.
\<close>

theorem loop_newline_unreadable:
  assumes "loop_store_ok s db" and "companions_foreign s" and "round_trips s record"
    and "loop_publish s m token observer record expected validate db0 db = (res, db')" and "db' \<noteq> db"
    and "\<forall>x. \<exists>c \<in> set (companions_of s x record). newline \<in> set (cm_record_id c)"
    and "(store_moves s)\<^sup>*\<^sup>* db' later"
  shows "(\<forall>e. loop_snapshot s later \<noteq> Inr e) \<and> loop_log s later = loop_log s db @ [record]"
proof -
  note commit = loop_publish_commit [OF assms(1,2) assms(3) [unfolded round_trips_def] assms(4,5)]
  have unreadable: "loop_snapshot s x \<noteq> Inr e" if "loop_log s x = loop_log s db @ [record]" for x e
    using snapshot_companions_plain [of s x e "record"] that assms(6) by fastforce
  from assms(7) have "loop_store_ok s later \<and> loop_log s later = loop_log s db @ [record]"
  proof (induction rule: rtranclp_induct)
    case (step x y)
    then show ?case
      using unreadable_moves [of s x y] unreadable [of x] by auto
  qed (use commit(1,2) in simp)
  then show ?thesis
    using unreadable by blast
qed

text \<open>A sample: the first record of the sample Run with a companion named by two lines.\<close>

definition wn_companion :: DurableCompanion where
  "wn_companion = \<lparr>cm_record_id = ''r'' @ newline # ''/accepted'', cm_owner = ''conversation'', cm_schema_id = ''entry.v1'',
     cm_payload = []\<rparr>"

definition wn_store :: SQLiteLoopStore where
  "wn_store = ws_store\<lparr>sl_authority := Some (ws_authority\<lparr>tz_companions := \<lambda>db r. [wn_companion]\<rparr>)\<rparr>"

definition wn_materializer :: Materializer where
  "wn_materializer = ws_materializer\<lparr>mt_record_pairs := [(LOOP_OWNER, LOOP_SCHEMA), (''conversation'', ''entry.v1'')]\<rparr>"

definition wn_command :: PhysicalPublicationCommand where
  "wn_command = observed_command None (loop_physical wn_store wl_created \<lparr>lo_tenant_head = 0, lo_records = []\<rparr>
     (\<lambda>x. Inr ()) [wn_companion])"

lemma wn_store_fields:
  "sl_tenant wn_store = ''t''" "sl_codec wn_store = wl_codec" "companions_of wn_store db r = [wn_companion]"
  "sl_generation wn_store = ''g1''" "sl_frontier wn_store = 5" "sl_parse wn_store = sl_parse ws_store"
  "sl_authority wn_store = Some (ws_authority\<lparr>tz_companions := \<lambda>db r. [wn_companion]\<rparr>)"
  by (simp_all add: wn_store_def companions_of_def)

lemma wn_empty:
  "loop_store_ok wn_store ws_database" "loop_log wn_store ws_database = []"
  "loop_snapshot wn_store ws_database = Inr \<lparr>lo_tenant_head = 0, lo_records = []\<rparr>" "current_head ''t'' ws_database = 0"
proof -
  have tables: "loop_rows wn_store ws_database = []" "loop_publications wn_store ws_database = []"
    by (simp_all add: loop_rows_def loop_publications_def owner_rows_def kind_publications_def ws_database_def empty_database_def)
  have "ledger_ok ws_database"
    using ws_holds_nothing by (simp add: ws_holds_def loop_store_ok_def)
  then show "loop_store_ok wn_store ws_database"
    by (simp add: loop_store_ok_def tables loop_log_def)
  show head: "current_head ''t'' ws_database = 0"
    by (simp add: ws_database_def empty_database_def current_head_def)
  show "loop_log wn_store ws_database = []"
    by (simp add: loop_log_def tables)
  show "loop_snapshot wn_store ws_database = Inr \<lparr>lo_tenant_head = 0, lo_records = []\<rparr>"
    using head by (simp add: loop_snapshot_def tables wn_store_fields loop_bindings_def Let_def)
      (simp add: ws_database_def)
qed

lemma wn_command_fields:
  "pc_tenant_id wn_command = ''t''" "pc_operation_kind wn_command = ''agent_loop''"
  "pc_fence_generation wn_command = ''g1''" "pc_minimum_fence_frontier wn_command = 5"
  "pc_expected_fence_frontier wn_command = 5"
  "pc_records wn_command = [\<lparr>ph_record_id = rn_head wl_created, ph_owner = LOOP_OWNER, ph_schema_id = LOOP_SCHEMA,
      ph_canonical_bytes = run_bytes wn_store wl_created, ph_fingerprint = sha256_hex (run_bytes wn_store wl_created)\<rparr>,
      \<lparr>ph_record_id = ''r'' @ newline # ''/accepted'', ph_owner = ''conversation'', ph_schema_id = ''entry.v1'',
       ph_canonical_bytes = [], ph_fingerprint = sha256_hex []\<rparr>]"
  "pc_authority_checkpoint_guard wn_command = None" "pc_decision_guard wn_command = Some (\<lambda>commitment db. Inr None)"
  by (simp_all add: wn_command_def observed_command_def loop_physical_def ws_authority_def wn_store_fields
      companion_record_def wn_companion_def Let_def)

lemma wn_published:
  "loop_publish wn_store wn_materializer 7 None wl_created \<lparr>lo_tenant_head = 0, lo_records = []\<rparr> (\<lambda>x. Inr ())
     ws_database ws_database = (Inr (), committed wn_command ws_database)"
proof (rule loop_publish_commits [where z = "ws_authority\<lparr>tz_companions := \<lambda>db r. [wn_companion]\<rparr>"])
  have head: "rn_head wl_created = ''loop:'' @ json_digest (JStr ''RunCreated'')"
    by (simp add: wl_created_def)
  then have ids: "rn_head wl_created \<noteq> ''r'' @ newline # ''/accepted''"
    by simp
  have "newline \<noteq> CHR ''-''"
    by (simp add: newline_def)
  then have plain: "\<not> starts_with (rn_head wl_created) ''delivery-work:''" "\<not> starts_with (''r'' @ newline # ''/accepted'') ''delivery-work:''"
    by (simp_all add: head starts_with_def)
  show "publish_preflight wn_materializer 7 wn_command ws_database = Inr True"
    using ids plain by (simp add: publish_preflight_def wn_command_fields ws_database_def require_fence_def require_writer_def
        wn_materializer_def ws_materializer_def require_closed_delivery_work_publication_def
        requires_owner_publication_resolver_def LOOP_OWNER_def LOOP_SCHEMA_def H1_ONLY_PAIRS_def
        COMPLETE_ACCEPTANCE_V2_def DELIVERY_WORK_SCHEMA_def DELIVERY_WORK_OPERATIONS_def
        NATIVE_EXECUTION_PUBLICATION_OPERATIONS_def delivery_work_id_def)
  show "distinct (map ph_record_id (pc_records wn_command))"
    using ids by (simp add: wn_command_fields)
  show "publish_decision wn_materializer wn_command (Suc (current_head (sl_tenant wn_store) ws_database))
      (committed wn_command ws_database) = Inr None"
    by (simp add: publish_decision_def wn_command_fields wn_materializer_def ws_materializer_def
        requires_owner_publication_resolver_def COMPLETE_ACCEPTANCE_V2_def DELIVERY_WORK_OPERATIONS_def
        NATIVE_EXECUTION_PUBLICATION_OPERATIONS_def)
  show "find_publication wn_command ws_database = None"
    by (simp add: find_publication_def ws_database_def empty_database_def)
  show "\<forall>r \<in> set (pc_records wn_command). (sl_tenant wn_store, ph_record_id r) \<notin> record_key ` set (db_records ws_database)"
    by (simp add: ws_database_def empty_database_def)
  show "require_ready_bundle wn_materializer True A_PUBLICATION None ws_database = Inr ()"
    by (simp add: require_ready_bundle_def wn_materializer_def ws_materializer_def ws_database_def empty_database_def Let_def)
qed (use wn_empty in \<open>simp_all add: wn_store_fields wn_command_def ws_authority_def validate_record_def genesis_ok_def
    wl_created_def run_head_of_def wl_codec_def\<close>)

theorem loop_newline_unreadable_witness:
  "\<forall>e. loop_snapshot wn_store (committed wn_command ws_database) \<noteq> Inr e"
proof -
  have foreign: "companions_foreign wn_store"
    by (simp add: companions_foreign_def wn_store_fields wn_companion_def LOOP_OWNER_def)
  have trips: "round_trips wn_store wl_created"
    using ws_round_trips [OF ws_member, of wl_created] by (simp add: round_trips_def wn_store_fields)
  have "\<forall>x. \<exists>c \<in> set (companions_of wn_store x wl_created). newline \<in> set (cm_record_id c)"
    by (simp add: wn_store_fields wn_companion_def)
  from loop_newline_unreadable [OF wn_empty(1) foreign trips wn_published committed_neq this rtranclp.rtrancl_refl]
  show ?thesis by simp
qed

end
