(* ===== verification/Scheduler_Contracts.thy ===== *)
theory Scheduler_Contracts
  imports Loop_Contracts
begin

text \<open>
  The boundary values of the scheduler: \<open>recovery_contracts.py\<close>, \<open>scheduler_contracts.py\<close>, and the
  models of \<open>scheduler_leases.py\<close>, \<open>scheduler_rollover.py\<close>, \<open>scheduler_materialization.py\<close>,
  \<open>scheduler_configuration.py\<close> and \<open>scheduler_preparation.py\<close> of \<open>capabilities/agent_loop\<close>. A pydantic
  class is a record, a discriminated union a datatype, \<open>Absent | Present\<close> an option; constant fields
  (discriminants, identity domains, the generation of a genesis or exhausted lease) are left to the
  constructors. The classes that \<open>capabilities/effects/fences.py\<close> declares a second time have other names
  here. \<open>model_dump(mode="json")\<close> and \<open>model_validate_json\<close> are the members of \<open>SchedulerCodec\<close>, a
  parameter of every operation that uses them. CPython's configurable limit on the digits of an
  integer literal is not modelled.
\<close>

section \<open>Canonical bytes\<close>

text \<open>\<open>_ordered\<close>: the discriminant first, then the other keys in order.\<close>

definition kind_first :: "(string \<times> 'a) list \<Rightarrow> (string \<times> 'a) list" where
  "kind_first kvs =
     filter (\<lambda>kv. fst kv = ''kind'') kvs @ sort_key fst (filter (\<lambda>kv. fst kv \<noteq> ''kind'') kvs)"

primrec ordered :: "json \<Rightarrow> json" where
  "ordered JNull = JNull"
| "ordered (JBool b) = JBool b"
| "ordered (JInt i) = JInt i"
| "ordered (JStr s) = JStr s"
| "ordered (JArr js) = JArr (map ordered js)"
| "ordered (JObj kvs) = JObj (kind_first (map (map_prod id ordered) kvs))"

definition dto_bytes :: "json \<Rightarrow> bytes" where
  "dto_bytes j = encode (plain quote_str (ordered j))"

section \<open>Recovery contracts\<close>

definition UINT64_MAX :: nat where
  "UINT64_MAX = 2 ^ 64 - 1"

record PresentRef =
  pn_head :: string
  pn_fingerprint :: string

datatype LineageSubject =
    INDIVIDUAL string \<comment> \<open>occurrence id\<close>
  | COALESCED string string \<comment> \<open>aggregate id, manifest fingerprint\<close>

record LineageBinding =
  ln_root_id :: string
  ln_subject :: LineageSubject
  ln_root_fingerprint :: string
  ln_lineage_head :: string
  ln_initial_run_id :: string
  ln_current_run_id :: string
  ln_schedule_id :: string
  ln_schedule_revision :: string
  ln_policy_revision :: string

record PhysicalRoot =
  ph_selector_id :: string
  ph_selector_head :: string
  ph_selector_version :: nat
  ph_current_epoch_id :: string
  ph_current_epoch_head :: string

record RootLease =
  rl_lease_head :: string
  rl_holder_id :: string
  rl_holder_session_id :: string
  rl_lease_id :: string
  rl_generation :: nat
  rl_trusted_expiry :: nat
  rl_clock_contract_version :: string

record ClockProofRef =
  ck_proof_id :: string
  ck_proof_fingerprint :: string
  ck_proof_version :: string
  ck_clock_contract_version :: string
  ck_fence_fingerprint :: string
  ck_command_id :: string
  ck_command_payload_fingerprint :: string
  ck_submission_id :: string

record DecisionMaterializationRef =
  dm_decision_id :: string
  dm_decision_head :: string
  dm_decision_fingerprint :: string
  dm_command_fingerprint :: string
  dm_expected_complete_commitment :: string
  dm_predecessor_commitment :: string
  dm_journal_authority_head :: string

datatype PreRootDisposition =
    FIRST_PUBLICATION string \<comment> \<open>expected canonical absence manifest\<close>
  | MATERIALIZE_EXACT_DECISION DecisionMaterializationRef string
  | RETURN_EXACT_REPLAY DecisionMaterializationRef string

record PreRootDecisionFence =
  pf_command_id :: string
  pf_disposition :: PreRootDisposition
  pf_scheduler_authority_head :: string
  pf_broker_generation :: string
  pf_runtime_generation :: string

record ExhaustionBinding =
  xb_hold_head :: string
  xb_exhausted_command_id :: string
  xb_lease :: RootLease
  xb_authority_epoch :: string

record RolloverPredecessor =
  rp_decision :: PresentRef
  rp_edge :: PresentRef

record RolloverAuthorityRef =
  ra_proof_id :: string
  ra_proof_fingerprint :: string
  ra_authority_head :: string
  ra_command_id :: string
  ra_command_payload_fingerprint :: string
  ra_predecessor_rollover :: "RolloverPredecessor option"

record PhysicalRootRolloverFence =
  rf_lineage :: LineageBinding
  rf_physical_root :: PhysicalRoot
  rf_exhaustion :: ExhaustionBinding
  rf_authority :: RolloverAuthorityRef

section \<open>Scheduler contracts\<close>

record SchedulerContextRef =
  cx_tenant_id :: string
  cx_service_identity :: string
  cx_session_id :: string
  cx_mandate_head :: string
  cx_issuance_id :: string
  cx_issuance_fingerprint :: string

record ScheduleDefinitionHead =
  sh_schedule_id :: string
  sh_schedule_revision :: string
  sh_head :: string
  sh_fingerprint :: string

datatype MissedPolicy = SKIP | COALESCE | MATERIALIZE_EACH

record MissedOccurrencePolicyHead =
  mh_policy_id :: string
  mh_policy_revision :: string
  mh_head :: string
  mh_fingerprint :: string
  mh_kind :: MissedPolicy

record DueCoordinate =
  dc_coordinate_policy_version :: string
  dc_canonical_coordinate :: string

record SchedulerEligibilityBoundary =
  eb_schedule_definition_head :: ScheduleDefinitionHead
  eb_missed_occurrence_policy_head :: MissedOccurrencePolicyHead
  eb_previous_due_boundary :: DueCoordinate
  eb_cutoff_due_coordinate :: DueCoordinate
  eb_enumeration_frontier :: string
  eb_predecessor_interval :: "PresentRef option"
  eb_canonicalization_version :: string

record UndisposedOccurrence =
  uo_occurrence_id :: string
  uo_schedule_id :: string
  uo_schedule_revision :: string
  uo_due_coordinate :: DueCoordinate
  uo_undisposed_head :: string
  uo_undisposed_fingerprint :: string

record SchedulerEligibilityManifest =
  em_members :: "UndisposedOccurrence list"
  em_fingerprint :: string

record SchedulerIntervalBound =
  ib_max_member_count :: nat
  ib_max_manifest_bytes :: nat
  ib_max_serialized_batch_bytes :: nat

record SchedulerIntervalBoundHead =
  ih_head_id :: string
  ih_predecessor :: "PresentRef option"
  ih_generation :: nat
  ih_bound :: SchedulerIntervalBound
  ih_owner_id :: string
  ih_authority_epoch :: string
  ih_broker_generation :: string
  ih_runtime_graph_generation :: string
  ih_canonicalization_version :: string

record SchedulerCommandIdentity =
  sc_command_id :: string
  sc_schema_version :: string
  sc_canonicalization_version :: string

record StreamingEligibilityEvidence =
  se_manifest_digest :: string
  se_member_count :: nat
  se_first_member :: "PresentRef option"
  se_last_member :: "PresentRef option"
  se_order_contract_version :: string
  se_enumeration_completeness_proof :: PresentRef

datatype EligibilityEvidence =
    FULL_MANIFEST SchedulerEligibilityManifest
  | STREAMING_MANIFEST StreamingEligibilityEvidence

record DecideIntervalCommand =
  di_identity :: SchedulerCommandIdentity
  di_boundary :: SchedulerEligibilityBoundary
  di_bound_head :: SchedulerIntervalBoundHead
  di_manifest :: "SchedulerEligibilityManifest + StreamingEligibilityEvidence"
  di_publication_fence :: PreRootDecisionFence

record ReplaceIntervalBoundCommand =
  rb_identity :: SchedulerCommandIdentity
  rb_observed_head :: SchedulerIntervalBoundHead
  rb_proposed_bound :: SchedulerIntervalBound
  rb_scheduler_authority_head :: string
  rb_authority_epoch :: string
  rb_broker_generation :: string
  rb_runtime_graph_generation :: string

datatype OverflowState = OVERFLOW_ACTIVE | RESOLVED_BY_OPERATOR PresentRef

datatype OverflowDimension = MEMBER_COUNT | MANIFEST_BYTES | SERIALIZED_BATCH_BYTES

record SchedulerOverflowHold =
  oh_hold :: PresentRef
  oh_command :: SchedulerCommandIdentity
  oh_boundary :: SchedulerEligibilityBoundary
  oh_bound_head :: SchedulerIntervalBoundHead
  oh_exceeded_dimension :: OverflowDimension
  oh_actual_value :: nat
  oh_limit :: nat
  oh_evidence :: EligibilityEvidence
  oh_operator_recovery_owner :: string
  oh_state :: OverflowState

record ResolveIntervalCommand =
  rv_identity :: SchedulerCommandIdentity
  rv_active_hold :: SchedulerOverflowHold
  rv_successor_bound :: SchedulerIntervalBoundHead
  rv_boundary :: SchedulerEligibilityBoundary
  rv_complete_manifest :: SchedulerEligibilityManifest
  rv_operator_proof :: PresentRef
  rv_publication_fence :: PreRootDecisionFence

record MaterializationIdentity =
  mi_materialization_id :: string
  mi_primitive_domain_fingerprint :: string

datatype OccurrenceDisposition =
    CLAIMED_INDIVIDUALLY UndisposedOccurrence MaterializationIdentity
  | COALESCED_INTO UndisposedOccurrence string string MaterializationIdentity
      \<comment> \<open>aggregate id, manifest fingerprint\<close>
  | SKIPPED UndisposedOccurrence PresentRef \<comment> \<open>policy decision\<close>

fun disposed_occurrence :: "OccurrenceDisposition \<Rightarrow> UndisposedOccurrence" where
  "disposed_occurrence (CLAIMED_INDIVIDUALLY item _) = item"
| "disposed_occurrence (COALESCED_INTO item _ _ _) = item"
| "disposed_occurrence (SKIPPED item _) = item"

datatype LeaseState =
    UNLEASED string \<comment> \<open>lease head; generation 0\<close>
  | HELD RootLease
  | GENERATION_EXHAUSTED_HOLD string string nat string RootLease
      \<comment> \<open>lease head, exhausted command id, trusted expiry, authority epoch, preceding held lease\<close>

record MaterializationCommitment =
  mc_parent_decision :: PresentRef
  mc_subject :: LineageSubject \<comment> \<open>its constructor is also the field \<open>kind\<close>\<close>
  mc_dispositions :: "OccurrenceDisposition list"
  mc_lineage :: LineageBinding
  mc_initial_run :: PresentRef
  mc_initialization :: PresentRef
  mc_reciprocal_run_root :: PresentRef
  mc_physical_root :: PhysicalRoot
  mc_physical_epoch :: PresentRef
  mc_genesis_lease :: LeaseState
  mc_companion_manifest :: PresentRef
  mc_primitive_domain_fingerprint :: string
  mc_finalized_members_fingerprint :: string
  mc_batch_fingerprint :: string
  mc_schema_dependency_manifest :: PresentRef

datatype IntervalBranch =
    BOUNDARY_ONLY_NO_WORK
  | SKIP_ALL
  | COALESCE_SINGLE
  | COALESCE_MULTI
  | MATERIALIZE_EACH_SINGLE
  | MATERIALIZE_EACH_MULTI

record ScheduledIntervalDecision =
  iv_decision :: PresentRef
  iv_command :: SchedulerCommandIdentity
  iv_branch :: IntervalBranch
  iv_boundary :: SchedulerEligibilityBoundary
  iv_bound_head :: SchedulerIntervalBoundHead
  iv_manifest :: SchedulerEligibilityManifest
  iv_dispositions :: "OccurrenceDisposition list"
  iv_materializations :: "MaterializationCommitment list"
  iv_resulting_boundary :: DueCoordinate
  iv_complete_commitment :: string

record SchedulerIntervalResolutionDecision =
  ir_decision :: PresentRef
  ir_command :: SchedulerCommandIdentity
  ir_original_hold :: PresentRef
  ir_original_bound_head :: SchedulerIntervalBoundHead
  ir_successor_bound_head :: SchedulerIntervalBoundHead
  ir_boundary :: SchedulerEligibilityBoundary
  ir_manifest :: SchedulerEligibilityManifest
  ir_branch :: IntervalBranch
  ir_dispositions :: "OccurrenceDisposition list"
  ir_materializations :: "MaterializationCommitment list"
  ir_resulting_boundary :: DueCoordinate
  ir_complete_commitment :: string

datatype LeaseTransitionKind = ACQUIRE | RENEW | TAKEOVER

record LeaseTransitionCommand =
  lt_identity :: SchedulerCommandIdentity
  lt_kind :: LeaseTransitionKind
  lt_lineage :: LineageBinding
  lt_physical_root :: PhysicalRoot
  lt_observed_lease :: LeaseState
  lt_proposed_holder_id :: string
  lt_proposed_holder_session_id :: string
  lt_proposed_lease_id :: string
  lt_proposed_expiry :: nat
  lt_proposed_generation :: nat
  lt_clock_proof :: ClockProofRef

record PhysicalRootRolloverCommand =
  ro_identity :: SchedulerCommandIdentity
  ro_fence :: PhysicalRootRolloverFence

record SchedulerLineageView =
  lv_lineage :: LineageBinding
  lv_physical_root :: PhysicalRoot
  lv_lease :: LeaseState
  lv_predecessor_rollover :: "RolloverPredecessor option"

section \<open>Lease and rollover observations\<close>

record IssuedLeaseObservation =
  is_proof :: ClockProofRef
  is_now :: nat
  is_max_lease_duration :: nat
  is_holder_id :: string
  is_holder_session_id :: string
  is_authority_epoch :: string
  is_used_lease_ids :: "string list"

record LeaseCandidate =
  lc_transition_id :: string
  lc_command_fingerprint :: string
  lc_observed_fence_fingerprint :: string
  lc_state :: LeaseState

record IssuedRolloverObservation =
  io_authority :: RolloverAuthorityRef
  io_snapshot_fingerprint :: string
  io_submission_id :: string
  io_authority_epoch :: string
  io_used_epoch_ids :: "string list"
  io_used_lease_heads :: "string list"

record SchedulerCanonicalMember =
  sm_record_kind :: string
  sm_record_id :: string
  sm_schema_id :: string
  sm_canonical_base64 :: string
  sm_fingerprint :: string

record RolloverCandidate =
  rc_command_fingerprint :: string
  rc_decision :: PresentRef
  rc_edge :: PresentRef
  rc_view :: SchedulerLineageView
  rc_records :: "SchedulerCanonicalMember list"
  rc_complete_commitment :: string

section \<open>Materialisation models\<close>

record SchedulerRunInputs =
  ri_tenant :: string
  ri_principal :: string
  ri_prompt :: string
  ri_policy :: BudgetPolicy
  ri_origin :: EndpointSelection
  ri_contour_head :: string
  ri_policy_head :: string
  ri_worker_session :: string
  ri_authority_epoch :: string

datatype ParentKind = ORDINARY_PARENT | RESOLUTION_PARENT

record IntervalParentPrimitive =
  ip_kind :: ParentKind
  ip_command :: SchedulerCommandIdentity
  ip_boundary :: SchedulerEligibilityBoundary
  ip_current_bound :: SchedulerIntervalBoundHead
  ip_original_bound :: SchedulerIntervalBoundHead
  ip_original_hold :: "PresentRef option"
  ip_operator_proof :: "PresentRef option"
  ip_manifest :: SchedulerEligibilityManifest
  ip_branch :: IntervalBranch
  ip_run_inputs :: SchedulerRunInputs

record ScheduledBatchPrimitiveDomainV1 =
  bd_parent_decision :: PresentRef
  bd_command :: SchedulerCommandIdentity
  bd_boundary :: SchedulerEligibilityBoundary
  bd_bound_head :: SchedulerIntervalBoundHead
  bd_manifest :: SchedulerEligibilityManifest
  bd_subject :: LineageSubject
  bd_initial_run_id :: string
  bd_root_id :: string
  bd_root_fingerprint :: string
  bd_run_inputs :: SchedulerRunInputs

record MaterializedOccurrence =
  mo_primitive :: ScheduledBatchPrimitiveDomainV1
  mo_run :: RunRecord
  mo_commitment :: MaterializationCommitment
  mo_members :: "SchedulerCanonicalMember list"

datatype IntervalResult =
    INTERVAL_DECISION ScheduledIntervalDecision
  | INTERVAL_RESOLUTION SchedulerIntervalResolutionDecision
  | OVERFLOW_HOLD SchedulerOverflowHold

record IntervalCandidate =
  ic_parent_primitive :: "IntervalParentPrimitive option"
  ic_result :: IntervalResult
  ic_occurrences :: "MaterializedOccurrence list"
  ic_records :: "SchedulerCanonicalMember list"
  ic_batch_fingerprint :: string
  ic_serialized_batch_bytes :: nat

section \<open>Configuration models\<close>

record FixedIntervalDefinition =
  fd_start_ns :: nat
  fd_period_ns :: nat
  fd_end_exclusive_ns :: "int option" \<comment> \<open>\<open>None\<close> is \<open>"NO_END"\<close>\<close>
  fd_run_inputs :: SchedulerRunInputs

record ScheduleRevision =
  sv_schedule_id :: string
  sv_revision :: nat
  sv_previous :: "PresentRef option"
  sv_definition :: FixedIntervalDefinition
  sv_context :: SchedulerContextRef
  sv_command_id :: string

record PolicyRevision =
  pv_schedule_id :: string
  pv_revision :: nat
  pv_previous :: "PresentRef option"
  pv_policy :: MissedPolicy
  pv_context :: SchedulerContextRef
  pv_command_id :: string

record ConfigurationSnapshot =
  cs_schedule :: "ScheduleRevision option"
  cs_policy :: "PolicyRevision option"
  cs_bound :: "SchedulerIntervalBoundHead option"
  cs_active_hold :: "PresentRef option"

datatype ConfigurationOperation = op_genesis | op_amend_schedule | op_amend_policy | op_replace_bound

record ConfigurationProposal =
  cf_operation :: ConfigurationOperation
  cf_expected :: ConfigurationSnapshot
  cf_proposed :: ConfigurationSnapshot
  cf_context :: SchedulerContextRef
  cf_command_id :: string

record DisposedOccurrence =
  do_occurrence_id :: string
  do_due_coordinate :: DueCoordinate
  do_disposition :: PresentRef

record DefinitionEnumeration =
  de_definition :: FixedIntervalDefinition
  de_boundary :: SchedulerEligibilityBoundary
  de_first_index :: int
  de_end_index :: int
  de_excluded_indices :: "int list"
  de_eligible_count :: int

record EnumerationOverflow =
  eo_boundary :: SchedulerEligibilityBoundary
  eo_eligible_count :: int
  eo_first_index :: int
  eo_end_index :: int
  eo_excluded_indices :: "int list"
  eo_limit :: nat

record StreamedEligibility =
  st_member_count :: nat
  st_manifest_bytes :: nat
  st_manifest_fingerprint :: string
  st_evidence :: EligibilityEvidence

section \<open>Serialisation and errors\<close>

text \<open>\<open>value.model_dump(mode="json")\<close> of each model an operation digests.\<close>

record SchedulerCodec =
  js_coordinate :: "DueCoordinate \<Rightarrow> json"
  js_boundary :: "SchedulerEligibilityBoundary \<Rightarrow> json"
  js_occurrence :: "UndisposedOccurrence \<Rightarrow> json"
  js_eligibility :: "SchedulerEligibilityManifest \<Rightarrow> json"
  js_present :: "PresentRef \<Rightarrow> json"
  js_subject :: "LineageSubject \<Rightarrow> json"
  js_lineage :: "LineageBinding \<Rightarrow> json"
  js_physical :: "PhysicalRoot \<Rightarrow> json"
  js_lease :: "LeaseState \<Rightarrow> json"
  js_view :: "SchedulerLineageView \<Rightarrow> json"
  js_predecessor :: "RolloverPredecessor option \<Rightarrow> json"
  js_lease_command :: "LeaseTransitionCommand \<Rightarrow> json"
  js_rollover_command :: "PhysicalRootRolloverCommand \<Rightarrow> json"
  js_identity :: "SchedulerCommandIdentity \<Rightarrow> json"
  js_context :: "SchedulerContextRef \<Rightarrow> json"
  js_bound_head :: "SchedulerIntervalBoundHead \<Rightarrow> json"
  js_schedule :: "ScheduleRevision \<Rightarrow> json"
  js_policy :: "PolicyRevision \<Rightarrow> json"
  js_evidence :: "EligibilityEvidence \<Rightarrow> json"
  js_hold :: "SchedulerOverflowHold \<Rightarrow> json"
  js_overflow_state :: "OverflowState \<Rightarrow> json"
  js_parent :: "IntervalParentPrimitive \<Rightarrow> json"
  js_primitive :: "ScheduledBatchPrimitiveDomainV1 \<Rightarrow> json"
  js_disposition :: "OccurrenceDisposition \<Rightarrow> json"
  js_member :: "SchedulerCanonicalMember \<Rightarrow> json"
  js_result :: "IntervalResult \<Rightarrow> json"

text \<open>
  \<open>SchedulerDomainError\<close> carries its reason, \<open>LeaseRuleViolation\<close> a code and a reason; a pydantic
  \<open>ValidationError\<close> and the rejection of a Run record propagate unchanged.
\<close>

datatype SchedulerError =
    SchedulerDomainError string
  | LeaseRuleViolation string string
  | CommandInvalid
  | RunInvalid LoopError

definition refuse :: "string \<Rightarrow> (SchedulerError, 'a) result" where
  "refuse reason = Inl (SchedulerDomainError reason)"

lemma refuse_neq_Inr [simp]: "refuse reason \<noteq> Inr x"
  by (simp add: refuse_def)

definition violate :: "string \<Rightarrow> string \<Rightarrow> (SchedulerError, 'a) result" where
  "violate code reason = Inl (LeaseRuleViolation code reason)"

lemma violate_neq_Inr [simp]: "violate code reason \<noteq> Inr x"
  by (simp add: violate_def)

end
