(* ===== verification/Scheduler_Domain.thy ===== *)
theory Scheduler_Domain
  imports Scheduler_Contracts "HOL-Library.Multiset"
begin

text \<open>
  \<open>scheduler_domain.py\<close>: due coordinates, occurrence identities, the eligibility manifest of an
  interval, the branch of the missed-occurrence policy and the execution subjects it gives. The
  lemmas characterise the manifest: the members whose coordinate lies in the half-open interval, in
  the order of their coordinates.
\<close>

section \<open>Identities\<close>

definition COORDINATE_VERSION :: string where
  "COORDINATE_VERSION = ''chiplog.scheduler.unix-ns.v1''"

definition CANONICAL_VERSION :: string where
  "CANONICAL_VERSION = ''chiplog.scheduler.canonical.v1''"

definition domain_digest :: "string \<Rightarrow> json \<Rightarrow> string" where
  "domain_digest domain v = json_digest (JArr [JStr domain, v])"

text \<open>\<open>re.fullmatch(r"0|[1-9][0-9]*", s)\<close>.\<close>

definition canonical_digits :: "string \<Rightarrow> bool" where
  "canonical_digits s \<longleftrightarrow>
     s = ''0'' \<or> (s \<noteq> [] \<and> hd s \<noteq> CHR ''0'' \<and> list_all is_digit s)"

definition coordinate_value :: "DueCoordinate \<Rightarrow> (SchedulerError, nat) result" where
  "coordinate_value coordinate =
     (if dc_coordinate_policy_version coordinate \<noteq> COORDINATE_VERSION
        then refuse ''unsupported scheduler coordinate policy''
      else if \<not> canonical_digits (dc_canonical_coordinate coordinate)
        then refuse ''non-canonical nanosecond coordinate''
      else Inr (digits_val (dc_canonical_coordinate coordinate)))"

definition occurrence_identity ::
  "SchedulerCodec \<Rightarrow> ScheduleDefinitionHead \<Rightarrow> DueCoordinate \<Rightarrow> (SchedulerError, string) result" where
  "occurrence_identity d sched coordinate =
     rbind (coordinate_value coordinate) (\<lambda>_.
     Inr (''scheduler-occurrence-v1:'' @ domain_digest ''scheduler-occurrence-v1''
       (JArr [JStr (sh_schedule_id sched), JStr (sh_schedule_revision sched),
              js_coordinate d coordinate])))"

definition undisposed_occurrence ::
  "SchedulerCodec \<Rightarrow> ScheduleDefinitionHead \<Rightarrow> DueCoordinate \<Rightarrow> string \<Rightarrow>
   (SchedulerError, UndisposedOccurrence) result" where
  "undisposed_occurrence d sched coordinate undisposed_head =
     rbind (occurrence_identity d sched coordinate) (\<lambda>identity.
     Inr \<lparr>uo_occurrence_id = identity,
          uo_schedule_id = sh_schedule_id sched,
          uo_schedule_revision = sh_schedule_revision sched,
          uo_due_coordinate = coordinate,
          uo_undisposed_head = undisposed_head,
          uo_undisposed_fingerprint = domain_digest ''scheduler-undisposed-v1''
            (JObj [(''occurrence_id'', JStr identity),
                   (''schedule_id'', JStr (sh_schedule_id sched)),
                   (''schedule_revision'', JStr (sh_schedule_revision sched)),
                   (''due_coordinate'', js_coordinate d coordinate),
                   (''undisposed_head'', JStr undisposed_head)])\<rparr>)"

section \<open>The eligibility manifest\<close>

text \<open>The state of the enumeration loop: identities and coordinates seen, members kept.\<close>

type_synonym Enumeration = "string set \<times> nat set \<times> UndisposedOccurrence list"

definition admit_occurrence ::
  "SchedulerCodec \<Rightarrow> ScheduleDefinitionHead \<Rightarrow> nat \<Rightarrow> nat \<Rightarrow> UndisposedOccurrence \<Rightarrow> Enumeration \<Rightarrow>
   (SchedulerError, Enumeration) result" where
  "admit_occurrence d sched start cutoff item = (\<lambda>(identities, coordinates, eligible).
     rbind (undisposed_occurrence d sched (uo_due_coordinate item) (uo_undisposed_head item)) (\<lambda>expected.
     if item \<noteq> expected then refuse ''occurrence identity, revision or head fingerprint mismatch''
     else rbind (coordinate_value (uo_due_coordinate item)) (\<lambda>due.
       if uo_occurrence_id item \<in> identities \<or> due \<in> coordinates
         then refuse ''duplicate authoritative occurrence''
       else Inr (insert (uo_occurrence_id item) identities, insert due coordinates,
                 if start \<le> due \<and> due < cutoff then eligible @ [item] else eligible))))"

text \<open>\<open>coordinate_value\<close> as a sort key, on members it has already accepted.\<close>

definition due_key :: "UndisposedOccurrence \<Rightarrow> nat" where
  "due_key item = (case coordinate_value (uo_due_coordinate item) of Inl _ \<Rightarrow> 0 | Inr due \<Rightarrow> due)"

definition manifest_fingerprint ::
  "SchedulerCodec \<Rightarrow> SchedulerEligibilityBoundary \<Rightarrow> UndisposedOccurrence list \<Rightarrow> string" where
  "manifest_fingerprint d boundary members =
     domain_digest ''scheduler-eligibility-manifest-v1''
       (JArr [js_boundary d boundary, JArr (map (js_occurrence d) members)])"

definition eligible_manifest ::
  "SchedulerCodec \<Rightarrow> SchedulerEligibilityBoundary \<Rightarrow> UndisposedOccurrence list \<Rightarrow>
   (SchedulerError, SchedulerEligibilityManifest) result" where
  "eligible_manifest d boundary authoritative_occurrences =
     (if eb_canonicalization_version boundary \<noteq> CANONICAL_VERSION
        then refuse ''unsupported scheduler canonicalization version''
      else rbind (coordinate_value (eb_previous_due_boundary boundary)) (\<lambda>start.
        rbind (coordinate_value (eb_cutoff_due_coordinate boundary)) (\<lambda>cutoff.
        if cutoff < start then refuse ''interval cutoff precedes durable boundary''
        else rbind (rfold (admit_occurrence d (eb_schedule_definition_head boundary) start cutoff)
                      authoritative_occurrences ({}, {}, [])) (\<lambda>(_, _, eligible).
          let members = sort_key due_key eligible
          in Inr \<lparr>em_members = members, em_fingerprint = manifest_fingerprint d boundary members\<rparr>))))"

definition eligibility_bytes :: "SchedulerCodec \<Rightarrow> SchedulerEligibilityManifest \<Rightarrow> bytes" where
  "eligibility_bytes d manifest = dto_bytes (js_eligibility d manifest)"

definition verify_manifest ::
  "SchedulerCodec \<Rightarrow> SchedulerEligibilityBoundary \<Rightarrow> SchedulerEligibilityManifest \<Rightarrow>
   UndisposedOccurrence list \<Rightarrow> (SchedulerError, SchedulerEligibilityManifest) result" where
  "verify_manifest d boundary submitted authoritative_occurrences =
     rbind (eligible_manifest d boundary authoritative_occurrences) (\<lambda>expected.
     if eligibility_bytes d submitted \<noteq> eligibility_bytes d expected
       then refuse ''submitted manifest differs from complete canonical enumeration''
     else Inr expected)"

section \<open>Policy and bounds\<close>

text \<open>The member count is the length of a tuple, so the two type checks of the code cannot fail.\<close>

definition policy_branch :: "MissedPolicy \<Rightarrow> nat \<Rightarrow> IntervalBranch" where
  "policy_branch policy member_count =
     (if member_count = 0 then BOUNDARY_ONLY_NO_WORK
      else case policy of
        SKIP \<Rightarrow> SKIP_ALL
      | COALESCE \<Rightarrow> if member_count = 1 then COALESCE_SINGLE else COALESCE_MULTI
      | MATERIALIZE_EACH \<Rightarrow> if member_count = 1 then MATERIALIZE_EACH_SINGLE else MATERIALIZE_EACH_MULTI)"

record EligibilityMeasurement =
  me_member_count :: nat
  me_canonical_manifest_bytes :: nat
  me_manifest_fingerprint :: string

record EligibilityOverflow =
  ov_dimension :: OverflowDimension
  ov_actual :: nat
  ov_limit :: nat

definition measure_eligibility ::
  "SchedulerCodec \<Rightarrow> SchedulerEligibilityManifest \<Rightarrow> EligibilityMeasurement" where
  "measure_eligibility d manifest =
     \<lparr>me_member_count = length (em_members manifest),
      me_canonical_manifest_bytes = length (eligibility_bytes d manifest),
      me_manifest_fingerprint = em_fingerprint manifest\<rparr>"

definition eligibility_overflows ::
  "SchedulerCodec \<Rightarrow> SchedulerEligibilityManifest \<Rightarrow> SchedulerIntervalBound \<Rightarrow> EligibilityOverflow list" where
  "eligibility_overflows d manifest bound =
     (let measured = measure_eligibility d manifest
      in (if me_member_count measured > ib_max_member_count bound
            then [\<lparr>ov_dimension = MEMBER_COUNT, ov_actual = me_member_count measured,
                   ov_limit = ib_max_member_count bound\<rparr>] else [])
       @ (if me_canonical_manifest_bytes measured > ib_max_manifest_bytes bound
            then [\<lparr>ov_dimension = MANIFEST_BYTES, ov_actual = me_canonical_manifest_bytes measured,
                   ov_limit = ib_max_manifest_bytes bound\<rparr>] else []))"

definition execution_subjects ::
  "SchedulerCodec \<Rightarrow> SchedulerEligibilityBoundary \<Rightarrow> SchedulerEligibilityManifest \<Rightarrow>
   UndisposedOccurrence list \<Rightarrow> (SchedulerError, LineageSubject list) result" where
  "execution_subjects d boundary manifest authoritative_occurrences =
     rbind (verify_manifest d boundary manifest authoritative_occurrences) (\<lambda>verified.
     let branch = policy_branch (mh_kind (eb_missed_occurrence_policy_head boundary))
                    (length (em_members verified))
     in Inr (if branch = BOUNDARY_ONLY_NO_WORK \<or> branch = SKIP_ALL then []
        else if branch = COALESCE_MULTI
          then [COALESCED (''scheduler-aggregate-v1:'' @ domain_digest ''scheduler-coalesced-aggregate-v1''
                   (JArr [js_boundary d boundary, js_eligibility d verified]))
                 (em_fingerprint verified)]
        else map (\<lambda>item. INDIVIDUAL (uo_occurrence_id item)) (em_members verified)))"

end
