(* ===== verification/Scheduler_Materialization.thy ===== *)
theory Scheduler_Materialization
  imports Scheduler_Domain Loop_Validate
begin

text \<open>
  \<open>scheduler_materialization.py\<close>: the complete batch of an interval decision. Every execution subject of
  the interval gets a lineage, a physical root, a genesis lease and an initial Run record, which the
  agent loop's \<open>validate_record\<close> accepts; every eligible occurrence gets a disposition. An interval that
  exceeds its registered bound becomes an overflow hold instead.
\<close>

section \<open>Digests and references\<close>

definition domain_hash :: "string \<Rightarrow> json \<Rightarrow> string" where
  "domain_hash domain v = sha256_hex (dto_bytes (JArr [JStr domain, v]))"

definition dto_reference :: "string \<Rightarrow> json \<Rightarrow> PresentRef" where
  "dto_reference domain v =
     (let fingerprint = sha256_hex (dto_bytes v)
      in \<lparr>pn_head = domain @ '':'' @ fingerprint, pn_fingerprint = fingerprint\<rparr>)"

definition canonical_member :: "string \<Rightarrow> string \<Rightarrow> json \<Rightarrow> SchedulerCanonicalMember" where
  "canonical_member kind reference v =
     (let payload = dto_bytes v
      in \<lparr>sm_record_kind = kind, sm_record_id = reference,
          sm_schema_id = ''chiplog.scheduler.'' @ kind @ ''.v1'',
          sm_canonical_base64 = b64encode payload, sm_fingerprint = sha256_hex payload\<rparr>)"

section \<open>The registered dependency graph\<close>

type_synonym SchemaGraph = "(string \<times> string list) list"

definition SCHEMA_DAG :: SchemaGraph where
  "SCHEMA_DAG =
     [(''parent_primitive'', []),
      (''parent_identity'', [''parent_primitive'']),
      (''batch_primitive'', [''parent_identity'']),
      (''genesis_lease'', [''batch_primitive'']),
      (''lineage'', [''batch_primitive'']),
      (''physical_epoch'', [''lineage'']),
      (''physical_selector'', [''physical_epoch'']),
      (''run'', [''batch_primitive'']),
      (''initialization'', [''run'', ''lineage'', ''physical_selector'', ''genesis_lease'']),
      (''reciprocal'', [''initialization'']),
      (''companion'', [''physical_epoch'', ''physical_selector'', ''genesis_lease'']),
      (''finalized_members'', [''initialization'', ''reciprocal'', ''companion'']),
      (''batch_envelope'', [''finalized_members'']),
      (''interval_envelope'', [''batch_envelope'', ''parent_identity''])]"

lemma unvisited_decreases:
  "name \<in> fst ` set graph \<Longrightarrow> name \<notin> active \<Longrightarrow>
   card (fst ` set graph - insert name active) < card (fst ` set graph - active)"
  by (rule psubset_card_mono) auto

text \<open>
  \<open>visit\<close>, a depth-first search: the set \<open>active\<close> is restored when a visit returns, so it is an
  argument; the set \<open>complete\<close> only grows and is threaded through. The search ends because the active
  names are distinct names of the graph.
\<close>

function visit :: "SchemaGraph \<Rightarrow> string set \<Rightarrow> string \<Rightarrow> string set \<Rightarrow> (SchedulerError, string set) result"
  and visit_all :: "SchemaGraph \<Rightarrow> string set \<Rightarrow> string list \<Rightarrow> string set \<Rightarrow> (SchedulerError, string set) result" where
  "visit graph active name finished =
     (if name \<notin> fst ` set graph \<or> name \<in> active then refuse ''unknown or cyclic canonical domain''
      else if name \<in> finished then Inr finished
      else rbind (visit_all graph (insert name active) (the (map_of graph name)) finished)
             (\<lambda>reached. Inr (insert name reached)))"
| "visit_all graph active [] finished = Inr finished"
| "visit_all graph active (name # names) finished =
     rbind (visit graph active name finished) (visit_all graph active names)"
  by pat_completeness auto

termination
proof (relation "inv_image (less_than <*lex*> less_than)
    (\<lambda>x. case x of Inl (graph, active, name, c) \<Rightarrow> (card (fst ` set graph - active), 0::nat)
       | Inr (graph, active, names, c) \<Rightarrow> (card (fst ` set graph - active), Suc (length names)))", goal_cases)
  case 1
  show ?case by (intro wf_inv_image wf_lex_prod wf_less_than)
next
  case (2 graph active name finished)
  then show ?case using unvisited_decreases [of name graph active] by auto
qed simp_all

definition validate_schema_dag :: "SchemaGraph \<Rightarrow> (SchedulerError, unit) result" where
  "validate_schema_dag graph =
     (let names = map fst graph
      in if card (set names) \<noteq> length names then refuse ''duplicate canonical domain''
         else rbind (visit_all graph {} names {}) (\<lambda>_.
           if graph \<noteq> SCHEMA_DAG
             then refuse ''canonical dependency manifest differs from registered DAG''
           else Inr ()))"

definition schema_dag_ref :: PresentRef where
  "schema_dag_ref = dto_reference ''scheduler-schema-dag-v1''
     (JArr (map (\<lambda>(name, dependencies). JArr [JStr name, JArr (map JStr dependencies)]) SCHEMA_DAG))"

section \<open>One materialised occurrence\<close>

definition scheduled_run_id :: "SchedulerCodec \<Rightarrow> PresentRef \<Rightarrow> LineageSubject \<Rightarrow> string" where
  "scheduled_run_id d parent_ref subject =
     ''scheduled-run-v1:'' @ domain_hash ''scheduled-run-v1''
       (JArr [js_present d parent_ref, js_subject d subject])"

definition root_fields ::
  "SchedulerCodec \<Rightarrow> SchedulerEligibilityBoundary \<Rightarrow> LineageSubject \<Rightarrow> string \<Rightarrow> (string \<times> json) list" where
  "root_fields d boundary subject run_id =
     [(''subject'', js_subject d subject),
      (''initial_run_id'', JStr run_id),
      (''schedule_id'', JStr (sh_schedule_id (eb_schedule_definition_head boundary))),
      (''schedule_revision'', JStr (sh_schedule_revision (eb_schedule_definition_head boundary))),
      (''policy_revision'', JStr (mh_policy_revision (eb_missed_occurrence_policy_head boundary)))]"

definition materialized_lineage ::
  "SchedulerCodec \<Rightarrow> SchedulerEligibilityBoundary \<Rightarrow> LineageSubject \<Rightarrow> string \<Rightarrow> LineageBinding" where
  "materialized_lineage d boundary subject run_id =
     (let root_fs = root_fields d boundary subject run_id;
          root_fingerprint = domain_hash ''execution-lineage-v1'' (JObj root_fs);
          root_id = ''execution-lineage-v1:'' @ root_fingerprint
      in \<lparr>ln_root_id = root_id,
          ln_subject = subject,
          ln_root_fingerprint = root_fingerprint,
          ln_lineage_head = ''execution-lineage-head-v1:'' @ domain_hash ''execution-lineage-head-v1''
            (JObj (root_fs @ [(''root_id'', JStr root_id), (''root_fingerprint'', JStr root_fingerprint),
                              (''current_run_id'', JStr run_id)])),
          ln_initial_run_id = run_id,
          ln_current_run_id = run_id,
          ln_schedule_id = sh_schedule_id (eb_schedule_definition_head boundary),
          ln_schedule_revision = sh_schedule_revision (eb_schedule_definition_head boundary),
          ln_policy_revision = mh_policy_revision (eb_missed_occurrence_policy_head boundary)\<rparr>)"

definition batch_primitive ::
  "IntervalParentPrimitive \<Rightarrow> PresentRef \<Rightarrow> LineageBinding \<Rightarrow> ScheduledBatchPrimitiveDomainV1" where
  "batch_primitive parent parent_ref lineage =
     \<lparr>bd_parent_decision = parent_ref,
      bd_command = ip_command parent,
      bd_boundary = ip_boundary parent,
      bd_bound_head = ip_current_bound parent,
      bd_manifest = ip_manifest parent,
      bd_subject = ln_subject lineage,
      bd_initial_run_id = ln_initial_run_id lineage,
      bd_root_id = ln_root_id lineage,
      bd_root_fingerprint = ln_root_fingerprint lineage,
      bd_run_inputs = ip_run_inputs parent\<rparr>"

definition genesis_lease :: "SchedulerCodec \<Rightarrow> ScheduledBatchPrimitiveDomainV1 \<Rightarrow> LeaseState" where
  "genesis_lease d primitive =
     UNLEASED (''execution-root-lease-genesis-v1:''
       @ domain_hash ''execution-root-lease-genesis-v1'' (js_primitive d primitive))"

definition epoch_body :: "LineageBinding \<Rightarrow> PresentRef \<Rightarrow> string \<Rightarrow> string \<times> json" where
  "epoch_body lineage parent_ref authority_epoch =
     (let epoch_id = ''physical-root-genesis-v1:'' @ domain_hash ''physical-root-genesis-v1''
            (JArr [JStr (ln_root_id lineage), JStr (pn_head parent_ref)])
      in (epoch_id, JObj
        [(''epoch_id'', JStr epoch_id),
         (''execution_lineage_root_id'', JStr (ln_root_id lineage)),
         (''execution_lineage_root_fingerprint'', JStr (ln_root_fingerprint lineage)),
         (''observed_lineage_head'', JStr (ln_lineage_head lineage)),
         (''observed_current_run_id'', JStr (ln_initial_run_id lineage)),
         (''predecessor_epoch'', JObj [(''kind'', JStr ''ABSENT'')]),
         (''authority_epoch'', JStr authority_epoch)]))"

definition selector_body :: "LineageBinding \<Rightarrow> string \<Rightarrow> PresentRef \<Rightarrow> string \<times> json" where
  "selector_body lineage epoch_id epoch_ref =
     (let selector_id = ''physical-root-selector-v1:''
            @ domain_hash ''physical-root-selector-v1'' (JStr (ln_root_id lineage))
      in (selector_id, JObj
        [(''lineage_id'', JStr (ln_root_id lineage)),
         (''selector_id'', JStr selector_id),
         (''selector_version'', JInt 0),
         (''current_epoch_id'', JStr epoch_id),
         (''current_epoch_head'', JStr (pn_head epoch_ref))]))"

definition scheduled_run ::
  "LoopCodec \<Rightarrow> SchedulerCodec \<Rightarrow> SchedulerRunInputs \<Rightarrow> LineageBinding \<Rightarrow> (SchedulerError, RunRecord) result" where
  "scheduled_run l d inputs root =
     (let run = \<lparr>rn_tenant = ri_tenant inputs,
                 rn_principal = ri_principal inputs,
                 rn_run_id = ln_initial_run_id root,
                 rn_state = CREATED,
                 rn_head = ''pending'',
                 rn_predecessor = None,
                 rn_prompt = ri_prompt inputs,
                 rn_policy = ri_policy inputs,
                 rn_origin = ri_origin inputs,
                 rn_contour_head = ri_contour_head inputs,
                 rn_policy_head = ri_policy_head inputs,
                 rn_worker_session = ri_worker_session inputs,
                 rn_root_binding = Some
                   \<lparr>sr_root_id = ln_root_id root,
                    sr_subject_canonical = dto_bytes (js_subject d (ln_subject root)),
                    sr_subject_schema_version = ''chiplog.execution-lineage-subject.v1'',
                    sr_root_fingerprint = ln_root_fingerprint root,
                    sr_initial_run_id = ln_initial_run_id root\<rparr>,
                 rn_accepted_delivery_binding = None,
                 rn_turns = [], rn_deliveries = [], rn_accepted_text = [], rn_planning_receipts = [],
                 rn_event = ''RunCreated''\<rparr>;
          headed = run\<lparr>rn_head := ''loop:'' @ json_digest (dump_run l run)\<rparr>
      in case validate_record l None headed None of
           Inl e \<Rightarrow> Inl (RunInvalid e)
         | Inr _ \<Rightarrow> Inr headed)"

definition subject_dispositions ::
  "SchedulerEligibilityManifest \<Rightarrow> LineageSubject \<Rightarrow> MaterializationIdentity \<Rightarrow>
   (SchedulerError, OccurrenceDisposition list) result" where
  "subject_dispositions manifest subject materialization =
     (case subject of
        INDIVIDUAL occurrence_id \<Rightarrow>
          (case filter (\<lambda>item. uo_occurrence_id item = occurrence_id) (em_members manifest) of
             [selected] \<Rightarrow> Inr [CLAIMED_INDIVIDUALLY selected materialization]
           | _ \<Rightarrow> refuse ''individual subject lacks exactly one eligible occurrence'')
      | COALESCED aggregate_id manifest_fp \<Rightarrow>
          if length (em_members manifest) < 2 \<or> manifest_fp \<noteq> em_fingerprint manifest
            then refuse ''coalesced subject differs from complete multi-member manifest''
          else Inr (map (\<lambda>item. COALESCED_INTO item aggregate_id (em_fingerprint manifest) materialization)
                 (em_members manifest)))"

definition disposition_member :: "SchedulerCodec \<Rightarrow> OccurrenceDisposition \<Rightarrow> SchedulerCanonicalMember" where
  "disposition_member d item =
     canonical_member ''occurrence-disposition''
       (pn_head (dto_reference ''occurrence-disposition-v1'' (js_disposition d item))) (js_disposition d item)"

definition run_member :: "LoopCodec \<Rightarrow> RunRecord \<Rightarrow> SchedulerCanonicalMember" where
  "run_member l run =
     \<lparr>sm_record_kind = ''agent_loop.run'', sm_record_id = rn_head run,
      sm_schema_id = ''chiplog.agent-loop.record.v1'',
      sm_canonical_base64 = b64encode (canonical_json (dump_run l run)),
      sm_fingerprint = json_digest (dump_run l run)\<rparr>"

definition aggregate_members ::
  "SchedulerCodec \<Rightarrow> IntervalParentPrimitive \<Rightarrow> LineageSubject \<Rightarrow> SchedulerCanonicalMember list" where
  "aggregate_members d parent subject =
     (case subject of
        INDIVIDUAL _ \<Rightarrow> []
      | COALESCED aggregate_id _ \<Rightarrow>
          [canonical_member ''coalesced-aggregate'' aggregate_id
             (JObj [(''subject'', js_subject d subject),
                    (''boundary'', js_boundary d (ip_boundary parent)),
                    (''manifest'', js_eligibility d (ip_manifest parent))])])"

definition primitive_ref :: "SchedulerCodec \<Rightarrow> ScheduledBatchPrimitiveDomainV1 \<Rightarrow> PresentRef" where
  "primitive_ref d primitive = dto_reference ''scheduled-batch-primitive-v1'' (js_primitive d primitive)"

definition materialization_identity :: "SchedulerCodec \<Rightarrow> ScheduledBatchPrimitiveDomainV1 \<Rightarrow> MaterializationIdentity" where
  "materialization_identity d primitive =
     \<lparr>mi_materialization_id = pn_head (primitive_ref d primitive),
      mi_primitive_domain_fingerprint = pn_fingerprint (primitive_ref d primitive)\<rparr>"

text \<open>The physical epoch, its selector, and the binding to both.\<close>

definition epoch_ref :: "LineageBinding \<Rightarrow> PresentRef \<Rightarrow> string \<Rightarrow> PresentRef" where
  "epoch_ref lineage parent_ref authority_epoch =
     dto_reference ''physical-root-head-v1'' (snd (epoch_body lineage parent_ref authority_epoch))"

definition selector_of :: "LineageBinding \<Rightarrow> PresentRef \<Rightarrow> string \<Rightarrow> string \<times> json" where
  "selector_of lineage parent_ref authority_epoch =
     selector_body lineage (fst (epoch_body lineage parent_ref authority_epoch))
       (epoch_ref lineage parent_ref authority_epoch)"

definition selector_ref :: "LineageBinding \<Rightarrow> PresentRef \<Rightarrow> string \<Rightarrow> PresentRef" where
  "selector_ref lineage parent_ref authority_epoch =
     dto_reference ''physical-root-selector-head-v1'' (snd (selector_of lineage parent_ref authority_epoch))"

definition materialized_physical :: "LineageBinding \<Rightarrow> PresentRef \<Rightarrow> string \<Rightarrow> PhysicalRoot" where
  "materialized_physical lineage parent_ref authority_epoch =
     \<lparr>ph_selector_id = fst (selector_of lineage parent_ref authority_epoch),
      ph_selector_head = pn_head (selector_ref lineage parent_ref authority_epoch),
      ph_selector_version = 0,
      ph_current_epoch_id = fst (epoch_body lineage parent_ref authority_epoch),
      ph_current_epoch_head = pn_head (epoch_ref lineage parent_ref authority_epoch)\<rparr>"

definition initialization ::
  "SchedulerCodec \<Rightarrow> IntervalParentPrimitive \<Rightarrow> PresentRef \<Rightarrow> LineageBinding \<Rightarrow> PhysicalRoot \<Rightarrow>
   ScheduledBatchPrimitiveDomainV1 \<Rightarrow> RunRecord \<Rightarrow> json" where
  "initialization d parent parent_ref lineage physical primitive run = JObj
     [(''parent'', js_present d parent_ref),
      (''primitive'', js_present d (primitive_ref d primitive)),
      (''lineage'', js_lineage d lineage),
      (''run_id'', JStr (ln_initial_run_id lineage)),
      (''run_head'', JStr (rn_head run)),
      (''physical_root'', js_physical d physical),
      (''genesis_lease'', js_lease d (genesis_lease d primitive)),
      (''bound_head'', js_bound_head d (ip_current_bound parent)),
      (''boundary'', js_boundary d (ip_boundary parent)),
      (''manifest_fingerprint'', JStr (em_fingerprint (ip_manifest parent)))]"

definition reciprocal ::
  "SchedulerCodec \<Rightarrow> PresentRef \<Rightarrow> LineageBinding \<Rightarrow> PhysicalRoot \<Rightarrow> LeaseState \<Rightarrow> RunRecord \<Rightarrow> json" where
  "reciprocal d init_ref lineage physical lease run = JObj
     [(''initialization'', js_present d init_ref),
      (''run_id'', JStr (ln_initial_run_id lineage)),
      (''run_head'', JStr (rn_head run)),
      (''lineage'', js_lineage d lineage),
      (''physical_root'', js_physical d physical),
      (''genesis_lease'', js_lease d lease)]"

definition lease_genesis_member ::
  "SchedulerCodec \<Rightarrow> LineageBinding \<Rightarrow> PhysicalRoot \<Rightarrow> LeaseState \<Rightarrow> SchedulerCanonicalMember" where
  "lease_genesis_member d lineage physical lease =
     canonical_member ''root-lease-genesis'' (case lease of UNLEASED head \<Rightarrow> head | _ \<Rightarrow> [])
       (JObj [(''lineage'', js_lineage d lineage),
              (''physical_root'', js_physical d physical),
              (''lease'', js_lease d lease),
              (''run_id'', JStr (ln_initial_run_id lineage))])"

text \<open>The \<open>epoch-companion\<close> member, over the members of the physical epoch.\<close>

definition companion_data :: "SchedulerCodec \<Rightarrow> SchedulerCanonicalMember list \<Rightarrow> json" where
  "companion_data d members = JArr (map (js_member d) (filter (\<lambda>item. sm_record_kind item \<in>
     {''physical-root'', ''physical-selector'', ''root-lease-genesis''}) members))"

definition companion_ref :: "SchedulerCodec \<Rightarrow> SchedulerCanonicalMember list \<Rightarrow> PresentRef" where
  "companion_ref d members = dto_reference ''scheduler-epoch-companion-v1'' (companion_data d members)"

definition assemble_occurrence ::
  "LoopCodec \<Rightarrow> SchedulerCodec \<Rightarrow> IntervalParentPrimitive \<Rightarrow> PresentRef \<Rightarrow> LineageBinding \<Rightarrow> RunRecord \<Rightarrow>
   OccurrenceDisposition list \<Rightarrow> MaterializedOccurrence" where
  "assemble_occurrence l d parent parent_ref lineage run dispositions =
     (let authority_epoch = ri_authority_epoch (ip_run_inputs parent);
          primitive = batch_primitive parent parent_ref lineage;
          lease = genesis_lease d primitive;
          physical = materialized_physical lineage parent_ref authority_epoch;
          init = initialization d parent parent_ref lineage physical primitive run;
          init_ref = dto_reference ''scheduler-run-initialization-v1'' init;
          recip = reciprocal d init_ref lineage physical lease run;
          reciprocal_ref = dto_reference ''scheduler-root-run-reciprocal-v1'' recip;
          members =
            [canonical_member ''batch-primitive'' (pn_head (primitive_ref d primitive)) (js_primitive d primitive),
             canonical_member ''stable-lineage'' (ln_lineage_head lineage) (js_lineage d lineage),
             canonical_member ''physical-root'' (pn_head (epoch_ref lineage parent_ref authority_epoch))
               (snd (epoch_body lineage parent_ref authority_epoch)),
             canonical_member ''physical-selector'' (pn_head (selector_ref lineage parent_ref authority_epoch))
               (snd (selector_of lineage parent_ref authority_epoch)),
             lease_genesis_member d lineage physical lease,
             run_member l run,
             canonical_member ''run-initialization'' (pn_head init_ref) init,
             canonical_member ''root-run-reciprocal'' (pn_head reciprocal_ref) recip]
            @ map (disposition_member d) dispositions
            @ aggregate_members d parent (ln_subject lineage);
          companion = companion_ref d members;
          all_members = members @ [canonical_member ''epoch-companion'' (pn_head companion) (companion_data d members)];
          finalized = domain_hash ''scheduled-batch-finalized-members-v1''
            (JArr (map (js_member d) all_members))
      in \<lparr>mo_primitive = primitive, mo_run = run,
          mo_commitment = \<lparr>mc_parent_decision = parent_ref,
            mc_subject = ln_subject lineage,
            mc_dispositions = dispositions,
            mc_lineage = lineage,
            mc_initial_run = \<lparr>pn_head = rn_head run, pn_fingerprint = json_digest (dump_run l run)\<rparr>,
            mc_initialization = init_ref,
            mc_reciprocal_run_root = reciprocal_ref,
            mc_physical_root = physical,
            mc_physical_epoch = epoch_ref lineage parent_ref authority_epoch,
            mc_genesis_lease = lease,
            mc_companion_manifest = companion,
            mc_primitive_domain_fingerprint = pn_fingerprint (primitive_ref d primitive),
            mc_finalized_members_fingerprint = finalized,
            mc_batch_fingerprint = domain_hash ''scheduled-batch-envelope-v1''
              (JObj [(''finalized_members'', JStr finalized),
                     (''companion'', js_present d companion),
                     (''schema_dag'', js_present d schema_dag_ref)]),
            mc_schema_dependency_manifest = schema_dag_ref\<rparr>,
          mo_members = all_members\<rparr>)"

definition materialize_occurrence ::
  "LoopCodec \<Rightarrow> SchedulerCodec \<Rightarrow> IntervalParentPrimitive \<Rightarrow> PresentRef \<Rightarrow> LineageSubject \<Rightarrow>
   (SchedulerError, MaterializedOccurrence) result" where
  "materialize_occurrence l d parent parent_ref subject =
     (if parent_ref \<noteq> dto_reference ''scheduler-parent-v1'' (js_parent d parent)
        then refuse ''parent identity differs from primitive domain''
      else rbind (if ip_branch parent \<noteq> policy_branch
                       (mh_kind (eb_missed_occurrence_policy_head (ip_boundary parent)))
                       (length (em_members (ip_manifest parent)))
             then Inr True
             else rbind (execution_subjects d (ip_boundary parent) (ip_manifest parent)
                          (em_members (ip_manifest parent))) (\<lambda>subjects. Inr (subject \<notin> set subjects)))
        (\<lambda>foreign_subject.
      if foreign_subject then refuse ''subject or branch differs from exact eligible policy algebra''
      else
        let lineage = materialized_lineage d (ip_boundary parent) subject
              (scheduled_run_id d parent_ref subject)
        in rbind (scheduled_run l d (ip_run_inputs parent) lineage) (\<lambda>run.
           rbind (subject_dispositions (ip_manifest parent) subject
                    (materialization_identity d (batch_primitive parent parent_ref lineage))) (\<lambda>dispositions.
           Inr (assemble_occurrence l d parent parent_ref lineage run dispositions)))))"

end
