(* ===== verification/Scheduler_Interval.thy ===== *)
theory Scheduler_Interval
  imports Scheduler_Materialization
begin

text \<open>
  \<open>scheduler_materialization.py\<close>, second half: the compilation of an interval into its decision and
  complete batch, the overflow hold that replaces it when a registered bound is exceeded, and the
  resolution of a hold under a successor bound.
\<close>

section \<open>Compilation\<close>

definition materialize_all ::
  "LoopCodec \<Rightarrow> SchedulerCodec \<Rightarrow> IntervalParentPrimitive \<Rightarrow> PresentRef \<Rightarrow> LineageSubject list \<Rightarrow>
   (SchedulerError, MaterializedOccurrence list) result" where
  "materialize_all l d parent parent_ref subjects =
     rfold (\<lambda>subject occurrences.
       rbind (materialize_occurrence l d parent parent_ref subject) (\<lambda>item. Inr (occurrences @ [item])))
       subjects []"

definition interval_dispositions ::
  "IntervalParentPrimitive \<Rightarrow> PresentRef \<Rightarrow> MaterializedOccurrence list \<Rightarrow> OccurrenceDisposition list" where
  "interval_dispositions parent parent_ref occurrences =
     (if ip_branch parent = SKIP_ALL
        then map (\<lambda>item. SKIPPED item parent_ref) (em_members (ip_manifest parent))
      else concat (map (\<lambda>occurrence. mc_dispositions (mo_commitment occurrence)) occurrences))"

text \<open>The decision or resolution, with the placeholder commitment \<open>"0" * 64\<close>.\<close>

definition interval_result ::
  "IntervalParentPrimitive \<Rightarrow> PresentRef \<Rightarrow> MaterializedOccurrence list \<Rightarrow>
   (SchedulerError, IntervalResult) result" where
  "interval_result parent parent_ref occurrences =
     (let dispositions = interval_dispositions parent parent_ref occurrences;
          materializations = map mo_commitment occurrences;
          resulting = eb_cutoff_due_coordinate (ip_boundary parent);
          pending = replicate 64 (CHR ''0'')
      in case ip_kind parent of
        ORDINARY_PARENT \<Rightarrow> Inr (INTERVAL_DECISION
          \<lparr>iv_decision = parent_ref, iv_command = ip_command parent, iv_branch = ip_branch parent,
           iv_boundary = ip_boundary parent, iv_bound_head = ip_current_bound parent,
           iv_manifest = ip_manifest parent, iv_dispositions = dispositions,
           iv_materializations = materializations, iv_resulting_boundary = resulting,
           iv_complete_commitment = pending\<rparr>)
      | RESOLUTION_PARENT \<Rightarrow>
          (case ip_original_hold parent of
             None \<Rightarrow> refuse ''resolution lacks original hold identity''
           | Some hold \<Rightarrow> Inr (INTERVAL_RESOLUTION
               \<lparr>ir_decision = parent_ref, ir_command = ip_command parent, ir_original_hold = hold,
                ir_original_bound_head = ip_original_bound parent,
                ir_successor_bound_head = ip_current_bound parent,
                ir_boundary = ip_boundary parent, ir_manifest = ip_manifest parent,
                ir_branch = ip_branch parent, ir_dispositions = dispositions,
                ir_materializations = materializations, ir_resulting_boundary = resulting,
                ir_complete_commitment = pending\<rparr>)))"

fun with_commitment :: "string \<Rightarrow> IntervalResult \<Rightarrow> IntervalResult" where
  "with_commitment fingerprint (INTERVAL_DECISION decision) =
     INTERVAL_DECISION (decision\<lparr>iv_complete_commitment := fingerprint\<rparr>)"
| "with_commitment fingerprint (INTERVAL_RESOLUTION decision) =
     INTERVAL_RESOLUTION (decision\<lparr>ir_complete_commitment := fingerprint\<rparr>)"
| "with_commitment fingerprint (OVERFLOW_HOLD hold) = OVERFLOW_HOLD hold"

definition is_skipped :: "OccurrenceDisposition \<Rightarrow> bool" where
  "is_skipped item = (case item of SKIPPED _ _ \<Rightarrow> True | _ \<Rightarrow> False)"

definition interval_records ::
  "SchedulerCodec \<Rightarrow> IntervalParentPrimitive \<Rightarrow> PresentRef \<Rightarrow> MaterializedOccurrence list \<Rightarrow>
   SchedulerCanonicalMember list" where
  "interval_records d parent parent_ref occurrences =
     canonical_member ''interval-parent'' (pn_head parent_ref) (js_parent d parent)
     # concat (map mo_members occurrences)
     @ map (disposition_member d)
         (filter is_skipped (interval_dispositions parent parent_ref occurrences))
     @ (case (ip_kind parent, ip_original_hold parent) of
          (RESOLUTION_PARENT, Some hold) \<Rightarrow>
            [canonical_member ''overflow-resolution'' (pn_head parent_ref @ '':hold-resolution'')
               (JObj [(''original_hold'', js_present d hold),
                      (''state'', js_overflow_state d (RESOLVED_BY_OPERATOR parent_ref))])]
        | _ \<Rightarrow> [])"

definition serialized :: "SchedulerCodec \<Rightarrow> SchedulerCanonicalMember list \<Rightarrow> bytes" where
  "serialized d records = dto_bytes (JArr (map (js_member d) records))"

definition compile ::
  "LoopCodec \<Rightarrow> SchedulerCodec \<Rightarrow> IntervalParentPrimitive \<Rightarrow> UndisposedOccurrence list \<Rightarrow>
   (SchedulerError, IntervalCandidate) result" where
  "compile l d parent source =
     rbind (validate_schema_dag SCHEMA_DAG) (\<lambda>_.
     rbind (verify_manifest d (ip_boundary parent) (ip_manifest parent) source) (\<lambda>_.
     let parent_ref = dto_reference ''scheduler-parent-v1'' (js_parent d parent)
     in rbind (execution_subjects d (ip_boundary parent) (ip_manifest parent) source) (\<lambda>subjects.
     rbind (materialize_all l d parent parent_ref subjects) (\<lambda>occurrences.
     rbind (interval_result parent parent_ref occurrences) (\<lambda>pending.
     let records = interval_records d parent parent_ref occurrences;
         fingerprint = domain_hash ''scheduler-interval-envelope-v1''
           (JObj [(''complete_non_envelope_records'', JArr (map (js_member d) records)),
                  (''result_without_commitment'', json_del ''complete_commitment'' (js_result d pending))]);
         outcome = with_commitment fingerprint pending;
         all_records = records @ [canonical_member ''interval-result'' (pn_head parent_ref @ '':result'')
                                    (js_result d outcome)]
     in if card (set (map sm_record_id all_records)) \<noteq> length all_records
          then refuse ''duplicate complete-batch record identity''
        else Inr \<lparr>ic_parent_primitive = Some parent, ic_result = outcome, ic_occurrences = occurrences,
                  ic_records = all_records, ic_batch_fingerprint = fingerprint,
                  ic_serialized_batch_bytes = length (serialized d all_records)\<rparr>)))))"

section \<open>Overflow holds\<close>

definition dimension_text :: "OverflowDimension \<Rightarrow> string" where
  "dimension_text dimension = (case dimension of
     MEMBER_COUNT \<Rightarrow> ''MEMBER_COUNT'' | MANIFEST_BYTES \<Rightarrow> ''MANIFEST_BYTES''
   | SERIALIZED_BATCH_BYTES \<Rightarrow> ''SERIALIZED_BATCH_BYTES'')"

definition overflow_candidate ::
  "SchedulerCodec \<Rightarrow> DecideIntervalCommand \<Rightarrow> SchedulerIntervalBoundHead \<Rightarrow> EligibilityEvidence \<Rightarrow>
   OverflowDimension \<Rightarrow> nat \<Rightarrow> nat \<Rightarrow> string \<Rightarrow> IntervalCandidate" where
  "overflow_candidate d command current_bound evidence dimension actual limit operator_recovery_owner =
     (let hold_ref = dto_reference ''scheduler-overflow-hold-v1''
            (JObj [(''command'', js_identity d (di_identity command)),
                   (''boundary'', js_boundary d (di_boundary command)),
                   (''bound_head'', js_bound_head d current_bound),
                   (''dimension'', JStr (dimension_text dimension)),
                   (''actual'', JInt (int actual)),
                   (''limit'', JInt (int limit)),
                   (''evidence'', js_evidence d evidence),
                   (''operator'', JStr operator_recovery_owner)]);
          hold = \<lparr>oh_hold = hold_ref, oh_command = di_identity command, oh_boundary = di_boundary command,
                  oh_bound_head = current_bound, oh_exceeded_dimension = dimension,
                  oh_actual_value = actual, oh_limit = limit, oh_evidence = evidence,
                  oh_operator_recovery_owner = operator_recovery_owner, oh_state = OVERFLOW_ACTIVE\<rparr>;
          records = [canonical_member ''overflow-hold'' (pn_head hold_ref) (js_hold d hold)]
      in \<lparr>ic_parent_primitive = None, ic_result = OVERFLOW_HOLD hold, ic_occurrences = [],
          ic_records = records,
          ic_batch_fingerprint = domain_hash ''scheduler-overflow-envelope-v1'' (js_hold d hold),
          ic_serialized_batch_bytes = length (serialized d records)\<rparr>)"

definition overflow_evidence ::
  "SchedulerCodec \<Rightarrow> SchedulerEligibilityManifest \<Rightarrow> nat \<Rightarrow> PresentRef \<Rightarrow> EligibilityEvidence" where
  "overflow_evidence d manifest max_manifest_bytes enumeration_proof =
     (if length (eligibility_bytes d manifest) \<le> max_manifest_bytes then FULL_MANIFEST manifest
      else
        let ref = (\<lambda>item. \<lparr>pn_head = uo_undisposed_head item, pn_fingerprint = uo_undisposed_fingerprint item\<rparr>)
        in STREAMING_MANIFEST
          \<lparr>se_manifest_digest = em_fingerprint manifest,
           se_member_count = length (em_members manifest),
           se_first_member = (case em_members manifest of [] \<Rightarrow> None | item # _ \<Rightarrow> Some (ref item)),
           se_last_member = (case em_members manifest of [] \<Rightarrow> None
              | _ # _ \<Rightarrow> Some (ref (last (em_members manifest)))),
           se_order_contract_version = ''chiplog.scheduler.numeric-due.v1'',
           se_enumeration_completeness_proof = enumeration_proof\<rparr>)"

definition ordinary_parent ::
  "DecideIntervalCommand \<Rightarrow> SchedulerIntervalBoundHead \<Rightarrow> SchedulerEligibilityManifest \<Rightarrow>
   SchedulerRunInputs \<Rightarrow> IntervalParentPrimitive" where
  "ordinary_parent command current_bound manifest run_inputs =
     \<lparr>ip_kind = ORDINARY_PARENT, ip_command = di_identity command, ip_boundary = di_boundary command,
      ip_current_bound = current_bound, ip_original_bound = current_bound,
      ip_original_hold = None, ip_operator_proof = None, ip_manifest = manifest,
      ip_branch = policy_branch (mh_kind (eb_missed_occurrence_policy_head (di_boundary command)))
        (length (em_members manifest)),
      ip_run_inputs = run_inputs\<rparr>"

definition prepare_interval ::
  "LoopCodec \<Rightarrow> SchedulerCodec \<Rightarrow> DecideIntervalCommand \<Rightarrow> SchedulerIntervalBoundHead \<Rightarrow>
   UndisposedOccurrence list \<Rightarrow> SchedulerRunInputs \<Rightarrow> PresentRef \<Rightarrow> SchedulerOverflowHold option \<Rightarrow>
   (SchedulerError, IntervalCandidate) result" where
  "prepare_interval l d command current_bound source run_inputs enumeration_proof active_hold =
     (case di_manifest command of
        Inr _ \<Rightarrow> refuse ''full interval materialization requires full manifest''
      | Inl submitted \<Rightarrow>
          if (case active_hold of Some hold \<Rightarrow> oh_state hold = OVERFLOW_ACTIVE | None \<Rightarrow> False)
            then refuse ''active overflow hold blocks ordinary interval and amendment''
          else if di_bound_head command \<noteq> current_bound
            then refuse ''current interval bound head changed''
          else rbind (verify_manifest d (di_boundary command) submitted source) (\<lambda>manifest.
            let bound = ih_bound current_bound;
                held = (\<lambda>dimension actual limit. overflow_candidate d command current_bound
                  (overflow_evidence d manifest (ib_max_manifest_bytes bound) enumeration_proof)
                  dimension actual limit (ri_principal run_inputs))
            in case eligibility_overflows d manifest bound of
                 exceeded # _ \<Rightarrow> Inr (held (ov_dimension exceeded) (ov_actual exceeded) (ov_limit exceeded))
               | [] \<Rightarrow> rbind (compile l d (ordinary_parent command current_bound manifest run_inputs) source)
                   (\<lambda>candidate.
                   if ic_serialized_batch_bytes candidate \<le> ib_max_serialized_batch_bytes bound
                     then Inr candidate
                   else Inr (held SERIALIZED_BATCH_BYTES (ic_serialized_batch_bytes candidate)
                          (ib_max_serialized_batch_bytes bound)))))"

definition evidence_is_full :: "EligibilityEvidence \<Rightarrow> bool" where
  "evidence_is_full evidence = (case evidence of FULL_MANIFEST _ \<Rightarrow> True | STREAMING_MANIFEST _ \<Rightarrow> False)"

definition prepare_streamed_overflow ::
  "SchedulerCodec \<Rightarrow> DecideIntervalCommand \<Rightarrow> SchedulerIntervalBoundHead \<Rightarrow> EligibilityEvidence \<Rightarrow>
   nat \<Rightarrow> nat \<Rightarrow> string \<Rightarrow> (SchedulerError, IntervalCandidate) result" where
  "prepare_streamed_overflow d command current_bound evidence member_count manifest_bytes operator_recovery_owner =
     (let bound = ih_bound current_bound
      in if di_bound_head command \<noteq> current_bound then refuse ''streamed overflow bound head changed''
         else rbind
           (if member_count > ib_max_member_count bound
              then Inr (MEMBER_COUNT, member_count, ib_max_member_count bound)
            else if manifest_bytes > ib_max_manifest_bytes bound
              then Inr (MANIFEST_BYTES, manifest_bytes, ib_max_manifest_bytes bound)
            else refuse ''streamed evidence is within bounds; ordinary branch required'')
           (\<lambda>(dimension, actual, limit).
            if (manifest_bytes \<le> ib_max_manifest_bytes bound) \<noteq> evidence_is_full evidence
              then refuse ''overflow evidence form does not match exact manifest bound''
            else Inr (overflow_candidate d command current_bound evidence dimension actual limit
                   operator_recovery_owner)))"

section \<open>Resolution\<close>

definition evidence_fingerprint :: "EligibilityEvidence \<Rightarrow> string" where
  "evidence_fingerprint evidence = (case evidence of
     FULL_MANIFEST manifest \<Rightarrow> em_fingerprint manifest
   | STREAMING_MANIFEST streamed \<Rightarrow> se_manifest_digest streamed)"

definition resolution_parent ::
  "ResolveIntervalCommand \<Rightarrow> SchedulerIntervalBoundHead \<Rightarrow> SchedulerEligibilityManifest \<Rightarrow>
   SchedulerRunInputs \<Rightarrow> IntervalParentPrimitive" where
  "resolution_parent command current_bound manifest run_inputs =
     \<lparr>ip_kind = RESOLUTION_PARENT, ip_command = rv_identity command, ip_boundary = rv_boundary command,
      ip_current_bound = current_bound, ip_original_bound = oh_bound_head (rv_active_hold command),
      ip_original_hold = Some (oh_hold (rv_active_hold command)),
      ip_operator_proof = Some (rv_operator_proof command), ip_manifest = manifest,
      ip_branch = policy_branch (mh_kind (eb_missed_occurrence_policy_head (rv_boundary command)))
        (length (em_members manifest)),
      ip_run_inputs = run_inputs\<rparr>"

definition prepare_resolution ::
  "LoopCodec \<Rightarrow> SchedulerCodec \<Rightarrow> ResolveIntervalCommand \<Rightarrow> SchedulerIntervalBoundHead \<Rightarrow>
   UndisposedOccurrence list \<Rightarrow> SchedulerRunInputs \<Rightarrow> (SchedulerError, IntervalCandidate) result" where
  "prepare_resolution l d command current_bound source run_inputs =
     (let hold = rv_active_hold command
      in if oh_state hold \<noteq> OVERFLOW_ACTIVE \<or> rv_boundary command \<noteq> oh_boundary hold
           then refuse ''resolution requires exact active hold and unchanged boundary''
         else if rv_successor_bound command \<noteq> current_bound
             \<or> ih_generation current_bound \<le> ih_generation (oh_bound_head hold)
             \<or> ih_head_id current_bound = ih_head_id (oh_bound_head hold)
           then refuse ''resolution requires exact current successor bound''
         else rbind (verify_manifest d (rv_boundary command) (rv_complete_manifest command) source)
           (\<lambda>manifest.
            if em_fingerprint manifest \<noteq> evidence_fingerprint (oh_evidence hold)
              then refuse ''held eligible membership changed''
            else rbind (compile l d (resolution_parent command current_bound manifest run_inputs) source)
              (\<lambda>candidate.
               if eligibility_overflows d manifest (ih_bound current_bound) \<noteq> []
                  \<or> ic_serialized_batch_bytes candidate > ib_max_serialized_batch_bytes (ih_bound current_bound)
                 then refuse ''successor bound does not admit complete resolution''
               else Inr candidate)))"

end
