(* ===== verification/Scheduler_Configuration.thy ===== *)
theory Scheduler_Configuration
  imports Scheduler_Domain
begin

text \<open>
  \<open>scheduler_configuration.py\<close>: the three revision streams of a schedule (definition, missed-occurrence
  policy, interval bound), their genesis, amendment and replacement, and the enumeration of a fixed
  interval definition, in full and as a one-pass stream.
\<close>

section \<open>Revision streams\<close>

definition record_ref :: "json \<Rightarrow> string \<Rightarrow> PresentRef" where
  "record_ref dump prefix =
     (let fingerprint = sha256_hex (dto_bytes dump)
      in \<lparr>pn_head = prefix @ '':'' @ fingerprint, pn_fingerprint = fingerprint\<rparr>)"

definition schedule_head :: "SchedulerCodec \<Rightarrow> ScheduleRevision \<Rightarrow> ScheduleDefinitionHead" where
  "schedule_head d revision =
     (let ref = record_ref (js_schedule d revision) ''scheduler-definition-v1''
      in \<lparr>sh_schedule_id = sv_schedule_id revision, sh_schedule_revision = nat_str (sv_revision revision),
          sh_head = pn_head ref, sh_fingerprint = pn_fingerprint ref\<rparr>)"

definition policy_head :: "SchedulerCodec \<Rightarrow> PolicyRevision \<Rightarrow> MissedOccurrencePolicyHead" where
  "policy_head d revision =
     (let ref = record_ref (js_policy d revision) ''scheduler-policy-v1''
      in \<lparr>mh_policy_id = pv_schedule_id revision @ ''/missed-policy'',
          mh_policy_revision = nat_str (pv_revision revision),
          mh_head = pn_head ref, mh_fingerprint = pn_fingerprint ref, mh_kind = pv_policy revision\<rparr>)"

definition validate_definition ::
  "FixedIntervalDefinition \<Rightarrow> SchedulerContextRef \<Rightarrow> (SchedulerError, unit) result" where
  "validate_definition defn cx =
     (if ri_tenant (fd_run_inputs defn) \<noteq> cx_tenant_id cx
        then refuse ''definition belongs to another tenant''
      else case fd_end_exclusive_ns defn of
        Some end_ns \<Rightarrow> if end_ns \<le> int (fd_start_ns defn)
          then refuse ''exclusive end must follow start'' else Inr ()
      | None \<Rightarrow> Inr ())"

definition current_configuration ::
  "ConfigurationSnapshot \<Rightarrow>
   (SchedulerError, ScheduleRevision \<times> PolicyRevision \<times> SchedulerIntervalBoundHead) result" where
  "current_configuration snapshot =
     (case (cs_schedule snapshot, cs_policy snapshot, cs_bound snapshot) of
        (Some sched, Some policy, Some bound) \<Rightarrow>
          if sv_schedule_id sched \<noteq> pv_schedule_id policy
            then refuse ''configuration streams belong to different schedules''
          else Inr (sched, policy, bound)
      | _ \<Rightarrow> refuse ''configuration is absent or incompletely initialized'')"

definition next_bound ::
  "SchedulerCodec \<Rightarrow> SchedulerContextRef \<Rightarrow> string \<Rightarrow> SchedulerIntervalBound \<Rightarrow>
   SchedulerIntervalBoundHead option \<Rightarrow> string \<Rightarrow> string \<Rightarrow> string \<Rightarrow>
   (SchedulerError, SchedulerIntervalBoundHead) result" where
  "next_bound d cx command_id bound previous authority_epoch broker_generation runtime_graph_generation =
     (if (case previous of Some p \<Rightarrow> ih_generation p = 2 ^ 64 - 1 | None \<Rightarrow> False)
        then refuse ''bound generation exhausted''
      else
        let body = \<lparr>ih_head_id = ''pending'',
                    ih_predecessor = map_option (\<lambda>p.
                      \<lparr>pn_head = ih_head_id p,
                       pn_fingerprint = sha256_hex (dto_bytes (js_bound_head d p))\<rparr>) previous,
                    ih_generation = (case previous of None \<Rightarrow> 0 | Some p \<Rightarrow> ih_generation p + 1),
                    ih_bound = bound,
                    ih_owner_id = cx_service_identity cx,
                    ih_authority_epoch = authority_epoch,
                    ih_broker_generation = broker_generation,
                    ih_runtime_graph_generation = runtime_graph_generation,
                    ih_canonicalization_version = CANONICAL_VERSION\<rparr>;
            digest = sha256_hex (dto_bytes (js_bound_head d body) @ dto_bytes (js_context d cx)
                       @ encode command_id)
        in Inr (body\<lparr>ih_head_id := ''scheduler-bound-v1:'' @ digest\<rparr>))"

definition genesis ::
  "SchedulerCodec \<Rightarrow> ConfigurationSnapshot \<Rightarrow> string \<Rightarrow> FixedIntervalDefinition \<Rightarrow> MissedPolicy \<Rightarrow>
   SchedulerIntervalBound \<Rightarrow> SchedulerContextRef \<Rightarrow> string \<Rightarrow> string \<Rightarrow> string \<Rightarrow> string \<Rightarrow>
   (SchedulerError, ConfigurationProposal) result" where
  "genesis d snapshot schedule_id defn policy bound cx command_id
     authority_epoch broker_generation runtime_graph_generation =
     (if cs_schedule snapshot \<noteq> None \<or> cs_policy snapshot \<noteq> None \<or> cs_bound snapshot \<noteq> None
         \<or> cs_active_hold snapshot \<noteq> None
        then refuse ''genesis requires all three streams absent and no hold''
      else rbind (validate_definition defn cx) (\<lambda>_.
        rbind (next_bound d cx command_id bound None authority_epoch broker_generation
                 runtime_graph_generation) (\<lambda>first_bound.
        Inr \<lparr>cf_operation = op_genesis,
             cf_expected = snapshot,
             cf_proposed = \<lparr>
               cs_schedule = Some \<lparr>sv_schedule_id = schedule_id, sv_revision = 0, sv_previous = None,
                 sv_definition = defn, sv_context = cx, sv_command_id = command_id\<rparr>,
               cs_policy = Some \<lparr>pv_schedule_id = schedule_id, pv_revision = 0, pv_previous = None,
                 pv_policy = policy, pv_context = cx, pv_command_id = command_id\<rparr>,
               cs_bound = Some first_bound,
               cs_active_hold = None\<rparr>,
             cf_context = cx,
             cf_command_id = command_id\<rparr>)))"

definition amend ::
  "SchedulerCodec \<Rightarrow> ConfigurationSnapshot \<Rightarrow> ScheduleDefinitionHead \<Rightarrow> MissedOccurrencePolicyHead \<Rightarrow>
   SchedulerContextRef \<Rightarrow> string \<Rightarrow> FixedIntervalDefinition option \<Rightarrow> MissedPolicy option \<Rightarrow>
   (SchedulerError, ConfigurationProposal) result" where
  "amend d snapshot observed_schedule observed_policy cx command_id defn policy =
     rbind (current_configuration snapshot) (\<lambda>(sched, missed, _).
     if observed_schedule \<noteq> schedule_head d sched \<or> observed_policy \<noteq> policy_head d missed
       then refuse ''schedule or policy exact head changed''
     else if cs_active_hold snapshot \<noteq> None
       then refuse ''active overflow hold forbids definition or policy amendment''
     else if cx_tenant_id cx \<noteq> cx_tenant_id (sv_context sched)
       then refuse ''foreign configuration tenant''
     else case (defn, policy) of
       (Some new_definition, None) \<Rightarrow>
         rbind (validate_definition new_definition cx) (\<lambda>_.
         Inr \<lparr>cf_operation = op_amend_schedule,
              cf_expected = snapshot,
              cf_proposed = snapshot\<lparr>cs_schedule := Some
                \<lparr>sv_schedule_id = sv_schedule_id sched,
                 sv_revision = sv_revision sched + 1,
                 sv_previous = Some (record_ref (js_schedule d sched) ''scheduler-definition-v1''),
                 sv_definition = new_definition, sv_context = cx, sv_command_id = command_id\<rparr>\<rparr>,
              cf_context = cx,
              cf_command_id = command_id\<rparr>)
     | (None, Some new_policy) \<Rightarrow>
         Inr \<lparr>cf_operation = op_amend_policy,
              cf_expected = snapshot,
              cf_proposed = snapshot\<lparr>cs_policy := Some
                \<lparr>pv_schedule_id = pv_schedule_id missed,
                 pv_revision = pv_revision missed + 1,
                 pv_previous = Some (record_ref (js_policy d missed) ''scheduler-policy-v1''),
                 pv_policy = new_policy, pv_context = cx, pv_command_id = command_id\<rparr>\<rparr>,
              cf_context = cx,
              cf_command_id = command_id\<rparr>
     | _ \<Rightarrow> refuse ''amend exactly one revision stream'')"

definition replace_bound ::
  "SchedulerCodec \<Rightarrow> ConfigurationSnapshot \<Rightarrow> SchedulerIntervalBoundHead \<Rightarrow> SchedulerIntervalBound \<Rightarrow>
   SchedulerContextRef \<Rightarrow> string \<Rightarrow> string \<Rightarrow> string \<Rightarrow> string \<Rightarrow>
   (SchedulerError, ConfigurationProposal) result" where
  "replace_bound d snapshot observed proposed_bound cx command_id
     authority_epoch broker_generation runtime_graph_generation =
     rbind (current_configuration snapshot) (\<lambda>(sched, _, bound).
     if observed \<noteq> bound \<or> cx_tenant_id cx \<noteq> cx_tenant_id (sv_context sched)
       then refuse ''bound head changed or foreign tenant''
     else rbind (next_bound d cx command_id proposed_bound (Some bound) authority_epoch
                   broker_generation runtime_graph_generation) (\<lambda>successor.
       Inr \<lparr>cf_operation = op_replace_bound,
            cf_expected = snapshot,
            cf_proposed = snapshot\<lparr>cs_bound := Some successor\<rparr>,
            cf_context = cx,
            cf_command_id = command_id\<rparr>))"

section \<open>Enumeration of a definition\<close>

definition disposed_index ::
  "SchedulerCodec \<Rightarrow> SchedulerEligibilityBoundary \<Rightarrow> FixedIntervalDefinition \<Rightarrow> DisposedOccurrence \<Rightarrow>
   int list \<Rightarrow> (SchedulerError, int list) result" where
  "disposed_index d boundary defn row disposed_indices =
     rbind (coordinate_value (do_due_coordinate row)) (\<lambda>due.
     let offset = int due - int (fd_start_ns defn)
     in rbind (if offset < 0 \<or> offset mod int (fd_period_ns defn) \<noteq> 0
               \<or> (case fd_end_exclusive_ns defn of Some end_ns \<Rightarrow> int due \<ge> end_ns | None \<Rightarrow> False)
          then Inr True
          else rbind (occurrence_identity d (eb_schedule_definition_head boundary) (do_due_coordinate row))
                 (\<lambda>identity. Inr (do_occurrence_id row \<noteq> identity))) (\<lambda>foreign_row.
        if foreign_row then refuse ''disposed identity is not in exact definition revision''
        else Inr (disposed_indices @ [offset div int (fd_period_ns defn)])))"

definition definition_enumeration ::
  "SchedulerCodec \<Rightarrow> ConfigurationSnapshot \<Rightarrow> SchedulerEligibilityBoundary \<Rightarrow> DisposedOccurrence list \<Rightarrow>
   (SchedulerError, DefinitionEnumeration) result" where
  "definition_enumeration d snapshot boundary disposed =
     rbind (current_configuration snapshot) (\<lambda>(sched, policy, _).
     if eb_schedule_definition_head boundary \<noteq> schedule_head d sched
        \<or> eb_missed_occurrence_policy_head boundary \<noteq> policy_head d policy
       then refuse ''boundary does not bind actual configuration records''
     else
       let defn = sv_definition sched;
           period = int (fd_period_ns defn);
           origin = int (fd_start_ns defn)
       in rbind (validate_definition defn (sv_context sched)) (\<lambda>_.
          rbind (coordinate_value (eb_previous_due_boundary boundary)) (\<lambda>start.
          rbind (coordinate_value (eb_cutoff_due_coordinate boundary)) (\<lambda>cutoff.
          if cutoff < start \<or> eb_canonicalization_version boundary \<noteq> CANONICAL_VERSION
            then refuse ''invalid finite interval boundary''
          else
            let limit = (case fd_end_exclusive_ns defn of
                           Some end_ns \<Rightarrow> min (int cutoff) end_ns | None \<Rightarrow> int cutoff);
                first_index = max 0 ((int start - origin + period - 1) div period);
                last_index = max first_index ((limit - origin + period - 1) div period)
            in rbind (rfold (disposed_index d boundary defn) disposed []) (\<lambda>disposed_indices.
               if card (set disposed_indices) \<noteq> length disposed_indices
                 then refuse ''disposed identities contain duplicate indices''
               else
                 let excluded = sort (filter (\<lambda>i. first_index \<le> i \<and> i < last_index) disposed_indices)
                 in Inr \<lparr>de_definition = defn, de_boundary = boundary,
                         de_first_index = first_index, de_end_index = last_index,
                         de_excluded_indices = excluded,
                         de_eligible_count = last_index - first_index - int (length excluded)\<rparr>)))))"

text \<open>\<open>definition_members\<close>: one pass over the indices, skipping the next excluded index when it comes.\<close>

fun skip_excluded :: "int list \<Rightarrow> int list \<Rightarrow> int list" where
  "skip_excluded [] excluded = []"
| "skip_excluded (i # rest) excluded =
     (case excluded of
        x # later \<Rightarrow> if i = x then skip_excluded rest later else i # skip_excluded rest excluded
      | [] \<Rightarrow> i # skip_excluded rest excluded)"

definition index_coordinate :: "FixedIntervalDefinition \<Rightarrow> int \<Rightarrow> DueCoordinate" where
  "index_coordinate defn i =
     \<lparr>dc_coordinate_policy_version = COORDINATE_VERSION,
      dc_canonical_coordinate = int_str (int (fd_start_ns defn) + i * int (fd_period_ns defn))\<rparr>"

definition definition_member ::
  "SchedulerCodec \<Rightarrow> DefinitionEnumeration \<Rightarrow> int \<Rightarrow> (SchedulerError, UndisposedOccurrence) result" where
  "definition_member d plan i =
     (let coordinate = index_coordinate (de_definition plan) i;
          sched = eb_schedule_definition_head (de_boundary plan)
      in rbind (occurrence_identity d sched coordinate) (\<lambda>identity.
         undisposed_occurrence d sched coordinate (identity @ ''/UNDISPOSED'')))"

definition definition_members ::
  "SchedulerCodec \<Rightarrow> DefinitionEnumeration \<Rightarrow> (SchedulerError, UndisposedOccurrence list) result" where
  "definition_members d plan =
     rfold (\<lambda>i members. rbind (definition_member d plan i) (\<lambda>item. Inr (members @ [item])))
       (skip_excluded [de_first_index plan..de_end_index plan - 1] (de_excluded_indices plan)) []"

definition enumerate_definition ::
  "SchedulerCodec \<Rightarrow> ConfigurationSnapshot \<Rightarrow> SchedulerEligibilityBoundary \<Rightarrow> DisposedOccurrence list \<Rightarrow>
   (SchedulerError, SchedulerEligibilityManifest + EnumerationOverflow) result" where
  "enumerate_definition d snapshot boundary disposed =
     rbind (definition_enumeration d snapshot boundary disposed) (\<lambda>plan.
     rbind (current_configuration snapshot) (\<lambda>(_, _, bound).
     if de_eligible_count plan > int (ib_max_member_count (ih_bound bound))
       then Inr (Inr \<lparr>eo_boundary = boundary, eo_eligible_count = de_eligible_count plan,
                      eo_first_index = de_first_index plan, eo_end_index = de_end_index plan,
                      eo_excluded_indices = de_excluded_indices plan,
                      eo_limit = ib_max_member_count (ih_bound bound)\<rparr>)
     else rbind (definition_members d plan) (\<lambda>members.
       rbind (eligible_manifest d boundary members) (\<lambda>manifest. Inr (Inl manifest)))))"

section \<open>The one-pass stream\<close>

text \<open>
  The state of the loop of \<open>stream_definition\<close>: the bytes fed to the digest, the measured size, the
  retained members while they fit, the references of the first and the last member, the count and
  the previous index.
\<close>

record StreamState =
  ss_hashed :: bytes
  ss_measured :: nat
  ss_retained :: "UndisposedOccurrence list option"
  ss_first :: "PresentRef option"
  ss_last :: "PresentRef option"
  ss_count :: nat
  ss_previous_index :: int

definition stream_start :: "SchedulerCodec \<Rightarrow> SchedulerEligibilityBoundary \<Rightarrow> nat \<Rightarrow> int \<Rightarrow> StreamState" where
  "stream_start d boundary limit first_index =
     (let measured = length (canonical_json
            (JObj [(''fingerprint'', JStr (replicate 64 (CHR ''0''))), (''members'', JArr [])]))
      in \<lparr>ss_hashed = encode (''['' @ [CHR 0x22] @ ''scheduler-eligibility-manifest-v1'' @ [CHR 0x22] @ '',['')
            @ canonical_json (js_boundary d boundary) @ encode '',['',
          ss_measured = measured,
          ss_retained = (if measured \<le> limit then Some [] else None),
          ss_first = None, ss_last = None, ss_count = 0,
          ss_previous_index = first_index - 1\<rparr>)"

definition occurrence_ref :: "UndisposedOccurrence \<Rightarrow> PresentRef" where
  "occurrence_ref item =
     \<lparr>pn_head = uo_undisposed_head item, pn_fingerprint = uo_undisposed_fingerprint item\<rparr>"

definition stream_member ::
  "SchedulerCodec \<Rightarrow> DefinitionEnumeration \<Rightarrow> nat \<Rightarrow> UndisposedOccurrence \<Rightarrow> StreamState \<Rightarrow>
   (SchedulerError, StreamState) result" where
  "stream_member d plan limit item s =
     (let sched = eb_schedule_definition_head (de_boundary plan);
          period = int (fd_period_ns (de_definition plan))
      in rbind (coordinate_value (uo_due_coordinate item)) (\<lambda>due.
         rbind (occurrence_identity d sched (uo_due_coordinate item)) (\<lambda>expected_id.
         rbind (undisposed_occurrence d sched (uo_due_coordinate item) (expected_id @ ''/UNDISPOSED''))
           (\<lambda>expected.
         let offset = int due - int (fd_start_ns (de_definition plan));
             index = offset div period
         in if offset mod period \<noteq> 0
               \<or> \<not> (de_first_index plan \<le> index \<and> index < de_end_index plan)
               \<or> index \<le> ss_previous_index s
               \<or> index \<in> set (de_excluded_indices plan)
               \<or> item \<noteq> expected
              then refuse ''stream member is noncanonical, duplicate or out of definition order''
            else
              let raw = canonical_json (js_occurrence d item);
                  separator = (if ss_count s = 0 then [] else encode '','');
                  measured = ss_measured s + length separator + length raw
              in Inr \<lparr>ss_hashed = ss_hashed s @ separator @ raw,
                      ss_measured = measured,
                      ss_retained = (case ss_retained s of
                          Some kept \<Rightarrow> if measured \<le> limit then Some (kept @ [item]) else None
                        | None \<Rightarrow> None),
                      ss_first = (if ss_count s = 0 then Some (occurrence_ref item) else ss_first s),
                      ss_last = Some (occurrence_ref item),
                      ss_count = ss_count s + 1,
                      ss_previous_index = index\<rparr>))))"

definition stream_definition ::
  "SchedulerCodec \<Rightarrow> ConfigurationSnapshot \<Rightarrow> SchedulerEligibilityBoundary \<Rightarrow> DisposedOccurrence list \<Rightarrow>
   PresentRef \<Rightarrow> (SchedulerError, StreamedEligibility) result" where
  "stream_definition d snapshot boundary disposed enumeration_proof =
     rbind (definition_enumeration d snapshot boundary disposed) (\<lambda>plan.
     rbind (current_configuration snapshot) (\<lambda>(_, _, bound).
     let limit = ib_max_manifest_bytes (ih_bound bound)
     in rbind (definition_members d plan) (\<lambda>members.
        rbind (rfold (stream_member d plan limit) members
                 (stream_start d boundary limit (de_first_index plan))) (\<lambda>s.
        if int (ss_count s) \<noteq> de_eligible_count plan
          then refuse ''stream differs from exact arithmetic membership''
        else
          let fingerprint = sha256_hex (ss_hashed s @ encode '']]]'')
          in rbind (case ss_retained s of
               Some kept \<Rightarrow>
                 let manifest = \<lparr>em_members = kept, em_fingerprint = fingerprint\<rparr>
                 in if length (eligibility_bytes d manifest) \<noteq> ss_measured s
                      then refuse ''stream canonical manifest byte domain differs''
                    else Inr (FULL_MANIFEST manifest)
             | None \<Rightarrow> Inr (STREAMING_MANIFEST
                 \<lparr>se_manifest_digest = fingerprint, se_member_count = ss_count s,
                  se_first_member = ss_first s, se_last_member = ss_last s,
                  se_order_contract_version = ''chiplog.scheduler.numeric-due.v1'',
                  se_enumeration_completeness_proof = enumeration_proof\<rparr>)) (\<lambda>evidence.
             Inr \<lparr>st_member_count = ss_count s, st_manifest_bytes = ss_measured s,
                  st_manifest_fingerprint = fingerprint, st_evidence = evidence\<rparr>)))))"

end
