(* ===== verification/Scheduler_Leases.thy ===== *)
theory Scheduler_Leases
  imports Scheduler_Contracts
begin

text \<open>
  \<open>scheduler_leases.py\<close> and \<open>scheduler_rollover.py\<close>: the transitions of an execution-root lease inside
  one physical epoch, and the rollover that opens the next epoch once the generations are used up.
  The owner validates a command against an exact snapshot and the observation the broker issued, and
  derives one candidate; publishing it is the broker's step.
\<close>

section \<open>Lease transitions\<close>

definition lease_digest :: "string \<Rightarrow> json \<Rightarrow> string" where
  "lease_digest domain v = json_digest (JArr [JStr domain, v])"

definition lease_fence_fingerprint :: "SchedulerCodec \<Rightarrow> SchedulerLineageView \<Rightarrow> string" where
  "lease_fence_fingerprint d view =
     lease_digest ''scheduler-lease-fence-v1''
       (JObj [(''lineage'', js_lineage d (lv_lineage view)),
              (''physical_root'', js_physical d (lv_physical_root view)),
              (''lease'', js_lease d (lv_lease view))])"

definition lease_payload_fingerprint :: "SchedulerCodec \<Rightarrow> LeaseTransitionCommand \<Rightarrow> string" where
  "lease_payload_fingerprint d command =
     lease_digest ''scheduler-lease-transition-payload-v1''
       (json_del ''clock_proof'' (js_lease_command d command))"

text \<open>The exact issued proof for this command, fence and submission.\<close>

definition proof_issued ::
  "SchedulerCodec \<Rightarrow> SchedulerLineageView \<Rightarrow> LeaseTransitionCommand \<Rightarrow> IssuedLeaseObservation \<Rightarrow> string \<Rightarrow> bool" where
  "proof_issued d current command issued submission_id \<longleftrightarrow>
     (let clock = lt_clock_proof command
      in is_proof issued = clock
       \<and> ck_command_id clock = sc_command_id (lt_identity command)
       \<and> ck_command_payload_fingerprint clock = lease_payload_fingerprint d command
       \<and> ck_fence_fingerprint clock = lease_fence_fingerprint d current
       \<and> ck_submission_id clock = submission_id)"

definition lease_command_fingerprint :: "SchedulerCodec \<Rightarrow> LeaseTransitionCommand \<Rightarrow> string" where
  "lease_command_fingerprint d command =
     lease_digest ''scheduler-lease-transition-v1'' (js_lease_command d command)"

definition new_lease_head :: "SchedulerCodec \<Rightarrow> LeaseTransitionCommand \<Rightarrow> string" where
  "new_lease_head d command = ''scheduler-lease-head-v1:'' @ lease_command_fingerprint d command"

text \<open>The binding an acquisition or a takeover creates.\<close>

definition granted_lease ::
  "SchedulerCodec \<Rightarrow> LeaseTransitionCommand \<Rightarrow> IssuedLeaseObservation \<Rightarrow> nat \<Rightarrow> RootLease" where
  "granted_lease d command issued generation =
     \<lparr>rl_lease_head = new_lease_head d command,
      rl_holder_id = is_holder_id issued,
      rl_holder_session_id = is_holder_session_id issued,
      rl_lease_id = lt_proposed_lease_id command,
      rl_generation = generation,
      rl_trusted_expiry = lt_proposed_expiry command,
      rl_clock_contract_version = ck_clock_contract_version (lt_clock_proof command)\<rparr>"

definition acquire_lease ::
  "SchedulerCodec \<Rightarrow> LeaseState \<Rightarrow> LeaseTransitionCommand \<Rightarrow> IssuedLeaseObservation \<Rightarrow>
   (SchedulerError, LeaseState) result" where
  "acquire_lease d observed command issued =
     (if (case observed of UNLEASED _ \<Rightarrow> False | _ \<Rightarrow> True) \<or> lt_proposed_generation command \<noteq> 1
        then violate ''STALE_HEAD'' ''acquire requires exact genesis and generation one''
      else if lt_proposed_lease_id command \<in> set (is_used_lease_ids issued)
        then violate ''STALE_HEAD'' ''acquire lease identity is not fresh''
      else Inr (HELD (granted_lease d command issued 1)))"

definition renew_lease ::
  "SchedulerCodec \<Rightarrow> LeaseState \<Rightarrow> LeaseTransitionCommand \<Rightarrow> IssuedLeaseObservation \<Rightarrow>
   (SchedulerError, LeaseState) result" where
  "renew_lease d observed command issued =
     (case observed of
        HELD old \<Rightarrow>
          if is_now issued \<ge> rl_trusted_expiry old
             \<or> is_holder_id issued \<noteq> rl_holder_id old
             \<or> is_holder_session_id issued \<noteq> rl_holder_session_id old
             \<or> lt_proposed_lease_id command \<noteq> rl_lease_id old
             \<or> lt_proposed_generation command \<noteq> rl_generation old
             \<or> lt_proposed_expiry command \<le> rl_trusted_expiry old
            then violate ''LEASE_NOT_LIVE'' ''renew holder/id/generation/expiry mismatch''
          else Inr (HELD (old\<lparr>rl_lease_head := new_lease_head d command,
                              rl_trusted_expiry := lt_proposed_expiry command\<rparr>))
      | _ \<Rightarrow> violate ''STALE_HEAD'' ''renew requires exact held lease'')"

definition takeover_lease ::
  "SchedulerCodec \<Rightarrow> LeaseState \<Rightarrow> LeaseTransitionCommand \<Rightarrow> IssuedLeaseObservation \<Rightarrow>
   (SchedulerError, LeaseState) result" where
  "takeover_lease d observed command issued =
     (case observed of
        HELD old \<Rightarrow>
          if is_now issued < rl_trusted_expiry old
            then violate ''LEASE_NOT_LIVE'' ''takeover lacks positive expiry proof''
          else if lt_proposed_lease_id command \<in> set (is_used_lease_ids issued)
            then violate ''STALE_HEAD'' ''takeover lease identity is not fresh''
          else if rl_generation old = UINT64_MAX
            then if lt_proposed_generation command \<noteq> UINT64_MAX
                   then violate ''GENERATION_EXHAUSTED'' ''exhaustion cannot reset generation''
                 else Inr (GENERATION_EXHAUSTED_HOLD (new_lease_head d command)
                   (sc_command_id (lt_identity command)) (rl_trusted_expiry old)
                   (is_authority_epoch issued) old)
          else if lt_proposed_generation command \<noteq> rl_generation old + 1
            then violate ''STALE_HEAD'' ''takeover must advance generation exactly once''
          else Inr (HELD (granted_lease d command issued (lt_proposed_generation command)))
      | _ \<Rightarrow> violate ''LEASE_NOT_LIVE'' ''takeover lacks positive expiry proof'')"

text \<open>What \<open>evaluate_lease\<close> demands of the observed lease before it looks at the transition.\<close>

definition observed_lease_error ::
  "LeaseState \<Rightarrow> LeaseTransitionCommand \<Rightarrow> IssuedLeaseObservation \<Rightarrow> (SchedulerError, unit) result" where
  "observed_lease_error observed command issued =
     (case observed of
        GENERATION_EXHAUSTED_HOLD _ _ _ _ _ \<Rightarrow>
          violate ''GENERATION_EXHAUSTED'' ''only physical rollover can leave exhaustion''
      | HELD lease \<Rightarrow>
          if rl_generation lease = 0 \<or> rl_lease_id lease \<notin> set (is_used_lease_ids issued)
            then violate ''INTEGRITY_HOLD'' ''held lease absent from generation/history''
          else if rl_clock_contract_version lease \<noteq> ck_clock_contract_version (lt_clock_proof command)
            then violate ''CLOCK_UNVERIFIABLE'' ''clock contract differs from held epoch''
          else Inr ()
      | UNLEASED _ \<Rightarrow> Inr ())"

definition evaluate_lease ::
  "SchedulerCodec \<Rightarrow> SchedulerLineageView \<Rightarrow> LeaseTransitionCommand \<Rightarrow> IssuedLeaseObservation option \<Rightarrow>
   string \<Rightarrow> (SchedulerError, LeaseCandidate) result" where
  "evaluate_lease d current command issuance submission_id =
     (if lt_lineage command \<noteq> lv_lineage current
         \<or> lt_physical_root command \<noteq> lv_physical_root current
         \<or> lt_observed_lease command \<noteq> lv_lease current
        then violate ''STALE_HEAD'' ''lineage, selector, epoch or lease changed''
      else case issuance of
        None \<Rightarrow> violate ''CLOCK_UNVERIFIABLE'' ''exact issued command/fence/cut proof absent''
      | Some issued \<Rightarrow>
          if \<not> proof_issued d current command issued submission_id
            then violate ''CLOCK_UNVERIFIABLE'' ''exact issued command/fence/cut proof absent''
          else if lt_proposed_holder_id command \<noteq> is_holder_id issued
              \<or> lt_proposed_holder_session_id command \<noteq> is_holder_session_id issued
            then violate ''AUTHORITY_DENIED'' ''proposed holder/session was not authenticated''
          else if card (set (is_used_lease_ids issued)) \<noteq> length (is_used_lease_ids issued)
            then violate ''INTEGRITY_HOLD'' ''duplicate lease identity in authoritative history''
          else if \<not> (is_now issued < lt_proposed_expiry command
                    \<and> lt_proposed_expiry command \<le> is_now issued + is_max_lease_duration issued)
            then violate ''LEASE_NOT_LIVE'' ''proposed expiry outside registered future horizon''
          else rbind (observed_lease_error (lv_lease current) command issued) (\<lambda>_.
            rbind (case lt_kind command of
                ACQUIRE \<Rightarrow> acquire_lease d (lv_lease current) command issued
              | RENEW \<Rightarrow> renew_lease d (lv_lease current) command issued
              | TAKEOVER \<Rightarrow> takeover_lease d (lv_lease current) command issued) (\<lambda>new_state.
            Inr \<lparr>lc_transition_id = ''scheduler-lease-transition-v1:'' @ lease_command_fingerprint d command,
                 lc_command_fingerprint = lease_command_fingerprint d command,
                 lc_observed_fence_fingerprint = lease_fence_fingerprint d current,
                 lc_state = new_state\<rparr>)))"

section \<open>Rollover\<close>

text \<open>\<open>data["fence"]["authority"]\<close> without its three proof slots.\<close>

fun json_update :: "string \<Rightarrow> (json \<Rightarrow> json) \<Rightarrow> json \<Rightarrow> json" where
  "json_update k f (JObj kvs) = JObj (map (\<lambda>(k', v). (k', if k' = k then f v else v)) kvs)"
| "json_update k f j = j"

definition rollover_payload_fingerprint :: "SchedulerCodec \<Rightarrow> PhysicalRootRolloverCommand \<Rightarrow> string" where
  "rollover_payload_fingerprint d command =
     json_digest (JArr [JStr ''chiplog.scheduler.rollover-payload.v1'',
       json_update ''fence'' (json_update ''authority''
         (fold json_del [''proof_id'', ''proof_fingerprint'', ''command_payload_fingerprint'']))
         (js_rollover_command d command)])"

definition rollover_snapshot_fingerprint :: "SchedulerCodec \<Rightarrow> SchedulerLineageView \<Rightarrow> string" where
  "rollover_snapshot_fingerprint d current = sha256_hex (dto_bytes (js_view d current))"

definition rollover_record :: "string \<Rightarrow> string \<Rightarrow> json \<Rightarrow> SchedulerCanonicalMember" where
  "rollover_record kind identity v =
     (let raw = canonical_json v
      in \<lparr>sm_record_kind = ''scheduler.'' @ kind, sm_record_id = identity,
          sm_schema_id = ''chiplog.scheduler.'' @ kind @ ''.v1'',
          sm_canonical_base64 = b64encode raw, sm_fingerprint = sha256_hex raw\<rparr>)"

definition member_ref :: "SchedulerCanonicalMember \<Rightarrow> PresentRef" where
  "member_ref item = \<lparr>pn_head = sm_record_id item, pn_fingerprint = sm_fingerprint item\<rparr>"

text \<open>The identities a rollover derives from its primitive, which holds none of them.\<close>

definition rollover_primitive :: "SchedulerCodec \<Rightarrow> SchedulerLineageView \<Rightarrow> PhysicalRootRolloverCommand \<Rightarrow> json" where
  "rollover_primitive d current command =
     JObj [(''schema'', JStr ''chiplog.scheduler.rollover-primitive.v1''),
           (''command'', js_rollover_command d command),
           (''current'', js_view d current)]"

definition rollover_epoch :: "SchedulerCodec \<Rightarrow> SchedulerLineageView \<Rightarrow> PhysicalRootRolloverCommand \<Rightarrow> string" where
  "rollover_epoch d current command =
     ''scheduler-physical-epoch-v1:''
       @ json_digest (JArr [JStr (json_digest (rollover_primitive d current command)), JStr ''epoch''])"

definition rollover_genesis :: "SchedulerCodec \<Rightarrow> SchedulerLineageView \<Rightarrow> PhysicalRootRolloverCommand \<Rightarrow> string" where
  "rollover_genesis d current command =
     ''scheduler-genesis-v1:''
       @ json_digest (JArr [JStr (json_digest (rollover_primitive d current command)), JStr ''UNLEASED'', JInt 0])"

definition rollover_candidate ::
  "SchedulerCodec \<Rightarrow> SchedulerLineageView \<Rightarrow> PhysicalRootRolloverCommand \<Rightarrow> RolloverCandidate" where
  "rollover_candidate d current command =
     (let physical = lv_physical_root current;
          primitive = rollover_primitive d current command;
          primitive_fingerprint = json_digest primitive;
          decision_id = ''scheduler-rollover-v1:'' @ primitive_fingerprint;
          edge_id = decision_id @ ''/edge'';
          epoch_id = rollover_epoch d current command;
          genesis_head = rollover_genesis d current command;
          decision = rollover_record ''rollover-decision'' decision_id
            (JObj [(''primitive'', primitive),
                   (''primitive_fingerprint'', JStr primitive_fingerprint),
                   (''successor_epoch_id'', JStr epoch_id),
                   (''genesis_lease_head'', JStr genesis_head),
                   (''reciprocal_edge_id'', JStr edge_id)]);
          decision_ref = member_ref decision;
          common = [(''lineage'', js_lineage d (lv_lineage current)),
                    (''decision'', js_present d decision_ref)];
          old = rollover_record ''physical-epoch-terminal'' (decision_id @ ''/old-terminal'')
            (JObj (common @ [(''old_physical_root'', js_physical d physical),
                   (''exhaustion'', js_lease d (lv_lease current)),
                   (''state'', JStr ''TERMINALLY_FENCED''),
                   (''successor_epoch_id'', JStr epoch_id),
                   (''edge_id'', JStr edge_id)]));
          genesis_lease = UNLEASED genesis_head;
          new_epoch = rollover_record ''rollover-physical-root'' epoch_id
            (JObj (common @ [(''epoch_id'', JStr epoch_id),
                   (''predecessor_epoch_id'', JStr (ph_current_epoch_id physical)),
                   (''genesis'', js_lease d genesis_lease),
                   (''edge_id'', JStr edge_id)]));
          genesis_record = rollover_record ''rollover-root-lease-genesis'' genesis_head
            (JObj (common @ [(''epoch'', js_present d (member_ref new_epoch)),
                   (''lease'', js_lease d genesis_lease)]));
          edge = rollover_record ''rollover-edge'' edge_id
            (JObj (common @ [(''old_epoch_id'', JStr (ph_current_epoch_id physical)),
                   (''old_terminal'', js_present d (member_ref old)),
                   (''new_epoch'', js_present d (member_ref new_epoch)),
                   (''genesis'', js_present d (member_ref genesis_record)),
                   (''predecessor_rollover'', js_predecessor d (lv_predecessor_rollover current))]));
          pair = \<lparr>rp_decision = decision_ref, rp_edge = member_ref edge\<rparr>;
          selector = rollover_record ''rollover-physical-selector'' (decision_id @ ''/selector'')
            (JObj (common @ [(''selector_id'', JStr (ph_selector_id physical)),
                   (''previous'', js_physical d physical),
                   (''selector_version'', JInt (int (ph_selector_version physical + 1))),
                   (''selected_epoch'', js_present d (member_ref new_epoch)),
                   (''rollover'', js_predecessor d (Some pair))]));
          next_view = \<lparr>lv_lineage = lv_lineage current,
            lv_physical_root = \<lparr>ph_selector_id = ph_selector_id physical,
              ph_selector_head = sm_record_id selector,
              ph_selector_version = ph_selector_version physical + 1,
              ph_current_epoch_id = epoch_id,
              ph_current_epoch_head = sm_record_id new_epoch\<rparr>,
            lv_lease = genesis_lease,
            lv_predecessor_rollover = Some pair\<rparr>;
          records = [decision, old, new_epoch, genesis_record, edge, selector]
      in \<lparr>rc_command_fingerprint = sha256_hex (dto_bytes (js_rollover_command d command)),
          rc_decision = decision_ref,
          rc_edge = member_ref edge,
          rc_view = next_view,
          rc_records = records,
          rc_complete_commitment = json_digest (JArr (map (js_member d) records))\<rparr>)"

definition prepare_rollover ::
  "SchedulerCodec \<Rightarrow> SchedulerLineageView \<Rightarrow> PhysicalRootRolloverCommand \<Rightarrow> IssuedRolloverObservation option \<Rightarrow>
   string \<Rightarrow> (SchedulerError, RolloverCandidate) result" where
  "prepare_rollover d current command issuance submission_id =
     (let fence = ro_fence command;
          exhaustion = rf_exhaustion fence;
          authority = rf_authority fence;
          physical = lv_physical_root current
      in case lv_lease current of
        GENERATION_EXHAUSTED_HOLD lease_head exhausted_command_id trusted_expiry authority_epoch preceding \<Rightarrow>
          if rf_lineage fence \<noteq> lv_lineage current \<or> rf_physical_root fence \<noteq> physical
            then refuse ''rollover requires exact exhausted lineage/physical snapshot''
          else if xb_hold_head exhaustion \<noteq> lease_head
              \<or> xb_exhausted_command_id exhaustion \<noteq> exhausted_command_id
              \<or> xb_lease exhaustion \<noteq> preceding
              \<or> xb_authority_epoch exhaustion \<noteq> authority_epoch
              \<or> rl_generation preceding \<noteq> UINT64_MAX
              \<or> trusted_expiry \<noteq> rl_trusted_expiry preceding
            then refuse ''exhaustion tuple differs from exact hold''
          else (case issuance of
            None \<Rightarrow> refuse ''rollover authority proof/snapshot/chain/submission differs''
          | Some issued \<Rightarrow>
              if io_authority issued \<noteq> authority
                 \<or> io_snapshot_fingerprint issued \<noteq> rollover_snapshot_fingerprint d current
                 \<or> io_submission_id issued \<noteq> submission_id
                 \<or> io_authority_epoch issued \<noteq> authority_epoch
                 \<or> ra_command_id authority \<noteq> sc_command_id (ro_identity command)
                 \<or> ra_command_payload_fingerprint authority \<noteq> rollover_payload_fingerprint d command
                 \<or> ra_predecessor_rollover authority \<noteq> lv_predecessor_rollover current
                then refuse ''rollover authority proof/snapshot/chain/submission differs''
              else if ph_selector_version physical = UINT64_MAX
                then refuse ''physical selector version exhausted''
              else if card (set (io_used_epoch_ids issued)) \<noteq> length (io_used_epoch_ids issued)
                 \<or> card (set (io_used_lease_heads issued)) \<noteq> length (io_used_lease_heads issued)
                 \<or> ph_current_epoch_id physical \<notin> set (io_used_epoch_ids issued)
                 \<or> lease_head \<notin> set (io_used_lease_heads issued)
                 \<or> rl_lease_head preceding \<notin> set (io_used_lease_heads issued)
                then refuse ''incomplete or duplicate epoch/lease history''
              else if rollover_epoch d current command \<in> set (io_used_epoch_ids issued)
                 \<or> rollover_genesis d current command \<in> set (io_used_lease_heads issued)
                then refuse ''rollover epoch or genesis aliases authoritative history''
              else Inr (rollover_candidate d current command))
      | _ \<Rightarrow> refuse ''rollover requires exact exhausted lineage/physical snapshot'')"

end
