(* ===== verification/Scheduler_Preparation.thy ===== *)
theory Scheduler_Preparation
  imports Scheduler_Interval Scheduler_Configuration Scheduler_Leases
begin

text \<open>
  \<open>scheduler_preparation.py\<close>: the serialised requests of the scheduler owner. Each handler parses the
  command bytes, demands that they are canonical, compares them with the snapshot the broker
  reproduced, and delegates to the lease, configuration, interval or rollover decision. The parsing
  of command bytes and the dumps of commands, requests and records are a parameter. The issuance of
  mandates is not modelled.
\<close>

section \<open>Requests\<close>

record LeasePreparationSnapshot =
  lp_tenant_id :: string
  lp_tenant_frontier :: nat
  lp_materialization_commitment :: string
  lp_registry_head :: string
  lp_registry_fingerprint :: string
  lp_current :: SchedulerLineageView
  lp_issued :: "IssuedLeaseObservation option"
  lp_submission_id :: string

record LeasePreparationRequest =
  lr_operation :: string
  lr_context :: SchedulerContextRef
  lr_snapshot :: LeasePreparationSnapshot
  lr_command_bytes :: bytes

record SchedulerLeaseTransitionRecord =
  lx_tenant_id :: string
  lx_context :: SchedulerContextRef
  lx_expected_tenant_frontier :: nat
  lx_expected_materialization_commitment :: string
  lx_expected_registry_head :: string
  lx_expected_registry_fingerprint :: string
  lx_previous :: SchedulerLineageView
  lx_command :: LeaseTransitionCommand
  lx_issued :: IssuedLeaseObservation
  lx_candidate :: LeaseCandidate

record PreparedSchedulerRecord =
  pd_record_id :: string
  pd_canonical_record_bytes :: bytes
  pd_fingerprint :: string

record BatchPreparationCut =
  bc_tenant_id :: string
  bc_tenant_frontier :: nat
  bc_materialization_commitment :: string
  bc_registry_head :: string
  bc_registry_fingerprint :: string
  bc_submission_id :: string
  bc_authorized_context :: SchedulerContextRef
  bc_authorized_command_fingerprint :: string
  bc_authority_proof :: PresentRef

datatype ConfigurationCommand =
    GENESIS SchedulerCommandIdentity string FixedIntervalDefinition MissedPolicy SchedulerIntervalBound
      \<comment> \<open>identity, schedule id, definition, policy, bound\<close>
  | AMEND_SCHEDULE SchedulerCommandIdentity ScheduleDefinitionHead MissedOccurrencePolicyHead
      FixedIntervalDefinition
  | AMEND_POLICY SchedulerCommandIdentity ScheduleDefinitionHead MissedOccurrencePolicyHead MissedPolicy
  | REPLACE_BOUND ReplaceIntervalBoundCommand

record ConfigurationPreparationSnapshot =
  cn_cut :: BatchPreparationCut
  cn_current :: ConfigurationSnapshot
  cn_authority_epoch :: string
  cn_broker_generation :: string
  cn_runtime_graph_generation :: string
  cn_scheduler_authority_head :: string

record ConfigurationPreparationRequest =
  cr_operation :: ConfigurationOperation
  cr_context :: SchedulerContextRef
  cr_snapshot :: ConfigurationPreparationSnapshot
  cr_command_bytes :: bytes

record IntervalPreparationSnapshot =
  in_cut :: BatchPreparationCut
  in_configuration :: ConfigurationSnapshot
  in_disposed :: "DisposedOccurrence list"
  in_previous_due_boundary :: DueCoordinate
  in_predecessor_interval :: "PresentRef option"
  in_enumeration_frontier :: string
  in_enumeration_proof :: PresentRef
  in_active_hold :: "SchedulerOverflowHold option"
  in_publication_fence :: PreRootDecisionFence
  in_operator_proof :: "PresentRef option"

datatype IntervalOperation = decide_interval | resolve_interval

record IntervalPreparationRequest =
  iq_operation :: IntervalOperation
  iq_context :: SchedulerContextRef
  iq_snapshot :: IntervalPreparationSnapshot
  iq_command_bytes :: bytes

record RolloverPreparationSnapshot =
  rz_cut :: BatchPreparationCut
  rz_current :: SchedulerLineageView
  rz_issued :: "IssuedRolloverObservation option"

record RolloverPreparationRequest =
  rq_context :: SchedulerContextRef
  rq_snapshot :: RolloverPreparationSnapshot
  rq_command_bytes :: bytes

datatype PreparedResult =
    PreparedConfiguration ConfigurationProposal
  | PreparedInterval IntervalCandidate
  | PreparedRollover RolloverCandidate

record PreparedSchedulerBatch =
  pb_source_request_fingerprint :: string
  pb_cut :: BatchPreparationCut
  pb_records :: "SchedulerCanonicalMember list"
  pb_result :: PreparedResult

record PreparationCodec =
  parse_lease :: "bytes \<Rightarrow> LeaseTransitionCommand option"
  parse_configuration :: "bytes \<Rightarrow> ConfigurationCommand option"
  parse_decide :: "bytes \<Rightarrow> DecideIntervalCommand option"
  parse_resolve :: "bytes \<Rightarrow> ResolveIntervalCommand option"
  parse_rollover :: "bytes \<Rightarrow> PhysicalRootRolloverCommand option"
  js_configuration_command :: "ConfigurationCommand \<Rightarrow> json"
  js_decide :: "DecideIntervalCommand \<Rightarrow> json"
  js_resolve :: "ResolveIntervalCommand \<Rightarrow> json"
  js_lease_record :: "SchedulerLeaseTransitionRecord \<Rightarrow> json"
  js_configuration_request :: "ConfigurationPreparationRequest \<Rightarrow> json"
  js_interval_request :: "IntervalPreparationRequest \<Rightarrow> json"
  js_rollover_request :: "RolloverPreparationRequest \<Rightarrow> json"

definition parsed :: "'a option \<Rightarrow> (SchedulerError, 'a) result" where
  "parsed x = (case x of None \<Rightarrow> Inl CommandInvalid | Some v \<Rightarrow> Inr v)"

lemma parsed_eq_Inr [simp]: "parsed x = Inr v \<longleftrightarrow> x = Some v"
  by (cases x) (auto simp: parsed_def)

section \<open>Leases\<close>

definition lease_operation :: "LeaseTransitionKind \<Rightarrow> string" where
  "lease_operation kind = (case kind of
     ACQUIRE \<Rightarrow> ''scheduler.acquire'' | RENEW \<Rightarrow> ''scheduler.renew'' | TAKEOVER \<Rightarrow> ''scheduler.takeover'')"

definition prepare_lease ::
  "PreparationCodec \<Rightarrow> SchedulerCodec \<Rightarrow> LeasePreparationRequest \<Rightarrow> (SchedulerError, PreparedSchedulerRecord) result" where
  "prepare_lease p d request =
     rbind (parsed (parse_lease p (lr_command_bytes request))) (\<lambda>command.
     let snapshot = lr_snapshot request;
         cx = lr_context request
     in if dto_bytes (js_lease_command d command) \<noteq> lr_command_bytes request
          then violate ''INTEGRITY_HOLD'' ''noncanonical scheduler lease command''
        else if lr_operation request \<noteq> lease_operation (lt_kind command)
          then violate ''INTEGRITY_HOLD'' ''operation and closed lease command differ''
        else if cx_tenant_id cx \<noteq> lp_tenant_id snapshot
          then violate ''AUTHORITY_DENIED'' ''context and observed tenant differ''
        else if cx_service_identity cx \<noteq> lt_proposed_holder_id command
            \<or> cx_session_id cx \<noteq> lt_proposed_holder_session_id command
          then violate ''AUTHORITY_DENIED'' ''context does not bind proposed holder/session''
        else rbind (evaluate_lease d (lp_current snapshot) command (lp_issued snapshot)
                      (lp_submission_id snapshot)) (\<lambda>candidate.
          case lp_issued snapshot of
            None \<Rightarrow> violate ''CLOCK_UNVERIFIABLE'' ''issued clock observation absent''
          | Some issued \<Rightarrow>
              let payload = dto_bytes (js_lease_record p
                    \<lparr>lx_tenant_id = lp_tenant_id snapshot,
                     lx_context = cx,
                     lx_expected_tenant_frontier = lp_tenant_frontier snapshot,
                     lx_expected_materialization_commitment = lp_materialization_commitment snapshot,
                     lx_expected_registry_head = lp_registry_head snapshot,
                     lx_expected_registry_fingerprint = lp_registry_fingerprint snapshot,
                     lx_previous = lp_current snapshot,
                     lx_command = command,
                     lx_issued = issued,
                     lx_candidate = candidate\<rparr>)
              in Inr \<lparr>pd_record_id = lc_transition_id candidate,
                      pd_canonical_record_bytes = payload,
                      pd_fingerprint = sha256_hex payload\<rparr>))"

section \<open>Configuration\<close>

definition verify_cut ::
  "SchedulerContextRef \<Rightarrow> bytes \<Rightarrow> BatchPreparationCut \<Rightarrow> (SchedulerError, unit) result" where
  "verify_cut cx command_bytes at_cut =
     (if cx \<noteq> bc_authorized_context at_cut \<or> cx_tenant_id cx \<noteq> bc_tenant_id at_cut
         \<or> sha256_hex command_bytes \<noteq> bc_authorized_command_fingerprint at_cut
        then refuse ''command or context differs from exact broker-authorized cut''
      else Inr ())"

definition batch ::
  "json \<Rightarrow> BatchPreparationCut \<Rightarrow> PreparedResult \<Rightarrow> SchedulerCanonicalMember list \<Rightarrow> PreparedSchedulerBatch" where
  "batch request_dump at_cut outcome records =
     \<lparr>pb_source_request_fingerprint = sha256_hex (dto_bytes request_dump), pb_cut = at_cut,
      pb_records = records, pb_result = outcome\<rparr>"

definition configuration_member :: "string \<Rightarrow> string \<Rightarrow> json \<Rightarrow> SchedulerCanonicalMember" where
  "configuration_member kind identity dump =
     (let payload = dto_bytes dump
      in \<lparr>sm_record_kind = ''scheduler.'' @ kind, sm_record_id = identity,
          sm_schema_id = ''chiplog.scheduler.'' @ kind @ ''.v1'',
          sm_canonical_base64 = b64encode payload, sm_fingerprint = sha256_hex payload\<rparr>)"

fun configuration_operation :: "ConfigurationCommand \<Rightarrow> ConfigurationOperation" where
  "configuration_operation (GENESIS _ _ _ _ _) = op_genesis"
| "configuration_operation (AMEND_SCHEDULE _ _ _ _) = op_amend_schedule"
| "configuration_operation (AMEND_POLICY _ _ _ _) = op_amend_policy"
| "configuration_operation (REPLACE_BOUND _) = op_replace_bound"

fun configuration_proposal ::
  "SchedulerCodec \<Rightarrow> SchedulerContextRef \<Rightarrow> ConfigurationPreparationSnapshot \<Rightarrow> ConfigurationCommand \<Rightarrow>
   (SchedulerError, ConfigurationProposal) result" where
  "configuration_proposal d cx snapshot (GENESIS identity schedule_id defn policy bound) =
     genesis d (cn_current snapshot) schedule_id defn policy bound cx (sc_command_id identity)
       (cn_authority_epoch snapshot) (cn_broker_generation snapshot) (cn_runtime_graph_generation snapshot)"
| "configuration_proposal d cx snapshot (REPLACE_BOUND inner) =
     (if rb_scheduler_authority_head inner \<noteq> cn_scheduler_authority_head snapshot
         \<or> rb_authority_epoch inner \<noteq> cn_authority_epoch snapshot
         \<or> rb_broker_generation inner \<noteq> cn_broker_generation snapshot
         \<or> rb_runtime_graph_generation inner \<noteq> cn_runtime_graph_generation snapshot
        then refuse ''bound authority generations changed''
      else replace_bound d (cn_current snapshot) (rb_observed_head inner) (rb_proposed_bound inner) cx
        (sc_command_id (rb_identity inner)) (cn_authority_epoch snapshot) (cn_broker_generation snapshot)
        (cn_runtime_graph_generation snapshot))"
| "configuration_proposal d cx snapshot (AMEND_SCHEDULE identity sched policy defn) =
     amend d (cn_current snapshot) sched policy cx (sc_command_id identity) (Some defn) None"
| "configuration_proposal d cx snapshot (AMEND_POLICY identity sched policy new_policy) =
     amend d (cn_current snapshot) sched policy cx (sc_command_id identity) None (Some new_policy)"

definition configuration_records ::
  "SchedulerCodec \<Rightarrow> ConfigurationSnapshot \<Rightarrow> ConfigurationSnapshot \<Rightarrow> SchedulerCanonicalMember list" where
  "configuration_records d current proposed =
     (case cs_schedule proposed of
        Some revision \<Rightarrow> if cs_schedule current \<noteq> Some revision
          then [configuration_member ''schedule-definition'' (sh_head (schedule_head d revision))
                  (js_schedule d revision)] else []
      | None \<Rightarrow> [])
     @ (case cs_policy proposed of
        Some revision \<Rightarrow> if cs_policy current \<noteq> Some revision
          then [configuration_member ''missed-policy'' (mh_head (policy_head d revision))
                  (js_policy d revision)] else []
      | None \<Rightarrow> [])
     @ (case cs_bound proposed of
        Some bound \<Rightarrow> if cs_bound current \<noteq> Some bound
          then [configuration_member ''interval-bound'' (ih_head_id bound) (js_bound_head d bound)] else []
      | None \<Rightarrow> [])"

definition prepare_configuration ::
  "PreparationCodec \<Rightarrow> SchedulerCodec \<Rightarrow> ConfigurationPreparationRequest \<Rightarrow>
   (SchedulerError, PreparedSchedulerBatch) result" where
  "prepare_configuration p d request =
     (let snapshot = cr_snapshot request
      in rbind (verify_cut (cr_context request) (cr_command_bytes request) (cn_cut snapshot)) (\<lambda>_.
         rbind (parsed (parse_configuration p (cr_command_bytes request))) (\<lambda>command.
         if dto_bytes (js_configuration_command p command) \<noteq> cr_command_bytes request
           then refuse ''noncanonical configuration command''
         else if cr_operation request \<noteq> configuration_operation command
           then refuse ''configuration operation differs from command''
         else rbind (configuration_proposal d (cr_context request) snapshot command) (\<lambda>proposal.
           let records = configuration_records d (cf_expected proposal) (cf_proposed proposal)
           in if length records \<noteq> (if configuration_operation command = op_genesis then 3 else 1)
                then refuse ''configuration output is not one complete closed operation''
              else Inr (batch (js_configuration_request p request) (cn_cut snapshot)
                     (PreparedConfiguration proposal) records)))))"

section \<open>Intervals\<close>

datatype IntervalCommand = DECIDE DecideIntervalCommand | RESOLVE ResolveIntervalCommand

definition parse_interval ::
  "PreparationCodec \<Rightarrow> IntervalOperation \<Rightarrow> bytes \<Rightarrow> (SchedulerError, IntervalCommand) result" where
  "parse_interval p operation raw = (case operation of
     decide_interval \<Rightarrow> rbind (parsed (parse_decide p raw)) (\<lambda>command. Inr (DECIDE command))
   | resolve_interval \<Rightarrow> rbind (parsed (parse_resolve p raw)) (\<lambda>command. Inr (RESOLVE command)))"

fun interval_dump :: "PreparationCodec \<Rightarrow> IntervalCommand \<Rightarrow> json" where
  "interval_dump p (DECIDE command) = js_decide p command"
| "interval_dump p (RESOLVE command) = js_resolve p command"

fun interval_boundary :: "IntervalCommand \<Rightarrow> SchedulerEligibilityBoundary" where
  "interval_boundary (DECIDE command) = di_boundary command"
| "interval_boundary (RESOLVE command) = rv_boundary command"

fun interval_fence :: "IntervalCommand \<Rightarrow> PreRootDecisionFence" where
  "interval_fence (DECIDE command) = di_publication_fence command"
| "interval_fence (RESOLVE command) = rv_publication_fence command"

fun interval_identity :: "IntervalCommand \<Rightarrow> SchedulerCommandIdentity" where
  "interval_identity (DECIDE command) = di_identity command"
| "interval_identity (RESOLVE command) = rv_identity command"

fun observed_bound :: "IntervalCommand \<Rightarrow> SchedulerIntervalBoundHead" where
  "observed_bound (DECIDE command) = di_bound_head command"
| "observed_bound (RESOLVE command) = rv_successor_bound command"

definition hold_active :: "SchedulerOverflowHold option \<Rightarrow> bool" where
  "hold_active hold = (case hold of Some h \<Rightarrow> oh_state h = OVERFLOW_ACTIVE | None \<Rightarrow> False)"

text \<open>The submitted membership, after the checks on the hold.\<close>

fun submitted_membership ::
  "IntervalPreparationSnapshot \<Rightarrow> IntervalCommand \<Rightarrow>
   (SchedulerError, SchedulerEligibilityManifest + StreamingEligibilityEvidence) result" where
  "submitted_membership snapshot (DECIDE command) =
     (if hold_active (in_active_hold snapshot) then refuse ''ordinary interval cannot bypass active hold''
      else Inr (di_manifest command))"
| "submitted_membership snapshot (RESOLVE command) =
     (if in_active_hold snapshot = None \<or> in_active_hold snapshot \<noteq> Some (rv_active_hold command)
         \<or> in_operator_proof snapshot = None \<or> in_operator_proof snapshot \<noteq> Some (rv_operator_proof command)
        then refuse ''resolution active hold or operator proof differs''
      else Inr (Inl (rv_complete_manifest command)))"

text \<open>The checks of \<open>prepare_interval_request\<close> on the boundary, the fence, the configuration and the hold.\<close>

definition interval_current ::
  "IntervalPreparationSnapshot \<Rightarrow> IntervalCommand \<Rightarrow>
   (SchedulerError, ScheduleRevision \<times> SchedulerIntervalBoundHead) result" where
  "interval_current snapshot command =
     (let boundary = interval_boundary command;
          fence = interval_fence command;
          configuration = in_configuration snapshot
      in if pf_command_id fence \<noteq> sc_command_id (interval_identity command)
           \<or> (case pf_disposition fence of FIRST_PUBLICATION _ \<Rightarrow> False | _ \<Rightarrow> True)
          then refuse ''fresh preparation requires exact first-publication command; journal replay owns decided bytes''
         else if eb_previous_due_boundary boundary \<noteq> in_previous_due_boundary snapshot
           \<or> eb_predecessor_interval boundary \<noteq> in_predecessor_interval snapshot
           \<or> eb_enumeration_frontier boundary \<noteq> in_enumeration_frontier snapshot
           \<or> fence \<noteq> in_publication_fence snapshot
          then refuse ''interval boundary or publication fence changed''
         else case (cs_schedule configuration, cs_bound configuration) of
           (Some sched, Some bound) \<Rightarrow>
             if ri_tenant (fd_run_inputs (sv_definition sched)) \<noteq> bc_tenant_id (in_cut snapshot)
               then refuse ''interval definition tenant differs from source cut''
             else if cs_active_hold configuration \<noteq>
                 (if hold_active (in_active_hold snapshot)
                    then map_option oh_hold (in_active_hold snapshot) else None)
               then refuse ''configuration and current hold inventory differ''
             else Inr (sched, bound)
         | _ \<Rightarrow> refuse ''interval configuration incomplete'')"

definition evidence_membership ::
  "EligibilityEvidence \<Rightarrow> SchedulerEligibilityManifest + StreamingEligibilityEvidence" where
  "evidence_membership evidence = (case evidence of
     FULL_MANIFEST manifest \<Rightarrow> Inl manifest | STREAMING_MANIFEST streamed \<Rightarrow> Inr streamed)"

definition admit_interval ::
  "LoopCodec \<Rightarrow> SchedulerCodec \<Rightarrow> IntervalPreparationSnapshot \<Rightarrow> IntervalCommand \<Rightarrow> ScheduleRevision \<Rightarrow>
   SchedulerIntervalBoundHead \<Rightarrow> StreamedEligibility \<Rightarrow> (SchedulerError, IntervalCandidate) result" where
  "admit_interval l d snapshot command sched bound measured =
     (let inputs = fd_run_inputs (sv_definition sched)
      in if st_member_count measured > ib_max_member_count (ih_bound bound)
            \<or> st_manifest_bytes measured > ib_max_manifest_bytes (ih_bound bound)
           then (case command of
             RESOLVE _ \<Rightarrow> refuse ''successor bound does not admit complete resolution''
           | DECIDE inner \<Rightarrow> prepare_streamed_overflow d inner bound (st_evidence measured)
               (st_member_count measured) (st_manifest_bytes measured) (ri_principal inputs))
         else case st_evidence measured of
           STREAMING_MANIFEST _ \<Rightarrow> refuse ''ordinary admission requires full canonical manifest''
         | FULL_MANIFEST enumerated \<Rightarrow>
             (case command of
                DECIDE inner \<Rightarrow> prepare_interval l d inner bound (em_members enumerated) inputs
                  (in_enumeration_proof snapshot) (in_active_hold snapshot)
              | RESOLVE inner \<Rightarrow> prepare_resolution l d inner bound (em_members enumerated) inputs))"

definition interval_candidate ::
  "LoopCodec \<Rightarrow> SchedulerCodec \<Rightarrow> IntervalPreparationSnapshot \<Rightarrow> IntervalCommand \<Rightarrow>
   (SchedulerError, IntervalCandidate) result" where
  "interval_candidate l d snapshot command =
     rbind (interval_current snapshot command) (\<lambda>(sched, bound).
     rbind (submitted_membership snapshot command) (\<lambda>submitted.
     if observed_bound command \<noteq> bound then refuse ''interval current bound changed''
     else rbind (stream_definition d (in_configuration snapshot) (interval_boundary command)
                   (in_disposed snapshot) (in_enumeration_proof snapshot)) (\<lambda>measured.
       if submitted \<noteq> evidence_membership (st_evidence measured)
         then refuse ''submitted membership differs from complete definition enumeration''
       else admit_interval l d snapshot command sched bound measured)))"

definition prepare_interval_request ::
  "LoopCodec \<Rightarrow> PreparationCodec \<Rightarrow> SchedulerCodec \<Rightarrow> IntervalPreparationRequest \<Rightarrow>
   (SchedulerError, PreparedSchedulerBatch) result" where
  "prepare_interval_request l p d request =
     (let snapshot = iq_snapshot request
      in rbind (verify_cut (iq_context request) (iq_command_bytes request) (in_cut snapshot)) (\<lambda>_.
         rbind (parse_interval p (iq_operation request) (iq_command_bytes request)) (\<lambda>command.
         if dto_bytes (interval_dump p command) \<noteq> iq_command_bytes request
           then refuse ''noncanonical interval command''
         else rbind (interval_candidate l d snapshot command) (\<lambda>candidate.
           Inr (batch (js_interval_request p request) (in_cut snapshot) (PreparedInterval candidate)
                  (ic_records candidate))))))"

section \<open>Rollover\<close>

definition prepare_rollover_request ::
  "PreparationCodec \<Rightarrow> SchedulerCodec \<Rightarrow> RolloverPreparationRequest \<Rightarrow>
   (SchedulerError, PreparedSchedulerBatch) result" where
  "prepare_rollover_request p d request =
     (let snapshot = rq_snapshot request
      in rbind (verify_cut (rq_context request) (rq_command_bytes request) (rz_cut snapshot)) (\<lambda>_.
         rbind (parsed (parse_rollover p (rq_command_bytes request))) (\<lambda>command.
         if dto_bytes (js_rollover_command d command) \<noteq> rq_command_bytes request
           then refuse ''noncanonical rollover command''
         else rbind (prepare_rollover d (rz_current snapshot) command (rz_issued snapshot)
                       (bc_submission_id (rz_cut snapshot))) (\<lambda>candidate.
           Inr (batch (js_rollover_request p request) (rz_cut snapshot) (PreparedRollover candidate)
                  (rc_records candidate))))))"

end
