(* ===== verification/Scheduler_Manifest.thy ===== *)
theory Scheduler_Manifest
  imports Scheduler_Domain
begin

text \<open>
  Facts about \<open>scheduler_domain.py\<close>: a due coordinate is the canonical decimal text of its value, and the
  manifest of an interval holds exactly the supplied occurrences of the half-open interval, in strictly
  increasing order of their coordinates, whatever the order in which they were supplied.
\<close>

section \<open>Canonical coordinates\<close>

lemma zero_char: "(of_char c :: nat) = 48 \<longleftrightarrow> c = CHR ''0''"
proof -
  have "(of_char (CHR ''0'') :: nat) = 48" by simp
  then show ?thesis by (metis of_char_eq_iff)
qed

lemma nat_str_canonical: "canonical_digits (nat_str n)"
proof (induction n rule: nat_str.induct)
  case (1 n)
  show ?case
  proof (cases "n < 10")
    case True
    then have "n = 0 \<or> digit_char n \<noteq> CHR ''0''"
      using of_digit_char [of n] zero_char [of "digit_char n"] by auto
    moreover have "is_digit (digit_char n)"
      using True by (simp add: is_digit_def of_digit_char)
    moreover have "nat_str 0 = ''0''"
      using of_digit_char [of 0] zero_char [of "digit_char 0"] by (subst nat_str.simps) simp
    ultimately show ?thesis
      using True by (auto simp: canonical_digits_def nat_str.simps [of n])
  next
    case False
    then have canonical: "canonical_digits (nat_str (n div 10))" and nonzero: "n div 10 \<noteq> 0"
      using 1 by auto
    then have "nat_str (n div 10) \<noteq> ''0''"
      using digits_val_nat_str [of "n div 10"] by (auto simp: digits_val_def)
    with canonical have "hd (nat_str (n div 10)) \<noteq> CHR ''0''"
      by (auto simp: canonical_digits_def)
    moreover have "is_digit (digit_char (n mod 10))"
      by (simp add: is_digit_def of_digit_char)
    ultimately show ?thesis
      using False nat_str_digits [of "n div 10"]
      by (auto simp: canonical_digits_def nat_str.simps [of n] list_all_iff)
  qed
qed

lemma digits_val_snoc: "digits_val (s @ [c]) = 10 * digits_val s + (of_char c - 48)"
  by (simp add: digits_val_def)

lemma digits_val_pos: "list_all is_digit s \<Longrightarrow> s \<noteq> [] \<Longrightarrow> hd s \<noteq> CHR ''0'' \<Longrightarrow> 0 < digits_val s"
proof (induction s rule: rev_induct)
  case (snoc c s)
  show ?case
  proof (cases s)
    case Nil
    with snoc.prems have "is_digit c" "c \<noteq> CHR ''0''" by auto
    moreover have "of_char c \<noteq> (48::nat)"
      using calculation by (simp add: zero_char)
    ultimately show ?thesis
      using Nil by (auto simp: digits_val_def is_digit_def)
  next
    case (Cons a list)
    then have "0 < digits_val s"
      using snoc by simp
    then show ?thesis by (simp add: digits_val_snoc)
  qed
qed simp

lemma digit_char_of_char: "is_digit c \<Longrightarrow> digit_char (of_char c - 48) = c"
  by (simp add: is_digit_def digit_char_def)

lemma canonical_digits_nat_str: "canonical_digits s \<Longrightarrow> nat_str (digits_val s) = s"
proof (induction s rule: rev_induct)
  case Nil
  then show ?case by (simp add: canonical_digits_def)
next
  case (snoc c s)
  then have digit: "is_digit c"
    by (auto simp: canonical_digits_def list_all_iff is_digit_def)
  then have small: "of_char c - 48 < (10::nat)"
    by (auto simp: is_digit_def)
  show ?case
  proof (cases "s = []")
    case True
    with small digit show ?thesis
      by (simp add: digits_val_def nat_str.simps digit_char_of_char)
  next
    case False
    then have "list_all is_digit s" "hd s \<noteq> CHR ''0''" "s @ [c] \<noteq> ''0''"
      using snoc.prems by (auto simp: canonical_digits_def Cons_eq_append_conv)
    moreover from this False have "nat_str (digits_val s) = s"
      by (intro snoc.IH) (simp add: canonical_digits_def)
    moreover have "0 < digits_val s"
      using calculation False digits_val_pos by blast
    ultimately show ?thesis
      using small digit
      by (subst nat_str.simps) (simp add: digits_val_snoc digit_char_of_char)
  qed
qed

lemma coordinate_value_eq:
  "coordinate_value coordinate = Inr due \<longleftrightarrow>
   coordinate = \<lparr>dc_coordinate_policy_version = COORDINATE_VERSION, dc_canonical_coordinate = nat_str due\<rparr>"
  by (cases coordinate)
    (auto simp: coordinate_value_def nat_str_canonical digits_val_nat_str canonical_digits_nat_str)


lemma coordinate_value_inj:
  "coordinate_value a = Inr due \<Longrightarrow> coordinate_value b = Inr due \<Longrightarrow> a = b"
  by (simp add: coordinate_value_eq)

section \<open>The manifest\<close>

text \<open>A member of the supplied snapshot that is exactly what the schedule derives for its coordinate.\<close>

definition genuine :: "SchedulerCodec \<Rightarrow> ScheduleDefinitionHead \<Rightarrow> UndisposedOccurrence \<Rightarrow> bool" where
  "genuine d sched item \<longleftrightarrow>
     undisposed_occurrence d sched (uo_due_coordinate item) (uo_undisposed_head item) = Inr item"

definition in_interval :: "nat \<Rightarrow> nat \<Rightarrow> UndisposedOccurrence \<Rightarrow> bool" where
  "in_interval start cutoff item \<longleftrightarrow> start \<le> due_key item \<and> due_key item < cutoff"

lemma undisposed_occurrence_due:
  "undisposed_occurrence d sched coordinate head = Inr item \<Longrightarrow>
   coordinate_value coordinate = Inr (due_key item) \<and> uo_due_coordinate item = coordinate"
  by (auto simp: undisposed_occurrence_def occurrence_identity_def due_key_def result_simps)

lemma genuine_due: "genuine d sched item \<Longrightarrow> coordinate_value (uo_due_coordinate item) = Inr (due_key item)"
  unfolding genuine_def by (drule undisposed_occurrence_due) simp

lemma admit_occurrence_Inr:
  "admit_occurrence d sched start cutoff item (identities, coordinates, eligible) = Inr s \<longleftrightarrow>
   genuine d sched item \<and> uo_occurrence_id item \<notin> identities \<and> due_key item \<notin> coordinates
   \<and> s = (insert (uo_occurrence_id item) identities, insert (due_key item) coordinates,
          if in_interval start cutoff item then eligible @ [item] else eligible)"
  using genuine_due [of d sched item]
  by (auto simp: admit_occurrence_def genuine_def in_interval_def result_simps)

lemma admit_occurrences_Inr:
  "rfold (admit_occurrence d sched start cutoff) items (identities, coordinates, eligible) = Inr s \<longleftrightarrow>
   (\<forall>item \<in> set items. genuine d sched item)
   \<and> distinct (map uo_occurrence_id items) \<and> distinct (map due_key items)
   \<and> uo_occurrence_id ` set items \<inter> identities = {} \<and> due_key ` set items \<inter> coordinates = {}
   \<and> s = (uo_occurrence_id ` set items \<union> identities, due_key ` set items \<union> coordinates,
          eligible @ filter (in_interval start cutoff) items)"
proof (induction items arbitrary: identities coordinates eligible)
  case (Cons item items)
  have "rfold (admit_occurrence d sched start cutoff) (item # items) (identities, coordinates, eligible) = Inr s
    \<longleftrightarrow> genuine d sched item \<and> uo_occurrence_id item \<notin> identities \<and> due_key item \<notin> coordinates
      \<and> rfold (admit_occurrence d sched start cutoff) items
          (insert (uo_occurrence_id item) identities, insert (due_key item) coordinates,
           if in_interval start cutoff item then eligible @ [item] else eligible) = Inr s"
    by (auto simp: rbind_eq_Inr admit_occurrence_Inr)
  then show ?case
    unfolding Cons.IH by (auto simp: image_iff)
qed auto

definition manifest_of ::
  "SchedulerCodec \<Rightarrow> SchedulerEligibilityBoundary \<Rightarrow> UndisposedOccurrence list \<Rightarrow> SchedulerEligibilityManifest" where
  "manifest_of d boundary members =
     \<lparr>em_members = members, em_fingerprint = manifest_fingerprint d boundary members\<rparr>"

definition interval_of :: "SchedulerEligibilityBoundary \<Rightarrow> nat \<Rightarrow> nat \<Rightarrow> bool" where
  "interval_of boundary start cutoff \<longleftrightarrow>
     coordinate_value (eb_previous_due_boundary boundary) = Inr start
     \<and> coordinate_value (eb_cutoff_due_coordinate boundary) = Inr cutoff \<and> start \<le> cutoff
     \<and> eb_canonicalization_version boundary = CANONICAL_VERSION"

lemma eligible_manifest_Inr:
  "eligible_manifest d boundary items = Inr m \<longleftrightarrow>
   (\<exists>start cutoff. interval_of boundary start cutoff
     \<and> (\<forall>item \<in> set items. genuine d (eb_schedule_definition_head boundary) item)
     \<and> distinct (map uo_occurrence_id items) \<and> distinct (map due_key items)
     \<and> m = manifest_of d boundary (sort_key due_key (filter (in_interval start cutoff) items)))"
  by (cases "coordinate_value (eb_previous_due_boundary boundary)";
      cases "coordinate_value (eb_cutoff_due_coordinate boundary)")
    (auto simp: eligible_manifest_def interval_of_def manifest_of_def result_simps
      admit_occurrences_Inr Let_def)

lemma interval_of_unique:
  "interval_of boundary s c \<Longrightarrow> interval_of boundary s' c' \<Longrightarrow> s' = s \<and> c' = c"
  by (auto simp: interval_of_def)

lemma manifest_members_sorted:
  assumes "distinct (map due_key items)"
  shows "sorted_wrt (<) (map due_key (sort_key due_key (filter p items)))"
proof -
  have "distinct (map due_key (filter p items))"
    using assms by (rule distinct_map_filter)
  then have "distinct (map due_key (sort_key due_key (filter p items)))"
    by (simp add: distinct_map)
  then show ?thesis
    by (simp add: strict_sorted_iff)
qed

lemma eligible_manifest_permuted:
  assumes "mset items = mset items'"
  shows "eligible_manifest d boundary items = eligible_manifest d boundary items' \<or>
    (\<exists>e e'. eligible_manifest d boundary items = Inl e \<and> eligible_manifest d boundary items' = Inl e')"
proof -
  have *: "eligible_manifest d boundary items' = Inr m"
    if eq: "eligible_manifest d boundary items = Inr m" and perm: "mset items = mset items'" for m items items'
  proof -
    obtain start cutoff where m: "interval_of boundary start cutoff"
      "\<forall>item \<in> set items. genuine d (eb_schedule_definition_head boundary) item"
      "distinct (map uo_occurrence_id items)" "distinct (map due_key items)"
      "m = manifest_of d boundary (sort_key due_key (filter (in_interval start cutoff) items))"
      using eq by (auto simp: eligible_manifest_Inr)
    have same: "set items = set items'" "length items = length items'"
      using perm by (auto dest: mset_eq_setD mset_eq_length)
    have ids: "distinct (map uo_occurrence_id items')" and dues: "distinct (map due_key items')"
      using m(3,4) by (metis perm mset_map mset_eq_imp_distinct_iff)+
    have "sort_key due_key (filter (in_interval start cutoff) items)
        = sort_key due_key (filter (in_interval start cutoff) items')"
    proof (rule sort_key_inj_key_eq)
      show "mset (filter (in_interval start cutoff) items)
          = mset (sort_key due_key (filter (in_interval start cutoff) items'))"
        using perm by (simp add: mset_filter)
      show "inj_on due_key (set (filter (in_interval start cutoff) items))"
        using m(4) by (auto simp: distinct_map inj_on_def)
    qed simp
    with m same ids dues show ?thesis
      unfolding eligible_manifest_Inr by (intro exI [of _ start] exI [of _ cutoff]) auto
  qed
  show ?thesis
  proof (cases "eligible_manifest d boundary items")
    case (Inr m)
    with * assms show ?thesis by metis
  next
    case (Inl e)
    then show ?thesis
      using * [of items' _ items] assms by (cases "eligible_manifest d boundary items'") auto
  qed
qed

end
