(* ===== verification/Scheduler_Enumeration.thy ===== *)
theory Scheduler_Enumeration
  imports Scheduler_Configuration Scheduler_Manifest
begin

text \<open>
  The enumeration of a fixed interval definition: the arithmetic window of
  \<open>definition_enumeration\<close> and the iterator of \<open>definition_members\<close> together give exactly the grid points of
  the definition inside the interval that have no disposition yet.
\<close>

section \<open>Indices\<close>

lemma skip_excluded_filter:
  "sorted_wrt (<) xs \<Longrightarrow> sorted_wrt (<) ex \<Longrightarrow> set ex \<subseteq> set xs \<Longrightarrow>
   skip_excluded xs ex = filter (\<lambda>i. i \<notin> set ex) xs"
proof (induction xs ex rule: skip_excluded.induct)
  case (2 i rest excluded)
  show ?case
  proof (cases excluded)
    case Nil
    with 2 show ?thesis by simp
  next
    case (Cons x later)
    show ?thesis
    proof (cases "i = x")
      case True
      then have "set later \<subseteq> set rest"
        using 2(4-6) Cons by (auto simp: strict_sorted_iff)
      with True Cons 2 have "skip_excluded rest later = filter (\<lambda>i. i \<notin> set later) rest"
        by simp
      moreover have "filter (\<lambda>j. j \<notin> set later) rest = filter (\<lambda>j. j \<noteq> x \<and> j \<notin> set later) rest"
        using True 2(4) by (intro filter_cong) auto
      ultimately show ?thesis
        using True Cons by simp
    next
      case False
      then have "i \<notin> set excluded"
        using 2(4-6) Cons by fastforce
      then have "set excluded \<subseteq> set rest"
        using 2(6) by auto
      with False Cons 2 \<open>i \<notin> set excluded\<close> show ?thesis
        by simp
    qed
  qed
qed simp

lemma ceil_div_le:
  fixes x p i :: int
  assumes "0 < p"
  shows "(x + p - 1) div p \<le> i \<longleftrightarrow> x \<le> i * p"
proof
  have split: "x + p - 1 = (x + p - 1) div p * p + (x + p - 1) mod p"
    by simp
  have bounds: "0 \<le> (x + p - 1) mod p" "(x + p - 1) mod p < p"
    using assms by simp_all
  show "x \<le> i * p" if "(x + p - 1) div p \<le> i"
    using mult_right_mono [OF that, of p] assms split bounds by linarith
  show "(x + p - 1) div p \<le> i" if "x \<le> i * p"
  proof (rule ccontr)
    assume "\<not> (x + p - 1) div p \<le> i"
    then have "(i + 1) * p \<le> (x + p - 1) div p * p"
      using assms by (intro mult_right_mono) auto
    moreover have "(i + 1) * p = i * p + p"
      by (simp add: distrib_right)
    ultimately show False
      using that split bounds by linarith
  qed
qed

text \<open>The grid of a definition, and the coordinates already disposed.\<close>

definition on_grid :: "FixedIntervalDefinition \<Rightarrow> nat \<Rightarrow> bool" where
  "on_grid defn t \<longleftrightarrow>
     (\<exists>k. t = fd_start_ns defn + k * fd_period_ns defn)
     \<and> (case fd_end_exclusive_ns defn of Some end_ns \<Rightarrow> int t < end_ns | None \<Rightarrow> True)"

definition disposed_dues :: "DisposedOccurrence list \<Rightarrow> nat set" where
  "disposed_dues disposed = {t. \<exists>row \<in> set disposed. coordinate_value (do_due_coordinate row) = Inr t}"

definition index_due :: "FixedIntervalDefinition \<Rightarrow> int \<Rightarrow> int" where
  "index_due defn i = int (fd_start_ns defn) + i * int (fd_period_ns defn)"

lemma disposed_index_Inr:
  assumes "disposed_index d boundary defn row acc = Inr indices"
  shows "\<exists>i due. indices = acc @ [i] \<and> 0 \<le> i \<and> coordinate_value (do_due_coordinate row) = Inr due
    \<and> int due = index_due defn i"
proof -
  obtain due where due: "coordinate_value (do_due_coordinate row) = Inr due"
    using assms by (auto simp: disposed_index_def rbind_eq_Inr)
  define offset where "offset = int due - int (fd_start_ns defn)"
  have "indices = acc @ [offset div int (fd_period_ns defn)] \<and> 0 \<le> offset
      \<and> offset mod int (fd_period_ns defn) = 0"
    using assms due by (auto simp: disposed_index_def rbind_eq_Inr Let_def offset_def split: if_splits)
  moreover from this have "offset = offset div int (fd_period_ns defn) * int (fd_period_ns defn)"
    by (metis add.right_neutral div_mult_mod_eq)
  ultimately show ?thesis
    using due unfolding index_due_def offset_def
    by (intro exI [of _ "offset div int (fd_period_ns defn)"] exI [of _ due])
      (auto simp: offset_def pos_imp_zdiv_nonneg_iff intro: div_int_pos_iff [THEN iffD2])
qed

lemma disposed_indices_Inr:
  assumes "rfold (disposed_index d boundary defn) disposed acc = Inr indices"
  shows "\<exists>js. indices = acc @ js \<and> (\<forall>j \<in> set js. 0 \<le> j)
    \<and> index_due defn ` set js = int ` disposed_dues disposed"
  using assms
proof (induction disposed arbitrary: acc)
  case Nil
  then show ?case by (simp add: disposed_dues_def)
next
  case (Cons row disposed)
  then obtain mid where mid: "disposed_index d boundary defn row acc = Inr mid"
    and rest: "rfold (disposed_index d boundary defn) disposed mid = Inr indices"
    by (auto simp: rbind_eq_Inr)
  obtain i due where i: "mid = acc @ [i]" "0 \<le> i" "coordinate_value (do_due_coordinate row) = Inr due"
    "int due = index_due defn i"
    using disposed_index_Inr [OF mid] by auto
  obtain js where js: "indices = mid @ js" "\<forall>j \<in> set js. 0 \<le> j"
    "index_due defn ` set js = int ` disposed_dues disposed"
    using Cons.IH [OF rest] by auto
  have "disposed_dues (row # disposed) = insert due (disposed_dues disposed)"
    using i(3) by (auto simp: disposed_dues_def)
  with i js show ?case
    by (intro exI [of _ "i # js"]) auto
qed


definition interval_limit :: "FixedIntervalDefinition \<Rightarrow> nat \<Rightarrow> int" where
  "interval_limit defn cutoff =
     (case fd_end_exclusive_ns defn of Some end_ns \<Rightarrow> min (int cutoff) end_ns | None \<Rightarrow> int cutoff)"

text \<open>What a plan says of the boundary, the definition and the dispositions it was made from.\<close>

definition planned ::
  "SchedulerEligibilityBoundary \<Rightarrow> FixedIntervalDefinition \<Rightarrow> DisposedOccurrence list \<Rightarrow> nat \<Rightarrow> nat \<Rightarrow>
   DefinitionEnumeration \<Rightarrow> bool" where
  "planned boundary defn disposed start cutoff plan \<longleftrightarrow>
     de_definition plan = defn \<and> de_boundary plan = boundary
     \<and> (\<forall>i. de_first_index plan \<le> i \<and> i < de_end_index plan \<longleftrightarrow>
           0 \<le> i \<and> int start \<le> index_due defn i \<and> index_due defn i < interval_limit defn cutoff)
     \<and> sorted_wrt (<) (de_excluded_indices plan)
     \<and> set (de_excluded_indices plan) =
         {i. de_first_index plan \<le> i \<and> i < de_end_index plan
             \<and> index_due defn i \<in> int ` disposed_dues disposed}
     \<and> 0 \<le> de_first_index plan \<and> de_first_index plan \<le> de_end_index plan
     \<and> de_eligible_count plan =
         de_end_index plan - de_first_index plan - int (length (de_excluded_indices plan))"

lemma index_due_inj: "0 < fd_period_ns defn \<Longrightarrow> index_due defn i = index_due defn j \<longleftrightarrow> i = j"
  by (auto simp: index_due_def)

lemma plan_window:
  fixes start_i limit_i origin period :: int
  assumes "0 < period"
  shows "max 0 ((start_i - origin + period - 1) div period) \<le> i
      \<and> i < max (max 0 ((start_i - origin + period - 1) div period)) ((limit_i - origin + period - 1) div period)
    \<longleftrightarrow> 0 \<le> i \<and> start_i \<le> origin + i * period \<and> origin + i * period < limit_i"
  using ceil_div_le [OF assms, of "start_i - origin" i] ceil_div_le [OF assms, of "limit_i - origin" i]
  by auto

lemma definition_enumeration_planned:
  assumes "definition_enumeration d snapshot boundary disposed = Inr plan"
    and period: "0 < fd_period_ns (de_definition plan)"
  shows "\<exists>sched policy bound start cutoff.
    current_configuration snapshot = Inr (sched, policy, bound)
    \<and> eb_schedule_definition_head boundary = schedule_head d sched
    \<and> eb_missed_occurrence_policy_head boundary = policy_head d policy
    \<and> interval_of boundary start cutoff
    \<and> planned boundary (sv_definition sched) disposed start cutoff plan"
proof -
  obtain sched policy bound where current: "current_configuration snapshot = Inr (sched, policy, bound)"
    using assms(1) by (auto simp: definition_enumeration_def rbind_eq_Inr)
  obtain start cutoff where interval: "interval_of boundary start cutoff"
    using assms(1) current
    by (auto simp: definition_enumeration_def rbind_eq_Inr interval_of_def Let_def split: if_splits)
  define defn where "defn = sv_definition sched"
  define first_i where
    "first_i = max 0 ((int start - int (fd_start_ns defn) + int (fd_period_ns defn) - 1) div int (fd_period_ns defn))"
  define last_i where "last_i = max first_i
    ((interval_limit defn cutoff - int (fd_start_ns defn) + int (fd_period_ns defn) - 1) div int (fd_period_ns defn))"
  define heads where "heads \<longleftrightarrow> eb_schedule_definition_head boundary = schedule_head d sched
    \<and> eb_missed_occurrence_policy_head boundary = policy_head d policy"
  define excluded where "excluded = (\<lambda>indices. sort (filter (\<lambda>i. first_i \<le> i \<and> i < last_i) indices))"
  have eq: "definition_enumeration d snapshot boundary disposed =
    (if \<not> heads then refuse ''boundary does not bind actual configuration records''
     else rbind (validate_definition defn (sv_context sched)) (\<lambda>_.
       rbind (rfold (disposed_index d boundary defn) disposed []) (\<lambda>indices.
       if \<not> distinct indices then refuse ''disposed identities contain duplicate indices''
       else Inr \<lparr>de_definition = defn, de_boundary = boundary, de_first_index = first_i, de_end_index = last_i,
         de_excluded_indices = excluded indices,
         de_eligible_count = last_i - first_i - int (length (excluded indices))\<rparr>)))"
    using interval
    unfolding definition_enumeration_def Let_def defn_def heads_def first_i_def last_i_def excluded_def
      interval_limit_def
    by (simp add: current interval_of_def card_set_eq_length not_less)
  obtain indices where indices: "rfold (disposed_index d boundary defn) disposed [] = Inr indices"
    "distinct indices"
    "plan = \<lparr>de_definition = defn, de_boundary = boundary, de_first_index = first_i, de_end_index = last_i,
       de_excluded_indices = excluded indices,
       de_eligible_count = last_i - first_i - int (length (excluded indices))\<rparr>" and heads
    using trans [OF eq [symmetric] assms(1)] by (auto simp: rbind_eq_Inr split: if_splits)
  obtain nonneg: "\<forall>j \<in> set indices. 0 \<le> j" and dues: "index_due defn ` set indices = int ` disposed_dues disposed"
    using disposed_indices_Inr [OF indices(1)] by auto
  have pos: "0 < int (fd_period_ns defn)"
    using period indices(3) by simp
  have window: "first_i \<le> i \<and> i < last_i \<longleftrightarrow>
      0 \<le> i \<and> int start \<le> index_due defn i \<and> index_due defn i < interval_limit defn cutoff" for i
    unfolding first_i_def last_i_def index_due_def by (rule plan_window [OF pos])
  have member: "i \<in> set indices \<longleftrightarrow> index_due defn i \<in> int ` disposed_dues disposed" for i
    using dues index_due_inj [of defn] pos by (metis (mono_tags) image_iff of_nat_0_less_iff)
  have "planned boundary defn disposed start cutoff plan"
    unfolding planned_def
  proof (intro conjI allI)
    show "sorted_wrt (<) (de_excluded_indices plan)"
      using indices(2,3) by (simp add: strict_sorted_iff excluded_def)
    show "set (de_excluded_indices plan) = {i. de_first_index plan \<le> i \<and> i < de_end_index plan
        \<and> index_due defn i \<in> int ` disposed_dues disposed}"
      using indices(3) by (auto simp: excluded_def member)
    show "0 \<le> de_first_index plan" "de_first_index plan \<le> de_end_index plan"
      using indices(3) by (simp_all add: first_i_def last_i_def)
  qed (use indices(3) window in simp_all)
  with current \<open>heads\<close> interval show ?thesis
    unfolding defn_def heads_def by blast
qed


section \<open>The members of a plan\<close>

definition plan_indices :: "DefinitionEnumeration \<Rightarrow> int list" where
  "plan_indices plan =
     filter (\<lambda>i. i \<notin> set (de_excluded_indices plan)) [de_first_index plan..de_end_index plan - 1]"

definition plan_member :: "SchedulerCodec \<Rightarrow> DefinitionEnumeration \<Rightarrow> int \<Rightarrow> UndisposedOccurrence" where
  "plan_member d plan i = projr (definition_member d plan i)"

lemma definition_member_Inr:
  assumes "0 \<le> i"
  shows "definition_member d plan i = Inr (plan_member d plan i)"
    and "genuine d (eb_schedule_definition_head (de_boundary plan)) (plan_member d plan i)"
    and "int (due_key (plan_member d plan i)) = index_due (de_definition plan) i"
    and "uo_due_coordinate (plan_member d plan i) = index_coordinate (de_definition plan) i"
    and "uo_undisposed_head (plan_member d plan i) = uo_occurrence_id (plan_member d plan i) @ ''/UNDISPOSED''"
proof -
  define due where "due = nat (index_due (de_definition plan) i)"
  have nonneg: "0 \<le> index_due (de_definition plan) i"
    using assms by (simp add: index_due_def)
  have coordinate: "coordinate_value (index_coordinate (de_definition plan) i) = Inr due"
    using nonneg by (simp add: coordinate_value_eq index_coordinate_def index_due_def int_str_def due_def)
  then show "definition_member d plan i = Inr (plan_member d plan i)"
    by (simp add: plan_member_def definition_member_def occurrence_identity_def undisposed_occurrence_def Let_def)
  show "genuine d (eb_schedule_definition_head (de_boundary plan)) (plan_member d plan i)"
    and "int (due_key (plan_member d plan i)) = index_due (de_definition plan) i"
    and "uo_due_coordinate (plan_member d plan i) = index_coordinate (de_definition plan) i"
    and "uo_undisposed_head (plan_member d plan i) = uo_occurrence_id (plan_member d plan i) @ ''/UNDISPOSED''"
    using coordinate nonneg
    by (simp_all add: plan_member_def definition_member_def occurrence_identity_def
        undisposed_occurrence_def genuine_def due_key_def due_def Let_def)
qed

lemma rfold_map_Inr:
  "(\<And>x. x \<in> set xs \<Longrightarrow> f x = Inr (g x)) \<Longrightarrow>
   rfold (\<lambda>x acc. rbind (f x) (\<lambda>y. Inr (acc @ [y]))) xs acc = Inr (acc @ map g xs)"
  by (induction xs arbitrary: acc) auto

lemma definition_members_Inr:
  assumes "planned boundary defn disposed start cutoff plan"
  shows "definition_members d plan = Inr (map (plan_member d plan) (plan_indices plan))"
proof -
  have "skip_excluded [de_first_index plan..de_end_index plan - 1] (de_excluded_indices plan) = plan_indices plan"
    unfolding plan_indices_def
    using assms by (intro skip_excluded_filter) (auto simp: planned_def)
  moreover have "0 \<le> i" if "i \<in> set (plan_indices plan)" for i
    using that assms by (auto simp: plan_indices_def planned_def)
  ultimately show ?thesis
    unfolding definition_members_def
    using rfold_map_Inr [of "plan_indices plan" "definition_member d plan" "plan_member d plan" "[]"]
      definition_member_Inr(1) by simp
qed

lemma plan_indices_sorted: "sorted_wrt (<) (plan_indices plan)"
  by (simp add: plan_indices_def sorted_wrt_filter)

lemma length_plan_indices:
  assumes "planned boundary defn disposed start cutoff plan"
  shows "int (length (plan_indices plan)) = de_eligible_count plan"
proof -
  define range where "range = [de_first_index plan..de_end_index plan - 1]"
  have inside: "set (de_excluded_indices plan) \<subseteq> set range" and "distinct (de_excluded_indices plan)"
    using assms by (auto simp: planned_def range_def strict_sorted_iff)
  then have card: "card (set range \<inter> set (de_excluded_indices plan)) = length (de_excluded_indices plan)"
    by (simp add: Int_absorb1 distinct_card)
  have "distinct range"
    by (simp add: range_def)
  then have "length (plan_indices plan) = card (set range - set (de_excluded_indices plan))"
    by (simp add: plan_indices_def range_def [symmetric] distinct_length_filter Diff_eq Compl_eq Int_commute)
  also have "\<dots> = card (set range) - length (de_excluded_indices plan)"
    using card by (simp add: card_Diff_subset_Int)
  also have "card (set range) = nat (de_end_index plan - de_first_index plan)"
    using \<open>distinct range\<close> by (simp add: distinct_card range_def)
  finally have "length (plan_indices plan)
      = nat (de_end_index plan - de_first_index plan) - length (de_excluded_indices plan)" .
  moreover have "length (de_excluded_indices plan) \<le> nat (de_end_index plan - de_first_index plan)"
    using card_mono [OF _ inside] \<open>distinct (de_excluded_indices plan)\<close> by (simp add: distinct_card range_def)
  ultimately show ?thesis
    using assms by (simp add: planned_def)
qed


text \<open>The coordinates of the members are exactly the undisposed grid points of the interval, in order.\<close>

lemma plan_dues:
  assumes plan: "planned boundary defn disposed start cutoff plan" and period: "0 < fd_period_ns defn"
  shows "sorted_wrt (<) (map due_key (map (plan_member d plan) (plan_indices plan)))"
    and "set (map due_key (map (plan_member d plan) (plan_indices plan))) =
      {t. start \<le> t \<and> t < cutoff \<and> on_grid defn t \<and> t \<notin> disposed_dues disposed}"
proof -
  have nonneg: "0 \<le> i" if "i \<in> set (plan_indices plan)" for i
    using that plan by (auto simp: plan_indices_def planned_def)
  have due: "int (due_key (plan_member d plan i)) = index_due defn i" if "i \<in> set (plan_indices plan)" for i
    using definition_member_Inr(3) [OF nonneg [OF that]] plan by (simp add: planned_def)
  have mono: "due_key (plan_member d plan i) < due_key (plan_member d plan j)"
    if "i \<in> set (plan_indices plan)" "j \<in> set (plan_indices plan)" "i < j" for i j
  proof -
    have "index_due defn i < index_due defn j"
      using that(3) period by (simp add: index_due_def)
    then show ?thesis
      using due [OF that(1)] due [OF that(2)] by simp
  qed
  show "sorted_wrt (<) (map due_key (map (plan_member d plan) (plan_indices plan)))"
    unfolding map_map sorted_wrt_map o_def
    by (rule sorted_wrt_mono_rel [OF mono plan_indices_sorted])
  have index: "i \<in> set (plan_indices plan) \<longleftrightarrow> 0 \<le> i \<and> int start \<le> index_due defn i
      \<and> index_due defn i < interval_limit defn cutoff \<and> index_due defn i \<notin> int ` disposed_dues disposed" for i
    using plan by (auto simp: plan_indices_def planned_def)
  have grid: "on_grid defn t \<and> t < cutoff \<longleftrightarrow>
      (\<exists>i. 0 \<le> i \<and> int t = index_due defn i) \<and> int t < interval_limit defn cutoff" for t
  proof -
    have "(\<exists>k. t = fd_start_ns defn + k * fd_period_ns defn) \<longleftrightarrow> (\<exists>i. 0 \<le> i \<and> int t = index_due defn i)"
    proof
      assume "\<exists>k. t = fd_start_ns defn + k * fd_period_ns defn"
      then obtain k where "t = fd_start_ns defn + k * fd_period_ns defn" ..
      then show "\<exists>i. 0 \<le> i \<and> int t = index_due defn i"
        by (intro exI [of _ "int k"]) (simp add: index_due_def)
    next
      assume "\<exists>i. 0 \<le> i \<and> int t = index_due defn i"
      then obtain i where "0 \<le> i" "int t = int (fd_start_ns defn) + i * int (fd_period_ns defn)"
        by (auto simp: index_due_def)
      then have "int t = int (fd_start_ns defn + nat i * fd_period_ns defn)" by simp
      then show "\<exists>k. t = fd_start_ns defn + k * fd_period_ns defn"
        by (metis of_nat_eq_iff)
    qed
    then show ?thesis
      by (auto simp: on_grid_def interval_limit_def split: option.splits)
  qed
  show "set (map due_key (map (plan_member d plan) (plan_indices plan))) =
      {t. start \<le> t \<and> t < cutoff \<and> on_grid defn t \<and> t \<notin> disposed_dues disposed}" (is "?L = ?R")
  proof (intro set_eqI iffI)
    fix t assume "t \<in> ?L"
    then obtain i where "i \<in> set (plan_indices plan)" "t = due_key (plan_member d plan i)" by auto
    then show "t \<in> ?R"
      using due [of i] index [of i] grid [of t] by (auto simp: image_iff)
  next
    fix t assume "t \<in> ?R"
    then obtain i where i: "0 \<le> i" "int t = index_due defn i" "int t < interval_limit defn cutoff"
      "start \<le> t" "t \<notin> disposed_dues disposed"
      using grid [of t] by auto
    then have member: "i \<in> set (plan_indices plan)"
      unfolding index by (simp add: image_iff flip: i(2))
    then have "t = due_key (plan_member d plan i)"
      using due [OF member] i(2) by simp
    with member show "t \<in> ?L" by auto
  qed
qed

end
