(* ===== verification/Scheduler_Stream.thy ===== *)
theory Scheduler_Stream
  imports Scheduler_Enumeration Scheduler_Interval
begin

text \<open>
  The one-pass stream of \<open>stream_definition\<close> is equivalent to building the manifest of the enumerated
  members: same count, same size in bytes, same digest, and the same evidence \<open>prepare_interval\<close> gives.
\<close>

section \<open>Bytes of a manifest\<close>

text \<open>
  What the stream relies on of \<open>model_dump(mode="json")\<close>: a model is the dictionary of its declared
  fields, and a list of models the list of their dictionaries.
\<close>

definition eligibility_codec_ok :: "SchedulerCodec \<Rightarrow> bool" where
  "eligibility_codec_ok d \<longleftrightarrow>
     (\<forall>c. js_coordinate d c =
        JObj [(''coordinate_policy_version'', JStr (dc_coordinate_policy_version c)),
              (''canonical_coordinate'', JStr (dc_canonical_coordinate c))])
     \<and> (\<forall>item. js_occurrence d item =
        JObj [(''occurrence_id'', JStr (uo_occurrence_id item)),
              (''schedule_id'', JStr (uo_schedule_id item)),
              (''schedule_revision'', JStr (uo_schedule_revision item)),
              (''due_coordinate'', js_coordinate d (uo_due_coordinate item)),
              (''undisposed_head'', JStr (uo_undisposed_head item)),
              (''undisposed_fingerprint'', JStr (uo_undisposed_fingerprint item))])
     \<and> (\<forall>m. js_eligibility d m =
        JObj [(''members'', JArr (map (js_occurrence d) (em_members m))),
              (''fingerprint'', JStr (em_fingerprint m))])"

lemma ordered_occurrence:
  "eligibility_codec_ok d \<Longrightarrow> plain quote_str (ordered (js_occurrence d item)) = dumps (js_occurrence d item)"
  by (simp add: eligibility_codec_ok_def dumps_def dumps_with_plain kind_first_def)

lemma hex_digit_quoted: "n < 16 \<Longrightarrow> esc_char (hex_digit n) = [hex_digit n]"
  by (auto simp: esc_char_def hex_digit_def Let_def)

lemma concat_map_single: "\<forall>x \<in> set xs. f x = [x] \<Longrightarrow> concat (map f xs) = xs"
  by (induction xs) auto

lemma length_quote_digest: "length (quote_str (sha256_hex m)) = 66"
proof -
  have "unat b < 256" for b :: "8 word"
    using unsigned_less [of b] by simp
  then have "unat b div 16 < 16" for b :: "8 word"
    by (simp add: less_mult_imp_div_less)
  then have "\<forall>c \<in> set (sha256_hex m). esc_char c = [c]"
    by (auto simp: sha256_hex_def bytes_hex_def hex_digit_quoted)
  then have "concat (map esc_char (sha256_hex m)) = sha256_hex m"
    by (rule concat_map_single)
  then show ?thesis
    by (simp add: quote_str_def)
qed

definition members_text :: "SchedulerCodec \<Rightarrow> UndisposedOccurrence list \<Rightarrow> string" where
  "members_text d members = join_with '','' (map (\<lambda>item. dumps (js_occurrence d item)) members)"

definition empty_manifest_size :: nat where
  "empty_manifest_size = length (canonical_json
     (JObj [(''fingerprint'', JStr (replicate 64 (CHR ''0''))), (''members'', JArr [])]))"

lemma length_encode [simp]: "length (encode s) = length s"
  by (simp add: encode_def)

lemma encode_append: "encode (s @ t) = encode s @ encode t"
  by (simp add: encode_def)

lemma length_eligibility_bytes:
  assumes "eligibility_codec_ok d"
  shows "length (eligibility_bytes d (manifest_of d boundary members))
    = empty_manifest_size + length (members_text d members)"
proof -
  have "js_eligibility d (manifest_of d boundary members) =
      JObj [(''members'', JArr (map (js_occurrence d) members)),
            (''fingerprint'', JStr (manifest_fingerprint d boundary members))]"
    using assms by (simp add: eligibility_codec_ok_def manifest_of_def)
  then have "plain quote_str (ordered (js_eligibility d (manifest_of d boundary members))) =
    ''{'' @ quote_str ''fingerprint'' @ '':'' @ quote_str (manifest_fingerprint d boundary members) @ '',''
    @ quote_str ''members'' @ '':'' @ ''['' @ members_text d members @ '']}''"
    using ordered_occurrence [OF assms]
    by (simp add: kind_first_def members_text_def o_def)
  moreover have "length (quote_str (manifest_fingerprint d boundary members)) = 66"
    by (simp add: manifest_fingerprint_def domain_digest_def json_digest_def length_quote_digest)
  moreover have "length (quote_str (replicate 64 (CHR ''0''))) = 66"
    by (simp add: quote_str_def esc_char_def numeral_eq_Suc)
  ultimately show ?thesis
    by (simp add: eligibility_bytes_def dto_bytes_def empty_manifest_size_def canonical_json_def dumps_def)
qed

lemma manifest_digest_bytes:
  "canonical_json (JArr [JStr ''scheduler-eligibility-manifest-v1'',
      JArr [js_boundary d boundary, JArr (map (js_occurrence d) members)]])
   = encode (''['' @ [CHR 0x22] @ ''scheduler-eligibility-manifest-v1'' @ [CHR 0x22] @ '',['')
     @ canonical_json (js_boundary d boundary) @ encode '',['' @ encode (members_text d members) @ encode '']]]''"
proof -
  have "quote_str ''scheduler-eligibility-manifest-v1''
      = [CHR 0x22] @ ''scheduler-eligibility-manifest-v1'' @ [CHR 0x22]"
    by (simp add: quote_str_def esc_char_def)
  then show ?thesis
    by (simp add: canonical_json_def dumps_def members_text_def encode_append o_def)
      (simp add: encode_def)
qed

lemma join_with_snoc: "join_with sep (xs @ [x]) = (if xs = [] then x else join_with sep xs @ sep @ x)"
  by (cases xs) (simp_all add: join_with_Cons)

lemma members_text_simps [simp]:
  "members_text d [] = []" "members_text d [item] = dumps (js_occurrence d item)"
  by (simp_all add: members_text_def)

lemma members_text_snoc:
  "members_text d (members @ [item]) =
   members_text d members @ (if members = [] then [] else '','') @ dumps (js_occurrence d item)"
  by (auto simp: members_text_def join_with_snoc)


section \<open>The loop\<close>

text \<open>The state of the loop after the members with the given indices.\<close>

definition stream_after ::
  "SchedulerCodec \<Rightarrow> DefinitionEnumeration \<Rightarrow> nat \<Rightarrow> int list \<Rightarrow> StreamState" where
  "stream_after d plan limit indices =
     (let members = map (plan_member d plan) indices;
          measured = empty_manifest_size + length (members_text d members)
      in \<lparr>ss_hashed = encode (''['' @ [CHR 0x22] @ ''scheduler-eligibility-manifest-v1'' @ [CHR 0x22] @ '',['')
            @ canonical_json (js_boundary d (de_boundary plan)) @ encode '',['' @ encode (members_text d members),
          ss_measured = measured,
          ss_retained = (if measured \<le> limit then Some members else None),
          ss_first = (case members of [] \<Rightarrow> None | item # _ \<Rightarrow> Some (occurrence_ref item)),
          ss_last = (if members = [] then None else Some (occurrence_ref (last members))),
          ss_count = length members,
          ss_previous_index = (if indices = [] then de_first_index plan - 1 else last indices)\<rparr>)"

lemma stream_start_after:
  "stream_start d (de_boundary plan) limit (de_first_index plan) = stream_after d plan limit []"
  by (simp add: stream_start_def stream_after_def empty_manifest_size_def members_text_def encode_def Let_def)

lemma undisposed_occurrence_id:
  "undisposed_occurrence d sched coordinate head = Inr item \<Longrightarrow>
   occurrence_identity d sched coordinate = Inr (uo_occurrence_id item)"
  by (auto simp: undisposed_occurrence_def rbind_eq_Inr)

lemma stream_member_step:
  assumes plan: "planned boundary defn disposed start cutoff plan" and period: "0 < fd_period_ns defn"
    and i: "i \<in> set (plan_indices plan)" and later: "ss_previous_index (stream_after d plan limit indices) < i"
  shows "stream_member d plan limit (plan_member d plan i) (stream_after d plan limit indices)
    = Inr (stream_after d plan limit (indices @ [i]))"
proof -
  have window: "de_first_index plan \<le> i" "i < de_end_index plan" "i \<notin> set (de_excluded_indices plan)" "0 \<le> i"
    using i plan by (auto simp: plan_indices_def planned_def)
  have defn: "de_definition plan = defn"
    using plan by (simp add: planned_def)
  note member = definition_member_Inr [OF window(4), of d plan]
  have due: "coordinate_value (uo_due_coordinate (plan_member d plan i)) = Inr (due_key (plan_member d plan i))"
    using member(2) by (rule genuine_due)
  have offset: "int (due_key (plan_member d plan i)) - int (fd_start_ns defn) = i * int (fd_period_ns defn)"
    using member(3) by (simp add: index_due_def defn)
  have expected: "occurrence_identity d (eb_schedule_definition_head (de_boundary plan))
      (uo_due_coordinate (plan_member d plan i)) = Inr (uo_occurrence_id (plan_member d plan i))"
    "undisposed_occurrence d (eb_schedule_definition_head (de_boundary plan))
      (uo_due_coordinate (plan_member d plan i)) (uo_occurrence_id (plan_member d plan i) @ ''/UNDISPOSED'')
     = Inr (plan_member d plan i)"
    using member(2) undisposed_occurrence_id unfolding genuine_def member(5) by blast+
  have checks: "i * int (fd_period_ns defn) mod int (fd_period_ns defn) = 0"
    "i * int (fd_period_ns defn) div int (fd_period_ns defn) = i"
    using period by simp_all
  show ?thesis
    using later window
    by (auto simp: stream_member_def due expected defn offset checks Let_def)
      (auto simp: stream_after_def Let_def members_text_snoc encode_def canonical_json_def split: list.splits)
qed


lemma stream_members:
  assumes plan: "planned boundary defn disposed start cutoff plan" and period: "0 < fd_period_ns defn"
  shows "set rest \<subseteq> set (plan_indices plan) \<Longrightarrow> sorted_wrt (<) (done_indices @ rest) \<Longrightarrow>
    rfold (stream_member d plan limit) (map (plan_member d plan) rest) (stream_after d plan limit done_indices)
    = Inr (stream_after d plan limit (done_indices @ rest))"
proof (induction rest arbitrary: done_indices)
  case (Cons i rest)
  have "ss_previous_index (stream_after d plan limit done_indices) < i"
  proof (cases "done_indices = []")
    case True
    then show ?thesis
      using Cons.prems(1) plan by (auto simp: stream_after_def Let_def plan_indices_def)
  next
    case False
    then show ?thesis
      using Cons.prems(2) last_in_set [of done_indices]
      by (auto simp: stream_after_def Let_def sorted_wrt_append)
  qed
  with Cons.prems(1) have "stream_member d plan limit (plan_member d plan i) (stream_after d plan limit done_indices)
      = Inr (stream_after d plan limit (done_indices @ [i]))"
    by (intro stream_member_step [OF plan period]) auto
  with Cons.IH [of "done_indices @ [i]"] Cons.prems show ?case by simp
qed simp

lemma stream_exact:
  assumes codec: "eligibility_codec_ok d"
    and plan: "definition_enumeration d snapshot boundary disposed = Inr plan"
    and period: "0 < fd_period_ns (de_definition plan)"
    and current: "current_configuration snapshot = Inr (sched, policy, bound)"
  shows "\<exists>members. definition_members d plan = Inr members
    \<and> stream_definition d snapshot boundary disposed enumeration_proof = Inr
        \<lparr>st_member_count = length members,
         st_manifest_bytes = length (eligibility_bytes d (manifest_of d boundary members)),
         st_manifest_fingerprint = manifest_fingerprint d boundary members,
         st_evidence = overflow_evidence d (manifest_of d boundary members)
           (ib_max_manifest_bytes (ih_bound bound)) enumeration_proof\<rparr>"
proof -
  obtain start cutoff where planned: "planned boundary (sv_definition sched) disposed start cutoff plan"
    using definition_enumeration_planned [OF plan period] current by auto
  then have "0 < fd_period_ns (sv_definition sched)" and boundary: "de_boundary plan = boundary"
    using period by (simp_all add: planned_def)
  define indices where "indices = plan_indices plan"
  define members where "members = map (plan_member d plan) indices"
  define limit where "limit = ib_max_manifest_bytes (ih_bound bound)"
  have "definition_members d plan = Inr members"
    unfolding members_def indices_def by (rule definition_members_Inr [OF planned])
  moreover have "rfold (stream_member d plan limit) members (stream_after d plan limit [])
      = Inr (stream_after d plan limit indices)"
    using stream_members [OF planned \<open>0 < fd_period_ns (sv_definition sched)\<close>, of indices "[]" d limit]
      plan_indices_sorted [of plan]
    by (simp add: members_def indices_def)
  moreover have "int (length members) = de_eligible_count plan"
    using length_plan_indices [OF planned] by (simp add: members_def indices_def)
  moreover have "sha256_hex (ss_hashed (stream_after d plan limit indices) @ encode '']]]'')
      = manifest_fingerprint d boundary members"
    by (simp add: stream_after_def Let_def members_def [symmetric] boundary manifest_fingerprint_def
        domain_digest_def json_digest_def manifest_digest_bytes)
  moreover have "ss_count (stream_after d plan limit indices) = length members"
    "ss_measured (stream_after d plan limit indices) = length (eligibility_bytes d (manifest_of d boundary members))"
    "ss_retained (stream_after d plan limit indices) =
       (if length (eligibility_bytes d (manifest_of d boundary members)) \<le> limit then Some members else None)"
    "ss_first (stream_after d plan limit indices) =
       (case members of [] \<Rightarrow> None | item # _ \<Rightarrow> Some (occurrence_ref item))"
    "ss_last (stream_after d plan limit indices) =
       (case members of [] \<Rightarrow> None | _ # _ \<Rightarrow> Some (occurrence_ref (last members)))"
    using length_eligibility_bytes [OF codec, of boundary members]
    by (auto simp: stream_after_def Let_def members_def split: list.splits)
  ultimately show ?thesis
    using stream_start_after [of d plan limit]
    by (auto simp: stream_definition_def plan current boundary limit_def [symmetric] Let_def
        overflow_evidence_def manifest_of_def occurrence_ref_def split: list.splits)
qed

end
