(* ===== verification/Scheduler_Batch.thy ===== *)
theory Scheduler_Batch
  imports Scheduler_Stream
begin

text \<open>
  The complete batch of an interval: compilation never fails except for a duplicate record identity,
  every eligible occurrence gets exactly one disposition, and every execution subject gets one initial
  Run record that the agent loop accepts.
\<close>

section \<open>Verification of a manifest\<close>

lemma verify_manifest_Inr:
  "verify_manifest d boundary submitted items = Inr m \<Longrightarrow>
   eligible_manifest d boundary items = Inr m \<and> eligibility_bytes d submitted = eligibility_bytes d m"
  by (auto simp: verify_manifest_def rbind_eq_Inr split: if_splits)

lemma eligible_manifest_again:
  assumes "eligible_manifest d boundary items = Inr m"
  shows "eligible_manifest d boundary (em_members m) = Inr m"
proof -
  obtain start cutoff where m: "interval_of boundary start cutoff"
    "\<forall>item \<in> set items. genuine d (eb_schedule_definition_head boundary) item"
    "distinct (map uo_occurrence_id items)" "distinct (map due_key items)"
    "m = manifest_of d boundary (sort_key due_key (filter (in_interval start cutoff) items))"
    using assms by (auto simp: eligible_manifest_Inr)
  define members where "members = sort_key due_key (filter (in_interval start cutoff) items)"
  have ids: "distinct (map uo_occurrence_id members)" and dues: "distinct (map due_key members)"
    using m(3,4) distinct_map_filter [of uo_occurrence_id items] distinct_map_filter [of due_key items]
    by (auto simp: members_def distinct_map)
  have "filter (in_interval start cutoff) members = members"
    by (auto simp: members_def intro!: filter_True)
  moreover have "sort_key due_key members = members"
    by (simp add: members_def sort_key_id_if_sorted)
  moreover have "\<forall>item \<in> set members. genuine d (eb_schedule_definition_head boundary) item"
    using m(2) by (auto simp: members_def)
  ultimately show ?thesis
    using m(1,5) ids dues unfolding eligible_manifest_Inr
    by (intro exI [of _ start] exI [of _ cutoff]) (simp add: manifest_of_def members_def [symmetric])
qed

lemma eligible_manifest_ids:
  "eligible_manifest d boundary items = Inr m \<Longrightarrow> distinct (map uo_occurrence_id (em_members m))"
  using eligible_manifest_again by (fastforce simp: eligible_manifest_Inr)

lemma verify_manifest_own:
  "eligible_manifest d boundary items = Inr m \<Longrightarrow> verify_manifest d boundary m items = Inr m"
  by (simp add: verify_manifest_def)

definition subjects_of ::
  "SchedulerCodec \<Rightarrow> SchedulerEligibilityBoundary \<Rightarrow> SchedulerEligibilityManifest \<Rightarrow> LineageSubject list" where
  "subjects_of d boundary m = projr (execution_subjects d boundary m (em_members m))"

lemma execution_subjects_Inr:
  assumes "eligible_manifest d boundary items = Inr m"
  shows "execution_subjects d boundary m items = Inr (subjects_of d boundary m)"
  using verify_manifest_own [OF assms] verify_manifest_own [OF eligible_manifest_again [OF assms]]
  by (simp add: execution_subjects_def subjects_of_def Let_def)

lemma subjects_of_branch:
  assumes "eligible_manifest d boundary items = Inr m"
  defines "branch \<equiv> policy_branch (mh_kind (eb_missed_occurrence_policy_head boundary)) (length (em_members m))"
  shows "branch \<in> {BOUNDARY_ONLY_NO_WORK, SKIP_ALL} \<Longrightarrow> subjects_of d boundary m = []"
    and "branch = COALESCE_MULTI \<Longrightarrow>
      \<exists>aggregate. subjects_of d boundary m = [COALESCED aggregate (em_fingerprint m)] \<and> 2 \<le> length (em_members m)"
    and "branch \<notin> {BOUNDARY_ONLY_NO_WORK, SKIP_ALL, COALESCE_MULTI} \<Longrightarrow>
      subjects_of d boundary m = map (\<lambda>item. INDIVIDUAL (uo_occurrence_id item)) (em_members m)"
  using verify_manifest_own [OF eligible_manifest_again [OF assms(1)]]
  by (auto simp: subjects_of_def execution_subjects_def Let_def branch_def)
    (auto simp: policy_branch_def Suc_le_eq eval_nat_numeral neq_Nil_conv split: if_splits MissedPolicy.splits)

section \<open>One occurrence\<close>

lemma scheduled_run_Inr:
  "\<exists>run. scheduled_run l d inputs root = Inr run \<and> validate_record l None run None = Inr ()
    \<and> rn_run_id run = ln_initial_run_id root \<and> rn_tenant run = ri_tenant inputs
    \<and> rn_principal run = ri_principal inputs"
  by (simp add: scheduled_run_def Let_def validate_record_def run_head_of_def genesis_ok_def)

definition dispositions_of ::
  "SchedulerEligibilityManifest \<Rightarrow> LineageSubject \<Rightarrow> MaterializationIdentity \<Rightarrow> OccurrenceDisposition list" where
  "dispositions_of m subject mat = projr (subject_dispositions m subject mat)"

lemma filter_distinct_single:
  "distinct (map f xs) \<Longrightarrow> x \<in> set xs \<Longrightarrow> filter (\<lambda>y. f y = f x) xs = [x]"
proof (induction xs)
  case (Cons a xs)
  show ?case
  proof (cases "a = x")
    case True
    then show ?thesis
      using Cons.prems by (auto simp: filter_empty_conv image_iff)
  next
    case False
    then show ?thesis
      using Cons by (auto simp: image_iff)
  qed
qed simp

lemma individual_dispositions:
  "distinct (map uo_occurrence_id (em_members m)) \<Longrightarrow> item \<in> set (em_members m) \<Longrightarrow>
   subject_dispositions m (INDIVIDUAL (uo_occurrence_id item)) mat = Inr [CLAIMED_INDIVIDUALLY item mat]"
  by (simp add: subject_dispositions_def filter_distinct_single)

lemma coalesced_dispositions:
  "2 \<le> length (em_members m) \<Longrightarrow>
   subject_dispositions m (COALESCED aggregate (em_fingerprint m)) mat =
   Inr (map (\<lambda>item. COALESCED_INTO item aggregate (em_fingerprint m) mat) (em_members m))"
  by (simp add: subject_dispositions_def)

lemma subject_dispositions_Inr:
  assumes m: "eligible_manifest d boundary items = Inr m" and subject: "subject \<in> set (subjects_of d boundary m)"
  shows "subject_dispositions m subject mat = Inr (dispositions_of m subject mat)"
proof -
  define branch where
    "branch = policy_branch (mh_kind (eb_missed_occurrence_policy_head boundary)) (length (em_members m))"
  consider "branch \<in> {BOUNDARY_ONLY_NO_WORK, SKIP_ALL}" | "branch = COALESCE_MULTI"
    | "branch \<notin> {BOUNDARY_ONLY_NO_WORK, SKIP_ALL, COALESCE_MULTI}" by blast
  then have "\<exists>dispositions. subject_dispositions m subject mat = Inr dispositions"
  proof cases
    case 1
    then show ?thesis
      using subjects_of_branch(1) [OF m] subject by (simp add: branch_def)
  next
    case 2
    then show ?thesis
      using subjects_of_branch(2) [OF m] subject coalesced_dispositions by (fastforce simp: branch_def)
  next
    case 3
    then show ?thesis
      using subjects_of_branch(3) [OF m] subject individual_dispositions [OF eligible_manifest_ids [OF m]]
      by (auto simp: branch_def)
  qed
  then show ?thesis
    by (auto simp: dispositions_of_def)
qed

text \<open>A parent whose manifest and branch are what its boundary derives.\<close>

definition parent_ok :: "SchedulerCodec \<Rightarrow> IntervalParentPrimitive \<Rightarrow> bool" where
  "parent_ok d parent \<longleftrightarrow>
     eligible_manifest d (ip_boundary parent) (em_members (ip_manifest parent)) = Inr (ip_manifest parent)
     \<and> ip_branch parent = policy_branch (mh_kind (eb_missed_occurrence_policy_head (ip_boundary parent)))
         (length (em_members (ip_manifest parent)))"

abbreviation parent_ref_of :: "SchedulerCodec \<Rightarrow> IntervalParentPrimitive \<Rightarrow> PresentRef" where
  "parent_ref_of d parent \<equiv> dto_reference ''scheduler-parent-v1'' (js_parent d parent)"

definition materialized ::
  "LoopCodec \<Rightarrow> IntervalParentPrimitive \<Rightarrow> PresentRef \<Rightarrow> LineageSubject \<Rightarrow> MaterializedOccurrence \<Rightarrow> bool" where
  "materialized l parent parent_ref subject item \<longleftrightarrow>
     mc_subject (mo_commitment item) = subject
     \<and> mc_parent_decision (mo_commitment item) = parent_ref
     \<and> (\<exists>mat. mc_dispositions (mo_commitment item) = dispositions_of (ip_manifest parent) subject mat)
     \<and> validate_record l None (mo_run item) None = Inr ()
     \<and> rn_tenant (mo_run item) = ri_tenant (ip_run_inputs parent)
     \<and> rn_run_id (mo_run item) = ln_initial_run_id (mc_lineage (mo_commitment item))
     \<and> ln_subject (mc_lineage (mo_commitment item)) = subject
     \<and> ph_selector_version (mc_physical_root (mo_commitment item)) = 0
     \<and> (\<exists>head. mc_genesis_lease (mo_commitment item) = UNLEASED head)"

lemma materialize_occurrence_Inr:
  assumes ok: "parent_ok d parent" and subject: "subject \<in> set (subjects_of d (ip_boundary parent) (ip_manifest parent))"
  shows "\<exists>item. materialize_occurrence l d parent (parent_ref_of d parent) subject = Inr item
    \<and> materialized l parent (parent_ref_of d parent) subject item"
proof -
  have m: "eligible_manifest d (ip_boundary parent) (em_members (ip_manifest parent)) = Inr (ip_manifest parent)"
    and branch: "ip_branch parent = policy_branch (mh_kind (eb_missed_occurrence_policy_head (ip_boundary parent)))
         (length (em_members (ip_manifest parent)))"
    using ok by (simp_all add: parent_ok_def)
  define lineage where "lineage = materialized_lineage d (ip_boundary parent) subject
    (scheduled_run_id d (parent_ref_of d parent) subject)"
  obtain run where run: "scheduled_run l d (ip_run_inputs parent) lineage = Inr run"
    "validate_record l None run None = Inr ()" "rn_run_id run = ln_initial_run_id lineage"
    "rn_tenant run = ri_tenant (ip_run_inputs parent)"
    using scheduled_run_Inr [of l d "ip_run_inputs parent" lineage] by auto
  have subj: "ln_subject lineage = subject"
    by (simp add: lineage_def materialized_lineage_def Let_def)
  define mat where "mat = materialization_identity d (batch_primitive parent (parent_ref_of d parent) lineage)"
  define item where "item = assemble_occurrence l d parent (parent_ref_of d parent) lineage run
    (dispositions_of (ip_manifest parent) subject mat)"
  have "materialize_occurrence l d parent (parent_ref_of d parent) subject = Inr item"
    using run(1) subject branch subject_dispositions_Inr [OF m subject]
    by (simp add: materialize_occurrence_def execution_subjects_Inr [OF m] lineage_def item_def mat_def Let_def)
  moreover have "materialized l parent (parent_ref_of d parent) subject item"
    using run subj
    by (auto simp: item_def materialized_def assemble_occurrence_def genesis_lease_def materialized_physical_def Let_def)
  ultimately show ?thesis by blast
qed


lemma materialize_all_Inr:
  assumes ok: "parent_ok d parent"
  shows "set subjects \<subseteq> set (subjects_of d (ip_boundary parent) (ip_manifest parent)) \<Longrightarrow>
    \<exists>items. materialize_all l d parent (parent_ref_of d parent) subjects = Inr items
      \<and> list_all2 (materialized l parent (parent_ref_of d parent)) subjects items"
proof (induction subjects rule: rev_induct)
  case (snoc subject subjects)
  then obtain items where items: "materialize_all l d parent (parent_ref_of d parent) subjects = Inr items"
    "list_all2 (materialized l parent (parent_ref_of d parent)) subjects items"
    by auto
  obtain item where item: "materialize_occurrence l d parent (parent_ref_of d parent) subject = Inr item"
    "materialized l parent (parent_ref_of d parent) subject item"
    using materialize_occurrence_Inr [OF ok, of subject l] snoc.prems by auto
  have "materialize_all l d parent (parent_ref_of d parent) (subjects @ [subject]) = Inr (items @ [item])"
    using items(1) item(1) by (simp add: materialize_all_def rfold_append)
  with items(2) item(2) show ?case
    by (auto intro!: list_all2_appendI)
qed (simp add: materialize_all_def)

section \<open>Every member is disposed once\<close>

lemma dispositions_of_individual:
  "parent_ok d parent \<Longrightarrow> item \<in> set (em_members (ip_manifest parent)) \<Longrightarrow>
   map disposed_occurrence (dispositions_of (ip_manifest parent) (INDIVIDUAL (uo_occurrence_id item)) mat) = [item]"
  by (auto simp: dispositions_of_def individual_dispositions parent_ok_def dest!: eligible_manifest_ids)

lemma dispositions_of_coalesced:
  "2 \<le> length (em_members m) \<Longrightarrow>
   map disposed_occurrence (dispositions_of m (COALESCED aggregate (em_fingerprint m)) mat) = em_members m"
  by (simp add: dispositions_of_def coalesced_dispositions o_def)

lemma individual_items:
  assumes ok: "parent_ok d parent"
  shows "list_all2 (materialized l parent ref) (map (\<lambda>item. INDIVIDUAL (uo_occurrence_id item)) members) occurrences \<Longrightarrow>
    set members \<subseteq> set (em_members (ip_manifest parent)) \<Longrightarrow>
    map disposed_occurrence (concat (map (\<lambda>occurrence. mc_dispositions (mo_commitment occurrence)) occurrences)) = members"
proof (induction members arbitrary: occurrences)
  case (Cons item members)
  then show ?case
    using dispositions_of_individual [OF ok, of item]
    by (auto simp: list_all2_Cons1 materialized_def)
qed simp

lemma interval_dispositions_members:
  assumes ok: "parent_ok d parent"
    and items: "list_all2 (materialized l parent ref) (subjects_of d (ip_boundary parent) (ip_manifest parent)) occurrences"
  shows "map disposed_occurrence (interval_dispositions parent ref occurrences) = em_members (ip_manifest parent)"
proof -
  have m: "eligible_manifest d (ip_boundary parent) (em_members (ip_manifest parent)) = Inr (ip_manifest parent)"
    and branch: "policy_branch (mh_kind (eb_missed_occurrence_policy_head (ip_boundary parent)))
         (length (em_members (ip_manifest parent))) = ip_branch parent"
    using ok by (simp_all add: parent_ok_def)
  note subjects = subjects_of_branch [OF m, unfolded branch]
  consider "ip_branch parent = BOUNDARY_ONLY_NO_WORK" | "ip_branch parent = SKIP_ALL"
    | "ip_branch parent = COALESCE_MULTI"
    | "ip_branch parent \<notin> {BOUNDARY_ONLY_NO_WORK, SKIP_ALL, COALESCE_MULTI}" by blast
  then show ?thesis
  proof cases
    case 1
    then have "em_members (ip_manifest parent) = []"
      using branch by (auto simp: policy_branch_def split: if_splits MissedPolicy.splits)
    with 1 subjects(1) items show ?thesis
      by (simp add: interval_dispositions_def)
  next
    case 2
    then show ?thesis by (simp add: interval_dispositions_def o_def)
  next
    case 3
    then obtain aggregate where "subjects_of d (ip_boundary parent) (ip_manifest parent)
        = [COALESCED aggregate (em_fingerprint (ip_manifest parent))]" "2 \<le> length (em_members (ip_manifest parent))"
      using subjects(2) by auto
    with 3 items show ?thesis
      by (auto simp: interval_dispositions_def list_all2_Cons1 materialized_def dispositions_of_coalesced)
  next
    case 4
    then show ?thesis
      using subjects(3) items individual_items [OF ok] by (simp add: interval_dispositions_def)
  qed
qed

lemma subjects_count:
  assumes "eligible_manifest d boundary items = Inr m"
  shows "length (subjects_of d boundary m) =
    (case mh_kind (eb_missed_occurrence_policy_head boundary) of
       SKIP \<Rightarrow> 0 | COALESCE \<Rightarrow> min 1 (length (em_members m)) | MATERIALIZE_EACH \<Rightarrow> length (em_members m))"
proof -
  define kind where "kind = mh_kind (eb_missed_occurrence_policy_head boundary)"
  define n where "n = length (em_members m)"
  note subjects = subjects_of_branch [OF assms, folded kind_def n_def]
  show ?thesis
    unfolding kind_def [symmetric] n_def [symmetric]
  proof (cases "policy_branch kind n \<in> {BOUNDARY_ONLY_NO_WORK, SKIP_ALL}")
    case True
    with subjects(1) show "length (subjects_of d boundary m) =
      (case kind of SKIP \<Rightarrow> 0 | COALESCE \<Rightarrow> min 1 n | MATERIALIZE_EACH \<Rightarrow> n)"
      by (auto simp: policy_branch_def split: if_splits MissedPolicy.splits)
  next
    case False
    then show "length (subjects_of d boundary m) =
      (case kind of SKIP \<Rightarrow> 0 | COALESCE \<Rightarrow> min 1 n | MATERIALIZE_EACH \<Rightarrow> n)"
      using subjects(2,3)
      by (cases "policy_branch kind n = COALESCE_MULTI")
        (auto simp: policy_branch_def n_def split: if_splits MissedPolicy.splits)
  qed
qed


section \<open>The compiled interval\<close>

lemma validate_schema_dag_registered: "validate_schema_dag SCHEMA_DAG = Inr ()"
  by code_simp

definition duplicate_identity :: SchedulerError where
  "duplicate_identity = SchedulerDomainError ''duplicate complete-batch record identity''"

text \<open>
  A compiled candidate: one valid initial Run per execution subject, every record identity used once,
  and the size of the complete batch.
\<close>

definition compiled :: "LoopCodec \<Rightarrow> SchedulerCodec \<Rightarrow> IntervalParentPrimitive \<Rightarrow> IntervalCandidate \<Rightarrow> bool" where
  "compiled l d parent candidate \<longleftrightarrow>
     ic_parent_primitive candidate = Some parent
     \<and> list_all2 (materialized l parent (parent_ref_of d parent))
         (subjects_of d (ip_boundary parent) (ip_manifest parent)) (ic_occurrences candidate)
     \<and> (\<exists>pending fingerprint.
          interval_result parent (parent_ref_of d parent) (ic_occurrences candidate) = Inr pending
          \<and> ic_result candidate = with_commitment fingerprint pending)
     \<and> distinct (map sm_record_id (ic_records candidate))
     \<and> ic_serialized_batch_bytes candidate = length (serialized d (ic_records candidate))"

definition batch_records ::
  "SchedulerCodec \<Rightarrow> IntervalParentPrimitive \<Rightarrow> MaterializedOccurrence list \<Rightarrow> IntervalResult \<Rightarrow>
   SchedulerCanonicalMember list" where
  "batch_records d parent items outcome =
     interval_records d parent (parent_ref_of d parent) items @
     [canonical_member ''interval-result'' (pn_head (parent_ref_of d parent) @ '':result'') (js_result d outcome)]"

lemma compile_eq:
  assumes source: "eligible_manifest d (ip_boundary parent) source = Inr (ip_manifest parent)"
    and items: "materialize_all l d parent (parent_ref_of d parent)
      (subjects_of d (ip_boundary parent) (ip_manifest parent)) = Inr items"
    and pending: "interval_result parent (parent_ref_of d parent) items = Inr pending"
  shows "\<exists>fingerprint. compile l d parent source =
    (let records = batch_records d parent items (with_commitment fingerprint pending)
     in if \<not> distinct (map sm_record_id records) then Inl duplicate_identity
        else Inr \<lparr>ic_parent_primitive = Some parent, ic_result = with_commitment fingerprint pending,
                ic_occurrences = items, ic_records = records, ic_batch_fingerprint = fingerprint,
                ic_serialized_batch_bytes = length (serialized d records)\<rparr>)"
proof -
  define records where "records = interval_records d parent (parent_ref_of d parent) items"
  define fingerprint where "fingerprint = domain_hash ''scheduler-interval-envelope-v1''
    (JObj [(''complete_non_envelope_records'', JArr (map (js_member d) records)),
           (''result_without_commitment'', json_del ''complete_commitment'' (js_result d pending))])"
  define all_records where "all_records = batch_records d parent items (with_commitment fingerprint pending)"
  have "compile l d parent source =
    (if card (set (map sm_record_id all_records)) \<noteq> length all_records then Inl duplicate_identity
     else Inr \<lparr>ic_parent_primitive = Some parent, ic_result = with_commitment fingerprint pending,
                ic_occurrences = items, ic_records = all_records, ic_batch_fingerprint = fingerprint,
                ic_serialized_batch_bytes = length (serialized d all_records)\<rparr>)"
    by (simp only: compile_def validate_schema_dag_registered verify_manifest_own [OF source] rbind_Inr
        execution_subjects_Inr [OF source] items pending Let_def duplicate_identity_def refuse_def
        records_def fingerprint_def all_records_def batch_records_def)
  moreover have "card (set (map sm_record_id all_records)) = length all_records \<longleftrightarrow> distinct (map sm_record_id all_records)"
    using card_set_eq_length [of "map sm_record_id all_records"] by simp
  ultimately show ?thesis
    by (intro exI [of _ fingerprint]) (simp add: Let_def all_records_def)
qed

lemma compile_cases:
  assumes ok: "parent_ok d parent"
    and source: "eligible_manifest d (ip_boundary parent) source = Inr (ip_manifest parent)"
    and hold: "ip_kind parent = RESOLUTION_PARENT \<Longrightarrow> ip_original_hold parent \<noteq> None"
  shows "compile l d parent source = Inl duplicate_identity
    \<or> (\<exists>candidate. compile l d parent source = Inr candidate \<and> compiled l d parent candidate)"
proof -
  obtain items where items:
    "materialize_all l d parent (parent_ref_of d parent) (subjects_of d (ip_boundary parent) (ip_manifest parent)) = Inr items"
    "list_all2 (materialized l parent (parent_ref_of d parent))
       (subjects_of d (ip_boundary parent) (ip_manifest parent)) items"
    using materialize_all_Inr [OF ok] by blast
  have "\<exists>pending. interval_result parent (parent_ref_of d parent) items = Inr pending"
    using hold by (cases "ip_kind parent") (auto simp: interval_result_def Let_def)
  then obtain pending where pending: "interval_result parent (parent_ref_of d parent) items = Inr pending" ..
  obtain fingerprint where eq: "compile l d parent source =
    (let records = batch_records d parent items (with_commitment fingerprint pending)
     in if \<not> distinct (map sm_record_id records) then Inl duplicate_identity
        else Inr \<lparr>ic_parent_primitive = Some parent, ic_result = with_commitment fingerprint pending,
                ic_occurrences = items, ic_records = records, ic_batch_fingerprint = fingerprint,
                ic_serialized_batch_bytes = length (serialized d records)\<rparr>)"
    using compile_eq [OF source items(1) pending] ..
  show ?thesis
    unfolding eq Let_def using items(2) pending
    by (auto simp: compiled_def intro!: exI [of _ fingerprint])
qed

lemma verified_parent_ok:
  "eligible_manifest d boundary source = Inr m \<Longrightarrow> ip_boundary parent = boundary \<Longrightarrow> ip_manifest parent = m \<Longrightarrow>
   ip_branch parent = policy_branch (mh_kind (eb_missed_occurrence_policy_head boundary)) (length (em_members m)) \<Longrightarrow>
   parent_ok d parent"
  using eligible_manifest_again by (auto simp: parent_ok_def)


lemma compiled_decision:
  assumes ok: "parent_ok d parent" and compiled: "compiled l d parent candidate"
    and kind: "ip_kind parent = ORDINARY_PARENT"
  shows "\<exists>decision. ic_result candidate = INTERVAL_DECISION decision
    \<and> iv_manifest decision = ip_manifest parent \<and> iv_boundary decision = ip_boundary parent
    \<and> map disposed_occurrence (iv_dispositions decision) = em_members (ip_manifest parent)
    \<and> iv_materializations decision = map mo_commitment (ic_occurrences candidate)
    \<and> iv_resulting_boundary decision = eb_cutoff_due_coordinate (ip_boundary parent)"
  using compiled kind interval_dispositions_members [OF ok]
  by (auto simp: compiled_def interval_result_def Let_def)

lemma compiled_resolution:
  assumes ok: "parent_ok d parent" and compiled: "compiled l d parent candidate"
    and kind: "ip_kind parent = RESOLUTION_PARENT" "ip_original_hold parent = Some hold"
  shows "\<exists>decision. ic_result candidate = INTERVAL_RESOLUTION decision
    \<and> ir_manifest decision = ip_manifest parent \<and> ir_original_hold decision = hold
    \<and> map disposed_occurrence (ir_dispositions decision) = em_members (ip_manifest parent)
    \<and> ir_materializations decision = map mo_commitment (ic_occurrences candidate)
    \<and> ir_resulting_boundary decision = eb_cutoff_due_coordinate (ip_boundary parent)"
  using compiled kind interval_dispositions_members [OF ok]
  by (auto simp: compiled_def interval_result_def Let_def)

lemma compiled_runs:
  assumes ok: "parent_ok d parent" and compiled: "compiled l d parent candidate"
  shows "length (ic_occurrences candidate) =
      (case mh_kind (eb_missed_occurrence_policy_head (ip_boundary parent)) of
         SKIP \<Rightarrow> 0 | COALESCE \<Rightarrow> min 1 (length (em_members (ip_manifest parent)))
       | MATERIALIZE_EACH \<Rightarrow> length (em_members (ip_manifest parent)))"
    and "\<forall>occurrence \<in> set (ic_occurrences candidate). validate_record l None (mo_run occurrence) None = Inr ()
      \<and> rn_tenant (mo_run occurrence) = ri_tenant (ip_run_inputs parent)"
proof -
  have items: "list_all2 (materialized l parent (parent_ref_of d parent))
      (subjects_of d (ip_boundary parent) (ip_manifest parent)) (ic_occurrences candidate)"
    using compiled by (simp add: compiled_def)
  have "eligible_manifest d (ip_boundary parent) (em_members (ip_manifest parent)) = Inr (ip_manifest parent)"
    using ok by (simp add: parent_ok_def)
  from subjects_count [OF this] list_all2_lengthD [OF items]
  show "length (ic_occurrences candidate) =
      (case mh_kind (eb_missed_occurrence_policy_head (ip_boundary parent)) of
         SKIP \<Rightarrow> 0 | COALESCE \<Rightarrow> min 1 (length (em_members (ip_manifest parent)))
       | MATERIALIZE_EACH \<Rightarrow> length (em_members (ip_manifest parent)))"
    by simp
  show "\<forall>occurrence \<in> set (ic_occurrences candidate). validate_record l None (mo_run occurrence) None = Inr ()
      \<and> rn_tenant (mo_run occurrence) = ri_tenant (ip_run_inputs parent)"
    using items by (auto simp: list_all2_conv_all_nth materialized_def in_set_conv_nth)
qed

section \<open>Overflow\<close>

text \<open>The size an interval has in each dimension, and its limit under a bound.\<close>

definition dimension_limit :: "SchedulerIntervalBound \<Rightarrow> OverflowDimension \<Rightarrow> nat" where
  "dimension_limit bound dimension = (case dimension of
     MEMBER_COUNT \<Rightarrow> ib_max_member_count bound | MANIFEST_BYTES \<Rightarrow> ib_max_manifest_bytes bound
   | SERIALIZED_BATCH_BYTES \<Rightarrow> ib_max_serialized_batch_bytes bound)"

definition within_manifest_bounds :: "SchedulerCodec \<Rightarrow> SchedulerEligibilityManifest \<Rightarrow> SchedulerIntervalBound \<Rightarrow> bool" where
  "within_manifest_bounds d m bound \<longleftrightarrow>
     length (em_members m) \<le> ib_max_member_count bound
     \<and> length (eligibility_bytes d m) \<le> ib_max_manifest_bytes bound"

lemma eligibility_overflows_Nil: "eligibility_overflows d m bound = [] \<longleftrightarrow> within_manifest_bounds d m bound"
  by (auto simp: eligibility_overflows_def measure_eligibility_def within_manifest_bounds_def Let_def not_less)

lemma eligibility_overflows_hd:
  assumes "eligibility_overflows d m bound = exceeded # rest"
  shows "\<not> within_manifest_bounds d m bound"
    and "ov_limit exceeded = dimension_limit bound (ov_dimension exceeded) \<and> ov_limit exceeded < ov_actual exceeded
      \<and> ov_actual exceeded = (case ov_dimension exceeded of
          MEMBER_COUNT \<Rightarrow> length (em_members m) | MANIFEST_BYTES \<Rightarrow> length (eligibility_bytes d m)
        | SERIALIZED_BATCH_BYTES \<Rightarrow> ov_actual exceeded)"
  using assms eligibility_overflows_Nil [of d m bound]
  by (auto simp: eligibility_overflows_def measure_eligibility_def dimension_limit_def Let_def split: if_splits)

lemma overflow_candidate_fields:
  "\<exists>hold. ic_result (overflow_candidate d command bound_head evidence dimension actual limit owner) = OVERFLOW_HOLD hold
    \<and> oh_boundary hold = di_boundary command \<and> oh_bound_head hold = bound_head
    \<and> oh_exceeded_dimension hold = dimension \<and> oh_actual_value hold = actual \<and> oh_limit hold = limit
    \<and> oh_evidence hold = evidence \<and> oh_state hold = OVERFLOW_ACTIVE"
  "ic_occurrences (overflow_candidate d command bound_head evidence dimension actual limit owner) = []"
  by (simp_all add: overflow_candidate_def Let_def)

end
