(* ===== verification/Scheduler_Complete.thy ===== *)
theory Scheduler_Complete
  imports Scheduler_Preparation Scheduler_Batch
begin

text \<open>
  The interval request from end to end: the streamed enumeration, the submitted membership and the
  compiled batch together dispose exactly the due points of the interval, or hold the whole interval.
\<close>

text \<open>The due points of an interval: the grid of the definition inside it, less what is disposed.\<close>

definition due_points :: "FixedIntervalDefinition \<Rightarrow> DisposedOccurrence list \<Rightarrow> nat \<Rightarrow> nat \<Rightarrow> nat set" where
  "due_points defn disposed start cutoff =
     {t. start \<le> t \<and> t < cutoff \<and> on_grid defn t \<and> t \<notin> disposed_dues disposed}"

lemma sorted_distinct_card:
  "sorted_wrt (<) (map f xs) \<Longrightarrow> set (map f xs) = A \<Longrightarrow> length xs = card A" for f :: "'a \<Rightarrow> nat"
  using distinct_card [of "map f xs"] by (auto simp: strict_sorted_iff)

lemma stream_definition_plan:
  "stream_definition d snapshot boundary disposed enumeration_proof = Inr measured \<Longrightarrow>
   \<exists>plan. definition_enumeration d snapshot boundary disposed = Inr plan"
  by (auto simp: stream_definition_def rbind_eq_Inr)

lemma current_configuration_Inr:
  "current_configuration snapshot = Inr (sched, policy, bound) \<longleftrightarrow>
   cs_schedule snapshot = Some sched \<and> cs_policy snapshot = Some policy \<and> cs_bound snapshot = Some bound
   \<and> sv_schedule_id sched = pv_schedule_id policy"
  by (auto simp: current_configuration_def split: option.splits)

text \<open>What a successful stream measures.\<close>

lemma stream_measured:
  assumes codec: "eligibility_codec_ok d"
    and stream: "stream_definition d snapshot boundary disposed enumeration_proof = Inr measured"
    and current: "cs_schedule snapshot = Some sched" "cs_bound snapshot = Some bound"
    and period: "0 < fd_period_ns (sv_definition sched)"
  shows "\<exists>plan members start cutoff. definition_enumeration d snapshot boundary disposed = Inr plan
    \<and> definition_members d plan = Inr members \<and> interval_of boundary start cutoff
    \<and> sorted_wrt (<) (map due_key members)
    \<and> set (map due_key members) = due_points (sv_definition sched) disposed start cutoff
    \<and> measured =
        \<lparr>st_member_count = length members,
         st_manifest_bytes = length (eligibility_bytes d (manifest_of d boundary members)),
         st_manifest_fingerprint = manifest_fingerprint d boundary members,
         st_evidence = overflow_evidence d (manifest_of d boundary members)
           (ib_max_manifest_bytes (ih_bound bound)) enumeration_proof\<rparr>"
proof -
  obtain plan where plan: "definition_enumeration d snapshot boundary disposed = Inr plan"
    using stream_definition_plan [OF stream] ..
  then obtain policy where configured: "current_configuration snapshot = Inr (sched, policy, bound)"
    using current by (auto simp: definition_enumeration_def rbind_eq_Inr current_configuration_Inr)
  then have "de_definition plan = sv_definition sched"
    using plan by (auto simp: definition_enumeration_def rbind_eq_Inr Let_def split: if_splits)
  with period have positive: "0 < fd_period_ns (de_definition plan)" by simp
  obtain start cutoff where planned: "planned boundary (sv_definition sched) disposed start cutoff plan"
    and interval: "interval_of boundary start cutoff"
    using definition_enumeration_planned [OF plan positive] configured by auto
  obtain members where members: "definition_members d plan = Inr members" "measured =
        \<lparr>st_member_count = length members,
         st_manifest_bytes = length (eligibility_bytes d (manifest_of d boundary members)),
         st_manifest_fingerprint = manifest_fingerprint d boundary members,
         st_evidence = overflow_evidence d (manifest_of d boundary members)
           (ib_max_manifest_bytes (ih_bound bound)) enumeration_proof\<rparr>"
    using stream_exact [OF codec plan positive configured, of enumeration_proof] stream by auto
  then have "members = map (plan_member d plan) (plan_indices plan)"
    using definition_members_Inr [OF planned] by simp
  with plan interval members plan_dues [OF planned period, of d] show ?thesis
    unfolding due_points_def by blast
qed

lemma due_points_bounds: "t \<in> due_points defn disposed start cutoff \<Longrightarrow> start \<le> t \<and> t < cutoff"
  by (simp add: due_points_def)

lemma eligible_of_sorted:
  assumes "interval_of boundary start cutoff" and "sorted_wrt (<) (map due_key members)"
    and "set (map due_key members) \<subseteq> {start..<cutoff}"
    and "eligible_manifest d boundary members = Inr m"
  shows "m = manifest_of d boundary members"
proof -
  obtain s c where m: "interval_of boundary s c"
    "m = manifest_of d boundary (sort_key due_key (filter (in_interval s c) members))"
    using assms(4) by (auto simp: eligible_manifest_Inr)
  with assms(1) have "s = start" "c = cutoff"
    by (auto dest: interval_of_unique)
  moreover have "filter (in_interval start cutoff) members = members"
    using assms(3) by (auto simp: in_interval_def intro!: filter_True)
  moreover have "sort_key due_key members = members"
    using assms(2) by (simp add: sort_key_id_if_sorted strict_sorted_iff)
  ultimately show ?thesis
    using m(2) by simp
qed


text \<open>
  A held interval: no Run and one record, an active hold on the boundary that names the exceeded dimension,
  its measured value and its limit, with evidence of the exact membership.
\<close>

definition overflow_held ::
  "SchedulerIntervalBound \<Rightarrow> SchedulerEligibilityBoundary \<Rightarrow> SchedulerEligibilityManifest \<Rightarrow> OverflowDimension \<Rightarrow> nat \<Rightarrow>
   IntervalCandidate \<Rightarrow> bool" where
  "overflow_held bound boundary manifest dimension actual candidate \<longleftrightarrow>
     ic_occurrences candidate = [] \<and> length (ic_records candidate) = 1 \<and>
     (\<exists>hold. ic_result candidate = OVERFLOW_HOLD hold \<and> oh_state hold = OVERFLOW_ACTIVE
       \<and> oh_boundary hold = boundary \<and> oh_exceeded_dimension hold = dimension \<and> oh_actual_value hold = actual
       \<and> oh_limit hold = dimension_limit bound dimension \<and> dimension_limit bound dimension < actual
       \<and> evidence_fingerprint (oh_evidence hold) = em_fingerprint manifest)"

lemma overflow_evidence_fingerprint:
  "evidence_fingerprint (overflow_evidence d manifest limit enumeration_proof) = em_fingerprint manifest"
  by (simp add: evidence_fingerprint_def overflow_evidence_def Let_def)

lemma overflow_held_candidate:
  "limit = dimension_limit bound dimension \<Longrightarrow> limit < actual \<Longrightarrow> evidence_fingerprint evidence = em_fingerprint manifest \<Longrightarrow>
   overflow_held bound (di_boundary command) manifest dimension actual
     (overflow_candidate d command bound_head evidence dimension actual limit owner)"
  by (simp add: overflow_held_def overflow_candidate_def Let_def)

lemma prepare_interval_Inr:
  assumes prepared: "prepare_interval l d command bound_head source inputs enumeration_proof hold = Inr candidate"
    and exact: "\<And>m'. eligible_manifest d (di_boundary command) source = Inr m' \<Longrightarrow> m' = m"
    and within: "within_manifest_bounds d m (ih_bound bound_head)"
  defines "parent \<equiv> ordinary_parent command bound_head m inputs"
  shows "\<exists>batch. compile l d parent source = Inr batch \<and> parent_ok d parent \<and> compiled l d parent batch
    \<and> (if ic_serialized_batch_bytes batch \<le> ib_max_serialized_batch_bytes (ih_bound bound_head) then candidate = batch
       else overflow_held (ih_bound bound_head) (di_boundary command) m SERIALIZED_BATCH_BYTES
              (ic_serialized_batch_bytes batch) candidate)"
proof -
  obtain submitted m' where verified: "verify_manifest d (di_boundary command) submitted source = Inr m'"
    and bound_head: "di_bound_head command = bound_head" and submitted: "di_manifest command = Inl submitted"
    using prepared by (auto simp: prepare_interval_def rbind_eq_Inr split: sum.splits if_splits)
  then have eligible: "eligible_manifest d (di_boundary command) source = Inr m"
    using verify_manifest_Inr exact by blast
  then have m': "m' = m"
    using verify_manifest_Inr [OF verified] by simp
  have ok: "parent_ok d parent"
    by (rule verified_parent_ok [OF eligible]) (simp_all add: parent_def ordinary_parent_def)
  have "compile l d parent source = Inl duplicate_identity
    \<or> (\<exists>candidate. compile l d parent source = Inr candidate \<and> compiled l d parent candidate)"
    using eligible by (intro compile_cases [OF ok]) (simp_all add: parent_def ordinary_parent_def)
  moreover have overflows: "eligibility_overflows d m (ih_bound bound_head) = []"
    using within by (simp add: eligibility_overflows_Nil)
  moreover have "rbind (compile l d parent source) (\<lambda>c.
      if ic_serialized_batch_bytes c \<le> ib_max_serialized_batch_bytes (ih_bound bound_head) then Inr c
      else Inr (overflow_candidate d command bound_head
        (overflow_evidence d m (ib_max_manifest_bytes (ih_bound bound_head)) enumeration_proof)
        SERIALIZED_BATCH_BYTES (ic_serialized_batch_bytes c)
        (ib_max_serialized_batch_bytes (ih_bound bound_head)) (ri_principal inputs))) = Inr candidate"
    using prepared unfolding prepare_interval_def submitted sum.case Let_def verified rbind_Inr m' overflows
      list.case parent_def bound_head
    by (simp split: if_splits)
  ultimately obtain c where c: "compile l d parent source = Inr c" "compiled l d parent c"
    "if ic_serialized_batch_bytes c \<le> ib_max_serialized_batch_bytes (ih_bound bound_head) then candidate = c
     else candidate = overflow_candidate d command bound_head
        (overflow_evidence d m (ib_max_manifest_bytes (ih_bound bound_head)) enumeration_proof)
        SERIALIZED_BATCH_BYTES (ic_serialized_batch_bytes c)
        (ib_max_serialized_batch_bytes (ih_bound bound_head)) (ri_principal inputs)"
    by (auto simp: rbind_eq_Inr split: if_splits)
  then show ?thesis
    using ok overflow_evidence_fingerprint
    by (auto simp: dimension_limit_def split: if_splits intro!: overflow_held_candidate)
qed

lemma prepare_streamed_overflow_Inr:
  assumes "prepare_streamed_overflow d command bound_head evidence member_count manifest_bytes owner = Inr candidate"
    and "evidence_fingerprint evidence = em_fingerprint manifest"
  shows "if ib_max_member_count (ih_bound bound_head) < member_count
    then overflow_held (ih_bound bound_head) (di_boundary command) manifest MEMBER_COUNT member_count candidate
    else overflow_held (ih_bound bound_head) (di_boundary command) manifest MANIFEST_BYTES manifest_bytes candidate"
  using assms
  by (auto simp: prepare_streamed_overflow_def rbind_eq_Inr Let_def dimension_limit_def
      split: if_splits intro!: overflow_held_candidate)

lemma prepare_resolution_Inr:
  assumes prepared: "prepare_resolution l d command bound_head source inputs = Inr candidate"
    and exact: "\<And>m'. eligible_manifest d (rv_boundary command) source = Inr m' \<Longrightarrow> m' = m"
  defines "parent \<equiv> resolution_parent command bound_head m inputs"
  shows "parent_ok d parent \<and> compiled l d parent candidate
    \<and> ic_serialized_batch_bytes candidate \<le> ib_max_serialized_batch_bytes (ih_bound bound_head)
    \<and> within_manifest_bounds d m (ih_bound bound_head)
    \<and> oh_state (rv_active_hold command) = OVERFLOW_ACTIVE
    \<and> oh_boundary (rv_active_hold command) = rv_boundary command
    \<and> ih_generation (oh_bound_head (rv_active_hold command)) < ih_generation bound_head
    \<and> evidence_fingerprint (oh_evidence (rv_active_hold command)) = em_fingerprint m"
proof -
  obtain m' where verified: "verify_manifest d (rv_boundary command) (rv_complete_manifest command) source = Inr m'"
    using prepared by (auto simp: prepare_resolution_def rbind_eq_Inr Let_def split: if_splits)
  then have eligible: "eligible_manifest d (rv_boundary command) source = Inr m"
    using verify_manifest_Inr exact by blast
  then have m': "m' = m"
    using verify_manifest_Inr [OF verified] by simp
  have ok: "parent_ok d parent"
    by (rule verified_parent_ok [OF eligible]) (simp_all add: parent_def resolution_parent_def)
  have "compile l d parent source = Inl duplicate_identity
    \<or> (\<exists>candidate. compile l d parent source = Inr candidate \<and> compiled l d parent candidate)"
    using eligible by (intro compile_cases [OF ok]) (simp_all add: parent_def resolution_parent_def)
  moreover have "compile l d parent source = Inr candidate
      \<and> ic_serialized_batch_bytes candidate \<le> ib_max_serialized_batch_bytes (ih_bound bound_head)
      \<and> eligibility_overflows d m (ih_bound bound_head) = []
      \<and> oh_state (rv_active_hold command) = OVERFLOW_ACTIVE
      \<and> oh_boundary (rv_active_hold command) = rv_boundary command
      \<and> ih_generation (oh_bound_head (rv_active_hold command)) < ih_generation bound_head
      \<and> evidence_fingerprint (oh_evidence (rv_active_hold command)) = em_fingerprint m"
    using prepared verified
    by (auto simp: prepare_resolution_def rbind_eq_Inr Let_def m' parent_def split: if_splits)
  ultimately show ?thesis
    using ok by (auto simp: eligibility_overflows_Nil)
qed

section \<open>The whole request\<close>

lemma interval_candidate_Inr:
  assumes "interval_candidate l d snapshot command = Inr candidate"
    and current: "cs_schedule (in_configuration snapshot) = Some sched" "cs_bound (in_configuration snapshot) = Some bound"
  shows "\<exists>submitted measured. submitted_membership snapshot command = Inr submitted
    \<and> observed_bound command = bound
    \<and> stream_definition d (in_configuration snapshot) (interval_boundary command)
        (in_disposed snapshot) (in_enumeration_proof snapshot) = Inr measured
    \<and> submitted = evidence_membership (st_evidence measured)
    \<and> admit_interval l d snapshot command sched bound measured = Inr candidate"
proof -
  obtain sched' bound' where found: "interval_current snapshot command = Inr (sched', bound')"
    using assms(1) by (auto simp: interval_candidate_def rbind_eq_Inr)
  then have "sched' = sched" "bound' = bound"
    using current by (auto simp: interval_current_def Let_def split: if_splits)
  with found assms(1) show ?thesis
    by (auto simp: interval_candidate_def rbind_eq_Inr split: if_splits)
qed

lemma compiled_due_points:
  assumes dues: "sorted_wrt (<) (map due_key members)" "set (map due_key members) = due"
    and dispositions: "map disposed_occurrence dispositions = members"
  shows "sorted_wrt (<) (map (\<lambda>x. due_key (disposed_occurrence x)) dispositions)"
    and "set (map (\<lambda>x. due_key (disposed_occurrence x)) dispositions) = due"
  using dues unfolding dispositions [symmetric] by (simp_all add: o_def)

text \<open>A batch that disposes an interval: every due point once, in order, and one Run per subject.\<close>

definition interval_disposed ::
  "LoopCodec \<Rightarrow> SchedulerEligibilityBoundary \<Rightarrow> nat set \<Rightarrow> IntervalCandidate \<Rightarrow>
   OccurrenceDisposition list \<Rightarrow> MaterializationCommitment list \<Rightarrow> bool" where
  "interval_disposed l boundary due candidate dispositions materializations \<longleftrightarrow>
     sorted_wrt (<) (map (\<lambda>x. due_key (disposed_occurrence x)) dispositions)
     \<and> set (map (\<lambda>x. due_key (disposed_occurrence x)) dispositions) = due
     \<and> materializations = map mo_commitment (ic_occurrences candidate)
     \<and> length (ic_occurrences candidate) =
         (case mh_kind (eb_missed_occurrence_policy_head boundary) of
            SKIP \<Rightarrow> 0 | COALESCE \<Rightarrow> min 1 (card due) | MATERIALIZE_EACH \<Rightarrow> card due)
     \<and> (\<forall>occurrence \<in> set (ic_occurrences candidate).
          validate_record l None (mo_run occurrence) None = Inr ())
     \<and> distinct (map sm_record_id (ic_records candidate))"

text \<open>The same within the registered bounds.\<close>

definition interval_covered ::
  "LoopCodec \<Rightarrow> SchedulerEligibilityBoundary \<Rightarrow> SchedulerIntervalBound \<Rightarrow> nat set \<Rightarrow> IntervalCandidate \<Rightarrow>
   OccurrenceDisposition list \<Rightarrow> MaterializationCommitment list \<Rightarrow> bool" where
  "interval_covered l boundary bound due candidate dispositions materializations \<longleftrightarrow>
     interval_disposed l boundary due candidate dispositions materializations
     \<and> card due \<le> ib_max_member_count bound
     \<and> ic_serialized_batch_bytes candidate \<le> ib_max_serialized_batch_bytes bound"

lemma interval_disposed_compiled:
  assumes ok: "parent_ok d parent" and compiled: "compiled l d parent candidate"
    and members: "em_members (ip_manifest parent) = members"
    and dues: "sorted_wrt (<) (map due_key members)" "set (map due_key members) = due"
    and dispositions: "map disposed_occurrence dispositions = members"
    and boundary: "ip_boundary parent = boundary"
  shows "interval_disposed l boundary due candidate dispositions (map mo_commitment (ic_occurrences candidate))"
proof -
  have count: "length members = card due"
    by (rule sorted_distinct_card [OF dues])
  then show ?thesis
    using compiled_due_points [OF dues dispositions] compiled
      compiled_runs [OF ok compiled, unfolded members boundary count]
    by (simp add: interval_disposed_def compiled_def)
qed

lemma eligible_due_points:
  assumes "interval_of boundary start cutoff" and "sorted_wrt (<) (map due_key members)"
    and "set (map due_key members) = due_points defn disposed start cutoff"
    and "eligible_manifest d boundary members = Inr m"
  shows "m = manifest_of d boundary members"
  using assms by (intro eligible_of_sorted [OF assms(1,2)]) (auto dest: due_points_bounds)

definition measured_of ::
  "SchedulerCodec \<Rightarrow> SchedulerEligibilityBoundary \<Rightarrow> UndisposedOccurrence list \<Rightarrow> SchedulerIntervalBound \<Rightarrow>
   PresentRef \<Rightarrow> StreamedEligibility" where
  "measured_of d boundary members bound enumeration_proof =
     \<lparr>st_member_count = length members,
      st_manifest_bytes = length (eligibility_bytes d (manifest_of d boundary members)),
      st_manifest_fingerprint = manifest_fingerprint d boundary members,
      st_evidence = overflow_evidence d (manifest_of d boundary members)
        (ib_max_manifest_bytes bound) enumeration_proof\<rparr>"

lemma interval_candidate_measured:
  assumes codec: "eligibility_codec_ok d"
    and candidate: "interval_candidate l d snapshot command = Inr candidate"
    and current: "cs_schedule (in_configuration snapshot) = Some sched" "cs_bound (in_configuration snapshot) = Some bound"
    and period: "0 < fd_period_ns (sv_definition sched)"
  shows "\<exists>plan members start cutoff.
    definition_enumeration d (in_configuration snapshot) (interval_boundary command) (in_disposed snapshot) = Inr plan
    \<and> definition_members d plan = Inr members \<and> interval_of (interval_boundary command) start cutoff
    \<and> sorted_wrt (<) (map due_key members)
    \<and> set (map due_key members) = due_points (sv_definition sched) (in_disposed snapshot) start cutoff
    \<and> admit_interval l d snapshot command sched bound
        (measured_of d (interval_boundary command) members (ih_bound bound) (in_enumeration_proof snapshot))
      = Inr candidate"
proof -
  obtain measured where
    stream: "stream_definition d (in_configuration snapshot) (interval_boundary command)
        (in_disposed snapshot) (in_enumeration_proof snapshot) = Inr measured"
    and admitted: "admit_interval l d snapshot command sched bound measured = Inr candidate"
    using interval_candidate_Inr [OF candidate current] by blast
  show ?thesis
    using stream_measured [OF codec stream current period] admitted
    unfolding measured_of_def by blast
qed

lemma resolved_hold_active:
  "interval_candidate l d snapshot (RESOLVE command) = Inr candidate \<Longrightarrow>
   in_active_hold snapshot = Some (rv_active_hold command) \<and> in_operator_proof snapshot = Some (rv_operator_proof command)"
  by (auto simp: interval_candidate_def rbind_eq_Inr split: if_splits)

text \<open>The two ways to admit a measured interval as a decision.\<close>

lemma admit_decide_over:
  assumes admitted: "admit_interval l d snapshot (DECIDE command) sched bound
      (measured_of d (di_boundary command) members (ih_bound bound) enumeration_proof) = Inr candidate"
    and over: "\<not> within_manifest_bounds d (manifest_of d (di_boundary command) members) (ih_bound bound)"
  shows "if ib_max_member_count (ih_bound bound) < length members
    then overflow_held (ih_bound bound) (di_boundary command) (manifest_of d (di_boundary command) members)
           MEMBER_COUNT (length members) candidate
    else overflow_held (ih_bound bound) (di_boundary command) (manifest_of d (di_boundary command) members)
           MANIFEST_BYTES (length (eligibility_bytes d (manifest_of d (di_boundary command) members))) candidate"
proof (rule prepare_streamed_overflow_Inr)
  let ?m = "manifest_of d (di_boundary command) members"
  show "prepare_streamed_overflow d command bound
      (overflow_evidence d ?m (ib_max_manifest_bytes (ih_bound bound)) enumeration_proof) (length members)
      (length (eligibility_bytes d ?m)) (ri_principal (fd_run_inputs (sv_definition sched))) = Inr candidate"
    using assms by (auto simp: admit_interval_def measured_of_def within_manifest_bounds_def Let_def manifest_of_def)
qed (rule overflow_evidence_fingerprint)

lemma admit_decide_within:
  assumes admitted: "admit_interval l d snapshot (DECIDE command) sched bound
      (measured_of d (di_boundary command) members (ih_bound bound) enumeration_proof) = Inr candidate"
    and within: "within_manifest_bounds d (manifest_of d (di_boundary command) members) (ih_bound bound)"
    and exact: "\<And>m'. eligible_manifest d (di_boundary command) members = Inr m' \<Longrightarrow>
      m' = manifest_of d (di_boundary command) members"
    and dues: "sorted_wrt (<) (map due_key members)" "set (map due_key members) = due"
  shows "\<exists>batch decision. compile l d (ordinary_parent command bound (manifest_of d (di_boundary command) members)
        (fd_run_inputs (sv_definition sched))) members = Inr batch
    \<and> ic_result batch = INTERVAL_DECISION decision
    \<and> iv_resulting_boundary decision = eb_cutoff_due_coordinate (di_boundary command)
    \<and> interval_disposed l (di_boundary command) due batch (iv_dispositions decision) (iv_materializations decision)
    \<and> ic_serialized_batch_bytes batch = length (serialized d (ic_records batch))
    \<and> (if ic_serialized_batch_bytes batch \<le> ib_max_serialized_batch_bytes (ih_bound bound) then candidate = batch
       else overflow_held (ih_bound bound) (di_boundary command) (manifest_of d (di_boundary command) members)
              SERIALIZED_BATCH_BYTES (ic_serialized_batch_bytes batch) candidate)"
proof -
  define m where "m = manifest_of d (di_boundary command) members"
  define parent where "parent = ordinary_parent command bound m (fd_run_inputs (sv_definition sched))"
  have prepared: "prepare_interval l d command bound members (fd_run_inputs (sv_definition sched))
      (in_enumeration_proof snapshot) (in_active_hold snapshot) = Inr candidate"
    using admitted within
    by (auto simp: admit_interval_def measured_of_def within_manifest_bounds_def Let_def manifest_of_def
        overflow_evidence_def)
  obtain batch where batch: "compile l d parent members = Inr batch" "parent_ok d parent" "compiled l d parent batch"
    "if ic_serialized_batch_bytes batch \<le> ib_max_serialized_batch_bytes (ih_bound bound) then candidate = batch
     else overflow_held (ih_bound bound) (di_boundary command) m SERIALIZED_BATCH_BYTES
            (ic_serialized_batch_bytes batch) candidate"
    using prepare_interval_Inr [OF prepared exact within] unfolding parent_def m_def by blast
  have parent: "ip_kind parent = ORDINARY_PARENT" "em_members (ip_manifest parent) = members"
    "ip_boundary parent = di_boundary command"
    by (simp_all add: parent_def ordinary_parent_def m_def manifest_of_def)
  then obtain decision where decision: "ic_result batch = INTERVAL_DECISION decision"
    "map disposed_occurrence (iv_dispositions decision) = members"
    "iv_materializations decision = map mo_commitment (ic_occurrences batch)"
    "iv_resulting_boundary decision = eb_cutoff_due_coordinate (di_boundary command)"
    using compiled_decision [OF batch(2,3)] by auto
  have "interval_disposed l (di_boundary command) due batch (iv_dispositions decision) (iv_materializations decision)"
    unfolding decision(3) by (rule interval_disposed_compiled [OF batch(2,3) parent(2) dues decision(2) parent(3)])
  moreover have "ic_serialized_batch_bytes batch = length (serialized d (ic_records batch))"
    using batch(3) by (simp add: compiled_def)
  ultimately show ?thesis
    using batch(1,4) decision(1,4) unfolding parent_def m_def by blast
qed

text \<open>Together: what the admission of a measured interval returns.\<close>

lemma admit_decide:
  assumes admitted: "admit_interval l d snapshot (DECIDE command) sched bound
      (measured_of d (di_boundary command) members (ih_bound bound) enumeration_proof) = Inr candidate"
    and exact: "\<And>m'. eligible_manifest d (di_boundary command) members = Inr m' \<Longrightarrow>
      m' = manifest_of d (di_boundary command) members"
    and dues: "sorted_wrt (<) (map due_key members)" "set (map due_key members) = due"
    and manifest: "manifest = manifest_of d (di_boundary command) members"
  shows "if ib_max_member_count (ih_bound bound) < card due
    then overflow_held (ih_bound bound) (di_boundary command) manifest MEMBER_COUNT (card due) candidate
    else if ib_max_manifest_bytes (ih_bound bound) < length (eligibility_bytes d manifest)
    then overflow_held (ih_bound bound) (di_boundary command) manifest MANIFEST_BYTES
      (length (eligibility_bytes d manifest)) candidate
    else \<exists>batch decision. compile l d (ordinary_parent command bound manifest (fd_run_inputs (sv_definition sched))) members = Inr batch
      \<and> ic_result batch = INTERVAL_DECISION decision
      \<and> iv_resulting_boundary decision = eb_cutoff_due_coordinate (di_boundary command)
      \<and> interval_disposed l (di_boundary command) due batch (iv_dispositions decision) (iv_materializations decision)
      \<and> ic_serialized_batch_bytes batch = length (serialized d (ic_records batch))
      \<and> (if ic_serialized_batch_bytes batch \<le> ib_max_serialized_batch_bytes (ih_bound bound) then candidate = batch
         else overflow_held (ih_bound bound) (di_boundary command) manifest
                SERIALIZED_BATCH_BYTES (ic_serialized_batch_bytes batch) candidate)"
proof (cases "within_manifest_bounds d manifest (ih_bound bound)")
  case True
  then have "card due \<le> ib_max_member_count (ih_bound bound)"
    "length (eligibility_bytes d manifest) \<le> ib_max_manifest_bytes (ih_bound bound)"
    using sorted_distinct_card [OF dues] by (simp_all add: within_manifest_bounds_def manifest manifest_of_def)
  then show ?thesis
    using admit_decide_within [OF admitted True [unfolded manifest] exact dues] unfolding manifest by simp
next
  case False
  then have "ib_max_manifest_bytes (ih_bound bound) < length (eligibility_bytes d manifest)"
    if "\<not> ib_max_member_count (ih_bound bound) < card due"
    using that sorted_distinct_card [OF dues] by (simp add: within_manifest_bounds_def manifest manifest_of_def)
  then show ?thesis
    using admit_decide_over [OF admitted False [unfolded manifest], unfolded sorted_distinct_card [OF dues]]
    unfolding manifest by auto
qed

lemma admit_resolve:
  assumes admitted: "admit_interval l d snapshot (RESOLVE command) sched bound
      (measured_of d (rv_boundary command) members (ih_bound bound) enumeration_proof) = Inr candidate"
    and exact: "\<And>m'. eligible_manifest d (rv_boundary command) members = Inr m' \<Longrightarrow>
      m' = manifest_of d (rv_boundary command) members"
    and dues: "sorted_wrt (<) (map due_key members)" "set (map due_key members) = due"
  shows "\<exists>decision. ic_result candidate = INTERVAL_RESOLUTION decision
    \<and> ir_resulting_boundary decision = eb_cutoff_due_coordinate (rv_boundary command)
    \<and> ir_original_hold decision = oh_hold (rv_active_hold command)
    \<and> map disposed_occurrence (ir_dispositions decision) = members
    \<and> interval_covered l (rv_boundary command) (ih_bound bound) due candidate
        (ir_dispositions decision) (ir_materializations decision)
    \<and> oh_state (rv_active_hold command) = OVERFLOW_ACTIVE
    \<and> oh_boundary (rv_active_hold command) = rv_boundary command
    \<and> ih_generation (oh_bound_head (rv_active_hold command)) < ih_generation bound
    \<and> evidence_fingerprint (oh_evidence (rv_active_hold command))
        = manifest_fingerprint d (rv_boundary command) members"
proof -
  define m where "m = manifest_of d (rv_boundary command) members"
  define parent where "parent = resolution_parent command bound m (fd_run_inputs (sv_definition sched))"
  have "prepare_resolution l d command bound members (fd_run_inputs (sv_definition sched)) = Inr candidate"
    using admitted
    by (auto simp: admit_interval_def measured_of_def Let_def manifest_of_def overflow_evidence_def split: if_splits)
  note resolved = prepare_resolution_Inr [OF this exact, folded m_def, folded parent_def]
  have parent: "ip_kind parent = RESOLUTION_PARENT" "em_members (ip_manifest parent) = members"
    "ip_boundary parent = rv_boundary command" "ip_original_hold parent = Some (oh_hold (rv_active_hold command))"
    "em_fingerprint m = manifest_fingerprint d (rv_boundary command) members" "em_members m = members"
    by (simp_all add: parent_def resolution_parent_def m_def manifest_of_def)
  then obtain decision where decision: "ic_result candidate = INTERVAL_RESOLUTION decision"
    "ir_original_hold decision = oh_hold (rv_active_hold command)"
    "map disposed_occurrence (ir_dispositions decision) = members"
    "ir_materializations decision = map mo_commitment (ic_occurrences candidate)"
    "ir_resulting_boundary decision = eb_cutoff_due_coordinate (rv_boundary command)"
    using resolved compiled_resolution [of d parent l candidate] by auto
  with resolved parent dues sorted_distinct_card [OF dues] show ?thesis
    using interval_disposed_compiled [of d parent l candidate members due "ir_dispositions decision"]
    by (auto simp: within_manifest_bounds_def interval_covered_def)
qed

end
