(* ===== verification/Scheduler_Lease_History.thy ===== *)
theory Scheduler_Lease_History
  imports Scheduler_Leases
begin

text \<open>
  The leases of one execution root over time. A step relation applies the candidates of
  \<open>evaluate_lease\<close> and \<open>prepare_rollover\<close>; the invariant says that leases exclude each other in time and that
  their fencing tokens, selector version and generation, only grow.
\<close>

section \<open>Histories of one execution root\<close>

text \<open>
  The broker applies the owner's candidates one at a time, each prepared from the current view and an
  observation it reproduces from its own records: a clock that does not run backwards, the lease
  identities of the lineage, the epochs and the lease heads. A grant is a held lease with the time and
  the selector version under which it was published; the log of grants is kept only to state
  properties.
\<close>

record LeaseGrant =
  lg_time :: nat
  lg_version :: nat
  lg_lease :: RootLease

record RootState =
  rs_view :: SchedulerLineageView
  rs_clock :: nat
  rs_used_lease_ids :: "string list"
  rs_used_epochs :: "string list"
  rs_used_heads :: "string list"
  rs_grants :: "LeaseGrant list"

fun lease_state_head :: "LeaseState \<Rightarrow> string" where
  "lease_state_head (UNLEASED head) = head"
| "lease_state_head (HELD lease) = rl_lease_head lease"
| "lease_state_head (GENERATION_EXHAUSTED_HOLD head _ _ _ _) = head"

fun held_lease :: "LeaseState \<Rightarrow> RootLease option" where
  "held_lease (HELD lease) = Some lease"
| "held_lease _ = None"

text \<open>
  A history starts at the genesis of an epoch or at a held lease the broker has on record since an
  earlier time; that lease is then the first grant of the log.
\<close>

definition recorded_grants :: "SchedulerLineageView \<Rightarrow> nat \<Rightarrow> LeaseGrant list" where
  "recorded_grants view since = (case held_lease (lv_lease view) of
     None \<Rightarrow> []
   | Some lease \<Rightarrow> [\<lparr>lg_time = since, lg_version = ph_selector_version (lv_physical_root view), lg_lease = lease\<rparr>])"

definition root_start ::
  "SchedulerLineageView \<Rightarrow> nat \<Rightarrow> nat \<Rightarrow> string list \<Rightarrow> string list \<Rightarrow> string list \<Rightarrow> RootState" where
  "root_start view since clock used_ids epochs heads =
     \<lparr>rs_view = view, rs_clock = clock, rs_used_lease_ids = used_ids, rs_used_epochs = epochs,
      rs_used_heads = heads, rs_grants = recorded_grants view since\<rparr>"

definition lease_recorded :: "LeaseState \<Rightarrow> nat \<Rightarrow> string list \<Rightarrow> bool" where
  "lease_recorded lease since used_ids = (case lease of
     UNLEASED _ \<Rightarrow> True
   | HELD held \<Rightarrow> 1 \<le> rl_generation held \<and> rl_generation held \<le> UINT64_MAX
       \<and> rl_lease_id held \<in> set used_ids \<and> since < rl_trusted_expiry held
   | GENERATION_EXHAUSTED_HOLD _ _ _ _ _ \<Rightarrow> False)"

definition apply_lease :: "RootState \<Rightarrow> IssuedLeaseObservation \<Rightarrow> LeaseCandidate \<Rightarrow> RootState" where
  "apply_lease s issued candidate =
     s\<lparr>rs_view := (rs_view s)\<lparr>lv_lease := lc_state candidate\<rparr>,
       rs_clock := is_now issued,
       rs_used_lease_ids := (case held_lease (lc_state candidate) of
           Some lease \<Rightarrow> List.insert (rl_lease_id lease) (rs_used_lease_ids s) | None \<Rightarrow> rs_used_lease_ids s),
       rs_used_heads := rs_used_heads s @ [lease_state_head (lc_state candidate)],
       rs_grants := (case held_lease (lc_state candidate) of
           Some lease \<Rightarrow> rs_grants s @ [\<lparr>lg_time = is_now issued,
             lg_version = ph_selector_version (lv_physical_root (rs_view s)), lg_lease = lease\<rparr>]
         | None \<Rightarrow> rs_grants s)\<rparr>"

definition apply_rollover :: "RootState \<Rightarrow> RolloverCandidate \<Rightarrow> RootState" where
  "apply_rollover s candidate =
     s\<lparr>rs_view := rc_view candidate,
       rs_used_epochs := rs_used_epochs s @ [ph_current_epoch_id (lv_physical_root (rc_view candidate))],
       rs_used_heads := rs_used_heads s @ [lease_state_head (lv_lease (rc_view candidate))]\<rparr>"

inductive root_step :: "SchedulerCodec \<Rightarrow> RootState \<Rightarrow> RootState \<Rightarrow> bool" for d where
  leased: "evaluate_lease d (rs_view s) command (Some issued) submission_id = Inr candidate \<Longrightarrow>
    rs_clock s \<le> is_now issued \<Longrightarrow> set (is_used_lease_ids issued) = set (rs_used_lease_ids s) \<Longrightarrow>
    root_step d s (apply_lease s issued candidate)"
| rolled: "prepare_rollover d (rs_view s) command (Some issued) submission_id = Inr candidate \<Longrightarrow>
    set (io_used_epoch_ids issued) = set (rs_used_epochs s) \<Longrightarrow>
    set (io_used_lease_heads issued) = set (rs_used_heads s) \<Longrightarrow>
    root_step d s (apply_rollover s candidate)"

inductive root_history :: "SchedulerCodec \<Rightarrow> RootState \<Rightarrow> bool" for d where
  recorded: "lease_recorded (lv_lease view) since used_ids \<Longrightarrow> since \<le> clock \<Longrightarrow>
    ph_selector_version (lv_physical_root view) \<le> UINT64_MAX \<Longrightarrow> distinct epochs \<Longrightarrow> epochs \<noteq> [] \<Longrightarrow>
    last epochs = ph_current_epoch_id (lv_physical_root view) \<Longrightarrow>
    root_history d (root_start view since clock used_ids epochs heads)"
| advanced: "root_history d s \<Longrightarrow> root_step d s t \<Longrightarrow> root_history d t"

section \<open>What a transition does\<close>

text \<open>The five successful transitions of \<open>evaluate_lease\<close> and \<open>prepare_rollover\<close>.\<close>

inductive lease_move :: "string set \<Rightarrow> nat \<Rightarrow> LeaseState \<Rightarrow> LeaseState \<Rightarrow> bool" for used now where
  acquired: "rl_generation lease = 1 \<Longrightarrow> now < rl_trusted_expiry lease \<Longrightarrow> rl_lease_id lease \<notin> used \<Longrightarrow>
    lease_move used now (UNLEASED head) (HELD lease)"
| renewed: "now < rl_trusted_expiry old \<Longrightarrow> rl_trusted_expiry old < rl_trusted_expiry lease \<Longrightarrow>
    rl_lease_id lease = rl_lease_id old \<Longrightarrow> rl_generation lease = rl_generation old \<Longrightarrow>
    rl_holder_id lease = rl_holder_id old \<Longrightarrow> rl_holder_session_id lease = rl_holder_session_id old \<Longrightarrow>
    rl_lease_id old \<in> used \<Longrightarrow>
    lease_move used now (HELD old) (HELD lease)"
| taken_over: "rl_trusted_expiry old \<le> now \<Longrightarrow> now < rl_trusted_expiry lease \<Longrightarrow>
    rl_lease_id lease \<notin> used \<Longrightarrow> rl_lease_id old \<in> used \<Longrightarrow>
    rl_generation lease = rl_generation old + 1 \<Longrightarrow> rl_generation old \<noteq> UINT64_MAX \<Longrightarrow>
    lease_move used now (HELD old) (HELD lease)"
| exhausted: "rl_trusted_expiry old \<le> now \<Longrightarrow> rl_generation old = UINT64_MAX \<Longrightarrow>
    lease_move used now (HELD old)
      (GENERATION_EXHAUSTED_HOLD head command_id (rl_trusted_expiry old) authority_epoch old)"

lemma evaluate_lease_Inr:
  assumes "evaluate_lease d view command issuance submission_id = Inr candidate"
  shows "\<exists>issued. issuance = Some issued
    \<and> is_now issued < lt_proposed_expiry command
    \<and> lt_proposed_expiry command \<le> is_now issued + is_max_lease_duration issued
    \<and> observed_lease_error (lv_lease view) command issued = Inr ()
    \<and> (case lt_kind command of
         ACQUIRE \<Rightarrow> acquire_lease d (lv_lease view) command issued
       | RENEW \<Rightarrow> renew_lease d (lv_lease view) command issued
       | TAKEOVER \<Rightarrow> takeover_lease d (lv_lease view) command issued) = Inr (lc_state candidate)"
  using assms
  by (auto simp: evaluate_lease_def rbind_eq_Inr split: if_splits option.splits)

lemma acquire_lease_move:
  "acquire_lease d observed command issued = Inr state \<Longrightarrow> is_now issued < lt_proposed_expiry command \<Longrightarrow>
   lease_move (set (is_used_lease_ids issued)) (is_now issued) observed state"
  by (auto simp: acquire_lease_def granted_lease_def split: if_splits LeaseState.splits
      intro!: lease_move.acquired)

lemma renew_lease_move:
  "renew_lease d observed command issued = Inr state \<Longrightarrow>
   observed_lease_error observed command issued = Inr () \<Longrightarrow>
   lease_move (set (is_used_lease_ids issued)) (is_now issued) observed state"
  by (auto simp: renew_lease_def observed_lease_error_def not_le split: if_splits LeaseState.splits
      intro!: lease_move.renewed)

lemma takeover_lease_move:
  "takeover_lease d observed command issued = Inr state \<Longrightarrow> is_now issued < lt_proposed_expiry command \<Longrightarrow>
   observed_lease_error observed command issued = Inr () \<Longrightarrow>
   lease_move (set (is_used_lease_ids issued)) (is_now issued) observed state"
  by (auto simp: takeover_lease_def observed_lease_error_def granted_lease_def not_less
      split: if_splits LeaseState.splits intro!: lease_move.taken_over lease_move.exhausted)

lemma evaluate_lease_move:
  assumes "evaluate_lease d view command (Some issued) submission_id = Inr candidate"
  shows "lease_move (set (is_used_lease_ids issued)) (is_now issued) (lv_lease view) (lc_state candidate)"
  using evaluate_lease_Inr [OF assms]
  by (auto split: LeaseTransitionKind.splits
      intro: acquire_lease_move renew_lease_move takeover_lease_move)

lemma prepare_rollover_Inr:
  assumes "prepare_rollover d view command issuance submission_id = Inr candidate"
  shows "\<exists>issued head exhausted_id expiry epoch preceding. issuance = Some issued
    \<and> lv_lease view = GENERATION_EXHAUSTED_HOLD head exhausted_id expiry epoch preceding
    \<and> rl_generation preceding = UINT64_MAX
    \<and> ph_selector_version (lv_physical_root view) \<noteq> UINT64_MAX
    \<and> rollover_epoch d view command \<notin> set (io_used_epoch_ids issued)
    \<and> rollover_genesis d view command \<notin> set (io_used_lease_heads issued)
    \<and> candidate = rollover_candidate d view command"
  using assms
  by (auto simp: prepare_rollover_def Let_def split: if_splits option.splits LeaseState.splits)

lemma rollover_candidate_view:
  "lv_lease (rc_view (rollover_candidate d view command)) = UNLEASED (rollover_genesis d view command)"
  "lv_lineage (rc_view (rollover_candidate d view command)) = lv_lineage view"
  "ph_selector_version (lv_physical_root (rc_view (rollover_candidate d view command)))
     = ph_selector_version (lv_physical_root view) + 1"
  "ph_current_epoch_id (lv_physical_root (rc_view (rollover_candidate d view command)))
     = rollover_epoch d view command"
  "ph_selector_id (lv_physical_root (rc_view (rollover_candidate d view command)))
     = ph_selector_id (lv_physical_root view)"
  by (simp_all only: rollover_candidate_def Let_def RolloverCandidate.select_convs SchedulerLineageView.select_convs
      PhysicalRoot.select_convs)

section \<open>The invariant\<close>

text \<open>Fencing tokens: the selector version, then the generation.\<close>

definition token_less :: "LeaseGrant \<Rightarrow> LeaseGrant \<Rightarrow> bool" where
  "token_less a b \<longleftrightarrow> lg_version a < lg_version b
     \<or> lg_version a = lg_version b \<and> rl_generation (lg_lease a) < rl_generation (lg_lease b)"

text \<open>
  How an earlier grant relates to a later one: either a renewal of the same lease, with the same token
  and holder and a later expiry, or the earlier lease had expired when the later one was granted.
\<close>

definition same_lease :: "LeaseGrant \<Rightarrow> LeaseGrant \<Rightarrow> bool" where
  "same_lease a b \<longleftrightarrow> rl_lease_id (lg_lease a) = rl_lease_id (lg_lease b)
     \<and> lg_version a = lg_version b
     \<and> rl_generation (lg_lease a) = rl_generation (lg_lease b)
     \<and> rl_holder_id (lg_lease a) = rl_holder_id (lg_lease b)
     \<and> rl_holder_session_id (lg_lease a) = rl_holder_session_id (lg_lease b)"

definition grant_precedes :: "LeaseGrant \<Rightarrow> LeaseGrant \<Rightarrow> bool" where
  "grant_precedes a b \<longleftrightarrow> lg_time a \<le> lg_time b \<and>
     (same_lease a b \<and> rl_trusted_expiry (lg_lease a) < rl_trusted_expiry (lg_lease b)
      \<or> rl_lease_id (lg_lease a) \<noteq> rl_lease_id (lg_lease b)
        \<and> rl_trusted_expiry (lg_lease a) \<le> lg_time b \<and> token_less a b)"

definition grant_ok :: "LeaseGrant \<Rightarrow> bool" where
  "grant_ok g \<longleftrightarrow> 1 \<le> rl_generation (lg_lease g) \<and> rl_generation (lg_lease g) \<le> UINT64_MAX
     \<and> lg_version g \<le> UINT64_MAX \<and> lg_time g < rl_trusted_expiry (lg_lease g)"

definition current_grant :: "RootState \<Rightarrow> RootLease \<Rightarrow> LeaseGrant" where
  "current_grant s lease = \<lparr>lg_time = rs_clock s,
     lg_version = ph_selector_version (lv_physical_root (rs_view s)), lg_lease = lease\<rparr>"

text \<open>Every logged grant against the current lease state.\<close>

definition grants_settled :: "RootState \<Rightarrow> bool" where
  "grants_settled s \<longleftrightarrow>
     (\<forall>g \<in> set (rs_grants s). lg_time g \<le> rs_clock s \<and>
       (case lv_lease (rs_view s) of
          UNLEASED _ \<Rightarrow> rl_trusted_expiry (lg_lease g) \<le> rs_clock s
            \<and> lg_version g < ph_selector_version (lv_physical_root (rs_view s))
        | HELD lease \<Rightarrow>
            same_lease g (current_grant s lease) \<and> rl_trusted_expiry (lg_lease g) \<le> rl_trusted_expiry lease
            \<or> rl_lease_id (lg_lease g) \<noteq> rl_lease_id lease \<and> rl_trusted_expiry (lg_lease g) \<le> rs_clock s
              \<and> token_less g (current_grant s lease)
        | GENERATION_EXHAUSTED_HOLD _ _ _ _ _ \<Rightarrow> rl_trusted_expiry (lg_lease g) \<le> rs_clock s
            \<and> lg_version g \<le> ph_selector_version (lv_physical_root (rs_view s))))"

definition root_ok :: "RootState \<Rightarrow> bool" where
  "root_ok s \<longleftrightarrow>
     sorted_wrt grant_precedes (rs_grants s) \<and> (\<forall>g \<in> set (rs_grants s). grant_ok g) \<and> grants_settled s
     \<and> ph_selector_version (lv_physical_root (rs_view s)) \<le> UINT64_MAX
     \<and> (\<forall>g \<in> set (rs_grants s). rl_lease_id (lg_lease g) \<in> set (rs_used_lease_ids s))
     \<and> (\<forall>lease. lv_lease (rs_view s) = HELD lease \<longrightarrow>
          1 \<le> rl_generation lease \<and> rl_generation lease \<le> UINT64_MAX \<and> rl_lease_id lease \<in> set (rs_used_lease_ids s))
     \<and> distinct (rs_used_epochs s) \<and> rs_used_epochs s \<noteq> []
     \<and> last (rs_used_epochs s) = ph_current_epoch_id (lv_physical_root (rs_view s))"

lemma root_ok_start:
  "lease_recorded (lv_lease view) since used_ids \<Longrightarrow> since \<le> clock \<Longrightarrow>
   ph_selector_version (lv_physical_root view) \<le> UINT64_MAX \<Longrightarrow> distinct epochs \<Longrightarrow> epochs \<noteq> [] \<Longrightarrow>
   last epochs = ph_current_epoch_id (lv_physical_root view) \<Longrightarrow>
   root_ok (root_start view since clock used_ids epochs heads)"
  by (cases "lv_lease view")
    (simp_all add: root_ok_def root_start_def recorded_grants_def lease_recorded_def grants_settled_def
      grant_ok_def same_lease_def current_grant_def)

definition next_grant :: "RootState \<Rightarrow> nat \<Rightarrow> RootLease \<Rightarrow> LeaseGrant" where
  "next_grant s now lease = \<lparr>lg_time = now,
     lg_version = ph_selector_version (lv_physical_root (rs_view s)), lg_lease = lease\<rparr>"

text \<open>A move to a held lease is preceded by every grant of the log.\<close>

lemma move_precedes:
  assumes ok: "root_ok s" and clock: "rs_clock s \<le> now"
    and move: "lease_move (set (rs_used_lease_ids s)) now (lv_lease (rs_view s)) (HELD lease)"
    and g: "g \<in> set (rs_grants s)"
  shows "grant_precedes g (next_grant s now lease)"
proof -
  have used: "rl_lease_id (lg_lease g) \<in> set (rs_used_lease_ids s)"
    using ok g by (auto simp: root_ok_def)
  have settled: "lg_time g \<le> rs_clock s" "case lv_lease (rs_view s) of
          UNLEASED _ \<Rightarrow> rl_trusted_expiry (lg_lease g) \<le> rs_clock s
            \<and> lg_version g < ph_selector_version (lv_physical_root (rs_view s))
        | HELD lease \<Rightarrow>
            same_lease g (current_grant s lease) \<and> rl_trusted_expiry (lg_lease g) \<le> rl_trusted_expiry lease
            \<or> rl_lease_id (lg_lease g) \<noteq> rl_lease_id lease \<and> rl_trusted_expiry (lg_lease g) \<le> rs_clock s
              \<and> token_less g (current_grant s lease)
        | GENERATION_EXHAUSTED_HOLD _ _ _ _ _ \<Rightarrow> rl_trusted_expiry (lg_lease g) \<le> rs_clock s
            \<and> lg_version g \<le> ph_selector_version (lv_physical_root (rs_view s))"
    using ok g by (auto simp: root_ok_def grants_settled_def)
  show ?thesis
    using move
  proof cases
    case (acquired head)
    then show ?thesis
      using settled clock used
      by (auto simp: grant_precedes_def next_grant_def token_less_def)
  next
    case (renewed old)
    then show ?thesis
      using settled clock
      by (auto simp: grant_precedes_def next_grant_def token_less_def same_lease_def current_grant_def)
  next
    case (taken_over old)
    then show ?thesis
      using settled clock used
      by (auto simp: grant_precedes_def next_grant_def token_less_def same_lease_def current_grant_def)
  qed
qed

lemma move_grant_ok:
  assumes "root_ok s"
    and "lease_move used now (lv_lease (rs_view s)) (HELD lease)"
  shows "grant_ok (next_grant s now lease)"
  using assms(2)
proof cases
  case (acquired head)
  then show ?thesis
    using assms(1) by (simp add: grant_ok_def next_grant_def root_ok_def UINT64_MAX_def)
next
  case (renewed old)
  then show ?thesis
    using assms(1) by (simp add: grant_ok_def next_grant_def root_ok_def)
next
  case (taken_over old)
  then show ?thesis
    using assms(1) by (simp add: grant_ok_def next_grant_def root_ok_def)
qed

lemma root_ok_held:
  assumes ok: "root_ok s" and clock: "rs_clock s \<le> is_now issued"
    and used: "set (is_used_lease_ids issued) = set (rs_used_lease_ids s)"
    and state: "lc_state candidate = HELD lease"
    and move: "lease_move (set (is_used_lease_ids issued)) (is_now issued) (lv_lease (rs_view s)) (HELD lease)"
  shows "root_ok (apply_lease s issued candidate)"
proof -
  define new where "new = next_grant s (is_now issued) lease"
  have precedes: "\<forall>g \<in> set (rs_grants s). grant_precedes g new"
    using move_precedes [OF ok clock] move unfolding used new_def by blast
  have good: "grant_ok new"
    unfolding new_def by (rule move_grant_ok [OF ok move])
  have now: "current_grant (apply_lease s issued candidate) lease = new"
    by (simp add: current_grant_def apply_lease_def new_def next_grant_def)
  have grants: "rs_grants (apply_lease s issued candidate) = rs_grants s @ [new]"
    "rs_clock (apply_lease s issued candidate) = lg_time new"
    "lv_lease (rs_view (apply_lease s issued candidate)) = HELD lease" "lg_lease new = lease"
    "lv_physical_root (rs_view (apply_lease s issued candidate)) = lv_physical_root (rs_view s)"
    "rs_used_epochs (apply_lease s issued candidate) = rs_used_epochs s"
    "set (rs_used_lease_ids (apply_lease s issued candidate)) = insert (rl_lease_id lease) (set (rs_used_lease_ids s))"
    using state by (simp_all add: apply_lease_def new_def next_grant_def)
  have "grants_settled (apply_lease s issued candidate)"
    using precedes by (auto simp: grants_settled_def grants now grant_precedes_def same_lease_def)
  moreover have "sorted_wrt grant_precedes (rs_grants s @ [new])"
    using ok precedes by (simp add: root_ok_def sorted_wrt_append)
  ultimately show ?thesis
    using ok good unfolding root_ok_def grants by (auto simp: grants grant_ok_def)
qed

lemma root_ok_exhausted:
  assumes ok: "root_ok s" and clock: "rs_clock s \<le> is_now issued"
    and state: "lc_state candidate = GENERATION_EXHAUSTED_HOLD head command_id expiry epoch preceding"
    and move: "lease_move used (is_now issued) (lv_lease (rs_view s)) (lc_state candidate)"
  shows "root_ok (apply_lease s issued candidate)"
proof -
  obtain old where old: "lv_lease (rs_view s) = HELD old" "rl_trusted_expiry old \<le> is_now issued"
    using move unfolding state by (auto elim: lease_move.cases)
  have "grants_settled (apply_lease s issued candidate)"
    using ok clock old state
    by (auto simp: root_ok_def grants_settled_def apply_lease_def token_less_def same_lease_def current_grant_def)
  then show ?thesis
    using ok state by (simp add: root_ok_def apply_lease_def)
qed

lemma root_ok_rolled:
  assumes ok: "root_ok s"
    and rollover: "prepare_rollover d (rs_view s) command (Some issued) submission_id = Inr candidate"
    and epochs: "set (io_used_epoch_ids issued) = set (rs_used_epochs s)"
  shows "root_ok (apply_rollover s candidate)"
proof -
  obtain head exhausted_id expiry epoch preceding where
    hold: "lv_lease (rs_view s) = GENERATION_EXHAUSTED_HOLD head exhausted_id expiry epoch preceding"
    and version: "ph_selector_version (lv_physical_root (rs_view s)) \<noteq> UINT64_MAX"
    and fresh: "rollover_epoch d (rs_view s) command \<notin> set (rs_used_epochs s)"
    and candidate: "candidate = rollover_candidate d (rs_view s) command"
    using prepare_rollover_Inr [OF rollover] epochs by auto
  have "grants_settled (apply_rollover s candidate)"
    using ok hold
    by (auto simp: root_ok_def grants_settled_def apply_rollover_def candidate rollover_candidate_view)
  then show ?thesis
    using ok version fresh by (simp add: root_ok_def apply_rollover_def candidate rollover_candidate_view)
qed

lemma root_step_ok: "root_step d s t \<Longrightarrow> root_ok s \<Longrightarrow> root_ok t"
proof (induction rule: root_step.induct)
  case (leased s command issued submission_id candidate)
  note move = evaluate_lease_move [OF leased(1)]
  show ?case
  proof (cases "lc_state candidate")
    case (HELD lease)
    with leased move show ?thesis by (intro root_ok_held) auto
  next
    case (GENERATION_EXHAUSTED_HOLD head command_id expiry epoch preceding)
    with leased move show ?thesis by (intro root_ok_exhausted) auto
  next
    case (UNLEASED head)
    with move show ?thesis by (auto elim: lease_move.cases)
  qed
next
  case (rolled s command issued submission_id candidate)
  then show ?case by (intro root_ok_rolled) auto
qed

lemma root_history_ok: "root_history d s \<Longrightarrow> root_ok s"
  by (induction rule: root_history.induct) (auto intro: root_ok_start root_step_ok)

end
