(* ===== verification/Scheduler_Sample.thy ===== *)
theory Scheduler_Sample
  imports Scheduler_Preparation Scheduler_Batch Scheduler_Lease_History
begin

text \<open>
  Concrete values for the scheduler: a codec, a lease that is taken over, an exhausted generation and its
  rollover, and a configured interval. Digests stay symbolic.
\<close>

section \<open>A codec\<close>

definition ws_codec :: SchedulerCodec where
  "ws_codec = \<lparr>
     js_coordinate = (\<lambda>c. JObj [(''coordinate_policy_version'', JStr (dc_coordinate_policy_version c)),
       (''canonical_coordinate'', JStr (dc_canonical_coordinate c))]),
     js_boundary = (\<lambda>b. JObj [(''enumeration_frontier'', JStr (eb_enumeration_frontier b))]),
     js_occurrence = (\<lambda>item. JObj [(''occurrence_id'', JStr (uo_occurrence_id item)),
       (''schedule_id'', JStr (uo_schedule_id item)),
       (''schedule_revision'', JStr (uo_schedule_revision item)),
       (''due_coordinate'', JObj [
         (''coordinate_policy_version'', JStr (dc_coordinate_policy_version (uo_due_coordinate item))),
         (''canonical_coordinate'', JStr (dc_canonical_coordinate (uo_due_coordinate item)))]),
       (''undisposed_head'', JStr (uo_undisposed_head item)),
       (''undisposed_fingerprint'', JStr (uo_undisposed_fingerprint item))]),
     js_eligibility = (\<lambda>m. JObj [(''members'', JArr (map (\<lambda>item. JObj [
         (''occurrence_id'', JStr (uo_occurrence_id item)),
         (''schedule_id'', JStr (uo_schedule_id item)),
         (''schedule_revision'', JStr (uo_schedule_revision item)),
         (''due_coordinate'', JObj [
           (''coordinate_policy_version'', JStr (dc_coordinate_policy_version (uo_due_coordinate item))),
           (''canonical_coordinate'', JStr (dc_canonical_coordinate (uo_due_coordinate item)))]),
         (''undisposed_head'', JStr (uo_undisposed_head item)),
         (''undisposed_fingerprint'', JStr (uo_undisposed_fingerprint item))]) (em_members m))),
       (''fingerprint'', JStr (em_fingerprint m))]),
     js_present = (\<lambda>r. JObj [(''kind'', JStr ''PRESENT''), (''head'', JStr (pn_head r)),
       (''fingerprint'', JStr (pn_fingerprint r))]),
     js_subject = (\<lambda>subject. case subject of INDIVIDUAL i \<Rightarrow> JObj [(''occurrence_id'', JStr i)]
       | COALESCED a f \<Rightarrow> JObj [(''aggregate_id'', JStr a), (''manifest_fingerprint'', JStr f)]),
     js_lineage = (\<lambda>lineage. JObj [(''lineage_head'', JStr (ln_lineage_head lineage))]),
     js_physical = (\<lambda>root. JObj [(''selector_head'', JStr (ph_selector_head root))]),
     js_lease = (\<lambda>state. JObj [(''lease_head'', JStr (lease_state_head state))]),
     js_view = (\<lambda>view. JObj [(''lineage_head'', JStr (ln_lineage_head (lv_lineage view)))]),
     js_predecessor = (\<lambda>_. JObj [(''kind'', JStr ''ABSENT'')]),
     js_lease_command = (\<lambda>command. JObj [(''command_id'', JStr (sc_command_id (lt_identity command))),
       (''proposed_lease_id'', JStr (lt_proposed_lease_id command)),
       (''clock_proof'', JStr (ck_command_payload_fingerprint (lt_clock_proof command)))]),
     js_rollover_command = (\<lambda>command. JObj [(''command_id'', JStr (sc_command_id (ro_identity command)))]),
     js_identity = (\<lambda>identity. JObj [(''command_id'', JStr (sc_command_id identity))]),
     js_context = (\<lambda>cx. JObj [(''tenant_id'', JStr (cx_tenant_id cx))]),
     js_bound_head = (\<lambda>bound. JObj [(''generation'', JInt (int (ih_generation bound)))]),
     js_schedule = (\<lambda>revision. JObj [(''revision'', JInt (int (sv_revision revision)))]),
     js_policy = (\<lambda>revision. JObj [(''revision'', JInt (int (pv_revision revision)))]),
     js_evidence = (\<lambda>_. JNull),
     js_hold = (\<lambda>hold. JObj [(''actual_value'', JInt (int (oh_actual_value hold)))]),
     js_overflow_state = (\<lambda>_. JNull),
     js_parent = (\<lambda>parent. JObj [(''command_id'', JStr (sc_command_id (ip_command parent)))]),
     js_primitive = (\<lambda>primitive. JObj [(''root_id'', JStr (bd_root_id primitive))]),
     js_disposition = (\<lambda>item. JObj [(''occurrence_id'', JStr (uo_occurrence_id (disposed_occurrence item)))]),
     js_member = (\<lambda>_. JNull),
     js_result = (\<lambda>_. JNull)\<rparr>"

lemma ws_codec_ok: "eligibility_codec_ok ws_codec"
  by (simp add: eligibility_codec_ok_def ws_codec_def)

section \<open>A lease that is taken over\<close>

definition ws_lineage :: LineageBinding where
  "ws_lineage = \<lparr>ln_root_id = ''root-1'', ln_subject = INDIVIDUAL ''occurrence-1'', ln_root_fingerprint = ''f'',
     ln_lineage_head = ''lineage-head-1'', ln_initial_run_id = ''run-1'', ln_current_run_id = ''run-1'',
     ln_schedule_id = ''schedule-1'', ln_schedule_revision = ''0'', ln_policy_revision = ''0''\<rparr>"

definition ws_physical :: PhysicalRoot where
  "ws_physical = \<lparr>ph_selector_id = ''selector-1'', ph_selector_head = ''selector-head-1'', ph_selector_version = 7,
     ph_current_epoch_id = ''epoch-1'', ph_current_epoch_head = ''epoch-head-1''\<rparr>"

definition ws_lease :: "nat \<Rightarrow> RootLease" where
  "ws_lease generation = \<lparr>rl_lease_head = ''lease-head-1'', rl_holder_id = ''worker-1'', rl_holder_session_id = ''session-1'',
     rl_lease_id = ''lease-1'', rl_generation = generation, rl_trusted_expiry = 20, rl_clock_contract_version = ''clock-v1''\<rparr>"

definition ws_view :: "nat \<Rightarrow> SchedulerLineageView" where
  "ws_view generation = \<lparr>lv_lineage = ws_lineage, lv_physical_root = ws_physical,
     lv_lease = HELD (ws_lease generation), lv_predecessor_rollover = None\<rparr>"

definition ws_identity :: SchedulerCommandIdentity where
  "ws_identity = \<lparr>sc_command_id = ''command-1'', sc_schema_version = ''v1'', sc_canonicalization_version = ''v1''\<rparr>"

definition ws_clock :: "string \<Rightarrow> string \<Rightarrow> ClockProofRef" where
  "ws_clock fence payload = \<lparr>ck_proof_id = ''proof-1'', ck_proof_fingerprint = ''f'', ck_proof_version = ''v1'',
     ck_clock_contract_version = ''clock-v1'', ck_fence_fingerprint = fence, ck_command_id = ''command-1'',
     ck_command_payload_fingerprint = payload, ck_submission_id = ''submission-1''\<rparr>"

definition ws_command :: "nat \<Rightarrow> nat \<Rightarrow> ClockProofRef \<Rightarrow> LeaseTransitionCommand" where
  "ws_command generation proposed clock = \<lparr>lt_identity = ws_identity, lt_kind = TAKEOVER, lt_lineage = ws_lineage,
     lt_physical_root = ws_physical, lt_observed_lease = HELD (ws_lease generation),
     lt_proposed_holder_id = ''worker-2'', lt_proposed_holder_session_id = ''session-2'',
     lt_proposed_lease_id = ''lease-2'', lt_proposed_expiry = 40, lt_proposed_generation = proposed,
     lt_clock_proof = clock\<rparr>"

text \<open>The proof covers the command without its own slot.\<close>

definition ws_takeover :: "nat \<Rightarrow> nat \<Rightarrow> LeaseTransitionCommand" where
  "ws_takeover generation proposed = ws_command generation proposed
     (ws_clock (lease_fence_fingerprint ws_codec (ws_view generation))
       (lease_payload_fingerprint ws_codec (ws_command generation proposed (ws_clock [] []))))"

lemma ws_payload:
  "lease_payload_fingerprint ws_codec (ws_command generation proposed clock)
   = lease_payload_fingerprint ws_codec (ws_command generation proposed (ws_clock [] []))"
  by (simp add: lease_payload_fingerprint_def ws_codec_def ws_command_def)

definition ws_issued :: "nat \<Rightarrow> nat \<Rightarrow> IssuedLeaseObservation" where
  "ws_issued generation proposed = \<lparr>is_proof = lt_clock_proof (ws_takeover generation proposed), is_now = 20,
     is_max_lease_duration = 30, is_holder_id = ''worker-2'', is_holder_session_id = ''session-2'',
     is_authority_epoch = ''authority-1'', is_used_lease_ids = [''lease-1'']\<rparr>"

lemma ws_evaluated:
  assumes "1 \<le> generation" and "takeover_lease ws_codec (HELD (ws_lease generation)) (ws_takeover generation proposed)
    (ws_issued generation proposed) = Inr state"
  shows "\<exists>candidate. evaluate_lease ws_codec (ws_view generation) (ws_takeover generation proposed)
      (Some (ws_issued generation proposed)) ''submission-1'' = Inr candidate \<and> lc_state candidate = state"
proof -
  have command: "lt_lineage (ws_takeover generation proposed) = ws_lineage"
    "lt_physical_root (ws_takeover generation proposed) = ws_physical"
    "lt_observed_lease (ws_takeover generation proposed) = HELD (ws_lease generation)"
    "lt_proposed_holder_id (ws_takeover generation proposed) = ''worker-2''"
    "lt_proposed_holder_session_id (ws_takeover generation proposed) = ''session-2''"
    "lt_proposed_expiry (ws_takeover generation proposed) = 40"
    "lt_kind (ws_takeover generation proposed) = TAKEOVER"
    "ck_clock_contract_version (lt_clock_proof (ws_takeover generation proposed)) = ''clock-v1''"
    by (simp_all add: ws_takeover_def ws_command_def ws_clock_def)
  have payload: "lease_payload_fingerprint ws_codec (ws_takeover generation proposed)
      = lease_payload_fingerprint ws_codec (ws_command generation proposed (ws_clock [] []))"
    unfolding ws_takeover_def by (rule ws_payload)
  have clock: "lt_clock_proof (ws_takeover generation proposed) =
      ws_clock (lease_fence_fingerprint ws_codec (ws_view generation))
        (lease_payload_fingerprint ws_codec (ws_command generation proposed (ws_clock [] [])))"
    "sc_command_id (lt_identity (ws_takeover generation proposed)) = ''command-1''"
    by (simp_all add: ws_takeover_def ws_command_def ws_identity_def)
  have "is_proof (ws_issued generation proposed) = lt_clock_proof (ws_takeover generation proposed)"
    by (simp add: ws_issued_def)
  then have "proof_issued ws_codec (ws_view generation) (ws_takeover generation proposed)
      (ws_issued generation proposed) ''submission-1''"
    unfolding proof_issued_def Let_def payload clock by (simp add: ws_clock_def)
  moreover have "observed_lease_error (HELD (ws_lease generation)) (ws_takeover generation proposed)
      (ws_issued generation proposed) = Inr ()"
    using assms(1) by (simp add: observed_lease_error_def command) (simp add: ws_lease_def ws_issued_def)
  ultimately show ?thesis
    using assms(2) by (simp add: evaluate_lease_def command ws_view_def) (simp add: ws_issued_def)
qed

definition ws_start :: "nat \<Rightarrow> RootState" where
  "ws_start generation = root_start (ws_view generation) 10 15 [''lease-1''] [''epoch-1''] [''genesis-1'', ''lease-head-1'']"

lemma ws_start_history: "1 \<le> generation \<Longrightarrow> generation \<le> UINT64_MAX \<Longrightarrow> root_history ws_codec (ws_start generation)"
  unfolding ws_start_def
  by (rule root_history.recorded) (simp_all add: lease_recorded_def ws_view_def ws_lease_def ws_physical_def UINT64_MAX_def)

lemma ws_step:
  assumes "1 \<le> generation" and "takeover_lease ws_codec (HELD (ws_lease generation)) (ws_takeover generation proposed)
    (ws_issued generation proposed) = Inr state"
  shows "\<exists>candidate. lc_state candidate = state
    \<and> root_step ws_codec (ws_start generation) (apply_lease (ws_start generation) (ws_issued generation proposed) candidate)"
proof -
  obtain candidate where "evaluate_lease ws_codec (ws_view generation) (ws_takeover generation proposed)
      (Some (ws_issued generation proposed)) ''submission-1'' = Inr candidate" "lc_state candidate = state"
    using ws_evaluated [OF assms] by blast
  then show ?thesis
    by (intro exI [of _ candidate] conjI root_step.leased [of _ _ "ws_takeover generation proposed" _ "''submission-1''"])
      (simp_all add: ws_start_def root_start_def ws_issued_def)
qed

section \<open>An exhausted generation\<close>

definition ws_hold_head :: string where
  "ws_hold_head = new_lease_head ws_codec (ws_takeover UINT64_MAX UINT64_MAX)"

definition ws_hold :: LeaseState where
  "ws_hold = GENERATION_EXHAUSTED_HOLD ws_hold_head ''command-1'' 20 ''authority-1'' (ws_lease UINT64_MAX)"

lemma ws_exhausts:
  "takeover_lease ws_codec (HELD (ws_lease UINT64_MAX)) (ws_takeover UINT64_MAX UINT64_MAX)
    (ws_issued UINT64_MAX UINT64_MAX) = Inr ws_hold"
  by (simp add: takeover_lease_def ws_issued_def ws_hold_def ws_hold_head_def)
    (simp add: ws_lease_def ws_takeover_def ws_command_def ws_identity_def)

definition ws_exhausted :: RootState where
  "ws_exhausted = (ws_start UINT64_MAX)\<lparr>rs_view := (ws_view UINT64_MAX)\<lparr>lv_lease := ws_hold\<rparr>, rs_clock := 20,
     rs_used_heads := [''genesis-1'', ''lease-head-1'', ws_hold_head]\<rparr>"

lemma ws_exhausted_history: "root_history ws_codec ws_exhausted"
proof -
  obtain candidate where candidate: "lc_state candidate = ws_hold"
    "root_step ws_codec (ws_start UINT64_MAX)
       (apply_lease (ws_start UINT64_MAX) (ws_issued UINT64_MAX UINT64_MAX) candidate)"
    using ws_step [OF _ ws_exhausts] by (auto simp: UINT64_MAX_def)
  moreover have "apply_lease (ws_start UINT64_MAX) (ws_issued UINT64_MAX UINT64_MAX) candidate = ws_exhausted"
    using candidate(1)
    by (simp add: apply_lease_def ws_exhausted_def ws_hold_def ws_start_def root_start_def ws_issued_def)
  ultimately show ?thesis
    using ws_start_history [of UINT64_MAX] by (auto simp: UINT64_MAX_def intro: root_history.advanced)
qed

definition ws_rollover_command :: "string \<Rightarrow> PhysicalRootRolloverCommand" where
  "ws_rollover_command payload = \<lparr>ro_identity = ws_identity, ro_fence = \<lparr>rf_lineage = ws_lineage,
     rf_physical_root = ws_physical,
     rf_exhaustion = \<lparr>xb_hold_head = ws_hold_head, xb_exhausted_command_id = ''command-1'',
       xb_lease = ws_lease UINT64_MAX, xb_authority_epoch = ''authority-1''\<rparr>,
     rf_authority = \<lparr>ra_proof_id = ''proof-2'', ra_proof_fingerprint = ''f'', ra_authority_head = ''authority-head-1'',
       ra_command_id = ''command-1'', ra_command_payload_fingerprint = payload,
       ra_predecessor_rollover = None\<rparr>\<rparr>\<rparr>"

definition ws_rollover :: PhysicalRootRolloverCommand where
  "ws_rollover = ws_rollover_command (rollover_payload_fingerprint ws_codec (ws_rollover_command []))"

lemma ws_rollover_payload:
  "rollover_payload_fingerprint ws_codec ws_rollover = rollover_payload_fingerprint ws_codec (ws_rollover_command [])"
  by (simp add: ws_rollover_def rollover_payload_fingerprint_def ws_codec_def ws_rollover_command_def)

definition ws_rollover_issued :: IssuedRolloverObservation where
  "ws_rollover_issued = \<lparr>io_authority = rf_authority (ro_fence ws_rollover),
     io_snapshot_fingerprint = rollover_snapshot_fingerprint ws_codec (rs_view ws_exhausted),
     io_submission_id = ''submission-2'', io_authority_epoch = ''authority-1'',
     io_used_epoch_ids = [''epoch-1''], io_used_lease_heads = [''genesis-1'', ''lease-head-1'', ws_hold_head]\<rparr>"

lemma ws_rolls_over:
  "prepare_rollover ws_codec (rs_view ws_exhausted) ws_rollover (Some ws_rollover_issued) ''submission-2''
   = Inr (rollover_candidate ws_codec (rs_view ws_exhausted) ws_rollover)"
proof -
  have fresh: "rollover_epoch ws_codec view command \<noteq> ''epoch-1''"
    "rollover_genesis ws_codec view command \<notin> {''genesis-1'', ''lease-head-1'', ws_hold_head}"
    "ws_hold_head \<notin> {''genesis-1'', ''lease-head-1''}" for view command
    by (simp_all add: rollover_epoch_def rollover_genesis_def ws_hold_head_def new_lease_head_def)
  have fence: "rf_lineage (ro_fence ws_rollover) = ws_lineage" "rf_physical_root (ro_fence ws_rollover) = ws_physical"
    "rf_exhaustion (ro_fence ws_rollover) = \<lparr>xb_hold_head = ws_hold_head, xb_exhausted_command_id = ''command-1'',
       xb_lease = ws_lease UINT64_MAX, xb_authority_epoch = ''authority-1''\<rparr>"
    "ra_command_id (rf_authority (ro_fence ws_rollover)) = ''command-1''"
    "ra_predecessor_rollover (rf_authority (ro_fence ws_rollover)) = None"
    "sc_command_id (ro_identity ws_rollover) = ''command-1''"
    "ra_command_payload_fingerprint (rf_authority (ro_fence ws_rollover)) = rollover_payload_fingerprint ws_codec ws_rollover"
    unfolding ws_rollover_payload by (simp_all add: ws_rollover_def ws_rollover_command_def ws_identity_def)
  have view: "lv_lease (rs_view ws_exhausted) = ws_hold" "lv_lineage (rs_view ws_exhausted) = ws_lineage"
    "lv_physical_root (rs_view ws_exhausted) = ws_physical" "lv_predecessor_rollover (rs_view ws_exhausted) = None"
    by (simp_all add: ws_exhausted_def ws_view_def)
  have issued: "io_authority ws_rollover_issued = rf_authority (ro_fence ws_rollover)"
     "io_snapshot_fingerprint ws_rollover_issued = rollover_snapshot_fingerprint ws_codec (rs_view ws_exhausted)"
     "io_submission_id ws_rollover_issued = ''submission-2''" "io_authority_epoch ws_rollover_issued = ''authority-1''"
     "io_used_epoch_ids ws_rollover_issued = [''epoch-1'']"
     "io_used_lease_heads ws_rollover_issued = [''genesis-1'', ''lease-head-1'', ws_hold_head]"
    by (simp_all add: ws_rollover_issued_def)
  show ?thesis
    unfolding prepare_rollover_def Let_def view ws_hold_def LeaseState.case fence option.case issued
    using fresh by (auto simp: ws_lease_def ws_physical_def UINT64_MAX_def card_insert_if)
qed

definition ws_rolled :: RootState where
  "ws_rolled = apply_rollover ws_exhausted (rollover_candidate ws_codec (rs_view ws_exhausted) ws_rollover)"

lemma ws_rolled_step: "root_step ws_codec ws_exhausted ws_rolled"
  unfolding ws_rolled_def
  by (rule root_step.rolled [OF ws_rolls_over])
    (simp_all add: ws_rollover_issued_def ws_exhausted_def ws_start_def root_start_def)

end
