(* ===== verification/Scheduler_Interval_Sample.thy ===== *)
theory Scheduler_Interval_Sample
  imports Scheduler_Complete Scheduler_Sample
begin

text \<open>
  A concrete schedule and interval: its enumeration, its compiled batch, and the request that decides
  it or resolves a hold on it. Digests stay symbolic; record identities are told apart by their
  prefixes.
\<close>

section \<open>A configured interval\<close>

text \<open>Every 10 from 0; the interval runs from 0 to 15, and the occurrence at 0 is already disposed.\<close>

definition ws_inputs :: SchedulerRunInputs where
  "ws_inputs = \<lparr>ri_tenant = ''tenant-1'', ri_principal = ''operator-1'', ri_prompt = ''review the week'',
     ri_policy = \<lparr>bp_live_model = None, bp_kind = MAX_TURNS, bp_max_turns = 1, bp_max_request_bytes = 200,
       bp_max_response_bytes = 4, bp_max_tool_calls = 1, bp_max_model_retries = Some 0\<rparr>,
     ri_origin = \<lparr>en_kind = ''ORIGIN_EXACT'', en_ingress_binding_head = ''i'', en_endpoint_head = ''e'', en_endpoint_id = ''d'',
       en_provider = ''p'', en_recipient = ''r'', en_canonical_address = ''tty'', en_credential_binding_head = ''c''\<rparr>,
     ri_contour_head = ''contour-1'', ri_policy_head = ''policy-1'', ri_worker_session = ''session-1'',
     ri_authority_epoch = ''authority-1''\<rparr>"

definition ws_context :: SchedulerContextRef where
  "ws_context = \<lparr>cx_tenant_id = ''tenant-1'', cx_service_identity = ''scheduler'', cx_session_id = ''session-1'',
     cx_mandate_head = ''mandate-1'', cx_issuance_id = ''issuance-1'', cx_issuance_fingerprint = ''f''\<rparr>"

definition ws_revision :: ScheduleRevision where
  "ws_revision = \<lparr>sv_schedule_id = ''schedule-1'', sv_revision = 0, sv_previous = None,
     sv_definition = \<lparr>fd_start_ns = 0, fd_period_ns = 10, fd_end_exclusive_ns = None, fd_run_inputs = ws_inputs\<rparr>,
     sv_context = ws_context, sv_command_id = ''command-0''\<rparr>"

definition ws_policy :: PolicyRevision where
  "ws_policy = \<lparr>pv_schedule_id = ''schedule-1'', pv_revision = 0, pv_previous = None, pv_policy = MATERIALIZE_EACH,
     pv_context = ws_context, pv_command_id = ''command-0''\<rparr>"

definition ws_coordinate :: "nat \<Rightarrow> DueCoordinate" where
  "ws_coordinate due = \<lparr>dc_coordinate_policy_version = COORDINATE_VERSION, dc_canonical_coordinate = nat_str due\<rparr>"

lemma ws_coordinate_value: "coordinate_value (ws_coordinate due) = Inr due"
  by (simp add: coordinate_value_eq ws_coordinate_def)

definition ws_boundary :: SchedulerEligibilityBoundary where
  "ws_boundary = \<lparr>eb_schedule_definition_head = schedule_head ws_codec ws_revision,
     eb_missed_occurrence_policy_head = policy_head ws_codec ws_policy,
     eb_previous_due_boundary = ws_coordinate 0, eb_cutoff_due_coordinate = ws_coordinate 15,
     eb_enumeration_frontier = ''frontier-1'', eb_predecessor_interval = None,
     eb_canonicalization_version = CANONICAL_VERSION\<rparr>"

definition ws_ref :: "string \<Rightarrow> PresentRef" where
  "ws_ref name = \<lparr>pn_head = name, pn_fingerprint = ''f''\<rparr>"

definition ws_disposed :: DisposedOccurrence where
  "ws_disposed = \<lparr>do_occurrence_id = projr (occurrence_identity ws_codec (schedule_head ws_codec ws_revision) (ws_coordinate 0)),
     do_due_coordinate = ws_coordinate 0, do_disposition = ws_ref ''disposition-1''\<rparr>"

definition ws_plan :: DefinitionEnumeration where
  "ws_plan = \<lparr>de_definition = sv_definition ws_revision, de_boundary = ws_boundary, de_first_index = 0,
     de_end_index = 2, de_excluded_indices = [0], de_eligible_count = 1\<rparr>"

definition ws_members :: "UndisposedOccurrence list" where
  "ws_members = [plan_member ws_codec ws_plan 1]"

definition ws_manifest :: SchedulerEligibilityManifest where
  "ws_manifest = manifest_of ws_codec ws_boundary ws_members"

definition ws_bound :: "nat \<Rightarrow> SchedulerIntervalBoundHead" where
  "ws_bound generation = \<lparr>ih_head_id = (if generation = 0 then ''bound-0'' else ''bound-1''), ih_predecessor = None,
     ih_generation = generation,
     ih_bound = \<lparr>ib_max_member_count = 5, ib_max_manifest_bytes = length (eligibility_bytes ws_codec ws_manifest),
       ib_max_serialized_batch_bytes = 1000\<rparr>,
     ih_owner_id = ''scheduler'', ih_authority_epoch = ''authority-1'', ih_broker_generation = ''b'',
     ih_runtime_graph_generation = ''g'', ih_canonicalization_version = CANONICAL_VERSION\<rparr>"

definition ws_configuration :: "nat \<Rightarrow> PresentRef option \<Rightarrow> ConfigurationSnapshot" where
  "ws_configuration generation hold = \<lparr>cs_schedule = Some ws_revision, cs_policy = Some ws_policy,
     cs_bound = Some (ws_bound generation), cs_active_hold = hold\<rparr>"

lemma ws_current: "current_configuration (ws_configuration generation hold) = Inr (ws_revision, ws_policy, ws_bound generation)"
  by (simp add: current_configuration_def ws_configuration_def ws_revision_def ws_policy_def)

lemma ws_boundary_heads:
  "eb_schedule_definition_head ws_boundary = schedule_head ws_codec ws_revision"
  "eb_missed_occurrence_policy_head ws_boundary = policy_head ws_codec ws_policy"
  "eb_previous_due_boundary ws_boundary = ws_coordinate 0" "eb_cutoff_due_coordinate ws_boundary = ws_coordinate 15"
  "eb_canonicalization_version ws_boundary = CANONICAL_VERSION"
  by (simp_all add: ws_boundary_def)

lemma ws_interval: "interval_of ws_boundary 0 15"
  by (simp add: interval_of_def ws_boundary_heads ws_coordinate_value)

lemma ws_definition:
  "fd_start_ns (sv_definition ws_revision) = 0" "fd_period_ns (sv_definition ws_revision) = 10"
  "fd_end_exclusive_ns (sv_definition ws_revision) = None" "fd_run_inputs (sv_definition ws_revision) = ws_inputs"
  by (simp_all add: ws_revision_def)

lemma ws_disposed_index:
  "disposed_index ws_codec ws_boundary (sv_definition ws_revision) ws_disposed [] = Inr [0]"
proof -
  obtain identity where identity:
    "occurrence_identity ws_codec (schedule_head ws_codec ws_revision) (ws_coordinate 0) = Inr identity"
    by (simp add: occurrence_identity_def ws_coordinate_value)
  then have "do_due_coordinate ws_disposed = ws_coordinate 0" "do_occurrence_id ws_disposed = identity"
    by (simp_all add: ws_disposed_def)
  with identity show ?thesis
    unfolding disposed_index_def ws_boundary_heads ws_definition by (simp add: ws_coordinate_value Let_def)
qed

lemma ws_planned:
  "definition_enumeration ws_codec (ws_configuration generation hold) ws_boundary [ws_disposed] = Inr ws_plan"
  by (simp add: definition_enumeration_def ws_current ws_boundary_heads ws_coordinate_value ws_disposed_index Let_def
      validate_definition_def)
    (simp add: ws_revision_def ws_inputs_def ws_context_def ws_plan_def)

lemma ws_definition_members: "definition_members ws_codec ws_plan = Inr ws_members"
  using definition_member_Inr(1) [of 1 ws_codec ws_plan]
  by (simp add: definition_members_def ws_members_def) (simp add: ws_plan_def upto.simps)


lemma ws_dues: "map due_key ws_members = [10]"
  using definition_member_Inr(3) [of 1 ws_codec ws_plan]
  by (simp add: ws_members_def index_due_def ws_plan_def ws_definition)

lemma ws_eligible: "eligible_manifest ws_codec ws_boundary ws_members = Inr ws_manifest"
proof -
  have "due_key (plan_member ws_codec ws_plan 1) = 10"
    using ws_dues by (simp add: ws_members_def)
  moreover have "genuine ws_codec (eb_schedule_definition_head ws_boundary) (plan_member ws_codec ws_plan 1)"
    using definition_member_Inr(2) [of 1 ws_codec ws_plan] by (simp add: ws_plan_def)
  ultimately show ?thesis
    unfolding eligible_manifest_Inr using ws_interval
    by (intro exI [of _ 0] exI [of _ 15]) (simp add: ws_members_def ws_manifest_def in_interval_def)
qed

lemma ws_streamed:
  "stream_definition ws_codec (ws_configuration generation hold) ws_boundary [ws_disposed] (ws_ref ''enumeration-1'') =
   Inr \<lparr>st_member_count = 1, st_manifest_bytes = length (eligibility_bytes ws_codec ws_manifest),
        st_manifest_fingerprint = em_fingerprint ws_manifest, st_evidence = FULL_MANIFEST ws_manifest\<rparr>"
proof -
  have "0 < fd_period_ns (de_definition ws_plan)"
    by (simp add: ws_plan_def ws_definition)
  from stream_exact [OF ws_codec_ok ws_planned [of generation hold] this ws_current [of generation hold],
      of "ws_ref ''enumeration-1''"]
  show ?thesis
    by (simp add: ws_definition_members ws_manifest_def [symmetric] overflow_evidence_def ws_bound_def)
      (simp add: ws_manifest_def manifest_of_def ws_members_def)
qed

section \<open>The compiled batch\<close>

lemma record_id_simps:
  "sm_record_id (canonical_member kind reference v) = reference"
  "sm_record_id (run_member l run) = rn_head run"
  "sm_record_id (disposition_member d item) = pn_head (dto_reference ''occurrence-disposition-v1'' (js_disposition d item))"
  "sm_record_id (lease_genesis_member d lineage physical (genesis_lease d primitive)) =
     ''execution-root-lease-genesis-v1:'' @ domain_hash ''execution-root-lease-genesis-v1'' (js_primitive d primitive)"
  "pn_head (dto_reference domain v) = domain @ '':'' @ sha256_hex (dto_bytes v)"
  by (simp_all add: canonical_member_def run_member_def disposition_member_def lease_genesis_member_def
      genesis_lease_def dto_reference_def Let_def)

lemma ws_record_ids:
  assumes "ln_subject lineage = INDIVIDUAL occurrence_id"
  shows "\<exists>p e s g i r o' c. map sm_record_id (mo_members (assemble_occurrence l d parent parent_ref lineage run [disposition])) =
    [''scheduled-batch-primitive-v1'' @ '':'' @ p, ln_lineage_head lineage, ''physical-root-head-v1'' @ '':'' @ e,
     ''physical-root-selector-head-v1'' @ '':'' @ s, ''execution-root-lease-genesis-v1:'' @ g, rn_head run,
     ''scheduler-run-initialization-v1'' @ '':'' @ i, ''scheduler-root-run-reciprocal-v1'' @ '':'' @ r,
     ''occurrence-disposition-v1'' @ '':'' @ o', ''scheduler-epoch-companion-v1'' @ '':'' @ c]"
  unfolding assemble_occurrence_def Let_def assms
  by (simp only: MaterializedOccurrence.select_convs list.map map_append append.simps record_id_simps
      aggregate_members_def LineageSubject.case primitive_ref_def epoch_ref_def selector_ref_def companion_ref_def)
    (intro exI, rule refl)

lemma ws_materializes:
  assumes ok: "parent_ok d parent" and subject: "subject \<in> set (subjects_of d (ip_boundary parent) (ip_manifest parent))"
  shows "\<exists>run run_digest mat. materialize_occurrence l d parent (parent_ref_of d parent) subject =
      Inr (assemble_occurrence l d parent (parent_ref_of d parent)
        (materialized_lineage d (ip_boundary parent) subject (scheduled_run_id d (parent_ref_of d parent) subject))
        run (dispositions_of (ip_manifest parent) subject mat))
    \<and> rn_head run = ''loop:'' @ run_digest"
proof -
  have m: "eligible_manifest d (ip_boundary parent) (em_members (ip_manifest parent)) = Inr (ip_manifest parent)"
    and branch: "ip_branch parent = policy_branch (mh_kind (eb_missed_occurrence_policy_head (ip_boundary parent)))
         (length (em_members (ip_manifest parent)))"
    using ok by (simp_all add: parent_ok_def)
  have "\<exists>run run_digest. scheduled_run l d inputs root = Inr run \<and> rn_head run = ''loop:'' @ run_digest" for inputs root
    by (simp add: scheduled_run_def Let_def validate_record_def run_head_of_def genesis_ok_def)
  then obtain run run_digest where run: "scheduled_run l d (ip_run_inputs parent)
      (materialized_lineage d (ip_boundary parent) subject (scheduled_run_id d (parent_ref_of d parent) subject)) = Inr run"
    "rn_head run = ''loop:'' @ run_digest"
    by blast
  show ?thesis
    using run(1) subject branch subject_dispositions_Inr [OF m subject]
    by (intro exI [of _ run] exI [of _ run_digest] conjI run(2) exI)
      (simp add: materialize_occurrence_def execution_subjects_Inr [OF m] Let_def)
qed


text \<open>A parent over the sample interval, of either kind.\<close>

definition ws_parent_ok :: "IntervalParentPrimitive \<Rightarrow> bool" where
  "ws_parent_ok parent \<longleftrightarrow> ip_boundary parent = ws_boundary \<and> ip_manifest parent = ws_manifest
     \<and> ip_branch parent = MATERIALIZE_EACH_SINGLE
     \<and> (ip_kind parent = RESOLUTION_PARENT \<longrightarrow> ip_original_hold parent \<noteq> None)"

lemma ws_branch:
  "policy_branch (mh_kind (eb_missed_occurrence_policy_head ws_boundary)) (length (em_members ws_manifest))
   = MATERIALIZE_EACH_SINGLE"
  "em_members ws_manifest = ws_members" "length ws_members = 1"
  by (simp_all add: ws_boundary_heads policy_head_def Let_def ws_policy_def ws_manifest_def manifest_of_def
      ws_members_def policy_branch_def)

lemma ws_subjects:
  "subjects_of ws_codec ws_boundary ws_manifest = [INDIVIDUAL (uo_occurrence_id (plan_member ws_codec ws_plan 1))]"
  using subjects_of_branch(3) [OF ws_eligible] ws_branch by (simp add: ws_members_def)

lemma assembled_dispositions:
  "mc_dispositions (mo_commitment (assemble_occurrence l d parent parent_ref lineage run dispositions)) = dispositions"
  by (simp only: assemble_occurrence_def Let_def MaterializedOccurrence.select_convs MaterializationCommitment.select_convs)

lemma serialized_nulls: "js_member d = (\<lambda>_. JNull) \<Longrightarrow> length (serialized d records) \<le> 5 * length records + 2"
proof (induction records)
  case (Cons item records)
  then show ?case
    by (cases records) (simp_all add: serialized_def dto_bytes_def)
qed (simp add: serialized_def dto_bytes_def)

text \<open>The record identities of the sample batch differ in their prefixes.\<close>

lemma ws_batch_distinct:
  assumes "map sm_record_id (mo_members item) =
    [''scheduled-batch-primitive-v1'' @ '':'' @ p, ''execution-lineage-head-v1:'' @ q, ''physical-root-head-v1'' @ '':'' @ e,
     ''physical-root-selector-head-v1'' @ '':'' @ s, ''execution-root-lease-genesis-v1:'' @ g, ''loop:'' @ r',
     ''scheduler-run-initialization-v1'' @ '':'' @ i, ''scheduler-root-run-reciprocal-v1'' @ '':'' @ r,
     ''occurrence-disposition-v1'' @ '':'' @ o', ''scheduler-epoch-companion-v1'' @ '':'' @ c]"
    and "filter is_skipped (interval_dispositions parent (parent_ref_of d parent) [item]) = []"
  shows "distinct (map sm_record_id (batch_records d parent [item] outcome)) \<and> length (batch_records d parent [item] outcome) \<le> 13"
proof -
  obtain h where ref: "pn_head (parent_ref_of d parent) = ''scheduler-parent-v1:'' @ h"
    by (simp add: dto_reference_def Let_def)
  have "length (mo_members item) = 10"
    using arg_cong [OF assms(1), of length] by simp
  then show ?thesis
    using assms unfolding batch_records_def interval_records_def ref
    by (cases "ip_kind parent"; cases "ip_original_hold parent") (simp_all add: record_id_simps)
qed

lemma ws_compiles:
  assumes "ws_parent_ok parent"
  shows "\<exists>candidate. compile l ws_codec parent ws_members = Inr candidate
    \<and> ic_serialized_batch_bytes candidate \<le> 1000"
proof -
  define subject where "subject = INDIVIDUAL (uo_occurrence_id (plan_member ws_codec ws_plan 1))"
  have parent: "ip_boundary parent = ws_boundary" "ip_manifest parent = ws_manifest" "ip_branch parent = MATERIALIZE_EACH_SINGLE"
    using assms by (simp_all add: ws_parent_ok_def)
  have ok: "parent_ok ws_codec parent"
    using ws_eligible ws_branch by (simp add: parent_ok_def parent)
  define ref where "ref = parent_ref_of ws_codec parent"
  define lineage where "lineage = materialized_lineage ws_codec ws_boundary subject (scheduled_run_id ws_codec ref subject)"
  obtain run run_digest mat where run: "rn_head run = ''loop:'' @ run_digest"
    and item: "materialize_occurrence l ws_codec parent ref subject =
      Inr (assemble_occurrence l ws_codec parent ref lineage run (dispositions_of ws_manifest subject mat))"
    using ws_materializes [OF ok, of subject l] by (auto simp: parent ws_subjects subject_def ref_def lineage_def)
  have disposition: "dispositions_of ws_manifest subject mat = [CLAIMED_INDIVIDUALLY (plan_member ws_codec ws_plan 1) mat]"
    by (simp add: dispositions_of_def subject_def individual_dispositions ws_branch ws_members_def)
  define items where "items = [assemble_occurrence l ws_codec parent ref lineage run
    [CLAIMED_INDIVIDUALLY (plan_member ws_codec ws_plan 1) mat]]"
  have all: "materialize_all l ws_codec parent ref (subjects_of ws_codec ws_boundary ws_manifest) = Inr items"
    using item by (simp add: materialize_all_def ws_subjects subject_def [symmetric] items_def disposition)
  obtain pending where pending: "interval_result parent ref items = Inr pending"
    using assms by (cases "ip_kind parent") (auto simp: interval_result_def Let_def ws_parent_ok_def)
  have "ln_subject lineage = subject" "\<exists>q. ln_lineage_head lineage = ''execution-lineage-head-v1:'' @ q"
    by (simp_all add: lineage_def materialized_lineage_def Let_def)
  then obtain q where lineage: "ln_subject lineage = subject" "ln_lineage_head lineage = ''execution-lineage-head-v1:'' @ q"
    by blast
  have "filter is_skipped (interval_dispositions parent ref items) = []"
    by (simp add: interval_dispositions_def parent items_def assembled_dispositions is_skipped_def)
  then have distinct: "distinct (map sm_record_id (batch_records ws_codec parent items outcome))
      \<and> length (batch_records ws_codec parent items outcome) \<le> 13" for outcome
    using ws_record_ids [OF lineage(1) [unfolded subject_def], of l ws_codec parent ref run
        "CLAIMED_INDIVIDUALLY (plan_member ws_codec ws_plan 1) mat", unfolded lineage(2) run]
    unfolding items_def ref_def by (elim exE) (rule ws_batch_distinct)
  obtain fingerprint where eq: "compile l ws_codec parent ws_members =
    (let records = batch_records ws_codec parent items (with_commitment fingerprint pending)
     in if \<not> distinct (map sm_record_id records) then Inl duplicate_identity
        else Inr \<lparr>ic_parent_primitive = Some parent, ic_result = with_commitment fingerprint pending,
                ic_occurrences = items, ic_records = records, ic_batch_fingerprint = fingerprint,
                ic_serialized_batch_bytes = length (serialized ws_codec records)\<rparr>)"
    using compile_eq [of ws_codec parent ws_members l items pending] ws_eligible all pending
    unfolding parent ref_def by blast
  have "js_member ws_codec = (\<lambda>_. JNull)"
    by (simp add: ws_codec_def)
  note size = serialized_nulls [OF this, of "batch_records ws_codec parent items (with_commitment fingerprint pending)"]
  show ?thesis
    unfolding eq Let_def using distinct [of "with_commitment fingerprint pending"] size by auto
qed


section \<open>Requests over the interval\<close>

definition ws_fence :: PreRootDecisionFence where
  "ws_fence = \<lparr>pf_command_id = ''command-1'', pf_disposition = FIRST_PUBLICATION ''absence-1'',
     pf_scheduler_authority_head = ''a'', pf_broker_generation = ''b'', pf_runtime_generation = ''g''\<rparr>"

definition ws_cut :: BatchPreparationCut where
  "ws_cut = \<lparr>bc_tenant_id = ''tenant-1'', bc_tenant_frontier = 4, bc_materialization_commitment = ''f'',
     bc_registry_head = ''r'', bc_registry_fingerprint = ''f'', bc_submission_id = ''submission-1'',
     bc_authorized_context = ws_context, bc_authorized_command_fingerprint = ''f'', bc_authority_proof = ws_ref ''authority''\<rparr>"

definition ws_held :: SchedulerOverflowHold where
  "ws_held = \<lparr>oh_hold = ws_ref ''hold-1'', oh_command = ws_identity, oh_boundary = ws_boundary,
     oh_bound_head = ws_bound 0, oh_exceeded_dimension = MEMBER_COUNT, oh_actual_value = 1, oh_limit = 0,
     oh_evidence = FULL_MANIFEST ws_manifest, oh_operator_recovery_owner = ''operator-1'', oh_state = OVERFLOW_ACTIVE\<rparr>"

definition ws_snapshot :: "SchedulerOverflowHold option \<Rightarrow> IntervalPreparationSnapshot" where
  "ws_snapshot hold = \<lparr>in_cut = ws_cut, in_configuration = ws_configuration 1 (map_option oh_hold hold),
     in_disposed = [ws_disposed], in_previous_due_boundary = ws_coordinate 0, in_predecessor_interval = None,
     in_enumeration_frontier = ''frontier-1'', in_enumeration_proof = ws_ref ''enumeration-1'',
     in_active_hold = hold, in_publication_fence = ws_fence, in_operator_proof = Some (ws_ref ''operator-proof-1'')\<rparr>"

definition ws_decide :: DecideIntervalCommand where
  "ws_decide = \<lparr>di_identity = ws_identity, di_boundary = ws_boundary, di_bound_head = ws_bound 1,
     di_manifest = Inl ws_manifest, di_publication_fence = ws_fence\<rparr>"

definition ws_resolve :: ResolveIntervalCommand where
  "ws_resolve = \<lparr>rv_identity = ws_identity, rv_active_hold = ws_held, rv_successor_bound = ws_bound 1,
     rv_boundary = ws_boundary, rv_complete_manifest = ws_manifest, rv_operator_proof = ws_ref ''operator-proof-1'',
     rv_publication_fence = ws_fence\<rparr>"

lemma ws_within: "within_manifest_bounds ws_codec ws_manifest (ih_bound (ws_bound generation))"
  by (simp add: within_manifest_bounds_def ws_branch) (simp add: ws_bound_def)

lemma ws_limits:
  "ib_max_member_count (ih_bound (ws_bound generation)) = 5"
  "ib_max_manifest_bytes (ih_bound (ws_bound generation)) = length (eligibility_bytes ws_codec ws_manifest)"
  "ib_max_serialized_batch_bytes (ih_bound (ws_bound generation)) = 1000"
  by (simp_all add: ws_bound_def)

lemma ws_decided_batch:
  "\<exists>batch. compile l ws_codec (ordinary_parent ws_decide (ws_bound 1) ws_manifest ws_inputs) ws_members = Inr batch
    \<and> ic_serialized_batch_bytes batch \<le> 1000"
  using ws_branch by (intro ws_compiles) (simp add: ws_parent_ok_def ordinary_parent_def ws_decide_def)

lemma ws_decided: "\<exists>candidate. interval_candidate l ws_codec (ws_snapshot None) (DECIDE ws_decide) = Inr candidate"
proof -
  obtain candidate where candidate:
    "compile l ws_codec (ordinary_parent ws_decide (ws_bound 1) ws_manifest ws_inputs) ws_members = Inr candidate"
    "ic_serialized_batch_bytes candidate \<le> 1000"
    using ws_decided_batch by blast
  have "prepare_interval l ws_codec ws_decide (ws_bound 1) ws_members ws_inputs (ws_ref ''enumeration-1'') None = Inr candidate"
    using candidate ws_within [of 1]
    by (simp add: prepare_interval_def eligibility_overflows_Nil [symmetric] ws_limits)
      (simp add: ws_decide_def verify_manifest_own [OF ws_eligible] Let_def ws_limits)
  moreover have "interval_current (ws_snapshot None) (DECIDE ws_decide) = Inr (ws_revision, ws_bound 1)"
    by (simp add: interval_current_def Let_def ws_snapshot_def ws_decide_def ws_fence_def ws_identity_def
        ws_configuration_def ws_definition ws_inputs_def ws_cut_def hold_active_def ws_boundary_def)
  ultimately show ?thesis
    by (simp add: interval_candidate_def)
      (simp add: ws_snapshot_def ws_decide_def ws_streamed evidence_membership_def admit_interval_def ws_limits
        ws_branch ws_definition hold_active_def not_less)
qed

lemma ws_resolved: "\<exists>candidate. interval_candidate l ws_codec (ws_snapshot (Some ws_held)) (RESOLVE ws_resolve) = Inr candidate"
proof -
  have "ws_parent_ok (resolution_parent ws_resolve (ws_bound 1) ws_manifest ws_inputs)"
    using ws_branch by (simp add: ws_parent_ok_def resolution_parent_def ws_resolve_def)
  then obtain candidate where candidate:
    "compile l ws_codec (resolution_parent ws_resolve (ws_bound 1) ws_manifest ws_inputs) ws_members = Inr candidate"
    "ic_serialized_batch_bytes candidate \<le> 1000"
    using ws_compiles by blast
  have bounds: "ih_generation (ws_bound generation) = generation"
    "ih_head_id (ws_bound 1) \<noteq> ih_head_id (ws_bound 0)" for generation
    by (simp_all add: ws_bound_def)
  have "prepare_resolution l ws_codec ws_resolve (ws_bound 1) ws_members ws_inputs = Inr candidate"
    using candidate ws_within [of 1] bounds
    by (simp add: prepare_resolution_def eligibility_overflows_Nil [symmetric] ws_limits Let_def)
      (simp add: ws_resolve_def ws_held_def verify_manifest_own [OF ws_eligible] evidence_fingerprint_def
        ws_limits not_less)
  moreover have "interval_current (ws_snapshot (Some ws_held)) (RESOLVE ws_resolve) = Inr (ws_revision, ws_bound 1)"
    by (simp add: interval_current_def Let_def ws_snapshot_def ws_resolve_def ws_fence_def ws_identity_def
        ws_configuration_def ws_definition ws_inputs_def ws_cut_def hold_active_def ws_boundary_def ws_held_def)
  ultimately show ?thesis
    by (simp add: interval_candidate_def)
      (simp add: ws_snapshot_def ws_resolve_def ws_streamed evidence_membership_def admit_interval_def ws_limits
        ws_branch ws_definition not_less)
qed

end
