(* ===== verification/Scheduler_Properties.thy ===== *)
theory Scheduler_Properties
  imports Scheduler_Interval_Sample
begin

text \<open>
  The properties of the scheduler: leases of one execution root exclude each other and carry growing
  fencing tokens; exhaustion is left only by rollover; the streamed enumeration is the manifest of the
  due points; and an interval request disposes exactly those, or holds.
\<close>

section \<open>Leases\<close>

text \<open>C36: In every history of an execution root, of any two grants of a lease the earlier is either renewed
  by the later (same lease identity, holder, session, selector version and generation, with a strictly
  later expiry) or had expired by the time the later was granted, and then the later has the larger
  fencing token (selector version, generation). So no two different leases are ever live at the same
  time. Generations stay between 1 and 2^64 - 1.\<close>

theorem lease_exclusive:
  assumes "root_history d s" and "i < j" and "j < length (rs_grants s)"
  shows "let a = rs_grants s ! i; b = rs_grants s ! j; old = lg_lease a; new = lg_lease b
    in lg_time a \<le> lg_time b
      \<and> (if rl_lease_id old = rl_lease_id new
         then rl_holder_id old = rl_holder_id new \<and> rl_holder_session_id old = rl_holder_session_id new
           \<and> lg_version a = lg_version b \<and> rl_generation old = rl_generation new
           \<and> rl_trusted_expiry old < rl_trusted_expiry new
         else rl_trusted_expiry old \<le> lg_time b
           \<and> (lg_version a < lg_version b \<or> lg_version a = lg_version b \<and> rl_generation old < rl_generation new))
      \<and> 1 \<le> rl_generation old \<and> rl_generation old < 2 ^ 64 \<and> 1 \<le> rl_generation new \<and> rl_generation new < 2 ^ 64"
proof -
  define a where "a = rs_grants s ! i"
  define b where "b = rs_grants s ! j"
  have ok: "root_ok s"
    using assms(1) by (rule root_history_ok)
  then have "grant_precedes a b"
    using assms(2,3) sorted_wrt_nth_less [of grant_precedes "rs_grants s" i j]
    unfolding root_ok_def a_def b_def by blast
  moreover have "a \<in> set (rs_grants s)" "b \<in> set (rs_grants s)"
    using assms(2,3) by (simp_all add: a_def b_def)
  with ok have "grant_ok a" "grant_ok b"
    by (simp_all add: root_ok_def)
  ultimately show ?thesis
    unfolding Let_def a_def [symmetric] b_def [symmetric]
    by (auto simp: grant_precedes_def same_lease_def token_less_def grant_ok_def UINT64_MAX_def)
qed

lemma ws_taken:
  "takeover_lease ws_codec (HELD (ws_lease 1)) (ws_takeover 1 2) (ws_issued 1 2)
   = Inr (HELD (granted_lease ws_codec (ws_takeover 1 2) (ws_issued 1 2) 2))"
proof -
  have command: "lt_proposed_lease_id (ws_takeover 1 2) = ''lease-2''" "lt_proposed_generation (ws_takeover 1 2) = 2"
    by (simp_all add: ws_takeover_def ws_command_def)
  have issued: "is_now (ws_issued 1 2) = 20" "is_used_lease_ids (ws_issued 1 2) = [''lease-1'']"
    by (simp_all add: ws_issued_def)
  have lease: "rl_generation (ws_lease 1) = 1" "rl_trusted_expiry (ws_lease 1) = 20"
    by (simp_all add: ws_lease_def)
  show ?thesis
    by (simp add: takeover_lease_def command issued lease UINT64_MAX_def del: One_nat_def)
qed

theorem lease_exclusive_witness:
  "\<exists>s. root_history ws_codec s \<and> length (rs_grants s) = 2
    \<and> rl_lease_id (lg_lease (rs_grants s ! 0)) \<noteq> rl_lease_id (lg_lease (rs_grants s ! 1))
    \<and> rl_trusted_expiry (lg_lease (rs_grants s ! 0)) \<le> lg_time (rs_grants s ! 1)"
proof -
  obtain candidate where candidate: "lc_state candidate = HELD (granted_lease ws_codec (ws_takeover 1 2) (ws_issued 1 2) 2)"
    "root_step ws_codec (ws_start 1) (apply_lease (ws_start 1) (ws_issued 1 2) candidate)"
    using ws_step [OF _ ws_taken] by auto
  define s where "s = apply_lease (ws_start 1) (ws_issued 1 2) candidate"
  have history: "root_history ws_codec s"
    unfolding s_def
    using root_history.advanced [OF ws_start_history candidate(2)] by (simp add: UINT64_MAX_def)
  have grants: "length (rs_grants s) = 2" "rl_lease_id (lg_lease (rs_grants s ! 0)) = ''lease-1''"
    "rl_lease_id (lg_lease (rs_grants s ! 1)) = ''lease-2''"
    by (simp_all add: s_def apply_lease_def candidate(1) ws_start_def root_start_def recorded_grants_def
        ws_view_def ws_lease_def granted_lease_def ws_takeover_def ws_command_def)
  then show ?thesis
    using history lease_exclusive [OF history, of 0 1] by (intro exI [of _ s]) (auto simp: Let_def)
qed

text \<open>C37: A root whose generations are exhausted accepts no lease transition whatever. The only step that
  leaves it is a rollover, which opens a fresh epoch never used by this root before, under a selector
  version one higher and still below 2^64, with an unleased genesis and the same lineage; every lease
  granted before has expired.\<close>

theorem lease_exhaustion:
  assumes "root_history d s"
    and "lv_lease (rs_view s) = GENERATION_EXHAUSTED_HOLD head command_id expiry epoch preceding"
    and "root_step d s t"
  shows "lv_lease (rs_view t) = UNLEASED (last (rs_used_heads t))
    \<and> lv_lineage (rs_view t) = lv_lineage (rs_view s)
    \<and> ph_selector_version (lv_physical_root (rs_view t)) = ph_selector_version (lv_physical_root (rs_view s)) + 1
    \<and> ph_selector_version (lv_physical_root (rs_view t)) < 2 ^ 64
    \<and> ph_current_epoch_id (lv_physical_root (rs_view t)) \<notin> set (rs_used_epochs s)
    \<and> rs_grants t = rs_grants s \<and> (\<forall>g \<in> set (rs_grants t). rl_trusted_expiry (lg_lease g) \<le> rs_clock t)
    \<and> (\<forall>command issuance submission_id candidate.
         evaluate_lease d (rs_view s) command issuance submission_id \<noteq> Inr candidate)"
proof -
  have refused: "evaluate_lease d (rs_view s) command issuance submission_id \<noteq> Inr candidate"
    for command issuance submission_id candidate
    using assms(2) evaluate_lease_Inr [of d "rs_view s" command issuance submission_id candidate]
    by (auto simp: observed_lease_error_def)
  have "root_ok s" "root_ok t"
    using assms(1,3) by (auto intro: root_history_ok root_history.advanced)
  with assms(3) refused show ?thesis
    by (cases rule: root_step.cases)
      (auto dest!: prepare_rollover_Inr
        simp: apply_rollover_def rollover_candidate_view root_ok_def grants_settled_def UINT64_MAX_def)
qed

theorem lease_exhaustion_witness:
  "ph_selector_version (lv_physical_root (rs_view ws_rolled)) = 8
    \<and> ph_current_epoch_id (lv_physical_root (rs_view ws_rolled)) \<noteq> ''epoch-1''"
proof -
  have "lv_lease (rs_view ws_exhausted) =
      GENERATION_EXHAUSTED_HOLD ws_hold_head ''command-1'' 20 ''authority-1'' (ws_lease UINT64_MAX)"
    by (simp add: ws_exhausted_def ws_hold_def)
  from lease_exhaustion [OF ws_exhausted_history this ws_rolled_step] show ?thesis
    by (simp add: ws_exhausted_def ws_view_def ws_physical_def ws_start_def root_start_def)
qed

section \<open>Enumeration\<close>

text \<open>C38: The one-pass stream and the full enumeration agree. For every interval whose enumeration the
  definition admits, the stream succeeds, and its count, byte size, digest and evidence are those of the
  manifest of the enumerated members. These members are, in strictly increasing order, exactly the grid
  points of the definition in the half-open interval that are not disposed; and the eligibility manifest
  built from them, when it is built, is that manifest.\<close>

theorem stream_definition_exact:
  assumes codec: "eligibility_codec_ok d"
    and plan: "definition_enumeration d snapshot boundary disposed = Inr plan"
    and current: "current_configuration snapshot = Inr (sched, policy, bound)"
    and period: "0 < fd_period_ns (sv_definition sched)"
  shows "\<exists>members start cutoff. definition_members d plan = Inr members
    \<and> interval_of boundary start cutoff
    \<and> sorted_wrt (<) (map due_key members)
    \<and> set (map due_key members) = due_points (sv_definition sched) disposed start cutoff
    \<and> stream_definition d snapshot boundary disposed enumeration_proof = Inr
        \<lparr>st_member_count = length members,
         st_manifest_bytes = length (eligibility_bytes d (manifest_of d boundary members)),
         st_manifest_fingerprint = em_fingerprint (manifest_of d boundary members),
         st_evidence = overflow_evidence d (manifest_of d boundary members)
           (ib_max_manifest_bytes (ih_bound bound)) enumeration_proof\<rparr>
    \<and> (\<forall>m. eligible_manifest d boundary members = Inr m \<longrightarrow> m = manifest_of d boundary members)"
proof -
  have "de_definition plan = sv_definition sched"
    using plan current by (auto simp: definition_enumeration_def rbind_eq_Inr Let_def split: if_splits)
  with period have positive: "0 < fd_period_ns (de_definition plan)" by simp
  obtain start cutoff where planned: "planned boundary (sv_definition sched) disposed start cutoff plan"
    and interval: "interval_of boundary start cutoff"
    using definition_enumeration_planned [OF plan positive] current by auto
  define members where "members = map (plan_member d plan) (plan_indices plan)"
  have listed: "definition_members d plan = Inr members"
    unfolding members_def by (rule definition_members_Inr [OF planned])
  note dues = plan_dues [OF planned period, of d, folded due_points_def members_def]
  have fingerprint: "manifest_fingerprint d boundary members = em_fingerprint (manifest_of d boundary members)"
    by (simp add: manifest_of_def)
  from stream_exact [OF codec plan positive current, of enumeration_proof] listed
  have streamed: "stream_definition d snapshot boundary disposed enumeration_proof = Inr
        \<lparr>st_member_count = length members,
         st_manifest_bytes = length (eligibility_bytes d (manifest_of d boundary members)),
         st_manifest_fingerprint = em_fingerprint (manifest_of d boundary members),
         st_evidence = overflow_evidence d (manifest_of d boundary members)
           (ib_max_manifest_bytes (ih_bound bound)) enumeration_proof\<rparr>"
    unfolding fingerprint [symmetric] by (metis sum.inject(2))
  from listed interval dues streamed eligible_due_points [OF interval dues] show ?thesis by blast
qed

theorem stream_definition_exact_witness:
  "\<exists>members. definition_members ws_codec ws_plan = Inr members \<and> map due_key members = [10]
    \<and> (\<exists>measured. stream_definition ws_codec (ws_configuration 0 None) ws_boundary [ws_disposed] (ws_ref ''p'') = Inr measured
        \<and> st_member_count measured = 1)"
proof -
  have "0 < fd_period_ns (sv_definition ws_revision)"
    by (simp add: ws_definition)
  from stream_definition_exact [OF ws_codec_ok ws_planned [of 0 None] ws_current [of 0 None] this, of "ws_ref ''p''"]
  obtain members measured where "definition_members ws_codec ws_plan = Inr members"
    and measured: "stream_definition ws_codec (ws_configuration 0 None) ws_boundary [ws_disposed] (ws_ref ''p'') = Inr measured"
      "st_member_count measured = length members"
    by (elim exE conjE) (metis StreamedEligibility.select_convs(1))
  then have "members = ws_members"
    by (simp add: ws_definition_members)
  with measured have "\<exists>measured. stream_definition ws_codec (ws_configuration 0 None) ws_boundary [ws_disposed] (ws_ref ''p'') = Inr measured
      \<and> st_member_count measured = 1"
    by (auto simp: ws_members_def)
  moreover have "map due_key ws_members = [10]"
  proof -
    have "de_definition ws_plan = sv_definition ws_revision"
      by (simp add: ws_plan_def)
    then have "int (due_key (plan_member ws_codec ws_plan 1)) = 10"
      by (simp add: definition_member_Inr(3) index_due_def ws_definition)
    then show ?thesis
      by (simp add: ws_members_def)
  qed
  ultimately show ?thesis
    by (intro exI [of _ ws_members] conjI ws_definition_members)
qed

section \<open>Interval requests\<close>

text \<open>C39: What a prepared interval is. The members are the complete enumeration of the current definition:
  exactly the grid points between the previous boundary and the cutoff that have no disposition yet, in
  order. If their number exceeds the registered member count, or else the size of their manifest exceeds the
  registered manifest size, the whole interval is held, with no Run: the hold names that dimension, the value
  measured, its limit and the exact membership. Otherwise the complete batch is compiled: it disposes
  every due point exactly once, in order, moves the boundary to the cutoff, creates one initial Run per
  execution subject of the policy (none, one, or one per due point), each valid for the agent loop, and repeats
  no record identity. That batch is the result when its serialized size is within the registered limit, and
  when it is not the interval is held with that size.\<close>

theorem interval_decides_due:
  assumes codec: "eligibility_codec_ok d"
    and candidate: "interval_candidate l d snapshot (DECIDE command) = Inr candidate"
    and current: "cs_schedule (in_configuration snapshot) = Some sched" "cs_bound (in_configuration snapshot) = Some bound"
    and period: "0 < fd_period_ns (sv_definition sched)"
  shows "\<exists>plan members start cutoff.
    definition_enumeration d (in_configuration snapshot) (di_boundary command) (in_disposed snapshot) = Inr plan
    \<and> definition_members d plan = Inr members \<and> interval_of (di_boundary command) start cutoff
    \<and> sorted_wrt (<) (map due_key members)
    \<and> set (map due_key members) = due_points (sv_definition sched) (in_disposed snapshot) start cutoff
    \<and> (let due = due_points (sv_definition sched) (in_disposed snapshot) start cutoff;
          manifest = manifest_of d (di_boundary command) members;
          manifest_bytes = length (eligibility_bytes d manifest);
          limits = ih_bound bound;
          held = overflow_held limits (di_boundary command) manifest
       in if ib_max_member_count limits < card due then held MEMBER_COUNT (card due) candidate
          else if ib_max_manifest_bytes limits < manifest_bytes then held MANIFEST_BYTES manifest_bytes candidate
          else \<exists>batch decision. compile l d (ordinary_parent command bound manifest
                (fd_run_inputs (sv_definition sched))) members = Inr batch
            \<and> ic_result batch = INTERVAL_DECISION decision
            \<and> iv_resulting_boundary decision = eb_cutoff_due_coordinate (di_boundary command)
            \<and> interval_disposed l (di_boundary command) due batch (iv_dispositions decision) (iv_materializations decision)
            \<and> ic_serialized_batch_bytes batch = length (serialized d (ic_records batch))
            \<and> (if ic_serialized_batch_bytes batch \<le> ib_max_serialized_batch_bytes limits then candidate = batch
               else held SERIALIZED_BATCH_BYTES (ic_serialized_batch_bytes batch) candidate))"
proof -
  obtain plan members start cutoff where
    plan: "definition_enumeration d (in_configuration snapshot) (di_boundary command) (in_disposed snapshot) = Inr plan"
      "definition_members d plan = Inr members" and interval: "interval_of (di_boundary command) start cutoff"
    and dues: "sorted_wrt (<) (map due_key members)"
      "set (map due_key members) = due_points (sv_definition sched) (in_disposed snapshot) start cutoff"
    and admitted: "admit_interval l d snapshot (DECIDE command) sched bound
        (measured_of d (di_boundary command) members (ih_bound bound) (in_enumeration_proof snapshot)) = Inr candidate"
    using interval_candidate_measured [OF codec candidate current period, unfolded interval_boundary.simps] by blast
  note prepared = admit_decide [OF admitted eligible_due_points [OF interval dues] dues refl]
  show ?thesis
    unfolding Let_def
    by (intro exI [of _ plan] exI [of _ members] exI [of _ start] exI [of _ cutoff] conjI plan interval dues prepared)
qed

theorem interval_decides_due_witness:
  "\<forall>l. \<exists>candidate decision. interval_candidate l ws_codec (ws_snapshot None) (DECIDE ws_decide) = Inr candidate
    \<and> ic_result candidate = INTERVAL_DECISION decision \<and> iv_resulting_boundary decision = ws_coordinate 15
    \<and> set (map (\<lambda>x. due_key (disposed_occurrence x)) (iv_dispositions decision)) = {10}
    \<and> length (ic_occurrences candidate) = 1"
proof
  fix l
  obtain candidate where candidate: "interval_candidate l ws_codec (ws_snapshot None) (DECIDE ws_decide) = Inr candidate"
    using ws_decided by blast
  have current: "cs_schedule (in_configuration (ws_snapshot None)) = Some ws_revision"
    "cs_bound (in_configuration (ws_snapshot None)) = Some (ws_bound 1)"
    "0 < fd_period_ns (sv_definition ws_revision)"
    by (simp_all add: ws_snapshot_def ws_configuration_def ws_definition)
  have fields: "di_boundary ws_decide = ws_boundary" "in_disposed (ws_snapshot None) = [ws_disposed]"
    "in_configuration (ws_snapshot None) = ws_configuration 1 None"
    by (simp_all add: ws_decide_def ws_snapshot_def)
  obtain batch where batch: "compile l ws_codec (ordinary_parent ws_decide (ws_bound 1) ws_manifest ws_inputs) ws_members = Inr batch"
    "ic_serialized_batch_bytes batch \<le> 1000"
    using ws_decided_batch by blast
  have kind: "mh_kind (policy_head ws_codec ws_policy) = MATERIALIZE_EACH"
    by (simp add: policy_head_def ws_policy_def Let_def)
  from interval_decides_due [OF ws_codec_ok candidate current, unfolded fields ws_planned]
  obtain members due where members: "definition_members ws_codec ws_plan = Inr members" "set (map due_key members) = due"
    and prepared: "let manifest = manifest_of ws_codec ws_boundary members;
          manifest_bytes = length (eligibility_bytes ws_codec manifest); limits = ih_bound (ws_bound 1);
          held = overflow_held limits ws_boundary manifest
       in if ib_max_member_count limits < card due then held MEMBER_COUNT (card due) candidate
          else if ib_max_manifest_bytes limits < manifest_bytes then held MANIFEST_BYTES manifest_bytes candidate
          else \<exists>batch decision. compile l ws_codec (ordinary_parent ws_decide (ws_bound 1) manifest
                (fd_run_inputs (sv_definition ws_revision))) members = Inr batch
            \<and> ic_result batch = INTERVAL_DECISION decision
            \<and> iv_resulting_boundary decision = eb_cutoff_due_coordinate ws_boundary
            \<and> interval_disposed l ws_boundary due batch (iv_dispositions decision) (iv_materializations decision)
            \<and> ic_serialized_batch_bytes batch = length (serialized ws_codec (ic_records batch))
            \<and> (if ic_serialized_batch_bytes batch \<le> ib_max_serialized_batch_bytes limits then candidate = batch
               else held SERIALIZED_BATCH_BYTES (ic_serialized_batch_bytes batch) candidate)"
    by (auto simp: Let_def)
  have "members = ws_members"
    using members(1) ws_definition_members by simp
  moreover from this have "due = {10}"
    using members(2) ws_dues by simp
  ultimately have "ic_result candidate = ic_result batch \<and> (\<exists>decision. ic_result batch = INTERVAL_DECISION decision
      \<and> iv_resulting_boundary decision = ws_coordinate 15
      \<and> interval_disposed l ws_boundary {10} batch (iv_dispositions decision) (iv_materializations decision)) \<and> candidate = batch"
    using prepared batch unfolding Let_def ws_limits ws_definition
    by (simp add: ws_manifest_def [symmetric] ws_boundary_heads) auto
  then show "\<exists>candidate decision. interval_candidate l ws_codec (ws_snapshot None) (DECIDE ws_decide) = Inr candidate
    \<and> ic_result candidate = INTERVAL_DECISION decision \<and> iv_resulting_boundary decision = ws_coordinate 15
    \<and> set (map (\<lambda>x. due_key (disposed_occurrence x)) (iv_dispositions decision)) = {10}
    \<and> length (ic_occurrences candidate) = 1"
    using candidate kind by (auto simp: interval_disposed_def ws_boundary_heads)
qed

text \<open>C40: A hold is resolved only while it is the active hold of the schedule, for the unchanged boundary, under a bound of a later
  generation and for exactly the membership it was held with; the resolution then disposes every due
  point exactly once, like an ordinary decision, within the new bounds.\<close>

theorem interval_resolves_due:
  assumes codec: "eligibility_codec_ok d"
    and candidate: "interval_candidate l d snapshot (RESOLVE command) = Inr candidate"
    and current: "cs_schedule (in_configuration snapshot) = Some sched" "cs_bound (in_configuration snapshot) = Some bound"
    and period: "0 < fd_period_ns (sv_definition sched)"
  shows "\<exists>start cutoff decision members. interval_of (rv_boundary command) start cutoff
    \<and> ic_result candidate = INTERVAL_RESOLUTION decision
    \<and> ir_resulting_boundary decision = eb_cutoff_due_coordinate (rv_boundary command)
    \<and> ir_original_hold decision = oh_hold (rv_active_hold command)
    \<and> interval_covered l (rv_boundary command) (ih_bound bound)
        (due_points (sv_definition sched) (in_disposed snapshot) start cutoff) candidate
        (ir_dispositions decision) (ir_materializations decision)
    \<and> in_active_hold snapshot = Some (rv_active_hold command)
    \<and> oh_state (rv_active_hold command) = OVERFLOW_ACTIVE
    \<and> oh_boundary (rv_active_hold command) = rv_boundary command
    \<and> ih_generation (oh_bound_head (rv_active_hold command)) < ih_generation bound
    \<and> map disposed_occurrence (ir_dispositions decision) = members
    \<and> evidence_fingerprint (oh_evidence (rv_active_hold command))
        = manifest_fingerprint d (rv_boundary command) members"
proof -
  obtain members start cutoff where interval: "interval_of (rv_boundary command) start cutoff"
    and dues: "sorted_wrt (<) (map due_key members)"
      "set (map due_key members) = due_points (sv_definition sched) (in_disposed snapshot) start cutoff"
    and admitted: "admit_interval l d snapshot (RESOLVE command) sched bound
        (measured_of d (rv_boundary command) members (ih_bound bound) (in_enumeration_proof snapshot)) = Inr candidate"
    using interval_candidate_measured [OF codec candidate current period, unfolded interval_boundary.simps] by blast
  note exact = eligible_due_points [OF interval dues]
  from admit_resolve [OF admitted exact dues] interval resolved_hold_active [OF candidate] show ?thesis by blast
qed

theorem interval_resolves_due_witness:
  "\<forall>l. \<exists>candidate decision. interval_candidate l ws_codec (ws_snapshot (Some ws_held)) (RESOLVE ws_resolve) = Inr candidate
    \<and> ic_result candidate = INTERVAL_RESOLUTION decision \<and> ir_original_hold decision = ws_ref ''hold-1''"
proof
  fix l
  obtain candidate where candidate:
    "interval_candidate l ws_codec (ws_snapshot (Some ws_held)) (RESOLVE ws_resolve) = Inr candidate"
    using ws_resolved by blast
  have "cs_schedule (in_configuration (ws_snapshot (Some ws_held))) = Some ws_revision"
    "cs_bound (in_configuration (ws_snapshot (Some ws_held))) = Some (ws_bound 1)"
    "0 < fd_period_ns (sv_definition ws_revision)"
    by (simp_all add: ws_snapshot_def ws_configuration_def ws_definition)
  from interval_resolves_due [OF ws_codec_ok candidate this] candidate
  show "\<exists>candidate decision. interval_candidate l ws_codec (ws_snapshot (Some ws_held)) (RESOLVE ws_resolve) = Inr candidate
    \<and> ic_result candidate = INTERVAL_RESOLUTION decision \<and> ir_original_hold decision = ws_ref ''hold-1''"
    by (auto simp: ws_resolve_def ws_held_def)
qed

end
