(* ===== verification/Spec2Isabelle.thy ===== *)
theory Spec2Isabelle
  imports Effects_Properties Store_Properties Journal_Properties Planning_Properties Loop_Properties Loop_World_Properties
    Scheduler_Properties
begin

text \<open>
  A verification development of chiplog, a planning assistant whose durable state is a set of
  content-addressed records published through one bounded writer. Paths below are relative to
  \<open>src/src/chiplog/\<close>.

  \<^bold>\<open>The program.\<close> Capabilities own the records of one concern and decide, as pure functions of a
  snapshot, what may be published next; platform code publishes the result under a compare-and-swap on
  the tenant's head and replays a repeated command. Six parts are modelled:

  \<^item> The external-effect owner decides the life of an effect intent: authorisation, the single send,
    evidence, reconciliation, retransmission and replacement.
  \<^item> The physical store is the transaction boundary (heads, records, publications, deletion fences,
    derivatives, evidence inbox) behind a two-lane single writer.
  \<^item> The evidence journal publishes claims and dispositions about planned occurrences through the store
    and answers projections and disclosures.
  \<^item> The planning owner constructs and commits the records of an accepted planning command.
  \<^item> The agent loop decides how a Run, its Turns and its model attempts advance and what a completion
    discloses.
  \<^item> The scheduler enumerates the due points of a schedule, decides an interval as one batch of Runs,
    and leases each execution root to one worker at a time.

  The journal and the agent loop run on the store; the scheduler creates Runs that the agent loop's \<open>validate_record\<close>
  accepts; all parts share canonical JSON bytes and SHA-256 digests.

  \<^bold>\<open>Shared theories.\<close> \<open>Prelude\<close> has the result type (an exception is the left summand), the error-aware fold
  and list lemmas. \<open>Sha256\<close> computes \<open>hashlib.sha256\<close> on 32-bit words with the padding and wrap-around
  written out; \<open>Sha256_Eval\<close> evaluates digests inside the kernel and checks a test vector of the standard.
  \<open>Store_Client\<close> has what a client of the store may rely on, whatever other owners do; the journal and the
  agent loop share it. \<open>Py_Json\<close> is \<open>json.dumps\<close> with sorted keys; its locale \<open>quoting\<close>, interpreted on the string
  quoting of the encoder, gives injectivity of the encoding. \<open>Primitives\<close> is \<open>domain_primitives/\<close>
  (\<open>identity.py\<close>, \<open>versions.py\<close>, \<open>canonical.py\<close>, \<open>codec.py\<close>).

  \<^bold>\<open>External effects\<close> (\<open>capabilities/effects/\<close>). \<open>Effects_Contracts\<close>: \<open>contracts.py\<close> and \<open>fences.py\<close>.
  \<open>Effects_Domain\<close>: \<open>domain.py\<close>, with the registry as the step relation \<open>dispatch_step\<close> and the evidence
  reducer. \<open>Effects_Application\<close>: \<open>prepare_transition\<close> of \<open>application.py\<close> and its helpers.
  \<open>Effects_History\<close>: \<open>effect_step\<close> specifies one transition, every prepared successor refines it, and
  \<open>effect_history\<close> publishes prepared records one after another. \<open>Effects_Properties\<close>: at most one intent of
  a recipient and effect is in flight, attempts and evidence only grow, terminal states stay, records chain,
  a send needs current authority, the reduction is exact, admissible evidence is always recorded, and a
  report that names members outside the bundle leaves the attempt SENT for good.

  \<^bold>\<open>Physical store\<close> (\<open>platform/_sqlite.py\<close>). \<open>Platform_Store\<close>: the statements of \<open>SQLiteMaterializer\<close> over a
  record of tables. \<open>Store_History\<close>: dispatch of accepted commands and its reachable databases.
  \<open>Event_Appender\<close>: submissions, worker rounds and close as steps. \<open>Store_Properties\<close>: publications are all
  or nothing, a later retry never commits again and is answered exactly, ledgers have no gaps, inbox rows move only forward, every interleaving
  equals a serial run of the finished commands, admission is bounded, and after close the worker drains.

  \<^bold>\<open>Evidence journal\<close> (\<open>capabilities/evidence_journal/\<close>, \<open>adapters/driven/journal_sqlite.py\<close>). \<open>Journal\<close>: the
  owner with its contracts. \<open>Journal_History\<close>: the persistence port as the locale \<open>journal_store\<close> and the
  client's lemmas inside it. \<open>Journal_Sqlite\<close>: the adapter over the store and the interpretation of that
  locale. \<open>Journal_Views\<close>: labels, the closure of a family as reachability, projections. \<open>Journal_Properties\<close>:
  lineages stay linear, a commit is what the next snapshot reads, retries are exact, disclosure needs every
  source's consent, projections are bounded pages.

  \<^bold>\<open>Planning\<close> (\<open>capabilities/planning/_planning.py\<close>). \<open>Planning\<close>: record construction, admission, the commit
  body and the in-memory repository. \<open>Planning_History\<close>: the repository contract as the locale
  \<open>planning_repository\<close>, interpreted on the in-memory repository. \<open>Planning_Properties\<close>: consistency of a
  tenant's state, exact commits, exact replays, fingerprints that bind the record.

  \<^bold>\<open>Agent loop\<close> (\<open>capabilities/agent_loop/\<close>). \<open>Loop_Contracts\<close>, \<open>Loop_Delivery\<close>: \<open>contracts.py\<close>,
  \<open>delivery_contracts.py\<close>, \<open>delivery_preparation.py\<close>, \<open>response_parsing.py\<close>. \<open>Loop\<close>, \<open>Loop_Validate\<close>:
  \<open>domain.py\<close>. \<open>Loop_History\<close>: the abstract machines \<open>run_step\<close> and \<open>turn_step\<close> that the owner operations
  refine. \<open>Loop_Labels\<close>: the label lattice. \<open>Loop_Invariant\<close>, \<open>Loop_Lineage\<close>: the invariant of a Run and of
  validated lineages, and the equivalence of validation with the operations (\<open>owner_step\<close>) but for the
  replacements it refuses (\<open>admitted_step\<close>). \<open>Loop_Completion\<close>: what a
  completion publishes. \<open>Loop_Sample\<close>, \<open>Loop_Properties\<close>: budgets, single exposure of a request, immutable
  ancestry, exact validation, disclosure only to admitted endpoints.

  The loop at run time. \<open>Loop_Store\<close>, \<open>Loop_Store_History\<close>: \<open>adapters/driven/loop_sqlite.py\<close> and the invariant
  of its tables. \<open>Loop_Application\<close>: \<open>application.py\<close>, each operation a coroutine tree whose nodes are the calls
  to the ports. \<open>Loop_Client\<close>: weakest preconditions of such trees, and that every public operation publishes
  only owner decisions and calls the model only after the emission was accepted. \<open>Loop_World\<close>: \<open>world_step\<close>
  interleaves the coroutines of any number of instances with other owners of the store and with changes of the
  worker session; the locale \<open>loop_store\<close> is the store port, and its lemmas carry the client's guarantees to
  every history. \<open>Loop_Port\<close> interprets it on the SQLite adapter. \<open>Loop_World_Sample\<close>, \<open>Loop_World_Properties\<close>:
  every record in the log is an owner decision of a live worker, no request leaves before its emission is
  durable, exactly when what is published can be read, a publication is exact, and that an unreadable log
  stays unreadable.

  \<^bold>\<open>Scheduler\<close> (\<open>capabilities/agent_loop/\<close>). \<open>Scheduler_Contracts\<close>: \<open>recovery_contracts.py\<close>,
  \<open>scheduler_contracts.py\<close> and the models of the modules below. \<open>Scheduler_Domain\<close>, \<open>Scheduler_Manifest\<close>:
  \<open>scheduler_domain.py\<close> and its facts. \<open>Scheduler_Configuration\<close>, \<open>Scheduler_Enumeration\<close>, \<open>Scheduler_Stream\<close>:
  \<open>scheduler_configuration.py\<close>, the due points as grid points of the definition, and the one-pass stream as
  the manifest of them. \<open>Scheduler_Leases\<close>, \<open>Scheduler_Lease_History\<close>: \<open>scheduler_leases.py\<close> and
  \<open>scheduler_rollover.py\<close>, the abstract \<open>lease_move\<close> they refine and the histories of one root.
  \<open>Scheduler_Materialization\<close>, \<open>Scheduler_Interval\<close>, \<open>Scheduler_Batch\<close>: \<open>scheduler_materialization.py\<close> and the
  exactness of a compiled batch. \<open>Scheduler_Preparation\<close>, \<open>Scheduler_Complete\<close>: the requests of
  \<open>scheduler_preparation.py\<close> from end to end. \<open>Scheduler_Sample\<close>, \<open>Scheduler_Interval_Sample\<close>,
  \<open>Scheduler_Properties\<close>: leases exclude each other, exhaustion is left only by rollover, and an interval
  disposes exactly its due points or is held with the measured value that exceeds its bound.

  \<^bold>\<open>Parameters and hypotheses.\<close> Serialisation and validation by pydantic, the response schema validator, the
  trust port of planning, identity ports and publication guards are not code of the repository's own files
  here; they are arguments (records of functions such as \<open>EffectDumps\<close>, \<open>JournalCodec\<close>, \<open>LoopCodec\<close>,
  \<open>SchedulerCodec\<close>, \<open>PreparationCodec\<close>). What a theorem relies on of them is a named predicate:
  \<open>codec_ok\<close> (a journal record is read back as written), \<open>round_trips\<close> (the same for a Run record),
  \<open>companions_foreign\<close> and \<open>companions_stable\<close> (the transition authority names companions of other owners,
  and names the same ones once they are stored; that their identities have no line break is not assumed, a
  snapshot exists exactly when they have none), \<open>loop_codec_ok\<close> (the union of response types parses a
  value as the member type does, and a parsed value survives serialisation), \<open>eligibility_codec_ok\<close> (a manifest is dumped as the object of its two fields and a
  member as the object of its six). The sample codecs satisfy them. No theorem assumes that SHA-256 has no
  collisions: where two identities could collide the code checks, and the statement says what it then does.

  \<^bold>\<open>Bounds and termination.\<close> No fuel is used. Loops over tuples are folds; \<open>closure_loop\<close> ends because the
  selected set grows inside the finite set of record identities; the search of the schema graph (\<open>visit\<close>)
  ends because its active names are distinct names of the graph; the writer drains because each round
  finishes one pending command. Generations and selector versions are natural numbers compared with
  \<open>2 ^ 64 - 1\<close> as in the code, and stay below \<open>2 ^ 64\<close>; Python integers elsewhere are unbounded.

  \<^bold>\<open>Not modelled.\<close> Opening, schema admission and the file gate of the SQLite database; \<open>Effects.prepare\<close> and
  \<open>submit\<close>; the lane lock of \<open>AgentLoop\<close>, which only removes interleavings from those covered, and the prompt
  and hermetic leaves behind its ports; mandate issuance
  (\<open>prepare_mandate_issuance\<close>) and the record contracts of scheduled execution, recovery, fan-out, call
  acceptance and successor records, which are data models with field validators; the owner processes that
  wrap an owner in JSON over stdio; deployment trust, which rests on Ed25519 and process isolation; the
  PostgreSQL backend, which is SQL; calendar, ingress and workspace adapters; composition, process
  supervision and the command line.
\<close>

end
